(* ===== verification/Prelude.thy ===== *)
theory Prelude
  imports Main "HOL-Library.Char_ord"
begin

text \<open>
  What every component shares: the exceptions the Python code raises and handles, the
  state-and-exception programs that its coroutines become, the tables that SQLAlchemy
  sessions read and write, and the string operations of the standard library that the
  code uses. Nothing here models one file of the repository; the lemma collections
  \<open>prog_simps\<close>, \<open>keeps_intros\<close> and \<open>table_simps\<close> carry the proofs of the components.
\<close>

named_theorems prog_simps "unfolding of the program combinators"
named_theorems keeps_intros "invariance rules, one per program combinator"
named_theorems appends_intros "what a program appends to a log, one rule per combinator"
named_theorems guards_intros "guarded logs, one rule per combinator"
named_theorems table_simps "lookups after table updates"

section \<open>Exceptions\<close>

text \<open>
  An \<open>HTTPException\<close> is its status code (no modelled caller looks at the detail text); a
  \<open>RuntimeError\<close> keeps its message, which the operator tools print. The four Keycloak
  exceptions are the class hierarchy of backend/keycloak/client.py.
\<close>

datatype exc =
    HTTPException nat
  | KeycloakErr
  | KeycloakUnavailable
  | KeycloakNotFound
  | KeycloakConflict
  | InvalidPath
  | VaultFailure
  | IntegrityError
  | GitlabGetError
  | GitlabCreateError
  | GitlabFailure
  | YAMLError
  | ValueError
  | KeyError
  | IndexError
  | TypeError
  | AttributeError
  | TimeoutError
  | APIError nat
  | HTTPStatusError nat
  | TransportError
  | AssertionError
  | RuntimeError string

fun is_HTTPException :: "exc \<Rightarrow> bool" where
  "is_HTTPException (HTTPException _) = True"
| "is_HTTPException _ = False"

fun is_KeycloakError :: "exc \<Rightarrow> bool" where
  "is_KeycloakError KeycloakErr = True"
| "is_KeycloakError KeycloakUnavailable = True"
| "is_KeycloakError KeycloakNotFound = True"
| "is_KeycloakError KeycloakConflict = True"
| "is_KeycloakError _ = False"

section \<open>Programs: a state, and a result or an exception\<close>

text \<open>
  A coroutine or method that may raise and that changes a state \<open>'s\<close>. An exception does
  not undo the changes made before it, as in the code: only an explicit rollback does.
\<close>

type_synonym ('s, 'a) prog = "'s \<Rightarrow> (exc + 'a) \<times> 's"

definition ret :: "'a \<Rightarrow> ('s, 'a) prog" where
  "ret x = (\<lambda>s. (Inr x, s))"

definition raise_exc :: "exc \<Rightarrow> ('s, 'a) prog" where
  "raise_exc e = (\<lambda>s. (Inl e, s))"

definition bnd :: "('s, 'a) prog \<Rightarrow> ('a \<Rightarrow> ('s, 'b) prog) \<Rightarrow> ('s, 'b) prog" where
  "bnd m k = (\<lambda>s. case m s of (Inl e, s1) \<Rightarrow> (Inl e, s1) | (Inr x, s1) \<Rightarrow> k x s1)"

definition try_except :: "('s, 'a) prog \<Rightarrow> (exc \<Rightarrow> ('s, 'a) prog) \<Rightarrow> ('s, 'a) prog" where
  "try_except m h = (\<lambda>s. case m s of (Inl e, s1) \<Rightarrow> h e s1 | (Inr x, s1) \<Rightarrow> (Inr x, s1))"

definition gets :: "('s \<Rightarrow> 'a) \<Rightarrow> ('s, 'a) prog" where
  "gets f = (\<lambda>s. (Inr (f s), s))"

definition modify :: "('s \<Rightarrow> 's) \<Rightarrow> ('s, unit) prog" where
  "modify f = (\<lambda>s. (Inr (), f s))"

definition lift_result :: "exc + 'a \<Rightarrow> ('s, 'a) prog" where
  "lift_result r = (\<lambda>s. (r, s))"

primrec for_each :: "'a list \<Rightarrow> ('a \<Rightarrow> ('s, unit) prog) \<Rightarrow> ('s, unit) prog" where
  "for_each [] f = ret ()"
| "for_each (x # xs) f = bnd (f x) (\<lambda>_. for_each xs f)"

primrec map_prog :: "('a \<Rightarrow> ('s, 'b) prog) \<Rightarrow> 'a list \<Rightarrow> ('s, 'b list) prog" where
  "map_prog f [] = ret []"
| "map_prog f (x # xs) = bnd (f x) (\<lambda>y. bnd (map_prog f xs) (\<lambda>ys. ret (y # ys)))"

text \<open>\<open>except C: ...\<close> for one exception class without subclasses.\<close>

definition catch :: "exc \<Rightarrow> ('s, 'a) prog \<Rightarrow> ('s, 'a) prog \<Rightarrow> ('s, 'a) prog" where
  "catch e m h = try_except m (\<lambda>x. if x = e then h else raise_exc x)"

text \<open>The same sequencing for code that changes no state.\<close>

definition bnd_result :: "exc + 'a \<Rightarrow> ('a \<Rightarrow> exc + 'b) \<Rightarrow> exc + 'b" where
  "bnd_result r k = (case r of Inl e \<Rightarrow> Inl e | Inr x \<Rightarrow> k x)"

lemmas prog_defs = ret_def raise_exc_def bnd_def try_except_def gets_def modify_def lift_result_def

lemma ret_apply [prog_simps]: "ret x s = (Inr x, s)"
  by (simp add: ret_def)

lemma raise_apply [prog_simps]: "raise_exc e s = (Inl e, s)"
  by (simp add: raise_exc_def)

lemma gets_apply [prog_simps]: "gets f s = (Inr (f s), s)"
  by (simp add: gets_def)

lemma modify_apply [prog_simps]: "modify f s = (Inr (), f s)"
  by (simp add: modify_def)

lemma lift_apply [prog_simps]: "lift_result r s = (r, s)"
  by (simp add: lift_result_def)

lemma bnd_apply [prog_simps]:
  "bnd m k s = (case m s of (Inl e, s1) \<Rightarrow> (Inl e, s1) | (Inr x, s1) \<Rightarrow> k x s1)"
  by (simp add: bnd_def)

lemma try_apply [prog_simps]:
  "try_except m h s = (case m s of (Inl e, s1) \<Rightarrow> h e s1 | (Inr x, s1) \<Rightarrow> (Inr x, s1))"
  by (simp add: try_except_def)

text \<open>Running the first statement of a program on a known state.\<close>

lemma bnd_step: "m s = (Inr x, s1) \<Longrightarrow> bnd m k s = k x s1"
  by (simp add: prog_simps)

lemma bnd_stop: "m s = (Inl e, s1) \<Longrightarrow> bnd m k s = (Inl e, s1)"
  by (simp add: prog_simps)

lemma bnd_ok: "bnd m k w = (Inr x, w') \<longleftrightarrow> (\<exists>y w1. m w = (Inr y, w1) \<and> k y w1 = (Inr x, w'))"
  by (auto simp: bnd_def split: prod.splits sum.splits)

lemma bnd_ret [simp]: "bnd (ret x) k = k x"
  by (simp add: fun_eq_iff prog_simps)

lemma bnd_raise [simp]: "bnd (raise_exc e) k = raise_exc e"
  by (simp add: fun_eq_iff prog_simps)

lemma lift_Inr: "lift_result (Inr x) = ret x"
  by (simp add: fun_eq_iff prog_simps)

lemma bnd_assoc: "bnd (bnd m k) l = bnd m (\<lambda>x. bnd (k x) l)"
  by (simp add: fun_eq_iff prog_simps split: prod.split sum.split)

subsection \<open>Invariants of programs\<close>

definition keeps :: "('s \<Rightarrow> bool) \<Rightarrow> ('s, 'a) prog \<Rightarrow> bool" where
  "keeps P m \<longleftrightarrow> (\<forall>s. P s \<longrightarrow> P (snd (m s)))"

lemma keepsI: "(\<And>s. P s \<Longrightarrow> P (snd (m s))) \<Longrightarrow> keeps P m"
  by (simp add: keeps_def)

lemma keepsD: "keeps P m \<Longrightarrow> P s \<Longrightarrow> P (snd (m s))"
  by (simp add: keeps_def)

lemma keepsD': "keeps P m \<Longrightarrow> m s = (r, s') \<Longrightarrow> P s \<Longrightarrow> P s'"
  by (metis keepsD snd_conv)

lemma keeps_ret [keeps_intros]: "keeps P (ret x)"
  by (simp add: keeps_def prog_simps)

lemma keeps_raise [keeps_intros]: "keeps P (raise_exc e)"
  by (simp add: keeps_def prog_simps)

lemma keeps_gets [keeps_intros]: "keeps P (gets f)"
  by (simp add: keeps_def prog_simps)

lemma keeps_lift [keeps_intros]: "keeps P (lift_result r)"
  by (simp add: keeps_def prog_simps)

lemma keeps_modify: "(\<And>s. P s \<Longrightarrow> P (f s)) \<Longrightarrow> keeps P (modify f)"
  by (simp add: keeps_def prog_simps)

lemma keeps_bnd [keeps_intros]:
  assumes "keeps P m" and "\<And>x. keeps P (k x)"
  shows "keeps P (bnd m k)"
proof (rule keepsI)
  fix s assume "P s"
  with assms(1) have "P (snd (m s))" by (rule keepsD)
  with assms(2) show "P (snd (bnd m k s))"
    by (cases "m s") (auto simp: prog_simps keeps_def split: sum.splits)
qed

lemma keeps_bnd_value:
  assumes "keeps P m" and "\<And>x s s'. m s = (Inr x, s') \<Longrightarrow> keeps P (k x)"
  shows "keeps P (bnd m k)"
proof (rule keepsI)
  fix s assume "P s"
  with assms(1) have "P (snd (m s))" by (rule keepsD)
  with assms(2)[of s] show "P (snd (bnd m k s))"
    by (cases "m s") (auto simp: prog_simps keeps_def split: sum.splits)
qed

lemma map_prog_all:
  assumes "map_prog f xs s = (Inr ys, s')" and "\<And>x s y s'. x \<in> set xs \<Longrightarrow> f x s = (Inr y, s') \<Longrightarrow> P y"
  shows "\<forall>y \<in> set ys. P y"
  using assms
proof (induction xs arbitrary: s ys)
  case (Cons x xs)
  from Cons.prems(1) obtain y s1 zs where "f x s = (Inr y, s1)" "map_prog f xs s1 = (Inr zs, s')" "ys = y # zs"
    by (auto simp: prog_simps split: prod.splits sum.splits)
  moreover have "\<forall>y \<in> set zs. P y" by (rule Cons.IH[OF \<open>map_prog f xs s1 = _\<close>], rule Cons.prems(2)) auto
  moreover have "P y" by (rule Cons.prems(2)[OF _ \<open>f x s = _\<close>]) simp
  ultimately show ?case by simp
qed (simp add: prog_simps)

lemma keeps_try [keeps_intros]:
  assumes "keeps P m" and "\<And>e. keeps P (h e)"
  shows "keeps P (try_except m h)"
proof (rule keepsI)
  fix s assume "P s"
  with assms(1) have "P (snd (m s))" by (rule keepsD)
  with assms(2) show "P (snd (try_except m h s))"
    by (cases "m s") (auto simp: prog_simps keeps_def split: sum.splits)
qed

lemma keeps_catch [keeps_intros]: "keeps P m \<Longrightarrow> keeps P h \<Longrightarrow> keeps P (catch e m h)"
  unfolding catch_def by (rule keeps_try) (simp_all add: keeps_raise)

lemma keeps_for_each [keeps_intros]: "(\<And>x. keeps P (f x)) \<Longrightarrow> keeps P (for_each xs f)"
  by (induction xs) (auto intro: keeps_intros)

lemma keeps_map_prog [keeps_intros]: "(\<And>x. keeps P (f x)) \<Longrightarrow> keeps P (map_prog f xs)"
  by (induction xs) (auto intro!: keeps_intros)

lemma keeps_if [keeps_intros]: "keeps P a \<Longrightarrow> keeps P b \<Longrightarrow> keeps P (if c then a else b)"
  by simp

lemma keeps_option [keeps_intros]:
  "keeps P a \<Longrightarrow> (\<And>x. keeps P (f x)) \<Longrightarrow> keeps P (case z of None \<Rightarrow> a | Some x \<Rightarrow> f x)"
  by (cases z) auto

lemma keeps_list [keeps_intros]:
  "keeps P a \<Longrightarrow> (\<And>x xs. keeps P (f x xs)) \<Longrightarrow> keeps P (case z of [] \<Rightarrow> a | x # xs \<Rightarrow> f x xs)"
  by (cases z) auto

text \<open>
  A best-effort wrapper (\<open>try: ... except Exception: log\<close>) never raises.
\<close>

definition best_effort :: "('s, unit) prog \<Rightarrow> ('s, unit) prog" where
  "best_effort m = try_except m (\<lambda>_. ret ())"

lemma best_effort_never_raises: "fst (best_effort m s) = Inr ()"
  by (cases "m s") (auto simp: best_effort_def prog_simps split: sum.splits)

lemma best_effort_apply [prog_simps]: "best_effort m s = (Inr (), snd (m s))"
  by (cases "m s") (auto simp: best_effort_def prog_simps split: sum.splits)

lemma keeps_best_effort [keeps_intros]: "keeps P m \<Longrightarrow> keeps P (best_effort m)"
  unfolding best_effort_def by (rule keeps_try) (auto intro: keeps_intros)

lemma for_each_never_raises:
  "(\<And>x s. fst (f x s) = Inr ()) \<Longrightarrow> fst (for_each xs f s) = Inr ()"
proof (induction xs arbitrary: s)
  case Nil
  then show ?case by (simp add: prog_simps)
next
  case (Cons x xs)
  from Cons.prems[of x s] obtain s1 where "f x s = (Inr (), s1)"
    by (cases "f x s") auto
  with Cons show ?case by (simp add: prog_simps)
qed

lemma map_prog_pure:
  assumes "\<And>x. x \<in> set xs \<Longrightarrow> f x s = (Inr (h x), s)"
  shows "map_prog f xs s = (Inr (map h xs), s)"
  using assms by (induction xs) (simp_all add: prog_simps)

section \<open>Logs\<close>

text \<open>
  What a program does to a log that its state contains (\<open>lg\<close> reads it): it only appends, and
  every entry it appends satisfies \<open>P\<close>.
\<close>

definition appends :: "('s \<Rightarrow> 'e list) \<Rightarrow> ('e \<Rightarrow> bool) \<Rightarrow> ('s, 'a) prog \<Rightarrow> bool" where
  "appends lg P m \<longleftrightarrow> (\<forall>s. \<exists>es. lg (snd (m s)) = lg s @ es \<and> list_all P es)"

lemma appendsI: "(\<And>s. \<exists>es. lg (snd (m s)) = lg s @ es \<and> list_all P es) \<Longrightarrow> appends lg P m"
  by (simp add: appends_def)

lemma appendsE:
  assumes "appends lg P m"
  obtains es where "lg (snd (m s)) = lg s @ es" and "list_all P es"
  using assms by (auto simp: appends_def)

lemma appends_same: "(\<And>s. lg (snd (m s)) = lg s) \<Longrightarrow> appends lg P m"
  by (simp add: appends_def)

lemma appends_ret [appends_intros]: "appends lg P (ret x)"
  by (simp add: appends_def prog_simps)

lemma appends_raise [appends_intros]: "appends lg P (raise_exc e)"
  by (simp add: appends_def prog_simps)

lemma appends_gets [appends_intros]: "appends lg P (gets f)"
  by (simp add: appends_def prog_simps)

lemma appends_lift [appends_intros]: "appends lg P (lift_result r)"
  by (simp add: appends_def prog_simps)

lemma appends_then:
  assumes "appends lg P m" and "\<And>s r s1. m s = (r, s1) \<Longrightarrow> \<exists>es. lg (snd (f r s1)) = lg s1 @ es \<and> list_all P es"
  shows "\<exists>es. lg (snd (case m s of (r, s1) \<Rightarrow> f r s1)) = lg s @ es \<and> list_all P es"
proof -
  obtain r s1 where ms: "m s = (r, s1)" by fastforce
  obtain es where es: "lg s1 = lg s @ es" "list_all P es" using assms(1) ms by (metis appendsE snd_conv)
  obtain es' where "lg (snd (f r s1)) = lg s1 @ es'" "list_all P es'" using assms(2)[OF ms] by blast
  with es ms show ?thesis by (intro exI[of _ "es @ es'"]) simp
qed

lemma appends_bnd [appends_intros]:
  assumes "appends lg P m" and "\<And>x. appends lg P (k x)"
  shows "appends lg P (bnd m k)"
proof (rule appendsI)
  fix s
  have "bnd m k s = (case m s of (r, s1) \<Rightarrow> (case r of Inl e \<Rightarrow> (Inl e, s1) | Inr x \<Rightarrow> k x s1))"
    by (simp add: prog_simps split: prod.split sum.split)
  moreover have "\<exists>es. lg (snd (case m s of (r, s1) \<Rightarrow> (case r of Inl e \<Rightarrow> (Inl e, s1) | Inr x \<Rightarrow> k x s1))) = lg s @ es
      \<and> list_all P es"
    by (rule appends_then[OF assms(1)]) (use assms(2) in \<open>auto simp: appends_def split: sum.split\<close>)
  ultimately show "\<exists>es. lg (snd (bnd m k s)) = lg s @ es \<and> list_all P es" by simp
qed

lemma appends_try [appends_intros]:
  assumes "appends lg P m" and "\<And>e. appends lg P (h e)"
  shows "appends lg P (try_except m h)"
proof (rule appendsI)
  fix s
  have "try_except m h s = (case m s of (r, s1) \<Rightarrow> (case r of Inl e \<Rightarrow> h e s1 | Inr x \<Rightarrow> (Inr x, s1)))"
    by (simp add: prog_simps split: prod.split sum.split)
  moreover have "\<exists>es. lg (snd (case m s of (r, s1) \<Rightarrow> (case r of Inl e \<Rightarrow> h e s1 | Inr x \<Rightarrow> (Inr x, s1)))) = lg s @ es
      \<and> list_all P es"
    by (rule appends_then[OF assms(1)]) (use assms(2) in \<open>auto simp: appends_def split: sum.split\<close>)
  ultimately show "\<exists>es. lg (snd (try_except m h s)) = lg s @ es \<and> list_all P es" by simp
qed

lemma appends_catch [appends_intros]:
  "appends lg P m \<Longrightarrow> appends lg P h \<Longrightarrow> appends lg P (catch e m h)"
  unfolding catch_def by (rule appends_try) (simp_all add: appends_raise)

lemma appends_best_effort [appends_intros]: "appends lg P m \<Longrightarrow> appends lg P (best_effort m)"
  unfolding best_effort_def by (rule appends_try) (simp_all add: appends_ret)

lemma appends_for_each [appends_intros]:
  "(\<And>x. x \<in> set xs \<Longrightarrow> appends lg P (f x)) \<Longrightarrow> appends lg P (for_each xs f)"
  by (induction xs) (auto intro: appends_intros)

lemma appends_if [appends_intros]:
  "(c \<Longrightarrow> appends lg P a) \<Longrightarrow> (\<not> c \<Longrightarrow> appends lg P b) \<Longrightarrow> appends lg P (if c then a else b)"
  by simp

lemma appends_option [appends_intros]:
  "appends lg P a \<Longrightarrow> (\<And>x. z = Some x \<Longrightarrow> appends lg P (f x)) \<Longrightarrow> appends lg P (case z of None \<Rightarrow> a | Some x \<Rightarrow> f x)"
  by (cases z) auto

lemma appends_list [appends_intros]:
  "appends lg P a \<Longrightarrow> (\<And>x xs. z = x # xs \<Longrightarrow> appends lg P (f x xs)) \<Longrightarrow> appends lg P (case z of [] \<Rightarrow> a | x # xs \<Rightarrow> f x xs)"
  by (cases z) auto

lemma appends_prod [appends_intros]:
  "(\<And>x y. z = (x, y) \<Longrightarrow> appends lg P (f x y)) \<Longrightarrow> appends lg P (case z of (x, y) \<Rightarrow> f x y)"
  by (cases z) auto

lemma appends_let [appends_intros]: "appends lg P (f x) \<Longrightarrow> appends lg P (let y = x in f y)"
  by simp

lemma appends_mono: "appends lg P m \<Longrightarrow> (\<And>e. P e \<Longrightarrow> Q e) \<Longrightarrow> appends lg Q m"
  unfolding appends_def by (metis list.pred_mono_strong)

section \<open>Tables\<close>

text \<open>
  A table of the database: its rows in insertion order, and the next value of the sequence
  behind its primary key. \<open>find_row\<close> is a \<open>scalar_one_or_none\<close> on a primary key or a
  unique constraint (at most one row, see \<open>unique_on\<close>), \<open>select_rows\<close> a \<open>select ... where\<close>,
  \<open>update_rows\<close> the assignment to the fields of the selected rows, \<open>insert_row\<close> an \<open>add\<close>.
\<close>

record 'r table =
  rows :: "'r list"
  seq :: int

definition empty_table :: "'r table" where
  "empty_table = \<lparr>rows = [], seq = 1\<rparr>"

definition select_rows :: "('r \<Rightarrow> bool) \<Rightarrow> 'r table \<Rightarrow> 'r list" where
  "select_rows P t = filter P (rows t)"

definition find_row :: "('r \<Rightarrow> bool) \<Rightarrow> 'r table \<Rightarrow> 'r option" where
  "find_row P t = List.find P (rows t)"

definition insert_row :: "(int \<Rightarrow> 'r) \<Rightarrow> 'r table \<Rightarrow> 'r table" where
  "insert_row mk t = t\<lparr>rows := rows t @ [mk (seq t)], seq := seq t + 1\<rparr>"

definition update_rows :: "('r \<Rightarrow> bool) \<Rightarrow> ('r \<Rightarrow> 'r) \<Rightarrow> 'r table \<Rightarrow> 'r table" where
  "update_rows P f t = t\<lparr>rows := map (\<lambda>r. if P r then f r else r) (rows t)\<rparr>"

definition delete_rows :: "('r \<Rightarrow> bool) \<Rightarrow> 'r table \<Rightarrow> 'r table" where
  "delete_rows P t = t\<lparr>rows := filter (\<lambda>r. \<not> P r) (rows t)\<rparr>"

definition unique_on :: "('r \<Rightarrow> 'k) \<Rightarrow> 'r table \<Rightarrow> bool" where
  "unique_on key t \<longleftrightarrow> distinct (map key (rows t))"

lemma find_cong_prop: "List.find P xs = Some r \<Longrightarrow> P r \<and> r \<in> set xs"
  by (induction xs) (auto split: if_splits)

lemma find_row_Some: "find_row P t = Some r \<Longrightarrow> P r \<and> r \<in> set (rows t)"
  unfolding find_row_def by (rule find_cong_prop)

lemma find_row_None: "find_row P t = None \<longleftrightarrow> (\<forall>r \<in> set (rows t). \<not> P r)"
  by (auto simp: find_row_def find_None_iff)

lemma select_rows_iff [table_simps]: "r \<in> set (select_rows P t) \<longleftrightarrow> r \<in> set (rows t) \<and> P r"
  by (auto simp: select_rows_def)

lemma rows_insert_row [table_simps]: "rows (insert_row mk t) = rows t @ [mk (seq t)]"
  by (simp add: insert_row_def)

lemma rows_update_rows [table_simps]:
  "rows (update_rows P f t) = map (\<lambda>r. if P r then f r else r) (rows t)"
  by (simp add: update_rows_def)

lemma rows_delete_rows [table_simps]: "rows (delete_rows P t) = filter (\<lambda>r. \<not> P r) (rows t)"
  by (simp add: delete_rows_def)

lemma find_unique_key:
  assumes "distinct (map key xs)" and "r \<in> set xs"
  shows "List.find (\<lambda>x. key x = key r) xs = Some r"
  using assms by (induction xs) (auto simp: image_iff)

lemma find_row_unique:
  assumes "unique_on key t" and "r \<in> set (rows t)"
  shows "find_row (\<lambda>x. key x = key r) t = Some r"
  using assms find_unique_key[of key "rows t" r] by (simp add: unique_on_def find_row_def)

lemma update_rows_unique:
  assumes "unique_on key t" and "\<And>r. key (f r) = key r"
  shows "unique_on key (update_rows P f t)"
proof -
  have "map key (map (\<lambda>r. if P r then f r else r) (rows t)) = map key (rows t)"
    using assms(2) by simp
  with assms(1) show ?thesis by (simp add: unique_on_def table_simps del: map_map)
qed

lemma delete_rows_unique: "unique_on key t \<Longrightarrow> unique_on key (delete_rows P t)"
  by (simp add: unique_on_def table_simps distinct_map_filter)

lemma insert_row_unique:
  assumes "unique_on key t" and "\<forall>r \<in> set (rows t). key r \<noteq> key (mk (seq t))"
  shows "unique_on key (insert_row mk t)"
  using assms by (auto simp: unique_on_def table_simps)

lemma find_update_same:
  assumes "\<And>r. key (f r) = key r"
  shows "find_row (\<lambda>r. key r = k) (update_rows (\<lambda>r. key r = k) f t) = map_option f (find_row (\<lambda>r. key r = k) t)"
proof -
  have "List.find (\<lambda>r. key r = k) (map (\<lambda>r. if key r = k then f r else r) xs)
      = map_option f (List.find (\<lambda>r. key r = k) xs)" for xs
    using assms by (induction xs) auto
  then show ?thesis by (simp add: find_row_def table_simps)
qed

lemma find_update_other:
  assumes "\<And>r. key (f r) = key r" and "\<And>r. P r \<Longrightarrow> key r \<noteq> k"
  shows "find_row (\<lambda>r. key r = k) (update_rows P f t) = find_row (\<lambda>r. key r = k) t"
proof -
  have "List.find (\<lambda>r. key r = k) (map (\<lambda>r. if P r then f r else r) xs) = List.find (\<lambda>r. key r = k) xs" for xs
    using assms by (induction xs) auto
  then show ?thesis by (simp add: find_row_def table_simps)
qed

text \<open>A lookup whose predicate the update keeps sees the updated row.\<close>

lemma find_update_stable:
  assumes "\<And>r. P (f r) = P r"
  shows "find_row P (update_rows Q f t) = map_option (\<lambda>r. if Q r then f r else r) (find_row P t)"
proof -
  have "List.find P (map (\<lambda>r. if Q r then f r else r) xs) = map_option (\<lambda>r. if Q r then f r else r) (List.find P xs)" for xs
    using assms by (induction xs) auto
  then show ?thesis by (simp add: find_row_def table_simps)
qed

lemma find_insert_row:
  "find_row P (insert_row mk t) =
     (case find_row P t of Some r \<Rightarrow> Some r | None \<Rightarrow> if P (mk (seq t)) then Some (mk (seq t)) else None)"
proof -
  have "List.find P (xs @ [x]) = (case List.find P xs of Some r \<Rightarrow> Some r | None \<Rightarrow> if P x then Some x else None)" for xs x
    by (induction xs) auto
  then show ?thesis by (simp add: find_row_def table_simps)
qed

lemma update_rows_cong:
  assumes "\<And>r. r \<in> set (rows t) \<Longrightarrow> (if P r then f r else r) = (if Q r then g r else r)"
  shows "update_rows P f t = update_rows Q g t"
  using assms by (simp add: update_rows_def)

lemma update_rows_none: "(\<And>r. r \<in> set (rows t) \<Longrightarrow> P r \<Longrightarrow> f r = r) \<Longrightarrow> update_rows P f t = t"
  by (simp add: update_rows_def map_idI)

text \<open>
  Get-or-create followed by an assignment: the row with this key if there is one, else a new
  row for the key, then the assignment. The code has this shape for scale states and for
  notification preferences.
\<close>

definition get_or_create :: "('r \<Rightarrow> 'k) \<Rightarrow> ('k \<Rightarrow> int \<Rightarrow> 'r) \<Rightarrow> 'k \<Rightarrow> 'r table \<Rightarrow> 'r table" where
  "get_or_create key create k t =
     (case find_row (\<lambda>r. key r = k) t of
        Some _ \<Rightarrow> t
      | None \<Rightarrow> insert_row (create k) t)"

definition upsert_row ::
  "('r \<Rightarrow> 'k) \<Rightarrow> ('k \<Rightarrow> int \<Rightarrow> 'r) \<Rightarrow> 'k \<Rightarrow> ('r \<Rightarrow> 'r) \<Rightarrow> 'r table \<Rightarrow> 'r table" where
  "upsert_row key create k f t = update_rows (\<lambda>r. key r = k) f (get_or_create key create k t)"

text \<open>
  The interface of a table with a unique key, and what its clients rely on: an upsert writes
  exactly one key, and the constraint keeps holding.
\<close>

locale keyed_table =
  fixes key :: "'r \<Rightarrow> 'k" and create :: "'k \<Rightarrow> int \<Rightarrow> 'r"
  assumes key_create: "key (create k i) = k"
begin

definition row_at :: "'k \<Rightarrow> 'r table \<Rightarrow> 'r option" where
  "row_at k t = find_row (\<lambda>r. key r = k) t"

lemma find_append: "List.find P (xs @ ys) = (case List.find P xs of None \<Rightarrow> List.find P ys | Some x \<Rightarrow> Some x)"
  by (induction xs) auto

lemma row_at_create:
  "row_at k (get_or_create key create k t) =
     Some (case row_at k t of Some r \<Rightarrow> r | None \<Rightarrow> create k (seq t))"
  by (auto simp: row_at_def get_or_create_def find_row_def insert_row_def find_append key_create
      split: option.splits)

lemma row_at_create_other:
  "k' \<noteq> k \<Longrightarrow> row_at k' (get_or_create key create k t) = row_at k' t"
  by (auto simp: row_at_def get_or_create_def find_row_def insert_row_def find_append key_create
      split: option.splits)

lemma upsert_same:
  assumes "\<And>r. key (f r) = key r"
  shows "row_at k (upsert_row key create k f t) =
           Some (f (case row_at k t of Some r \<Rightarrow> r | None \<Rightarrow> create k (seq t)))"
proof -
  have "row_at k (upsert_row key create k f t) =
          map_option f (row_at k (get_or_create key create k t))"
    using find_update_same[of key f k, OF assms] by (simp add: row_at_def upsert_row_def)
  then show ?thesis by (simp add: row_at_create)
qed

lemma upsert_other:
  assumes "\<And>r. key (f r) = key r" and "k' \<noteq> k"
  shows "row_at k' (upsert_row key create k f t) = row_at k' t"
proof -
  have "row_at k' (upsert_row key create k f t) = row_at k' (get_or_create key create k t)"
    unfolding row_at_def upsert_row_def by (rule find_update_other) (use assms in auto)
  with assms(2) show ?thesis by (simp add: row_at_create_other)
qed

lemma get_or_create_unique: "unique_on key t \<Longrightarrow> unique_on key (get_or_create key create k t)"
  by (auto simp: get_or_create_def find_row_None key_create intro!: insert_row_unique
      split: option.splits)

lemma upsert_unique:
  assumes "\<And>r. key (f r) = key r" and "unique_on key t"
  shows "unique_on key (upsert_row key create k f t)"
  unfolding upsert_row_def
  by (rule update_rows_unique[OF get_or_create_unique[OF assms(2)] assms(1)])

end

end
