(* ===== verification/Py_Strings.thy ===== *)
theory Py_Strings
  imports Prelude "HOL-Library.Sublist"
begin

text \<open>
  The string operations of Python's standard library that the code uses, on strings of code
  points below 256 (a HOL \<open>char\<close> is one code point): \<open>str.lower\<close>, \<open>str.strip\<close> and its
  one-sided forms, \<open>str.replace\<close>, \<open>str.split\<close>, the two regular-expression substitutions the
  slug functions make, \<open>str(n)\<close> and \<open>int(s)\<close>. The lemmas give what the components need of
  them: character sets, lengths, and that \<open>int(str(n)) = n\<close>.
\<close>

section \<open>Character classes\<close>

definition lower_letters :: string where
  "lower_letters = ''abcdefghijklmnopqrstuvwxyz''"

definition upper_letters :: string where
  "upper_letters = ''ABCDEFGHIJKLMNOPQRSTUVWXYZ''"

definition digit_chars :: string where
  "digit_chars = ''0123456789''"

definition is_az :: "char \<Rightarrow> bool" where
  "is_az c \<longleftrightarrow> c \<in> set lower_letters"

definition is_AZ :: "char \<Rightarrow> bool" where
  "is_AZ c \<longleftrightarrow> c \<in> set upper_letters"

definition is_09 :: "char \<Rightarrow> bool" where
  "is_09 c \<longleftrightarrow> c \<in> set digit_chars"

lemmas char_class_defs = is_az_def is_AZ_def is_09_def
  lower_letters_def upper_letters_def digit_chars_def

text \<open>\<open>str.lower\<close>: the Latin-1 capitals are 65-90 and 192-222 without the multiplication sign.\<close>

definition lower_char :: "char \<Rightarrow> char" where
  "lower_char c =
     (let n = of_char c :: nat in
      if (65 \<le> n \<and> n \<le> 90) \<or> (192 \<le> n \<and> n \<le> 222 \<and> n \<noteq> 215) then char_of (n + 32) else c)"

definition py_lower :: "string \<Rightarrow> string" where
  "py_lower s = map lower_char s"

text \<open>\<open>str.isdigit\<close> of one character: the ten digits and the superscripts 1, 2, 3.\<close>

definition py_isdigit :: "char \<Rightarrow> bool" where
  "py_isdigit c \<longleftrightarrow> is_09 c \<or> c \<in> {CHR 0xB2, CHR 0xB3, CHR 0xB9}"

text \<open>Whitespace of \<open>str.isspace\<close> and \<open>str.strip()\<close>.\<close>

definition py_isspace :: "char \<Rightarrow> bool" where
  "py_isspace c \<longleftrightarrow>
     c \<in> {CHR 0x09, CHR 0x0A, CHR 0x0B, CHR 0x0C, CHR 0x0D, CHR 0x1C, CHR 0x1D, CHR 0x1E, CHR 0x1F,
            CHR 0x20, CHR 0x85, CHR 0xA0}"

text \<open>The class \<open>\w\<close> of \<open>re\<close>: letters, digits and numerals of \<open>str.isalnum\<close>, and the underscore.\<close>

definition is_word_char :: "char \<Rightarrow> bool" where
  "is_word_char c \<longleftrightarrow> is_az c \<or> is_AZ c \<or> is_09 c \<or> c = CHR ''_''
     \<or> c \<in> {CHR 0xAA, CHR 0xB2, CHR 0xB3, CHR 0xB5, CHR 0xB9, CHR 0xBA, CHR 0xBC, CHR 0xBD, CHR 0xBE}
     \<or> ((of_char c :: nat) \<ge> 192 \<and> c \<notin> {CHR 0xD7, CHR 0xF7})"

section \<open>Substitution, stripping, splitting\<close>

text \<open>\<open>re.sub\<close> of every character outside a class by one replacement character.\<close>

definition sub_outside :: "(char \<Rightarrow> bool) \<Rightarrow> char \<Rightarrow> string \<Rightarrow> string" where
  "sub_outside P r s = map (\<lambda>c. if P c then c else r) s"

text \<open>\<open>re.sub(r"x+", "x", s)\<close> for one character \<open>x\<close>.\<close>

fun collapse :: "char \<Rightarrow> string \<Rightarrow> string" where
  "collapse x [] = []"
| "collapse x [c] = [c]"
| "collapse x (c # d # cs) =
     (if c = x \<and> d = x then collapse x (d # cs) else c # collapse x (d # cs))"

definition lstrip :: "(char \<Rightarrow> bool) \<Rightarrow> string \<Rightarrow> string" where
  "lstrip P s = dropWhile P s"

definition rstrip :: "(char \<Rightarrow> bool) \<Rightarrow> string \<Rightarrow> string" where
  "rstrip P s = rev (dropWhile P (rev s))"

definition strip :: "(char \<Rightarrow> bool) \<Rightarrow> string \<Rightarrow> string" where
  "strip P s = rstrip P (lstrip P s)"

fun py_replace :: "string \<Rightarrow> string \<Rightarrow> string \<Rightarrow> string" where
  "py_replace old new [] = []"
| "py_replace old new (c # cs) =
     (if old \<noteq> [] \<and> prefix old (c # cs)
      then new @ py_replace old new (drop (length old) (c # cs))
      else c # py_replace old new cs)"

text \<open>\<open>s.split(sep)\<close> for a one-character separator.\<close>

fun split_on :: "char \<Rightarrow> string \<Rightarrow> string list" where
  "split_on x [] = [[]]"
| "split_on x (c # cs) =
     (if c = x then [] # split_on x cs
      else (case split_on x cs of [] \<Rightarrow> [[c]] | w # ws \<Rightarrow> (c # w) # ws))"

definition removesuffix :: "string \<Rightarrow> string \<Rightarrow> string" where
  "removesuffix suf s = (if suffix suf s then take (length s - length suf) s else s)"

fun py_join :: "string \<Rightarrow> string list \<Rightarrow> string" where
  "py_join sep [] = []"
| "py_join sep [w] = w"
| "py_join sep (w # v # ws) = w @ sep @ py_join sep (v # ws)"

lemma set_collapse: "set (collapse x s) \<subseteq> set s"
  by (induction x s rule: collapse.induct) auto

lemma collapse_no_double:
  "\<not> sublist [x, x] (collapse x s)"
proof (induction x s rule: collapse.induct)
  case (3 x c d cs)
  have "prefix [x, x] (c # collapse x (d # cs)) \<Longrightarrow> c = x \<and> d = x"
    by (cases cs) (auto simp: prefix_Cons split: if_splits)
  with 3 show ?case by (auto simp: sublist_Cons_right)
qed (auto simp: sublist_Cons_right prefix_Cons)

lemma set_lstrip: "set (lstrip P s) \<subseteq> set s"
  by (auto simp: lstrip_def dest: set_dropWhileD)

lemma set_rstrip: "set (rstrip P s) \<subseteq> set s"
  by (auto simp: rstrip_def dest: set_dropWhileD)

lemma set_strip: "set (strip P s) \<subseteq> set s"
  unfolding strip_def using set_lstrip set_rstrip by fast

lemma rstrip_is_prefix: "prefix (rstrip P s) s"
proof -
  have "suffix (dropWhile P (rev s)) (rev s)" by (rule suffix_dropWhile)
  then show ?thesis by (simp add: rstrip_def suffix_to_prefix)
qed

lemma lstrip_is_suffix: "suffix (lstrip P s) s"
  by (simp add: lstrip_def suffix_dropWhile)

lemma strip_is_sublist: "sublist (strip P s) s"
  unfolding strip_def
  by (rule sublist_order.order.trans[OF prefix_imp_sublist[OF rstrip_is_prefix]
        suffix_imp_sublist[OF lstrip_is_suffix]])

lemma hd_lstrip: "lstrip P s \<noteq> [] \<Longrightarrow> \<not> P (hd (lstrip P s))"
  by (simp add: lstrip_def hd_dropWhile)

lemma last_rstrip: "rstrip P s \<noteq> [] \<Longrightarrow> \<not> P (last (rstrip P s))"
  by (simp add: rstrip_def last_rev hd_dropWhile)

lemma hd_prefix: "prefix u v \<Longrightarrow> u \<noteq> [] \<Longrightarrow> hd u = hd v"
  by (auto simp: prefix_def)

lemma hd_strip: "strip P s \<noteq> [] \<Longrightarrow> \<not> P (hd (strip P s))"
  unfolding strip_def
  by (metis hd_lstrip hd_prefix prefix_bot.extremum_uniqueI rstrip_is_prefix)

lemma last_strip: "strip P s \<noteq> [] \<Longrightarrow> \<not> P (last (strip P s))"
  unfolding strip_def by (rule last_rstrip)

lemma strip_id: "s \<noteq> [] \<Longrightarrow> \<not> P (hd s) \<Longrightarrow> \<not> P (last s) \<Longrightarrow> strip P s = s"
proof -
  assume ne: "s \<noteq> []" and h: "\<not> P (hd s)" and l: "\<not> P (last s)"
  from ne h have "lstrip P s = s" by (cases s) (auto simp: lstrip_def)
  moreover from ne l have "rstrip P s = s" by (cases s rule: rev_cases) (auto simp: rstrip_def)
  ultimately show ?thesis by (simp add: strip_def)
qed

lemma collapse_id: "\<not> sublist [x, x] s \<Longrightarrow> collapse x s = s"
  by (induction x s rule: collapse.induct) (auto simp: sublist_Cons_right)

lemma sub_outside_id: "\<forall>c \<in> set s. P c \<Longrightarrow> sub_outside P r s = s"
  by (simp add: sub_outside_def map_idI)

lemma sub_outside_class: "P r \<Longrightarrow> \<forall>c \<in> set (sub_outside P r s). P c"
  by (auto simp: sub_outside_def)

lemma py_join_split: "py_join [x] (split_on x s) = s"
proof (induction s)
  case (Cons c cs)
  show ?case
  proof (cases "split_on x cs")
    case Nil
    then show ?thesis by (cases cs) (auto split: list.splits if_splits)
  next
    case (Cons w ws)
    with Cons.IH show ?thesis by (cases ws) auto
  qed
qed simp

lemma split_on_nonempty: "split_on x s \<noteq> []"
  by (cases s) (auto split: list.splits)

lemma split_on_free: "w \<in> set (split_on x s) \<Longrightarrow> x \<notin> set w"
  by (induction s arbitrary: w) (auto split: if_splits list.splits)

section \<open>Decimal numbers\<close>

definition digit_char :: "nat \<Rightarrow> char" where
  "digit_char d = digit_chars ! d"

definition digit_val :: "char \<Rightarrow> nat" where
  "digit_val c = of_char c - 48"

fun string_of_nat :: "nat \<Rightarrow> string" where
  "string_of_nat n =
     (if n < 10 then [digit_char n] else string_of_nat (n div 10) @ [digit_char (n mod 10)])"

declare string_of_nat.simps [simp del]

definition string_of_int :: "int \<Rightarrow> string" where
  "string_of_int i = (if i < 0 then CHR ''-'' # string_of_nat (nat (- i)) else string_of_nat (nat i))"

text \<open>
  \<open>int(s)\<close>: surrounding whitespace, a sign, digits with single underscores between them;
  \<open>None\<close> where Python raises \<open>ValueError\<close>.
\<close>

fun parse_digits :: "nat \<Rightarrow> string \<Rightarrow> nat option" where
  "parse_digits acc [] = None"
| "parse_digits acc [c] = (if is_09 c then Some (10 * acc + digit_val c) else None)"
| "parse_digits acc (c # d # cs) =
     (if \<not> is_09 c then None
      else if d = CHR ''_'' then parse_digits (10 * acc + digit_val c) cs
      else parse_digits (10 * acc + digit_val c) (d # cs))"

definition py_int :: "string \<Rightarrow> int option" where
  "py_int s =
     (case strip py_isspace s of
        [] \<Rightarrow> None
      | c # cs \<Rightarrow>
          if c = CHR ''-'' then map_option (\<lambda>n. - int n) (parse_digits 0 cs)
          else if c = CHR ''+'' then map_option int (parse_digits 0 cs)
          else map_option int (parse_digits 0 (c # cs)))"

lemma digit_char_cases:
  "d < 10 \<Longrightarrow> d = 0 \<or> d = 1 \<or> d = 2 \<or> d = 3 \<or> d = 4 \<or> d = 5 \<or> d = 6 \<or> d = 7 \<or> d = 8 \<or> d = (9::nat)"
  by arith

lemma digit_char_eval:
  "digit_char 0 = CHR ''0''" "digit_char 1 = CHR ''1''" "digit_char 2 = CHR ''2''"
  "digit_char 3 = CHR ''3''" "digit_char 4 = CHR ''4''" "digit_char 5 = CHR ''5''"
  "digit_char 6 = CHR ''6''" "digit_char 7 = CHR ''7''" "digit_char 8 = CHR ''8''"
  "digit_char 9 = CHR ''9''"
  by (simp_all add: digit_char_def digit_chars_def)

lemma digit_char_props:
  assumes "d < 10"
  shows "is_09 (digit_char d)" "digit_val (digit_char d) = d"
    "\<not> py_isspace (digit_char d)" "digit_char d \<noteq> CHR ''-''" "digit_char d \<noteq> CHR ''+''"
    "digit_char d \<noteq> CHR ''_''"
  using digit_char_cases[OF assms]
  by (elim disjE; simp add: digit_char_eval digit_char_eval[unfolded One_nat_def] char_class_defs
        digit_val_def py_isspace_def)+

lemma string_of_nat_nonempty: "string_of_nat n \<noteq> []"
  by (subst string_of_nat.simps) simp

lemma string_of_nat_digits: "c \<in> set (string_of_nat n) \<Longrightarrow> \<exists>d < 10. c = digit_char d"
proof (induction n rule: string_of_nat.induct)
  case (1 n)
  show ?case
  proof (cases "n < 10")
    case True
    with 1 show ?thesis by (subst (asm) (2) string_of_nat.simps) auto
  next
    case False
    with 1 have "c \<in> set (string_of_nat (n div 10)) \<or> c = digit_char (n mod 10)"
      by (subst (asm) (2) string_of_nat.simps) auto
    moreover have "n mod 10 < 10" by simp
    ultimately show ?thesis using 1(1) False by blast
  qed
qed

lemma parse_digits_step:
  assumes "d < 10" and "xs \<noteq> []" and "\<forall>c \<in> set xs. \<exists>e < 10. c = digit_char e"
  shows "parse_digits acc (xs @ [digit_char d]) =
           (case parse_digits acc xs of None \<Rightarrow> None | Some v \<Rightarrow> Some (10 * v + d))"
  using assms(2,3)
proof (induction acc xs rule: parse_digits.induct)
  case (2 acc c)
  then show ?case using assms(1) by (auto simp: digit_char_props)
next
  case (3 acc c e cs)
  then show ?case by (auto simp: digit_char_props)
qed simp

lemma parse_string_of_nat: "parse_digits 0 (string_of_nat n) = Some n"
proof (induction n rule: string_of_nat.induct)
  case (1 n)
  show ?case
  proof (cases "n < 10")
    case True
    then show ?thesis by (subst string_of_nat.simps) (simp add: digit_char_props)
  next
    case False
    with 1 have "parse_digits 0 (string_of_nat (n div 10)) = Some (n div 10)" by simp
    with False show ?thesis
      by (subst string_of_nat.simps)
        (simp add: parse_digits_step string_of_nat_nonempty string_of_nat_digits)
  qed
qed

lemma strip_digits: "strip py_isspace (string_of_nat n) = string_of_nat n"
proof (rule strip_id)
  show ne: "string_of_nat n \<noteq> []" by (rule string_of_nat_nonempty)
  show "\<not> py_isspace (hd (string_of_nat n))"
    using string_of_nat_digits[OF list.set_sel(1)[OF ne]] by (auto simp: digit_char_props)
  show "\<not> py_isspace (last (string_of_nat n))"
    using string_of_nat_digits[OF last_in_set[OF ne]] by (auto simp: digit_char_props)
qed

lemma strip_signed: "strip py_isspace (CHR ''-'' # string_of_nat n) = CHR ''-'' # string_of_nat n"
proof (rule strip_id)
  have ne: "string_of_nat n \<noteq> []" by (rule string_of_nat_nonempty)
  show "\<not> py_isspace (hd (CHR ''-'' # string_of_nat n))"
    by (simp add: py_isspace_def)
  show "\<not> py_isspace (last (CHR ''-'' # string_of_nat n))"
    using string_of_nat_digits[OF last_in_set[OF ne]] ne by (auto simp: digit_char_props)
qed simp

lemma string_of_nat_Cons: "string_of_nat n = c # cs \<Longrightarrow> c \<noteq> CHR ''-'' \<and> c \<noteq> CHR ''+''"
  using string_of_nat_digits[of c n] by (auto simp: digit_char_props)

lemma py_int_string_of_int: "py_int (string_of_int i) = Some i"
proof (cases "i < 0")
  case True
  then show ?thesis
    by (simp add: string_of_int_def py_int_def strip_signed parse_string_of_nat)
next
  case False
  obtain c cs where cs: "string_of_nat (nat i) = c # cs"
    using string_of_nat_nonempty[of "nat i"] by (cases "string_of_nat (nat i)") auto
  have "parse_digits 0 (c # cs) = Some (nat i)"
    using parse_string_of_nat[of "nat i"] cs by simp
  moreover have "strip py_isspace (c # cs) = c # cs"
    using strip_digits[of "nat i"] cs by simp
  ultimately show ?thesis
    using False string_of_nat_Cons[OF cs] by (simp add: string_of_int_def py_int_def cs)
qed

lemma string_of_int_inject [simp]: "string_of_int i = string_of_int j \<longleftrightarrow> i = j"
  by (metis option.inject py_int_string_of_int)

lemma string_of_int_nonempty: "string_of_int i \<noteq> []"
  by (simp add: string_of_int_def string_of_nat_nonempty)

lemma string_of_int_chars:
  "c \<in> set (string_of_int i) \<Longrightarrow> is_09 c \<or> c = CHR ''-''"
  by (auto simp: string_of_int_def digit_char_props dest!: string_of_nat_digits split: if_splits)

end
