(* ===== verification/Shared_Models.thy ===== *)
theory Shared_Models
  imports Py_Strings
begin

text \<open>
  shared/models.py and the naming helper of backend/k8s/manifests.py: the enumerations shared by the
  backend and the CLI, the functions that derive Kubernetes names from what users type, and the
  validators of requests. Lemmas: the characters, lengths and first and last characters of the
  derived names.
\<close>

section \<open>Enumerations\<close>

datatype user_role = ADMIN | DEV | VIEWER_ROLE

datatype member_status = ACTIVE | PENDING_INVITE | LEFT

datatype cnp_tier = VIEWER | DEVELOPER | MAINTAINER | OWNER

datatype cluster_status = ONLINE | OFFLINE | UNKNOWN

datatype cluster_provider = AZURE | AWS | GCP | OPENSTACK | ORACLE | OTHER

datatype application_status = ONBOARDING | READY | DEPLOYED | DEGRADED

datatype scale_stop_reason = SCHEDULE | MANUAL

datatype notification_state = NEW | READ | ACKNOWLEDGED

datatype keycloak_env_state = KC_ACTIVE | KC_MISSING | KC_FOREIGN | KC_UNKNOWN

datatype keycloak_auth_warning =
  INSTANCE_UNAVAILABLE | PROVISIONING_FAILED | OIDC_KEYS_CONFLICT | CHART_MISSING_ENVFROM

datatype cloud_type = CLOUD_AWS | CLOUD_GCP | CLOUD_OPENSTACK

datatype ai_context_mode = METADATA_ONLY | METADATA_AND_CODE

datatype ai_purpose = PURPOSE_CHAT | PURPOSE_SCAN_SUMMARY | PURPOSE_FINOPS | PURPOSE_INCIDENT

section \<open>Names derived from user input\<close>

definition is_alnum_lower :: "char \<Rightarrow> bool" where
  "is_alnum_lower c \<longleftrightarrow> is_az c \<or> is_09 c"

definition is_slug_char :: "char \<Rightarrow> bool" where
  "is_slug_char c \<longleftrightarrow> is_alnum_lower c \<or> c = CHR ''-''"

definition compute_slug :: "string \<Rightarrow> string" where
  "compute_slug name =
     (let s = py_lower name;
          s = sub_outside is_slug_char (CHR ''-'') s;
          s = collapse (CHR ''-'') s;
          s = strip (\<lambda>c. c = CHR ''-'') s;
          s = (case s of [] \<Rightarrow> s | c # _ \<Rightarrow> if py_isdigit c then ''app-'' @ s else s)
      in take 50 s)"

definition sanitize_k8s_name :: "string \<Rightarrow> string" where
  "sanitize_k8s_name name =
     (let name = py_lower name;
          name = sub_outside is_slug_char (CHR ''-'') name;
          name = collapse (CHR ''-'') name
      in take 63 (strip (\<lambda>c. c = CHR ''-'') name))"

definition is_label_char :: "char \<Rightarrow> bool" where
  "is_label_char c \<longleftrightarrow> is_AZ c \<or> is_az c \<or> is_09 c \<or> c \<in> {CHR ''-'', CHR ''_'', CHR ''.''}"

definition sanitize_k8s_label_value :: "string \<Rightarrow> string" where
  "sanitize_k8s_label_value value =
     (let s = py_replace ''/'' ''-'' (py_replace ''@'' ''-at-'' value);
          s = sub_outside is_label_char (CHR ''-'') s;
          s = collapse (CHR ''-'') s;
          s = strip (\<lambda>c. c = CHR ''.'') (strip (\<lambda>c. c = CHR ''-'') s)
      in take 63 s)"

definition CNP_BASE_DOMAIN :: string where
  "CNP_BASE_DOMAIN = ''cloud-native-plat4k.me''"

definition app_hostname :: "string \<Rightarrow> string \<Rightarrow> string" where
  "app_hostname slug env =
     (if env = ''prod'' then slug @ ''.'' @ CNP_BASE_DOMAIN
      else ''dev.'' @ slug @ ''.'' @ CNP_BASE_DOMAIN)"

definition app_internet_url :: "string \<Rightarrow> string \<Rightarrow> string" where
  "app_internet_url slug env = ''https://'' @ app_hostname slug env"

section \<open>Request validation\<close>

definition SCAFFOLD_SUPPORTED_SERVICES :: "string list" where
  "SCAFFOLD_SUPPORTED_SERVICES = [''postgresql'', ''keycloak'']"

definition ONBOARD_SUPPORTED_SERVICES :: "string list" where
  "ONBOARD_SUPPORTED_SERVICES = [''keycloak'']"

definition validate_services :: "string list \<Rightarrow> string list \<Rightarrow> exc + string list" where
  "validate_services services allowed =
     (if \<exists>s \<in> set services. s \<notin> set allowed then Inl ValueError else Inr services)"

text \<open>
  The full match of \<open>[a-z0-9](?:[a-z0-9-]{0,57}[a-z0-9])?\<close>: one to 59 characters, the first
  and the last not a hyphen.
\<close>

definition matches_instance_key :: "string \<Rightarrow> bool" where
  "matches_instance_key key \<longleftrightarrow>
     key \<noteq> [] \<and> length key \<le> 59 \<and> is_alnum_lower (hd key) \<and> is_alnum_lower (last key)
     \<and> list_all is_slug_char key"

definition validate_keycloak_instance_key :: "string \<Rightarrow> exc + string" where
  "validate_keycloak_instance_key key = (if matches_instance_key key then Inr key else Inl ValueError)"

section \<open>What the names are\<close>

lemma hyphen_facts [simp]:
  "is_slug_char (CHR ''-'')" "\<not> is_alnum_lower (CHR ''-'')" "is_label_char (CHR ''-'')"
  "\<not> py_isdigit (CHR ''-'')"
  by (simp_all add: is_slug_char_def is_alnum_lower_def is_label_char_def py_isdigit_def
      char_class_defs)

lemma slug_char_isdigit: "is_slug_char c \<Longrightarrow> py_isdigit c \<longleftrightarrow> is_09 c"
  by (auto simp: is_slug_char_def is_alnum_lower_def py_isdigit_def char_class_defs)

text \<open>The part of \<open>compute_slug\<close> and \<open>sanitize_k8s_name\<close> before the prefix and the cut.\<close>

definition slug_core :: "string \<Rightarrow> string" where
  "slug_core name =
     strip (\<lambda>c. c = CHR ''-'') (collapse (CHR ''-'') (sub_outside is_slug_char (CHR ''-'') (py_lower name)))"

lemma slug_core_chars: "c \<in> set (slug_core name) \<Longrightarrow> is_slug_char c"
proof -
  assume "c \<in> set (slug_core name)"
  then have "c \<in> set (sub_outside is_slug_char (CHR ''-'') (py_lower name))"
    unfolding slug_core_def using set_strip set_collapse by fast
  then show ?thesis using sub_outside_class[of is_slug_char "CHR ''-''"] by simp
qed

lemma slug_core_no_double: "\<not> sublist ''--'' (slug_core name)"
proof
  assume "sublist ''--'' (slug_core name)"
  then have "sublist ''--'' (collapse (CHR ''-'') (sub_outside is_slug_char (CHR ''-'') (py_lower name)))"
    unfolding slug_core_def by (rule sublist_order.order.trans[OF _ strip_is_sublist])
  then show False using collapse_no_double by fastforce
qed

lemma slug_core_hd: "slug_core name \<noteq> [] \<Longrightarrow> is_alnum_lower (hd (slug_core name))"
  using slug_core_chars[of "hd (slug_core name)" name]
    hd_strip[of "\<lambda>c. c = CHR ''-''"] by (force simp: slug_core_def is_slug_char_def)

lemma slug_core_last: "slug_core name \<noteq> [] \<Longrightarrow> is_alnum_lower (last (slug_core name))"
  using slug_core_chars[of "last (slug_core name)" name]
    last_strip[of "\<lambda>c. c = CHR ''-''"] by (force simp: slug_core_def is_slug_char_def)

definition app_prefixed :: "string \<Rightarrow> string" where
  "app_prefixed s = (case s of [] \<Rightarrow> s | c # _ \<Rightarrow> if py_isdigit c then ''app-'' @ s else s)"

lemma compute_slug_core: "compute_slug name = take 50 (app_prefixed (slug_core name))"
  by (simp add: compute_slug_def slug_core_def app_prefixed_def Let_def)

lemma app_letters: "\<forall>c \<in> set ''app-''. is_slug_char c" "is_az (CHR ''a'')"
  by (auto simp: is_slug_char_def is_alnum_lower_def char_class_defs)

lemma app_prefixed_chars: "c \<in> set (app_prefixed (slug_core name)) \<Longrightarrow> is_slug_char c"
  using slug_core_chars[of c name] app_letters
  by (auto simp: app_prefixed_def split: list.splits if_splits)

lemma app_prefixed_hd: "slug_core name \<noteq> [] \<Longrightarrow> is_az (hd (app_prefixed (slug_core name)))"
  using slug_core_hd[of name] slug_core_chars[of "hd (slug_core name)" name] app_letters
  by (auto simp: app_prefixed_def is_alnum_lower_def slug_char_isdigit split: list.splits)

lemma app_prefixed_nonempty: "app_prefixed s = [] \<longleftrightarrow> s = []"
  by (auto simp: app_prefixed_def split: list.splits)

lemma app_prefixed_last: "s \<noteq> [] \<Longrightarrow> last (app_prefixed s) = last s"
  by (auto simp: app_prefixed_def split: list.splits)

text \<open>Every non-empty slug is at most 50 characters of [a-z0-9-], starts with a letter.\<close>

theorem compute_slug_wellformed:
  "length (compute_slug name) \<le> 50
   \<and> list_all is_slug_char (compute_slug name)
   \<and> (compute_slug name = [] \<or> is_az (hd (compute_slug name)))"
proof -
  let ?s = "app_prefixed (slug_core name)"
  have "list_all is_slug_char (compute_slug name)"
    using app_prefixed_chars by (auto simp: list_all_iff compute_slug_core dest: in_set_takeD)
  moreover have "compute_slug name = [] \<or> is_az (hd (compute_slug name))"
  proof (cases "slug_core name = []")
    case True
    then show ?thesis by (simp add: compute_slug_core app_prefixed_def)
  next
    case False
    then have "hd (compute_slug name) = hd ?s" by (simp add: compute_slug_core hd_take)
    with app_prefixed_hd[OF False] show ?thesis by simp
  qed
  ultimately show ?thesis by (simp add: compute_slug_core)
qed

lemma uncut_slug:
  assumes "length (compute_slug name) < 50" and "compute_slug name \<noteq> []"
  shows "is_alnum_lower (last (compute_slug name))" and "\<not> sublist ''--'' (compute_slug name)"
proof -
  let ?s = "app_prefixed (slug_core name)"
  from assms(1) have uncut: "compute_slug name = ?s"
    by (cases "length ?s \<le> 50") (auto simp: compute_slug_core)
  with assms(2) have core: "slug_core name \<noteq> []" by (simp add: app_prefixed_nonempty)
  show "is_alnum_lower (last (compute_slug name))"
    using slug_core_last[OF core] by (simp add: app_prefixed_last core uncut)
  show "\<not> sublist ''--'' (compute_slug name)"
    using slug_core_no_double[of name] slug_core_hd[OF core] unfolding uncut
    by (auto simp: app_prefixed_def sublist_Cons_right prefix_Cons split: list.splits)
qed

lemma az_not_09: "is_az c \<Longrightarrow> \<not> is_09 c"
  by (auto simp: char_class_defs)

lemma slash_no_slug_char: "\<not> is_slug_char (CHR ''/'')"
  by (simp add: is_slug_char_def is_alnum_lower_def char_class_defs)

text \<open>A slug shorter than the cut ends with a letter or digit and has no double hyphen.\<close>

theorem compute_slug_uncut:
  assumes "length (compute_slug name) < 50" and "compute_slug name \<noteq> []"
  shows "is_alnum_lower (last (compute_slug name)) \<and> \<not> sublist ''--'' (compute_slug name)"
  using uncut_slug[OF assms] by simp

theorem compute_slug_uncut_witness:
  "is_alnum_lower (last (compute_slug ''My  App'')) \<and> \<not> sublist ''--'' (compute_slug ''My  App'')"
proof -
  have "compute_slug ''My  App'' = ''my-app''" by code_simp
  then show ?thesis using compute_slug_uncut[of "''My  App''"] by simp
qed

text \<open>
  The cut at 50 characters comes after the strip, so it can leave a hyphen at the end, which
  DNS-1035 names do not allow.
\<close>

definition long_name :: string where
  "long_name = ''aaaaaaaaaaaaaaaaaaaaaaaaaaaaaaaaaaaaaaaaaaaaaaaaa-tail''"

text \<open>The slug of a long name can end with a hyphen.\<close>

theorem compute_slug_cut_trailing_hyphen:
  "compute_slug long_name \<noteq> [] \<and> last (compute_slug long_name) = CHR ''-''"
  by code_simp

lemma lower_slug_char: "is_slug_char c \<Longrightarrow> lower_char c = c"
  by (auto simp: is_slug_char_def is_alnum_lower_def char_class_defs lower_char_def Let_def)

lemma slug_core_id:
  assumes "\<forall>c \<in> set s. is_slug_char c" and "\<not> sublist ''--'' s"
    and "s \<noteq> []" and "is_alnum_lower (hd s)" and "is_alnum_lower (last s)"
  shows "slug_core s = s"
proof -
  have "py_lower s = s" using assms(1) by (simp add: py_lower_def map_idI lower_slug_char)
  then have "collapse (CHR ''-'') (sub_outside is_slug_char (CHR ''-'') (py_lower s)) = s"
    using assms(1,2) by (simp add: sub_outside_id collapse_id)
  then show ?thesis using assms(3-5) by (auto simp: slug_core_def intro!: strip_id)
qed

text \<open>Deriving a slug from a slug that was not cut changes nothing.\<close>

theorem compute_slug_idempotent:
  assumes "length (compute_slug name) < 50"
  shows "compute_slug (compute_slug name) = compute_slug name"
proof (cases "compute_slug name = []")
  case True
  then show ?thesis by (simp add: compute_slug_def py_lower_def sub_outside_def strip_def
        lstrip_def rstrip_def)
next
  case False
  let ?t = "compute_slug name"
  have w: "\<forall>c \<in> set ?t. is_slug_char c" "is_az (hd ?t)"
    using compute_slug_core[of name] app_prefixed_chars app_prefixed_hd False
    by (auto dest: in_set_takeD simp: hd_take app_prefixed_nonempty)
  have "is_alnum_lower (hd ?t)" using w(2) by (simp add: is_alnum_lower_def)
  then have id: "slug_core ?t = ?t"
    using w(1) False uncut_slug[OF assms False] by (intro slug_core_id) auto
  have "\<not> py_isdigit (hd ?t)"
    using w False slug_char_isdigit[of "hd ?t"] by (simp add: az_not_09)
  then have "app_prefixed ?t = ?t" by (auto simp: app_prefixed_def split: list.splits)
  with id assms show ?thesis by (simp add: compute_slug_core[of ?t])
qed

theorem compute_slug_idempotent_witness:
  "compute_slug (compute_slug ''42 Apps'') = compute_slug ''42 Apps''"
proof -
  have "compute_slug ''42 Apps'' = ''app-42-apps''" by code_simp
  then show ?thesis using compute_slug_idempotent[of "''42 Apps''"] by simp
qed

text \<open>A sanitized label value can start with a hyphen, which Kubernetes label values may not.\<close>

theorem sanitize_label_leading_hyphen:
  "sanitize_k8s_label_value ''.-team'' = ''-team''"
  by code_simp

lemma matches_instance_key_props:
  assumes "matches_instance_key key"
  shows "key \<noteq> []" "length key \<le> 59" "\<forall>c \<in> set key. is_slug_char c" "CHR ''/'' \<notin> set key"
  using assms slash_no_slug_char by (auto simp: matches_instance_key_def list_all_iff)

end
