(* ===== verification/Database.thy ===== *)
theory Database
  imports Shared_Models
begin

text \<open>
  backend/db/models.py: one record per table that the modelled services use, with the columns of
  the code, and the session through which they are read and written. Datetimes are integers (an
  instant), JSON columns are \<open>json\<close> values, nullable columns are options. A session holds the
  transaction's view \<open>db\<close> and the last committed contents \<open>saved\<close>.
\<close>

section \<open>JSON values\<close>

datatype json =
    JNull
  | JBool bool
  | JNum int
  | JStr string
  | JArr "json list"
  | JObj "(string \<times> json) list"

text \<open>\<open>d.get(k)\<close> on a dict, and the truth value Python gives a decoded value.\<close>

fun jget :: "string \<Rightarrow> json \<Rightarrow> exc + json" where
  "jget k (JObj kvs) = (case map_of kvs k of None \<Rightarrow> Inr JNull | Some v \<Rightarrow> Inr v)"
| "jget k _ = Inl AttributeError"

text \<open>\<open>d[k]\<close>.\<close>

fun jitem :: "string \<Rightarrow> json \<Rightarrow> exc + json" where
  "jitem k (JObj kvs) = (case map_of kvs k of None \<Rightarrow> Inl KeyError | Some v \<Rightarrow> Inr v)"
| "jitem k _ = Inl TypeError"

fun truthy :: "json \<Rightarrow> bool" where
  "truthy JNull = False"
| "truthy (JBool b) = b"
| "truthy (JNum n) = (n \<noteq> 0)"
| "truthy (JStr s) = (s \<noteq> [])"
| "truthy (JArr xs) = (xs \<noteq> [])"
| "truthy (JObj kvs) = (kvs \<noteq> [])"

text \<open>\<open>int(v)\<close>.\<close>

fun json_int :: "json \<Rightarrow> exc + int" where
  "json_int (JNum n) = Inr n"
| "json_int (JBool b) = Inr (if b then 1 else 0)"
| "json_int (JStr s) = (case py_int s of Some n \<Rightarrow> Inr n | None \<Rightarrow> Inl ValueError)"
| "json_int _ = Inl TypeError"

text \<open>\<open>d[k] = v\<close> on an insertion-ordered dict: an existing key keeps its place.\<close>

fun dict_set :: "'k \<Rightarrow> 'v \<Rightarrow> ('k \<times> 'v) list \<Rightarrow> ('k \<times> 'v) list" where
  "dict_set k v [] = [(k, v)]"
| "dict_set k v ((a, b) # kvs) = (if a = k then (a, v) # kvs else (a, b) # dict_set k v kvs)"

definition dict_pop :: "'k \<Rightarrow> ('k \<times> 'v) list \<Rightarrow> ('k \<times> 'v) list" where
  "dict_pop k kvs = filter (\<lambda>p. fst p \<noteq> k) kvs"

lemma map_of_dict_set [simp]: "map_of (dict_set k v kvs) = (map_of kvs)(k \<mapsto> v)"
  by (induction k v kvs rule: dict_set.induct) (auto simp: fun_eq_iff)

lemma map_of_dict_pop [simp]: "map_of (dict_pop k kvs) = (map_of kvs)(k := None)"
  by (induction kvs) (auto simp: dict_pop_def fun_eq_iff)

lemma keys_dict_set: "map fst (dict_set k v kvs) = (if k \<in> fst ` set kvs then map fst kvs else map fst kvs @ [k])"
  by (induction k v kvs rule: dict_set.induct) auto

section \<open>Rows\<close>

record user =
  usr_id :: int
  usr_email :: string
  usr_hashed_password :: string
  usr_role :: user_role
  usr_is_active :: bool
  usr_gitlab_user_id :: "int option"

definition is_admin :: "user \<Rightarrow> bool" where
  "is_admin u \<longleftrightarrow> usr_role u = ADMIN"

record api_key =
  ak_id :: int
  ak_user_id :: int
  ak_hashed_key :: string
  ak_label :: string
  ak_last_used_at :: "int option"
  ak_revoked :: bool

record audit_log =
  al_user_id :: "int option"
  al_action :: string
  al_app_id :: "int option"

record application =
  app_id :: int
  app_name :: string
  app_slug :: string
  app_description :: "string option"
  app_repo_url :: "string option"
  app_owner :: string
  app_gitlab_project_id :: "int option"
  app_owning_gitlab_group_id :: "int option"
  app_target_cluster_id :: "int option"
  app_origin :: "string option"
  app_source_url :: "string option"
  app_framework :: "string option"
  app_ci_injected :: "bool option"
  app_expose :: "bool option"
  app_auth_enabled :: bool
  app_auth_instance_key :: "string option"
  app_auth_provisioned :: "bool option"
  app_auth_warnings :: "keycloak_auth_warning list option"
  app_last_pipeline_status :: "string option"
  app_last_known_status :: application_status
  app_dev_scale_enabled :: "bool option"

record app_scale_state =
  ss_id :: int
  ss_app_id :: int
  ss_env :: string
  ss_is_stopped :: bool
  ss_stop_reason :: "scale_stop_reason option"
  ss_stopped_at :: "int option"
  ss_stopped_by_user_id :: "int option"
  ss_resumed_at :: "int option"
  ss_resumed_by_user_id :: "int option"

record cluster_connection =
  cl_id :: int
  cl_name :: string
  cl_endpoint :: string
  cl_provider :: cluster_provider
  cl_kubeconfig_secret_ref :: string
  cl_prometheus_url :: "string option"
  cl_loki_url :: "string option"
  cl_argocd_url :: "string option"
  cl_status :: cluster_status
  cl_last_seen_at :: "int option"

record gitlab_group =
  grp_id :: int
  grp_name :: string
  grp_full_path :: string
  grp_synced_at :: "int option"

record gitlab_group_member =
  gm_id :: int
  gm_group_id :: int
  gm_user_id :: "int option"
  gm_username :: "string option"
  gm_access_level :: int
  gm_cnp_user_id :: "int option"
  gm_status :: member_status
  gm_updated_at :: "int option"

record app_member =
  am_id :: int
  am_project_id :: int
  am_user_id :: "int option"
  am_email :: "string option"
  am_access_level :: int
  am_cnp_user_id :: "int option"
  am_status :: member_status
  am_updated_at :: "int option"

record event =
  ev_id :: int
  ev_type :: string
  ev_severity :: string
  ev_source :: string
  ev_app_id :: "int option"
  ev_payload :: "(string \<times> json) list"
  ev_dedup_key :: string
  ev_created_at :: int

record notification =
  nt_id :: int
  nt_event_id :: int
  nt_recipient_user_id :: int
  nt_state :: notification_state
  nt_read_at :: "int option"
  nt_created_at :: int

record notification_preference =
  np_id :: int
  np_user_id :: int
  np_category :: string
  np_enabled :: bool

record keycloak_instance =
  ki_instance_key :: string
  ki_cluster_id :: "int option"
  ki_public_url :: string
  ki_admin_url :: string
  ki_admin_client_id :: string
  ki_provisioner_secret_ref :: string
  ki_enabled :: bool

text \<open>
  The tables of the assistant. Amounts of money are \<open>Numeric(12, 8)\<close> columns: integers counting
  units of 1e-8 USD.
\<close>

record ai_app_settings =
  aas_app_id :: int
  aas_ai_enabled :: bool
  aas_ai_context_mode :: ai_context_mode
  aas_ai_security_scan_enabled :: bool
  aas_ai_security_summary_enabled :: bool
  aas_code_access_warning_accepted_by_user_id :: "int option"
  aas_code_access_warning_accepted_at :: "int option"
  aas_updated_by_user_id :: "int option"

record ai_global_settings =
  ags_id :: int
  ags_assistant_enabled :: "bool option"
  ags_graphical_bot_enabled :: bool
  ags_platform_data_access_enabled :: bool
  ags_app_data_access_enabled :: bool
  ags_allowed_app_ids :: "int list"
  ags_provider :: "string option"
  ags_model :: "string option"
  ags_api_key_encrypted :: "string option"
  ags_updated_by_user_id :: "int option"

record ai_usage_record =
  aur_id :: int
  aur_app_id :: "int option"
  aur_user_id :: "int option"
  aur_provider :: string
  aur_model :: string
  aur_purpose :: ai_purpose
  aur_input_tokens :: int
  aur_output_tokens :: int
  aur_estimated_cost_usd :: "int option"
  aur_created_at :: int

record ai_security_scan =
  scan_id :: int
  scan_app_id :: int
  scan_ref :: string
  scan_status :: string
  scan_triggered_by_user_id :: "int option"
  scan_gitlab_pipeline_id :: "int option"
  scan_callback_token :: string
  scan_error_message :: "string option"
  scan_ai_summary_text :: "string option"
  scan_ai_summarized_at :: "int option"
  scan_created_at :: int

record ai_security_finding =
  fnd_id :: int
  fnd_scan_id :: int
  fnd_tool :: string
  fnd_severity :: string
  fnd_title :: string
  fnd_description :: "string option"
  fnd_file_path :: "string option"
  fnd_line_start :: "int option"
  fnd_line_end :: "int option"
  fnd_confidence :: "string option"
  fnd_remediation :: "string option"
  fnd_status :: string

record platform_doc_chunk =
  pdc_id :: int
  pdc_source :: string
  pdc_path :: string
  pdc_heading :: "string option"
  pdc_ordinal :: int
  pdc_text :: string
  pdc_token_count :: int
  pdc_file_hash :: string

record cloud_credential =
  cc_id :: int
  cc_user_id :: int
  cc_cloud :: cloud_type
  cc_encrypted_credentials :: string

record gitlab_credential =
  gc_id :: int
  gc_user_id :: int
  gc_encrypted_token :: string
  gc_encrypted_refresh_token :: "string option"
  gc_token_expires_at :: "int option"
  gc_namespace :: string

section \<open>The database and its sessions\<close>

record database =
  users :: "user table"
  api_keys :: "api_key table"
  audit_logs :: "audit_log table"
  applications :: "application table"
  scale_states :: "app_scale_state table"
  cluster_connections :: "cluster_connection table"
  gitlab_groups :: "gitlab_group table"
  group_members :: "gitlab_group_member table"
  app_members :: "app_member table"
  events :: "event table"
  notifications :: "notification table"
  preferences :: "notification_preference table"
  keycloak_instances :: "keycloak_instance table"
  ai_app_rows :: "ai_app_settings table"
  ai_global_rows :: "ai_global_settings table"
  ai_usage_records :: "ai_usage_record table"
  security_scans :: "ai_security_scan table"
  security_findings :: "ai_security_finding table"
  doc_chunks :: "platform_doc_chunk table"
  cloud_credentials :: "cloud_credential table"
  gitlab_credentials :: "gitlab_credential table"

definition empty_database :: database where
  "empty_database =
     \<lparr>users = empty_table, api_keys = empty_table, audit_logs = empty_table, applications = empty_table,
      scale_states = empty_table, cluster_connections = empty_table, gitlab_groups = empty_table,
      group_members = empty_table, app_members = empty_table, events = empty_table,
      notifications = empty_table, preferences = empty_table, keycloak_instances = empty_table,
      ai_app_rows = empty_table, ai_global_rows = empty_table, ai_usage_records = empty_table,
      security_scans = empty_table, security_findings = empty_table, doc_chunks = empty_table,
      cloud_credentials = empty_table, gitlab_credentials = empty_table\<rparr>"

record session =
  db :: database
  saved :: database

definition open_session :: "database \<Rightarrow> session" where
  "open_session d = \<lparr>db = d, saved = d\<rparr>"

definition commit :: "session \<Rightarrow> session" where
  "commit s = s\<lparr>saved := db s\<rparr>"

definition rollback :: "session \<Rightarrow> session" where
  "rollback s = s\<lparr>db := saved s\<rparr>"

definition get_application :: "int \<Rightarrow> database \<Rightarrow> application option" where
  "get_application i d = find_row (\<lambda>a. app_id a = i) (applications d)"

definition get_cluster_row :: "int \<Rightarrow> database \<Rightarrow> cluster_connection option" where
  "get_cluster_row i d = find_row (\<lambda>c. cl_id c = i) (cluster_connections d)"

definition get_group_row :: "int \<Rightarrow> database \<Rightarrow> gitlab_group option" where
  "get_group_row i d = find_row (\<lambda>g. grp_id g = i) (gitlab_groups d)"

definition get_user_row :: "int \<Rightarrow> database \<Rightarrow> user option" where
  "get_user_row i d = find_row (\<lambda>u. usr_id u = i) (users d)"

text \<open>Assigning to the attributes of one application object, in the transaction's view.\<close>

definition update_application :: "int \<Rightarrow> (application \<Rightarrow> application) \<Rightarrow> database \<Rightarrow> database" where
  "update_application i f d =
     d\<lparr>applications := update_rows (\<lambda>a. app_id a = i) f (applications d)\<rparr>"

text \<open>
  A blank application row, from which the models of the constructors and the examples start:
  every nullable column null, the defaults of the model class.
\<close>

definition blank_application :: "int \<Rightarrow> string \<Rightarrow> string \<Rightarrow> string \<Rightarrow> application" where
  "blank_application i name slug owner =
     \<lparr>app_id = i, app_name = name, app_slug = slug, app_description = None, app_repo_url = None,
      app_owner = owner, app_gitlab_project_id = None, app_owning_gitlab_group_id = None,
      app_target_cluster_id = None, app_origin = None, app_source_url = None, app_framework = None,
      app_ci_injected = None, app_expose = Some False, app_auth_enabled = False,
      app_auth_instance_key = None, app_auth_provisioned = None, app_auth_warnings = None,
      app_last_pipeline_status = None, app_last_known_status = ONBOARDING,
      app_dev_scale_enabled = Some True\<rparr>"

definition blank_cluster :: "int \<Rightarrow> string \<Rightarrow> cluster_connection" where
  "blank_cluster i name =
     \<lparr>cl_id = i, cl_name = name, cl_endpoint = '''', cl_provider = OTHER,
      cl_kubeconfig_secret_ref = '''', cl_prometheus_url = None, cl_loki_url = None,
      cl_argocd_url = None, cl_status = UNKNOWN, cl_last_seen_at = None\<rparr>"

definition truthy_id :: "int option \<Rightarrow> bool" where
  "truthy_id x \<longleftrightarrow> x \<noteq> None \<and> x \<noteq> Some 0"

definition truthy_str :: "string option \<Rightarrow> bool" where
  "truthy_str x \<longleftrightarrow> x \<noteq> None \<and> x \<noteq> Some []"

lemma get_application_Some:
  "get_application i d = Some a \<Longrightarrow> app_id a = i \<and> a \<in> set (rows (applications d))"
  unfolding get_application_def by (rule find_row_Some)

lemma update_application_frames [simp]:
  "api_keys (update_application i f d) = api_keys d"
  "events (update_application i f d) = events d"
  "notifications (update_application i f d) = notifications d"
  "preferences (update_application i f d) = preferences d"
  "audit_logs (update_application i f d) = audit_logs d"
  "users (update_application i f d) = users d"
  "scale_states (update_application i f d) = scale_states d"
  "cluster_connections (update_application i f d) = cluster_connections d"
  "gitlab_groups (update_application i f d) = gitlab_groups d"
  "group_members (update_application i f d) = group_members d"
  "app_members (update_application i f d) = app_members d"
  "keycloak_instances (update_application i f d) = keycloak_instances d"
  by (simp_all add: update_application_def)

end
