(* ===== verification/Tiers.thy ===== *)
theory Tiers
  imports Database
begin

text \<open>
  backend/services/tier_service.py and backend/api/deps.py: the CNP tiers derived from mirrored
  GitLab memberships, the dependencies that guard the routes, and the authentication of a request
  by API key or JWT. The JWT library and the SHA-256 hash are parameters. The tiers are a linear
  order (\<open>cnp_tier :: linorder\<close>); every gate is an interpretation of \<open>access_gate\<close>.
\<close>

section \<open>The order of the tiers\<close>

definition TIER_ORDER :: "cnp_tier list" where
  "TIER_ORDER = [VIEWER, DEVELOPER, MAINTAINER, OWNER]"

fun index_of :: "'a list \<Rightarrow> 'a \<Rightarrow> nat" where
  "index_of [] y = 0"
| "index_of (x # xs) y = (if x = y then 0 else Suc (index_of xs y))"

definition access_level_to_tier :: "int \<Rightarrow> cnp_tier" where
  "access_level_to_tier access_level =
     (if access_level \<ge> 50 then OWNER
      else if access_level \<ge> 40 then MAINTAINER
      else if access_level \<ge> 30 then DEVELOPER
      else VIEWER)"

definition tier_at_least :: "cnp_tier \<Rightarrow> cnp_tier \<Rightarrow> bool" where
  "tier_at_least tier min_tier \<longleftrightarrow> index_of TIER_ORDER tier \<ge> index_of TIER_ORDER min_tier"

instantiation cnp_tier :: linorder
begin

definition less_eq_cnp_tier :: "cnp_tier \<Rightarrow> cnp_tier \<Rightarrow> bool" where
  "less_eq_cnp_tier a b \<longleftrightarrow> index_of TIER_ORDER a \<le> index_of TIER_ORDER b"

definition less_cnp_tier :: "cnp_tier \<Rightarrow> cnp_tier \<Rightarrow> bool" where
  "less_cnp_tier a b \<longleftrightarrow> index_of TIER_ORDER a < index_of TIER_ORDER b"

instance
proof
  fix a b :: cnp_tier
  show "a \<le> b \<Longrightarrow> b \<le> a \<Longrightarrow> a = b"
    by (cases a; cases b) (auto simp: less_eq_cnp_tier_def TIER_ORDER_def)
qed (auto simp: less_eq_cnp_tier_def less_cnp_tier_def)

end

lemma tier_at_least_le: "tier_at_least t m \<longleftrightarrow> m \<le> t"
  by (simp add: tier_at_least_def less_eq_cnp_tier_def)

lemma viewer_least [simp]: "VIEWER \<le> t"
  by (cases t) (simp_all add: less_eq_cnp_tier_def TIER_ORDER_def)

lemma tier_mono: "a \<le> b \<Longrightarrow> access_level_to_tier a \<le> access_level_to_tier b"
  by (auto simp: access_level_to_tier_def less_eq_cnp_tier_def TIER_ORDER_def)

lemma tier_max: "access_level_to_tier (max a b) = max (access_level_to_tier a) (access_level_to_tier b)"
  by (metis max.absorb1 max.absorb2 nle_le tier_mono)

section \<open>Effective tier of a user on an application\<close>

definition project_levels :: "int \<Rightarrow> application \<Rightarrow> database \<Rightarrow> int list" where
  "project_levels user_id app d =
     (if truthy_id (app_gitlab_project_id app) then
        map am_access_level
          (select_rows (\<lambda>m. Some (am_project_id m) = app_gitlab_project_id app
                          \<and> am_cnp_user_id m = Some user_id \<and> am_status m = ACTIVE) (app_members d))
      else [])"

definition group_levels :: "int \<Rightarrow> application \<Rightarrow> database \<Rightarrow> int list" where
  "group_levels user_id app d =
     (if truthy_id (app_owning_gitlab_group_id app) then
        map gm_access_level
          (select_rows (\<lambda>m. Some (gm_group_id m) = app_owning_gitlab_group_id app
                          \<and> gm_cnp_user_id m = Some user_id \<and> gm_status m = ACTIVE) (group_members d))
      else [])"

definition access_levels :: "int \<Rightarrow> application \<Rightarrow> database \<Rightarrow> int list" where
  "access_levels user_id app d = project_levels user_id app d @ group_levels user_id app d"

definition get_effective_tier :: "int \<Rightarrow> int \<Rightarrow> database \<Rightarrow> cnp_tier" where
  "get_effective_tier user_id aid d =
     (case get_application aid d of
        None \<Rightarrow> VIEWER
      | Some app \<Rightarrow>
          (let levels = access_levels user_id app d in
           if levels = [] then VIEWER else access_level_to_tier (Max (set levels))))"

lemma tier_of_Max:
  assumes "levels \<noteq> []"
  shows "m \<le> access_level_to_tier (Max (set levels)) \<longleftrightarrow> (\<exists>l \<in> set levels. m \<le> access_level_to_tier l)"
proof
  assume "m \<le> access_level_to_tier (Max (set levels))"
  moreover have "Max (set levels) \<in> set levels" using assms by (simp add: Max_in)
  ultimately show "\<exists>l \<in> set levels. m \<le> access_level_to_tier l" by blast
next
  assume "\<exists>l \<in> set levels. m \<le> access_level_to_tier l"
  then obtain l where "l \<in> set levels" and "m \<le> access_level_to_tier l" by blast
  moreover from this have "l \<le> Max (set levels)" by simp
  ultimately show "m \<le> access_level_to_tier (Max (set levels))"
    using tier_mono order_trans by blast
qed

text \<open>
  An active membership of the application that carries the level: of its project, or of its owning
  group.
\<close>

definition active_level :: "int \<Rightarrow> application \<Rightarrow> database \<Rightarrow> int \<Rightarrow> bool" where
  "active_level user_id app d l \<longleftrightarrow>
     (\<exists>m \<in> set (rows (app_members d)).
        truthy_id (app_gitlab_project_id app) \<and> Some (am_project_id m) = app_gitlab_project_id app
        \<and> am_cnp_user_id m = Some user_id \<and> am_status m = ACTIVE \<and> am_access_level m = l)
   \<or> (\<exists>m \<in> set (rows (group_members d)).
        truthy_id (app_owning_gitlab_group_id app) \<and> Some (gm_group_id m) = app_owning_gitlab_group_id app
        \<and> gm_cnp_user_id m = Some user_id \<and> gm_status m = ACTIVE \<and> gm_access_level m = l)"

lemma access_levels_active: "l \<in> set (access_levels user_id app d) \<longleftrightarrow> active_level user_id app d l"
  by (auto simp: access_levels_def project_levels_def group_levels_def active_level_def table_simps)

text \<open>
  C13: the effective tier is the best tier an active membership of the project or of the owning
  group grants: a user reaches a tier above viewer exactly when one of them grants it.
\<close>

theorem effective_tier_spec:
  "m \<le> get_effective_tier user_id aid d \<longleftrightarrow>
     m = VIEWER \<or> (\<exists>app l. get_application aid d = Some app \<and> active_level user_id app d l
                          \<and> m \<le> access_level_to_tier l)"
proof (cases "get_application aid d")
  case None
  then show ?thesis by (auto simp: get_effective_tier_def order.antisym)
next
  case (Some app)
  let ?ls = "access_levels user_id app d"
  show ?thesis
  proof (cases "?ls = []")
    case True
    then have "\<not> active_level user_id app d l" for l using access_levels_active[of l user_id app d] by simp
    with Some True show ?thesis by (auto simp: get_effective_tier_def order.antisym)
  next
    case False
    have "m \<le> get_effective_tier user_id aid d \<longleftrightarrow> (\<exists>l \<in> set ?ls. m \<le> access_level_to_tier l)"
      using tier_of_Max[OF False, of m] False Some by (simp add: get_effective_tier_def)
    also have "\<dots> \<longleftrightarrow> (\<exists>l. active_level user_id app d l \<and> m \<le> access_level_to_tier l)"
      by (auto simp: access_levels_active)
    finally show ?thesis
      using Some False by (auto simp: access_levels_active[symmetric] neq_Nil_conv)
  qed
qed

lemma effective_tier_mono:
  assumes "get_application aid d' = get_application aid d"
    and "\<And>app l. get_application aid d = Some app \<Longrightarrow> active_level user_id app d l \<Longrightarrow>
           \<exists>l'. l \<le> l' \<and> active_level user_id app d' l'"
  shows "get_effective_tier user_id aid d \<le> get_effective_tier user_id aid d'"
proof -
  let ?m = "get_effective_tier user_id aid d"
  have "?m = VIEWER \<or> (\<exists>app l. get_application aid d = Some app \<and> active_level user_id app d l
                          \<and> ?m \<le> access_level_to_tier l)"
    using effective_tier_spec by blast
  then show ?thesis
  proof
    assume "\<exists>app l. get_application aid d = Some app \<and> active_level user_id app d l
              \<and> ?m \<le> access_level_to_tier l"
    then obtain app l where a: "get_application aid d = Some app" "active_level user_id app d l"
      "?m \<le> access_level_to_tier l" by blast
    from assms(2)[OF a(1,2)] obtain l' where l': "l \<le> l'" "active_level user_id app d' l'" by blast
    have "?m \<le> access_level_to_tier l'" using a(3) tier_mono[OF l'(1)] by (rule order_trans)
    with a(1) l'(2) assms(1) show ?thesis by (subst effective_tier_spec) auto
  qed simp
qed

text \<open>
  Memberships that are not active (pending invitations, members who left) grant nothing: a user
  without an active membership of the application has the viewer tier.
\<close>

theorem inactive_members_are_viewers:
  assumes "\<And>m. m \<in> set (rows (app_members d)) \<Longrightarrow> am_cnp_user_id m = Some user_id \<Longrightarrow> am_status m \<noteq> ACTIVE"
    and "\<And>m. m \<in> set (rows (group_members d)) \<Longrightarrow> gm_cnp_user_id m = Some user_id \<Longrightarrow> gm_status m \<noteq> ACTIVE"
  shows "get_effective_tier user_id aid d = VIEWER"
proof (cases "get_application aid d")
  case (Some app)
  have "\<not> active_level user_id app d l" for l
    using assms by (auto simp: active_level_def)
  then have "access_levels user_id app d = []"
    using access_levels_active[of _ user_id app d] by (metis ex_in_conv set_empty)
  with Some show ?thesis by (simp add: get_effective_tier_def)
qed (simp add: get_effective_tier_def)

section \<open>Gates\<close>

text \<open>
  The contract of every tier gate: it never refuses a higher tier what it grants a lower one. Its
  clients get that a gate is a minimum tier, and that gaining memberships never loses access.
\<close>

locale access_gate =
  fixes allows :: "cnp_tier \<Rightarrow> bool"
  assumes upward: "allows t \<Longrightarrow> t \<le> t' \<Longrightarrow> allows t'"
begin

lemma keeps_access:
  assumes "allows (get_effective_tier user_id aid d)"
    and "get_effective_tier user_id aid d \<le> get_effective_tier user_id aid d'"
  shows "allows (get_effective_tier user_id aid d')"
  using assms by (rule upward)

lemma allows_by_level:
  assumes "get_application aid d = Some app" and "active_level user_id app d l"
    and "allows (access_level_to_tier l)"
  shows "allows (get_effective_tier user_id aid d)"
proof -
  have "access_level_to_tier l \<le> get_effective_tier user_id aid d"
    using assms(1,2) by (subst effective_tier_spec) blast
  with assms(3) show ?thesis by (rule upward)
qed

lemma allowed_needs_level:
  assumes "allows (get_effective_tier user_id aid d)" and "\<not> allows VIEWER"
  shows "\<exists>app l. get_application aid d = Some app \<and> active_level user_id app d l
           \<and> allows (access_level_to_tier l)"
proof -
  let ?t = "get_effective_tier user_id aid d"
  have "?t = VIEWER \<or> (\<exists>app l. get_application aid d = Some app \<and> active_level user_id app d l
          \<and> ?t \<le> access_level_to_tier l)"
    using effective_tier_spec by blast
  with assms show ?thesis by (metis upward)
qed

end

text \<open>The audit row of \<open>AuditService.log_action\<close> (added and flushed, committed by the caller).\<close>

definition log_action :: "int \<Rightarrow> string \<Rightarrow> int option \<Rightarrow> (session, unit) prog" where
  "log_action user_id action aid =
     modify (\<lambda>s. s\<lparr>db := (db s)\<lparr>audit_logs := insert_row
       (\<lambda>_. \<lparr>al_user_id = Some user_id, al_action = action, al_app_id = aid\<rparr>)
       (audit_logs (db s))\<rparr>\<rparr>)"

fun tier_value :: "cnp_tier \<Rightarrow> string" where
  "tier_value VIEWER = ''viewer''"
| "tier_value DEVELOPER = ''developer''"
| "tier_value MAINTAINER = ''maintainer''"
| "tier_value OWNER = ''owner''"

text \<open>
  \<open>require_tier\<close>: \<open>raw_id\<close> is the application id of the path, as text. An admin passes with an
  audit row; anybody else needs the tier.
\<close>

definition require_tier :: "cnp_tier \<Rightarrow> string option \<Rightarrow> user \<Rightarrow> (session, user) prog" where
  "require_tier min_tier raw_id current_user =
     (if is_admin current_user then
        (if truthy_str raw_id then
           (case py_int (the raw_id) of
              None \<Rightarrow> raise_exc ValueError
            | Some aid \<Rightarrow>
                bnd (log_action (usr_id current_user) (''ADMIN_BYPASS_TIER:'' @ tier_value min_tier) (Some aid))
                  (\<lambda>_. ret current_user))
         else ret current_user)
      else if \<not> truthy_str raw_id then raise_exc (HTTPException 403)
      else
        (case py_int (the raw_id) of
           None \<Rightarrow> raise_exc ValueError
         | Some aid \<Rightarrow>
             bnd (gets (\<lambda>s. get_effective_tier (usr_id current_user) aid (db s))) (\<lambda>tier.
               if index_of TIER_ORDER tier < index_of TIER_ORDER min_tier then raise_exc (HTTPException 403)
               else ret current_user)))"

definition require_admin :: "user \<Rightarrow> exc + user" where
  "require_admin current_user = (if \<not> is_admin current_user then Inl (HTTPException 403) else Inr current_user)"

definition require_role :: "user_role \<Rightarrow> user \<Rightarrow> exc + user" where
  "require_role role current_user =
     (if usr_role current_user \<noteq> role \<and> usr_role current_user \<noteq> ADMIN then Inl (HTTPException 403)
      else Inr current_user)"

interpretation tier_gate: access_gate "\<lambda>t. \<not> index_of TIER_ORDER t < index_of TIER_ORDER min_tier"
  for min_tier
  by unfold_locales (auto simp: less_eq_cnp_tier_def)

lemma index_less: "index_of TIER_ORDER t < index_of TIER_ORDER m \<longleftrightarrow> t < m"
  by (simp add: less_cnp_tier_def)

lemma require_tier_user:
  assumes "\<not> is_admin u"
  shows "require_tier m (Some (string_of_int aid)) u s =
           (if m \<le> get_effective_tier (usr_id u) aid (db s) then (Inr u, s) else (Inl (HTTPException 403), s))"
  using assms string_of_int_nonempty[of aid]
  by (auto simp: require_tier_def truthy_str_def prog_simps py_int_string_of_int index_less)

text \<open>
  The tier dependency of a route lets a user through exactly when the user is an admin or
  reaches the tier on the application; a refusal is a 403 and changes nothing; an admin's pass adds
  one audit row naming the admin, the tier and the application.
\<close>

theorem require_tier_correct:
  "require_tier m (Some (string_of_int aid)) u s =
     (if is_admin u then
        (Inr u, s\<lparr>db := (db s)\<lparr>audit_logs := insert_row
           (\<lambda>_. \<lparr>al_user_id = Some (usr_id u), al_action = ''ADMIN_BYPASS_TIER:'' @ tier_value m,
                 al_app_id = Some aid\<rparr>) (audit_logs (db s))\<rparr>\<rparr>)
      else if m \<le> get_effective_tier (usr_id u) aid (db s) then (Inr u, s)
      else (Inl (HTTPException 403), s))"
proof (cases "is_admin u")
  case True
  then show ?thesis using string_of_int_nonempty[of aid]
    by (simp add: require_tier_def truthy_str_def prog_simps py_int_string_of_int log_action_def)
next
  case False
  then show ?thesis using require_tier_user[OF False] by simp
qed

section \<open>Authentication of a request\<close>

text \<open>
  \<open>get_current_user\<close>. The hash of API keys and the JWT decoder (\<open>None\<close> where it raises
  \<open>JWTError\<close>: bad signature, expired) are parameters; the claims are the two the code reads.
\<close>

record claims =
  claim_sub :: "string option"
  claim_type :: "string option"

definition authenticate_api_key ::
  "(string \<Rightarrow> string) \<Rightarrow> int \<Rightarrow> string \<Rightarrow> (session, user) prog" where
  "authenticate_api_key get_api_key_hash now key =
     bnd (gets (\<lambda>s. find_row (\<lambda>k. ak_hashed_key k = get_api_key_hash key \<and> ak_revoked k = False)
                    (api_keys (db s)))) (\<lambda>rec.
       case rec of
         None \<Rightarrow> raise_exc (HTTPException 401)
       | Some k \<Rightarrow>
           bnd (modify (\<lambda>s. s\<lparr>db := (db s)\<lparr>api_keys := update_rows (\<lambda>r. ak_id r = ak_id k)
                  (\<lambda>r. r\<lparr>ak_last_used_at := Some now\<rparr>) (api_keys (db s))\<rparr>\<rparr>)) (\<lambda>_.
           bnd (modify commit) (\<lambda>_.
           bnd (gets (\<lambda>s. get_user_row (ak_user_id k) (db s))) (\<lambda>u.
             case u of
               None \<Rightarrow> raise_exc (HTTPException 401)
             | Some user \<Rightarrow> if \<not> usr_is_active user then raise_exc (HTTPException 401) else ret user))))"

definition authenticate_jwt :: "(string \<Rightarrow> claims option) \<Rightarrow> string \<Rightarrow> (session, user) prog" where
  "authenticate_jwt jwt_decode token =
     (case jwt_decode token of
        None \<Rightarrow> raise_exc (HTTPException 401)
      | Some payload \<Rightarrow>
          (case claim_sub payload of
             None \<Rightarrow> raise_exc (HTTPException 401)
           | Some user_id \<Rightarrow>
               if claim_type payload \<noteq> Some ''access'' then raise_exc (HTTPException 401)
               else (case py_int user_id of
                       None \<Rightarrow> raise_exc ValueError
                     | Some i \<Rightarrow>
                         bnd (gets (\<lambda>s. get_user_row i (db s))) (\<lambda>u.
                           case u of
                             None \<Rightarrow> raise_exc (HTTPException 401)
                           | Some user \<Rightarrow>
                               if \<not> usr_is_active user then raise_exc (HTTPException 401) else ret user))))"

definition get_current_user ::
  "(string \<Rightarrow> string) \<Rightarrow> (string \<Rightarrow> claims option) \<Rightarrow> int \<Rightarrow> string option \<Rightarrow> string option \<Rightarrow> (session, user) prog" where
  "get_current_user get_api_key_hash jwt_decode now api_key_header token =
     (if truthy_str api_key_header then authenticate_api_key get_api_key_hash now (the api_key_header)
      else if truthy_str token then authenticate_jwt jwt_decode (the token)
      else raise_exc (HTTPException 401))"

lemma authenticate_api_key_user:
  assumes "authenticate_api_key h now key s = (Inr u, s')"
  shows "usr_is_active u \<and> u \<in> set (rows (users (db s)))
    \<and> (\<exists>k \<in> set (rows (api_keys (db s))). ak_hashed_key k = h key \<and> \<not> ak_revoked k \<and> ak_user_id k = usr_id u)"
  using assms
  by (auto simp: authenticate_api_key_def prog_simps commit_def get_user_row_def
      dest!: find_row_Some split: option.splits if_splits)

lemma authenticate_jwt_user:
  assumes "authenticate_jwt dec token s = (Inr u, s')"
  shows "usr_is_active u \<and> u \<in> set (rows (users (db s))) \<and> s' = s
    \<and> (\<exists>c sub. dec token = Some c \<and> claim_type c = Some ''access'' \<and> claim_sub c = Some sub
             \<and> py_int sub = Some (usr_id u))"
  using assms
  by (auto simp: authenticate_jwt_def prog_simps get_user_row_def dest!: find_row_Some
      split: option.splits if_splits)

text \<open>
  C14: a request is only ever authenticated as an active user of the database, and either by a
  non-revoked API key of that user or by a decodable token of type access whose subject is that
  user (a refresh token never authenticates).
\<close>

theorem get_current_user_sound:
  assumes "get_current_user h dec now header token s = (Inr u, s')"
  shows "usr_is_active u \<and> u \<in> set (rows (users (db s)))
    \<and> ((\<exists>key. header = Some key \<and> (\<exists>k \<in> set (rows (api_keys (db s))).
            ak_hashed_key k = h key \<and> \<not> ak_revoked k \<and> ak_user_id k = usr_id u))
      \<or> (\<exists>t c sub. token = Some t \<and> dec t = Some c \<and> claim_type c = Some ''access''
            \<and> claim_sub c = Some sub \<and> py_int sub = Some (usr_id u)))"
proof (cases "truthy_str header")
  case True
  then obtain key where "header = Some key" by (auto simp: truthy_str_def)
  with assms True authenticate_api_key_user[of h now key s u s'] show ?thesis
    by (auto simp: get_current_user_def)
next
  case False
  with assms have t: "truthy_str token" and j: "authenticate_jwt dec (the token) s = (Inr u, s')"
    by (auto simp: get_current_user_def prog_simps split: if_splits)
  from t obtain tk where "token = Some tk" by (auto simp: truthy_str_def)
  with authenticate_jwt_user[OF j] show ?thesis by auto
qed

definition alice :: user where
  "alice = \<lparr>usr_id = 7, usr_email = ''alice@corp.fr'', usr_hashed_password = ''h'', usr_role = DEV,
            usr_is_active = True, usr_gitlab_user_id = Some 70\<rparr>"

definition alice_db :: database where
  "alice_db = empty_database\<lparr>users := \<lparr>rows = [alice], seq = 8\<rparr>\<rparr>"

theorem get_current_user_sound_witness:
  "usr_is_active alice"
proof -
  have "get_current_user id (\<lambda>_. Some \<lparr>claim_sub = Some ''7'', claim_type = Some ''access''\<rparr>) 0 None
          (Some ''jwt'') (open_session alice_db) = (Inr alice, open_session alice_db)"
    by code_simp
  from get_current_user_sound[OF this] show ?thesis by simp
qed

theorem inactive_members_are_viewers_witness:
  "get_effective_tier 7 1 alice_db = VIEWER"
  by (rule inactive_members_are_viewers) (simp_all add: alice_db_def empty_database_def empty_table_def)

end
