(* ===== verification/Vault.thy ===== *)
theory Vault
  imports Database
begin

text \<open>
  backend/vault/client.py over the KV version 2 store of the hvac library, a parameter
  (\<open>hvac\<close>): reading, writing, patching and deleting a path may each fail. \<open>hvac_kv2\<close> states the
  documented behaviour of that store; \<open>secret_store\<close> is the interface VaultClient offers to the
  services, and a sublocale proves that the client discharges it over any such store.
\<close>

section \<open>The KV store and the client\<close>

type_synonym dict = "(string \<times> string) list"

record 'v hvac =
  kv_read :: "'v \<Rightarrow> string \<Rightarrow> exc + dict"
  kv_write :: "string \<Rightarrow> dict \<Rightarrow> ('v, unit) prog"
  kv_patch :: "string \<Rightarrow> dict \<Rightarrow> ('v, unit) prog"
  kv_delete :: "string \<Rightarrow> ('v, unit) prog"

definition get_secret :: "'v hvac \<Rightarrow> string \<Rightarrow> ('v, dict) prog" where
  "get_secret hv path = (\<lambda>v. (kv_read hv v path, v))"

definition put_secret :: "'v hvac \<Rightarrow> string \<Rightarrow> dict \<Rightarrow> ('v, unit) prog" where
  "put_secret hv path secret = kv_write hv path secret"

definition delete_secret :: "'v hvac \<Rightarrow> string \<Rightarrow> ('v, unit) prog" where
  "delete_secret hv path = kv_delete hv path"

definition patch_secret :: "'v hvac \<Rightarrow> string \<Rightarrow> dict \<Rightarrow> ('v, unit) prog" where
  "patch_secret hv path secret =
     try_except (kv_patch hv path secret)
       (\<lambda>e. if e = InvalidPath then kv_write hv path secret else raise_exc e)"

definition delete_secret_key :: "'v hvac \<Rightarrow> string \<Rightarrow> string \<Rightarrow> ('v, unit) prog" where
  "delete_secret_key hv path key = (\<lambda>v.
     (case kv_read hv v path of
        Inl e \<Rightarrow> if e = InvalidPath then (Inr (), v) else (Inl e, v)
      | Inr data \<Rightarrow>
          if key \<notin> fst ` set data then (Inr (), v)
          else kv_write hv path (dict_pop key data) v))"

section \<open>Interfaces\<close>

type_synonym contents = "string \<Rightarrow> (string \<rightharpoonup> string) option"

definition data_at :: "contents \<Rightarrow> string \<Rightarrow> (string \<rightharpoonup> string)" where
  "data_at c path = (case c path of None \<Rightarrow> Map.empty | Some m \<Rightarrow> m)"

text \<open>
  The documented behaviour of the KV v2 engine through hvac: a failed call changes nothing; a
  missing path is the only cause of \<open>InvalidPath\<close>; a write replaces the keys of one path; a patch
  merges into an existing path.
\<close>

locale hvac_kv2 =
  fixes hv :: "'v hvac" and contents :: "'v \<Rightarrow> contents"
  assumes read_ok: "kv_read hv v p = Inr d \<Longrightarrow> contents v p = Some (map_of d)"
    and read_missing: "kv_read hv v p = Inl InvalidPath \<Longrightarrow> contents v p = None"
    and write_ok: "kv_write hv p d v = (Inr (), v') \<Longrightarrow> contents v' = (contents v)(p \<mapsto> map_of d)"
    and write_fail: "kv_write hv p d v = (Inl e, v') \<Longrightarrow> contents v' = contents v"
    and patch_ok: "kv_patch hv p d v = (Inr (), v') \<Longrightarrow>
          contents v p \<noteq> None \<and> contents v' = (contents v)(p \<mapsto> data_at (contents v) p ++ map_of d)"
    and patch_fail: "kv_patch hv p d v = (Inl e, v') \<Longrightarrow>
          contents v' = contents v \<and> (e = InvalidPath \<longrightarrow> contents v p = None)"
    and delete_ok: "kv_delete hv p v = (Inr (), v') \<Longrightarrow> contents v' = (contents v)(p := None)"
    and delete_fail: "kv_delete hv p v = (Inl e, v') \<Longrightarrow> contents v' = contents v"

text \<open>
  What the services rely on: a read sees the current keys; a patch adds keys to one path and keeps
  its others, creating the path if needed; deleting a key removes exactly that key of that path.
\<close>

locale secret_store =
  fixes get :: "string \<Rightarrow> ('v, dict) prog"
    and patch :: "string \<Rightarrow> dict \<Rightarrow> ('v, unit) prog"
    and del_key :: "string \<Rightarrow> string \<Rightarrow> ('v, unit) prog"
    and contents :: "'v \<Rightarrow> contents"
  assumes get_state: "get p v = (r, v') \<Longrightarrow> v' = v"
    and get_ok: "get p v = (Inr d, v') \<Longrightarrow> contents v p = Some (map_of d)"
    and get_missing: "get p v = (Inl InvalidPath, v') \<Longrightarrow> contents v p = None"
    and patch_done: "patch p d v = (Inr (), v') \<Longrightarrow>
          contents v' = (contents v)(p \<mapsto> data_at (contents v) p ++ map_of d)"
    and patch_failed: "patch p d v = (Inl e, v') \<Longrightarrow> contents v' = contents v"
    and del_done: "del_key p k v = (Inr (), v') \<Longrightarrow>
          (\<forall>q. q \<noteq> p \<longrightarrow> contents v' q = contents v q)
          \<and> data_at (contents v') p = (data_at (contents v) p)(k := None)"
    and del_failed: "del_key p k v = (Inl e, v') \<Longrightarrow> contents v' = contents v"
begin

lemma patch_other_path: "patch p d v = (r, v') \<Longrightarrow> q \<noteq> p \<Longrightarrow> contents v' q = contents v q"
  by (cases r) (auto dest: patch_done patch_failed)

lemma patch_other_key:
  assumes "patch p d v = (r, v')" and "k \<notin> fst ` set d"
  shows "data_at (contents v') p k = data_at (contents v) p k"
proof (cases r)
  case (Inl e)
  with assms(1) show ?thesis by (auto dest: patch_failed)
next
  case (Inr u)
  from assms(2) have "map_of d k = None" by (simp add: map_of_eq_None_iff)
  moreover have "data_at (contents v') p = data_at (contents v) p ++ map_of d"
    using patch_done[of p d v v'] assms(1) Inr by (simp add: data_at_def)
  ultimately show ?thesis by (simp add: map_add_def)
qed

lemma del_other_path: "del_key p k v = (r, v') \<Longrightarrow> q \<noteq> p \<Longrightarrow> contents v' q = contents v q"
  by (cases r) (auto dest: del_done del_failed)

lemma del_other_key:
  "del_key p k v = (r, v') \<Longrightarrow> k' \<noteq> k \<Longrightarrow> data_at (contents v') p k' = data_at (contents v) p k'"
  by (cases r) (auto dest!: del_done del_failed)

lemma patch_then_get:
  assumes "patch p d v = (Inr (), v')" and "get p v' = (Inr d', v'')" and "map_of d k = Some x"
  shows "map_of d' k = Some x"
proof -
  have "contents v' p = Some (map_of d')" using assms(2) by (rule get_ok)
  with patch_done[OF assms(1)] have "data_at (contents v) p ++ map_of d = map_of d'" by simp
  with assms(3) show ?thesis by (metis map_add_find_right)
qed

end

sublocale hvac_kv2 \<subseteq> secret_store "get_secret hv" "patch_secret hv" "delete_secret_key hv" contents
proof
  fix p v r v' assume "get_secret hv p v = (r, v')"
  then show "v' = v" by (simp add: get_secret_def)
next
  fix p v d v' assume "get_secret hv p v = (Inr d, v')"
  then show "contents v p = Some (map_of d)" by (auto simp: get_secret_def dest: read_ok)
next
  fix p v v' assume "get_secret hv p v = (Inl InvalidPath, v')"
  then show "contents v p = None" by (auto simp: get_secret_def dest: read_missing)
next
  fix p d v v' assume a: "patch_secret hv p d v = (Inr (), v')"
  show "contents v' = (contents v)(p \<mapsto> data_at (contents v) p ++ map_of d)"
  proof (cases "kv_patch hv p d v")
    case (Pair r v1)
    show ?thesis
    proof (cases r)
      case (Inl e)
      with a Pair have e: "e = InvalidPath" and w: "kv_write hv p d v1 = (Inr (), v')"
        by (auto simp: patch_secret_def prog_simps split: if_splits)
      from patch_fail[OF Pair[unfolded Inl]] e have "contents v1 = contents v" "contents v p = None"
        by auto
      with write_ok[OF w] show ?thesis by (simp add: data_at_def)
    next
      case (Inr u)
      with a Pair have "kv_patch hv p d v = (Inr (), v')" by (auto simp: patch_secret_def prog_simps)
      from patch_ok[OF this] show ?thesis by simp
    qed
  qed
next
  fix p d v e v' assume a: "patch_secret hv p d v = (Inl e, v')"
  obtain r v1 where p: "kv_patch hv p d v = (r, v1)" by fastforce
  with a obtain e1 where r: "r = Inl e1" by (cases r) (auto simp: patch_secret_def prog_simps)
  from patch_fail[OF p[unfolded r]] have "contents v1 = contents v" by simp
  with a p r show "contents v' = contents v"
    by (auto simp: patch_secret_def prog_simps split: if_splits dest: write_fail)
next
  fix p k v v' assume a: "delete_secret_key hv p k v = (Inr (), v')"
  show "(\<forall>q. q \<noteq> p \<longrightarrow> contents v' q = contents v q)
          \<and> data_at (contents v') p = (data_at (contents v) p)(k := None)"
  proof (cases "kv_read hv v p")
    case (Inl e)
    with a have "e = InvalidPath" "v' = v" by (auto simp: delete_secret_key_def split: if_splits)
    with read_missing Inl show ?thesis by (auto simp: data_at_def)
  next
    case (Inr d)
    note m = read_ok[OF Inr]
    show ?thesis
    proof (cases "k \<in> fst ` set d")
      case True
      with a Inr have "kv_write hv p (dict_pop k d) v = (Inr (), v')"
        by (simp add: delete_secret_key_def)
      from write_ok[OF this] m show ?thesis by (auto simp: data_at_def)
    next
      case False
      with a Inr m show ?thesis
        by (auto simp: delete_secret_key_def data_at_def fun_eq_iff map_of_eq_None_iff)
    qed
  qed
next
  fix p k v e v' assume "delete_secret_key hv p k v = (Inl e, v')"
  then show "contents v' = contents v"
    by (auto simp: delete_secret_key_def split: sum.splits if_splits dest: write_fail)
qed

context hvac_kv2
begin

lemma client_is_store: "secret_store (get_secret hv) (patch_secret hv) (delete_secret_key hv) contents"
  by unfold_locales

end

lemmas vault_patch_done = secret_store.patch_done [OF hvac_kv2.client_is_store]
  and vault_patch_failed = secret_store.patch_failed [OF hvac_kv2.client_is_store]
  and vault_patch_other_path = secret_store.patch_other_path [OF hvac_kv2.client_is_store]
  and vault_patch_other_key = secret_store.patch_other_key [OF hvac_kv2.client_is_store]
  and vault_del_done = secret_store.del_done [OF hvac_kv2.client_is_store]
  and vault_del_failed = secret_store.del_failed [OF hvac_kv2.client_is_store]
  and vault_del_other_path = secret_store.del_other_path [OF hvac_kv2.client_is_store]
  and vault_del_other_key = secret_store.del_other_key [OF hvac_kv2.client_is_store]
  and vault_get_ok = secret_store.get_ok [OF hvac_kv2.client_is_store]
  and vault_get_missing = secret_store.get_missing [OF hvac_kv2.client_is_store]
  and vault_patch_then_get = secret_store.patch_then_get [OF hvac_kv2.client_is_store]

section \<open>A store that behaves as documented\<close>

text \<open>
  A KV engine that never fails, as a finite association list: it is not a model of Vault, it shows
  that the laws of \<open>hvac_kv2\<close> can hold and serves the examples.
\<close>

definition ref_kv :: "(string \<times> dict) list hvac" where
  "ref_kv =
     \<lparr>kv_read = (\<lambda>v p. case map_of v p of None \<Rightarrow> Inl InvalidPath | Some d \<Rightarrow> Inr d),
      kv_write = (\<lambda>p d v. (Inr (), (p, d) # dict_pop p v)),
      kv_patch = (\<lambda>p d v. case map_of v p of None \<Rightarrow> (Inl InvalidPath, v)
                         | Some old \<Rightarrow> (Inr (), (p, d @ old) # dict_pop p v)),
      kv_delete = (\<lambda>p v. (Inr (), dict_pop p v))\<rparr>"

definition ref_contents :: "(string \<times> dict) list \<Rightarrow> contents" where
  "ref_contents v p = map_option map_of (map_of v p)"

interpretation ref_store: hvac_kv2 ref_kv ref_contents
  by unfold_locales
    (auto simp: ref_kv_def ref_contents_def data_at_def fun_eq_iff split: option.splits)

end
