(* ===== verification/Env_Vars.thy ===== *)
theory Env_Vars
  imports Tiers Vault "HOL-Library.List_Lexorder"
begin

text \<open>
  backend/services/env_var_service.py and the routes of backend/api/routes/env_vars.py: the
  environment variables of an application, kept in Vault and nowhere else, the OIDC keys that
  Keycloak manages, and the tier gates of the routes. A handler runs in a world of the database
  session and the Vault store.
\<close>

section \<open>The world of a handler\<close>

record 'v services =
  sess :: session
  vault :: 'v

definition on_sess :: "(session, 'a) prog \<Rightarrow> (('v, 'z) services_scheme, 'a) prog" where
  "on_sess m = (\<lambda>w. case m (sess w) of (r, s) \<Rightarrow> (r, w\<lparr>sess := s\<rparr>))"

definition on_vault :: "('v, 'a) prog \<Rightarrow> (('v, 'z) services_scheme, 'a) prog" where
  "on_vault m = (\<lambda>w. case m (vault w) of (r, v) \<Rightarrow> (r, w\<lparr>vault := v\<rparr>))"

definition from_db :: "(database \<Rightarrow> 'a) \<Rightarrow> (('v, 'z) services_scheme, 'a) prog" where
  "from_db f = gets (\<lambda>w. f (db (sess w)))"

lemma on_sess_apply [prog_simps]: "on_sess m w = (fst (m (sess w)), w\<lparr>sess := snd (m (sess w))\<rparr>)"
  by (simp add: on_sess_def split: prod.split)

lemma on_vault_apply [prog_simps]: "on_vault m w = (fst (m (vault w)), w\<lparr>vault := snd (m (vault w))\<rparr>)"
  by (simp add: on_vault_def split: prod.split)

lemma from_db_apply [prog_simps]: "from_db f w = (Inr (f (db (sess w))), w)"
  by (simp add: from_db_def prog_simps)

section \<open>The service\<close>

definition VALID_ENVS :: "string list" where
  "VALID_ENVS = [''dev'', ''prod'']"

definition MANAGED_ENV_KEYS :: "string list" where
  "MANAGED_ENV_KEYS = [''OIDC_ISSUER_URL'', ''OIDC_CLIENT_ID'', ''OIDC_CLIENT_SECRET'']"

definition UNGROUPED_SLUG :: string where
  "UNGROUPED_SLUG = ''_ungrouped''"

definition managed_keys :: "application \<Rightarrow> string list" where
  "managed_keys app = (if app_auth_enabled app then MANAGED_ENV_KEYS else [])"

definition validate_env :: "string \<Rightarrow> ('s, unit) prog" where
  "validate_env env = (if env \<notin> set VALID_ENVS then raise_exc (HTTPException 422) else ret ())"

definition resolve_group_slug :: "int option \<Rightarrow> database \<Rightarrow> string" where
  "resolve_group_slug owning_gitlab_group_id d =
     (if \<not> truthy_id owning_gitlab_group_id then UNGROUPED_SLUG
      else (case get_group_row (the owning_gitlab_group_id) d of
              Some g \<Rightarrow> grp_full_path g
            | None \<Rightarrow> UNGROUPED_SLUG))"

definition vault_env_path :: "string \<Rightarrow> string \<Rightarrow> string \<Rightarrow> string" where
  "vault_env_path group_slug slug env = ''apps/'' @ group_slug @ ''/'' @ slug @ ''/'' @ env"

definition get_app :: "int \<Rightarrow> (('v, 'z) services_scheme, application) prog" where
  "get_app aid =
     bnd (from_db (get_application aid)) (\<lambda>a.
       case a of None \<Rightarrow> raise_exc (HTTPException 404) | Some app \<Rightarrow> ret app)"

definition vault_path :: "application \<Rightarrow> string \<Rightarrow> (('v, 'z) services_scheme, string) prog" where
  "vault_path app env =
     bnd (from_db (resolve_group_slug (app_owning_gitlab_group_id app)))
       (\<lambda>group_slug. ret (vault_env_path group_slug (app_slug app) env))"

definition list_keys :: "'v hvac \<Rightarrow> int \<Rightarrow> string \<Rightarrow> (('v, 'z) services_scheme, (string \<times> bool) list) prog" where
  "list_keys hv aid env =
     bnd (validate_env env) (\<lambda>_.
     bnd (get_app aid) (\<lambda>app.
     bnd (vault_path app env) (\<lambda>path.
     bnd (try_except (bnd (on_vault (get_secret hv path)) (\<lambda>d. ret (Some d)))
            (\<lambda>e. if e = InvalidPath then ret None else raise_exc e)) (\<lambda>found.
       case found of
         None \<Rightarrow> ret []
       | Some data \<Rightarrow>
           ret (map (\<lambda>k. (k, k \<in> set (managed_keys app))) (sort (map fst data)))))))"

definition get_key_status :: "'v hvac \<Rightarrow> int \<Rightarrow> string \<Rightarrow> string \<Rightarrow> (('v, 'z) services_scheme, bool) prog" where
  "get_key_status hv aid env key =
     bnd (validate_env env) (\<lambda>_.
     bnd (get_app aid) (\<lambda>app.
     bnd (vault_path app env) (\<lambda>path.
       try_except (bnd (on_vault (get_secret hv path)) (\<lambda>data. ret (key \<in> fst ` set data)))
         (\<lambda>e. if e = InvalidPath then ret False else raise_exc e))))"

definition set_vars :: "'v hvac \<Rightarrow> int \<Rightarrow> string \<Rightarrow> dict \<Rightarrow> (('v, 'z) services_scheme, unit) prog" where
  "set_vars hv aid env variables =
     bnd (validate_env env) (\<lambda>_.
     bnd (get_app aid) (\<lambda>app.
       if \<exists>k \<in> set (managed_keys app). k \<in> fst ` set variables then raise_exc (HTTPException 409)
       else
         bnd (vault_path app env) (\<lambda>path. on_vault (patch_secret hv path variables))))"

definition delete_key :: "'v hvac \<Rightarrow> int \<Rightarrow> string \<Rightarrow> string \<Rightarrow> (('v, 'z) services_scheme, unit) prog" where
  "delete_key hv aid env key =
     bnd (validate_env env) (\<lambda>_.
     bnd (get_app aid) (\<lambda>app.
       if key \<in> set (managed_keys app) then raise_exc (HTTPException 409)
       else
         bnd (vault_path app env) (\<lambda>path. on_vault (delete_secret_key hv path key))))"

definition get_values :: "'v hvac \<Rightarrow> int \<Rightarrow> string \<Rightarrow> (('v, 'z) services_scheme, dict) prog" where
  "get_values hv aid env =
     bnd (validate_env env) (\<lambda>_.
     bnd (get_app aid) (\<lambda>app.
     bnd (vault_path app env) (\<lambda>path.
       try_except (on_vault (get_secret hv path))
         (\<lambda>e. if e = InvalidPath then ret [] else raise_exc e))))"

section \<open>The routes\<close>

definition env_min_tier :: "string \<Rightarrow> bool \<Rightarrow> cnp_tier" where
  "env_min_tier env write =
     (if env = ''prod'' then MAINTAINER else if write then DEVELOPER else VIEWER)"

definition require_env_tier :: "int \<Rightarrow> string \<Rightarrow> bool \<Rightarrow> user \<Rightarrow> (('v, 'z) services_scheme, unit) prog" where
  "require_env_tier aid env write current_user =
     (if is_admin current_user then ret ()
      else
        bnd (from_db (get_effective_tier (usr_id current_user) aid)) (\<lambda>tier.
          if index_of TIER_ORDER tier < index_of TIER_ORDER (env_min_tier env write)
          then raise_exc (HTTPException 403) else ret ()))"

definition list_env_vars :: "'v hvac \<Rightarrow> user \<Rightarrow> int \<Rightarrow> string \<Rightarrow> (('v, 'z) services_scheme, (string \<times> bool) list) prog" where
  "list_env_vars hv current_user aid env =
     bnd (require_env_tier aid env False current_user) (\<lambda>_. list_keys hv aid env)"

definition set_env_vars :: "'v hvac \<Rightarrow> user \<Rightarrow> int \<Rightarrow> string \<Rightarrow> dict \<Rightarrow> (('v, 'z) services_scheme, (string \<times> bool) list) prog" where
  "set_env_vars hv current_user aid env variables =
     bnd (require_env_tier aid env True current_user) (\<lambda>_.
     bnd (set_vars hv aid env variables) (\<lambda>_. list_keys hv aid env))"

definition delete_env_var :: "'v hvac \<Rightarrow> user \<Rightarrow> int \<Rightarrow> string \<Rightarrow> string \<Rightarrow> (('v, 'z) services_scheme, unit) prog" where
  "delete_env_var hv current_user aid env key =
     bnd (require_env_tier aid env True current_user) (\<lambda>_. delete_key hv aid env key)"

definition get_env_var_values :: "'v hvac \<Rightarrow> user \<Rightarrow> int \<Rightarrow> string \<Rightarrow> (('v, 'z) services_scheme, dict) prog" where
  "get_env_var_values hv current_user aid env =
     (if env \<noteq> ''dev'' then raise_exc (HTTPException 403)
      else
        bnd (if is_admin current_user then ret ()
             else bnd (from_db (get_effective_tier (usr_id current_user) aid)) (\<lambda>tier.
                    if index_of TIER_ORDER tier < index_of TIER_ORDER DEVELOPER
                    then raise_exc (HTTPException 403) else ret ()))
          (\<lambda>_. get_values hv aid env))"

definition get_env_var_status :: "'v hvac \<Rightarrow> user \<Rightarrow> int \<Rightarrow> string \<Rightarrow> string \<Rightarrow> (('v, 'z) services_scheme, bool) prog" where
  "get_env_var_status hv current_user aid env key =
     bnd (require_env_tier aid env False current_user) (\<lambda>_. get_key_status hv aid env key)"

section \<open>Paths of applications\<close>

definition app_env_path :: "application \<Rightarrow> string \<Rightarrow> database \<Rightarrow> string" where
  "app_env_path app env d =
     vault_env_path (resolve_group_slug (app_owning_gitlab_group_id app) d) (app_slug app) env"

lemma first_separator_inject:
  "x \<notin> set v \<Longrightarrow> x \<notin> set v' \<Longrightarrow> v @ x # u = v' @ x # u' \<Longrightarrow> v = v' \<and> u = u'"
proof (induction v arbitrary: v')
  case Nil
  then show ?case by (cases v') auto
next
  case (Cons a v)
  then show ?case by (cases v') auto
qed

lemma last_separator_inject:
  assumes "u @ x # v = u' @ x # v'" and "x \<notin> set v" and "x \<notin> set v'"
  shows "u = u' \<and> v = v'"
proof -
  from assms(1) have "rev v @ x # rev u = rev v' @ x # rev u'"
    by (metis append.assoc append_Cons append_Nil rev.simps(2) rev_append)
  from first_separator_inject[OF _ _ this] assms(2,3) show ?thesis by simp
qed

lemma vault_env_path_inject:
  assumes "vault_env_path g s e = vault_env_path g' s' e'"
    and "CHR ''/'' \<notin> set s" "CHR ''/'' \<notin> set e" "CHR ''/'' \<notin> set s'" "CHR ''/'' \<notin> set e'"
  shows "g = g' \<and> s = s' \<and> e = e'"
proof -
  from assms(1) have "(g @ ''/'' @ s) @ CHR ''/'' # e = (g' @ ''/'' @ s') @ CHR ''/'' # e'"
    by (simp add: vault_env_path_def)
  from last_separator_inject[OF this assms(3,5)] have "e = e'" "g @ CHR ''/'' # s = g' @ CHR ''/'' # s'"
    by auto
  with last_separator_inject[OF this(2) assms(2,4)] show ?thesis by simp
qed

text \<open>Slugs are unique (a constraint of the table) and have no slash.\<close>

definition slugs_ok :: "database \<Rightarrow> bool" where
  "slugs_ok d \<longleftrightarrow> unique_on app_slug (applications d)
     \<and> (\<forall>a \<in> set (rows (applications d)). CHR ''/'' \<notin> set (app_slug a))"

lemma valid_env_no_slash: "env \<in> set VALID_ENVS \<Longrightarrow> CHR ''/'' \<notin> set env"
  by (auto simp: VALID_ENVS_def)

lemma unique_inj: "unique_on key t \<Longrightarrow> a \<in> set (rows t) \<Longrightarrow> b \<in> set (rows t) \<Longrightarrow> key a = key b \<Longrightarrow> a = b"
  by (auto simp: unique_on_def distinct_map inj_on_def)

lemma app_env_path_inject:
  assumes "slugs_ok d" and "a \<in> set (rows (applications d))" and "b \<in> set (rows (applications d))"
    and "env \<in> set VALID_ENVS" and "env' \<in> set VALID_ENVS"
    and "app_env_path a env d = app_env_path b env' d"
  shows "a = b \<and> env = env'"
proof -
  have "app_slug a = app_slug b \<and> env = env'"
    using vault_env_path_inject[OF assms(6)[unfolded app_env_path_def]] assms valid_env_no_slash
    by (simp add: slugs_ok_def)
  then show ?thesis using assms(1,2,3) unique_inj[of app_slug "applications d" a b]
    by (simp add: slugs_ok_def)
qed

section \<open>The two writing operations\<close>

lemma set_vars_run:
  "set_vars hv aid env vs w =
     (if env \<notin> set VALID_ENVS then (Inl (HTTPException 422), w)
      else case get_application aid (db (sess w)) of
          None \<Rightarrow> (Inl (HTTPException 404), w)
        | Some app \<Rightarrow>
            if \<exists>k \<in> set (managed_keys app). k \<in> fst ` set vs then (Inl (HTTPException 409), w)
            else on_vault (patch_secret hv (app_env_path app env (db (sess w))) vs) w)"
  by (auto simp: set_vars_def validate_env_def get_app_def vault_path_def app_env_path_def prog_simps
      split: option.split)

lemma delete_key_run:
  "delete_key hv aid env key w =
     (if env \<notin> set VALID_ENVS then (Inl (HTTPException 422), w)
      else case get_application aid (db (sess w)) of
          None \<Rightarrow> (Inl (HTTPException 404), w)
        | Some app \<Rightarrow>
            if key \<in> set (managed_keys app) then (Inl (HTTPException 409), w)
            else on_vault (delete_secret_key hv (app_env_path app env (db (sess w))) key) w)"
  by (auto simp: delete_key_def validate_env_def get_app_def vault_path_def app_env_path_def prog_simps
      split: option.split)

lemma require_env_tier_state: "snd (require_env_tier aid env wr u w) = w"
  by (simp add: require_env_tier_def prog_simps)

text \<open>
  Setting variables writes exactly them: when it succeeds, the Vault path of that application and
  environment holds its former keys overridden by the new ones, no other path and no database row
  changes; when it is refused (bad environment, unknown application, a managed key) nothing changes.
\<close>

theorem set_vars_exact:
  assumes "hvac_kv2 hv contents" and "set_vars hv aid env vs w = (r, w')"
  shows "sess w' = sess w
    \<and> (case r of
         Inr _ \<Rightarrow> (\<exists>app. get_application aid (db (sess w)) = Some app \<and> env \<in> set VALID_ENVS
            \<and> contents (vault w') = (contents (vault w))
                (app_env_path app env (db (sess w)) \<mapsto>
                   data_at (contents (vault w)) (app_env_path app env (db (sess w))) ++ map_of vs))
       | Inl _ \<Rightarrow> contents (vault w') = contents (vault w))"
proof -
  note run = assms(2)[unfolded set_vars_run]
  show ?thesis
  proof (cases "env \<in> set VALID_ENVS \<and> (\<exists>app. get_application aid (db (sess w)) = Some app
           \<and> \<not> (\<exists>k \<in> set (managed_keys app). k \<in> fst ` set vs))")
    case False
    with run show ?thesis by (auto split: if_splits option.splits)
  next
    case True
    then obtain app where app: "get_application aid (db (sess w)) = Some app" by blast
    let ?p = "app_env_path app env (db (sess w))"
    from run True app have p: "patch_secret hv ?p vs (vault w) = (r, vault w')" and s: "sess w' = sess w"
      by (auto simp: on_vault_def split: prod.splits if_splits)
    show ?thesis
    proof (cases r)
      case (Inl e)
      with s vault_patch_failed[OF assms(1) p[unfolded Inl]] show ?thesis by simp
    next
      case (Inr u)
      with s app True vault_patch_done[OF assms(1), of ?p vs "vault w" "vault w'"] p show ?thesis
        by simp
    qed
  qed
qed

definition demo_app :: application where
  "demo_app = (blank_application 1 ''shop'' ''shop'' ''team'')\<lparr>app_auth_enabled := True\<rparr>"

definition demo_db :: database where
  "demo_db = empty_database\<lparr>applications := \<lparr>rows = [demo_app], seq = 2\<rparr>, users := \<lparr>rows = [alice], seq = 8\<rparr>\<rparr>"

definition demo_world :: "(string \<times> dict) list services" where
  "demo_world = \<lparr>sess = open_session demo_db,
     vault = [(''apps/_ungrouped/shop/dev'', [(''OIDC_CLIENT_ID'', ''shop''), (''A'', ''1'')])]\<rparr>"

theorem set_vars_exact_witness:
  "sess (snd (set_vars ref_kv 1 ''dev'' [(''B'', ''2'')] demo_world)) = sess demo_world"
proof -
  obtain r w' where w: "set_vars ref_kv 1 ''dev'' [(''B'', ''2'')] demo_world = (r, w')"
    by fastforce
  from set_vars_exact[OF ref_store.hvac_kv2_axioms w] w show ?thesis by simp
qed

section \<open>Requests\<close>

text \<open>
  Any client request that writes environment variables, made by any user, and a run of them. The
  outcome of each request is dropped: a refused one changes nothing.
\<close>

datatype env_request =
    Put_vars user int string dict
  | Delete_var user int string string

fun handle_request :: "'v hvac \<Rightarrow> env_request \<Rightarrow> ('v, 'z) services_scheme \<Rightarrow> ('v, 'z) services_scheme" where
  "handle_request hv (Put_vars u aid env vs) w = snd (set_env_vars hv u aid env vs w)"
| "handle_request hv (Delete_var u aid env key) w = snd (delete_env_var hv u aid env key w)"

lemma list_keys_state: "snd (list_keys hv aid env w) = w"
  by (auto simp: list_keys_def validate_env_def get_app_def vault_path_def get_secret_def prog_simps
      split: option.splits sum.splits)

lemma handle_request_cases:
  "handle_request hv rq w = w
   \<or> (\<exists>aid env vs. handle_request hv rq w = snd (set_vars hv aid env vs w))
   \<or> (\<exists>aid env key. handle_request hv rq w = snd (delete_key hv aid env key w))"
proof (cases rq)
  case (Put_vars u aid env vs)
  have "snd (set_env_vars hv u aid env vs w) = w
      \<or> snd (set_env_vars hv u aid env vs w) = snd (set_vars hv aid env vs w)"
    using require_env_tier_state[of aid env True u w]
    by (cases "require_env_tier aid env True u w"; cases "set_vars hv aid env vs w")
      (auto simp: set_env_vars_def bnd_apply list_keys_state split: sum.splits)
  with Put_vars show ?thesis by auto
next
  case (Delete_var u aid env key)
  have "snd (delete_env_var hv u aid env key w) = w
      \<or> snd (delete_env_var hv u aid env key w) = snd (delete_key hv aid env key w)"
    using require_env_tier_state[of aid env True u w]
    by (cases "require_env_tier aid env True u w") (auto simp: delete_env_var_def bnd_apply split: sum.splits)
  with Delete_var show ?thesis by (metis handle_request.simps(2))
qed

lemma set_vars_protects:
  assumes kv: "hvac_kv2 hv contents" and ok: "slugs_ok (db (sess w))"
    and app: "app \<in> set (rows (applications (db (sess w))))" "app_auth_enabled app"
    and k: "k \<in> set MANAGED_ENV_KEYS" and e: "env' \<in> set VALID_ENVS"
    and run: "set_vars hv aid env vs w = (r, w')"
  shows "data_at (contents (vault w')) (app_env_path app env' (db (sess w))) k
       = data_at (contents (vault w)) (app_env_path app env' (db (sess w))) k"
proof -
  let ?q = "app_env_path app env' (db (sess w))"
  consider "w' = w" | a where "get_application aid (db (sess w)) = Some a" "env \<in> set VALID_ENVS"
      "\<not> (\<exists>k \<in> set (managed_keys a). k \<in> fst ` set vs)"
      "patch_secret hv (app_env_path a env (db (sess w))) vs (vault w) = (r, vault w')"
    using run by (auto simp: set_vars_run on_vault_def split: if_splits option.splits prod.splits)
  then show ?thesis
  proof cases
    case 2
    let ?p = "app_env_path a env (db (sess w))"
    show ?thesis
    proof (cases "?q = ?p")
      case True
      have "a \<in> set (rows (applications (db (sess w))))" using get_application_Some[OF 2(1)] by simp
      with app_env_path_inject[OF ok app(1) this e 2(2) True] have "app = a" by simp
      with app(2) 2(3) k have "k \<notin> fst ` set vs" by (auto simp: managed_keys_def)
      with vault_patch_other_key[OF kv 2(4)] True show ?thesis by simp
    next
      case False
      from vault_patch_other_path[OF kv 2(4) False] show ?thesis by (simp add: data_at_def)
    qed
  qed simp
qed

lemma delete_key_protects:
  assumes kv: "hvac_kv2 hv contents" and ok: "slugs_ok (db (sess w))"
    and app: "app \<in> set (rows (applications (db (sess w))))" "app_auth_enabled app"
    and k: "k \<in> set MANAGED_ENV_KEYS" and e: "env' \<in> set VALID_ENVS"
    and run: "delete_key hv aid env key w = (r, w')"
  shows "data_at (contents (vault w')) (app_env_path app env' (db (sess w))) k
       = data_at (contents (vault w)) (app_env_path app env' (db (sess w))) k"
proof -
  let ?q = "app_env_path app env' (db (sess w))"
  consider "w' = w" | a where "get_application aid (db (sess w)) = Some a" "env \<in> set VALID_ENVS"
      "key \<notin> set (managed_keys a)"
      "delete_secret_key hv (app_env_path a env (db (sess w))) key (vault w) = (r, vault w')"
    using run by (auto simp: delete_key_run on_vault_def split: if_splits option.splits prod.splits)
  then show ?thesis
  proof cases
    case 2
    let ?p = "app_env_path a env (db (sess w))"
    show ?thesis
    proof (cases "?q = ?p")
      case True
      have "a \<in> set (rows (applications (db (sess w))))" using get_application_Some[OF 2(1)] by simp
      with app_env_path_inject[OF ok app(1) this e 2(2) True] have "app = a" by simp
      with app(2) 2(3) k have "k \<noteq> key" by (auto simp: managed_keys_def)
      with vault_del_other_key[OF kv 2(4)] True show ?thesis by simp
    next
      case False
      from vault_del_other_path[OF kv 2(4) False] show ?thesis by (simp add: data_at_def)
    qed
  qed simp
qed

lemma write_state:
  "sess (snd (set_vars hv aid env vs w)) = sess w" "sess (snd (delete_key hv aid env key w)) = sess w"
  by (simp_all add: set_vars_run delete_key_run on_vault_def split: option.split prod.split)

lemma handle_request_sess: "sess (handle_request hv rq w) = sess w"
  using handle_request_cases[of hv rq w] write_state by metis

text \<open>
  C15: no run of environment-variable requests, by whichever users, changes or removes an OIDC
  variable of an application whose Keycloak is enabled.
\<close>

theorem managed_keys_protected:
  assumes kv: "hvac_kv2 hv contents" and ok: "slugs_ok (db (sess w))"
    and app: "app \<in> set (rows (applications (db (sess w))))" "app_auth_enabled app"
    and k: "k \<in> set MANAGED_ENV_KEYS" and e: "env \<in> set VALID_ENVS"
  shows "data_at (contents (vault (fold (handle_request hv) rqs w))) (app_env_path app env (db (sess w))) k
       = data_at (contents (vault w)) (app_env_path app env (db (sess w))) k"
  using ok app
proof (induction rqs arbitrary: w)
  case (Cons rq rqs)
  let ?w = "handle_request hv rq w"
  have s: "sess ?w = sess w" by (rule handle_request_sess)
  have "data_at (contents (vault ?w)) (app_env_path app env (db (sess w))) k
      = data_at (contents (vault w)) (app_env_path app env (db (sess w))) k"
    using handle_request_cases[of hv rq w]
  proof (elim disjE exE)
    fix aid env1 vs assume "?w = snd (set_vars hv aid env1 vs w)"
    then have "set_vars hv aid env1 vs w = (fst (set_vars hv aid env1 vs w), ?w)" by simp
    from set_vars_protects[OF kv Cons.prems k e this] show ?thesis .
  next
    fix aid env1 key assume "?w = snd (delete_key hv aid env1 key w)"
    then have "delete_key hv aid env1 key w = (fst (delete_key hv aid env1 key w), ?w)" by simp
    from delete_key_protects[OF kv Cons.prems k e this] show ?thesis .
  qed simp
  moreover have "data_at (contents (vault (fold (handle_request hv) rqs ?w))) (app_env_path app env (db (sess ?w))) k
      = data_at (contents (vault ?w)) (app_env_path app env (db (sess ?w))) k"
    using Cons.IH[of ?w] Cons.prems s by simp
  ultimately show ?case using s by simp
qed simp

theorem managed_keys_protected_witness:
  "data_at (ref_contents (vault (fold (handle_request ref_kv)
      [Delete_var alice 1 ''dev'' ''OIDC_CLIENT_ID''] demo_world))) ''apps/_ungrouped/shop/dev'' ''OIDC_CLIENT_ID''
   = data_at (ref_contents (vault demo_world)) ''apps/_ungrouped/shop/dev'' ''OIDC_CLIENT_ID''"
proof -
  have ok: "slugs_ok (db (sess demo_world))"
    by (simp add: slugs_ok_def unique_on_def demo_world_def open_session_def demo_db_def demo_app_def
        blank_application_def)
  have app: "demo_app \<in> set (rows (applications (db (sess demo_world))))" "app_auth_enabled demo_app"
    by (simp_all add: demo_world_def open_session_def demo_db_def demo_app_def)
  have p: "app_env_path demo_app ''dev'' (db (sess demo_world)) = ''apps/_ungrouped/shop/dev''"
    by code_simp
  have k: "''OIDC_CLIENT_ID'' \<in> set MANAGED_ENV_KEYS" "''dev'' \<in> set VALID_ENVS"
    by (simp_all add: MANAGED_ENV_KEYS_def VALID_ENVS_def)
  show ?thesis using managed_keys_protected[OF ref_store.hvac_kv2_axioms ok app k] unfolding p .
qed

section \<open>Who can do what\<close>

interpretation env_gate: access_gate
  "\<lambda>t. \<not> index_of TIER_ORDER t < index_of TIER_ORDER (env_min_tier env wr)" for env wr
  by unfold_locales (auto simp: less_eq_cnp_tier_def)

lemma require_env_tier_run:
  "require_env_tier aid env wr u w =
     (if is_admin u \<or> env_min_tier env wr \<le> get_effective_tier (usr_id u) aid (db (sess w))
      then (Inr (), w) else (Inl (HTTPException 403), w))"
  by (auto simp: require_env_tier_def prog_simps index_less)

text \<open>
  Production variables are out of reach of anybody who is not an admin and holds no active
  membership of maintainer level or above: listing, setting, deleting and asking for one key all answer
  403 and change nothing.
\<close>

theorem prod_env_needs_maintainer:
  assumes "\<not> is_admin u"
    and "\<And>app l. get_application aid (db (sess w)) = Some app \<Longrightarrow>
           active_level (usr_id u) app (db (sess w)) l \<Longrightarrow> l < 40"
  shows "list_env_vars hv u aid ''prod'' w = (Inl (HTTPException 403), w)
    \<and> set_env_vars hv u aid ''prod'' vs w = (Inl (HTTPException 403), w)
    \<and> delete_env_var hv u aid ''prod'' key w = (Inl (HTTPException 403), w)
    \<and> get_env_var_status hv u aid ''prod'' key w = (Inl (HTTPException 403), w)"
proof -
  have "\<not> MAINTAINER \<le> get_effective_tier (usr_id u) aid (db (sess w))"
  proof
    assume "MAINTAINER \<le> get_effective_tier (usr_id u) aid (db (sess w))"
    then obtain app l where "get_application aid (db (sess w)) = Some app"
      "active_level (usr_id u) app (db (sess w)) l" "MAINTAINER \<le> access_level_to_tier l"
      using effective_tier_spec[of MAINTAINER "usr_id u" aid "db (sess w)"] by auto
    with assms(2)[of app l] show False
      by (auto simp: access_level_to_tier_def less_eq_cnp_tier_def TIER_ORDER_def split: if_splits)
  qed
  with assms(1) show ?thesis
    by (simp add: list_env_vars_def set_env_vars_def delete_env_var_def get_env_var_status_def
        bnd_apply require_env_tier_run env_min_tier_def)
qed

theorem prod_env_needs_maintainer_witness:
  "list_env_vars ref_kv alice 1 ''prod'' demo_world = (Inl (HTTPException 403), demo_world)"
proof -
  have n: "\<not> is_admin alice" by (simp add: is_admin_def alice_def)
  have l: "l < 40" if "active_level (usr_id alice) app (db (sess demo_world)) l" for app l
    using that by (simp add: active_level_def demo_world_def open_session_def demo_db_def
        empty_database_def empty_table_def)
  show ?thesis using prod_env_needs_maintainer[where w = demo_world, OF n] l by blast
qed

text \<open>
  Values never leave Vault for any environment but dev, not even for an admin.
\<close>

theorem values_only_for_dev:
  assumes "get_env_var_values hv u aid env w = (Inr d, w')"
  shows "env = ''dev'' \<and> w' = w
    \<and> (is_admin u \<or> DEVELOPER \<le> get_effective_tier (usr_id u) aid (db (sess w)))"
  using assms
  by (auto simp: get_env_var_values_def get_values_def validate_env_def get_app_def vault_path_def
      get_secret_def prog_simps index_less split: if_splits option.splits sum.splits)

theorem values_only_for_dev_witness:
  "is_admin (alice\<lparr>usr_role := ADMIN\<rparr>) \<or> DEVELOPER \<le> get_effective_tier 7 1 demo_db"
proof -
  have "get_env_var_values ref_kv (alice\<lparr>usr_role := ADMIN\<rparr>) 1 ''dev'' demo_world
          = (Inr [(''OIDC_CLIENT_ID'', ''shop''), (''A'', ''1'')], demo_world)"
    by code_simp
  from values_only_for_dev[OF this] show ?thesis
    by (simp add: demo_world_def open_session_def alice_def)
qed

end
