(* ===== verification/Alerting.thy ===== *)
theory Alerting
  imports Database
begin

text \<open>
  backend/alerting (constants, recipients, emitter) and backend/services/notification_service.py:
  an event is stored and fanned out to the users it concerns, who read, acknowledge and clear their
  notifications and switch categories off. The SHA-256 digest and Python's rendering of containers
  are parameters; so is the clock of the transaction.
\<close>

section \<open>Event types and categories\<close>

definition APP_CREATED :: string where "APP_CREATED = ''app.created''"
definition APP_UPDATED :: string where "APP_UPDATED = ''app.updated''"
definition APP_DELETED :: string where "APP_DELETED = ''app.deleted''"
definition APP_DEPLOYED :: string where "APP_DEPLOYED = ''app.deployed''"
definition APP_ROLLBACK :: string where "APP_ROLLBACK = ''app.rollback''"
definition APP_HEALTH_DEGRADED :: string where "APP_HEALTH_DEGRADED = ''app.health.degraded''"
definition APP_HEALTH_RECOVERED :: string where "APP_HEALTH_RECOVERED = ''app.health.recovered''"
definition APP_EXPOSE_CHANGED :: string where "APP_EXPOSE_CHANGED = ''app.expose.changed''"
definition APP_SCALE_STOPPED :: string where "APP_SCALE_STOPPED = ''app.scale.stopped''"
definition APP_SCALE_RESUMED :: string where "APP_SCALE_RESUMED = ''app.scale.resumed''"
definition APP_SCALE_SCHEDULED_STOP :: string where
  "APP_SCALE_SCHEDULED_STOP = ''app.scale.scheduled_stop''"
definition APP_SCALE_SCHEDULED_RESUME :: string where
  "APP_SCALE_SCHEDULED_RESUME = ''app.scale.scheduled_resume''"
definition CLUSTER_OFFLINE :: string where "CLUSTER_OFFLINE = ''cluster.offline''"
definition CLUSTER_ONLINE :: string where "CLUSTER_ONLINE = ''cluster.online''"
definition GROUP_RENAMED :: string where "GROUP_RENAMED = ''group.renamed''"
definition GROUP_MEMBER_ADDED :: string where "GROUP_MEMBER_ADDED = ''group.member.added''"
definition GROUP_MEMBER_REMOVED :: string where "GROUP_MEMBER_REMOVED = ''group.member.removed''"

lemmas event_type_defs =
  APP_CREATED_def APP_UPDATED_def APP_DELETED_def APP_DEPLOYED_def APP_ROLLBACK_def
  APP_HEALTH_DEGRADED_def APP_HEALTH_RECOVERED_def APP_EXPOSE_CHANGED_def APP_SCALE_STOPPED_def
  APP_SCALE_RESUMED_def APP_SCALE_SCHEDULED_STOP_def APP_SCALE_SCHEDULED_RESUME_def
  CLUSTER_OFFLINE_def CLUSTER_ONLINE_def GROUP_RENAMED_def GROUP_MEMBER_ADDED_def
  GROUP_MEMBER_REMOVED_def

definition CATEGORY_MAP :: "(string \<times> string list) list" where
  "CATEGORY_MAP =
     [(''app'', [APP_CREATED, APP_UPDATED, APP_DELETED, APP_DEPLOYED, APP_ROLLBACK,
                APP_HEALTH_DEGRADED, APP_HEALTH_RECOVERED, APP_EXPOSE_CHANGED, APP_SCALE_STOPPED,
                APP_SCALE_RESUMED, APP_SCALE_SCHEDULED_STOP, APP_SCALE_SCHEDULED_RESUME]),
      (''cluster'', [CLUSTER_OFFLINE, CLUSTER_ONLINE]),
      (''group'', [GROUP_RENAMED, GROUP_MEMBER_ADDED, GROUP_MEMBER_REMOVED])]"

fun first_category :: "string \<Rightarrow> (string \<times> string list) list \<Rightarrow> string" where
  "first_category event_type [] = ''app''"
| "first_category event_type ((cat, types) # rest) =
     (if event_type \<in> set types then cat else first_category event_type rest)"

definition category_of :: "string \<Rightarrow> string" where
  "category_of event_type = first_category event_type CATEGORY_MAP"

section \<open>Recipients\<close>

definition payload_get :: "string \<Rightarrow> (string \<times> json) list \<Rightarrow> json \<Rightarrow> json" where
  "payload_get k payload dflt = (case map_of payload k of None \<Rightarrow> dflt | Some v \<Rightarrow> v)"

definition active_group_users :: "int \<Rightarrow> database \<Rightarrow> int list" where
  "active_group_users gid d =
     List.map_filter gm_cnp_user_id
       (select_rows (\<lambda>m. gm_group_id m = gid \<and> gm_status m = ACTIVE \<and> gm_cnp_user_id m \<noteq> None) (group_members d))"

definition active_project_users :: "int \<Rightarrow> database \<Rightarrow> int list" where
  "active_project_users pid d =
     List.map_filter am_cnp_user_id
       (select_rows (\<lambda>m. am_project_id m = pid \<and> am_status m = ACTIVE \<and> am_cnp_user_id m \<noteq> None) (app_members d))"

text \<open>The Python result is a list of the elements of a set, here without duplicates.\<close>

definition resolve_recipients :: "event \<Rightarrow> database \<Rightarrow> int option \<Rightarrow> exc + int list" where
  "resolve_recipients ev d actor_user_id =
     (let admins = map usr_id (select_rows (\<lambda>u. usr_role u = ADMIN) (users d));
          actor = (if truthy_id actor_user_id then [the actor_user_id] else []);
          cat = category_of (ev_type ev)
      in if cat = ''app'' \<and> truthy_id (ev_app_id ev) then
           (case get_application (the (ev_app_id ev)) d of
              None \<Rightarrow> Inr (remdups (admins @ actor))
            | Some app \<Rightarrow>
                Inr (remdups (admins @ actor
                  @ (if truthy_id (app_owning_gitlab_group_id app)
                     then active_group_users (the (app_owning_gitlab_group_id app)) d else [])
                  @ (if truthy_id (app_gitlab_project_id app)
                     then active_project_users (the (app_gitlab_project_id app)) d else []))))
         else if cat = ''group'' then
           (let cnp_user_id = payload_get ''cnp_user_id'' (ev_payload ev) JNull in
            if truthy cnp_user_id then
              (case json_int cnp_user_id of Inl e \<Rightarrow> Inl e | Inr i \<Rightarrow> Inr (remdups (admins @ actor @ [i])))
            else Inr (remdups (admins @ actor)))
         else Inr (remdups (admins @ actor)))"

section \<open>Emission\<close>

record alert_env =
  sha256_hex :: "string \<Rightarrow> string"
  py_repr :: "json \<Rightarrow> string"
  clock :: int

fun py_str :: "(json \<Rightarrow> string) \<Rightarrow> json \<Rightarrow> string" where
  "py_str rep JNull = ''None''"
| "py_str rep (JBool b) = (if b then ''True'' else ''False'')"
| "py_str rep (JNum n) = string_of_int n"
| "py_str rep (JStr s) = s"
| "py_str rep v = rep v"

definition compute_dedup_key ::
  "alert_env \<Rightarrow> string \<Rightarrow> string \<Rightarrow> int option \<Rightarrow> (string \<times> json) list \<Rightarrow> string" where
  "compute_dedup_key env type source aid payload =
     (let cluster_id = py_str (py_repr env) (payload_get ''cluster_id'' payload (JStr ''''));
          group_id = py_str (py_repr env) (payload_get ''group_id'' payload (JStr ''''));
          raw = type @ '':'' @ source @ '':'' @ (if truthy_id aid then string_of_int (the aid) else '''')
                @ '':'' @ cluster_id @ '':'' @ group_id
      in take 32 (sha256_hex env raw))"

definition get_preference :: "database \<Rightarrow> int \<Rightarrow> string \<Rightarrow> notification_preference option" where
  "get_preference d user_id category =
     find_row (\<lambda>p. np_user_id p = user_id \<and> np_category p = category) (preferences d)"

definition wants :: "database \<Rightarrow> string \<Rightarrow> int \<Rightarrow> bool" where
  "wants d category user_id =
     (case get_preference d user_id category of None \<Rightarrow> True | Some pref \<Rightarrow> np_enabled pref)"

definition new_notification :: "alert_env \<Rightarrow> int \<Rightarrow> int \<Rightarrow> int \<Rightarrow> notification" where
  "new_notification env event_id user_id i =
     \<lparr>nt_id = i, nt_event_id = event_id, nt_recipient_user_id = user_id, nt_state = NEW,
      nt_read_at = None, nt_created_at = clock env\<rparr>"

definition add_notification :: "alert_env \<Rightarrow> event \<Rightarrow> int \<Rightarrow> database \<Rightarrow> database" where
  "add_notification env ev user_id d =
     (if wants d (category_of (ev_type ev)) user_id
      then d\<lparr>notifications := insert_row (new_notification env (ev_id ev) user_id) (notifications d)\<rparr>
      else d)"

definition make_event ::
  "alert_env \<Rightarrow> string \<Rightarrow> string \<Rightarrow> string \<Rightarrow> int option \<Rightarrow> (string \<times> json) list \<Rightarrow> int \<Rightarrow> event" where
  "make_event env type severity source aid payload i =
     \<lparr>ev_id = i, ev_type = type, ev_severity = severity, ev_source = source, ev_app_id = aid,
      ev_payload = payload, ev_dedup_key = compute_dedup_key env type source aid payload,
      ev_created_at = clock env\<rparr>"

text \<open>A failure to resolve the recipients is logged: the event stays, nobody is notified.\<close>

definition emit_db ::
  "alert_env \<Rightarrow> string \<Rightarrow> string \<Rightarrow> string \<Rightarrow> int option \<Rightarrow> (string \<times> json) list \<Rightarrow> int option
     \<Rightarrow> database \<Rightarrow> database" where
  "emit_db env type severity source aid payload actor_user_id d =
     (let ev = make_event env type severity source aid payload (seq (events d));
          d1 = d\<lparr>events := insert_row (make_event env type severity source aid payload) (events d)\<rparr>
      in (case resolve_recipients ev d1 actor_user_id of
            Inl _ \<Rightarrow> d1
          | Inr recipients \<Rightarrow> fold (add_notification env ev) recipients d1))"

definition emit_event ::
  "alert_env \<Rightarrow> string \<Rightarrow> string \<Rightarrow> string \<Rightarrow> int option \<Rightarrow> (string \<times> json) list \<Rightarrow> int option
     \<Rightarrow> (session, unit) prog" where
  "emit_event env type severity source aid payload actor_user_id =
     modify (\<lambda>s. s\<lparr>db := emit_db env type severity source aid payload actor_user_id (db s)\<rparr>)"

lemma emit_event_apply [prog_simps]:
  "emit_event env ty sev src aid pl actor s = (Inr (), s\<lparr>db := emit_db env ty sev src aid pl actor (db s)\<rparr>)"
  by (simp add: emit_event_def prog_simps)

section \<open>What an emission does\<close>

lemma wants_add_notification: "wants (add_notification env ev u d) c v = wants d c v"
  by (simp add: add_notification_def wants_def get_preference_def)

lemma fold_add_notification:
  "rows (notifications (fold (add_notification env ev) us d)) =
     rows (notifications d) @
     map2 (\<lambda>u i. new_notification env (ev_id ev) u i) (filter (wants d (category_of (ev_type ev))) us)
       (map (\<lambda>k. seq (notifications d) + int k) [0..<length (filter (wants d (category_of (ev_type ev))) us)])"
proof (induction us arbitrary: d)
  case (Cons u us)
  let ?c = "category_of (ev_type ev)"
  have w: "wants (add_notification env ev u d) ?c = wants d ?c"
    by (simp add: fun_eq_iff wants_add_notification)
  show ?case
  proof (cases "wants d ?c u")
    case True
    then have "notifications (add_notification env ev u d)
        = insert_row (new_notification env (ev_id ev) u) (notifications d)"
      by (simp add: add_notification_def)
    with Cons[of "add_notification env ev u d"] w True show ?thesis
      by (simp add: insert_row_def upt_conv_Cons map_Suc_upt[symmetric] comp_def algebra_simps
          del: upt_Suc)
  next
    case False
    then have "add_notification env ev u d = d" by (simp add: add_notification_def)
    with Cons[of d] False show ?thesis by simp
  qed
qed simp

lemma add_notification_frames [simp]:
  "users (add_notification env ev u d) = users d"
  "api_keys (add_notification env ev u d) = api_keys d"
  "audit_logs (add_notification env ev u d) = audit_logs d"
  "applications (add_notification env ev u d) = applications d"
  "scale_states (add_notification env ev u d) = scale_states d"
  "cluster_connections (add_notification env ev u d) = cluster_connections d"
  "gitlab_groups (add_notification env ev u d) = gitlab_groups d"
  "group_members (add_notification env ev u d) = group_members d"
  "app_members (add_notification env ev u d) = app_members d"
  "events (add_notification env ev u d) = events d"
  "preferences (add_notification env ev u d) = preferences d"
  "keycloak_instances (add_notification env ev u d) = keycloak_instances d"
  by (simp_all add: add_notification_def)

lemma fold_add_frames [simp]:
  "users (fold (add_notification env ev) us d) = users d"
  "api_keys (fold (add_notification env ev) us d) = api_keys d"
  "audit_logs (fold (add_notification env ev) us d) = audit_logs d"
  "applications (fold (add_notification env ev) us d) = applications d"
  "scale_states (fold (add_notification env ev) us d) = scale_states d"
  "cluster_connections (fold (add_notification env ev) us d) = cluster_connections d"
  "gitlab_groups (fold (add_notification env ev) us d) = gitlab_groups d"
  "group_members (fold (add_notification env ev) us d) = group_members d"
  "app_members (fold (add_notification env ev) us d) = app_members d"
  "events (fold (add_notification env ev) us d) = events d"
  "preferences (fold (add_notification env ev) us d) = preferences d"
  "keycloak_instances (fold (add_notification env ev) us d) = keycloak_instances d"
  by (induction us arbitrary: d) simp_all

lemma emit_db_frames [simp]:
  "users (emit_db env ty sev src aid pl actor d) = users d"
  "api_keys (emit_db env ty sev src aid pl actor d) = api_keys d"
  "audit_logs (emit_db env ty sev src aid pl actor d) = audit_logs d"
  "applications (emit_db env ty sev src aid pl actor d) = applications d"
  "scale_states (emit_db env ty sev src aid pl actor d) = scale_states d"
  "cluster_connections (emit_db env ty sev src aid pl actor d) = cluster_connections d"
  "gitlab_groups (emit_db env ty sev src aid pl actor d) = gitlab_groups d"
  "group_members (emit_db env ty sev src aid pl actor d) = group_members d"
  "app_members (emit_db env ty sev src aid pl actor d) = app_members d"
  "preferences (emit_db env ty sev src aid pl actor d) = preferences d"
  "keycloak_instances (emit_db env ty sev src aid pl actor d) = keycloak_instances d"
  by (simp_all add: emit_db_def Let_def split: sum.split)

lemma emit_db_events:
  "rows (events (emit_db env ty sev src aid pl actor d)) =
     rows (events d) @ [make_event env ty sev src aid pl (seq (events d))]"
  by (simp add: emit_db_def Let_def insert_row_def split: sum.split)

text \<open>The users an event is about, as a set.\<close>

definition active_user_of :: "application \<Rightarrow> database \<Rightarrow> int \<Rightarrow> bool" where
  "active_user_of app d i \<longleftrightarrow>
     (\<exists>g m. app_owning_gitlab_group_id app = Some g \<and> g \<noteq> 0 \<and> m \<in> set (rows (group_members d))
        \<and> gm_group_id m = g \<and> gm_status m = ACTIVE \<and> gm_cnp_user_id m = Some i)
   \<or> (\<exists>p m. app_gitlab_project_id app = Some p \<and> p \<noteq> 0 \<and> m \<in> set (rows (app_members d))
        \<and> am_project_id m = p \<and> am_status m = ACTIVE \<and> am_cnp_user_id m = Some i)"

definition concerned :: "event \<Rightarrow> database \<Rightarrow> int option \<Rightarrow> int set" where
  "concerned ev d actor =
     {usr_id u |u. u \<in> set (rows (users d)) \<and> usr_role u = ADMIN}
     \<union> {i. actor = Some i \<and> i \<noteq> 0}
     \<union> (if category_of (ev_type ev) = ''app'' then
          {i. \<exists>app aid. ev_app_id ev = Some aid \<and> aid \<noteq> 0 \<and> get_application aid d = Some app
              \<and> active_user_of app d i}
        else if category_of (ev_type ev) = ''group'' then
          {i. truthy (payload_get ''cnp_user_id'' (ev_payload ev) JNull)
              \<and> json_int (payload_get ''cnp_user_id'' (ev_payload ev) JNull) = Inr i}
        else {})"

lemma set_map_filter: "set (List.map_filter f xs) = {y. \<exists>x \<in> set xs. f x = Some y}"
  by (induction xs) (auto simp: List.map_filter_def split: option.splits)

lemma active_users_set:
  "i \<in> set (active_group_users g d) \<longleftrightarrow>
     (\<exists>m \<in> set (rows (group_members d)). gm_group_id m = g \<and> gm_status m = ACTIVE \<and> gm_cnp_user_id m = Some i)"
  "i \<in> set (active_project_users q d) \<longleftrightarrow>
     (\<exists>m \<in> set (rows (app_members d)). am_project_id m = q \<and> am_status m = ACTIVE \<and> am_cnp_user_id m = Some i)"
  by (auto simp: active_group_users_def active_project_users_def set_map_filter table_simps)

lemma member_recipients:
  "set ((if truthy_id (app_owning_gitlab_group_id app)
          then active_group_users (the (app_owning_gitlab_group_id app)) d else [])
        @ (if truthy_id (app_gitlab_project_id app)
           then active_project_users (the (app_gitlab_project_id app)) d else []))
   = {i. active_user_of app d i}"
  by (auto simp: active_user_of_def active_users_set truthy_id_def split: if_splits)

lemma base_recipients:
  "set (map usr_id (select_rows (\<lambda>u. usr_role u = ADMIN) (users d))
        @ (if truthy_id actor then [the actor] else []))
   = {usr_id u |u. u \<in> set (rows (users d)) \<and> usr_role u = ADMIN} \<union> {i. actor = Some i \<and> i \<noteq> 0}"
  by (cases actor) (auto simp: truthy_id_def select_rows_def)

lemma resolve_recipients_set:
  assumes "resolve_recipients ev d actor = Inr us"
  shows "distinct us \<and> set us = concerned ev d actor"
proof -
  define base where "base = map usr_id (select_rows (\<lambda>u. usr_role u = ADMIN) (users d))
        @ (if truthy_id actor then [the actor] else [])"
  note b = base_recipients[of d actor, folded base_def]
  show ?thesis
  proof (cases "category_of (ev_type ev) = ''app''")
    case app: True
    show ?thesis
    proof (cases "truthy_id (ev_app_id ev) \<and> get_application (the (ev_app_id ev)) d \<noteq> None")
      case True
      then obtain aid app where a: "ev_app_id ev = Some aid" "aid \<noteq> 0" "get_application aid d = Some app"
        by (auto simp: truthy_id_def)
      with app assms have "us = remdups (base
          @ ((if truthy_id (app_owning_gitlab_group_id app)
             then active_group_users (the (app_owning_gitlab_group_id app)) d else [])
          @ (if truthy_id (app_gitlab_project_id app)
             then active_project_users (the (app_gitlab_project_id app)) d else [])))"
        by (simp add: resolve_recipients_def Let_def truthy_id_def base_def)
      then have "distinct us" "set us = set base \<union> {i. active_user_of app d i}"
        by (simp_all only: set_remdups distinct_remdups set_append[of base] member_recipients)
      with a app b show ?thesis by (simp add: concerned_def)
    next
      case False
      have "us = remdups base"
      proof (cases "truthy_id (ev_app_id ev)")
        case True
        with False have "get_application (the (ev_app_id ev)) d = None" by simp
        with True app assms show ?thesis by (simp add: resolve_recipients_def Let_def base_def)
      next
        case False
        with app assms show ?thesis by (simp add: resolve_recipients_def Let_def base_def)
      qed
      with False app b show ?thesis by (auto simp: concerned_def truthy_id_def)
    qed
  next
    case nonapp: False
    let ?p = "payload_get ''cnp_user_id'' (ev_payload ev) JNull"
    show ?thesis
    proof (cases "category_of (ev_type ev) = ''group'' \<and> truthy ?p")
      case True
      with nonapp assms obtain i where "json_int ?p = Inr i" "us = remdups (base @ [i])"
        by (auto simp: resolve_recipients_def Let_def base_def split: sum.splits)
      with True nonapp b show ?thesis by (auto simp: concerned_def)
    next
      case False
      with nonapp assms have "us = remdups base"
        by (auto simp: resolve_recipients_def Let_def base_def split: if_splits)
      with False nonapp b show ?thesis by (auto simp: concerned_def)
    qed
  qed
qed

text \<open>The users an emission notifies: those concerned who have not switched the category off.\<close>

definition recipients_of :: "event \<Rightarrow> database \<Rightarrow> int option \<Rightarrow> int set" where
  "recipients_of ev d actor =
     (if category_of (ev_type ev) = ''group'' \<and> truthy (payload_get ''cnp_user_id'' (ev_payload ev) JNull)
         \<and> (\<forall>i. json_int (payload_get ''cnp_user_id'' (ev_payload ev) JNull) \<noteq> Inr i)
      then {}
      else {u \<in> concerned ev d actor. wants d (category_of (ev_type ev)) u})"

lemma resolve_recipients_Inl:
  "(\<exists>e. resolve_recipients ev d actor = Inl e) \<longleftrightarrow>
     category_of (ev_type ev) = ''group'' \<and> truthy (payload_get ''cnp_user_id'' (ev_payload ev) JNull)
         \<and> (\<forall>i. json_int (payload_get ''cnp_user_id'' (ev_payload ev) JNull) \<noteq> Inr i)"
proof (cases "category_of (ev_type ev) = ''app''")
  case True
  then show ?thesis
    by (cases "get_application (the (ev_app_id ev)) d") (simp_all add: resolve_recipients_def Let_def)
next
  case False
  then show ?thesis
    by (cases "json_int (payload_get ''cnp_user_id'' (ev_payload ev) JNull)")
      (auto simp: resolve_recipients_def Let_def)
qed

text \<open>
  C16: \<open>emit_event\<close> stores exactly one event, after those already stored, and adds one new, unread
  notification of it for each user concerned (the admins, the actor, and the active members of the
  application or the member of the group event) who has not switched the category off, and for
  nobody else; when the recipients cannot be resolved, the event is stored without notifications.
\<close>

theorem emit_event_notifies_concerned:
  "\<exists>us ids s'.
     emit_event env ty sev src aid pl actor s = (Inr (), s')
   \<and> rows (events (db s')) = rows (events (db s)) @ [make_event env ty sev src aid pl (seq (events (db s)))]
   \<and> rows (notifications (db s')) = rows (notifications (db s))
       @ map2 (new_notification env (seq (events (db s)))) us ids
   \<and> length ids = length us \<and> distinct us
   \<and> set us = recipients_of (make_event env ty sev src aid pl (seq (events (db s)))) (db s) actor"
proof -
  let ?d = "db s"
  let ?ev = "make_event env ty sev src aid pl (seq (events ?d))"
  define d1 where "d1 = ?d\<lparr>events := insert_row (make_event env ty sev src aid pl) (events ?d)\<rparr>"
  have same: "concerned ?ev d1 actor = concerned ?ev ?d actor" "wants d1 = wants ?d"
    by (simp_all add: fun_eq_iff d1_def concerned_def active_user_of_def get_application_def wants_def get_preference_def)
  have id: "ev_id ?ev = seq (events ?d)" "ev_type ?ev = ty" by (simp_all add: make_event_def)
  let ?s' = "s\<lparr>db := emit_db env ty sev src aid pl actor ?d\<rparr>"
  have run: "emit_event env ty sev src aid pl actor s = (Inr (), ?s')" by (rule emit_event_apply)
  show ?thesis
  proof (cases "resolve_recipients ?ev d1 actor")
    case (Inl e)
    then have "recipients_of ?ev ?d actor = {}"
      using resolve_recipients_Inl[of ?ev d1 actor] by (simp add: recipients_of_def)
    moreover have "notifications (db ?s') = notifications ?d"
      using Inl by (simp add: emit_db_def Let_def d1_def)
    ultimately show ?thesis using run
      by (intro exI[of _ "[]"] exI[of _ "[]"] exI[of _ ?s']) (simp add: emit_db_events)
  next
    case (Inr us)
    from Inr have rs: "distinct us" "set us = concerned ?ev ?d actor"
      using resolve_recipients_set[OF Inr] same by simp_all
    have no_err: "recipients_of ?ev ?d actor = {u \<in> concerned ?ev ?d actor. wants ?d (category_of ty) u}"
      using resolve_recipients_Inl[of ?ev d1 actor] Inr id by (auto simp: recipients_of_def)
    have d': "db ?s' = fold (add_notification env ?ev) us d1"
      using Inr by (simp add: emit_db_def Let_def d1_def)
    define ids where "ids = map (\<lambda>k. seq (notifications d1) + int k)
      [0..<length (filter (wants ?d (category_of ty)) us)]"
    have ids: "length ids = length (filter (wants ?d (category_of ty)) us)"
      "rows (notifications (db ?s')) = rows (notifications ?d)
         @ map2 (new_notification env (seq (events ?d))) (filter (wants ?d (category_of ty)) us) ids"
      unfolding d' fold_add_notification id same(2) by (simp_all add: ids_def) (simp add: d1_def)
    show ?thesis using run rs ids no_err
      by (intro exI[of _ "filter (wants ?d (category_of ty)) us"] exI[of _ ids] exI[of _ ?s'])
        (simp add: emit_db_events)
  qed
qed

section \<open>What an emission leaves alone\<close>

definition emission_keeps :: "database \<Rightarrow> database \<Rightarrow> bool" where
  "emission_keeps d d' \<longleftrightarrow>
     users d' = users d \<and> applications d' = applications d \<and> scale_states d' = scale_states d
   \<and> cluster_connections d' = cluster_connections d \<and> gitlab_groups d' = gitlab_groups d
   \<and> group_members d' = group_members d \<and> app_members d' = app_members d
   \<and> preferences d' = preferences d \<and> keycloak_instances d' = keycloak_instances d"

lemma emission_keeps_refl [simp]: "emission_keeps d d"
  by (simp add: emission_keeps_def)

lemma emission_keeps_trans: "emission_keeps a b \<Longrightarrow> emission_keeps b c \<Longrightarrow> emission_keeps a c"
  by (simp add: emission_keeps_def)

lemma for_each_emission:
  assumes "\<And>c s. \<exists>d'. f c s = (Inr (), s\<lparr>db := d'\<rparr>) \<and> emission_keeps (db s) d'"
  shows "\<exists>d'. for_each cs f s = (Inr (), s\<lparr>db := d'\<rparr>) \<and> emission_keeps (db s) d'"
proof (induction cs arbitrary: s)
  case Nil
  show ?case by (intro exI[of _ "db s"]) (simp add: prog_simps emission_keeps_def)
next
  case (Cons c cs)
  from assms[of c s] obtain d1 where d1: "f c s = (Inr (), s\<lparr>db := d1\<rparr>)" "emission_keeps (db s) d1" by blast
  from Cons[of "s\<lparr>db := d1\<rparr>"] obtain d2 where
    "for_each cs f (s\<lparr>db := d1\<rparr>) = (Inr (), s\<lparr>db := d2\<rparr>)" "emission_keeps d1 d2" by auto
  with d1 show ?case by (intro exI[of _ d2]) (simp add: prog_simps emission_keeps_def)
qed

lemma emit_event_keeps:
  "\<exists>d'. emit_event env ty sev src aid pl actor s = (Inr (), s\<lparr>db := d'\<rparr>) \<and> emission_keeps (db s) d'"
  by (intro exI[of _ "emit_db env ty sev src aid pl actor (db s)"]) (simp add: emit_event_apply emission_keeps_def)

end
