(* ===== verification/Notifications.thy ===== *)
theory Notifications
  imports Alerting
begin

text \<open>
  backend/services/notification_service.py and backend/api/routes/notifications.py: the inbox of a
  user. A notification goes from new to read to acknowledged and never back; the preferences are a
  table keyed by user and category (\<open>keyed_table\<close>). The instant of a request is a parameter.
\<close>

section \<open>The order of the states\<close>

fun state_rank :: "notification_state \<Rightarrow> nat" where
  "state_rank NEW = 0"
| "state_rank READ = 1"
| "state_rank ACKNOWLEDGED = 2"

instantiation notification_state :: linorder
begin

definition less_eq_notification_state :: "notification_state \<Rightarrow> notification_state \<Rightarrow> bool" where
  "less_eq_notification_state a b \<longleftrightarrow> state_rank a \<le> state_rank b"

definition less_notification_state :: "notification_state \<Rightarrow> notification_state \<Rightarrow> bool" where
  "less_notification_state a b \<longleftrightarrow> state_rank a < state_rank b"

instance
proof
  fix a b :: notification_state
  show "a \<le> b \<Longrightarrow> b \<le> a \<Longrightarrow> a = b"
    by (cases a; cases b) (auto simp: less_eq_notification_state_def)
qed (auto simp: less_eq_notification_state_def less_notification_state_def)

end

lemma state_bounds [simp]: "NEW \<le> st" "st \<le> ACKNOWLEDGED" "READ \<le> st \<longleftrightarrow> st \<noteq> NEW"
  by (cases st; simp add: less_eq_notification_state_def)+

section \<open>The service\<close>

text \<open>Newest first; of notifications of one instant, for which SQL promises no order, oldest first.\<close>

definition list_notifications ::
  "int \<Rightarrow> notification_state option \<Rightarrow> nat \<Rightarrow> nat \<Rightarrow> database \<Rightarrow> notification list" where
  "list_notifications user_id state limit offset d =
     take limit (drop offset (sort_key (\<lambda>n. - nt_created_at n)
       (select_rows (\<lambda>n. nt_recipient_user_id n = user_id
          \<and> (case state of Some st \<Rightarrow> nt_state n = st | None \<Rightarrow> nt_state n \<noteq> ACKNOWLEDGED))
        (notifications d))))"

definition count_unread :: "int \<Rightarrow> database \<Rightarrow> nat" where
  "count_unread user_id d =
     length (select_rows (\<lambda>n. nt_recipient_user_id n = user_id \<and> nt_state n = NEW) (notifications d))"

definition get_notification :: "int \<Rightarrow> int \<Rightarrow> (session, notification) prog" where
  "get_notification notification_id user_id =
     bnd (gets (\<lambda>s. find_row (\<lambda>n. nt_id n = notification_id \<and> nt_recipient_user_id n = user_id)
                      (notifications (db s))))
       (\<lambda>r. case r of None \<Rightarrow> raise_exc (HTTPException 404) | Some n \<Rightarrow> ret n)"

definition set_notification :: "int \<Rightarrow> (notification \<Rightarrow> notification) \<Rightarrow> session \<Rightarrow> session" where
  "set_notification i f s =
     s\<lparr>db := (db s)\<lparr>notifications := update_rows (\<lambda>n. nt_id n = i) f (notifications (db s))\<rparr>\<rparr>"

definition mark_read :: "int \<Rightarrow> int \<Rightarrow> int \<Rightarrow> (session, notification) prog" where
  "mark_read now notification_id user_id =
     bnd (get_notification notification_id user_id) (\<lambda>n.
       if nt_state n = NEW then
         bnd (modify (set_notification (nt_id n) (\<lambda>x. x\<lparr>nt_state := READ, nt_read_at := Some now\<rparr>))) (\<lambda>_.
         bnd (modify commit) (\<lambda>_. get_notification notification_id user_id))
       else ret n)"

definition acknowledge :: "int \<Rightarrow> notification \<Rightarrow> notification" where
  "acknowledge now n =
     n\<lparr>nt_state := ACKNOWLEDGED,
       nt_read_at := (if nt_read_at n = None then Some now else nt_read_at n)\<rparr>"

definition mark_acknowledged :: "int \<Rightarrow> int \<Rightarrow> int \<Rightarrow> (session, notification) prog" where
  "mark_acknowledged now notification_id user_id =
     bnd (get_notification notification_id user_id) (\<lambda>n.
     bnd (modify (set_notification (nt_id n) (acknowledge now))) (\<lambda>_.
     bnd (modify commit) (\<lambda>_. get_notification notification_id user_id)))"

definition clear_all :: "int \<Rightarrow> int \<Rightarrow> (session, nat) prog" where
  "clear_all now user_id =
     bnd (gets (\<lambda>s. select_rows (\<lambda>n. nt_recipient_user_id n = user_id \<and> nt_state n \<noteq> ACKNOWLEDGED)
                      (notifications (db s)))) (\<lambda>ns.
     bnd (modify (\<lambda>s. s\<lparr>db := (db s)\<lparr>notifications :=
            update_rows (\<lambda>n. nt_recipient_user_id n = user_id \<and> nt_state n \<noteq> ACKNOWLEDGED)
              (acknowledge now) (notifications (db s))\<rparr>\<rparr>)) (\<lambda>_.
     bnd (modify commit) (\<lambda>_. ret (length ns))))"

definition get_preferences :: "int \<Rightarrow> database \<Rightarrow> notification_preference list" where
  "get_preferences user_id d = select_rows (\<lambda>p. np_user_id p = user_id) (preferences d)"

definition upsert_preference :: "int \<Rightarrow> string \<Rightarrow> bool \<Rightarrow> (session, unit) prog" where
  "upsert_preference user_id category enabled =
     bnd (gets (\<lambda>s. get_preference (db s) user_id category)) (\<lambda>pref.
     bnd (modify (\<lambda>s. s\<lparr>db := (db s)\<lparr>preferences :=
            (case pref of
               Some _ \<Rightarrow> update_rows (\<lambda>p. np_user_id p = user_id \<and> np_category p = category)
                           (\<lambda>p. p\<lparr>np_enabled := enabled\<rparr>) (preferences (db s))
             | None \<Rightarrow> insert_row (\<lambda>i. \<lparr>np_id = i, np_user_id = user_id, np_category = category,
                                       np_enabled = enabled\<rparr>) (preferences (db s)))\<rparr>\<rparr>)) (\<lambda>_.
     modify commit))"

section \<open>The routes\<close>

fun parse_state :: "string \<Rightarrow> notification_state option" where
  "parse_state st =
     (if st = ''new'' then Some NEW else if st = ''read'' then Some READ
      else if st = ''acknowledged'' then Some ACKNOWLEDGED else None)"

definition list_notifications_route ::
  "string option \<Rightarrow> nat \<Rightarrow> nat \<Rightarrow> user \<Rightarrow> (session, notification list) prog" where
  "list_notifications_route state limit offset current_user =
     (if truthy_str state \<and> parse_state (the state) = None then raise_exc (HTTPException 422)
      else gets (\<lambda>s. list_notifications (usr_id current_user)
                       (if truthy_str state then parse_state (the state) else None)
                       (min limit 200) offset (db s)))"

definition update_notification_state ::
  "int \<Rightarrow> int \<Rightarrow> (string \<times> json) list \<Rightarrow> user \<Rightarrow> (session, notification) prog" where
  "update_notification_state now notification_id payload current_user =
     (let state = payload_get ''state'' payload JNull in
      if state \<notin> {JStr ''read'', JStr ''acknowledged''} then raise_exc (HTTPException 422)
      else if state = JStr ''read'' then mark_read now notification_id (usr_id current_user)
      else mark_acknowledged now notification_id (usr_id current_user))"

definition update_preference :: "string \<Rightarrow> bool \<Rightarrow> user \<Rightarrow> (session, unit) prog" where
  "update_preference category enabled current_user =
     (if category \<notin> set (map fst CATEGORY_MAP) then raise_exc (HTTPException 422)
      else upsert_preference (usr_id current_user) category enabled)"

section \<open>One step of the inbox\<close>

text \<open>What any operation may do to a stored notification.\<close>

definition moved :: "notification \<Rightarrow> notification \<Rightarrow> bool" where
  "moved n n' \<longleftrightarrow>
     nt_id n' = nt_id n \<and> nt_event_id n' = nt_event_id n \<and> nt_recipient_user_id n' = nt_recipient_user_id n
   \<and> nt_created_at n' = nt_created_at n \<and> nt_state n \<le> nt_state n'
   \<and> (nt_read_at n = None \<or> nt_read_at n' = nt_read_at n)"

text \<open>The read time is set exactly when the notification has left the state new.\<close>

definition well_timed :: "notification \<Rightarrow> bool" where
  "well_timed n \<longleftrightarrow> (nt_state n = NEW \<longleftrightarrow> nt_read_at n = None)"

lemma moved_refl [simp]: "moved n n"
  by (simp add: moved_def)

lemma moved_trans: "moved a b \<Longrightarrow> moved b c \<Longrightarrow> moved a c"
  by (auto simp: moved_def)

lemma acknowledge_moved [simp]: "moved n (acknowledge now n)"
  by (simp add: moved_def acknowledge_def)

lemma acknowledge_timed [simp]: "well_timed (acknowledge now n)"
  by (simp add: well_timed_def acknowledge_def)

text \<open>
  The steps of an inbox: the four requests that write it, and the emission of an event. A request
  that fails is a step too (it changes nothing).
\<close>

inductive inbox_step :: "session \<Rightarrow> session \<Rightarrow> bool" where
  patch: "inbox_step s (snd (update_notification_state now i payload u s))"
| clear: "inbox_step s (snd (clear_all now uid s))"
| preference: "inbox_step s (snd (update_preference category enabled u s))"
| emission: "inbox_step s (snd (emit_event env ty sev src aid pl actor s))"

inductive_cases inbox_stepE: "inbox_step s s'"

definition inbox_ok :: "session \<Rightarrow> bool" where
  "inbox_ok s \<longleftrightarrow>
     distinct (map nt_id (rows (notifications (db s))))
   \<and> list_all (\<lambda>n. nt_id n < seq (notifications (db s))) (rows (notifications (db s)))
   \<and> list_all well_timed (rows (notifications (db s)))"

definition inbox_grows :: "session \<Rightarrow> session \<Rightarrow> bool" where
  "inbox_grows s s' \<longleftrightarrow>
     inbox_ok s'
   \<and> length (rows (notifications (db s))) \<le> length (rows (notifications (db s')))
   \<and> list_all2 moved (rows (notifications (db s)))
       (take (length (rows (notifications (db s)))) (rows (notifications (db s'))))"

lemma inbox_grows_refl: "inbox_ok s \<Longrightarrow> inbox_grows s s"
  by (simp add: inbox_grows_def list_all2_refl)

lemma inbox_grows_trans:
  assumes "inbox_grows a b" and "inbox_grows b c"
  shows "inbox_grows a c"
proof -
  let ?n = "\<lambda>s. rows (notifications (db s))"
  have l: "length (?n a) \<le> length (?n b)" "length (?n b) \<le> length (?n c)"
    using assms by (simp_all add: inbox_grows_def)
  have m: "\<And>i. i < length (?n a) \<Longrightarrow> moved (?n a ! i) (?n b ! i)"
    "\<And>i. i < length (?n b) \<Longrightarrow> moved (?n b ! i) (?n c ! i)"
    using assms l by (auto simp: inbox_grows_def list_all2_conv_all_nth)
  have "moved (?n a ! i) (?n c ! i)" if "i < length (?n a)" for i
    using m(1)[OF that] m(2)[of i] that l by (meson moved_trans less_le_trans)
  then have "list_all2 moved (?n a) (take (length (?n a)) (?n c))"
    unfolding list_all2_conv_all_nth using l by simp
  with assms l show ?thesis by (simp add: inbox_grows_def)
qed

lemma inbox_grows_map:
  assumes "rows (notifications (db s')) = map f (rows (notifications (db s)))"
    and "seq (notifications (db s')) = seq (notifications (db s))"
    and "\<And>n. n \<in> set (rows (notifications (db s))) \<Longrightarrow> well_timed n \<Longrightarrow> moved n (f n) \<and> well_timed (f n)"
    and "inbox_ok s"
  shows "inbox_grows s s'"
proof -
  have w: "moved n (f n) \<and> well_timed (f n)" if "n \<in> set (rows (notifications (db s)))" for n
    using assms(3,4) that by (auto simp: inbox_ok_def list_all_iff)
  then have ids: "map nt_id (map f (rows (notifications (db s)))) = map nt_id (rows (notifications (db s)))"
    by (auto simp: moved_def)
  have "distinct (map nt_id (rows (notifications (db s'))))"
    unfolding assms(1) ids using assms(4) by (simp add: inbox_ok_def)
  then show ?thesis
    using assms(4) w by (auto simp: inbox_grows_def inbox_ok_def assms(1,2) list_all_iff list_all2_conv_all_nth moved_def)
qed

lemma set_notification_rows:
  "rows (notifications (db (set_notification i f s))) =
     map (\<lambda>n. if nt_id n = i then f n else n) (rows (notifications (db s)))"
  "seq (notifications (db (set_notification i f s))) = seq (notifications (db s))"
  by (simp_all add: set_notification_def table_simps update_rows_def)

lemma commit_db [simp]: "db (commit s) = db s"
  by (simp add: commit_def)

lemma get_notification_cases:
  "get_notification i u s =
     (case find_row (\<lambda>n. nt_id n = i \<and> nt_recipient_user_id n = u) (notifications (db s)) of
        None \<Rightarrow> (Inl (HTTPException 404), s) | Some n \<Rightarrow> (Inr n, s))"
  by (simp add: get_notification_def prog_simps split: option.split)

lemma snd_get_notification [simp]: "snd (get_notification i u s) = s"
  by (simp add: get_notification_cases split: option.split)

lemma mark_read_snd:
  "snd (mark_read now i u s) =
     (case find_row (\<lambda>n. nt_id n = i \<and> nt_recipient_user_id n = u) (notifications (db s)) of
        None \<Rightarrow> s
      | Some n \<Rightarrow> if nt_state n = NEW
          then commit (set_notification (nt_id n) (\<lambda>x. x\<lparr>nt_state := READ, nt_read_at := Some now\<rparr>) s) else s)"
  by (simp add: mark_read_def get_notification_cases[of i u s] prog_simps split: option.split)

lemma mark_acknowledged_snd:
  "snd (mark_acknowledged now i u s) =
     (case find_row (\<lambda>n. nt_id n = i \<and> nt_recipient_user_id n = u) (notifications (db s)) of
        None \<Rightarrow> s | Some n \<Rightarrow> commit (set_notification (nt_id n) (acknowledge now) s))"
  by (simp add: mark_acknowledged_def get_notification_cases[of i u s] prog_simps split: option.split)

lemma grows_update:
  assumes "find_row (\<lambda>n. nt_id n = i \<and> P n) (notifications (db s)) = Some n0" and "inbox_ok s"
    and "moved n0 (f n0)" and "well_timed (f n0)"
  shows "inbox_grows s (commit (set_notification i f s))"
proof (rule inbox_grows_map[where f = "\<lambda>n. if nt_id n = i then f n else n"])
  fix n assume "n \<in> set (rows (notifications (db s)))" and "well_timed n"
  moreover have "n0 \<in> set (rows (notifications (db s)))" "nt_id n0 = i"
    using find_row_Some[OF assms(1)] by auto
  ultimately have "nt_id n = i \<Longrightarrow> n = n0"
    using assms(2) by (auto simp: inbox_ok_def distinct_map inj_on_def)
  with assms(3,4) \<open>well_timed n\<close>
  show "moved n (if nt_id n = i then f n else n) \<and> well_timed (if nt_id n = i then f n else n)" by auto
qed (use assms(2) in \<open>simp_all add: set_notification_rows\<close>)

lemma grows_mark_read:
  assumes "inbox_ok s" shows "inbox_grows s (snd (mark_read now i u s))"
proof (cases "find_row (\<lambda>n. nt_id n = i \<and> nt_recipient_user_id n = u) (notifications (db s))")
  case (Some n)
  then have n: "nt_id n = i" "n \<in> set (rows (notifications (db s)))" using find_row_Some[OF Some] by auto
  show ?thesis
  proof (cases "nt_state n = NEW")
    case True
    moreover have "nt_read_at n = None"
      using n True assms by (auto simp: inbox_ok_def list_all_iff well_timed_def)
    ultimately have "inbox_grows s (commit (set_notification i
        (\<lambda>x. x\<lparr>nt_state := READ, nt_read_at := Some now\<rparr>) s))"
      by (intro grows_update[OF Some assms]) (simp_all add: moved_def well_timed_def)
    with Some True n show ?thesis by (simp add: mark_read_snd)
  qed (simp add: mark_read_snd Some inbox_grows_refl[OF assms])
qed (simp add: mark_read_snd inbox_grows_refl[OF assms])

lemma grows_mark_acknowledged:
  assumes "inbox_ok s" shows "inbox_grows s (snd (mark_acknowledged now i u s))"
proof (cases "find_row (\<lambda>n. nt_id n = i \<and> nt_recipient_user_id n = u) (notifications (db s))")
  case (Some n)
  then have "nt_id n = i" using find_row_Some[OF Some] by auto
  moreover have "inbox_grows s (commit (set_notification i (acknowledge now) s))"
    by (intro grows_update[OF Some assms]) simp_all
  ultimately show ?thesis using Some by (simp add: mark_acknowledged_snd)
qed (simp add: mark_acknowledged_snd inbox_grows_refl[OF assms])

lemma clear_all_rows:
  "rows (notifications (db (snd (clear_all now u s)))) =
     map (\<lambda>n. if nt_recipient_user_id n = u \<and> nt_state n \<noteq> ACKNOWLEDGED then acknowledge now n else n)
       (rows (notifications (db s)))"
  "seq (notifications (db (snd (clear_all now u s)))) = seq (notifications (db s))"
  by (simp_all add: clear_all_def prog_simps table_simps update_rows_def)

lemma filter_map_other:
  assumes "\<And>n. P n \<Longrightarrow> \<not> Q n \<and> \<not> Q (f n)"
  shows "filter Q (map (\<lambda>n. if P n then f n else n) ns) = filter Q ns"
  using assms by (induction ns) auto

lemma grows_clear_all: "inbox_ok s \<Longrightarrow> inbox_grows s (snd (clear_all now u s))"
  by (rule inbox_grows_map[OF clear_all_rows]) auto

lemma grows_patch: "inbox_ok s \<Longrightarrow> inbox_grows s (snd (update_notification_state now i payload u s))"
  by (auto simp: update_notification_state_def Let_def prog_simps inbox_grows_refl
      intro: grows_mark_read grows_mark_acknowledged)

lemma preference_frame:
  "notifications (db (snd (update_preference category enabled u s))) = notifications (db s)"
  by (simp add: update_preference_def upsert_preference_def prog_simps)

lemma grows_preference:
  assumes "inbox_ok s" shows "inbox_grows s (snd (update_preference category enabled u s))"
  using assms by (simp add: inbox_grows_def inbox_ok_def preference_frame list_all2_refl)

lemma grows_add:
  assumes "inbox_ok s" shows "inbox_grows s (s\<lparr>db := add_notification env ev u (db s)\<rparr>)"
proof (cases "wants (db s) (category_of (ev_type ev)) u")
  case True
  then show ?thesis
    using assms by (auto simp: inbox_grows_def inbox_ok_def add_notification_def insert_row_def
        new_notification_def well_timed_def list_all_iff list_all2_refl)
next
  case False
  then have "add_notification env ev u (db s) = db s" by (simp add: add_notification_def)
  with assms show ?thesis by (simp add: inbox_grows_refl)
qed

lemma grows_fold: "inbox_ok s \<Longrightarrow> inbox_grows s (s\<lparr>db := fold (add_notification env ev) us (db s)\<rparr>)"
proof (induction us arbitrary: s)
  case (Cons u us)
  let ?s1 = "s\<lparr>db := add_notification env ev u (db s)\<rparr>"
  have g: "inbox_grows s ?s1" using Cons.prems by (rule grows_add)
  then have "inbox_ok ?s1" by (simp add: inbox_grows_def)
  from inbox_grows_trans[OF g Cons.IH[OF this]] show ?case by simp
qed (simp add: inbox_grows_refl)

lemma grows_emission:
  assumes "inbox_ok s" shows "inbox_grows s (snd (emit_event env ty sev src aid pl actor s))"
proof -
  define s1 where "s1 = s\<lparr>db := (db s)\<lparr>events := insert_row (make_event env ty sev src aid pl) (events (db s))\<rparr>\<rparr>"
  have n: "notifications (db s1) = notifications (db s)" by (simp add: s1_def)
  then have ok: "inbox_ok s1" using assms by (simp add: inbox_ok_def)
  have "snd (emit_event env ty sev src aid pl actor s) = s1
    \<or> (\<exists>ev us. snd (emit_event env ty sev src aid pl actor s) = s1\<lparr>db := fold (add_notification env ev) us (db s1)\<rparr>)"
    by (auto simp: emit_event_apply emit_db_def Let_def s1_def split: sum.split)
  then have "inbox_grows s1 (snd (emit_event env ty sev src aid pl actor s))"
    using inbox_grows_refl[OF ok] grows_fold[OF ok] by (elim disjE exE) simp_all
  then show ?thesis by (simp add: inbox_grows_def n)
qed

lemma inbox_step_grows: "inbox_step s s' \<Longrightarrow> inbox_ok s \<Longrightarrow> inbox_grows s s'"
  by (induction rule: inbox_step.induct)
    (simp_all add: grows_patch grows_clear_all grows_preference grows_emission)

text \<open>
  C17: however requests and events follow one another, a stored notification stays in its place with
  its event and its recipient, moves only forward from new to read to acknowledged, and keeps the
  instant at which it was first read, which is set exactly when it has left the state new.
\<close>

theorem inbox_moves_forward:
  assumes "inbox_step\<^sup>*\<^sup>* s s'" and "inbox_ok s"
  shows "inbox_grows s s'"
  using assms
proof (induction rule: rtranclp_induct)
  case base
  then show ?case by (rule inbox_grows_refl)
next
  case (step s1 s2)
  then have g: "inbox_grows s s1" by simp
  then have "inbox_ok s1" by (simp add: inbox_grows_def)
  from inbox_grows_trans[OF g inbox_step_grows[OF step.hyps(2) this]] show ?case .
qed

definition demo_inbox :: session where
  "demo_inbox = open_session (empty_database\<lparr>
     users := \<lparr>rows = [\<lparr>usr_id = 1, usr_email = ''a@x'', usr_hashed_password = '''', usr_role = ADMIN,
                       usr_is_active = True, usr_gitlab_user_id = None\<rparr>], seq = 2\<rparr>,
     notifications := \<lparr>rows = [\<lparr>nt_id = 1, nt_event_id = 1, nt_recipient_user_id = 1, nt_state = NEW,
                               nt_read_at = None, nt_created_at = 5\<rparr>], seq = 2\<rparr>\<rparr>)"

definition demo_read :: session where
  "demo_read = snd (clear_all 8 1 (snd (emit_event \<lparr>sha256_hex = id, py_repr = (\<lambda>_. ''''), clock = 7\<rparr>
     CLUSTER_OFFLINE ''critical'' ''health_worker'' None [] None demo_inbox)))"

lemma demo_read_reached: "inbox_step\<^sup>*\<^sup>* demo_inbox demo_read"
  unfolding demo_read_def
  by (rule rtranclp.rtrancl_into_rtrancl[OF r_into_rtranclp]) (rule inbox_step.intros)+

theorem inbox_moves_forward_witness:
  "inbox_step\<^sup>*\<^sup>* demo_inbox demo_read \<and> inbox_ok demo_inbox
   \<and> map nt_state (rows (notifications (db demo_read))) = [ACKNOWLEDGED, ACKNOWLEDGED]
   \<and> inbox_grows demo_inbox demo_read"
proof -
  have ok: "inbox_ok demo_inbox" by code_simp
  have "map nt_state (rows (notifications (db demo_read))) = [ACKNOWLEDGED, ACKNOWLEDGED]" by code_simp
  with ok show ?thesis using demo_read_reached inbox_moves_forward[OF demo_read_reached ok] by blast
qed

text \<open>
  Clearing an inbox acknowledges every pending notification of the caller, so that the default
  listing and the unread count become empty; it returns how many there were, commits, and leaves
  the notifications of every other user as they were.
\<close>

theorem clear_all_empties_inbox:
  "\<exists>s'. clear_all now u s = (Inr (length (list_notifications u None (length (rows (notifications (db s)))) 0 (db s))), s')
     \<and> list_notifications u None limit offset (db s') = [] \<and> count_unread u (db s') = 0
     \<and> filter (\<lambda>n. nt_recipient_user_id n \<noteq> u) (rows (notifications (db s')))
         = filter (\<lambda>n. nt_recipient_user_id n \<noteq> u) (rows (notifications (db s)))
     \<and> saved s' = db s'"
proof -
  let ?s' = "snd (clear_all now u s)"
  have none: "nt_state n = ACKNOWLEDGED"
    if n: "n \<in> set (rows (notifications (db ?s')))" "nt_recipient_user_id n = u" for n
  proof -
    from n(1) obtain m where "n = (if nt_recipient_user_id m = u \<and> nt_state m \<noteq> ACKNOWLEDGED
        then acknowledge now m else m)" unfolding clear_all_rows by (auto simp only: set_map)
    with n(2) show ?thesis by (cases "nt_recipient_user_id m = u \<and> nt_state m \<noteq> ACKNOWLEDGED")
      (auto simp: acknowledge_def)
  qed
  have "select_rows (\<lambda>n. nt_recipient_user_id n = u \<and> nt_state n \<noteq> ACKNOWLEDGED) (notifications (db ?s')) = []"
    using none by (auto simp: select_rows_def filter_empty_conv)
  then have "list_notifications u None limit offset (db ?s') = []"
    by (simp add: list_notifications_def)
  moreover have "count_unread u (db ?s') = 0"
    using none by (auto simp: count_unread_def select_rows_def filter_empty_conv)
  moreover have "filter (\<lambda>n. nt_recipient_user_id n \<noteq> u) (rows (notifications (db ?s')))
      = filter (\<lambda>n. nt_recipient_user_id n \<noteq> u) (rows (notifications (db s)))"
    unfolding clear_all_rows by (rule filter_map_other) (auto simp: acknowledge_def)
  moreover have "saved ?s' = db ?s'" by (simp add: clear_all_def prog_simps commit_def)
  moreover have "clear_all now u s
      = (Inr (length (list_notifications u None (length (rows (notifications (db s)))) 0 (db s))), ?s')"
    by (simp add: clear_all_def prog_simps list_notifications_def select_rows_def)
  ultimately show ?thesis by (intro exI[of _ ?s'] conjI)
qed

section \<open>Preferences\<close>

definition pref_key :: "notification_preference \<Rightarrow> int \<times> string" where
  "pref_key p = (np_user_id p, np_category p)"

definition pref_create :: "int \<times> string \<Rightarrow> int \<Rightarrow> notification_preference" where
  "pref_create k i = \<lparr>np_id = i, np_user_id = fst k, np_category = snd k, np_enabled = True\<rparr>"

interpretation pref: keyed_table pref_key pref_create
  by unfold_locales (simp add: pref_key_def pref_create_def)

lemma get_preference_key: "get_preference d u c = pref.row_at (u, c) (preferences d)"
  by (simp add: get_preference_def pref.row_at_def pref_key_def)

lemma upsert_preference_is_upsert:
  "preferences (db (snd (upsert_preference u c enabled s))) =
     upsert_row pref_key pref_create (u, c) (\<lambda>p. p\<lparr>np_enabled := enabled\<rparr>) (preferences (db s))"
proof (cases "get_preference (db s) u c")
  case None
  then have "\<forall>p \<in> set (rows (preferences (db s))). \<not> (np_user_id p = u \<and> np_category p = c)"
    by (simp add: get_preference_def find_row_None)
  then have "map (\<lambda>r. if np_user_id r = u \<and> np_category r = c then r\<lparr>np_enabled := enabled\<rparr> else r)
      (rows (preferences (db s))) = rows (preferences (db s))"
    by (intro map_idI) auto
  with None show ?thesis
    by (simp add: upsert_preference_def prog_simps upsert_row_def get_or_create_def get_preference_def
        pref_key_def pref_create_def insert_row_def update_rows_def)
next
  case (Some p)
  then show ?thesis
    by (simp add: upsert_preference_def prog_simps upsert_row_def get_or_create_def get_preference_def pref_key_def)
qed

text \<open>
  Setting a preference decides, from then on, whether the caller is notified of that category,
  and changes no other user's preference and none of another category; an unknown category answers
  422 and changes nothing.
\<close>

theorem update_preference_exact:
  "update_preference c enabled u s =
     (if c \<in> {''app'', ''cluster'', ''group''} then (Inr (), snd (update_preference c enabled u s))
      else (Inl (HTTPException 422), s))
 \<and> wants (db (snd (update_preference c enabled u s))) c' v =
     (if c \<in> {''app'', ''cluster'', ''group''} \<and> c' = c \<and> v = usr_id u then enabled
      else wants (db s) c' v)"
proof -
  have cats: "c \<in> fst ` set CATEGORY_MAP \<longleftrightarrow> c \<in> {''app'', ''cluster'', ''group''}"
    by (simp add: CATEGORY_MAP_def)
  let ?k = "(usr_id u, c)"
  let ?f = "\<lambda>p. p\<lparr>np_enabled := enabled\<rparr>"
  show ?thesis
  proof (cases "c \<in> {''app'', ''cluster'', ''group''}")
    case True
    let ?s' = "snd (update_preference c enabled u s)"
    have key: "pref_key (?f p) = pref_key p" for p by (simp add: pref_key_def)
    have run: "update_preference c enabled u s = (Inr (), ?s')"
      using True by (simp add: update_preference_def cats upsert_preference_def prog_simps)
    have "pref.row_at (v, c') (preferences (db ?s')) =
        (if (v, c') = ?k then Some (?f (case pref.row_at ?k (preferences (db s)) of
            Some r \<Rightarrow> r | None \<Rightarrow> pref_create ?k (seq (preferences (db s)))))
         else pref.row_at (v, c') (preferences (db s)))"
      using True by (simp add: update_preference_def cats upsert_preference_is_upsert key pref.upsert_same pref.upsert_other)
    then show ?thesis
      using True run by (simp add: wants_def get_preference_key)
  qed (simp add: update_preference_def cats prog_simps)
qed

end
