(* ===== verification/Urls.thy ===== *)
theory Urls
  imports Prelude Py_Strings
begin

text \<open>
  URLs as the code reads them: \<open>urllib.parse.urlsplit\<close> and \<open>urlparse\<close> of Python 3.11 on ASCII
  text (IP literals in brackets are validated by the \<open>ipaddress\<close> module, here the parameter
  \<open>ip_ok\<close>), and \<open>extract_project_path\<close> of backend/ci/detector.py.
\<close>

section \<open>Cutting strings\<close>

text \<open>\<open>s.partition(x)\<close> and \<open>s.rpartition(x)\<close>: the part before, whether \<open>x\<close> occurs, the part after.\<close>

definition partition_at :: "char \<Rightarrow> string \<Rightarrow> string \<times> bool \<times> string" where
  "partition_at x s = (takeWhile (\<lambda>c. c \<noteq> x) s, x \<in> set s, drop 1 (dropWhile (\<lambda>c. c \<noteq> x) s))"

definition rpartition_at :: "char \<Rightarrow> string \<Rightarrow> string \<times> bool \<times> string" where
  "rpartition_at x s =
     (if x \<in> set s
      then (rev (drop 1 (dropWhile (\<lambda>c. c \<noteq> x) (rev s))), True, rev (takeWhile (\<lambda>c. c \<noteq> x) (rev s)))
      else ([], False, s))"

lemma partition_at_join: "x \<in> set s \<Longrightarrow> (case partition_at x s of (a, _, b) \<Rightarrow> a @ x # b) = s"
  by (induction s) (auto simp: partition_at_def)

lemma partition_at_free: "x \<notin> set a \<Longrightarrow> partition_at x (a @ x # b) = (a, True, b)"
  by (induction a) (auto simp: partition_at_def)

lemma partition_at_none: "x \<notin> set a \<Longrightarrow> partition_at x a = (a, False, [])"
  by (induction a) (auto simp: partition_at_def)

lemma rpartition_at_none: "x \<notin> set a \<Longrightarrow> rpartition_at x a = ([], False, a)"
  by (simp add: rpartition_at_def)

section \<open>urlsplit\<close>

record url_parts =
  url_scheme :: string
  url_netloc :: string
  url_path :: string
  url_query :: string
  url_fragment :: string

definition is_c0_or_space :: "char \<Rightarrow> bool" where
  "is_c0_or_space c \<longleftrightarrow> (of_char c :: nat) \<le> 32"

definition is_scheme_char :: "char \<Rightarrow> bool" where
  "is_scheme_char c \<longleftrightarrow> is_az c \<or> is_AZ c \<or> is_09 c \<or> c \<in> {CHR ''+'', CHR ''-'', CHR ''.''}"

definition split_scheme :: "string \<Rightarrow> string \<times> string" where
  "split_scheme url =
     (case partition_at (CHR '':'') url of (before, found, rest) \<Rightarrow>
        if found \<and> before \<noteq> [] \<and> (is_az (hd before) \<or> is_AZ (hd before)) \<and> list_all is_scheme_char before
        then (py_lower before, rest) else ([], url))"

definition is_netloc_delim :: "char \<Rightarrow> bool" where
  "is_netloc_delim c \<longleftrightarrow> c \<in> {CHR ''/'', CHR ''?'', CHR ''#''}"

definition split_netloc :: "string \<Rightarrow> string \<times> string" where
  "split_netloc url =
     (if take 2 url = ''//''
      then (takeWhile (\<lambda>c. \<not> is_netloc_delim c) (drop 2 url), dropWhile (\<lambda>c. \<not> is_netloc_delim c) (drop 2 url))
      else ([], url))"

definition brackets_ok :: "(string \<Rightarrow> bool) \<Rightarrow> string \<Rightarrow> bool" where
  "brackets_ok ip_ok netloc \<longleftrightarrow>
     (CHR ''['' \<in> set netloc \<longleftrightarrow> CHR '']'' \<in> set netloc)
   \<and> (CHR ''['' \<in> set netloc \<longrightarrow>
        ip_ok (fst (partition_at (CHR '']'') (snd (snd (partition_at (CHR ''['') netloc))))))"

definition urlsplit :: "(string \<Rightarrow> bool) \<Rightarrow> string \<Rightarrow> exc + url_parts" where
  "urlsplit ip_ok raw =
     (let url = filter (\<lambda>c. c \<notin> {CHR 0x09, CHR 0x0D, CHR 0x0A}) (lstrip is_c0_or_space raw);
          (scheme, rest) = split_scheme url;
          (netloc, rest) = split_netloc rest
      in if \<not> brackets_ok ip_ok netloc then Inl ValueError
         else
           (let (rest, _, fragment) = partition_at (CHR ''#'') rest;
                (path, _, query) = partition_at (CHR ''?'') rest
            in Inr \<lparr>url_scheme = scheme, url_netloc = netloc, url_path = path, url_query = query,
                    url_fragment = fragment\<rparr>))"

text \<open>\<open>.username\<close>, \<open>.password\<close>, \<open>.hostname\<close> and \<open>.port\<close> of the result.\<close>

definition url_userinfo :: "url_parts \<Rightarrow> string option \<times> string option" where
  "url_userinfo u =
     (case rpartition_at (CHR ''@'') (url_netloc u) of (userinfo, have_info, _) \<Rightarrow>
        if have_info then
          (case partition_at (CHR '':'') userinfo of (username, have_password, password) \<Rightarrow>
             (Some username, if have_password then Some password else None))
        else (None, None))"

definition url_username :: "url_parts \<Rightarrow> string option" where
  "url_username u = fst (url_userinfo u)"

definition url_password :: "url_parts \<Rightarrow> string option" where
  "url_password u = snd (url_userinfo u)"

definition url_hostinfo :: "url_parts \<Rightarrow> string \<times> string" where
  "url_hostinfo u =
     (let hostinfo = snd (snd (rpartition_at (CHR ''@'') (url_netloc u)));
          (_, have_open_br, bracketed) = partition_at (CHR ''['') hostinfo
      in if have_open_br then
           (let (hostname, _, after) = partition_at (CHR '']'') bracketed
            in (hostname, snd (snd (partition_at (CHR '':'') after))))
         else
           (let (hostname, _, port) = partition_at (CHR '':'') hostinfo in (hostname, port)))"

definition url_hostname :: "url_parts \<Rightarrow> string option" where
  "url_hostname u =
     (let hostname = fst (url_hostinfo u) in
      if hostname = [] then None
      else (case partition_at (CHR ''%'') hostname of (host, percent, zone) \<Rightarrow>
              Some (py_lower host @ (if percent then CHR ''%'' # zone else []))))"

definition url_port :: "url_parts \<Rightarrow> exc + nat option" where
  "url_port u =
     (let port = snd (url_hostinfo u) in
      if port = [] then Inr None
      else if list_all is_09 port then
        (case parse_digits 0 port of
           Some n \<Rightarrow> if n \<le> 65535 then Inr (Some n) else Inl ValueError
         | None \<Rightarrow> Inl ValueError)
      else Inl ValueError)"

section \<open>urlparse and the path of a GitLab project\<close>

definition uses_params :: "string list" where
  "uses_params = ['''', ''ftp'', ''hdl'', ''prospero'', ''http'', ''imap'', ''https'', ''shttp'', ''rtsp'',
     ''rtsps'', ''rtspu'', ''sip'', ''sips'', ''mms'', ''sftp'', ''tel'']"

definition drop_params :: "string \<Rightarrow> string" where
  "drop_params path =
     (if CHR ''/'' \<in> set path then
        (case rpartition_at (CHR ''/'') path of (before, _, segment) \<Rightarrow>
           before @ ''/'' @ fst (partition_at (CHR '';'') segment))
      else fst (partition_at (CHR '';'') path))"

definition urlparse_path :: "(string \<Rightarrow> bool) \<Rightarrow> string \<Rightarrow> exc + string" where
  "urlparse_path ip_ok raw =
     (case urlsplit ip_ok raw of
        Inl e \<Rightarrow> Inl e
      | Inr u \<Rightarrow> Inr (if url_scheme u \<in> set uses_params \<and> CHR '';'' \<in> set (url_path u)
                     then drop_params (url_path u) else url_path u))"

definition extract_project_path :: "(string \<Rightarrow> bool) \<Rightarrow> string \<Rightarrow> exc + string" where
  "extract_project_path ip_ok repo_url =
     (let url = (if sublist ''://'' repo_url then repo_url else ''https://'' @ repo_url) in
      case urlparse_path ip_ok url of
        Inl e \<Rightarrow> Inl e
      | Inr p \<Rightarrow>
          (let path = lstrip (\<lambda>c. c = CHR ''/'') p in
           Inr (if suffix ''.git'' path then take (length path - 4) path else path)))"

section \<open>Addresses built from a host and a path are read back\<close>

definition is_plain_host_char :: "char \<Rightarrow> bool" where
  "is_plain_host_char c \<longleftrightarrow> is_az c \<or> is_09 c \<or> c = CHR ''-'' \<or> c = CHR ''.''"

definition is_plain_path_char :: "char \<Rightarrow> bool" where
  "is_plain_path_char c \<longleftrightarrow> is_az c \<or> is_AZ c \<or> is_09 c \<or> c \<in> {CHR ''-'', CHR ''.'', CHR ''/'', CHR ''_''}"

lemma plain_host_facts:
  assumes "is_plain_host_char c"
  shows "c \<noteq> CHR '':''" "c \<noteq> CHR ''['' " "c \<noteq> CHR '']''" "c \<noteq> CHR ''@''" "c \<noteq> CHR ''%''" "\<not> is_netloc_delim c"
    "c \<noteq> CHR ''#''" "c \<noteq> CHR ''?''" "c \<noteq> CHR 0x09" "c \<noteq> CHR 0x0D" "c \<noteq> CHR 0x0A" "is_plain_path_char c"
  using assms
  by (auto simp: is_plain_host_char_def is_netloc_delim_def is_plain_path_char_def is_az_def is_09_def
      lower_letters_def digit_chars_def)

lemma plain_path_facts:
  assumes "is_plain_path_char c"
  shows "c \<noteq> CHR '':''" "c \<noteq> CHR ''#''" "c \<noteq> CHR ''?''" "c \<noteq> CHR 0x09" "c \<noteq> CHR 0x0D" "c \<noteq> CHR 0x0A" "c \<noteq> CHR '';''"
  using assms
  by (auto simp: is_plain_path_char_def is_az_def is_AZ_def is_09_def lower_letters_def upper_letters_def digit_chars_def)

lemma split_scheme_https: "split_scheme (''https://'' @ r) = (''https'', ''//'' @ r)"
  by (simp add: split_scheme_def partition_at_def is_scheme_char_def is_az_def lower_letters_def py_lower_def
      lower_char_def is_AZ_def upper_letters_def)

lemma https_url_clean:
  assumes "list_all is_plain_host_char host" and "list_all is_plain_path_char path"
  shows "filter (\<lambda>c. c \<notin> {CHR 0x09, CHR 0x0D, CHR 0x0A}) (lstrip is_c0_or_space (''https://'' @ host @ path))
           = ''https://'' @ host @ path"
proof -
  have "filter (\<lambda>c. c \<notin> {CHR 0x09, CHR 0x0D, CHR 0x0A}) host = host"
    "filter (\<lambda>c. c \<notin> {CHR 0x09, CHR 0x0D, CHR 0x0A}) path = path"
    using assms plain_host_facts(9-11) plain_path_facts(4-6) by (auto simp: filter_id_conv list_all_iff)
  then show ?thesis by (simp add: lstrip_def is_c0_or_space_def)
qed

lemma split_netloc_plain:
  assumes "list_all is_plain_host_char host" and "path = [] \<or> hd path = CHR ''/''"
  shows "split_netloc (''//'' @ host @ path) = (host, path)"
proof -
  have "\<forall>c \<in> set host. \<not> is_netloc_delim c"
    using assms(1) plain_host_facts(6) by (auto simp: list_all_iff)
  then show ?thesis
    using assms(2) by (cases path) (auto simp: split_netloc_def is_netloc_delim_def takeWhile_append dropWhile_append)
qed

lemma urlsplit_https:
  assumes "list_all is_plain_host_char host" and "list_all is_plain_path_char path"
    and "path = [] \<or> hd path = CHR ''/''"
  shows "urlsplit ip_ok (''https://'' @ host @ path) =
    Inr \<lparr>url_scheme = ''https'', url_netloc = host, url_path = path, url_query = [], url_fragment = []\<rparr>"
proof -
  have "CHR ''['' \<notin> set host" "CHR '']'' \<notin> set host"
    using assms(1) plain_host_facts(2,3) by (auto simp: list_all_iff)
  then have b: "brackets_ok ip_ok host" by (simp add: brackets_ok_def)
  have "CHR ''#'' \<notin> set path" "CHR ''?'' \<notin> set path"
    using assms(2) plain_path_facts(2,3) by (auto simp: list_all_iff)
  then have "partition_at (CHR ''#'') path = (path, False, [])" "partition_at (CHR ''?'') path = (path, False, [])"
    by (simp_all add: partition_at_none)
  with b show ?thesis
    unfolding urlsplit_def Let_def https_url_clean[OF assms(1,2)] split_scheme_https
    by (simp only: prod.case split_netloc_plain[OF assms(1,3)] if_False not_not simp_thms)
qed

lemma plain_https_parts:
  assumes "list_all is_plain_host_char host" and "host \<noteq> []" and "url_netloc u = host"
  shows "url_hostname u = Some host" "url_username u = None" "url_password u = None" "url_port u = Inr None"
proof -
  have n: "c \<notin> set host" if "\<not> is_plain_host_char c" for c
    using assms(1) that by (auto simp: list_all_iff)
  have f: "CHR '':'' \<notin> set host" "CHR ''['' \<notin> set host" "CHR ''@'' \<notin> set host" "CHR ''%'' \<notin> set host"
    by (rule n, simp add: is_plain_host_char_def char_class_defs)+
  have "lower_char c = c" if "is_plain_host_char c" for c
    using that by (auto simp: is_plain_host_char_def char_class_defs lower_char_def Let_def)
  then have "py_lower host = host"
    using assms(1) by (simp add: py_lower_def list_all_iff map_idI)
  with f assms(2,3) show "url_hostname u = Some host" "url_username u = None" "url_password u = None" "url_port u = Inr None"
    by (simp_all add: url_hostname_def url_hostinfo_def url_username_def url_password_def url_userinfo_def
        url_port_def rpartition_at_none partition_at_none Let_def)
qed

text \<open>
  The GitLab project path is read back from every form of address that the code meets: with or
  without the https scheme, with or without the .git suffix.
\<close>

theorem extract_project_path_roundtrip:
  assumes "list_all is_plain_host_char host" and "list_all is_plain_path_char p"
    and "p \<noteq> []" and "hd p \<noteq> CHR ''/''" and "\<not> suffix ''.git'' p"
  shows "extract_project_path ip_ok (''https://'' @ host @ ''/'' @ p) = Inr p
       \<and> extract_project_path ip_ok (''https://'' @ host @ ''/'' @ p @ ''.git'') = Inr p
       \<and> extract_project_path ip_ok (host @ ''/'' @ p) = Inr p"
proof -
  have ext: "extract_project_path ip_ok (''https://'' @ host @ ''/'' @ q) =
      Inr (if suffix ''.git'' q then take (length q - 4) q else q)"
    if q: "list_all is_plain_path_char q" "q \<noteq> []" "hd q \<noteq> CHR ''/''" for q
  proof -
    have "list_all is_plain_path_char (''/'' @ q)" using q(1) by (simp add: is_plain_path_char_def)
    from urlsplit_https[OF assms(1) this, of ip_ok] have
      "urlsplit ip_ok (''https://'' @ host @ ''/'' @ q) =
        Inr \<lparr>url_scheme = ''https'', url_netloc = host, url_path = ''/'' @ q, url_query = [], url_fragment = []\<rparr>"
      by simp
    moreover have "CHR '';'' \<notin> set (''/'' @ q)" using q(1) plain_path_facts(7) by (auto simp: list_all_iff)
    moreover have "sublist ''://'' (''https://'' @ host @ ''/'' @ q)"
      using sublist_appendI[of "''://''" "''https''" "host @ ''/'' @ q"] by simp
    moreover have "lstrip (\<lambda>c. c = CHR ''/'') (''/'' @ q) = q" using q(2,3) by (cases q) (simp_all add: lstrip_def)
    ultimately show ?thesis by (simp add: extract_project_path_def urlparse_path_def)
  qed
  have "list_all is_plain_path_char (p @ ''.git'')" using assms(2)
    by (simp add: is_plain_path_char_def is_az_def lower_letters_def)
  moreover have "suffix ''.git'' (p @ ''.git'')" by (simp add: suffix_def)
  ultimately have "extract_project_path ip_ok (''https://'' @ host @ ''/'' @ p @ ''.git'') = Inr p"
    using ext[of "p @ ''.git''"] assms(3,4) by simp
  moreover have "\<not> sublist ''://'' (host @ ''/'' @ p)"
  proof
    assume "sublist ''://'' (host @ ''/'' @ p)"
    then have "CHR '':'' \<in> set (host @ ''/'' @ p)" using set_mono_sublist by fastforce
    then show False using assms(1,2) plain_host_facts(1) plain_path_facts(1) by (auto simp: list_all_iff)
  qed
  then have "extract_project_path ip_ok (host @ ''/'' @ p) = extract_project_path ip_ok (''https://'' @ host @ ''/'' @ p)"
    using sublist_appendI[of "''://''" "''https''" "host @ ''/'' @ p"] by (simp add: extract_project_path_def)
  ultimately show ?thesis using ext[OF assms(2,3,4)] assms(5) by simp
qed

theorem extract_project_path_roundtrip_witness:
  "extract_project_path (\<lambda>_. False) ''https://gitlab.com/4k/gitops.git'' = Inr ''4k/gitops''"
  using extract_project_path_roundtrip[of "''gitlab.com''" "''4k/gitops''" "\<lambda>_. False"]
  by (simp add: is_plain_host_char_def is_plain_path_char_def is_az_def is_09_def lower_letters_def digit_chars_def suffix_def)

end
