(* ===== verification/Json_Text.thy ===== *)
theory Json_Text
  imports Database
begin

text \<open>
  A text form of JSON values that can be read back. It stands where an example needs a concrete
  YAML or JSON library: nothing of the code is modelled here.
\<close>

definition enc_str :: "string \<Rightarrow> string" where
  "enc_str s = concat (map (\<lambda>c. [CHR ''.'', c]) s) @ '';''"

fun dec_str :: "string \<Rightarrow> (string \<times> string) option" where
  "dec_str (x # c # r) =
     (if x = CHR ''.'' then map_option (\<lambda>(s, r). (c # s, r)) (dec_str r)
      else if x = CHR '';'' then Some ([], c # r) else None)"
| "dec_str [x] = (if x = CHR '';'' then Some ([], []) else None)"
| "dec_str [] = None"

fun enc :: "json \<Rightarrow> string" where
  "enc JNull = ''n''"
| "enc (JBool b) = (if b then ''t'' else ''f'')"
| "enc (JNum i) = (if i < 0 then ''-'' else ''+'') @ enc_str (replicate (nat \<bar>i\<bar>) (CHR ''1''))"
| "enc (JStr s) = ''s'' @ enc_str s"
| "enc (JArr xs) = ''a'' @ concat (map (\<lambda>x. '','' @ enc x) xs) @ '';''"
| "enc (JObj kvs) = ''o'' @ concat (map (\<lambda>(k, v). '','' @ enc_str k @ enc v) kvs) @ '';''"

fun dec :: "nat \<Rightarrow> string \<Rightarrow> (json \<times> string) option"
and dec_items :: "nat \<Rightarrow> string \<Rightarrow> (json list \<times> string) option"
and dec_fields :: "nat \<Rightarrow> string \<Rightarrow> ((string \<times> json) list \<times> string) option" where
  "dec (Suc n) (c # r) =
     (if c = CHR ''n'' then Some (JNull, r)
      else if c = CHR ''t'' then Some (JBool True, r)
      else if c = CHR ''f'' then Some (JBool False, r)
      else if c = CHR ''+'' then map_option (\<lambda>(s, r). (JNum (int (length s)), r)) (dec_str r)
      else if c = CHR ''-'' then map_option (\<lambda>(s, r). (JNum (- int (length s)), r)) (dec_str r)
      else if c = CHR ''s'' then map_option (\<lambda>(s, r). (JStr s, r)) (dec_str r)
      else if c = CHR ''a'' then map_option (\<lambda>(xs, r). (JArr xs, r)) (dec_items n r)
      else if c = CHR ''o'' then map_option (\<lambda>(xs, r). (JObj xs, r)) (dec_fields n r)
      else None)"
| "dec n s = None"
| "dec_items (Suc n) (c # r) =
     (if c = CHR '';'' then Some ([], r)
      else (case dec n r of None \<Rightarrow> None
            | Some (x, r) \<Rightarrow> map_option (\<lambda>(xs, r). (x # xs, r)) (dec_items n r)))"
| "dec_items n s = None"
| "dec_fields (Suc n) (c # r) =
     (if c = CHR '';'' then Some ([], r)
      else (case dec_str r of None \<Rightarrow> None
            | Some (k, r) \<Rightarrow>
                (case dec n r of None \<Rightarrow> None
                 | Some (x, r) \<Rightarrow> map_option (\<lambda>(xs, r). ((k, x) # xs, r)) (dec_fields n r))))"
| "dec_fields n s = None"

lemma dec_enc_str [simp]: "dec_str (enc_str s @ r) = Some (s, r)"
proof (induction s)
  case Nil
  then show ?case by (cases r) (simp_all add: enc_str_def)
qed (simp add: enc_str_def)

lemma dec_enc: "length (enc j) \<le> n \<Longrightarrow> dec n (enc j @ r) = Some (j, r)"
proof (induction j arbitrary: n r)
  case (JArr xs)
  have "length (concat (map (\<lambda>x. '','' @ enc x) xs) @ '';'') \<le> m \<Longrightarrow>
      dec_items m (concat (map (\<lambda>x. '','' @ enc x) xs) @ '';'' @ r) = Some (xs, r)" for m
    using JArr.IH
  proof (induction xs arbitrary: m)
    case (Cons x xs)
    then show ?case by (cases m) simp_all
  qed (case_tac m, simp_all)
  with JArr.prems show ?case by (cases n) simp_all
next
  case (JObj kvs)
  have fields: "\<forall>k v n r. (k, v) \<in> set kvs \<longrightarrow> length (enc v) \<le> n \<longrightarrow> dec n (enc v @ r) = Some (v, r)"
    using JObj.IH by fastforce
  have "length (concat (map (\<lambda>(k, v). '','' @ enc_str k @ enc v) kvs) @ '';'') \<le> m \<Longrightarrow>
      dec_fields m (concat (map (\<lambda>(k, v). '','' @ enc_str k @ enc v) kvs) @ '';'' @ r) = Some (kvs, r)" for m
    using fields
  proof (induction kvs arbitrary: m)
    case Nil
    then show ?case by (cases m) simp_all
  next
    case (Cons x kvs)
    obtain k v where x: "x = (k, v)" by (cases x)
    show ?case
    proof (cases m)
      case (Suc m')
      with Cons.prems(1) have l: "length (enc v) \<le> m'"
        "length (concat (map (\<lambda>(k, v). '','' @ enc_str k @ enc v) kvs) @ '';'') \<le> m'" by (simp_all add: x)
      from Cons.prems(2) have r: "\<forall>k v n r. (k, v) \<in> set kvs \<longrightarrow> length (enc v) \<le> n \<longrightarrow> dec n (enc v @ r) = Some (v, r)"
        by (meson list.set_intros(2))
      have v: "dec m' (enc v @ q) = Some (v, q)" for q
        using Cons.prems(2) l(1) by (simp add: x)
      from Cons.IH[OF l(2) r] v Suc show ?thesis by (simp add: x)
    next
      case 0
      with Cons.prems(1) show ?thesis by simp
    qed
  qed
  with JObj.prems show ?case by (cases n) simp_all
next
  case JNull
  then show ?case by (cases n) simp_all
next
  case (JBool b)
  then show ?case by (cases n; cases b) simp_all
next
  case (JNum i)
  then show ?case by (cases n; cases "i < 0") simp_all
next
  case (JStr s)
  then show ?case by (cases n) simp_all
qed

definition decode :: "string \<Rightarrow> exc + json" where
  "decode s = (case dec (length s) s of Some (j, []) \<Rightarrow> Inr j | _ \<Rightarrow> Inl YAMLError)"

lemma decode_enc [simp]: "decode (enc j) = Inr j"
  using dec_enc[of j "length (enc j)" "[]"] by (simp add: decode_def)

end
