(* ===== verification/Gitops.thy ===== *)
theory Gitops
  imports Urls Json_Text
begin

text \<open>
  backend/gitlab/client.py: the commits that CNP makes in GitLab repositories, those of the gitops
  repository above all, and backend/ci/detector.py. The GitLab API (python-gitlab) and the YAML
  library are parameters; \<open>git_hosting\<close> states what the code relies on of them, and its clients'
  lemmas say what each operation leaves in the repository.
\<close>

section \<open>The GitLab API and YAML as the client sees them\<close>

datatype action_kind = CREATE | UPDATE | DELETE | UPSERT

record commit_action =
  ca_kind :: action_kind
  ca_path :: string
  ca_content :: "string option"

record tree_item =
  ti_name :: string
  ti_type :: string
  ti_path :: string

text \<open>
  \<open>project_get\<close> is \<open>gl.projects.get(path)\<close>; the other operations are those of the project
  object, here with the project's path first.
\<close>

record 'g gitlab_api =
  project_get :: "string \<Rightarrow> ('g, unit) prog"
  files_get :: "string \<Rightarrow> string \<Rightarrow> string \<Rightarrow> ('g, unit) prog"
  files_raw :: "string \<Rightarrow> string \<Rightarrow> string \<Rightarrow> ('g, string) prog"
  files_save :: "string \<Rightarrow> string \<Rightarrow> string \<Rightarrow> string \<Rightarrow> ('g, unit) prog"
  files_create :: "string \<Rightarrow> string \<Rightarrow> string \<Rightarrow> string \<Rightarrow> ('g, unit) prog"
  repository_tree :: "string \<Rightarrow> string \<Rightarrow> string \<Rightarrow> bool \<Rightarrow> ('g, tree_item list) prog"
  commits_create :: "string \<Rightarrow> string \<Rightarrow> commit_action list \<Rightarrow> ('g, unit) prog"
  branches_create :: "string \<Rightarrow> string \<Rightarrow> string \<Rightarrow> ('g, unit) prog"
  hooks_list :: "string \<Rightarrow> ('g, string list) prog"
  hooks_create :: "string \<Rightarrow> string \<Rightarrow> bool \<Rightarrow> ('g, unit) prog"

record yaml_lib =
  yaml_load :: "string \<Rightarrow> exc + json"
  yaml_dump :: "json \<Rightarrow> string"

section \<open>The client\<close>

definition get_project :: "'g gitlab_api \<Rightarrow> string \<Rightarrow> ('g, unit) prog" where
  "get_project api project_path = project_get api project_path"

definition list_tree :: "'g gitlab_api \<Rightarrow> string \<Rightarrow> string \<Rightarrow> string \<Rightarrow> ('g, tree_item list) prog" where
  "list_tree api project_path path git_ref =
     bnd (get_project api project_path) (\<lambda>_. repository_tree api project_path path git_ref False)"

definition list_tree_recursive :: "'g gitlab_api \<Rightarrow> string \<Rightarrow> string \<Rightarrow> ('g, tree_item list) prog" where
  "list_tree_recursive api project_path git_ref =
     bnd (get_project api project_path) (\<lambda>_. repository_tree api project_path '''' git_ref True)"

definition read_file :: "'g gitlab_api \<Rightarrow> string \<Rightarrow> string \<Rightarrow> string \<Rightarrow> ('g, string) prog" where
  "read_file api project_path file_path git_ref =
     bnd (get_project api project_path) (\<lambda>_. files_raw api project_path file_path git_ref)"

definition push_file :: "'g gitlab_api \<Rightarrow> string \<Rightarrow> string \<Rightarrow> string \<Rightarrow> string \<Rightarrow> ('g, unit) prog" where
  "push_file api project_path file_path content branch =
     bnd (get_project api project_path) (\<lambda>_.
       catch GitlabGetError
         (bnd (files_get api project_path file_path branch) (\<lambda>_.
            files_save api project_path file_path branch content))
         (files_create api project_path file_path branch content))"

definition file_exists :: "'g gitlab_api \<Rightarrow> string \<Rightarrow> string \<Rightarrow> string \<Rightarrow> ('g, bool) prog" where
  "file_exists api project_path file_path git_ref =
     bnd (get_project api project_path) (\<lambda>_.
       catch GitlabGetError
         (bnd (files_get api project_path file_path git_ref) (\<lambda>_. ret True)) (ret False))"

definition resolve_action :: "'g gitlab_api \<Rightarrow> string \<Rightarrow> string \<Rightarrow> commit_action \<Rightarrow> ('g, commit_action) prog" where
  "resolve_action api project_path branch a =
     (if ca_kind a = UPSERT then
        bnd (file_exists api project_path (ca_path a) branch) (\<lambda>found.
          ret (a\<lparr>ca_kind := (if found then UPDATE else CREATE)\<rparr>))
      else ret a)"

definition push_multiple_files ::
  "'g gitlab_api \<Rightarrow> string \<Rightarrow> string \<Rightarrow> commit_action list \<Rightarrow> ('g, unit) prog" where
  "push_multiple_files api project_path branch actions =
     bnd (get_project api project_path) (\<lambda>_.
     bnd (map_prog (resolve_action api project_path branch) actions) (\<lambda>resolved.
       commits_create api project_path branch resolved))"

definition create_branch :: "'g gitlab_api \<Rightarrow> string \<Rightarrow> string \<Rightarrow> string \<Rightarrow> ('g, unit) prog" where
  "create_branch api project_path branch git_ref =
     bnd (get_project api project_path) (\<lambda>_.
       catch GitlabCreateError (branches_create api project_path branch git_ref) (ret ()))"

definition register_webhook :: "'g gitlab_api \<Rightarrow> string \<Rightarrow> string \<Rightarrow> ('g, unit) prog" where
  "register_webhook api project_path webhook_url =
     bnd (get_project api project_path) (\<lambda>_.
     bnd (hooks_list api project_path) (\<lambda>existing.
       if webhook_url \<in> set existing then ret ()
       else hooks_create api project_path webhook_url (\<not> prefix ''http://'' webhook_url)))"

definition slugify :: "string \<Rightarrow> string" where
  "slugify name =
     (let slug = strip (\<lambda>c. c \<in> {CHR ''-'', CHR ''_'', CHR ''.''})
                   (collapse (CHR ''-'')
                     (sub_outside (\<lambda>c. is_az c \<or> is_09 c \<or> c \<in> {CHR ''_'', CHR ''.'', CHR ''-''}) (CHR ''-'')
                       (py_lower name)))
      in if slug = [] then ''app'' else slug)"

text \<open>The paths of the blobs of a branch; a branch that does not exist yet has none.\<close>

definition existing_paths :: "'g gitlab_api \<Rightarrow> string \<Rightarrow> string \<Rightarrow> ('g, string list) prog" where
  "existing_paths api project_path branch =
     catch GitlabGetError
       (bnd (repository_tree api project_path '''' branch True) (\<lambda>items.
          ret (map ti_path (filter (\<lambda>i. ti_type i = ''blob'') items))))
       (ret [])"

definition push_files_batch ::
  "'g gitlab_api \<Rightarrow> string \<Rightarrow> (string \<times> string) list \<Rightarrow> string \<Rightarrow> ('g, unit) prog" where
  "push_files_batch api project_path files branch =
     bnd (get_project api project_path) (\<lambda>_.
     bnd (existing_paths api project_path branch) (\<lambda>paths.
       commits_create api project_path branch
         (map (\<lambda>(file_path, content).
            \<lparr>ca_kind = (if file_path \<in> set paths then UPDATE else CREATE), ca_path = file_path,
             ca_content = Some content\<rparr>) files)))"

text \<open>\<open>yaml.safe_load(raw) or {}\<close>.\<close>

definition load_or_empty :: "yaml_lib \<Rightarrow> string \<Rightarrow> exc + json" where
  "load_or_empty y raw =
     (case yaml_load y raw of Inl e \<Rightarrow> Inl e | Inr j \<Rightarrow> Inr (if truthy j then j else JObj []))"

definition values_path :: "string \<Rightarrow> string \<Rightarrow> string \<Rightarrow> string" where
  "values_path cluster_name slug env = ''apps/'' @ cluster_name @ ''/'' @ slug @ ''/values-'' @ env @ ''.yaml''"

text \<open>The mutation of the values: \<open>setdefault\<close> of a dict, then the four keys.\<close>

fun set_ingress :: "bool \<Rightarrow> string \<Rightarrow> json \<Rightarrow> exc + json" where
  "set_ingress enabled host (JObj kvs) =
     (case map_of kvs ''ingress'' of
        None \<Rightarrow> Inr (JObj (dict_set ''ingress'' (JObj
          [(''enabled'', JBool enabled), (''className'', JStr ''nginx''),
           (''host'', JStr (if enabled then host else '''')), (''tls'', JBool False)]) kvs))
      | Some (JObj ing) \<Rightarrow> Inr (JObj (dict_set ''ingress'' (JObj
          (dict_set ''tls'' (JBool False) (dict_set ''host'' (JStr (if enabled then host else ''''))
            (dict_set ''className'' (JStr ''nginx'') (dict_set ''enabled'' (JBool enabled) ing))))) kvs))
      | Some _ \<Rightarrow> Inl TypeError)"
| "set_ingress enabled host _ = Inl AttributeError"

definition upsert_gitops_ingress ::
  "'g gitlab_api \<Rightarrow> yaml_lib \<Rightarrow> string \<Rightarrow> string \<Rightarrow> string \<Rightarrow> bool \<Rightarrow> string \<Rightarrow> string \<Rightarrow> string \<Rightarrow> ('g, unit) prog" where
  "upsert_gitops_ingress api y project_path slug env_name enabled host cluster_name branch =
     (let file_path = values_path cluster_name slug env_name in
      bnd (get_project api project_path) (\<lambda>_.
      bnd (catch GitlabGetError
             (bnd (read_file api project_path file_path branch) (\<lambda>raw.
              bnd (lift_result (load_or_empty y raw)) (\<lambda>data. ret (data, UPDATE))))
             (ret (JObj [], CREATE))) (\<lambda>(data, action).
      bnd (lift_result (set_ingress enabled host data)) (\<lambda>data.
        commits_create api project_path branch
          [\<lparr>ca_kind = action, ca_path = file_path, ca_content = Some (yaml_dump y data)\<rparr>]))))"

definition externalsecret_manifest :: "string \<Rightarrow> string \<Rightarrow> string \<Rightarrow> json" where
  "externalsecret_manifest slug group_slug env_name =
     JObj [(''apiVersion'', JStr ''external-secrets.io/v1''), (''kind'', JStr ''ExternalSecret''),
       (''metadata'', JObj [(''name'', JStr (slug @ ''-env'')), (''namespace'', JStr env_name)]),
       (''spec'', JObj [(''refreshInterval'', JStr ''5m''),
         (''secretStoreRef'', JObj [(''name'', JStr ''vault-backend''), (''kind'', JStr ''ClusterSecretStore'')]),
         (''target'', JObj [(''name'', JStr (slug @ ''-env'')), (''creationPolicy'', JStr ''Owner''),
                          (''deletionPolicy'', JStr ''Delete'')]),
         (''dataFrom'', JArr [JObj [(''extract'', JObj [(''key'',
            JStr (''secret/apps/'' @ group_slug @ ''/'' @ slug @ ''/'' @ env_name))])]])])]"

definition externalsecret_path :: "string \<Rightarrow> string \<Rightarrow> string \<Rightarrow> string" where
  "externalsecret_path cluster_name slug env_name =
     ''apps/'' @ cluster_name @ ''/'' @ slug @ ''/platform/'' @ env_name @ ''/externalsecret.yaml''"

definition legacy_externalsecret_path :: "string \<Rightarrow> string \<Rightarrow> string \<Rightarrow> string" where
  "legacy_externalsecret_path cluster_name slug env_name =
     ''apps/'' @ cluster_name @ ''/'' @ slug @ ''/externalsecret-'' @ env_name @ ''.yaml''"

definition upsert_externalsecret ::
  "'g gitlab_api \<Rightarrow> yaml_lib \<Rightarrow> string \<Rightarrow> string \<Rightarrow> string \<Rightarrow> string \<Rightarrow> string \<Rightarrow> string \<Rightarrow> ('g, unit) prog" where
  "upsert_externalsecret api y project_path slug group_slug env_name cluster_name branch =
     (let file_path = externalsecret_path cluster_name slug env_name;
          legacy_file_path = legacy_externalsecret_path cluster_name slug env_name in
      bnd (get_project api project_path) (\<lambda>_.
      bnd (file_exists api project_path file_path branch) (\<lambda>found.
      bnd (file_exists api project_path legacy_file_path branch) (\<lambda>legacy.
        commits_create api project_path branch
          (\<lparr>ca_kind = (if found then UPDATE else CREATE), ca_path = file_path,
            ca_content = Some (yaml_dump y (externalsecret_manifest slug group_slug env_name))\<rparr>
           # (if legacy then [\<lparr>ca_kind = DELETE, ca_path = legacy_file_path, ca_content = None\<rparr>] else []))))))"

record replica_override =
  ro_cluster_name :: string
  ro_app_slug :: string
  ro_env :: string
  ro_replicas :: "int option"

fun set_replicas :: "int option \<Rightarrow> json \<Rightarrow> exc + json" where
  "set_replicas None (JObj kvs) = Inr (JObj (dict_pop ''replicas'' kvs))"
| "set_replicas (Some n) (JObj kvs) = Inr (JObj (dict_set ''replicas'' (JNum n) kvs))"
| "set_replicas None (JArr xs) = Inl TypeError"
| "set_replicas None _ = Inl AttributeError"
| "set_replicas (Some n) _ = Inl TypeError"

definition override_path :: "replica_override \<Rightarrow> string" where
  "override_path c = values_path (ro_cluster_name c) (ro_app_slug c) (ro_env c)"

text \<open>One round of the loop over the changes: the action for one values file.\<close>

definition override_action ::
  "'g gitlab_api \<Rightarrow> yaml_lib \<Rightarrow> string \<Rightarrow> string \<Rightarrow> string list \<Rightarrow> replica_override \<Rightarrow> ('g, commit_action) prog" where
  "override_action api y project_path branch paths c =
     bnd (if override_path c \<in> set paths then
            catch GitlabGetError
              (bnd (read_file api project_path (override_path c) branch) (\<lambda>raw.
               bnd (lift_result (load_or_empty y raw)) (\<lambda>data. ret (data, UPDATE))))
              (ret (JObj [], CREATE))
          else ret (JObj [], CREATE)) (\<lambda>(data, kind).
     bnd (lift_result (set_replicas (ro_replicas c) data)) (\<lambda>data.
       ret \<lparr>ca_kind = kind, ca_path = override_path c, ca_content = Some (yaml_dump y data)\<rparr>))"

definition push_replica_overrides_batch ::
  "'g gitlab_api \<Rightarrow> yaml_lib \<Rightarrow> string \<Rightarrow> replica_override list \<Rightarrow> string \<Rightarrow> ('g, unit) prog" where
  "push_replica_overrides_batch api y project_path changes branch =
     bnd (get_project api project_path) (\<lambda>_.
     bnd (existing_paths api project_path branch) (\<lambda>paths.
     bnd (map_prog (override_action api y project_path branch paths) changes) (\<lambda>actions.
       if actions = [] then ret () else commits_create api project_path branch actions)))"

definition delete_directory_contents :: "'g gitlab_api \<Rightarrow> string \<Rightarrow> string \<Rightarrow> string \<Rightarrow> ('g, unit) prog" where
  "delete_directory_contents api project_path directory_path branch =
     bnd (get_project api project_path) (\<lambda>_.
     bnd (repository_tree api project_path directory_path branch True) (\<lambda>items.
       (let actions = map (\<lambda>i. \<lparr>ca_kind = DELETE, ca_path = ti_path i, ca_content = None\<rparr>)
                        (filter (\<lambda>i. ti_type i = ''blob'') items)
        in if actions = [] then ret () else commits_create api project_path branch actions)))"

section \<open>Framework detection\<close>

definition detect_framework :: "'g gitlab_api \<Rightarrow> (string \<Rightarrow> bool) \<Rightarrow> string \<Rightarrow> ('g, string) prog" where
  "detect_framework api ip_ok repo_url =
     bnd (lift_result (extract_project_path ip_ok repo_url)) (\<lambda>project_path.
     try_except
       (bnd (list_tree api project_path '''' ''HEAD'') (\<lambda>items.
          (let filenames = map ti_name items in
           if list_ex (\<lambda>f. f \<in> {''requirements.txt'', ''pyproject.toml'', ''setup.py'', ''setup.cfg'', ''Pipfile''})
                filenames then ret ''python''
           else if ''go.mod'' \<in> set filenames then ret ''go''
           else if ''package.json'' \<in> set filenames then ret ''nodejs''
           else ret ''generic'')))
       (\<lambda>_. ret ''generic''))"

section \<open>What the code relies on\<close>

text \<open>A commit is refused when an action does not fit the branch; else all its actions apply at once.\<close>

definition fits :: "(string \<Rightarrow> string option) \<Rightarrow> commit_action \<Rightarrow> bool" where
  "fits tree a \<longleftrightarrow>
     (case ca_kind a of
        CREATE \<Rightarrow> tree (ca_path a) = None \<and> ca_content a \<noteq> None
      | UPDATE \<Rightarrow> tree (ca_path a) \<noteq> None \<and> ca_content a \<noteq> None
      | DELETE \<Rightarrow> tree (ca_path a) \<noteq> None
      | UPSERT \<Rightarrow> False)"

definition committed :: "commit_action \<Rightarrow> string option" where
  "committed a = (if ca_kind a = DELETE then None else ca_content a)"

definition commits :: "commit_action list \<Rightarrow> (string \<Rightarrow> string option) \<Rightarrow> string \<Rightarrow> string option" where
  "commits acts tree f =
     (case find (\<lambda>a. ca_path a = f) acts of Some a \<Rightarrow> committed a | None \<Rightarrow> tree f)"

text \<open>
  The contract of the GitLab API on the main branch of the project \<open>p\<close>, while the service answers
  (\<open>up\<close>): reads return the blobs and change nothing, the tree lists exactly the blobs, a commit of
  fitting actions on distinct paths applies all of them.
\<close>

locale git_hosting =
  fixes api :: "'g gitlab_api"
    and p :: string
    and up :: "'g \<Rightarrow> bool"
    and blobs :: "'g \<Rightarrow> string \<Rightarrow> string option"
  assumes project_up: "up g \<Longrightarrow> project_get api p g = (Inr (), g)"
    and get_up: "up g \<Longrightarrow> files_get api p f ''main'' g =
          ((if blobs g f = None then Inl GitlabGetError else Inr ()), g)"
    and raw_up: "up g \<Longrightarrow> files_raw api p f ''main'' g =
          ((case blobs g f of None \<Rightarrow> Inl GitlabGetError | Some c \<Rightarrow> Inr c), g)"
    and tree_up: "up g \<Longrightarrow> \<exists>items. repository_tree api p '''' ''main'' True g = (Inr items, g)
          \<and> ti_path ` {i \<in> set items. ti_type i = ''blob''} = {f. blobs g f \<noteq> None}"
    and dir_up: "up g \<Longrightarrow> dir \<noteq> [] \<Longrightarrow> blobs g (dir @ ''/'' @ f) \<noteq> None \<Longrightarrow>
          \<exists>items. repository_tree api p dir ''main'' True g = (Inr items, g)
          \<and> distinct (map ti_path items)
          \<and> ti_path ` {i \<in> set items. ti_type i = ''blob''} = {h. prefix (dir @ ''/'') h \<and> blobs g h \<noteq> None}"
    and commit_up: "up g \<Longrightarrow> acts \<noteq> [] \<Longrightarrow> distinct (map ca_path acts) \<Longrightarrow>
          list_all (fits (blobs g)) acts \<Longrightarrow>
          \<exists>g'. commits_create api p ''main'' acts g = (Inr (), g') \<and> up g' \<and> blobs g' = commits acts (blobs g)"

text \<open>The contract of the YAML library: what it prints for a mapping, it reads back.\<close>

locale yaml_text =
  fixes y :: yaml_lib
  assumes load_dump: "yaml_load y (yaml_dump y (JObj kvs)) = Inr (JObj kvs)"

context git_hosting
begin

lemma get_project_up: "up g \<Longrightarrow> get_project api p g = (Inr (), g)"
  by (simp add: get_project_def project_up)

lemma file_exists_up: "up g \<Longrightarrow> file_exists api p f ''main'' g = (Inr (blobs g f \<noteq> None), g)"
  by (simp add: file_exists_def catch_def prog_simps get_project_up get_up)

lemma read_file_up:
  "up g \<Longrightarrow> read_file api p f ''main'' g = ((case blobs g f of None \<Rightarrow> Inl GitlabGetError | Some c \<Rightarrow> Inr c), g)"
  by (simp add: read_file_def prog_simps get_project_up raw_up)

lemma existing_paths_up:
  assumes "up g"
  shows "\<exists>paths. existing_paths api p ''main'' g = (Inr paths, g) \<and> set paths = {f. blobs g f \<noteq> None}"
proof -
  from tree_up[OF assms] obtain items where
    i: "repository_tree api p '''' ''main'' True g = (Inr items, g)"
      "ti_path ` {i \<in> set items. ti_type i = ''blob''} = {f. blobs g f \<noteq> None}" by blast
  then show ?thesis by (simp add: existing_paths_def catch_def prog_simps)
qed

lemma find_action:
  assumes "distinct (map ca_path acts)" and "a \<in> set acts"
  shows "find (\<lambda>b. ca_path b = ca_path a) acts = Some a"
  using find_unique_key[OF assms] .

lemma commits_at:
  assumes "distinct (map ca_path acts)" and "a \<in> set acts"
  shows "commits acts tree (ca_path a) = committed a"
  by (simp add: commits_def find_action[OF assms])

lemma commits_elsewhere:
  assumes "f \<notin> ca_path ` set acts" shows "commits acts tree f = tree f"
proof -
  have "find (\<lambda>a. ca_path a = f) acts = None" using assms by (auto simp: find_None_iff)
  then show ?thesis by (simp add: commits_def)
qed

lemma push_files_batch_up:
  assumes "up g" and "files \<noteq> []" and "distinct (map fst files)"
  shows "\<exists>g'. push_files_batch api p files ''main'' g = (Inr (), g') \<and> up g'
           \<and> blobs g' = blobs g ++ map_of files"
proof -
  from existing_paths_up[OF assms(1)] obtain paths where
    paths: "existing_paths api p ''main'' g = (Inr paths, g)" "set paths = {f. blobs g f \<noteq> None}" by blast
  define act where "act = (\<lambda>(f, c). \<lparr>ca_kind = (if f \<in> set paths then UPDATE else CREATE), ca_path = f,
             ca_content = Some c\<rparr>)"
  have path: "ca_path (act x) = fst x" "committed (act x) = Some (snd x)" for x
    by (simp_all add: act_def committed_def split: prod.split)
  have d: "distinct (map ca_path (map act files))" using assms(3) by (simp add: comp_def path)
  have "list_all (fits (blobs g)) (map act files)"
    by (auto simp: list_all_iff fits_def act_def paths(2))
  from commit_up[OF assms(1) _ d this] assms(2) obtain g' where
    g': "commits_create api p ''main'' (map act files) g = (Inr (), g')" "up g'"
      "blobs g' = commits (map act files) (blobs g)" by auto
  have "commits (map act files) tree f = (tree ++ map_of files) f" for tree f
  proof (cases "f \<in> fst ` set files")
    case True
    then obtain c where c: "(f, c) \<in> set files" by auto
    then have "commits (map act files) tree (ca_path (act (f, c))) = committed (act (f, c))"
      by (intro commits_at[OF d]) simp
    moreover have "map_of files f = Some c" using c assms(3) by simp
    ultimately show ?thesis by (simp add: path)
  next
    case False
    then have "f \<notin> ca_path ` set (map act files)" by (auto simp: path image_image)
    moreover from False have "map_of files f = None" by (simp add: map_of_eq_None_iff)
    ultimately show ?thesis by (simp add: commits_elsewhere map_add_def)
  qed
  then have "blobs g' = blobs g ++ map_of files" using g'(3) by (simp add: fun_eq_iff)
  moreover have "push_files_batch api p files ''main'' g = commits_create api p ''main'' (map act files) g"
    by (simp add: push_files_batch_def prog_simps get_project_up assms(1) paths(1) act_def)
  ultimately show ?thesis using g' by simp
qed

lemma delete_directory_contents_up:
  assumes "up g" and "dir \<noteq> []" and "blobs g (dir @ ''/'' @ f) \<noteq> None"
  shows "\<exists>g'. delete_directory_contents api p dir ''main'' g = (Inr (), g') \<and> up g'
           \<and> blobs g' = (\<lambda>h. if prefix (dir @ ''/'') h then None else blobs g h)"
proof -
  from dir_up[OF assms] obtain items where i:
    "repository_tree api p dir ''main'' True g = (Inr items, g)" "distinct (map ti_path items)"
    "ti_path ` {i \<in> set items. ti_type i = ''blob''} = {h. prefix (dir @ ''/'') h \<and> blobs g h \<noteq> None}" by blast
  define acts where "acts = map (\<lambda>i. \<lparr>ca_kind = DELETE, ca_path = ti_path i, ca_content = None\<rparr>)
                        (filter (\<lambda>i. ti_type i = ''blob'') items)"
  have paths: "ca_path ` set acts = {h. prefix (dir @ ''/'') h \<and> blobs g h \<noteq> None}"
    using i(3) by (simp add: acts_def image_image set_filter)
  have d: "distinct (map ca_path acts)"
    using i(2) by (simp add: acts_def comp_def distinct_map_filter)
  have "dir @ ''/'' @ f \<in> ca_path ` set acts" using assms(3) by (simp add: paths)
  then have ne: "acts \<noteq> []" by auto
  have "fits (blobs g) a" if a: "a \<in> set acts" for a
  proof -
    from a paths have "blobs g (ca_path a) \<noteq> None" by blast
    moreover from a have "ca_kind a = DELETE" by (auto simp: acts_def)
    ultimately show ?thesis by (simp add: fits_def)
  qed
  then have "list_all (fits (blobs g)) acts" by (simp add: list_all_iff)
  from commit_up[OF assms(1) ne d this] obtain g' where
    g': "commits_create api p ''main'' acts g = (Inr (), g')" "up g'" "blobs g' = commits acts (blobs g)" by blast
  have "commits acts (blobs g) h = (if prefix (dir @ ''/'') h then None else blobs g h)" for h
  proof (cases "h \<in> ca_path ` set acts")
    case True
    then obtain a where a: "a \<in> set acts" "ca_path a = h" by auto
    then have "committed a = None" by (auto simp: acts_def committed_def)
    with commits_at[OF d a(1), of "blobs g"] a(2) True paths show ?thesis by auto
  next
    case False
    with commits_elsewhere[OF this, of "blobs g"] paths show ?thesis by auto
  qed
  then have "blobs g' = (\<lambda>h. if prefix (dir @ ''/'') h then None else blobs g h)"
    using g'(3) by (simp add: fun_eq_iff)
  moreover have "delete_directory_contents api p dir ''main'' g = commits_create api p ''main'' acts g"
    using ne by (simp add: delete_directory_contents_def prog_simps get_project_up assms(1) i(1) acts_def Let_def)
  ultimately show ?thesis using g' by simp
qed

end

text \<open>The mapping that a values file holds: the empty one when the file is absent or empty.\<close>

definition values_of :: "yaml_lib \<Rightarrow> (string \<Rightarrow> string option) \<Rightarrow> string \<Rightarrow> (string \<times> json) list option" where
  "values_of y tree f =
     (case tree f of None \<Rightarrow> Some []
      | Some raw \<Rightarrow> (case load_or_empty y raw of Inr (JObj kvs) \<Rightarrow> Some kvs | _ \<Rightarrow> None))"

definition with_replicas :: "int option \<Rightarrow> (string \<times> json) list \<Rightarrow> (string \<times> json) list" where
  "with_replicas r kvs =
     (case r of None \<Rightarrow> dict_pop ''replicas'' kvs | Some n \<Rightarrow> dict_set ''replicas'' (JNum n) kvs)"

lemma set_replicas_obj: "set_replicas r (JObj kvs) = Inr (JObj (with_replicas r kvs))"
  by (cases r) (simp_all add: with_replicas_def)

lemma externalsecret_paths_differ:
  "externalsecret_path cluster slug env \<noteq> legacy_externalsecret_path cluster slug env"
  by (simp add: externalsecret_path_def legacy_externalsecret_path_def)

locale gitops = git_hosting + yaml_text
begin

lemma load_or_empty_dump: "load_or_empty y (yaml_dump y (JObj kvs)) = Inr (JObj kvs)"
  by (simp add: load_or_empty_def load_dump)

lemma values_of_dump: "tree f = Some (yaml_dump y (JObj kvs)) \<Longrightarrow> values_of y tree f = Some kvs"
  by (simp add: values_of_def load_or_empty_dump)

text \<open>Reading a values file, as the code does before it rewrites it.\<close>

lemma read_values_up:
  assumes "up g" and "values_of y (blobs g) f = Some kvs"
  shows "catch GitlabGetError
           (bnd (read_file api p f ''main'') (\<lambda>raw.
            bnd (lift_result (load_or_empty y raw)) (\<lambda>data. ret (data, UPDATE)))) (ret (JObj [], CREATE)) g
         = (Inr (JObj kvs, if blobs g f = None then CREATE else UPDATE), g)"
  using assms
  by (auto simp: catch_def prog_simps read_file_up values_of_def split: option.splits sum.splits json.splits)

lemma override_action_up:
  assumes "up g" and "values_of y (blobs g) (override_path c) = Some kvs"
    and "set paths = {f. blobs g f \<noteq> None}"
  shows "override_action api y p ''main'' paths c g =
    (Inr \<lparr>ca_kind = (if blobs g (override_path c) = None then CREATE else UPDATE), ca_path = override_path c,
          ca_content = Some (yaml_dump y (JObj (with_replicas (ro_replicas c) kvs)))\<rparr>, g)"
proof (cases "blobs g (override_path c)")
  case None
  with assms(2) have "kvs = []" by (simp add: values_of_def)
  with None assms(3) show ?thesis by (simp add: override_action_def prog_simps set_replicas_obj)
next
  case (Some raw)
  with assms(3) have "override_path c \<in> set paths" by simp
  with Some read_values_up[OF assms(1,2)] show ?thesis
    by (simp add: override_action_def prog_simps set_replicas_obj)
qed

text \<open>
  One batch of overrides: every named values file holds the old values with the replica count set
  or removed, and no other file of the repository changes.
\<close>

lemma push_replica_overrides_up:
  assumes "up g" and "changes \<noteq> []" and "distinct (map override_path changes)"
    and "\<And>c. c \<in> set changes \<Longrightarrow> values_of y (blobs g) (override_path c) \<noteq> None"
  shows "\<exists>g'. push_replica_overrides_batch api y p changes ''main'' g = (Inr (), g') \<and> up g'
    \<and> (\<forall>c \<in> set changes. values_of y (blobs g') (override_path c)
          = map_option (with_replicas (ro_replicas c)) (values_of y (blobs g) (override_path c)))
    \<and> (\<forall>f. f \<notin> override_path ` set changes \<longrightarrow> blobs g' f = blobs g f)"
proof -
  from existing_paths_up[OF assms(1)] obtain paths where
    paths: "existing_paths api p ''main'' g = (Inr paths, g)" "set paths = {f. blobs g f \<noteq> None}" by blast
  define kvs where "kvs c = the (values_of y (blobs g) (override_path c))" for c
  define act where "act c = \<lparr>ca_kind = (if blobs g (override_path c) = None then CREATE else UPDATE),
      ca_path = override_path c, ca_content = Some (yaml_dump y (JObj (with_replicas (ro_replicas c) (kvs c))))\<rparr>" for c
  have kvs: "values_of y (blobs g) (override_path c) = Some (kvs c)" if "c \<in> set changes" for c
    using assms(4)[OF that] by (simp add: kvs_def)
  have acts: "map_prog (override_action api y p ''main'' paths) changes g = (Inr (map act changes), g)"
    by (rule map_prog_pure) (simp add: override_action_up[OF assms(1) kvs paths(2)] act_def)
  have path: "ca_path (act c) = override_path c" for c by (simp add: act_def)
  have d: "distinct (map ca_path (map act changes))" using assms(3) by (simp add: comp_def path)
  have "list_all (fits (blobs g)) (map act changes)" by (simp add: list_all_iff fits_def act_def)
  from commit_up[OF assms(1) _ d this] assms(2) obtain g' where
    g': "commits_create api p ''main'' (map act changes) g = (Inr (), g')" "up g'"
      "blobs g' = commits (map act changes) (blobs g)" by auto
  have "values_of y (blobs g') (override_path c) = Some (with_replicas (ro_replicas c) (kvs c))"
    if c: "c \<in> set changes" for c
  proof (rule values_of_dump)
    have "blobs g' (ca_path (act c)) = committed (act c)"
      unfolding g'(3) by (rule commits_at[OF d]) (use c in simp)
    then show "blobs g' (override_path c) = Some (yaml_dump y (JObj (with_replicas (ro_replicas c) (kvs c))))"
      by (simp add: act_def committed_def)
  qed
  moreover have "blobs g' f = blobs g f" if "f \<notin> override_path ` set changes" for f
    unfolding g'(3) by (rule commits_elsewhere) (use that in \<open>auto simp: path\<close>)
  moreover have "push_replica_overrides_batch api y p changes ''main'' g = commits_create api p ''main'' (map act changes) g"
    using assms(2) by (simp add: push_replica_overrides_batch_def prog_simps get_project_up assms(1) paths(1) acts)
  ultimately show ?thesis using g' by (auto simp: kvs)
qed

lemma single_commit_up:
  assumes "up g" and "fits (blobs g) a"
  shows "\<exists>g'. commits_create api p ''main'' [a] g = (Inr (), g') \<and> up g'
           \<and> blobs g' = (blobs g)(ca_path a := committed a)"
proof -
  from commit_up[OF assms(1), of "[a]"] assms(2) obtain g' where
    "commits_create api p ''main'' [a] g = (Inr (), g')" "up g'" "blobs g' = commits [a] (blobs g)" by auto
  moreover have "commits [a] tree = tree(ca_path a := committed a)" for tree
    by (simp add: fun_eq_iff commits_def)
  ultimately show ?thesis by auto
qed

text \<open>
  The ExternalSecret of an environment is regenerated in its directory, a file at the former location
  goes with the same commit, and nothing else changes.
\<close>

lemma upsert_externalsecret_up:
  assumes "up g"
  shows "\<exists>g'. upsert_externalsecret api y p slug group_slug env cluster ''main'' g = (Inr (), g') \<and> up g'
    \<and> blobs g' = (blobs g)(legacy_externalsecret_path cluster slug env := None,
         externalsecret_path cluster slug env := Some (yaml_dump y (externalsecret_manifest slug group_slug env)))"
proof -
  let ?f = "externalsecret_path cluster slug env" and ?l = "legacy_externalsecret_path cluster slug env"
  let ?a = "\<lparr>ca_kind = (if blobs g ?f \<noteq> None then UPDATE else CREATE), ca_path = ?f,
            ca_content = Some (yaml_dump y (externalsecret_manifest slug group_slug env))\<rparr>"
  let ?d = "\<lparr>ca_kind = DELETE, ca_path = ?l, ca_content = None\<rparr>"
  let ?acts = "?a # (if blobs g ?l \<noteq> None then [?d] else [])"
  have "list_all (fits (blobs g)) ?acts" "distinct (map ca_path ?acts)"
    by (auto simp: fits_def externalsecret_paths_differ)
  from commit_up[OF assms _ this(2,1)] obtain g' where
    g': "commits_create api p ''main'' ?acts g = (Inr (), g')" "up g'" "blobs g' = commits ?acts (blobs g)" by auto
  have "commits ?acts (blobs g) = (blobs g)(?l := None, ?f := ca_content ?a)"
    by (auto simp: fun_eq_iff commits_def committed_def externalsecret_paths_differ)
  moreover have "upsert_externalsecret api y p slug group_slug env cluster ''main'' g
      = commits_create api p ''main'' ?acts g"
    by (simp add: upsert_externalsecret_def prog_simps get_project_up file_exists_up assms Let_def)
  ultimately show ?thesis using g' by simp
qed

text \<open>
  The ingress of an environment is switched on or off in its values file: the four keys are set, the
  other keys of the ingress and of the file keep their values, and no other file changes.
\<close>

lemma upsert_gitops_ingress_up:
  assumes "up g" and "values_of y (blobs g) (values_path cluster slug env) = Some kvs"
    and "map_of kvs ''ingress'' = (case old of None \<Rightarrow> None | Some ing \<Rightarrow> Some (JObj ing))"
  shows "\<exists>g' kvs' ing. upsert_gitops_ingress api y p slug env enabled host cluster ''main'' g = (Inr (), g') \<and> up g'
    \<and> values_of y (blobs g') (values_path cluster slug env) = Some kvs'
    \<and> map_of kvs' = (map_of kvs)(''ingress'' \<mapsto> JObj ing)
    \<and> map_of ing = (case old of None \<Rightarrow> Map.empty | Some prev \<Rightarrow> map_of prev)(''enabled'' \<mapsto> JBool enabled,
        ''className'' \<mapsto> JStr ''nginx'', ''host'' \<mapsto> JStr (if enabled then host else ''''), ''tls'' \<mapsto> JBool False)
    \<and> (\<forall>f. f \<noteq> values_path cluster slug env \<longrightarrow> blobs g' f = blobs g f)"
proof -
  let ?f = "values_path cluster slug env"
  define ing where "ing = (case old of
      None \<Rightarrow> [(''enabled'', JBool enabled), (''className'', JStr ''nginx''),
               (''host'', JStr (if enabled then host else '''')), (''tls'', JBool False)]
    | Some prev \<Rightarrow> dict_set ''tls'' (JBool False) (dict_set ''host'' (JStr (if enabled then host else ''''))
                 (dict_set ''className'' (JStr ''nginx'') (dict_set ''enabled'' (JBool enabled) prev))))"
  have set: "set_ingress enabled host (JObj kvs) = Inr (JObj (dict_set ''ingress'' (JObj ing) kvs))"
    using assms(3) by (cases old) (simp_all add: ing_def)
  let ?a = "\<lparr>ca_kind = (if blobs g ?f = None then CREATE else UPDATE), ca_path = ?f,
            ca_content = Some (yaml_dump y (JObj (dict_set ''ingress'' (JObj ing) kvs)))\<rparr>"
  have "fits (blobs g) ?a" by (simp add: fits_def)
  from single_commit_up[OF assms(1) this] obtain g' where
    g': "commits_create api p ''main'' [?a] g = (Inr (), g')" "up g'" "blobs g' = (blobs g)(?f := committed ?a)"
    by auto
  have run: "upsert_gitops_ingress api y p slug env enabled host cluster ''main'' g = (Inr (), g')"
    using g'(1) by (simp add: upsert_gitops_ingress_def Let_def prog_simps get_project_up assms(1)
        read_values_up[OF assms(1,2)] set del: set_ingress.simps)
  have "blobs g' ?f = Some (yaml_dump y (JObj (dict_set ''ingress'' (JObj ing) kvs)))"
    by (simp add: g'(3) committed_def)
  then have vals: "values_of y (blobs g') ?f = Some (dict_set ''ingress'' (JObj ing) kvs)" by (rule values_of_dump)
  have "map_of ing = (case old of None \<Rightarrow> Map.empty | Some prev \<Rightarrow> map_of prev)(''enabled'' \<mapsto> JBool enabled,
        ''className'' \<mapsto> JStr ''nginx'', ''host'' \<mapsto> JStr (if enabled then host else ''''), ''tls'' \<mapsto> JBool False)"
    by (cases old) (auto simp: ing_def fun_eq_iff)
  with run g'(2,3) vals show ?thesis
    by (intro exI[of _ g'] exI[of _ "dict_set ''ingress'' (JObj ing) kvs"] exI[of _ ing]) simp
qed

end

section \<open>A repository in memory\<close>

text \<open>
  One project whose main branch is an association list, and the text form of JSON values for YAML:
  the contracts hold of them.
\<close>

definition ref_commit :: "commit_action \<Rightarrow> (string \<times> string) list \<Rightarrow> (string \<times> string) list" where
  "ref_commit a g = (case committed a of None \<Rightarrow> dict_pop (ca_path a) g | Some c \<Rightarrow> dict_set (ca_path a) c g)"

definition ref_items :: "(string \<Rightarrow> bool) \<Rightarrow> (string \<times> string) list \<Rightarrow> tree_item list" where
  "ref_items P g = map (\<lambda>f. \<lparr>ti_name = f, ti_type = ''blob'', ti_path = f\<rparr>) (filter P (remdups (map fst g)))"

definition ref_gitlab :: "(string \<times> string) list gitlab_api" where
  "ref_gitlab =
     \<lparr>project_get = (\<lambda>_. ret ()),
      files_get = (\<lambda>_ f _ g. ((if map_of g f = None then Inl GitlabGetError else Inr ()), g)),
      files_raw = (\<lambda>_ f _ g. ((case map_of g f of None \<Rightarrow> Inl GitlabGetError | Some c \<Rightarrow> Inr c), g)),
      files_save = (\<lambda>_ f _ c g. (Inr (), dict_set f c g)),
      files_create = (\<lambda>_ f _ c g. (Inr (), dict_set f c g)),
      repository_tree = (\<lambda>_ dir _ _ g.
        (Inr (ref_items (\<lambda>f. dir = '''' \<or> prefix (dir @ ''/'') f) g), g)),
      commits_create = (\<lambda>_ _ acts g.
        if distinct (map ca_path acts) \<and> list_all (fits (map_of g)) acts
        then (Inr (), fold ref_commit acts g) else (Inl GitlabCreateError, g)),
      branches_create = (\<lambda>_ _ _. ret ()),
      hooks_list = (\<lambda>_. ret []),
      hooks_create = (\<lambda>_ _ _. ret ())\<rparr>"

definition ref_yaml :: yaml_lib where
  "ref_yaml = \<lparr>yaml_load = decode, yaml_dump = enc\<rparr>"

lemma map_of_ref_commit: "map_of (ref_commit a g) = (map_of g)(ca_path a := committed a)"
  by (cases "committed a") (simp_all add: ref_commit_def)

lemma map_of_ref_commits:
  "distinct (map ca_path acts) \<Longrightarrow> map_of (fold ref_commit acts g) f = commits acts (map_of g) f"
proof (induction acts arbitrary: g)
  case (Cons a acts)
  show ?case
  proof (cases "ca_path a = f")
    case True
    with Cons.prems have "find (\<lambda>a. ca_path a = f) acts = None"
      by (simp add: find_None_iff) (metis image_eqI)
    with True Cons show ?thesis by (simp add: map_of_ref_commit commits_def)
  next
    case False
    then have "map_of (ref_commit a g) f = map_of g f" by (simp add: map_of_ref_commit)
    with False Cons show ?thesis by (simp add: commits_def split: option.split)
  qed
qed (simp add: commits_def)

lemma ref_items_paths:
  "ti_path ` {i \<in> set (ref_items P g). ti_type i = ''blob''} = {f. P f \<and> map_of g f \<noteq> None}"
  "distinct (map ti_path (ref_items P g))"
proof -
  show "ti_path ` {i \<in> set (ref_items P g). ti_type i = ''blob''} = {f. P f \<and> map_of g f \<noteq> None}"
    unfolding ref_items_def map_of_eq_None_iff by (simp only: set_map set_filter set_remdups) force
  show "distinct (map ti_path (ref_items P g))" by (simp add: ref_items_def comp_def)
qed

lemma ref_yaml_roundtrip: "yaml_load ref_yaml (yaml_dump ref_yaml j) = Inr j"
  by (simp add: ref_yaml_def del: enc.simps)

interpretation ref_repo: gitops ref_gitlab p "\<lambda>_. True" map_of ref_yaml for p
proof
  fix g :: "(string \<times> string) list" and acts
  assume a: "acts \<noteq> []" "distinct (map ca_path acts)" "list_all (fits (map_of g)) acts"
  then show "\<exists>g'. commits_create ref_gitlab p ''main'' acts g = (Inr (), g') \<and> True \<and> map_of g' = commits acts (map_of g)"
    by (simp add: ref_gitlab_def fun_eq_iff map_of_ref_commits)
next
  fix g :: "(string \<times> string) list" and dir f :: string
  assume "dir \<noteq> []"
  then show "\<exists>items. repository_tree ref_gitlab p dir ''main'' True g = (Inr items, g) \<and> distinct (map ti_path items)
      \<and> ti_path ` {i \<in> set items. ti_type i = ''blob''} = {h. prefix (dir @ ''/'') h \<and> map_of g h \<noteq> None}"
    using ref_items_paths(1)[of "\<lambda>f. dir = '''' \<or> prefix (dir @ ''/'') f" g]
    by (simp add: ref_gitlab_def ref_items_paths(2))
next
  fix g :: "(string \<times> string) list"
  show "\<exists>items. repository_tree ref_gitlab p '''' ''main'' True g = (Inr items, g)
      \<and> ti_path ` {i \<in> set items. ti_type i = ''blob''} = {f. map_of g f \<noteq> None}"
    using ref_items_paths(1)[of "\<lambda>_. True" g] by (simp add: ref_gitlab_def)
qed (simp_all add: ref_gitlab_def ref_yaml_roundtrip prog_simps)

lemma ref_is_gitops: "gitops ref_gitlab p (\<lambda>_. True) map_of ref_yaml"
  by (rule ref_repo.gitops_axioms)

section \<open>What the gitops commits leave in the repository\<close>

text \<open>
  A batch of replica overrides is one commit after which every named values file holds the
  mapping it held before with the replica count set, or without it where the override is cleared,
  and every other file of the repository is unchanged.
\<close>

theorem replica_overrides_exact:
  assumes "gitops api p up blobs y" and "up g" and "changes \<noteq> []" and "distinct (map override_path changes)"
    and "\<And>c. c \<in> set changes \<Longrightarrow> values_of y (blobs g) (override_path c) \<noteq> None"
  shows "\<exists>g'. push_replica_overrides_batch api y p changes ''main'' g = (Inr (), g')
    \<and> (\<forall>c \<in> set changes. values_of y (blobs g') (override_path c)
          = map_option (with_replicas (ro_replicas c)) (values_of y (blobs g) (override_path c)))
    \<and> (\<forall>f. f \<notin> override_path ` set changes \<longrightarrow> blobs g' f = blobs g f)"
  using gitops.push_replica_overrides_up[OF assms(1-4)] assms(5) by blast

definition demo_overrides :: "replica_override list" where
  "demo_overrides =
     [\<lparr>ro_cluster_name = ''aks'', ro_app_slug = ''shop'', ro_env = ''dev'', ro_replicas = Some 0\<rparr>,
      \<lparr>ro_cluster_name = ''aks'', ro_app_slug = ''blog'', ro_env = ''dev'', ro_replicas = None\<rparr>]"

definition demo_repo :: "(string \<times> string) list" where
  "demo_repo =
     [(''apps/aks/blog/values-dev.yaml'', enc (JObj [(''replicas'', JNum 0), (''port'', JNum 80)])),
      (''apps/aks/shop/values-dev.yaml'', enc (JObj [(''port'', JNum 80)]))]"

lemma demo_overrides_readable:
  "c \<in> set demo_overrides \<Longrightarrow> values_of ref_yaml (map_of demo_repo) (override_path c) \<noteq> None"
proof -
  have "list_all (\<lambda>c. values_of ref_yaml (map_of demo_repo) (override_path c) \<noteq> None) demo_overrides"
    by code_simp
  then show "c \<in> set demo_overrides \<Longrightarrow> values_of ref_yaml (map_of demo_repo) (override_path c) \<noteq> None"
    by (simp add: list_all_iff)
qed

theorem replica_overrides_exact_witness:
  "\<exists>g'. push_replica_overrides_batch ref_gitlab ref_yaml ''4k/gitops'' demo_overrides ''main'' demo_repo = (Inr (), g')
    \<and> values_of ref_yaml (map_of g') ''apps/aks/shop/values-dev.yaml'' = Some [(''port'', JNum 80), (''replicas'', JNum 0)]
    \<and> values_of ref_yaml (map_of g') ''apps/aks/blog/values-dev.yaml'' = Some [(''port'', JNum 80)]"
proof -
  have ne: "demo_overrides \<noteq> []" and d: "distinct (map override_path demo_overrides)" by code_simp+
  have vals: "values_of ref_yaml (map_of demo_repo) (override_path (demo_overrides ! 0)) = Some [(''port'', JNum 80)]"
    "values_of ref_yaml (map_of demo_repo) (override_path (demo_overrides ! 1))
       = Some [(''replicas'', JNum 0), (''port'', JNum 80)]"
    "override_path (demo_overrides ! 0) = ''apps/aks/shop/values-dev.yaml''"
    "override_path (demo_overrides ! 1) = ''apps/aks/blog/values-dev.yaml''"
    "ro_replicas (demo_overrides ! 0) = Some 0" "ro_replicas (demo_overrides ! 1) = None"
    by code_simp+
  have m: "demo_overrides ! 0 \<in> set demo_overrides" "demo_overrides ! 1 \<in> set demo_overrides"
    by (simp_all add: demo_overrides_def)
  from replica_overrides_exact[OF ref_is_gitops[of "''4k/gitops''"] TrueI ne d demo_overrides_readable]
  obtain g' where g': "push_replica_overrides_batch ref_gitlab ref_yaml ''4k/gitops'' demo_overrides ''main'' demo_repo = (Inr (), g')"
    "\<forall>c \<in> set demo_overrides. values_of ref_yaml (map_of g') (override_path c)
          = map_option (with_replicas (ro_replicas c)) (values_of ref_yaml (map_of demo_repo) (override_path c))" by blast
  from g'(2) m have "values_of ref_yaml (map_of g') ''apps/aks/shop/values-dev.yaml'' = Some [(''port'', JNum 80), (''replicas'', JNum 0)]"
    "values_of ref_yaml (map_of g') ''apps/aks/blog/values-dev.yaml'' = Some [(''port'', JNum 80)]"
    using vals by (force simp: with_replicas_def dict_pop_def)+
  with g'(1) show ?thesis by blast
qed

text \<open>
  Switching the internet exposure of an environment rewrites its values file only: the four
  ingress keys hold the new setting, and every other key of the ingress and of the file keeps its
  value.
\<close>

theorem gitops_ingress_exact:
  assumes "gitops api p up blobs y" and "up g"
    and "values_of y (blobs g) (values_path cluster slug env) = Some kvs"
    and "map_of kvs ''ingress'' = map_option JObj old"
  shows "\<exists>g' kvs' ing. upsert_gitops_ingress api y p slug env enabled host cluster ''main'' g = (Inr (), g')
    \<and> values_of y (blobs g') (values_path cluster slug env) = Some kvs'
    \<and> map_of kvs' = (map_of kvs)(''ingress'' \<mapsto> JObj ing)
    \<and> map_of ing = (case old of None \<Rightarrow> Map.empty | Some prev \<Rightarrow> map_of prev)(''enabled'' \<mapsto> JBool enabled,
        ''className'' \<mapsto> JStr ''nginx'', ''host'' \<mapsto> JStr (if enabled then host else ''''), ''tls'' \<mapsto> JBool False)
    \<and> (\<forall>f. f \<noteq> values_path cluster slug env \<longrightarrow> blobs g' f = blobs g f)"
proof -
  from assms(4) have "map_of kvs ''ingress'' = (case old of None \<Rightarrow> None | Some ing \<Rightarrow> Some (JObj ing))"
    by (cases old) simp_all
  from gitops.upsert_gitops_ingress_up[OF assms(1-3) this] show ?thesis by blast
qed

theorem gitops_ingress_exact_witness:
  "\<exists>g' kvs'. upsert_gitops_ingress ref_gitlab ref_yaml ''4k/gitops'' ''shop'' ''dev'' True ''shop-dev.x'' ''aks'' ''main'' demo_repo
       = (Inr (), g')
     \<and> values_of ref_yaml (map_of g') (values_path ''aks'' ''shop'' ''dev'') = Some kvs' \<and> map_of kvs' ''port'' = Some (JNum 80)"
proof -
  have v: "values_of ref_yaml (map_of demo_repo) (values_path ''aks'' ''shop'' ''dev'') = Some [(''port'', JNum 80)]"
    by code_simp
  have "map_of [(''port'', JNum 80)] ''ingress'' = map_option JObj None" by simp
  from gitops_ingress_exact[OF ref_is_gitops[of "''4k/gitops''"] TrueI v this, of True "''shop-dev.x''"]
  obtain g' kvs' ing where
    "upsert_gitops_ingress ref_gitlab ref_yaml ''4k/gitops'' ''shop'' ''dev'' True ''shop-dev.x'' ''aks'' ''main'' demo_repo
       = (Inr (), g')"
    "values_of ref_yaml (map_of g') (values_path ''aks'' ''shop'' ''dev'') = Some kvs'"
    "map_of kvs' = (map_of [(''port'', JNum 80)])(''ingress'' \<mapsto> JObj ing)" by blast
  then show ?thesis by simp
qed

text \<open>
  The ExternalSecret of an environment is written to its platform directory, the file at the
  former location is gone after the same commit, and no other file changes.
\<close>

theorem externalsecret_exact:
  assumes "gitops api p up blobs y" and "up g"
  shows "\<exists>g'. upsert_externalsecret api y p slug group_slug env cluster ''main'' g = (Inr (), g')
    \<and> blobs g' = (blobs g)(legacy_externalsecret_path cluster slug env := None,
         externalsecret_path cluster slug env := Some (yaml_dump y (externalsecret_manifest slug group_slug env)))"
  using gitops.upsert_externalsecret_up[OF assms] by blast

theorem externalsecret_exact_witness:
  "\<exists>g'. upsert_externalsecret ref_gitlab ref_yaml ''4k/gitops'' ''shop'' ''team'' ''dev'' ''aks'' ''main''
        [(''apps/aks/shop/externalsecret-dev.yaml'', ''old'')] = (Inr (), g')
     \<and> map_of g' ''apps/aks/shop/platform/dev/externalsecret.yaml''
          = Some (enc (externalsecret_manifest ''shop'' ''team'' ''dev''))
     \<and> map_of g' ''apps/aks/shop/externalsecret-dev.yaml'' = None"
proof -
  have paths: "externalsecret_path ''aks'' ''shop'' ''dev'' = ''apps/aks/shop/platform/dev/externalsecret.yaml''"
    "legacy_externalsecret_path ''aks'' ''shop'' ''dev'' = ''apps/aks/shop/externalsecret-dev.yaml''" by code_simp+
  from externalsecret_exact[OF ref_is_gitops[of "''4k/gitops''"] TrueI, of "''shop''" "''team''" "''dev''" "''aks''"
      "[(''apps/aks/shop/externalsecret-dev.yaml'', ''old'')]"]
  show ?thesis by (force simp: paths ref_yaml_def simp del: enc.simps)
qed

end
