(* ===== verification/Scale.thy ===== *)
theory Scale
  imports Alerting Tiers Gitops
begin

text \<open>
  Scale to zero: backend/services/scale_service.py, backend/services/scale_worker.py, the ArgoCD
  client factory of backend/argocd/client.py and the stop and resume routes of
  backend/api/routes/apps.py. A change is one gitops commit, a best-effort ArgoCD sync per
  application, and the upsert of the tracked states, a table keyed by application and environment.
\<close>

section \<open>The world and its parameters\<close>

record ('g, 'a) scale_world =
  sw_sess :: session
  sw_git :: 'g
  sw_argo :: 'a

definition scale_sess :: "(session, 'x) prog \<Rightarrow> (('g, 'a) scale_world, 'x) prog" where
  "scale_sess m = (\<lambda>w. case m (sw_sess w) of (r, s) \<Rightarrow> (r, w\<lparr>sw_sess := s\<rparr>))"

definition scale_git :: "('g, 'x) prog \<Rightarrow> (('g, 'a) scale_world, 'x) prog" where
  "scale_git m = (\<lambda>w. case m (sw_git w) of (r, g) \<Rightarrow> (r, w\<lparr>sw_git := g\<rparr>))"

definition scale_argo :: "('a, 'x) prog \<Rightarrow> (('g, 'a) scale_world, 'x) prog" where
  "scale_argo m = (\<lambda>w. case m (sw_argo w) of (r, a) \<Rightarrow> (r, w\<lparr>sw_argo := a\<rparr>))"

lemma scale_sess_apply [prog_simps]: "scale_sess m w = (case m (sw_sess w) of (r, s) \<Rightarrow> (r, w\<lparr>sw_sess := s\<rparr>))"
  by (simp add: scale_sess_def)

lemma scale_git_apply [prog_simps]: "scale_git m w = (case m (sw_git w) of (r, g) \<Rightarrow> (r, w\<lparr>sw_git := g\<rparr>))"
  by (simp add: scale_git_def)

lemma scale_argo_apply [prog_simps]: "scale_argo m w = (case m (sw_argo w) of (r, a) \<Rightarrow> (r, w\<lparr>sw_argo := a\<rparr>))"
  by (simp add: scale_argo_def)

text \<open>
  The settings the code reads, the GitLab and YAML libraries, the ArgoCD token kept in Vault (a read
  that may fail) and the POST that starts a sync.
\<close>

record ('g, 'a) scale_env =
  se_bot_token :: string
  se_gitops_repo_url :: string
  se_weekdays_only :: bool
  se_down_hour :: int
  se_up_hour :: int
  se_gitlab :: "'g gitlab_api"
  se_yaml :: yaml_lib
  se_ip_ok :: "string \<Rightarrow> bool"
  se_argocd_token :: "int \<Rightarrow> exc + string"
  se_argocd_sync :: "string \<Rightarrow> string \<Rightarrow> string \<Rightarrow> ('a, unit) prog"
  se_alert :: alert_env

definition get_argocd_client_for_cluster ::
  "(int \<Rightarrow> exc + string) \<Rightarrow> cluster_connection \<Rightarrow> exc + string \<times> string" where
  "get_argocd_client_for_cluster token_of cluster =
     (if \<not> truthy_str (cl_argocd_url cluster) then Inl (HTTPException 409)
      else (case token_of (cl_id cluster) of
              Inl _ \<Rightarrow> Inl (HTTPException 503)
            | Inr token \<Rightarrow> Inr (rstrip (\<lambda>c. c = CHR ''/'') (the (cl_argocd_url cluster)), token)))"

section \<open>The scale service\<close>

record scale_change =
  sc_app :: application
  sc_cluster :: cluster_connection
  sc_env :: string
  sc_stopped :: bool
  sc_reason :: scale_stop_reason
  sc_actor :: "int option"

definition resolve_app_and_cluster :: "int \<Rightarrow> (session, application \<times> cluster_connection) prog" where
  "resolve_app_and_cluster aid =
     bnd (gets (\<lambda>s. get_application aid (db s))) (\<lambda>app.
       case app of
         None \<Rightarrow> raise_exc (HTTPException 404)
       | Some app \<Rightarrow>
           if \<not> truthy_id (app_target_cluster_id app) then raise_exc (HTTPException 409)
           else bnd (gets (\<lambda>s. get_cluster_row (the (app_target_cluster_id app)) (db s))) (\<lambda>cluster.
             case cluster of
               None \<Rightarrow> raise_exc (HTTPException 404)
             | Some cluster \<Rightarrow> ret (app, cluster)))"

definition ss_key :: "app_scale_state \<Rightarrow> int \<times> string" where
  "ss_key st = (ss_app_id st, ss_env st)"

definition new_scale_state :: "int \<times> string \<Rightarrow> int \<Rightarrow> app_scale_state" where
  "new_scale_state k i =
     \<lparr>ss_id = i, ss_app_id = fst k, ss_env = snd k, ss_is_stopped = False, ss_stop_reason = None,
      ss_stopped_at = None, ss_stopped_by_user_id = None, ss_resumed_at = None, ss_resumed_by_user_id = None\<rparr>"

interpretation states: keyed_table ss_key new_scale_state
  by unfold_locales (simp add: ss_key_def new_scale_state_def)

definition get_or_create_state :: "int \<Rightarrow> string \<Rightarrow> database \<Rightarrow> database" where
  "get_or_create_state aid env d =
     d\<lparr>scale_states := get_or_create ss_key new_scale_state (aid, env) (scale_states d)\<rparr>"

definition get_scale_states :: "int \<Rightarrow> database \<Rightarrow> (string \<times> app_scale_state) list" where
  "get_scale_states aid d =
     fold (\<lambda>s. dict_set (ss_env s) s) (select_rows (\<lambda>s. ss_app_id s = aid) (scale_states d)) []"

definition set_state :: "int \<Rightarrow> scale_change \<Rightarrow> app_scale_state \<Rightarrow> app_scale_state" where
  "set_state now c st =
     (if sc_stopped c
      then st\<lparr>ss_is_stopped := True, ss_stop_reason := Some (sc_reason c), ss_stopped_at := Some now,
              ss_stopped_by_user_id := sc_actor c\<rparr>
      else st\<lparr>ss_is_stopped := False, ss_stop_reason := None, ss_resumed_at := Some now,
              ss_resumed_by_user_id := sc_actor c\<rparr>)"

definition change_key :: "scale_change \<Rightarrow> int \<times> string" where
  "change_key c = (app_id (sc_app c), sc_env c)"

definition record_change :: "int \<Rightarrow> scale_change \<Rightarrow> database \<Rightarrow> database" where
  "record_change now c d =
     (let d1 = get_or_create_state (app_id (sc_app c)) (sc_env c) d
      in d1\<lparr>scale_states := update_rows (\<lambda>s. ss_key s = change_key c) (set_state now c) (scale_states d1)\<rparr>)"

definition override_of :: "scale_change \<Rightarrow> replica_override" where
  "override_of c =
     \<lparr>ro_cluster_name = cl_name (sc_cluster c), ro_app_slug = app_slug (sc_app c), ro_env = sc_env c,
      ro_replicas = (if sc_stopped c then Some 0 else None)\<rparr>"

definition sync_change :: "('g, 'a) scale_env \<Rightarrow> scale_change \<Rightarrow> ('a, unit) prog" where
  "sync_change e c =
     best_effort (bnd (lift_result (get_argocd_client_for_cluster (se_argocd_token e) (sc_cluster c)))
       (\<lambda>(url, token). se_argocd_sync e url token (app_slug (sc_app c) @ ''-'' @ sc_env c)))"

definition apply_changes ::
  "('g, 'a) scale_env \<Rightarrow> int \<Rightarrow> scale_change list \<Rightarrow> (('g, 'a) scale_world, unit) prog" where
  "apply_changes e now changes =
     (if changes = [] then ret ()
      else if se_bot_token e = [] \<or> se_gitops_repo_url e = [] then raise_exc (HTTPException 503)
      else bnd (lift_result (extract_project_path (se_ip_ok e) (se_gitops_repo_url e))) (\<lambda>gitops_path.
           bnd (try_except
                  (scale_git (push_replica_overrides_batch (se_gitlab e) (se_yaml e) gitops_path
                             (map override_of changes) ''main''))
                  (\<lambda>_. raise_exc (HTTPException 502))) (\<lambda>_.
           bnd (scale_argo (for_each changes (sync_change e))) (\<lambda>_.
             scale_sess (modify (\<lambda>s. s\<lparr>db := fold (record_change now) changes (db s)\<rparr>))))))"

definition manual_change ::
  "bool \<Rightarrow> int \<Rightarrow> application \<Rightarrow> cluster_connection \<Rightarrow> string \<Rightarrow> scale_change" where
  "manual_change stopped actor app cluster env =
     \<lparr>sc_app = app, sc_cluster = cluster, sc_env = env, sc_stopped = stopped, sc_reason = MANUAL,
      sc_actor = Some actor\<rparr>"

definition manual_stop ::
  "('g, 'a) scale_env \<Rightarrow> int \<Rightarrow> int \<Rightarrow> string list \<Rightarrow> int \<Rightarrow> (('g, 'a) scale_world, application) prog" where
  "manual_stop e now aid envs actor =
     bnd (scale_sess (resolve_app_and_cluster aid)) (\<lambda>(app, cluster).
     bnd (apply_changes e now (map (manual_change True actor app cluster) envs)) (\<lambda>_. ret app))"

definition manual_resume ::
  "('g, 'a) scale_env \<Rightarrow> int \<Rightarrow> int \<Rightarrow> string list \<Rightarrow> int \<Rightarrow> (('g, 'a) scale_world, application) prog" where
  "manual_resume e now aid envs actor =
     bnd (scale_sess (resolve_app_and_cluster aid)) (\<lambda>(app, cluster).
     bnd (apply_changes e now (map (manual_change False actor app cluster) envs)) (\<lambda>_. ret app))"

section \<open>The routes\<close>

definition resolve_scale_envs :: "string \<Rightarrow> exc + string list" where
  "resolve_scale_envs env =
     (if env = ''both'' then Inr [''dev'', ''prod'']
      else if env \<in> {''dev'', ''prod''} then Inr [env]
      else Inl (HTTPException 422))"

definition require_prod_tier :: "int \<Rightarrow> string list \<Rightarrow> user \<Rightarrow> (session, unit) prog" where
  "require_prod_tier aid envs current_user =
     (if ''prod'' \<notin> set envs \<or> is_admin current_user then ret ()
      else bnd (gets (\<lambda>s. get_effective_tier (usr_id current_user) aid (db s))) (\<lambda>tier.
        if tier \<noteq> OWNER then raise_exc (HTTPException 403) else ret ()))"

text \<open>\<open>stop_app\<close> and \<open>resume_app\<close>, with the tier dependency in front.\<close>

definition scale_route ::
  "('g, 'a) scale_env \<Rightarrow> bool \<Rightarrow> int \<Rightarrow> int \<Rightarrow> string \<Rightarrow> user \<Rightarrow> (('g, 'a) scale_world, application) prog" where
  "scale_route e stopped now aid env u =
     bnd (scale_sess (require_tier MAINTAINER (Some (string_of_int aid)) u)) (\<lambda>current_user.
     bnd (lift_result (resolve_scale_envs env)) (\<lambda>envs.
     bnd (scale_sess (require_prod_tier aid envs current_user)) (\<lambda>_.
     bnd ((if stopped then manual_stop else manual_resume) e now aid envs (usr_id current_user)) (\<lambda>app.
     bnd (scale_sess (log_action (usr_id current_user) (if stopped then ''app.scale.stop'' else ''app.scale.resume'')
            (Some (app_id app)))) (\<lambda>_.
     bnd (scale_sess (for_each envs (\<lambda>env.
            emit_event (se_alert e) (if stopped then APP_SCALE_STOPPED else APP_SCALE_RESUMED)
              (if stopped \<and> env = ''prod'' then ''warning'' else ''info'') ''scale_service'' (Some (app_id app))
              [(''name'', JStr (app_name app)), (''env'', JStr env)] (Some (usr_id current_user))))) (\<lambda>_.
     bnd (scale_sess (modify commit)) (\<lambda>_. ret app)))))))"

definition stop_app ::
  "('g, 'a) scale_env \<Rightarrow> int \<Rightarrow> int \<Rightarrow> string \<Rightarrow> user \<Rightarrow> (('g, 'a) scale_world, application) prog" where
  "stop_app e = scale_route e True"

definition resume_app ::
  "('g, 'a) scale_env \<Rightarrow> int \<Rightarrow> int \<Rightarrow> string \<Rightarrow> user \<Rightarrow> (('g, 'a) scale_world, application) prog" where
  "resume_app e = scale_route e False"

section \<open>The worker\<close>

definition is_off_hours :: "int \<Rightarrow> int \<Rightarrow> int \<Rightarrow> bool" where
  "is_off_hours hour down_hour up_hour \<longleftrightarrow>
     (if down_hour = up_hour then False
      else if down_hour < up_hour then down_hour \<le> hour \<and> hour < up_hour
      else hour \<ge> down_hour \<or> hour < up_hour)"

text \<open>The local time of a tick: its instant, its weekday (Monday is 0) and its hour.\<close>

record tick =
  tk_now :: int
  tk_weekday :: int
  tk_hour :: int

definition desired_stopped :: "('g, 'a) scale_env \<Rightarrow> tick \<Rightarrow> bool" where
  "desired_stopped e t \<longleftrightarrow>
     (if se_weekdays_only e \<and> tk_weekday t \<ge> 5 then True
      else is_off_hours (tk_hour t) (se_down_hour e) (se_up_hour e))"

definition managed_apps :: "database \<Rightarrow> application list" where
  "managed_apps d =
     select_rows (\<lambda>a. app_target_cluster_id a \<noteq> None \<and> app_dev_scale_enabled a \<noteq> Some False) (applications d)"

definition scheduled_change :: "bool \<Rightarrow> application \<Rightarrow> cluster_connection \<Rightarrow> scale_change" where
  "scheduled_change stopped app cluster =
     \<lparr>sc_app = app, sc_cluster = cluster, sc_env = ''dev'', sc_stopped = stopped, sc_reason = SCHEDULE,
      sc_actor = None\<rparr>"

definition planned_change :: "bool \<Rightarrow> database \<Rightarrow> application \<Rightarrow> scale_change option" where
  "planned_change desired d app =
     (case get_cluster_row (the (app_target_cluster_id app)) d of
        None \<Rightarrow> None
      | Some cluster \<Rightarrow>
          (let state = find_row (\<lambda>s. ss_app_id s = app_id app \<and> ss_env s = ''dev'') (scale_states d);
               currently_stopped = (case state of Some s \<Rightarrow> ss_is_stopped s | None \<Rightarrow> False);
               stop_reason = (case state of Some s \<Rightarrow> ss_stop_reason s | None \<Rightarrow> None)
           in if desired \<and> \<not> currently_stopped then Some (scheduled_change True app cluster)
              else if \<not> desired \<and> currently_stopped \<and> stop_reason = Some SCHEDULE
                then Some (scheduled_change False app cluster)
              else None))"

definition planned_changes :: "bool \<Rightarrow> database \<Rightarrow> scale_change list" where
  "planned_changes desired d = List.map_filter (planned_change desired d) (managed_apps d)"

definition scheduled_event :: "alert_env \<Rightarrow> scale_change \<Rightarrow> (session, unit) prog" where
  "scheduled_event env c =
     emit_event env (if sc_stopped c then APP_SCALE_SCHEDULED_STOP else APP_SCALE_SCHEDULED_RESUME)
       ''info'' ''scale_worker'' (Some (app_id (sc_app c)))
       [(''name'', JStr (app_name (sc_app c))), (''env'', JStr (sc_env c))] None"

definition run_scale_reconciliation :: "('g, 'a) scale_env \<Rightarrow> tick \<Rightarrow> (('g, 'a) scale_world, nat) prog" where
  "run_scale_reconciliation e t =
     bnd (scale_sess (gets (\<lambda>s. planned_changes (desired_stopped e t) (db s)))) (\<lambda>changes.
       if changes = [] then ret 0
       else
         bnd (apply_changes e (tk_now t) changes) (\<lambda>_.
         bnd (scale_sess (for_each changes (scheduled_event (se_alert e)))) (\<lambda>_.
         bnd (scale_sess (modify commit)) (\<lambda>_. ret (length changes)))))"

text \<open>
  One cycle of the worker: its own session, and an exception is logged; what was not committed is
  lost with the session.
\<close>

definition scale_cycle :: "('g, 'a) scale_env \<Rightarrow> tick \<Rightarrow> ('g, 'a) scale_world \<Rightarrow> ('g, 'a) scale_world" where
  "scale_cycle e t w =
     (let w1 = snd (run_scale_reconciliation e t (w\<lparr>sw_sess := open_session (saved (sw_sess w))\<rparr>))
      in w1\<lparr>sw_sess := open_session (saved (sw_sess w1))\<rparr>)"

section \<open>What a batch of changes does to the tracked states\<close>

lemma record_change_states:
  "scale_states (record_change now c d) =
     upsert_row ss_key new_scale_state (change_key c) (set_state now c) (scale_states d)"
  by (simp add: record_change_def get_or_create_state_def upsert_row_def change_key_def)

lemma record_change_frames [simp]:
  "applications (record_change now c d) = applications d"
  "cluster_connections (record_change now c d) = cluster_connections d"
  "users (record_change now c d) = users d"
  "notifications (record_change now c d) = notifications d"
  "preferences (record_change now c d) = preferences d"
  "events (record_change now c d) = events d"
  "audit_logs (record_change now c d) = audit_logs d"
  "gitlab_groups (record_change now c d) = gitlab_groups d"
  "group_members (record_change now c d) = group_members d"
  "app_members (record_change now c d) = app_members d"
  by (simp_all add: record_change_def get_or_create_state_def)

lemma fold_record_frames [simp]:
  "applications (fold (record_change now) cs d) = applications d"
  "cluster_connections (fold (record_change now) cs d) = cluster_connections d"
  by (induction cs arbitrary: d) simp_all

lemma set_state_key [simp]: "ss_key (set_state now c st) = ss_key st"
  by (simp add: set_state_def ss_key_def)

lemma record_change_at:
  "states.row_at k (scale_states (record_change now c d)) =
     (if k = change_key c
      then Some (set_state now c (case states.row_at k (scale_states d) of
                   Some r \<Rightarrow> r | None \<Rightarrow> new_scale_state k (seq (scale_states d))))
      else states.row_at k (scale_states d))"
  by (cases "change_key c = k") (auto simp: record_change_states states.upsert_same states.upsert_other)

text \<open>A key of the batch ends in the state of one of its changes; any other key keeps its state.\<close>

lemma fold_record_at:
  "(change_key ` set cs \<inter> {k} = {} \<and> states.row_at k (scale_states (fold (record_change now) cs d)) = states.row_at k (scale_states d))
   \<or> (\<exists>c r. c \<in> set cs \<and> change_key c = k
        \<and> states.row_at k (scale_states (fold (record_change now) cs d)) = Some (set_state now c r))"
proof (induction cs arbitrary: d)
  case (Cons c cs)
  from Cons[of "record_change now c d"] show ?case
    by (cases "change_key c = k") (auto simp: record_change_at)
qed simp

lemma fold_record_distinct:
  assumes "distinct (map change_key cs)" and "c \<in> set cs"
  shows "\<exists>r. states.row_at (change_key c) (scale_states (fold (record_change now) cs d)) = Some (set_state now c r)"
proof -
  from fold_record_at[of cs "change_key c" now d] assms(2) obtain c' r where
    c': "c' \<in> set cs" "change_key c' = change_key c"
      "states.row_at (change_key c) (scale_states (fold (record_change now) cs d)) = Some (set_state now c' r)" by auto
  from assms c'(1,2) have "c' = c" by (auto simp: distinct_map inj_on_def)
  with c'(3) show ?thesis by blast
qed

lemma sync_changes_never_raise: "fst (for_each cs (sync_change e) a) = Inr ()"
  by (rule for_each_never_raises) (simp add: sync_change_def best_effort_never_raises)

lemma apply_changes_session:
  "sw_sess (snd (apply_changes e now cs w)) =
     (case fst (apply_changes e now cs w) of
        Inl _ \<Rightarrow> sw_sess w
      | Inr _ \<Rightarrow> (sw_sess w)\<lparr>db := fold (record_change now) cs (db (sw_sess w))\<rparr>)"
proof -
  define push where "push q = push_replica_overrides_batch (se_gitlab e) (se_yaml e) q (map override_of cs) ''main'' (sw_git w)" for q
  obtain a' where sync: "for_each cs (sync_change e) (sw_argo w) = (Inr (), a')"
    using sync_changes_never_raise[of cs e "sw_argo w"] by (cases "for_each cs (sync_change e) (sw_argo w)") auto
  show ?thesis
  proof (cases "cs = [] \<or> se_bot_token e = [] \<or> se_gitops_repo_url e = []")
    case True
    then show ?thesis by (cases "cs = []") (simp_all add: apply_changes_def prog_simps)
  next
    case False
    show ?thesis
    proof (cases "extract_project_path (se_ip_ok e) (se_gitops_repo_url e)")
      case (Inl x)
      with False show ?thesis by (simp add: apply_changes_def prog_simps)
    next
      case (Inr p)
      obtain r g where push_p: "push p = (r, g)" by (cases "push p")
      with False Inr sync show ?thesis
        by (cases r) (simp_all add: apply_changes_def prog_simps push_def)
    qed
  qed
qed

section \<open>The worker\<close>

lemma scheduled_events_keep:
  "\<exists>d'. for_each cs (scheduled_event env) s = (Inr (), s\<lparr>db := d'\<rparr>) \<and> emission_keeps (db s) d'"
  unfolding scheduled_event_def by (intro for_each_emission emit_event_keeps)

text \<open>One tick, on every outcome.\<close>

lemma reconciliation_cases:
  fixes e t w
  defines "cs \<equiv> planned_changes (desired_stopped e t) (db (sw_sess w))"
  shows "(\<exists>x w'. run_scale_reconciliation e t w = (Inl x, w') \<and> sw_sess w' = sw_sess w)
   \<or> (cs = [] \<and> run_scale_reconciliation e t w = (Inr 0, w))
   \<or> (\<exists>w'. run_scale_reconciliation e t w = (Inr (length cs), w')
        \<and> emission_keeps (fold (record_change (tk_now t)) cs (db (sw_sess w))) (db (sw_sess w'))
        \<and> saved (sw_sess w') = db (sw_sess w'))"
proof (cases "cs = []")
  case True
  then show ?thesis by (simp add: run_scale_reconciliation_def prog_simps cs_def)
next
  case False
  obtain r w1 where a: "apply_changes e (tk_now t) cs w = (r, w1)" by (cases "apply_changes e (tk_now t) cs w")
  show ?thesis
  proof (cases r)
    case (Inl x)
    with a False apply_changes_session[of e "tk_now t" cs w] show ?thesis
      by (simp add: run_scale_reconciliation_def prog_simps cs_def[symmetric])
  next
    case (Inr u)
    with a apply_changes_session[of e "tk_now t" cs w]
    have s1: "sw_sess w1 = (sw_sess w)\<lparr>db := fold (record_change (tk_now t)) cs (db (sw_sess w))\<rparr>" by simp
    obtain d' where em: "for_each cs (scheduled_event (se_alert e)) (sw_sess w1) = (Inr (), (sw_sess w1)\<lparr>db := d'\<rparr>)"
      "emission_keeps (db (sw_sess w1)) d'"
      using scheduled_events_keep by blast
    from False a Inr em s1 show ?thesis
      by (simp add: run_scale_reconciliation_def prog_simps cs_def[symmetric] commit_def)
  qed
qed

lemma planned_change_key: "planned_change b d a = Some c \<Longrightarrow> change_key c = (app_id a, ''dev'') \<and> sc_stopped c = b \<and> sc_reason c = SCHEDULE"
  by (auto simp: planned_change_def Let_def scheduled_change_def change_key_def split: option.splits if_splits)

lemma planned_changes_iff:
  "c \<in> set (planned_changes b d) \<longleftrightarrow> (\<exists>a \<in> set (managed_apps d). planned_change b d a = Some c)"
  by (auto simp: planned_changes_def set_map_filter)

lemma planned_change_state:
  "planned_change b d a = Some c \<Longrightarrow>
     (case states.row_at (app_id a, ''dev'') (scale_states d) of
        None \<Rightarrow> b
      | Some st \<Rightarrow> (if b then \<not> ss_is_stopped st else ss_is_stopped st \<and> ss_stop_reason st = Some SCHEDULE))"
  by (auto simp: planned_change_def Let_def states.row_at_def ss_key_def split: option.splits if_splits)

lemma manual_stop_not_planned:
  assumes "states.row_at k (scale_states d) = Some st" and "ss_is_stopped st" and "ss_stop_reason st = Some MANUAL"
  shows "change_key ` set (planned_changes b d) \<inter> {k} = {}"
proof -
  have "change_key c \<noteq> k" if c: "c \<in> set (planned_changes b d)" for c
  proof
    assume k: "change_key c = k"
    from c obtain a where a: "planned_change b d a = Some c" by (auto simp: planned_changes_iff)
    with k planned_change_key[OF a] have "k = (app_id a, ''dev'')" by simp
    with planned_change_state[OF a] assms show False by (cases b) simp_all
  qed
  then show ?thesis by auto
qed

lemma reconciliation_keeps_manual:
  assumes st: "states.row_at k (scale_states (db (sw_sess w))) = Some st" "ss_is_stopped st" "ss_stop_reason st = Some MANUAL"
  shows "states.row_at k (scale_states (db (sw_sess (snd (run_scale_reconciliation e t w))))) = Some st"
proof -
  let ?cs = "planned_changes (desired_stopped e t) (db (sw_sess w))"
  have "states.row_at k (scale_states (fold (record_change (tk_now t)) ?cs (db (sw_sess w)))) = Some st"
    using fold_record_at[of ?cs k "tk_now t" "db (sw_sess w)"] manual_stop_not_planned[OF st] st(1) by fastforce
  then show ?thesis
    using reconciliation_cases[of e t w] st(1) by (auto simp: emission_keeps_def)
qed

lemma scale_cycle_saved:
  "saved (sw_sess (scale_cycle e t w)) = saved (sw_sess w)
   \<or> emission_keeps (fold (record_change (tk_now t)) (planned_changes (desired_stopped e t) (saved (sw_sess w)))
        (saved (sw_sess w))) (saved (sw_sess (scale_cycle e t w)))"
  using reconciliation_cases[of e t "w\<lparr>sw_sess := open_session (saved (sw_sess w))\<rparr>"]
  by (auto simp: scale_cycle_def Let_def open_session_def)

lemma scale_cycle_keeps_manual:
  assumes st: "states.row_at k (scale_states (saved (sw_sess w))) = Some st" "ss_is_stopped st" "ss_stop_reason st = Some MANUAL"
  shows "states.row_at k (scale_states (saved (sw_sess (scale_cycle e t w)))) = Some st"
proof -
  let ?d = "saved (sw_sess w)"
  let ?cs = "planned_changes (desired_stopped e t) ?d"
  have "states.row_at k (scale_states (fold (record_change (tk_now t)) ?cs ?d)) = Some st"
    using fold_record_at[of ?cs k "tk_now t" ?d] manual_stop_not_planned[OF st] st(1) by fastforce
  then show ?thesis using scale_cycle_saved[of e t w] st(1) by (auto simp: emission_keeps_def)
qed

text \<open>
  C18: no sequence of worker cycles, at whatever times and with whatever outcomes of the gitops
  push, changes the state of an environment that was stopped manually.
\<close>

theorem worker_never_resumes_manual_stop:
  assumes "states.row_at k (scale_states (saved (sw_sess w))) = Some st"
    and "ss_is_stopped st" and "ss_stop_reason st = Some MANUAL"
  shows "states.row_at k (scale_states (saved (sw_sess (fold (scale_cycle e) ticks w)))) = Some st"
  using assms
proof (induction ticks arbitrary: w)
  case (Cons t ticks)
  from Cons.IH[OF scale_cycle_keeps_manual[OF Cons.prems, of e t] Cons.prems(2,3)] show ?case by simp
qed simp

text \<open>An example: two applications on one cluster, one of them stopped manually.\<close>

definition demo_cluster :: cluster_connection where
  "demo_cluster = (blank_cluster 7 ''aks'')\<lparr>cl_argocd_url := Some ''https://argo/''\<rparr>"

definition demo_scale_app :: "int \<Rightarrow> string \<Rightarrow> application" where
  "demo_scale_app i slug = (blank_application i slug slug ''team'')\<lparr>app_target_cluster_id := Some 7\<rparr>"

definition demo_manual_state :: app_scale_state where
  "demo_manual_state = (new_scale_state (2, ''dev'') 1)\<lparr>ss_is_stopped := True, ss_stop_reason := Some MANUAL,
     ss_stopped_at := Some 5, ss_stopped_by_user_id := Some 1\<rparr>"

definition demo_scale_db :: database where
  "demo_scale_db = empty_database\<lparr>
     applications := \<lparr>rows = [demo_scale_app 1 ''shop'', demo_scale_app 2 ''blog''], seq = 3\<rparr>,
     cluster_connections := \<lparr>rows = [demo_cluster], seq = 8\<rparr>,
     scale_states := \<lparr>rows = [demo_manual_state], seq = 2\<rparr>\<rparr>"

definition demo_scale_env :: "((string \<times> string) list, nat) scale_env" where
  "demo_scale_env = \<lparr>se_bot_token = ''t'', se_gitops_repo_url = ''https://git.x/4k/gitops.git'',
     se_weekdays_only = True, se_down_hour = 20, se_up_hour = 7, se_gitlab = ref_gitlab, se_yaml = ref_yaml,
     se_ip_ok = (\<lambda>_. False), se_argocd_token = (\<lambda>_. Inr ''secret''),
     se_argocd_sync = (\<lambda>_ _ _. modify Suc),
     se_alert = \<lparr>sha256_hex = id, py_repr = (\<lambda>_. ''''), clock = 100\<rparr>\<rparr>"

definition demo_scale_world :: "((string \<times> string) list, nat) scale_world" where
  "demo_scale_world = \<lparr>sw_sess = open_session demo_scale_db, sw_git = demo_repo, sw_argo = 0\<rparr>"

definition night :: tick where "night = \<lparr>tk_now = 50, tk_weekday = 1, tk_hour = 23\<rparr>"
definition morning :: tick where "morning = \<lparr>tk_now = 60, tk_weekday = 2, tk_hour = 8\<rparr>"

theorem worker_never_resumes_manual_stop_witness:
  "states.row_at (2, ''dev'') (scale_states (saved (sw_sess (fold (scale_cycle demo_scale_env) [night, morning]
      demo_scale_world)))) = Some demo_manual_state"
proof -
  have "states.row_at (2, ''dev'') (scale_states (saved (sw_sess demo_scale_world))) = Some demo_manual_state"
    by (simp add: states.row_at_def demo_scale_world_def demo_scale_db_def open_session_def find_row_def ss_key_def
        demo_manual_state_def new_scale_state_def)
  moreover have "ss_is_stopped demo_manual_state" "ss_stop_reason demo_manual_state = Some MANUAL"
    by (simp_all add: demo_manual_state_def)
  ultimately show ?thesis by (rule worker_never_resumes_manual_stop)
qed

lemma planned_change_cong:
  assumes "get_cluster_row (the (app_target_cluster_id a)) d' = get_cluster_row (the (app_target_cluster_id a)) d"
    and "states.row_at (app_id a, ''dev'') (scale_states d') = states.row_at (app_id a, ''dev'') (scale_states d)"
  shows "planned_change b d' a = planned_change b d a"
proof -
  have r: "find_row (\<lambda>s. ss_app_id s = app_id a \<and> ss_env s = ''dev'') (scale_states d')
      = find_row (\<lambda>s. ss_app_id s = app_id a \<and> ss_env s = ''dev'') (scale_states d)"
    using assms(2) by (simp add: states.row_at_def ss_key_def)
  show ?thesis unfolding planned_change_def assms(1) r ..
qed

lemma planned_change_frame:
  assumes "applications d' = applications d" and "cluster_connections d' = cluster_connections d"
    and "scale_states d' = scale_states d"
  shows "planned_changes b d' = planned_changes b d"
proof -
  have "planned_change b d' a = planned_change b d a" for a
    by (rule planned_change_cong) (simp_all add: get_cluster_row_def assms)
  then have "planned_change b d' = planned_change b d" by (rule ext)
  then show ?thesis by (simp add: planned_changes_def managed_apps_def assms(1))
qed

text \<open>After a batch of scheduled changes has been recorded, nothing is left to change.\<close>

lemma planned_change_settled:
  fixes d b now
  defines "d' \<equiv> fold (record_change now) (planned_changes b d) d"
  assumes "a \<in> set (managed_apps d)"
  shows "planned_change b d' a = None"
proof (rule ccontr)
  let ?k = "(app_id a, ''dev'')"
  assume "planned_change b d' a \<noteq> None"
  then obtain c' where c': "planned_change b d' a = Some c'" by blast
  have same: "get_cluster_row i d' = get_cluster_row i d" for i by (simp add: get_cluster_row_def d'_def)
  from fold_record_at[of "planned_changes b d" ?k now d, folded d'_def] show False
  proof
    assume nc: "change_key ` set (planned_changes b d) \<inter> {?k} = {}
        \<and> states.row_at ?k (scale_states d') = states.row_at ?k (scale_states d)"
    then have "planned_change b d' a = planned_change b d a"
      by (intro planned_change_cong same) simp
    with c' assms(2) have "c' \<in> set (planned_changes b d)" by (auto simp: planned_changes_iff)
    with nc planned_change_key[OF c'] show False by (metis IntI empty_iff image_eqI singletonI)
  next
    assume "\<exists>c r. c \<in> set (planned_changes b d) \<and> change_key c = ?k
        \<and> states.row_at ?k (scale_states d') = Some (set_state now c r)"
    then obtain c r where c: "c \<in> set (planned_changes b d)" "states.row_at ?k (scale_states d') = Some (set_state now c r)"
      by blast
    then have "sc_stopped c = b" by (auto simp: planned_changes_iff dest: planned_change_key)
    with planned_change_state[OF c'] c(2) show False by (cases b) (simp_all add: set_state_def)
  qed
qed

lemma map_filter_none: "(\<And>x. x \<in> set xs \<Longrightarrow> f x = None) \<Longrightarrow> List.map_filter f xs = []"
  by (induction xs) (simp_all add: List.map_filter_def)

lemma planned_changes_settled: "planned_changes b (fold (record_change now) (planned_changes b d) d) = []"
proof -
  have "planned_change b (fold (record_change now) (planned_changes b d) d) a = None"
    if "a \<in> set (managed_apps d)" for a using planned_change_settled[OF that] .
  moreover have "managed_apps (fold (record_change now) (planned_changes b d) d) = managed_apps d"
    by (simp add: managed_apps_def)
  ultimately show ?thesis unfolding planned_changes_def by (simp add: map_filter_none)
qed

text \<open>
  C19: a tick that succeeds converges: what it recorded is committed, and another tick that wants the
  same state finds nothing to change and pushes nothing.
\<close>

theorem reconciliation_converges:
  assumes "run_scale_reconciliation e t w = (Inr n, w')" and "desired_stopped e t' = desired_stopped e t"
  shows "run_scale_reconciliation e t' w' = (Inr 0, w')
       \<and> (n \<noteq> 0 \<longrightarrow> saved (sw_sess w') = db (sw_sess w'))"
proof -
  let ?cs = "planned_changes (desired_stopped e t) (db (sw_sess w))"
  have "planned_changes (desired_stopped e t) (db (sw_sess w')) = [] \<and> (n \<noteq> 0 \<longrightarrow> saved (sw_sess w') = db (sw_sess w'))"
    using reconciliation_cases[of e t w]
  proof (elim disjE exE conjE)
    fix w2 assume r: "run_scale_reconciliation e t w = (Inr (length ?cs), w2)"
      and k: "emission_keeps (fold (record_change (tk_now t)) ?cs (db (sw_sess w))) (db (sw_sess w2))"
      and sv: "saved (sw_sess w2) = db (sw_sess w2)"
    from r assms(1) have "w2 = w'" by simp
    with k sv planned_changes_settled[of "desired_stopped e t" "tk_now t" "db (sw_sess w)"] show ?thesis
      by (subst planned_change_frame[of _ "fold (record_change (tk_now t)) ?cs (db (sw_sess w))"])
        (simp_all add: emission_keeps_def)
  qed (use assms(1) in simp_all)
  with assms(2) show ?thesis by (simp add: run_scale_reconciliation_def prog_simps)
qed

text \<open>
  The off-hours window is the cyclic interval from the hour of the stop to the hour of the
  resume: an hour lies in it exactly when, counted from the hour of the stop around the clock, it
  comes before the hour of the resume; equal hours make it empty.
\<close>

theorem off_hours_window:
  assumes "0 \<le> hour" "hour < 24" "0 \<le> down" "down < 24" "0 \<le> up" "up < 24"
  shows "is_off_hours hour down up \<longleftrightarrow> (hour - down) mod 24 < (up - down) mod 24"
proof -
  have m: "(x - down) mod 24 = (if down \<le> x then x - down else x - down + 24)" if "0 \<le> x" "x < 24" for x
  proof (cases "down \<le> x")
    case False
    then have "(x - down) mod 24 = (x - down + 24) mod 24" by simp
    with False that assms(4) show ?thesis by (simp del: mod_add_self2)
  qed (use that assms(3) in simp)
  show ?thesis using assms by (auto simp: m[OF assms(1,2)] m[OF assms(5,6)] is_off_hours_def)
qed

theorem off_hours_window_witness:
  "is_off_hours 23 20 7 \<and> (23 - 20 :: int) mod 24 < (7 - 20) mod 24"
  using off_hours_window[of 23 20 7] by (simp add: is_off_hours_def)

theorem reconciliation_converges_witness:
  "\<exists>w'. run_scale_reconciliation demo_scale_env night demo_scale_world = (Inr 1, w')
      \<and> run_scale_reconciliation demo_scale_env night w' = (Inr 0, w')"
proof -
  have "fst (run_scale_reconciliation demo_scale_env night demo_scale_world) = Inr 1" by code_simp
  then obtain w' where run: "run_scale_reconciliation demo_scale_env night demo_scale_world = (Inr 1, w')"
    by (metis prod.collapse)
  from reconciliation_converges[OF run refl] run show ?thesis by blast
qed

section \<open>Stopping by hand\<close>

text \<open>
  Stopping or resuming production needs the owner tier: below it, the route answers 403 to a
  user who is not an admin, and neither the database, nor the gitops repository, nor ArgoCD changes.
\<close>

theorem prod_scale_needs_owner:
  assumes "\<not> is_admin u" and "get_effective_tier (usr_id u) aid (db (sw_sess w)) \<noteq> OWNER"
    and "env = ''prod'' \<or> env = ''both''"
  shows "scale_route e stopped now aid env u w = (Inl (HTTPException 403), w)"
proof (cases "MAINTAINER \<le> get_effective_tier (usr_id u) aid (db (sw_sess w))")
  case True
  have "resolve_scale_envs env = Inr (if env = ''both'' then [''dev'', ''prod''] else [''prod''])"
    using assms(3) by (auto simp: resolve_scale_envs_def)
  with True assms show ?thesis
    by (auto simp: scale_route_def prog_simps require_tier_user require_prod_tier_def)
next
  case False
  with assms(1) show ?thesis by (simp add: scale_route_def prog_simps require_tier_user)
qed

definition demo_maintainer :: user where
  "demo_maintainer = \<lparr>usr_id = 1, usr_email = ''m@x'', usr_hashed_password = '''', usr_role = DEV,
     usr_is_active = True, usr_gitlab_user_id = None\<rparr>"

theorem prod_scale_needs_owner_witness:
  "scale_route demo_scale_env True 50 1 ''both'' demo_maintainer demo_scale_world
     = (Inl (HTTPException 403), demo_scale_world)"
proof -
  have "\<not> is_admin demo_maintainer" "get_effective_tier (usr_id demo_maintainer) 1 (db (sw_sess demo_scale_world)) \<noteq> OWNER"
    by code_simp+
  from prod_scale_needs_owner[OF this, of "''both''" demo_scale_env True 50] show ?thesis by simp
qed

lemma resolve_found:
  assumes "get_application aid (db s) = Some app" and "app_target_cluster_id app = Some cid" and "cid \<noteq> 0"
    and "get_cluster_row cid (db s) = Some cluster"
  shows "resolve_app_and_cluster aid s = (Inr (app, cluster), s)"
  using assms by (simp add: resolve_app_and_cluster_def prog_simps truthy_id_def)

text \<open>The batch of a successful push: the session records it.\<close>

lemma apply_changes_ok:
  assumes "cs \<noteq> []" and "se_bot_token e \<noteq> []" and "se_gitops_repo_url e \<noteq> []"
    and "extract_project_path (se_ip_ok e) (se_gitops_repo_url e) = Inr p"
    and "push_replica_overrides_batch (se_gitlab e) (se_yaml e) p (map override_of cs) ''main'' (sw_git w) = (Inr (), g)"
  shows "\<exists>w'. apply_changes e now cs w = (Inr (), w') \<and> sw_git w' = g
    \<and> sw_sess w' = (sw_sess w)\<lparr>db := fold (record_change now) cs (db (sw_sess w))\<rparr>"
proof -
  obtain a' where sync: "for_each cs (sync_change e) (sw_argo w) = (Inr (), a')"
    using sync_changes_never_raise[of cs e "sw_argo w"] by (cases "for_each cs (sync_change e) (sw_argo w)") auto
  with assms show ?thesis by (simp add: apply_changes_def prog_simps)
qed

lemma audit_keeps: "\<exists>d'. log_action uid act aid s = (Inr (), s\<lparr>db := d'\<rparr>) \<and> emission_keeps (db s) d'"
  unfolding log_action_def prog_simps
  by (intro exI[of _ "(db s)\<lparr>audit_logs := insert_row
       (\<lambda>_. \<lparr>al_user_id = Some uid, al_action = act, al_app_id = aid\<rparr>) (audit_logs (db s))\<rparr>"])
    (simp add: emission_keeps_def)

lemma resolved_envs: "resolve_scale_envs env = Inr envs \<Longrightarrow> envs \<in> {[''dev'', ''prod''], [''dev''], [''prod'']}"
  by (auto simp: resolve_scale_envs_def split: if_splits)

lemma manual_batch:
  assumes "envs \<in> {[''dev'', ''prod''], [''dev''], [''prod'']}"
  shows "distinct (map override_path (map override_of (map (manual_change st actor app cluster) envs)))"
    and "distinct (map change_key (map (manual_change st actor app cluster) envs))"
  using assms by (auto simp: override_path_def override_of_def manual_change_def values_path_def change_key_def)

lemma manual_override:
  "override_path (override_of (manual_change st actor app cluster env)) = values_path (cl_name cluster) (app_slug app) env"
  "ro_replicas (override_of (manual_change st actor app cluster env)) = (if st then Some 0 else None)"
  by (simp_all add: override_path_def override_of_def manual_change_def)

definition stopped_by :: "int \<Rightarrow> int \<Rightarrow> app_scale_state \<Rightarrow> bool" where
  "stopped_by actor now st \<longleftrightarrow>
     ss_is_stopped st \<and> ss_stop_reason st = Some MANUAL \<and> ss_stopped_at st = Some now
   \<and> ss_stopped_by_user_id st = Some actor"

lemma manual_stop_ok:
  assumes repo: "gitops (se_gitlab e) p up blobs (se_yaml e)" "up (sw_git w)"
    and cfg: "se_bot_token e \<noteq> []" "se_gitops_repo_url e \<noteq> []"
      "extract_project_path (se_ip_ok e) (se_gitops_repo_url e) = Inr p"
    and found: "get_application aid (db (sw_sess w)) = Some app" "app_target_cluster_id app = Some cid" "cid \<noteq> 0"
      "get_cluster_row cid (db (sw_sess w)) = Some cluster"
    and envs: "envs \<in> {[''dev'', ''prod''], [''dev''], [''prod'']}"
    and vals: "\<And>en. en \<in> set envs \<Longrightarrow> values_of (se_yaml e) (blobs (sw_git w)) (values_path (cl_name cluster) (app_slug app) en) \<noteq> None"
  shows "\<exists>w'. manual_stop e now aid envs actor w = (Inr app, w')
    \<and> saved (sw_sess w') = saved (sw_sess w)
    \<and> (\<forall>en \<in> set envs.
         (\<exists>st. states.row_at (aid, en) (scale_states (db (sw_sess w'))) = Some st \<and> stopped_by actor now st)
       \<and> (\<exists>kvs. values_of (se_yaml e) (blobs (sw_git w')) (values_path (cl_name cluster) (app_slug app) en) = Some kvs
              \<and> map_of kvs ''replicas'' = Some (JNum 0)))"
proof -
  let ?cs = "map (manual_change True actor app cluster) envs"
  have ne: "?cs \<noteq> []" "map override_of ?cs \<noteq> []" using envs by auto
  have "values_of (se_yaml e) (blobs (sw_git w)) (override_path c) \<noteq> None" if "c \<in> set (map override_of ?cs)" for c
    using that vals by (auto simp: manual_override)
  from gitops.push_replica_overrides_up[OF repo ne(2) manual_batch(1)[OF envs] this] obtain g where
    g: "push_replica_overrides_batch (se_gitlab e) (se_yaml e) p (map override_of ?cs) ''main'' (sw_git w) = (Inr (), g)"
      "\<forall>c \<in> set (map override_of ?cs). values_of (se_yaml e) (blobs g) (override_path c)
         = map_option (with_replicas (ro_replicas c)) (values_of (se_yaml e) (blobs (sw_git w)) (override_path c))" by blast
  from apply_changes_ok[OF ne(1) cfg g(1)] obtain w' where
    w': "apply_changes e now ?cs w = (Inr (), w')" "sw_git w' = g"
      "sw_sess w' = (sw_sess w)\<lparr>db := fold (record_change now) ?cs (db (sw_sess w))\<rparr>" by blast
  have run: "manual_stop e now aid envs actor w = (Inr app, w')"
    by (simp add: manual_stop_def prog_simps resolve_found[OF found] w'(1))
  have aid: "app_id app = aid" using get_application_Some[OF found(1)] by simp
  have "\<exists>st. states.row_at (aid, en) (scale_states (db (sw_sess w'))) = Some st \<and> stopped_by actor now st"
    if en: "en \<in> set envs" for en
    using fold_record_distinct[OF manual_batch(2)[OF envs, of True actor app cluster],
        of "manual_change True actor app cluster en" now "db (sw_sess w)"] en
    by (auto simp: w'(3) change_key_def manual_change_def aid stopped_by_def set_state_def)
  moreover have "\<exists>kvs. values_of (se_yaml e) (blobs (sw_git w')) (values_path (cl_name cluster) (app_slug app) en) = Some kvs
              \<and> map_of kvs ''replicas'' = Some (JNum 0)"
    if en: "en \<in> set envs" for en
  proof -
    from vals[OF en] obtain kvs where
      k: "values_of (se_yaml e) (blobs (sw_git w)) (values_path (cl_name cluster) (app_slug app) en) = Some kvs" by blast
    from g(2) en have "values_of (se_yaml e) (blobs g) (override_path (override_of (manual_change True actor app cluster en)))
        = map_option (with_replicas (Some 0)) (values_of (se_yaml e) (blobs (sw_git w))
            (override_path (override_of (manual_change True actor app cluster en))))"
      by (simp add: manual_override)
    with k show ?thesis by (simp add: manual_override w'(2) with_replicas_def)
  qed
  ultimately show ?thesis using run w'(3) by auto
qed

text \<open>
  When the gitops repository answers, a stop by an owner pins the replicas of every named
  environment to zero in its values file, marks the environment as stopped manually by that user at
  that instant, and commits the session.
\<close>

theorem stop_app_stops:
  assumes repo: "gitops (se_gitlab e) p up blobs (se_yaml e)" "up (sw_git w)"
    and cfg: "se_bot_token e \<noteq> []" "se_gitops_repo_url e \<noteq> []"
      "extract_project_path (se_ip_ok e) (se_gitops_repo_url e) = Inr p"
    and found: "get_application aid (db (sw_sess w)) = Some app" "app_target_cluster_id app = Some cid" "cid \<noteq> 0"
      "get_cluster_row cid (db (sw_sess w)) = Some cluster"
    and user: "\<not> is_admin u" "get_effective_tier (usr_id u) aid (db (sw_sess w)) = OWNER"
    and envs: "resolve_scale_envs env = Inr envs"
    and vals: "\<And>en. en \<in> set envs \<Longrightarrow> values_of (se_yaml e) (blobs (sw_git w)) (values_path (cl_name cluster) (app_slug app) en) \<noteq> None"
  shows "\<exists>w'. stop_app e now aid env u w = (Inr app, w') \<and> saved (sw_sess w') = db (sw_sess w')
    \<and> (\<forall>en \<in> set envs.
         (\<exists>st. states.row_at (aid, en) (scale_states (saved (sw_sess w'))) = Some st \<and> stopped_by (usr_id u) now st)
       \<and> (\<exists>kvs. values_of (se_yaml e) (blobs (sw_git w')) (values_path (cl_name cluster) (app_slug app) en) = Some kvs
              \<and> map_of kvs ''replicas'' = Some (JNum 0)))"
proof -
  from manual_stop_ok[OF repo cfg found resolved_envs[OF envs] vals, of now "usr_id u"] obtain w1 where
    w1: "manual_stop e now aid envs (usr_id u) w = (Inr app, w1)"
      "\<forall>en \<in> set envs.
         (\<exists>st. states.row_at (aid, en) (scale_states (db (sw_sess w1))) = Some st \<and> stopped_by (usr_id u) now st)
       \<and> (\<exists>kvs. values_of (se_yaml e) (blobs (sw_git w1)) (values_path (cl_name cluster) (app_slug app) en) = Some kvs
              \<and> map_of kvs ''replicas'' = Some (JNum 0))" by blast
  obtain d1 where d1: "log_action (usr_id u) ''app.scale.stop'' (Some (app_id app)) (sw_sess w1) = (Inr (), (sw_sess w1)\<lparr>db := d1\<rparr>)"
    "emission_keeps (db (sw_sess w1)) d1" using audit_keeps by blast
  obtain d2 where d2: "for_each envs (\<lambda>env. emit_event (se_alert e) APP_SCALE_STOPPED
              (if env = ''prod'' then ''warning'' else ''info'') ''scale_service'' (Some (app_id app))
              [(''name'', JStr (app_name app)), (''env'', JStr env)] (Some (usr_id u))) ((sw_sess w1)\<lparr>db := d1\<rparr>)
       = (Inr (), (sw_sess w1)\<lparr>db := d1\<rparr>\<lparr>db := d2\<rparr>)" "emission_keeps d1 d2"
    using for_each_emission[of "\<lambda>env. emit_event (se_alert e) APP_SCALE_STOPPED
              (if env = ''prod'' then ''warning'' else ''info'') ''scale_service'' (Some (app_id app))
              [(''name'', JStr (app_name app)), (''env'', JStr env)] (Some (usr_id u))" envs "(sw_sess w1)\<lparr>db := d1\<rparr>"]
      emit_event_keeps by fastforce
  have "MAINTAINER \<le> OWNER" by (simp add: less_eq_cnp_tier_def TIER_ORDER_def)
  with user envs w1(1) d1(1) d2(1) have run: "stop_app e now aid env u w
      = (Inr app, w1\<lparr>sw_sess := commit ((sw_sess w1)\<lparr>db := d2\<rparr>)\<rparr>)"
    by (simp add: stop_app_def scale_route_def prog_simps require_tier_user require_prod_tier_def)
  from d1(2) d2(2) have "scale_states d2 = scale_states (db (sw_sess w1))" by (simp add: emission_keeps_def)
  with w1(2) run show ?thesis by (simp add: commit_def)
qed

definition demo_owned_app :: application where
  "demo_owned_app = (demo_scale_app 1 ''shop'')\<lparr>app_gitlab_project_id := Some 11\<rparr>"

definition demo_owned_world :: "((string \<times> string) list, nat) scale_world" where
  "demo_owned_world = \<lparr>sw_sess = open_session (demo_scale_db\<lparr>
      applications := \<lparr>rows = [demo_owned_app], seq = 2\<rparr>,
      app_members := \<lparr>rows = [\<lparr>am_id = 1, am_project_id = 11, am_user_id = Some 4, am_email = None,
        am_access_level = 50, am_cnp_user_id = Some 1, am_status = ACTIVE, am_updated_at = None\<rparr>], seq = 2\<rparr>\<rparr>),
     sw_git = demo_repo, sw_argo = 0\<rparr>"

theorem stop_app_stops_witness:
  "\<exists>w'. stop_app demo_scale_env 50 1 ''dev'' demo_maintainer demo_owned_world = (Inr demo_owned_app, w')
    \<and> (\<exists>st. states.row_at (1, ''dev'') (scale_states (saved (sw_sess w'))) = Some st \<and> ss_is_stopped st)"
proof -
  have repo: "gitops (se_gitlab demo_scale_env) ''4k/gitops'' (\<lambda>_. True) map_of (se_yaml demo_scale_env)"
    using ref_is_gitops by (simp add: demo_scale_env_def)
  have cfg: "se_bot_token demo_scale_env \<noteq> []" "se_gitops_repo_url demo_scale_env \<noteq> []"
    by (simp_all add: demo_scale_env_def)
  have path: "extract_project_path (se_ip_ok demo_scale_env) (se_gitops_repo_url demo_scale_env) = Inr ''4k/gitops''"
    by code_simp
  have app: "get_application 1 (db (sw_sess demo_owned_world)) = Some demo_owned_app"
    and cl: "get_cluster_row 7 (db (sw_sess demo_owned_world)) = Some demo_cluster"
    and own: "get_effective_tier (usr_id demo_maintainer) 1 (db (sw_sess demo_owned_world)) = OWNER"
    and adm: "\<not> is_admin demo_maintainer"
    by code_simp+
  have tgt: "app_target_cluster_id demo_owned_app = Some 7" by code_simp
  have envs: "resolve_scale_envs ''dev'' = Inr [''dev'']" by code_simp
  have v: "values_of (se_yaml demo_scale_env) (map_of (sw_git demo_owned_world))
      (values_path (cl_name demo_cluster) (app_slug demo_owned_app) ''dev'') \<noteq> None" by code_simp
  have "\<exists>w'. stop_app demo_scale_env 50 1 ''dev'' demo_maintainer demo_owned_world = (Inr demo_owned_app, w')
    \<and> saved (sw_sess w') = db (sw_sess w')
    \<and> (\<forall>en \<in> set [''dev''].
         (\<exists>st. states.row_at (1, en) (scale_states (saved (sw_sess w'))) = Some st \<and> stopped_by (usr_id demo_maintainer) 50 st)
       \<and> (\<exists>kvs. values_of (se_yaml demo_scale_env) (map_of (sw_git w')) (values_path (cl_name demo_cluster) (app_slug demo_owned_app) en) = Some kvs
              \<and> map_of kvs ''replicas'' = Some (JNum 0)))"
    by (rule stop_app_stops[OF repo TrueI cfg path app tgt _ cl adm own envs]) (use v in auto)
  then show ?thesis by (auto simp: stopped_by_def)
qed

end
