(* ===== verification/Health.thy ===== *)
theory Health
  imports Alerting
begin

text \<open>
  backend/k8s/health_worker.py: the probe of every cluster, the grace period before a cluster counts
  as offline, and the cascade on the applications it hosts. The Kubernetes client is a parameter;
  the memory of the worker (consecutive failures, applications it degraded) is part of the state.
\<close>

section \<open>State\<close>

record health_world =
  hw_sess :: session
  failures :: "int \<Rightarrow> nat option"
  degraded_apps :: "int \<Rightarrow> int list option"

text \<open>
  A Kubernetes client for the cluster (its construction may raise), whether it is configured, and
  the outcome of its healthcheck.
\<close>

definition probe :: "(cluster_connection \<Rightarrow> exc + bool \<times> (exc + unit)) \<Rightarrow> cluster_connection \<Rightarrow> bool" where
  "probe k8s cluster =
     (case k8s cluster of
        Inl _ \<Rightarrow> False
      | Inr (configured, health) \<Rightarrow>
          if \<not> configured then False else (case health of Inl _ \<Rightarrow> False | Inr _ \<Rightarrow> True))"

section \<open>The cascade\<close>

definition deployed_on :: "int \<Rightarrow> application \<Rightarrow> bool" where
  "deployed_on cid a \<longleftrightarrow> app_target_cluster_id a = Some cid \<and> app_last_known_status a = DEPLOYED"

definition offline_ids :: "int \<Rightarrow> database \<Rightarrow> int list" where
  "offline_ids cid d = remdups (map app_id (select_rows (deployed_on cid) (applications d)))"

definition cascade_offline :: "int \<Rightarrow> (session, int list) prog" where
  "cascade_offline cid =
     bnd (gets (\<lambda>s. offline_ids cid (db s))) (\<lambda>app_ids.
     bnd (modify (\<lambda>s. s\<lparr>db := (db s)\<lparr>applications :=
            update_rows (\<lambda>a. app_id a \<in> set app_ids) (\<lambda>a. a\<lparr>app_last_known_status := DEGRADED\<rparr>)
              (applications (db s))\<rparr>\<rparr>)) (\<lambda>_. ret app_ids))"

definition restorable :: "int \<Rightarrow> int list \<Rightarrow> application \<Rightarrow> bool" where
  "restorable cid app_ids a \<longleftrightarrow>
     app_id a \<in> set app_ids \<and> app_target_cluster_id a = Some cid \<and> app_last_known_status a = DEGRADED"

definition cascade_recovery :: "int \<Rightarrow> int list \<Rightarrow> (session, unit) prog" where
  "cascade_recovery cid app_ids =
     (if app_ids = [] then ret ()
      else modify (\<lambda>s. s\<lparr>db := (db s)\<lparr>applications :=
             update_rows (restorable cid app_ids) (\<lambda>a. a\<lparr>app_last_known_status := DEPLOYED\<rparr>)
               (applications (db s))\<rparr>\<rparr>))"

definition degraded_event :: "alert_env \<Rightarrow> string \<Rightarrow> int \<Rightarrow> (session, unit) prog" where
  "degraded_event env cluster_name aid =
     bnd (gets (\<lambda>s. get_application aid (db s))) (\<lambda>app.
       case app of
         None \<Rightarrow> ret ()
       | Some app \<Rightarrow> emit_event env APP_HEALTH_DEGRADED ''critical'' ''health_worker'' (Some aid)
           [(''name'', JStr (app_name app)), (''reason'', JStr ''cluster_offline''),
            (''cluster_name'', JStr cluster_name)] None)"

definition recovered_event :: "alert_env \<Rightarrow> string \<Rightarrow> int \<Rightarrow> (session, unit) prog" where
  "recovered_event env cluster_name aid =
     bnd (gets (\<lambda>s. get_application aid (db s))) (\<lambda>app.
       case app of
         None \<Rightarrow> ret ()
       | Some app \<Rightarrow> emit_event env APP_HEALTH_RECOVERED ''info'' ''health_worker'' (Some aid)
           [(''name'', JStr (app_name app)), (''cluster_name'', JStr cluster_name)] None)"

definition cluster_event :: "alert_env \<Rightarrow> string \<Rightarrow> string \<Rightarrow> cluster_connection \<Rightarrow> (session, unit) prog" where
  "cluster_event env type severity cluster =
     emit_event env type severity ''health_worker'' None
       [(''cluster_id'', JNum (cl_id cluster)), (''cluster_name'', JStr (cl_name cluster))] None"

section \<open>One cluster\<close>

definition on_hsess :: "(session, 'x) prog \<Rightarrow> (health_world, 'x) prog" where
  "on_hsess m = (\<lambda>w. case m (hw_sess w) of (r, s) \<Rightarrow> (r, w\<lparr>hw_sess := s\<rparr>))"

lemma on_hsess_apply [prog_simps]: "on_hsess m w = (case m (hw_sess w) of (r, s) \<Rightarrow> (r, w\<lparr>hw_sess := s\<rparr>))"
  by (simp add: on_hsess_def)

definition set_cluster :: "int \<Rightarrow> (cluster_connection \<Rightarrow> cluster_connection) \<Rightarrow> session \<Rightarrow> session" where
  "set_cluster cid f s =
     s\<lparr>db := (db s)\<lparr>cluster_connections := update_rows (\<lambda>c. cl_id c = cid) f (cluster_connections (db s))\<rparr>\<rparr>"

text \<open>The failure counter and the status that a probe leads to.\<close>

definition next_failures :: "bool \<Rightarrow> nat option \<Rightarrow> nat" where
  "next_failures reachable n = (if reachable then 0 else (case n of None \<Rightarrow> 0 | Some k \<Rightarrow> k) + 1)"

definition next_status :: "bool \<Rightarrow> nat \<Rightarrow> nat \<Rightarrow> cluster_status \<Rightarrow> cluster_status" where
  "next_status reachable failed threshold old_status =
     (if reachable then ONLINE else if failed \<ge> threshold then OFFLINE else old_status)"

definition mark_seen :: "int \<Rightarrow> bool \<Rightarrow> int \<Rightarrow> session \<Rightarrow> session" where
  "mark_seen now reachable cid s =
     (if reachable then set_cluster cid (\<lambda>c. c\<lparr>cl_last_seen_at := Some now\<rparr>) s else s)"

text \<open>The cascade of a confirmed transition, between online and offline only.\<close>

definition goes_offline :: "cluster_status \<Rightarrow> cluster_status \<Rightarrow> bool" where
  "goes_offline old_status new_status \<longleftrightarrow> new_status = OFFLINE \<and> old_status = ONLINE"

definition comes_back :: "cluster_status \<Rightarrow> cluster_status \<Rightarrow> bool" where
  "comes_back old_status new_status \<longleftrightarrow> new_status = ONLINE \<and> old_status = OFFLINE"

definition known_ids :: "(int \<Rightarrow> int list option) \<Rightarrow> int \<Rightarrow> int list" where
  "known_ids m cid = (case m cid of Some ids \<Rightarrow> ids | None \<Rightarrow> [])"

definition apply_transition ::
  "alert_env \<Rightarrow> cluster_status \<Rightarrow> cluster_connection \<Rightarrow> (health_world, unit) prog" where
  "apply_transition env new_status cluster =
     (if goes_offline (cl_status cluster) new_status then
        bnd (on_hsess (cascade_offline (cl_id cluster))) (\<lambda>app_ids.
        bnd (modify (\<lambda>w. w\<lparr>degraded_apps := (degraded_apps w)(cl_id cluster \<mapsto> app_ids)\<rparr>)) (\<lambda>_.
        bnd (on_hsess (cluster_event env CLUSTER_OFFLINE ''critical'' cluster)) (\<lambda>_.
          on_hsess (for_each app_ids (degraded_event env (cl_name cluster))))))
      else if comes_back (cl_status cluster) new_status then
        bnd (gets (\<lambda>w. known_ids (degraded_apps w) (cl_id cluster))) (\<lambda>ids.
        bnd (modify (\<lambda>w. w\<lparr>degraded_apps := (degraded_apps w)(cl_id cluster := None)\<rparr>)) (\<lambda>_.
        bnd (on_hsess (cascade_recovery (cl_id cluster) ids)) (\<lambda>_.
        bnd (on_hsess (cluster_event env CLUSTER_ONLINE ''info'' cluster)) (\<lambda>_.
          on_hsess (for_each ids (recovered_event env (cl_name cluster)))))))
      else ret ())"

definition process_cluster ::
  "alert_env \<Rightarrow> nat \<Rightarrow> int \<Rightarrow> bool \<Rightarrow> cluster_connection \<Rightarrow> (health_world, unit) prog" where
  "process_cluster env threshold now reachable cluster =
     bnd (gets (\<lambda>w. next_failures reachable (failures w (cl_id cluster)))) (\<lambda>failed.
     bnd (modify (\<lambda>w. w\<lparr>failures := (failures w)(cl_id cluster \<mapsto> failed)\<rparr>)) (\<lambda>_.
     bnd (on_hsess (modify (mark_seen now reachable (cl_id cluster)))) (\<lambda>_.
     (let new_status = next_status reachable failed threshold (cl_status cluster) in
      bnd (apply_transition env new_status cluster) (\<lambda>_.
      bnd (on_hsess (modify (set_cluster (cl_id cluster) (\<lambda>c. c\<lparr>cl_status := new_status\<rparr>)))) (\<lambda>_.
        on_hsess (modify commit)))))))"

section \<open>One cycle of the worker\<close>

text \<open>
  Each cluster in a session of its own: a cluster that has gone is skipped, an exception is logged
  and leaves the memory as it is; the next session starts from what is committed.
\<close>

definition check_cluster ::
  "alert_env \<Rightarrow> nat \<Rightarrow> int \<Rightarrow> (cluster_connection \<Rightarrow> bool) \<Rightarrow> int \<Rightarrow> health_world \<Rightarrow> health_world" where
  "check_cluster env threshold now probes cid w =
     (let w0 = w\<lparr>hw_sess := open_session (saved (hw_sess w))\<rparr> in
      case get_cluster_row cid (db (hw_sess w0)) of
        None \<Rightarrow> w0
      | Some cluster \<Rightarrow> snd (process_cluster env threshold now (probes cluster) cluster w0))"

definition health_cycle ::
  "alert_env \<Rightarrow> nat \<Rightarrow> int \<Rightarrow> (cluster_connection \<Rightarrow> bool) \<Rightarrow> health_world \<Rightarrow> health_world" where
  "health_cycle env threshold now probes w =
     fold (check_cluster env threshold now probes)
       (map cl_id (rows (cluster_connections (saved (hw_sess w))))) w"

section \<open>What one probe does\<close>

lemma degraded_events_keep:
  "\<exists>d'. for_each ids (degraded_event env name) s = (Inr (), s\<lparr>db := d'\<rparr>) \<and> emission_keeps (db s) d'"
proof (rule for_each_emission)
  fix aid and s :: session
  show "\<exists>d'. degraded_event env name aid s = (Inr (), s\<lparr>db := d'\<rparr>) \<and> emission_keeps (db s) d'"
    using emit_event_keeps by (cases "get_application aid (db s)")
      (auto simp: degraded_event_def prog_simps intro!: exI[of _ "db s"])
qed

lemma recovered_events_keep:
  "\<exists>d'. for_each ids (recovered_event env name) s = (Inr (), s\<lparr>db := d'\<rparr>) \<and> emission_keeps (db s) d'"
proof (rule for_each_emission)
  fix aid and s :: session
  show "\<exists>d'. recovered_event env name aid s = (Inr (), s\<lparr>db := d'\<rparr>) \<and> emission_keeps (db s) d'"
    using emit_event_keeps by (cases "get_application aid (db s)")
      (auto simp: recovered_event_def prog_simps intro!: exI[of _ "db s"])
qed

lemma cluster_event_keeps:
  "\<exists>d'. cluster_event env ty sev c s = (Inr (), s\<lparr>db := d'\<rparr>) \<and> emission_keeps (db s) d'"
  unfolding cluster_event_def by (rule emit_event_keeps)

text \<open>The tables after the probe, as functions of the tables before it.\<close>

definition clusters_after :: "int \<Rightarrow> int \<Rightarrow> bool \<Rightarrow> cluster_status \<Rightarrow> cluster_connection table \<Rightarrow> cluster_connection table" where
  "clusters_after now cid reachable new_status t =
     update_rows (\<lambda>c. cl_id c = cid) (\<lambda>c. c\<lparr>cl_status := new_status\<rparr>)
       (if reachable then update_rows (\<lambda>c. cl_id c = cid) (\<lambda>c. c\<lparr>cl_last_seen_at := Some now\<rparr>) t else t)"

definition degrade :: "int list \<Rightarrow> application table \<Rightarrow> application table" where
  "degrade ids = update_rows (\<lambda>a. app_id a \<in> set ids) (\<lambda>a. a\<lparr>app_last_known_status := DEGRADED\<rparr>)"

definition restore :: "int \<Rightarrow> int list \<Rightarrow> application table \<Rightarrow> application table" where
  "restore cid ids = update_rows (restorable cid ids) (\<lambda>a. a\<lparr>app_last_known_status := DEPLOYED\<rparr>)"

lemma cascade_recovery_apply:
  "cascade_recovery cid ids s = (Inr (), s\<lparr>db := (db s)\<lparr>applications := restore cid ids (applications (db s))\<rparr>\<rparr>)"
proof (cases "ids = []")
  case True
  then have "restore cid ids (applications (db s)) = applications (db s)"
    unfolding restore_def by (intro update_rows_none) (simp add: restorable_def)
  with True show ?thesis by (simp add: cascade_recovery_def prog_simps)
qed (simp add: cascade_recovery_def prog_simps restore_def)

lemma apply_transition_spec:
  fixes cluster w
  defines "cid \<equiv> cl_id cluster" and "d \<equiv> db (hw_sess w)"
  shows "\<exists>w'. apply_transition env new_status cluster w = (Inr (), w')
    \<and> failures w' = failures w
    \<and> cluster_connections (db (hw_sess w')) = cluster_connections d
    \<and> applications (db (hw_sess w')) =
        (if goes_offline (cl_status cluster) new_status then degrade (offline_ids cid d) (applications d)
         else if comes_back (cl_status cluster) new_status
           then restore cid (known_ids (degraded_apps w) cid) (applications d)
         else applications d)
    \<and> degraded_apps w' =
        (if goes_offline (cl_status cluster) new_status then (degraded_apps w)(cid \<mapsto> offline_ids cid d)
         else if comes_back (cl_status cluster) new_status then (degraded_apps w)(cid := None)
         else degraded_apps w)"
proof -
  consider (gone) "goes_offline (cl_status cluster) new_status"
    | (recovered) "\<not> goes_offline (cl_status cluster) new_status" "comes_back (cl_status cluster) new_status"
    | (steady) "\<not> goes_offline (cl_status cluster) new_status" "\<not> comes_back (cl_status cluster) new_status" by blast
  then show ?thesis
  proof cases
    case gone
    let ?s1 = "(hw_sess w)\<lparr>db := d\<lparr>applications := degrade (offline_ids cid d) (applications d)\<rparr>\<rparr>"
    obtain d2 where d2: "cluster_event env CLUSTER_OFFLINE ''critical'' cluster ?s1 = (Inr (), ?s1\<lparr>db := d2\<rparr>)"
      "emission_keeps (db ?s1) d2" using cluster_event_keeps by blast
    obtain d3 where d3: "for_each (offline_ids cid d) (degraded_event env (cl_name cluster)) (?s1\<lparr>db := d2\<rparr>)
        = (Inr (), ?s1\<lparr>db := d2\<rparr>\<lparr>db := d3\<rparr>)" "emission_keeps d2 d3"
      using degraded_events_keep[of "offline_ids cid d" env "cl_name cluster" "?s1\<lparr>db := d2\<rparr>"] by auto
    from gone d2 d3 show ?thesis
      by (simp add: apply_transition_def prog_simps cid_def[symmetric] d_def[symmetric]
          cascade_offline_def degrade_def[symmetric] emission_keeps_def)
  next
    case recovered
    let ?ids = "known_ids (degraded_apps w) cid"
    let ?s1 = "(hw_sess w)\<lparr>db := d\<lparr>applications := restore cid ?ids (applications d)\<rparr>\<rparr>"
    obtain d2 where d2: "cluster_event env CLUSTER_ONLINE ''info'' cluster ?s1 = (Inr (), ?s1\<lparr>db := d2\<rparr>)"
      "emission_keeps (db ?s1) d2" using cluster_event_keeps by blast
    obtain d3 where d3: "for_each ?ids (recovered_event env (cl_name cluster)) (?s1\<lparr>db := d2\<rparr>)
        = (Inr (), ?s1\<lparr>db := d2\<rparr>\<lparr>db := d3\<rparr>)" "emission_keeps d2 d3"
      using recovered_events_keep[of ?ids env "cl_name cluster" "?s1\<lparr>db := d2\<rparr>"] by auto
    from recovered d2 d3 show ?thesis
      by (simp add: apply_transition_def prog_simps cid_def[symmetric] d_def[symmetric]
          cascade_recovery_apply emission_keeps_def)
  next
    case steady
    then show ?thesis by (simp add: apply_transition_def prog_simps cid_def[symmetric] d_def[symmetric])
  qed
qed

lemma mark_seen_simps [simp]:
  "applications (db (mark_seen now r cid s)) = applications (db s)"
  "cluster_connections (db (mark_seen now r cid s)) = (if r
     then update_rows (\<lambda>c. cl_id c = cid) (\<lambda>c. c\<lparr>cl_last_seen_at := Some now\<rparr>) (cluster_connections (db s))
     else cluster_connections (db s))"
  by (simp_all add: mark_seen_def set_cluster_def)

lemma offline_ids_cong: "applications d' = applications d \<Longrightarrow> offline_ids cid d' = offline_ids cid d"
  by (simp add: offline_ids_def)

lemma process_cluster_spec:
  fixes cluster w reachable threshold
  defines "cid \<equiv> cl_id cluster"
  defines "failed \<equiv> next_failures reachable (failures w cid)"
  defines "new_status \<equiv> next_status reachable failed threshold (cl_status cluster)"
  defines "d \<equiv> db (hw_sess w)"
  shows "\<exists>w'. process_cluster env threshold now reachable cluster w = (Inr (), w')
    \<and> failures w' = (failures w)(cid \<mapsto> failed)
    \<and> saved (hw_sess w') = db (hw_sess w')
    \<and> cluster_connections (db (hw_sess w')) = clusters_after now cid reachable new_status (cluster_connections d)
    \<and> applications (db (hw_sess w')) =
        (if goes_offline (cl_status cluster) new_status then degrade (offline_ids cid d) (applications d)
         else if comes_back (cl_status cluster) new_status
           then restore cid (known_ids (degraded_apps w) cid) (applications d)
         else applications d)
    \<and> degraded_apps w' =
        (if goes_offline (cl_status cluster) new_status then (degraded_apps w)(cid \<mapsto> offline_ids cid d)
         else if comes_back (cl_status cluster) new_status then (degraded_apps w)(cid := None)
         else degraded_apps w)"
proof -
  let ?w1 = "w\<lparr>failures := (failures w)(cid \<mapsto> failed), hw_sess := mark_seen now reachable cid (hw_sess w)\<rparr>"
  have ids: "offline_ids cid (db (mark_seen now reachable cid (hw_sess w))) = offline_ids cid d"
    by (rule offline_ids_cong) (simp add: d_def)
  from apply_transition_spec[of env new_status cluster ?w1] obtain w2 where
    w2: "apply_transition env new_status cluster ?w1 = (Inr (), w2)" "failures w2 = (failures w)(cid \<mapsto> failed)"
    "cluster_connections (db (hw_sess w2)) = cluster_connections (db (mark_seen now reachable cid (hw_sess w)))"
    "applications (db (hw_sess w2)) =
        (if goes_offline (cl_status cluster) new_status then degrade (offline_ids cid d) (applications d)
         else if comes_back (cl_status cluster) new_status
           then restore cid (known_ids (degraded_apps w) cid) (applications d)
         else applications d)"
    "degraded_apps w2 =
        (if goes_offline (cl_status cluster) new_status then (degraded_apps w)(cid \<mapsto> offline_ids cid d)
         else if comes_back (cl_status cluster) new_status then (degraded_apps w)(cid := None)
         else degraded_apps w)"
    by (auto simp: cid_def[symmetric] ids d_def[symmetric] simp del: mark_seen_simps(2))
  have run: "process_cluster env threshold now reachable cluster w =
      (Inr (), w2\<lparr>hw_sess := commit (set_cluster cid (\<lambda>c. c\<lparr>cl_status := new_status\<rparr>) (hw_sess w2))\<rparr>)"
    using w2(1) by (simp add: process_cluster_def prog_simps Let_def cid_def[symmetric] failed_def[symmetric]
        new_status_def[symmetric])
  show ?thesis unfolding run using w2(2-5)
    by (simp add: set_cluster_def commit_def clusters_after_def d_def)
qed

section \<open>The history of one cluster\<close>

lemma row_clusters_after:
  assumes "find_row (\<lambda>c. cl_id c = cid) t = Some c"
  shows "\<exists>c'. find_row (\<lambda>c. cl_id c = cid) (clusters_after now cid r st t) = Some c' \<and> cl_status c' = st"
proof -
  have s: "find_row (\<lambda>c. cl_id c = cid) (update_rows (\<lambda>c. cl_id c = cid) (\<lambda>c. c\<lparr>cl_status := st\<rparr>) t')
      = map_option (\<lambda>c. c\<lparr>cl_status := st\<rparr>) (find_row (\<lambda>c. cl_id c = cid) t')" for t'
    by (rule find_update_same) simp
  have l: "find_row (\<lambda>c. cl_id c = cid) (update_rows (\<lambda>c. cl_id c = cid) (\<lambda>c. c\<lparr>cl_last_seen_at := Some now\<rparr>) t)
      = map_option (\<lambda>c. c\<lparr>cl_last_seen_at := Some now\<rparr>) (find_row (\<lambda>c. cl_id c = cid) t)"
    by (rule find_update_same) simp
  show ?thesis unfolding clusters_after_def s using assms l by (cases r) simp_all
qed

text \<open>One check of a cluster that is stored.\<close>

lemma check_cluster_spec:
  fixes r threshold env now cid w c
  assumes "get_cluster_row cid (saved (hw_sess w)) = Some c"
  defines "st \<equiv> next_status r (next_failures r (failures w cid)) threshold (cl_status c)"
  defines "d \<equiv> saved (hw_sess w)"
  defines "w' \<equiv> check_cluster env threshold now (\<lambda>_. r) cid w"
  shows "\<exists>c'. get_cluster_row cid (saved (hw_sess w')) = Some c' \<and> cl_status c' = st"
    and "failures w' cid = Some (next_failures r (failures w cid))"
    and "applications (saved (hw_sess w')) =
        (if goes_offline (cl_status c) st then degrade (offline_ids cid d) (applications d)
         else if comes_back (cl_status c) st then restore cid (known_ids (degraded_apps w) cid) (applications d)
         else applications d)"
    and "degraded_apps w' =
        (if goes_offline (cl_status c) st then (degraded_apps w)(cid \<mapsto> offline_ids cid d)
         else if comes_back (cl_status c) st then (degraded_apps w)(cid := None) else degraded_apps w)"
proof -
  have id: "cl_id c = cid" using find_row_Some[OF assms(1)[unfolded get_cluster_row_def]] by simp
  let ?w0 = "w\<lparr>hw_sess := open_session (saved (hw_sess w))\<rparr>"
  have w': "w' = snd (process_cluster env threshold now r c ?w0)"
    using assms(1) by (simp add: w'_def check_cluster_def open_session_def)
  from process_cluster_spec[of env threshold now r c ?w0] show
    "failures w' cid = Some (next_failures r (failures w cid))"
    "applications (saved (hw_sess w')) =
        (if goes_offline (cl_status c) st then degrade (offline_ids cid d) (applications d)
         else if comes_back (cl_status c) st then restore cid (known_ids (degraded_apps w) cid) (applications d)
         else applications d)"
    "degraded_apps w' =
        (if goes_offline (cl_status c) st then (degraded_apps w)(cid \<mapsto> offline_ids cid d)
         else if comes_back (cl_status c) st then (degraded_apps w)(cid := None) else degraded_apps w)"
    by (auto simp: w' id st_def d_def open_session_def)
  have "cluster_connections (saved (hw_sess w')) = clusters_after now cid r st (cluster_connections d)"
    using process_cluster_spec[of env threshold now r c ?w0] by (auto simp: w' id st_def d_def open_session_def)
  with assms(1) row_clusters_after show "\<exists>c'. get_cluster_row cid (saved (hw_sess w')) = Some c' \<and> cl_status c' = st"
    by (simp add: get_cluster_row_def d_def)
qed

definition probe_history ::
  "alert_env \<Rightarrow> nat \<Rightarrow> int \<Rightarrow> (int \<times> bool) list \<Rightarrow> health_world \<Rightarrow> health_world" where
  "probe_history env threshold cid ps w =
     fold (\<lambda>(now, r). check_cluster env threshold now (\<lambda>_. r) cid) ps w"

lemma probe_history_snoc:
  "probe_history env threshold cid (ps @ [(now, r)]) w =
     check_cluster env threshold now (\<lambda>_. r) cid (probe_history env threshold cid ps w)"
  by (simp add: probe_history_def)

text \<open>The specification: only the consecutive failures at the end of the history count.\<close>

definition trailing_failures :: "bool list \<Rightarrow> nat" where
  "trailing_failures rs = length (takeWhile Not (rev rs))"

definition expected_status :: "nat \<Rightarrow> cluster_status \<Rightarrow> bool list \<Rightarrow> cluster_status" where
  "expected_status threshold initial rs =
     (if rs = [] then initial
      else if last rs then ONLINE
      else if threshold \<le> trailing_failures rs then OFFLINE
      else if True \<in> set rs then ONLINE
      else initial)"

lemma trailing_snoc: "trailing_failures (rs @ [r]) = (if r then 0 else trailing_failures rs + 1)"
  by (simp add: trailing_failures_def)

lemma trailing_last: "rs \<noteq> [] \<Longrightarrow> last rs \<Longrightarrow> trailing_failures rs = 0"
  by (cases rs rule: rev_cases) (simp_all add: trailing_failures_def)

lemma expected_snoc:
  "expected_status threshold st (rs @ [r]) = next_status r (trailing_failures (rs @ [r])) threshold (expected_status threshold st rs)"
proof (cases r)
  case False
  show ?thesis
  proof (cases "threshold \<le> trailing_failures (rs @ [r])")
    case True
    with False show ?thesis by (simp add: expected_status_def next_status_def)
  next
    case small: False
    with False have "\<not> threshold \<le> trailing_failures rs" by (simp add: trailing_snoc)
    with small False show ?thesis
      using last_in_set[of rs] by (cases "rs = []"; cases "last rs") (auto simp: expected_status_def next_status_def)
  qed
qed (simp add: expected_status_def next_status_def)

lemma history_status:
  assumes "get_cluster_row cid (saved (hw_sess w)) = Some c" and "failures w cid \<in> {None, Some 0}"
  shows "(\<exists>c'. get_cluster_row cid (saved (hw_sess (probe_history env threshold cid ps w))) = Some c'
             \<and> cl_status c' = expected_status threshold (cl_status c) (map snd ps))
       \<and> (case failures (probe_history env threshold cid ps w) cid of None \<Rightarrow> 0 | Some k \<Rightarrow> k)
           = trailing_failures (map snd ps)"
proof (induction ps rule: rev_induct)
  case Nil
  from assms show ?case by (auto simp: probe_history_def expected_status_def trailing_failures_def)
next
  case (snoc p ps)
  obtain now r where p: "p = (now, r)" by (cases p)
  let ?w = "probe_history env threshold cid ps w"
  from snoc obtain c' where c': "get_cluster_row cid (saved (hw_sess ?w)) = Some c'"
    "cl_status c' = expected_status threshold (cl_status c) (map snd ps)"
    "(case failures ?w cid of None \<Rightarrow> 0 | Some k \<Rightarrow> k) = trailing_failures (map snd ps)" by blast
  have f: "next_failures r (failures ?w cid) = trailing_failures (map snd ps @ [r])"
    using c'(3) by (simp add: next_failures_def trailing_snoc)
  from check_cluster_spec(1,2)[OF c'(1), where r = r and threshold = threshold and env = env and now = now]
  show ?case by (simp add: p probe_history_snoc f c'(2) expected_snoc)
qed

text \<open>
  C20: whatever the history of its probes, a cluster is online after a probe that succeeded, offline
  after as many consecutive failures as the threshold, and during the grace period it keeps the
  status it had before them.
\<close>

theorem grace_period:
  assumes "get_cluster_row cid (saved (hw_sess w)) = Some c" and "failures w cid \<in> {None, Some 0}"
  shows "map_option cl_status (get_cluster_row cid (saved (hw_sess (probe_history env threshold cid ps w))))
       = Some (expected_status threshold (cl_status c) (map snd ps))"
  using history_status[OF assms] by auto

text \<open>Degrading the hosted applications and restoring them gives back the table.\<close>

lemma restore_degrade:
  assumes "unique_on app_id t" and "\<And>i. i \<in> set ids \<longleftrightarrow> (\<exists>a \<in> set (rows t). deployed_on cid a \<and> app_id a = i)"
  shows "restore cid ids (degrade ids t) = t"
proof -
  have "(if restorable cid ids (if app_id a \<in> set ids then a\<lparr>app_last_known_status := DEGRADED\<rparr> else a)
         then (if app_id a \<in> set ids then a\<lparr>app_last_known_status := DEGRADED\<rparr> else a)\<lparr>app_last_known_status := DEPLOYED\<rparr>
         else (if app_id a \<in> set ids then a\<lparr>app_last_known_status := DEGRADED\<rparr> else a)) = a"
    if a: "a \<in> set (rows t)" for a
  proof (cases "app_id a \<in> set ids")
    case True
    with assms(2) obtain b where b: "b \<in> set (rows t)" "deployed_on cid b" "app_id b = app_id a" by blast
    with a assms(1) have "b = a" by (auto simp: unique_on_def distinct_map inj_on_def)
    with b(2) True show ?thesis by (simp add: restorable_def deployed_on_def)
  qed (simp add: restorable_def)
  then have "map (\<lambda>a. if restorable cid ids a then a\<lparr>app_last_known_status := DEPLOYED\<rparr> else a)
      (map (\<lambda>a. if app_id a \<in> set ids then a\<lparr>app_last_known_status := DEGRADED\<rparr> else a) (rows t)) = rows t"
    by (simp add: map_idI)
  then show ?thesis by (simp add: restore_def degrade_def update_rows_def)
qed

lemma offline_ids_iff:
  "i \<in> set (offline_ids cid d) \<longleftrightarrow> (\<exists>a \<in> set (rows (applications d)). deployed_on cid a \<and> app_id a = i)"
  by (auto simp: offline_ids_def table_simps)

text \<open>The invariant of a worker that watches one cluster, from a state where it is online.\<close>

definition outage_inv :: "int \<Rightarrow> application table \<Rightarrow> health_world \<Rightarrow> bool" where
  "outage_inv cid t w \<longleftrightarrow>
     (\<exists>c. get_cluster_row cid (saved (hw_sess w)) = Some c
        \<and> (cl_status c = ONLINE \<and> applications (saved (hw_sess w)) = t
          \<or> cl_status c = OFFLINE \<and> (\<exists>ids. degraded_apps w cid = Some ids
              \<and> applications (saved (hw_sess w)) = degrade ids t
              \<and> (\<forall>i. i \<in> set ids \<longleftrightarrow> (\<exists>a \<in> set (rows t). deployed_on cid a \<and> app_id a = i)))))"

lemma outage_inv_step:
  assumes "outage_inv cid t w" and "unique_on app_id t"
  shows "outage_inv cid t (check_cluster env threshold now (\<lambda>_. r) cid w)"
proof -
  from assms(1) obtain c where c: "get_cluster_row cid (saved (hw_sess w)) = Some c"
    and cs: "cl_status c = ONLINE \<and> applications (saved (hw_sess w)) = t
          \<or> cl_status c = OFFLINE \<and> (\<exists>ids. degraded_apps w cid = Some ids
              \<and> applications (saved (hw_sess w)) = degrade ids t
              \<and> (\<forall>i. i \<in> set ids \<longleftrightarrow> (\<exists>a \<in> set (rows t). deployed_on cid a \<and> app_id a = i)))"
    unfolding outage_inv_def by blast
  let ?w' = "check_cluster env threshold now (\<lambda>_. r) cid w"
  let ?st = "next_status r (next_failures r (failures w cid)) threshold (cl_status c)"
  note step = check_cluster_spec[OF c, where r = r and threshold = threshold and env = env and now = now]
  from step(1) obtain c' where c': "get_cluster_row cid (saved (hw_sess ?w')) = Some c'" "cl_status c' = ?st" by blast
  from cs show ?thesis
  proof
    assume on: "cl_status c = ONLINE \<and> applications (saved (hw_sess w)) = t"
    show ?thesis
    proof (cases "?st = OFFLINE")
      case True
      with on step(3,4) c' offline_ids_iff[of _ cid "saved (hw_sess w)"] show ?thesis
        unfolding outage_inv_def by (intro exI[of _ c']) (simp add: goes_offline_def)
    next
      case False
      with on have "?st = ONLINE" by (cases r) (auto simp: next_status_def split: if_splits)
      with on step(3) c' show ?thesis
        unfolding outage_inv_def by (intro exI[of _ c']) (simp add: goes_offline_def comes_back_def)
    qed
  next
    assume "cl_status c = OFFLINE \<and> (\<exists>ids. degraded_apps w cid = Some ids
              \<and> applications (saved (hw_sess w)) = degrade ids t
              \<and> (\<forall>i. i \<in> set ids \<longleftrightarrow> (\<exists>a \<in> set (rows t). deployed_on cid a \<and> app_id a = i)))"
    then obtain ids where o: "cl_status c = OFFLINE" "degraded_apps w cid = Some ids"
      "applications (saved (hw_sess w)) = degrade ids t"
      "\<And>i. i \<in> set ids \<longleftrightarrow> (\<exists>a \<in> set (rows t). deployed_on cid a \<and> app_id a = i)" by blast
    show ?thesis
    proof (cases r)
      case True
      with o(1) have "?st = ONLINE" by (simp add: next_status_def)
      with o(1-3) step(3) c' restore_degrade[OF assms(2) o(4)] show ?thesis
        unfolding outage_inv_def by (intro exI[of _ c']) (simp add: goes_offline_def comes_back_def known_ids_def)
    next
      case False
      with o(1) have "?st = OFFLINE" by (simp add: next_status_def)
      with o step(3,4) c' show ?thesis
        unfolding outage_inv_def by (intro exI[of _ c']) (simp add: goes_offline_def comes_back_def)
    qed
  qed
qed


text \<open>
  The memory of the worker does not survive its process: a worker that starts during an outage
  restores nothing when the cluster answers again, and what was degraded stays degraded.
\<close>

lemma restart_forgets_outage:
  assumes "get_cluster_row cid (saved (hw_sess w)) = Some c" and "cl_status c = OFFLINE" and "degraded_apps w cid = None"
  shows "applications (saved (hw_sess (check_cluster env threshold now (\<lambda>_. True) cid w)))
       = applications (saved (hw_sess w))"
proof -
  have "restore cid [] t = t" for t
    unfolding restore_def by (rule update_rows_none) (simp add: restorable_def)
  then show ?thesis
    using check_cluster_spec(3)[OF assms(1), where r = True and threshold = threshold and env = env and now = now] assms(2,3)
    by (simp add: next_status_def goes_offline_def known_ids_def)
qed

definition demo_health :: health_world where
  "demo_health = \<lparr>hw_sess = open_session (empty_database\<lparr>
      applications := \<lparr>rows =
        [(blank_application 1 ''shop'' ''shop'' ''team'')\<lparr>app_target_cluster_id := Some 7, app_last_known_status := DEPLOYED\<rparr>,
         (blank_application 2 ''blog'' ''blog'' ''team'')\<lparr>app_target_cluster_id := Some 7, app_last_known_status := DEGRADED\<rparr>],
        seq = 3\<rparr>,
      cluster_connections := \<lparr>rows = [(blank_cluster 7 ''aks'')\<lparr>cl_status := ONLINE\<rparr>], seq = 8\<rparr>\<rparr>),
     failures = Map.empty, degraded_apps = Map.empty\<rparr>"

definition demo_alert :: alert_env where
  "demo_alert = \<lparr>sha256_hex = id, py_repr = (\<lambda>_. ''''), clock = 100\<rparr>"

lemma demo_health_row:
  "get_cluster_row 7 (saved (hw_sess demo_health)) = Some ((blank_cluster 7 ''aks'')\<lparr>cl_status := ONLINE\<rparr>)"
  by code_simp

theorem grace_period_witness:
  "map_option cl_status (get_cluster_row 7 (saved (hw_sess (probe_history demo_alert 3 7
      [(1, True), (2, False), (3, False)] demo_health)))) = Some ONLINE
   \<and> map_option cl_status (get_cluster_row 7 (saved (hw_sess (probe_history demo_alert 3 7
      [(1, False), (2, False), (3, False)] demo_health)))) = Some OFFLINE"
proof -
  have f: "failures demo_health 7 \<in> {None, Some 0}" by (simp add: demo_health_def)
  show ?thesis
    using grace_period[OF demo_health_row f, of demo_alert 3 "[(1, True), (2, False), (3, False)]"]
      grace_period[OF demo_health_row f, of demo_alert 3 "[(1, False), (2, False), (3, False)]"]
    by (simp add: expected_status_def trailing_failures_def)
qed


end
