(* ===== verification/Gitlab_Sync.thy ===== *)
theory Gitlab_Sync
  imports Alerting Tiers
begin

text \<open>
  backend/services/gitlab_sync_service.py: the mirror of GitLab groups, memberships and invitations,
  reconciled with soft revocation, and the Keycloak console accesses to check again afterwards.
  What GitLab answers is a parameter (each request may fail). Rows are the objects of the session:
  a row loaded before a loop is read again by its primary key.
\<close>

section \<open>What GitLab answers\<close>

record gl_group =
  glg_id :: int
  glg_name :: string
  glg_full_path :: string

record gl_member =
  glm_id :: int
  glm_username :: "string option"
  glm_access_level :: int

record gl_invitation =
  gli_email :: string
  gli_access_level :: "int option"

record gitlab_source =
  gs_subgroups :: "string \<Rightarrow> exc + gl_group list"
  gs_group_members :: "int \<Rightarrow> exc + gl_member list"
  gs_project_members :: "int \<Rightarrow> exc + gl_member list"
  gs_invitations :: "int \<Rightarrow> exc + gl_invitation list"
  gs_user_groups :: "int \<Rightarrow> exc + gl_group list"

record sync_stats =
  created :: nat
  updated :: nat
  revoked :: nat

definition no_stats :: sync_stats where
  "no_stats = \<lparr>created = 0, updated = 0, revoked = 0\<rparr>"

definition add_stats :: "sync_stats \<Rightarrow> sync_stats \<Rightarrow> sync_stats" where
  "add_stats a b = \<lparr>created = created a + created b, updated = updated a + updated b, revoked = revoked a + revoked b\<rparr>"

text \<open>The state of one synchronisation: the session's view, its counts, the users to check again.\<close>

record sync_acc =
  sa_db :: database
  sa_stats :: sync_stats
  sa_lost :: "int list"

section \<open>Console tier (backend/services/keycloak_service.py)\<close>

definition has_console_tier :: "cnp_tier \<Rightarrow> bool" where
  "has_console_tier tier \<longleftrightarrow> tier_at_least tier MAINTAINER"

definition level_grants_console :: "int option \<Rightarrow> bool" where
  "level_grants_console access_level \<longleftrightarrow>
     (case access_level of None \<Rightarrow> False | Some l \<Rightarrow> has_console_tier (access_level_to_tier l))"

definition loses_console_tier :: "member_status \<Rightarrow> int \<Rightarrow> int option \<Rightarrow> bool" where
  "loses_console_tier status level new_level \<longleftrightarrow>
     status = ACTIVE \<and> level_grants_console (Some level) \<and> \<not> level_grants_console new_level"

section \<open>Groups\<close>

definition upsert_subgroup :: "alert_env \<Rightarrow> gl_group \<Rightarrow> database \<times> nat \<Rightarrow> database \<times> nat" where
  "upsert_subgroup env sg = (\<lambda>(d, n).
     (case get_group_row (glg_id sg) d of
        Some existing \<Rightarrow>
          (let d1 = (if grp_name existing \<noteq> glg_name sg
                     then emit_db env GROUP_RENAMED ''info'' ''gitlab_sync'' None
                            [(''group_id'', JNum (glg_id sg)), (''old_name'', JStr (grp_name existing)),
                             (''new_name'', JStr (glg_name sg))] None d
                     else d)
           in (d1\<lparr>gitlab_groups := update_rows (\<lambda>g. grp_id g = glg_id sg)
                 (\<lambda>g. g\<lparr>grp_name := glg_name sg, grp_full_path := glg_full_path sg\<rparr>) (gitlab_groups d1)\<rparr>, n))
      | None \<Rightarrow>
          (d\<lparr>gitlab_groups := insert_row (\<lambda>_. \<lparr>grp_id = glg_id sg, grp_name = glg_name sg,
              grp_full_path = glg_full_path sg, grp_synced_at = None\<rparr>) (gitlab_groups d)\<rparr>, n + 1)))"

definition discover_subgroups :: "alert_env \<Rightarrow> gitlab_source \<Rightarrow> string \<Rightarrow> database \<Rightarrow> database \<times> nat" where
  "discover_subgroups env gl parent_path d =
     (if parent_path = [] then (d, 0)
      else (case gs_subgroups gl parent_path of
              Inl _ \<Rightarrow> (d, 0)
            | Inr subgroups \<Rightarrow> fold (upsert_subgroup env) subgroups (d, 0)))"

definition resolve_cnp_user_id :: "int \<Rightarrow> database \<Rightarrow> int option" where
  "resolve_cnp_user_id gid d = map_option usr_id (find_row (\<lambda>u. usr_gitlab_user_id u = Some gid) (users d))"

section \<open>Members of a group\<close>

definition or_id :: "int option \<Rightarrow> int option \<Rightarrow> int option" where
  "or_id a b = (if truthy_id a then a else b)"

definition set_group_member :: "int \<Rightarrow> (gitlab_group_member \<Rightarrow> gitlab_group_member) \<Rightarrow> database \<Rightarrow> database" where
  "set_group_member i f d = d\<lparr>group_members := update_rows (\<lambda>m. gm_id m = i) f (group_members d)\<rparr>"

text \<open>\<open>existing\<close>: the rows of the group by GitLab user, as primary keys.\<close>

definition existing_group_rows :: "int \<Rightarrow> database \<Rightarrow> (int \<times> int) list" where
  "existing_group_rows gid d =
     fold (\<lambda>m kvs. case gm_user_id m of None \<Rightarrow> kvs | Some u \<Rightarrow> dict_set u (gm_id m) kvs)
       (select_rows (\<lambda>m. gm_group_id m = gid) (group_members d)) []"

definition get_group_member :: "int \<Rightarrow> database \<Rightarrow> gitlab_group_member option" where
  "get_group_member i d = find_row (\<lambda>m. gm_id m = i) (group_members d)"

definition lose :: "bool \<Rightarrow> int option \<Rightarrow> int list \<Rightarrow> int list" where
  "lose lost u us = (if lost \<and> truthy_id u then List.insert (the u) us else us)"

definition bump_created :: "sync_acc \<Rightarrow> sync_acc" where
  "bump_created acc = acc\<lparr>sa_stats := (sa_stats acc)\<lparr>created := created (sa_stats acc) + 1\<rparr>\<rparr>"

definition bump_updated :: "sync_acc \<Rightarrow> sync_acc" where
  "bump_updated acc = acc\<lparr>sa_stats := (sa_stats acc)\<lparr>updated := updated (sa_stats acc) + 1\<rparr>\<rparr>"

definition bump_revoked :: "sync_acc \<Rightarrow> sync_acc" where
  "bump_revoked acc = acc\<lparr>sa_stats := (sa_stats acc)\<lparr>revoked := revoked (sa_stats acc) + 1\<rparr>\<rparr>"

text \<open>One round of the loop over the members that GitLab lists.\<close>

definition refresh_group_member :: "int \<Rightarrow> gl_member \<Rightarrow> int option \<Rightarrow> gitlab_group_member \<Rightarrow> gitlab_group_member" where
  "refresh_group_member now m cnp r =
     r\<lparr>gm_access_level := glm_access_level m, gm_username := glm_username m, gm_status := ACTIVE,
       gm_cnp_user_id := (if truthy_id cnp then cnp else gm_cnp_user_id r), gm_updated_at := Some now\<rparr>"

definition new_group_member :: "int \<Rightarrow> int \<Rightarrow> gl_member \<Rightarrow> int option \<Rightarrow> int \<Rightarrow> gitlab_group_member" where
  "new_group_member now gid m cnp i =
     \<lparr>gm_id = i, gm_group_id = gid, gm_user_id = Some (glm_id m), gm_username = glm_username m,
      gm_access_level = glm_access_level m, gm_cnp_user_id = cnp, gm_status = ACTIVE, gm_updated_at = Some now\<rparr>"

definition sync_group_member ::
  "alert_env \<Rightarrow> int \<Rightarrow> gitlab_group \<Rightarrow> (int \<times> int) list \<Rightarrow> gl_member \<Rightarrow> sync_acc \<Rightarrow> sync_acc" where
  "sync_group_member env now grp existing m acc =
     (let d = sa_db acc; cnp = resolve_cnp_user_id (glm_id m) d in
      case map_of existing (glm_id m) of
        Some i \<Rightarrow>
          (case get_group_member i d of
             None \<Rightarrow> acc
           | Some row \<Rightarrow>
               bump_updated (acc\<lparr>
                 sa_lost := lose (loses_console_tier (gm_status row) (gm_access_level row) (Some (glm_access_level m)))
                              (or_id (gm_cnp_user_id row) cnp) (sa_lost acc),
                 sa_db := set_group_member i (refresh_group_member now m cnp) d\<rparr>))
      | None \<Rightarrow>
          (let d1 = d\<lparr>group_members := insert_row (new_group_member now (grp_id grp) m cnp) (group_members d)\<rparr>
           in bump_created (acc\<lparr>sa_db :=
                (if truthy_id cnp
                 then emit_db env GROUP_MEMBER_ADDED ''info'' ''gitlab_sync'' None
                        [(''cnp_user_id'', JNum (the cnp)), (''group_name'', JStr (grp_name grp)),
                         (''group_id'', JNum (grp_id grp)), (''access_level'', JNum (glm_access_level m))] None d1
                 else d1)\<rparr>)))"

text \<open>One round of the soft revocation.\<close>

definition revoke_group_member ::
  "alert_env \<Rightarrow> int \<Rightarrow> gitlab_group \<Rightarrow> int list \<Rightarrow> int \<times> int \<Rightarrow> sync_acc \<Rightarrow> sync_acc" where
  "revoke_group_member env now grp active_gl_ids = (\<lambda>(gl_id, i) acc.
     (let d = sa_db acc in
      case get_group_member i d of
        None \<Rightarrow> acc
      | Some row \<Rightarrow>
          if gl_id \<notin> set active_gl_ids \<and> gm_status row = ACTIVE then
            (let d1 = set_group_member i (\<lambda>r. r\<lparr>gm_status := LEFT, gm_updated_at := Some now\<rparr>) d
             in bump_revoked (acc\<lparr>
                  sa_lost := lose (loses_console_tier (gm_status row) (gm_access_level row) None) (gm_cnp_user_id row) (sa_lost acc),
                  sa_db := (if truthy_id (gm_cnp_user_id row)
                    then emit_db env GROUP_MEMBER_REMOVED ''info'' ''gitlab_sync'' None
                           [(''cnp_user_id'', JNum (the (gm_cnp_user_id row))), (''group_name'', JStr (grp_name grp)),
                            (''group_id'', JNum (grp_id grp))] None d1
                    else d1)\<rparr>))
          else acc))"

definition auth_apps_of_group :: "int \<Rightarrow> database \<Rightarrow> int list" where
  "auth_apps_of_group gid d =
     map app_id (select_rows (\<lambda>a. app_owning_gitlab_group_id a = Some gid \<and> app_auth_enabled a) (applications d))"

definition sync_group ::
  "alert_env \<Rightarrow> gitlab_source \<Rightarrow> int \<Rightarrow> gitlab_group \<Rightarrow> database \<times> (int \<times> int) list
     \<Rightarrow> sync_stats \<times> database \<times> (int \<times> int) list" where
  "sync_group env gl now grp = (\<lambda>(d, lost).
     (case gs_group_members gl (grp_id grp) of
        Inl _ \<Rightarrow> (no_stats, d, lost)
      | Inr gl_members \<Rightarrow>
          (let existing = existing_group_rows (grp_id grp) d;
               acc = fold (sync_group_member env now grp existing) gl_members
                       \<lparr>sa_db = d, sa_stats = no_stats, sa_lost = []\<rparr>;
               acc = fold (revoke_group_member env now grp (map glm_id gl_members)) existing acc;
               apps = auth_apps_of_group (grp_id grp) (sa_db acc);
               lost = (if sa_lost acc = [] then lost else List.union lost (List.product apps (sa_lost acc)));
               d = (sa_db acc)\<lparr>gitlab_groups := update_rows (\<lambda>g. grp_id g = grp_id grp)
                     (\<lambda>g. g\<lparr>grp_synced_at := Some now\<rparr>) (gitlab_groups (sa_db acc))\<rparr>
           in (sa_stats acc, d, lost))))"

section \<open>Members and invitations of a project\<close>

definition set_app_member :: "int \<Rightarrow> (app_member \<Rightarrow> app_member) \<Rightarrow> database \<Rightarrow> database" where
  "set_app_member i f d = d\<lparr>app_members := update_rows (\<lambda>m. am_id m = i) f (app_members d)\<rparr>"

definition get_app_member :: "int \<Rightarrow> database \<Rightarrow> app_member option" where
  "get_app_member i d = find_row (\<lambda>m. am_id m = i) (app_members d)"

definition existing_by_gl_id :: "int \<Rightarrow> database \<Rightarrow> (int \<times> int) list" where
  "existing_by_gl_id pid d =
     fold (\<lambda>m kvs. case am_user_id m of None \<Rightarrow> kvs | Some u \<Rightarrow> dict_set u (am_id m) kvs)
       (select_rows (\<lambda>m. am_project_id m = pid) (app_members d)) []"

definition existing_by_email :: "int \<Rightarrow> database \<Rightarrow> (string \<times> int) list" where
  "existing_by_email pid d =
     fold (\<lambda>m kvs. case am_email m of None \<Rightarrow> kvs | Some e \<Rightarrow> dict_set e (am_id m) kvs)
       (select_rows (\<lambda>m. am_project_id m = pid) (app_members d)) []"

definition sync_project_member ::
  "int \<Rightarrow> int \<Rightarrow> (int \<times> int) list \<Rightarrow> gl_member \<Rightarrow> sync_acc \<Rightarrow> sync_acc" where
  "sync_project_member now pid existing m acc =
     (let d = sa_db acc; cnp = resolve_cnp_user_id (glm_id m) d in
      case map_of existing (glm_id m) of
        Some i \<Rightarrow>
          (case get_app_member i d of
             None \<Rightarrow> acc
           | Some row \<Rightarrow>
               bump_updated (acc\<lparr>
                 sa_lost := lose (loses_console_tier (am_status row) (am_access_level row) (Some (glm_access_level m)))
                              (or_id (am_cnp_user_id row) cnp) (sa_lost acc),
                 sa_db := set_app_member i (\<lambda>r. r\<lparr>am_access_level := glm_access_level m, am_status := ACTIVE,
                   am_cnp_user_id := (if truthy_id cnp then cnp else am_cnp_user_id r), am_updated_at := Some now\<rparr>) d\<rparr>))
      | None \<Rightarrow>
          bump_created (acc\<lparr>sa_db := d\<lparr>app_members := insert_row
            (\<lambda>i. \<lparr>am_id = i, am_project_id = pid, am_user_id = Some (glm_id m), am_email = None,
                  am_access_level = glm_access_level m, am_cnp_user_id = cnp, am_status = ACTIVE,
                  am_updated_at = Some now\<rparr>) (app_members d)\<rparr>\<rparr>))"

definition sync_invitation ::
  "int \<Rightarrow> int \<Rightarrow> (string \<times> int) list \<Rightarrow> gl_invitation \<Rightarrow> sync_acc \<Rightarrow> sync_acc" where
  "sync_invitation now pid existing invt acc =
     (let d = sa_db acc;
          access_level = (case gli_access_level invt of None \<Rightarrow> 10 | Some l \<Rightarrow> l) in
      case map_of existing (gli_email invt) of
        Some i \<Rightarrow>
          bump_updated (acc\<lparr>sa_db := set_app_member i (\<lambda>r. r\<lparr>am_access_level := access_level,
            am_status := PENDING_INVITE, am_updated_at := Some now\<rparr>) d\<rparr>)
      | None \<Rightarrow>
          bump_created (acc\<lparr>sa_db := d\<lparr>app_members := insert_row
            (\<lambda>i. \<lparr>am_id = i, am_project_id = pid, am_user_id = None, am_email = Some (gli_email invt),
                  am_access_level = access_level, am_cnp_user_id = None, am_status = PENDING_INVITE,
                  am_updated_at = Some now\<rparr>) (app_members d)\<rparr>\<rparr>))"

definition revoke_project_member :: "int \<Rightarrow> int list \<Rightarrow> int \<times> int \<Rightarrow> sync_acc \<Rightarrow> sync_acc" where
  "revoke_project_member now active_gl_ids = (\<lambda>(gl_id, i) acc.
     (let d = sa_db acc in
      case get_app_member i d of
        None \<Rightarrow> acc
      | Some row \<Rightarrow>
          if gl_id \<notin> set active_gl_ids \<and> am_status row = ACTIVE then
            bump_revoked (acc\<lparr>
              sa_lost := lose (loses_console_tier (am_status row) (am_access_level row) None) (am_cnp_user_id row) (sa_lost acc),
              sa_db := set_app_member i (\<lambda>r. r\<lparr>am_status := LEFT, am_updated_at := Some now\<rparr>) d\<rparr>)
          else acc))"

definition revoke_invitation :: "int \<Rightarrow> string list \<Rightarrow> string \<times> int \<Rightarrow> sync_acc \<Rightarrow> sync_acc" where
  "revoke_invitation now active_emails = (\<lambda>(email, i) acc.
     (let d = sa_db acc in
      case get_app_member i d of
        None \<Rightarrow> acc
      | Some row \<Rightarrow>
          if email \<notin> set active_emails \<and> am_status row = PENDING_INVITE then
            bump_revoked (acc\<lparr>sa_db := set_app_member i (\<lambda>r. r\<lparr>am_status := LEFT, am_updated_at := Some now\<rparr>) d\<rparr>)
          else acc))"

definition sync_project ::
  "gitlab_source \<Rightarrow> int \<Rightarrow> application \<Rightarrow> database \<times> (int \<times> int) list
     \<Rightarrow> sync_stats \<times> database \<times> (int \<times> int) list" where
  "sync_project gl now app = (\<lambda>(d, lost).
     (let project_id = the (app_gitlab_project_id app) in
      case gs_project_members gl project_id of
        Inl _ \<Rightarrow> (no_stats, d, lost)
      | Inr gl_members \<Rightarrow>
          (let invitations = (case gs_invitations gl project_id of Inl _ \<Rightarrow> [] | Inr is \<Rightarrow> is);
               by_gl_id = existing_by_gl_id project_id d;
               by_email = existing_by_email project_id d;
               acc = fold (sync_project_member now project_id by_gl_id) gl_members
                       \<lparr>sa_db = d, sa_stats = no_stats, sa_lost = []\<rparr>;
               acc = fold (sync_invitation now project_id by_email) invitations acc;
               acc = fold (revoke_project_member now (map glm_id gl_members)) by_gl_id acc;
               acc = fold (revoke_invitation now (map gli_email invitations)) by_email acc;
               lost = (if app_auth_enabled app then List.union lost (List.product [app_id app] (sa_lost acc)) else lost)
           in (sa_stats acc, sa_db acc, lost))))"

section \<open>A cycle\<close>

record sync_totals =
  tot_groups :: sync_stats
  tot_projects :: sync_stats

definition run_groups ::
  "alert_env \<Rightarrow> gitlab_source \<Rightarrow> int \<Rightarrow> gitlab_group list \<Rightarrow> database \<times> (int \<times> int) list \<times> sync_stats
     \<Rightarrow> database \<times> (int \<times> int) list \<times> sync_stats" where
  "run_groups env gl now =
     fold (\<lambda>g (d, lost, tot). case sync_group env gl now g (d, lost) of (s, d, lost) \<Rightarrow> (d, lost, add_stats tot s))"

definition run_projects ::
  "gitlab_source \<Rightarrow> int \<Rightarrow> application list \<Rightarrow> database \<times> (int \<times> int) list \<times> sync_stats
     \<Rightarrow> database \<times> (int \<times> int) list \<times> sync_stats" where
  "run_projects gl now =
     fold (\<lambda>a (d, lost, tot). case sync_project gl now a (d, lost) of (s, d, lost) \<Rightarrow> (d, lost, add_stats tot s))"

text \<open>
  \<open>run_gitlab_sync\<close>: \<open>None\<close> is the skipped cycle (no token); else the totals and the pairs to revoke,
  once the session is committed. \<open>revoke\<close> is the Keycloak revocation, called after the commit.
\<close>

definition run_gitlab_sync ::
  "alert_env \<Rightarrow> gitlab_source option \<Rightarrow> string \<Rightarrow> int \<Rightarrow> ((int \<times> int) list \<Rightarrow> (session, unit) prog)
     \<Rightarrow> (session, sync_totals option) prog" where
  "run_gitlab_sync env client teams_group now revoke =
     (case client of
        None \<Rightarrow> ret None
      | Some gl \<Rightarrow>
          bnd (gets (\<lambda>s. fst (discover_subgroups env gl teams_group (db s)))) (\<lambda>d.
          (case run_groups env gl now (rows (gitlab_groups d)) (d, [], no_stats) of (d, lost, groups) \<Rightarrow>
           (case run_projects gl now (select_rows (\<lambda>a. app_gitlab_project_id a \<noteq> None) (applications d))
                   (d, lost, no_stats) of (d, lost, projects) \<Rightarrow>
              bnd (modify (\<lambda>s. commit (s\<lparr>db := d\<rparr>))) (\<lambda>_.
              bnd (if lost = [] then ret () else revoke lost) (\<lambda>_.
                ret (Some \<lparr>tot_groups = groups, tot_projects = projects\<rparr>)))))))"

text \<open>\<open>run_gitlab_sync_for_user\<close>: the groups GitLab lists for the user, and the applications they own
  or where the user is a member already.\<close>

definition upsert_user_group :: "gl_group \<Rightarrow> database \<Rightarrow> database" where
  "upsert_user_group g d =
     (case get_group_row (glg_id g) d of
        Some _ \<Rightarrow> d\<lparr>gitlab_groups := update_rows (\<lambda>r. grp_id r = glg_id g)
          (\<lambda>r. r\<lparr>grp_name := glg_name g, grp_full_path := glg_full_path g\<rparr>) (gitlab_groups d)\<rparr>
      | None \<Rightarrow> d\<lparr>gitlab_groups := insert_row (\<lambda>_. \<lparr>grp_id = glg_id g, grp_name = glg_name g,
          grp_full_path = glg_full_path g, grp_synced_at = None\<rparr>) (gitlab_groups d)\<rparr>)"

definition apps_of_user :: "int \<Rightarrow> int list \<Rightarrow> database \<Rightarrow> application list" where
  "apps_of_user user_id group_ids d =
     (let owned = select_rows (\<lambda>a. app_gitlab_project_id a \<noteq> None
                     \<and> (\<exists>g \<in> set group_ids. app_owning_gitlab_group_id a = Some g)) (applications d);
          direct = select_rows (\<lambda>a. app_gitlab_project_id a \<noteq> None
                     \<and> list_ex (\<lambda>m. Some (am_project_id m) = app_gitlab_project_id a \<and> am_cnp_user_id m = Some user_id)
                         (rows (app_members d))) (applications d)
      in owned @ filter (\<lambda>a. app_id a \<notin> app_id ` set owned) direct)"

definition run_gitlab_sync_for_user ::
  "alert_env \<Rightarrow> gitlab_source option \<Rightarrow> int \<Rightarrow> ((int \<times> int) list \<Rightarrow> (session, unit) prog) \<Rightarrow> int
     \<Rightarrow> (session, sync_totals option) prog" where
  "run_gitlab_sync_for_user env client now revoke user_id =
     (case client of
        None \<Rightarrow> ret None
      | Some gl \<Rightarrow>
          bnd (gets (\<lambda>s. get_user_row user_id (db s))) (\<lambda>u.
            case u of
              None \<Rightarrow> ret None
            | Some user \<Rightarrow>
                if \<not> truthy_id (usr_gitlab_user_id user) then ret None
                else
                  (let gl_groups = (case gs_user_groups gl (the (usr_gitlab_user_id user)) of
                                      Inl _ \<Rightarrow> [] | Inr gs \<Rightarrow> gs);
                       group_ids = map glg_id gl_groups in
                   bnd (gets (\<lambda>s. fold upsert_user_group gl_groups (db s))) (\<lambda>d.
                   (case run_groups env gl now (select_rows (\<lambda>g. grp_id g \<in> set group_ids) (gitlab_groups d))
                           (d, [], no_stats) of (d, lost, groups) \<Rightarrow>
                    (case run_projects gl now (apps_of_user user_id group_ids d) (d, lost, no_stats) of (d, lost, projects) \<Rightarrow>
                       bnd (modify (\<lambda>s. commit (s\<lparr>db := d\<rparr>))) (\<lambda>_.
                       bnd (if lost = [] then ret () else revoke lost) (\<lambda>_.
                         ret (Some \<lparr>tot_groups = groups, tot_projects = projects\<rparr>)))))))))"

section \<open>The mirror of a group\<close>

text \<open>The row of a GitLab user in a group, and the constraints of the table.\<close>

definition membership :: "int \<Rightarrow> int \<Rightarrow> database \<Rightarrow> gitlab_group_member option" where
  "membership gid u d = find_row (\<lambda>m. gm_group_id m = gid \<and> gm_user_id m = Some u) (group_members d)"

definition members_ok :: "database \<Rightarrow> bool" where
  "members_ok d \<longleftrightarrow> unique_on gm_id (group_members d)
     \<and> list_all (\<lambda>m. gm_id m < seq (group_members d)) (rows (group_members d))"

definition one_row_per_user :: "int \<Rightarrow> database \<Rightarrow> bool" where
  "one_row_per_user gid d \<longleftrightarrow>
     distinct (map gm_user_id (filter (\<lambda>m. gm_group_id m = gid \<and> gm_user_id m \<noteq> None) (rows (group_members d))))"

lemma membership_props:
  assumes "membership gid u d = Some r"
  shows "gm_group_id r = gid \<and> gm_user_id r = Some u \<and> r \<in> set (rows (group_members d))"
  using find_row_Some[OF assms[unfolded membership_def]] by simp

lemma same_id_same_row:
  assumes "members_ok d" and "r \<in> set (rows (group_members d))" and "r' \<in> set (rows (group_members d))" and "gm_id r = gm_id r'"
  shows "r = r'"
  using assms by (auto simp: members_ok_def unique_on_def distinct_map inj_on_def)

lemma get_group_member_row:
  assumes "members_ok d" and "membership gid u d = Some r"
  shows "get_group_member (gm_id r) d = Some r"
  using assms membership_props[OF assms(2)]
  by (simp add: get_group_member_def find_row_unique[of gm_id] members_ok_def)

text \<open>Writing to the row of one user.\<close>

lemma membership_update:
  assumes ok: "members_ok d" and r: "membership gid u d = Some r"
    and keep: "\<And>x. gm_group_id (f x) = gm_group_id x \<and> gm_user_id (f x) = gm_user_id x"
  shows "membership g v (set_group_member (gm_id r) f d) = (if g = gid \<and> v = u then Some (f r) else membership g v d)"
proof -
  have "membership g v (set_group_member (gm_id r) f d)
      = map_option (\<lambda>x. if gm_id x = gm_id r then f x else x) (membership g v d)"
    unfolding membership_def set_group_member_def by (simp add: find_update_stable keep)
  also have "\<dots> = (if g = gid \<and> v = u then Some (f r) else membership g v d)"
  proof (cases "g = gid \<and> v = u")
    case True
    with r show ?thesis by simp
  next
    case False
    have "gm_id x \<noteq> gm_id r" if x: "membership g v d = Some x" for x
      using same_id_same_row[OF ok, of x r] membership_props[OF x] membership_props[OF r] False by auto
    with False show ?thesis by (cases "membership g v d") auto
  qed
  finally show ?thesis .
qed

lemma members_ok_update:
  assumes "members_ok d" and "\<And>x. gm_id (f x) = gm_id x"
  shows "members_ok (set_group_member i f d)"
  using assms update_rows_unique[of gm_id "group_members d" f "\<lambda>m. gm_id m = i"]
  by (auto simp: members_ok_def set_group_member_def list_all_iff table_simps update_rows_def)

lemma membership_insert:
  assumes "membership gid u d = None"
    and "\<And>i. gm_group_id (mk i) = gid \<and> gm_user_id (mk i) = Some u"
  shows "membership g v (d\<lparr>group_members := insert_row mk (group_members d)\<rparr>)
       = (if g = gid \<and> v = u then Some (mk (seq (group_members d))) else membership g v d)"
  using assms by (auto simp: membership_def find_insert_row split: option.split)

lemma members_ok_insert:
  assumes "members_ok d" and "\<And>i. gm_id (mk i) = i"
  shows "members_ok (d\<lparr>group_members := insert_row mk (group_members d)\<rparr>)"
  using assms by (fastforce simp: members_ok_def unique_on_def insert_row_def list_all_iff)

lemma members_ok_frame: "group_members d' = group_members d \<Longrightarrow> members_ok d' = members_ok d"
  by (simp add: members_ok_def)

lemma membership_frame: "group_members d' = group_members d \<Longrightarrow> membership g u d' = membership g u d"
  by (simp add: membership_def)

text \<open>The dictionary of existing rows is the lookup.\<close>

lemma fold_existing:
  assumes "distinct (map gm_user_id (filter (\<lambda>m. gm_user_id m \<noteq> None) ms))"
  shows "map_of (fold (\<lambda>m kvs. case gm_user_id m of None \<Rightarrow> kvs | Some u \<Rightarrow> dict_set u (gm_id m) kvs) ms kvs) u
       = (case List.find (\<lambda>m. gm_user_id m = Some u) ms of Some m \<Rightarrow> Some (gm_id m) | None \<Rightarrow> map_of kvs u)"
  using assms
proof (induction ms arbitrary: kvs)
  case (Cons m ms)
  show ?case
  proof (cases "gm_user_id m = Some u")
    case True
    with Cons.prems have "List.find (\<lambda>m. gm_user_id m = Some u) ms = None"
      by (auto simp: find_None_iff image_iff)
    with True Cons show ?thesis by (simp add: True)
  next
    case False
    with Cons show ?thesis by (cases "gm_user_id m") (simp_all split: option.split)
  qed
qed simp

lemma find_filter: "List.find P (filter Q xs) = List.find (\<lambda>x. Q x \<and> P x) xs"
  by (induction xs) auto

lemma existing_group_rows_map:
  assumes "one_row_per_user gid d"
  shows "map_of (existing_group_rows gid d) u = map_option gm_id (membership gid u d)"
proof -
  have "filter (\<lambda>m. gm_user_id m \<noteq> None) (select_rows (\<lambda>m. gm_group_id m = gid) (group_members d))
      = filter (\<lambda>m. gm_group_id m = gid \<and> gm_user_id m \<noteq> None) (rows (group_members d))"
    by (simp add: select_rows_def)
  with assms have "distinct (map gm_user_id (filter (\<lambda>m. gm_user_id m \<noteq> None)
      (select_rows (\<lambda>m. gm_group_id m = gid) (group_members d))))"
    by (simp add: one_row_per_user_def)
  from fold_existing[OF this, of "[]" u] show ?thesis
    by (simp add: existing_group_rows_def membership_def find_row_def select_rows_def find_filter split: option.split)
qed

definition mirrored :: "int \<Rightarrow> int \<Rightarrow> gl_member \<Rightarrow> int option \<Rightarrow> gitlab_group_member option \<Rightarrow> gitlab_group_member \<Rightarrow> bool" where
  "mirrored now gid m cnp old new_row \<longleftrightarrow>
     (case old of
        Some r \<Rightarrow> new_row = refresh_group_member now m cnp r
      | None \<Rightarrow> (\<exists>i. new_row = new_group_member now gid m cnp i))"

lemma sync_group_member_step:
  fixes acc env now grp existing m
  defines "gid \<equiv> grp_id grp" and "d \<equiv> sa_db acc" and "acc' \<equiv> sync_group_member env now grp existing m acc"
  assumes ok: "members_ok d" and ex: "map_of existing (glm_id m) = map_option gm_id (membership gid (glm_id m) d)"
  shows "members_ok (sa_db acc') \<and> users (sa_db acc') = users d \<and> applications (sa_db acc') = applications d"
    and "(g, v) \<noteq> (gid, glm_id m) \<Longrightarrow> membership g v (sa_db acc') = membership g v d"
    and "\<exists>r'. membership gid (glm_id m) (sa_db acc') = Some r'
           \<and> mirrored now gid m (resolve_cnp_user_id (glm_id m) d) (membership gid (glm_id m) d) r'"
    and "sa_lost acc' = (case membership gid (glm_id m) d of
           Some r \<Rightarrow> lose (loses_console_tier (gm_status r) (gm_access_level r) (Some (glm_access_level m)))
                      (or_id (gm_cnp_user_id r) (resolve_cnp_user_id (glm_id m) d)) (sa_lost acc)
         | None \<Rightarrow> sa_lost acc)"
proof -
  let ?cnp = "resolve_cnp_user_id (glm_id m) d"
  have "(members_ok (sa_db acc') \<and> users (sa_db acc') = users d \<and> applications (sa_db acc') = applications d)
    \<and> ((g, v) \<noteq> (gid, glm_id m) \<longrightarrow> membership g v (sa_db acc') = membership g v d)
    \<and> (\<exists>r'. membership gid (glm_id m) (sa_db acc') = Some r' \<and> mirrored now gid m ?cnp (membership gid (glm_id m) d) r')
    \<and> sa_lost acc' = (case membership gid (glm_id m) d of
           Some r \<Rightarrow> lose (loses_console_tier (gm_status r) (gm_access_level r) (Some (glm_access_level m)))
                      (or_id (gm_cnp_user_id r) ?cnp) (sa_lost acc)
         | None \<Rightarrow> sa_lost acc)"
  proof (cases "membership gid (glm_id m) d")
    case (Some r)
    let ?f = "refresh_group_member now m ?cnp"
    have row: "get_group_member (gm_id r) d = Some r" by (rule get_group_member_row[OF ok Some])
    have db': "sa_db acc' = set_group_member (gm_id r) ?f d"
      using Some ex row by (simp add: acc'_def sync_group_member_def Let_def d_def[symmetric] bump_updated_def)
    have "\<And>x. gm_group_id (?f x) = gm_group_id x \<and> gm_user_id (?f x) = gm_user_id x" "\<And>x. gm_id (?f x) = gm_id x"
      by (simp_all add: refresh_group_member_def)
    note mu = membership_update[OF ok Some this(1)] members_ok_update[OF ok this(2)]
    show ?thesis
      using Some ex row mu
      by (simp add: db' mirrored_def) (simp add: acc'_def sync_group_member_def Let_def d_def[symmetric] bump_updated_def
          set_group_member_def)
  next
    case None
    let ?mk = "new_group_member now gid m ?cnp"
    let ?d1 = "d\<lparr>group_members := insert_row ?mk (group_members d)\<rparr>"
    have gm: "group_members (sa_db acc') = group_members ?d1" "users (sa_db acc') = users d"
      "applications (sa_db acc') = applications d" "sa_lost acc' = sa_lost acc"
      using None ex by (simp_all add: acc'_def sync_group_member_def Let_def d_def[symmetric] bump_created_def gid_def[symmetric])
    have "members_ok ?d1" by (rule members_ok_insert[OF ok]) (simp add: new_group_member_def)
    moreover have "membership g v ?d1 = (if g = gid \<and> v = glm_id m then Some (?mk (seq (group_members d))) else membership g v d)" for g v
      by (rule membership_insert[OF None]) (simp add: new_group_member_def)
    ultimately show ?thesis
      using gm None by (auto simp: members_ok_frame[OF gm(1)] membership_frame[OF gm(1)] mirrored_def)
  qed
  then show "members_ok (sa_db acc') \<and> users (sa_db acc') = users d \<and> applications (sa_db acc') = applications d"
    and "(g, v) \<noteq> (gid, glm_id m) \<Longrightarrow> membership g v (sa_db acc') = membership g v d"
    and "\<exists>r'. membership gid (glm_id m) (sa_db acc') = Some r' \<and> mirrored now gid m ?cnp (membership gid (glm_id m) d) r'"
    and "sa_lost acc' = (case membership gid (glm_id m) d of
           Some r \<Rightarrow> lose (loses_console_tier (gm_status r) (gm_access_level r) (Some (glm_access_level m)))
                      (or_id (gm_cnp_user_id r) ?cnp) (sa_lost acc)
         | None \<Rightarrow> sa_lost acc)"
    by blast+
qed

lemma lose_mono: "set us \<subseteq> set (lose b u us)"
  by (auto simp: lose_def)

lemma lose_hit: "b \<Longrightarrow> truthy_id u \<Longrightarrow> the u \<in> set (lose b u us)"
  by (simp add: lose_def)

text \<open>The first loop, over the members that GitLab lists.\<close>

definition listed_synced :: "int \<Rightarrow> int \<Rightarrow> gl_member list \<Rightarrow> sync_acc \<Rightarrow> sync_acc \<Rightarrow> bool" where
  "listed_synced now gid ms acc acc' \<longleftrightarrow>
     members_ok (sa_db acc') \<and> users (sa_db acc') = users (sa_db acc) \<and> applications (sa_db acc') = applications (sa_db acc)
   \<and> (\<forall>g v. (g = gid \<longrightarrow> v \<notin> glm_id ` set ms) \<longrightarrow> membership g v (sa_db acc') = membership g v (sa_db acc))
   \<and> (\<forall>m \<in> set ms. \<exists>r'. membership gid (glm_id m) (sa_db acc') = Some r'
         \<and> mirrored now gid m (resolve_cnp_user_id (glm_id m) (sa_db acc)) (membership gid (glm_id m) (sa_db acc)) r')
   \<and> set (sa_lost acc) \<subseteq> set (sa_lost acc')
   \<and> (\<forall>m \<in> set ms. \<forall>r. membership gid (glm_id m) (sa_db acc) = Some r
         \<and> loses_console_tier (gm_status r) (gm_access_level r) (Some (glm_access_level m)) \<and> truthy_id (gm_cnp_user_id r)
         \<longrightarrow> the (gm_cnp_user_id r) \<in> set (sa_lost acc'))"

lemma sync_members_loop:
  fixes env now grp existing
  defines "gid \<equiv> grp_id grp"
  assumes "members_ok (sa_db acc)" and "distinct (map glm_id ms)"
    and "\<forall>m \<in> set ms. map_of existing (glm_id m) = map_option gm_id (membership gid (glm_id m) (sa_db acc))"
  shows "listed_synced now gid ms acc (fold (sync_group_member env now grp existing) ms acc)"
  using assms(2-)
proof (induction ms arbitrary: acc)
  case Nil
  then show ?case by (simp add: listed_synced_def)
next
  case (Cons m ms)
  let ?acc1 = "sync_group_member env now grp existing m acc"
  have ex: "map_of existing (glm_id m) = map_option gm_id (membership (grp_id grp) (glm_id m) (sa_db acc))"
    using Cons.prems(3) by (simp add: gid_def)
  note step = sync_group_member_step[where env = env and now = now, OF Cons.prems(1) ex, folded gid_def]
  have fresh: "glm_id m \<notin> glm_id ` set ms" using Cons.prems(2) by simp
  have same: "membership gid (glm_id x) (sa_db ?acc1) = membership gid (glm_id x) (sa_db acc)" if "x \<in> set ms" for x
    by (rule step(2)) (use fresh that in \<open>metis image_eqI prod.inject\<close>)
  have cnp: "resolve_cnp_user_id u (sa_db ?acc1) = resolve_cnp_user_id u (sa_db acc)" for u
    using step(1) by (simp add: resolve_cnp_user_id_def)
  have "listed_synced now gid ms ?acc1 (fold (sync_group_member env now grp existing) ms ?acc1)"
  proof (rule Cons.IH)
    show "members_ok (sa_db ?acc1)" using step(1) by simp
    show "distinct (map glm_id ms)" using Cons.prems(2) by simp
    show "\<forall>x \<in> set ms. map_of existing (glm_id x) = map_option gm_id (membership gid (glm_id x) (sa_db ?acc1))"
      using Cons.prems(3) same by simp
  qed
  note IH = this[unfolded listed_synced_def]
  let ?acc' = "fold (sync_group_member env now grp existing) ms ?acc1"
  have keep_m: "membership gid (glm_id m) (sa_db ?acc') = membership gid (glm_id m) (sa_db ?acc1)"
    using IH fresh by (simp add: Let_def)
  have lost: "set (sa_lost acc) \<subseteq> set (sa_lost ?acc1)"
    using lose_mono by (simp add: step(4) split: option.split)
  have hit: "the (gm_cnp_user_id r) \<in> set (sa_lost ?acc1)"
    if "membership gid (glm_id m) (sa_db acc) = Some r"
      "loses_console_tier (gm_status r) (gm_access_level r) (Some (glm_access_level m))" "truthy_id (gm_cnp_user_id r)" for r
    using that lose_hit[OF that(2,3)] by (simp add: step(4) or_id_def)
  show ?case
    unfolding fold_Cons o_apply listed_synced_def
  proof (intro conjI)
    show "members_ok (sa_db ?acc')" "users (sa_db ?acc') = users (sa_db acc)" "applications (sa_db ?acc') = applications (sa_db acc)"
      using IH step(1) by (simp_all add: Let_def)
    show "\<forall>g v. (g = gid \<longrightarrow> v \<notin> glm_id ` set (m # ms)) \<longrightarrow> membership g v (sa_db ?acc') = membership g v (sa_db acc)"
    proof (intro allI impI)
      fix g v assume a: "g = gid \<longrightarrow> v \<notin> glm_id ` set (m # ms)"
      then have "membership g v (sa_db ?acc1) = membership g v (sa_db acc)" by (intro step(2)) auto
      with IH a show "membership g v (sa_db ?acc') = membership g v (sa_db acc)" by (simp add: Let_def)
    qed
    show "\<forall>x \<in> set (m # ms). \<exists>r'. membership gid (glm_id x) (sa_db ?acc') = Some r'
          \<and> mirrored now gid x (resolve_cnp_user_id (glm_id x) (sa_db acc)) (membership gid (glm_id x) (sa_db acc)) r'"
      using IH step(3) same by (simp add: Let_def keep_m cnp)
    have "set (sa_lost ?acc1) \<subseteq> set (sa_lost ?acc')" using IH by (simp add: Let_def)
    with lost show "set (sa_lost acc) \<subseteq> set (sa_lost ?acc')" by (rule subset_trans)
    show "\<forall>x \<in> set (m # ms). \<forall>r. membership gid (glm_id x) (sa_db acc) = Some r
          \<and> loses_console_tier (gm_status r) (gm_access_level r) (Some (glm_access_level x)) \<and> truthy_id (gm_cnp_user_id r)
          \<longrightarrow> the (gm_cnp_user_id r) \<in> set (sa_lost ?acc')"
      using IH hit same by (auto simp: Let_def)
  qed
qed

definition left_at :: "int \<Rightarrow> gitlab_group_member \<Rightarrow> gitlab_group_member" where
  "left_at now r = r\<lparr>gm_status := LEFT, gm_updated_at := Some now\<rparr>"

definition departed :: "int \<Rightarrow> gitlab_group_member \<Rightarrow> gitlab_group_member" where
  "departed now r = (if gm_status r = ACTIVE then left_at now r else r)"

lemma revoke_group_member_step:
  fixes acc env now grp active u i
  defines "gid \<equiv> grp_id grp" and "d \<equiv> sa_db acc" and "acc' \<equiv> revoke_group_member env now grp active (u, i) acc"
  assumes ok: "members_ok d" and r: "membership gid u d = Some r" and i: "i = gm_id r"
  shows "members_ok (sa_db acc') \<and> applications (sa_db acc') = applications d
    \<and> membership g v (sa_db acc') = (if (g, v) = (gid, u) \<and> u \<notin> set active then Some (departed now r) else membership g v d)
    \<and> sa_lost acc' = (if u \<notin> set active \<and> gm_status r = ACTIVE
         then lose (loses_console_tier (gm_status r) (gm_access_level r) None) (gm_cnp_user_id r) (sa_lost acc)
         else sa_lost acc)"
proof -
  have row: "get_group_member i d = Some r" unfolding i by (rule get_group_member_row[OF ok r])
  show ?thesis
  proof (cases "u \<notin> set active \<and> gm_status r = ACTIVE")
    case True
    let ?d1 = "set_group_member (gm_id r) (left_at now) d"
    have gm: "group_members (sa_db acc') = group_members ?d1" "applications (sa_db acc') = applications d"
      "sa_lost acc' = lose (loses_console_tier (gm_status r) (gm_access_level r) None) (gm_cnp_user_id r) (sa_lost acc)"
      using True row by (simp_all add: acc'_def revoke_group_member_def Let_def d_def[symmetric] bump_revoked_def i
          left_at_def[abs_def] set_group_member_def)
    have "\<And>x. gm_group_id (left_at now x) = gm_group_id x \<and> gm_user_id (left_at now x) = gm_user_id x"
      "\<And>x. gm_id (left_at now x) = gm_id x" by (simp_all add: left_at_def)
    note mu = membership_update[OF ok r this(1)] members_ok_update[OF ok this(2)]
    from True gm mu show ?thesis
      by (simp add: members_ok_frame[OF gm(1)] membership_frame[OF gm(1)] departed_def)
  next
    case False
    with row have "acc' = acc" by (auto simp: acc'_def revoke_group_member_def Let_def d_def[symmetric])
    with ok r False show ?thesis by (auto simp: d_def[symmetric] departed_def)
  qed
qed

text \<open>The second loop, over the rows that existed.\<close>

definition absent_revoked :: "int \<Rightarrow> int \<Rightarrow> int list \<Rightarrow> (int \<times> int) list \<Rightarrow> sync_acc \<Rightarrow> sync_acc \<Rightarrow> bool" where
  "absent_revoked now gid active kvs acc acc' \<longleftrightarrow>
     members_ok (sa_db acc') \<and> applications (sa_db acc') = applications (sa_db acc)
   \<and> (\<forall>g v. membership g v (sa_db acc') =
         (if g = gid \<and> v \<in> fst ` set kvs \<and> v \<notin> set active then map_option (departed now) (membership g v (sa_db acc))
          else membership g v (sa_db acc)))
   \<and> set (sa_lost acc) \<subseteq> set (sa_lost acc')
   \<and> (\<forall>(u, i) \<in> set kvs. \<forall>r. membership gid u (sa_db acc) = Some r \<and> u \<notin> set active
         \<and> loses_console_tier (gm_status r) (gm_access_level r) None \<and> truthy_id (gm_cnp_user_id r)
         \<longrightarrow> the (gm_cnp_user_id r) \<in> set (sa_lost acc'))"

lemma revoke_members_loop:
  fixes env now grp active
  defines "gid \<equiv> grp_id grp"
  assumes "members_ok (sa_db acc)" and "distinct (map fst kvs)"
    and "\<forall>(u, i) \<in> set kvs. \<exists>r. membership gid u (sa_db acc) = Some r \<and> i = gm_id r"
  shows "absent_revoked now gid active kvs acc (fold (revoke_group_member env now grp active) kvs acc)"
  using assms(2-)
proof (induction kvs arbitrary: acc)
  case Nil
  then show ?case by (simp add: absent_revoked_def)
next
  case (Cons p kvs)
  obtain u i where p: "p = (u, i)" by (cases p)
  from Cons.prems(3) obtain r where r: "membership gid u (sa_db acc) = Some r" "i = gm_id r" by (auto simp: p)
  let ?acc1 = "revoke_group_member env now grp active (u, i) acc"
  note step = revoke_group_member_step[where env = env and now = now and active = active, OF Cons.prems(1) r(1)[unfolded gid_def] r(2), folded gid_def]
  have fresh: "u \<notin> fst ` set kvs" using Cons.prems(2) by (simp add: p)
  have "absent_revoked now gid active kvs ?acc1 (fold (revoke_group_member env now grp active) kvs ?acc1)"
  proof (rule Cons.IH)
    show "members_ok (sa_db ?acc1)" using step by simp
    show "distinct (map fst kvs)" using Cons.prems(2) by simp
    show "\<forall>(v, j) \<in> set kvs. \<exists>r. membership gid v (sa_db ?acc1) = Some r \<and> j = gm_id r"
    proof (clarify)
      fix v j assume vj: "(v, j) \<in> set kvs"
      then have "v \<noteq> u" using fresh by (metis fst_conv image_eqI)
      with step have "membership gid v (sa_db ?acc1) = membership gid v (sa_db acc)" by simp
      with Cons.prems(3) vj show "\<exists>r. membership gid v (sa_db ?acc1) = Some r \<and> j = gm_id r" by auto
    qed
  qed
  note IH = this[unfolded absent_revoked_def]
  let ?acc' = "fold (revoke_group_member env now grp active) kvs ?acc1"
  have lost: "set (sa_lost acc) \<subseteq> set (sa_lost ?acc1)" using step lose_mono by simp
  show ?case
    unfolding fold_Cons o_apply absent_revoked_def p
  proof (intro conjI)
    show "members_ok (sa_db ?acc')" "applications (sa_db ?acc') = applications (sa_db acc)"
      using IH step by (simp_all add: Let_def)
    have "set (sa_lost ?acc1) \<subseteq> set (sa_lost ?acc')" using IH by (simp add: Let_def)
    with lost show "set (sa_lost acc) \<subseteq> set (sa_lost ?acc')" by (rule subset_trans)
    show "\<forall>g v. membership g v (sa_db ?acc') =
          (if g = gid \<and> v \<in> fst ` set ((u, i) # kvs) \<and> v \<notin> set active then map_option (departed now) (membership g v (sa_db acc))
           else membership g v (sa_db acc))"
    proof (intro allI)
      fix g v
      show "membership g v (sa_db ?acc') =
          (if g = gid \<and> v \<in> fst ` set ((u, i) # kvs) \<and> v \<notin> set active then map_option (departed now) (membership g v (sa_db acc))
           else membership g v (sa_db acc))"
        using IH step fresh r(1) by (cases "(g, v) = (gid, u)") (auto simp: Let_def)
    qed
    show "\<forall>(v, j) \<in> set ((u, i) # kvs). \<forall>r. membership gid v (sa_db acc) = Some r \<and> v \<notin> set active
          \<and> loses_console_tier (gm_status r) (gm_access_level r) None \<and> truthy_id (gm_cnp_user_id r)
          \<longrightarrow> the (gm_cnp_user_id r) \<in> set (sa_lost ?acc')"
    proof (clarify)
      fix v j r' assume a: "(v, j) \<in> set ((u, i) # kvs)" "membership gid v (sa_db acc) = Some r'" "v \<notin> set active"
        "loses_console_tier (gm_status r') (gm_access_level r') None" "truthy_id (gm_cnp_user_id r')"
      show "the (gm_cnp_user_id r') \<in> set (sa_lost ?acc')"
      proof (cases "v = u")
        case True
        with a r(1) have "r' = r" "gm_status r = ACTIVE" by (simp_all add: loses_console_tier_def)
        with step a True lose_hit[OF a(4,5)] have "the (gm_cnp_user_id r') \<in> set (sa_lost ?acc1)" by simp
        with IH show ?thesis by (auto simp: Let_def)
      next
        case False
        with step have "membership gid v (sa_db ?acc1) = membership gid v (sa_db acc)" by simp
        with IH a False show ?thesis by (fastforce simp: Let_def)
      qed
    qed
  qed
qed

section \<open>What the synchronisation of a group guarantees\<close>

lemma existing_rows_keys:
  assumes "one_row_per_user gid d"
  shows "distinct (map fst (existing_group_rows gid d))"
    and "(u, i) \<in> set (existing_group_rows gid d) \<Longrightarrow> \<exists>r. membership gid u d = Some r \<and> i = gm_id r"
    and "membership gid u d \<noteq> None \<longleftrightarrow> u \<in> fst ` set (existing_group_rows gid d)"
proof -
  have "distinct (map fst kvs) \<Longrightarrow> distinct (map fst (fold (\<lambda>m kvs. case gm_user_id m of None \<Rightarrow> kvs
      | Some u \<Rightarrow> dict_set u (gm_id m) kvs) ms kvs))" for ms :: "gitlab_group_member list" and kvs :: "(int \<times> int) list"
    by (induction ms arbitrary: kvs) (auto simp: keys_dict_set split: option.split)
  then show d: "distinct (map fst (existing_group_rows gid d))" by (simp add: existing_group_rows_def)
  show "\<exists>r. membership gid u d = Some r \<and> i = gm_id r" if "(u, i) \<in> set (existing_group_rows gid d)"
  proof -
    from that d have "map_of (existing_group_rows gid d) u = Some i" by simp
    with existing_group_rows_map[OF assms, of u] show ?thesis by (cases "membership gid u d") auto
  qed
  show "membership gid u d \<noteq> None \<longleftrightarrow> u \<in> fst ` set (existing_group_rows gid d)"
    using existing_group_rows_map[OF assms, of u] map_of_eq_None_iff[of "existing_group_rows gid d" u]
    by (cases "membership gid u d") auto
qed

lemma sync_group_result:
  fixes env gl now grp
  defines "gid \<equiv> grp_id grp"
  assumes members: "gs_group_members gl gid = Inr ms" "distinct (map glm_id ms)"
    and ok: "members_ok d" "one_row_per_user gid d"
    and run: "sync_group env gl now grp (d, lost) = (st, d', lost')"
  shows "(\<forall>m \<in> set ms. \<exists>r'. membership gid (glm_id m) d' = Some r'
            \<and> mirrored now gid m (resolve_cnp_user_id (glm_id m) d) (membership gid (glm_id m) d) r')
    \<and> (\<forall>u. u \<notin> glm_id ` set ms \<longrightarrow> membership gid u d' = map_option (departed now) (membership gid u d))
    \<and> (\<forall>g u. g \<noteq> gid \<longrightarrow> membership g u d' = membership g u d)
    \<and> set lost \<subseteq> set lost'
    \<and> (\<forall>u r a. membership gid u d = Some r \<and> truthy_id (gm_cnp_user_id r) \<and> a \<in> set (auth_apps_of_group gid d)
         \<and> loses_console_tier (gm_status r) (gm_access_level r)
             (map_option glm_access_level (List.find (\<lambda>m. glm_id m = u) ms))
         \<longrightarrow> (a, the (gm_cnp_user_id r)) \<in> set lost')"
proof -
  let ?ex = "existing_group_rows gid d" and ?ids = "map glm_id ms"
  define acc0 where "acc0 = \<lparr>sa_db = d, sa_stats = no_stats, sa_lost = []\<rparr>"
  define acc1 where "acc1 = fold (sync_group_member env now grp ?ex) ms acc0"
  define acc2 where "acc2 = fold (revoke_group_member env now grp ?ids) ?ex acc1"
  have db0: "sa_db acc0 = d" by (simp add: acc0_def)
  have "listed_synced now gid ms acc0 acc1"
    unfolding acc1_def gid_def
    by (rule sync_members_loop) (use ok members(2) existing_group_rows_map[OF ok(2)] in \<open>simp_all add: db0 gid_def[symmetric]\<close>)
  note L1 = this[unfolded listed_synced_def db0]
  have pairs: "\<forall>(u, i) \<in> set ?ex. \<exists>r. membership gid u (sa_db acc1) = Some r \<and> i = gm_id r"
  proof (clarify)
    fix u i assume ui: "(u, i) \<in> set ?ex"
    from existing_rows_keys(2)[OF ok(2) ui] obtain r where r: "membership gid u d = Some r" "i = gm_id r" by blast
    show "\<exists>r. membership gid u (sa_db acc1) = Some r \<and> i = gm_id r"
    proof (cases "u \<in> glm_id ` set ms")
      case True
      then obtain m where m: "m \<in> set ms" "glm_id m = u" by auto
      with L1 r show ?thesis by (fastforce simp: mirrored_def refresh_group_member_def)
    qed (use L1 r in simp)
  qed
  have "absent_revoked now gid ?ids ?ex acc1 acc2"
    unfolding acc2_def gid_def
    by (rule revoke_members_loop)
      (use L1 existing_rows_keys(1)[OF ok(2)] pairs in \<open>simp_all add: gid_def[symmetric] del: set_map\<close>)
  note L2 = this[unfolded absent_revoked_def]
  have res: "group_members d' = group_members (sa_db acc2)"
    "lost' = (if sa_lost acc2 = [] then lost else List.union lost (List.product (auth_apps_of_group gid (sa_db acc2)) (sa_lost acc2)))"
    using run members(1) by (auto simp: sync_group_def Let_def gid_def[symmetric] acc0_def acc1_def acc2_def)
  have apps: "auth_apps_of_group gid (sa_db acc2) = auth_apps_of_group gid d"
    using L1 L2 by (simp add: auth_apps_of_group_def)
  have mem: "membership g u d' = membership g u (sa_db acc2)" for g u by (rule membership_frame[OF res(1)])
  have l2: "set lost \<subseteq> set lost'" by (simp add: res(2))
  have hit: "(a, c) \<in> set lost'" if "c \<in> set (sa_lost acc2)" "a \<in> set (auth_apps_of_group gid d)" for a c
    using that by (auto simp: res(2) apps)
  have lost: "(a, the (gm_cnp_user_id r)) \<in> set lost'"
    if r: "membership gid u d = Some r" "truthy_id (gm_cnp_user_id r)" "a \<in> set (auth_apps_of_group gid d)"
      and l: "loses_console_tier (gm_status r) (gm_access_level r) (map_option glm_access_level (List.find (\<lambda>m. glm_id m = u) ms))" for u r a
  proof (cases "List.find (\<lambda>m. glm_id m = u) ms")
    case None
    then have "u \<notin> set ?ids" by (auto simp: find_None_iff)
    moreover from this L1 r(1) have "membership gid u (sa_db acc1) = Some r" by simp
    moreover from existing_rows_keys(3)[OF ok(2), of u] r(1) obtain i where "(u, i) \<in> set ?ex" by auto
    ultimately have "the (gm_cnp_user_id r) \<in> set (sa_lost acc2)" using L2 l r(2) None by fastforce
    from hit[OF this r(3)] show ?thesis .
  next
    case (Some m)
    from find_cong_prop[OF Some] have "m \<in> set ms" "glm_id m = u" by auto
    with L1 L2 l r(1,2) Some have "the (gm_cnp_user_id r) \<in> set (sa_lost acc2)" by auto
    from hit[OF this r(3)] show ?thesis .
  qed
  have listed: "\<exists>r'. membership gid (glm_id m) d' = Some r'
            \<and> mirrored now gid m (resolve_cnp_user_id (glm_id m) d) (membership gid (glm_id m) d) r'" if "m \<in> set ms" for m
    using L1 L2 that by (simp add: mem)
  have gone: "membership gid u d' = map_option (departed now) (membership gid u d)" if "u \<notin> glm_id ` set ms" for u
    using L1 L2 that existing_rows_keys(3)[OF ok(2), of u] by (cases "membership gid u d") (auto simp: mem)
  have other: "membership g u d' = membership g u d" if "g \<noteq> gid" for g u
    using L1 L2 that by (simp add: mem)
  show ?thesis using listed gone other l2 lost by blast
qed

lemma mirrored_active:
  assumes "mirrored now gid m cnp old r"
  shows "gm_status r = ACTIVE \<and> gm_access_level r = glm_access_level m"
  using assms by (auto simp: mirrored_def refresh_group_member_def new_group_member_def split: option.splits)

text \<open>
  C22: after a synchronisation whose request succeeds, the active memberships of the group are exactly
  those GitLab lists, with their access levels; no stored membership disappears (who left is marked
  as left), and the memberships of every other group are untouched.
\<close>

theorem sync_group_mirrors_gitlab:
  assumes "gs_group_members gl (grp_id grp) = Inr ms" and "distinct (map glm_id ms)"
    and "members_ok d" and "one_row_per_user (grp_id grp) d"
  shows "\<exists>st d' lost'. sync_group env gl now grp (d, lost) = (st, d', lost')
    \<and> (\<forall>u l. (\<exists>r. membership (grp_id grp) u d' = Some r \<and> gm_status r = ACTIVE \<and> gm_access_level r = l)
           \<longleftrightarrow> (\<exists>m \<in> set ms. glm_id m = u \<and> glm_access_level m = l))
    \<and> (\<forall>u. membership (grp_id grp) u d \<noteq> None \<longrightarrow> membership (grp_id grp) u d' \<noteq> None)
    \<and> (\<forall>g u. g \<noteq> grp_id grp \<longrightarrow> membership g u d' = membership g u d)"
proof -
  obtain st d' lost' where run: "sync_group env gl now grp (d, lost) = (st, d', lost')"
    by (metis prod_cases3)
  note res = sync_group_result[OF assms run]
  have listed: "(\<exists>r. membership (grp_id grp) (glm_id m) d' = Some r \<and> gm_status r = ACTIVE \<and> gm_access_level r = glm_access_level m)"
    if "m \<in> set ms" for m using res that mirrored_active by blast
  have "(\<exists>r. membership (grp_id grp) u d' = Some r \<and> gm_status r = ACTIVE \<and> gm_access_level r = l)
           \<longleftrightarrow> (\<exists>m \<in> set ms. glm_id m = u \<and> glm_access_level m = l)" for u l
  proof (cases "u \<in> glm_id ` set ms")
    case True
    then obtain m where m: "m \<in> set ms" "glm_id m = u" by auto
    have "m' = m" if "m' \<in> set ms" "glm_id m' = u" for m'
      using assms(2) m that by (auto simp: distinct_map inj_on_def)
    with m have rhs: "(\<exists>m \<in> set ms. glm_id m = u \<and> glm_access_level m = l) \<longleftrightarrow> l = glm_access_level m" by metis
    from listed[OF m(1)] obtain r where
      "membership (grp_id grp) u d' = Some r" "gm_status r = ACTIVE" "gm_access_level r = glm_access_level m"
      unfolding m(2) by blast
    then show ?thesis unfolding rhs by auto
  next
    case False
    with res have "membership (grp_id grp) u d' = map_option (departed now) (membership (grp_id grp) u d)" by blast
    moreover have "gm_status (departed now r) \<noteq> ACTIVE" for r by (simp add: departed_def left_at_def)
    ultimately show ?thesis using False by (auto simp: image_iff)
  qed
  moreover have "membership (grp_id grp) u d' \<noteq> None" if "membership (grp_id grp) u d \<noteq> None" for u
  proof (cases "u \<in> glm_id ` set ms")
    case True
    then show ?thesis using listed by auto
  next
    case False
    with res that show ?thesis by auto
  qed
  moreover have "membership g u d' = membership g u d" if "g \<noteq> grp_id grp" for g u using res that by blast
  ultimately show ?thesis using run by (intro exI[of _ st] exI[of _ d'] exI[of _ lost'] conjI allI impI) simp_all
qed

text \<open>
  No lost console access is missed: whoever held console access through an active membership of
  the group, and is linked to a user, is handed over for every application of the group that has
  Keycloak on, when the synchronisation leaves that membership below the console tier.
\<close>

theorem sync_group_reports_lost_console:
  assumes "gs_group_members gl (grp_id grp) = Inr ms" and "distinct (map glm_id ms)"
    and "members_ok d" and "one_row_per_user (grp_id grp) d"
    and "sync_group env gl now grp (d, lost) = (st, d', lost')"
    and "membership (grp_id grp) u d = Some r" and "gm_status r = ACTIVE" and "level_grants_console (Some (gm_access_level r))"
    and "gm_cnp_user_id r = Some c" and "c \<noteq> 0" and "a \<in> set (auth_apps_of_group (grp_id grp) d)"
    and "membership (grp_id grp) u d' = Some r'"
    and "gm_status r' = ACTIVE \<Longrightarrow> \<not> level_grants_console (Some (gm_access_level r'))"
  shows "(a, c) \<in> set lost'"
proof -
  note res = sync_group_result[OF assms(1-5)]
  have "\<not> level_grants_console (map_option glm_access_level (List.find (\<lambda>m. glm_id m = u) ms))"
  proof (cases "List.find (\<lambda>m. glm_id m = u) ms")
    case None
    then show ?thesis by (simp add: level_grants_console_def)
  next
    case (Some m)
    from find_cong_prop[OF Some] have m: "m \<in> set ms" "glm_id m = u" by auto
    from res m obtain r2 where "membership (grp_id grp) u d' = Some r2"
      "mirrored now (grp_id grp) m (resolve_cnp_user_id u d) (membership (grp_id grp) u d) r2" by blast
    with mirrored_active assms(12) have "gm_status r' = ACTIVE" "gm_access_level r' = glm_access_level m" by auto
    with assms(13) Some show ?thesis by simp
  qed
  with assms(7,8) have "loses_console_tier (gm_status r) (gm_access_level r)
      (map_option glm_access_level (List.find (\<lambda>m. glm_id m = u) ms))" by (simp add: loses_console_tier_def)
  moreover have "truthy_id (gm_cnp_user_id r)" using assms(9,10) by (simp add: truthy_id_def)
  ultimately have "(a, the (gm_cnp_user_id r)) \<in> set lost'" using res assms(6,11) by blast
  with assms(9) show ?thesis by simp
qed

definition demo_member_row :: gitlab_group_member where
  "demo_member_row = \<lparr>gm_id = 1, gm_group_id = 30, gm_user_id = Some 4, gm_username = Some ''ana'',
     gm_access_level = 40, gm_cnp_user_id = Some 1, gm_status = ACTIVE, gm_updated_at = None\<rparr>"

definition demo_group :: gitlab_group where
  "demo_group = \<lparr>grp_id = 30, grp_name = ''team'', grp_full_path = ''4k/team'', grp_synced_at = None\<rparr>"

definition demo_sync_db :: database where
  "demo_sync_db = empty_database\<lparr>
     applications := \<lparr>rows = [(blank_application 9 ''shop'' ''shop'' ''team'')\<lparr>app_owning_gitlab_group_id := Some 30,
       app_auth_enabled := True\<rparr>], seq = 10\<rparr>,
     gitlab_groups := \<lparr>rows = [demo_group], seq = 2\<rparr>,
     group_members := \<lparr>rows = [demo_member_row], seq = 2\<rparr>\<rparr>"

definition demo_gl :: "gl_member list \<Rightarrow> gitlab_source" where
  "demo_gl ms = \<lparr>gs_subgroups = (\<lambda>_. Inr []), gs_group_members = (\<lambda>_. Inr ms), gs_project_members = (\<lambda>_. Inr []),
     gs_invitations = (\<lambda>_. Inr []), gs_user_groups = (\<lambda>_. Inr [])\<rparr>"

definition demo_sync_env :: alert_env where
  "demo_sync_env = \<lparr>sha256_hex = id, py_repr = (\<lambda>_. ''''), clock = 100\<rparr>"

definition demo_listed :: "gl_member list" where
  "demo_listed = [\<lparr>glm_id = 4, glm_username = Some ''ana'', glm_access_level = 30\<rparr>,
                  \<lparr>glm_id = 5, glm_username = None, glm_access_level = 50\<rparr>]"

lemma demo_sync_ok:
  "gs_group_members (demo_gl demo_listed) (grp_id demo_group) = Inr demo_listed" "distinct (map glm_id demo_listed)"
  "members_ok demo_sync_db" "one_row_per_user (grp_id demo_group) demo_sync_db"
  by code_simp+

theorem sync_group_mirrors_gitlab_witness:
  "\<exists>st d' lost'. sync_group demo_sync_env (demo_gl demo_listed) 50 demo_group (demo_sync_db, []) = (st, d', lost')
    \<and> (\<exists>r. membership 30 5 d' = Some r \<and> gm_status r = ACTIVE \<and> gm_access_level r = 50)"
proof -
  from sync_group_mirrors_gitlab[OF demo_sync_ok, of demo_sync_env 50 "[]"] obtain st d' lost' where
    run: "sync_group demo_sync_env (demo_gl demo_listed) 50 demo_group (demo_sync_db, []) = (st, d', lost')"
    and iff: "\<forall>u l. (\<exists>r. membership (grp_id demo_group) u d' = Some r \<and> gm_status r = ACTIVE \<and> gm_access_level r = l)
       \<longleftrightarrow> (\<exists>m \<in> set demo_listed. glm_id m = u \<and> glm_access_level m = l)" by blast
  have "\<exists>m \<in> set demo_listed. glm_id m = 5 \<and> glm_access_level m = 50" by (simp add: demo_listed_def)
  with iff have "\<exists>r. membership (grp_id demo_group) 5 d' = Some r \<and> gm_status r = ACTIVE \<and> gm_access_level r = 50" by simp
  with run show ?thesis by (simp add: demo_group_def)
qed

theorem sync_group_reports_lost_console_witness:
  "\<exists>st d' lost'. sync_group demo_sync_env (demo_gl demo_listed) 50 demo_group (demo_sync_db, []) = (st, d', lost')
    \<and> (9, 1) \<in> set lost'"
proof -
  obtain st d' lost' where run:
    "sync_group demo_sync_env (demo_gl demo_listed) 50 demo_group (demo_sync_db, []) = (st, d', lost')"
    by (metis prod_cases3)
  have m: "membership (grp_id demo_group) 4 demo_sync_db = Some demo_member_row" by code_simp
  define r' where "r' = demo_member_row\<lparr>gm_access_level := 30, gm_updated_at := Some 50\<rparr>"
  have "membership (grp_id demo_group) 4 (fst (snd (sync_group demo_sync_env (demo_gl demo_listed) 50 demo_group (demo_sync_db, []))))
     = Some (demo_member_row\<lparr>gm_access_level := 30, gm_updated_at := Some 50\<rparr>)" by code_simp
  with run have m': "membership (grp_id demo_group) 4 d' = Some r'" by (simp add: r'_def)
  have a: "9 \<in> set (auth_apps_of_group (grp_id demo_group) demo_sync_db)"
    and l: "level_grants_console (Some (gm_access_level demo_member_row))"
    and n: "\<not> level_grants_console (Some 30)"
    by code_simp+
  have lvl: "gm_access_level r' = 30" by (simp add: r'_def)
  have "(9, 1) \<in> set lost'"
    by (rule sync_group_reports_lost_console[OF demo_sync_ok run m _ l _ _ a m'])
      (simp_all add: lvl n, simp_all add: demo_member_row_def)
  with run show ?thesis by blast
qed

text \<open>
  A membership that moves to another user is not reported: when the GitLab account is linked to a new
  user, the row follows it, the former user loses the tier, and nobody is handed over.
\<close>

definition relinked_db :: database where
  "relinked_db = demo_sync_db\<lparr>users := \<lparr>rows = [\<lparr>usr_id = 2, usr_email = ''b@x'', usr_hashed_password = '''',
     usr_role = DEV, usr_is_active = True, usr_gitlab_user_id = Some 4\<rparr>], seq = 3\<rparr>\<rparr>"

theorem relinked_member_keeps_console:
  "get_effective_tier 1 9 relinked_db = MAINTAINER
   \<and> (case sync_group demo_sync_env (demo_gl [\<lparr>glm_id = 4, glm_username = Some ''ana'', glm_access_level = 40\<rparr>]) 50
          demo_group (relinked_db, []) of (_, d', lost') \<Rightarrow> get_effective_tier 1 9 d' = VIEWER \<and> lost' = [])"
  by code_simp

end
