(* ===== verification/Keycloak_Client.thy ===== *)
theory Keycloak_Client
  imports Database
begin

text \<open>
  backend/keycloak/client.py: the client of Keycloak's admin API, over a transport (httpx and the
  server behind it) that is a parameter: it may answer anything, fail at any call, and change its
  own state as it likes. The client keeps its cached token; the model also keeps a trace of the
  requests that were sent with their answers, which no operation reads: the properties speak of
  it. Lemmas: every operation only writes below the realm it is given, and only appends to the
  trace.
\<close>

section \<open>Decoded JSON\<close>

text \<open>
  \<open>d.get(k, default)\<close>, \<open>x[0]\<close>, iteration, \<open>value in x\<close>, and an identifier used in a path (an
  identifier of the admin API is a string; anything else is reported as a \<open>TypeError\<close>).
\<close>

fun jget_default :: "string \<Rightarrow> json \<Rightarrow> json \<Rightarrow> exc + json" where
  "jget_default k dflt (JObj kvs) = Inr (case map_of kvs k of None \<Rightarrow> dflt | Some v \<Rightarrow> v)"
| "jget_default k dflt _ = Inl AttributeError"

fun jfirst :: "json \<Rightarrow> exc + json" where
  "jfirst (JArr (x # xs)) = Inr x"
| "jfirst (JArr []) = Inl IndexError"
| "jfirst (JStr (c # cs)) = Inr (JStr [c])"
| "jfirst (JStr []) = Inl IndexError"
| "jfirst (JObj kvs) = Inl KeyError"
| "jfirst _ = Inl TypeError"

fun jiter :: "json \<Rightarrow> exc + json list" where
  "jiter (JArr xs) = Inr xs"
| "jiter (JObj kvs) = Inr (map (\<lambda>kv. JStr (fst kv)) kvs)"
| "jiter (JStr s) = Inr (map (\<lambda>c. JStr [c]) s)"
| "jiter _ = Inl TypeError"

definition substring :: "string \<Rightarrow> string \<Rightarrow> bool" where
  "substring u s \<longleftrightarrow> (\<exists>i \<in> set [0..<Suc (length s)]. take (length u) (drop i s) = u)"

fun jcontains :: "string \<Rightarrow> json \<Rightarrow> exc + bool" where
  "jcontains v (JArr xs) = Inr (JStr v \<in> set xs)"
| "jcontains v (JObj kvs) = Inr (v \<in> fst ` set kvs)"
| "jcontains v (JStr s) = Inr (substring v s)"
| "jcontains v _ = Inl TypeError"

fun jident :: "json \<Rightarrow> exc + string" where
  "jident (JStr s) = Inr s"
| "jident _ = Inl TypeError"

fun jset :: "string \<Rightarrow> json \<Rightarrow> json \<Rightarrow> exc + json" where
  "jset k v (JObj kvs) = Inr (JObj (dict_set k v kvs))"
| "jset k v _ = Inl TypeError"

definition jor :: "json \<Rightarrow> json \<Rightarrow> json" where
  "jor j dflt = (if truthy j then j else dflt)"

fun any_result :: "('a \<Rightarrow> exc + bool) \<Rightarrow> 'a list \<Rightarrow> exc + bool" where
  "any_result p [] = Inr False"
| "any_result p (x # xs) = bnd_result (p x) (\<lambda>b. if b then Inr True else any_result p xs)"

fun filter_result :: "('a \<Rightarrow> exc + bool) \<Rightarrow> 'a list \<Rightarrow> exc + 'a list" where
  "filter_result p [] = Inr []"
| "filter_result p (x # xs) = bnd_result (p x) (\<lambda>b.
     bnd_result (filter_result p xs) (\<lambda>ys. Inr (if b then x # ys else ys)))"

fun map_result :: "('a \<Rightarrow> exc + 'b) \<Rightarrow> 'a list \<Rightarrow> exc + 'b list" where
  "map_result f [] = Inr []"
| "map_result f (x # xs) = bnd_result (f x) (\<lambda>y. bnd_result (map_result f xs) (\<lambda>ys. Inr (y # ys)))"

lemma filter_result_sound:
  "filter_result p xs = Inr ys \<Longrightarrow> y \<in> set ys \<Longrightarrow> y \<in> set xs \<and> p y = Inr True"
proof (induction xs arbitrary: ys)
  case Nil
  then show ?case by simp
next
  case (Cons x xs)
  from Cons.prems(1) obtain b zs where b: "p x = Inr b" and zs: "filter_result p xs = Inr zs"
    and ys: "ys = (if b then x # zs else zs)"
    by (auto simp: bnd_result_def split: sum.splits)
  from Cons.IH[OF zs] Cons.prems(2) b ys show ?case by (cases b) auto
qed

section \<open>Transport and client state\<close>

datatype http_method = GET | POST | PUT | DELETE_M

record http_request =
  rq_method :: http_method
  rq_path :: string
  rq_bearer :: json
  rq_params :: "(string \<times> string) list"
  rq_json :: json

text \<open>
  A response is its status and its body, \<open>None\<close> when the body is not JSON. No response at all is
  any \<open>httpx.HTTPError\<close>: unreachable, timeout, protocol error. \<open>monotonic\<close> is the clock, in
  seconds, \<open>token_urlsafe\<close> the generator of \<open>secrets.token_urlsafe(18)\<close>.
\<close>

record http_response =
  rs_status :: nat
  rs_body :: "json option"

record 'k transport =
  http_send :: "string \<Rightarrow> http_request \<Rightarrow> 'k \<Rightarrow> http_response option \<times> 'k"
  monotonic :: "'k \<Rightarrow> int"
  token_urlsafe :: "'k \<Rightarrow> string \<times> 'k"

record keycloak_client =
  base_url :: string
  admin_client_id :: string
  admin_client_secret :: string

record 'k web =
  net :: 'k
  cached_token :: json
  token_expires_at :: int
  trace :: "(http_request \<times> http_response option) list"

definition no_token :: "'k web \<Rightarrow> 'k web" where
  "no_token s = s\<lparr>cached_token := JNull, token_expires_at := 0\<rparr>"

definition new_client :: "string \<Rightarrow> string \<Rightarrow> string \<Rightarrow> ('k web, keycloak_client) prog" where
  "new_client base cid csecret =
     bnd (modify no_token) (\<lambda>_.
       ret \<lparr>base_url = rstrip (\<lambda>c. c = CHR ''/'') base, admin_client_id = cid, admin_client_secret = csecret\<rparr>)"

definition send_request ::
  "'k transport \<Rightarrow> keycloak_client \<Rightarrow> http_request \<Rightarrow> ('k web, http_response option) prog" where
  "send_request tr kc rq = (\<lambda>s. case http_send tr (base_url kc) rq (net s) of
     (r, n) \<Rightarrow> (Inr r, s\<lparr>net := n, trace := trace s @ [(rq, r)]\<rparr>))"

definition response_json :: "http_response \<Rightarrow> exc + json" where
  "response_json r = (case rs_body r of None \<Rightarrow> Inl ValueError | Some j \<Rightarrow> Inr j)"

definition token_request :: "keycloak_client \<Rightarrow> http_request" where
  "token_request kc =
     \<lparr>rq_method = POST, rq_path = ''/realms/master/protocol/openid-connect/token'', rq_bearer = JNull,
      rq_params = [], rq_json = JObj
        [(''grant_type'', JStr ''client_credentials''), (''client_id'', JStr (admin_client_id kc)),
         (''client_secret'', JStr (admin_client_secret kc))]\<rparr>"

fun minus_30 :: "json \<Rightarrow> exc + int" where
  "minus_30 (JNum n) = Inr (n - 30)"
| "minus_30 (JBool b) = Inr ((if b then 1 else 0) - 30)"
| "minus_30 _ = Inl TypeError"

definition get_token :: "'k transport \<Rightarrow> keycloak_client \<Rightarrow> ('k web, json) prog" where
  "get_token tr kc =
     bnd (gets (\<lambda>s. monotonic tr (net s))) (\<lambda>now.
     bnd (gets (\<lambda>s. (cached_token s, token_expires_at s))) (\<lambda>(token, expires_at).
       if truthy token \<and> now < expires_at then ret token
       else
         bnd (send_request tr kc (token_request kc)) (\<lambda>r.
           case r of
             None \<Rightarrow> raise_exc KeycloakUnavailable
           | Some resp \<Rightarrow>
               if rs_status resp < 200 \<or> 299 < rs_status resp then raise_exc KeycloakUnavailable
               else
                 bnd (lift_result (response_json resp)) (\<lambda>data.
                 bnd (lift_result (jitem ''access_token'' data)) (\<lambda>token.
                 bnd (modify (\<lambda>s. s\<lparr>cached_token := token\<rparr>)) (\<lambda>_.
                 bnd (lift_result (jget_default ''expires_in'' (JNum 60) data)) (\<lambda>expires_in.
                 bnd (lift_result (minus_30 expires_in)) (\<lambda>left.
                 bnd (modify (\<lambda>s. s\<lparr>token_expires_at := now + max left 5\<rparr>)) (\<lambda>_.
                   ret token)))))))))"

definition request ::
  "'k transport \<Rightarrow> keycloak_client \<Rightarrow> http_method \<Rightarrow> string \<Rightarrow> (string \<times> string) list \<Rightarrow> json
     \<Rightarrow> ('k web, http_response) prog" where
  "request tr kc method path params body =
     bnd (get_token tr kc) (\<lambda>token.
     bnd (send_request tr kc
            \<lparr>rq_method = method, rq_path = path, rq_bearer = token, rq_params = params, rq_json = body\<rparr>) (\<lambda>r.
       case r of
         None \<Rightarrow> raise_exc KeycloakUnavailable
       | Some resp \<Rightarrow>
           if rs_status resp = 404 then raise_exc KeycloakNotFound
           else if rs_status resp = 409 then raise_exc KeycloakConflict
           else if 400 \<le> rs_status resp then raise_exc KeycloakErr
           else ret resp))"

definition request_json ::
  "'k transport \<Rightarrow> keycloak_client \<Rightarrow> string \<Rightarrow> (string \<times> string) list \<Rightarrow> ('k web, json) prog" where
  "request_json tr kc path params =
     bnd (request tr kc GET path params JNull) (\<lambda>resp. lift_result (response_json resp))"

definition do_request ::
  "'k transport \<Rightarrow> keycloak_client \<Rightarrow> http_method \<Rightarrow> string \<Rightarrow> json \<Rightarrow> ('k web, unit) prog" where
  "do_request tr kc method path body = bnd (request tr kc method path [] body) (\<lambda>_. ret ())"

section \<open>Realms\<close>

definition REALM_PASSWORD_POLICY :: string where
  "REALM_PASSWORD_POLICY = ''length(12) and notUsername''"

definition TEAM_CONSOLE_ROLES :: "string list" where
  "TEAM_CONSOLE_ROLES =
     [''view-realm'', ''view-users'', ''query-users'', ''query-groups'', ''manage-users'',
      ''view-clients'', ''query-clients'', ''manage-clients'', ''view-events'', ''manage-events'',
      ''view-identity-providers'', ''manage-identity-providers'']"

definition realms_path :: string where
  "realms_path = ''/admin/realms''"

definition realm_path :: "string \<Rightarrow> string" where
  "realm_path realm = realms_path @ ''/'' @ realm"

text \<open>\<open>None\<close> for a realm that does not exist is \<open>JNull\<close>.\<close>

definition get_realm :: "'k transport \<Rightarrow> keycloak_client \<Rightarrow> string \<Rightarrow> ('k web, json) prog" where
  "get_realm tr kc realm =
     bnd (catch KeycloakNotFound (bnd (request tr kc GET (realm_path realm) [] JNull) (\<lambda>r. ret (Some r)))
            (ret None)) (\<lambda>found.
       case found of None \<Rightarrow> ret JNull | Some resp \<Rightarrow> lift_result (response_json resp))"

definition realm_payload :: "string \<Rightarrow> string \<Rightarrow> bool \<Rightarrow> (string \<times> json) list \<Rightarrow> json" where
  "realm_payload realm realm_id registration_allowed attributes =
     JObj ([(''realm'', JStr realm), (''enabled'', JBool True),
            (''registrationAllowed'', JBool registration_allowed), (''bruteForceProtected'', JBool True),
            (''passwordPolicy'', JStr REALM_PASSWORD_POLICY)]
           @ (if realm_id \<noteq> [] then [(''id'', JStr realm_id)] else [])
           @ (if attributes \<noteq> [] then [(''attributes'', JObj attributes)] else []))"

definition create_realm ::
  "'k transport \<Rightarrow> keycloak_client \<Rightarrow> string \<Rightarrow> string \<Rightarrow> bool \<Rightarrow> (string \<times> json) list \<Rightarrow> ('k web, unit) prog" where
  "create_realm tr kc realm realm_id registration_allowed attributes =
     bnd (catch KeycloakConflict
            (do_request tr kc POST realms_path (realm_payload realm realm_id registration_allowed attributes))
            (ret ())) (\<lambda>_.
       modify no_token)"

definition delete_realm :: "'k transport \<Rightarrow> keycloak_client \<Rightarrow> string \<Rightarrow> ('k web, unit) prog" where
  "delete_realm tr kc realm =
     catch KeycloakNotFound (do_request tr kc DELETE_M (realm_path realm) JNull) (ret ())"

definition clients_path :: "string \<Rightarrow> string" where
  "clients_path realm = realm_path realm @ ''/clients''"

definition disable_admin_cli_password_grant ::
  "'k transport \<Rightarrow> keycloak_client \<Rightarrow> string \<Rightarrow> ('k web, unit) prog" where
  "disable_admin_cli_password_grant tr kc realm =
     bnd (request_json tr kc (clients_path realm) [(''clientId'', ''admin-cli'')]) (\<lambda>clients.
       if \<not> truthy clients then ret ()
       else
         bnd (lift_result (jfirst clients)) (\<lambda>admin_cli.
         bnd (lift_result (jget ''directAccessGrantsEnabled'' admin_cli)) (\<lambda>enabled.
           if enabled = JBool False then ret ()
           else
             bnd (lift_result (bnd_result (jitem ''id'' admin_cli) jident)) (\<lambda>cid.
             bnd (lift_result (jset ''directAccessGrantsEnabled'' (JBool False) admin_cli)) (\<lambda>body.
               do_request tr kc PUT (clients_path realm @ ''/'' @ cid) body)))))"

section \<open>The application's client\<close>

definition client_payload :: "string \<Rightarrow> bool \<Rightarrow> string list \<Rightarrow> string list \<Rightarrow> json" where
  "client_payload client_id public redirect_uris extra_web_origins =
     JObj ([(''clientId'', JStr client_id), (''enabled'', JBool True), (''publicClient'', JBool public),
            (''protocol'', JStr ''openid-connect''),
            (''redirectUris'', JArr (map JStr redirect_uris)),
            (''webOrigins'', JArr (map JStr (''+'' # extra_web_origins))),
            (''standardFlowEnabled'', JBool True), (''directAccessGrantsEnabled'', JBool False),
            (''serviceAccountsEnabled'', JBool (\<not> public))]
           @ (if public then [(''attributes'', JObj [(''pkce.code.challenge.method'', JStr ''S256'')])] else []))"

definition get_client_internal_id ::
  "'k transport \<Rightarrow> keycloak_client \<Rightarrow> string \<Rightarrow> string \<Rightarrow> ('k web, string) prog" where
  "get_client_internal_id tr kc realm client_id =
     bnd (request_json tr kc (clients_path realm) [(''clientId'', client_id)]) (\<lambda>clients.
       if \<not> truthy clients then raise_exc KeycloakNotFound
       else lift_result (bnd_result (bnd_result (jfirst clients) (jitem ''id'')) jident))"

definition mappers_path :: "string \<Rightarrow> string \<Rightarrow> string" where
  "mappers_path realm internal_id = clients_path realm @ ''/'' @ internal_id @ ''/protocol-mappers/models''"

definition audience_mapper :: "string \<Rightarrow> json" where
  "audience_mapper client_id =
     JObj [(''name'', JStr ''audience''), (''protocol'', JStr ''openid-connect''),
           (''protocolMapper'', JStr ''oidc-audience-mapper''), (''consentRequired'', JBool False),
           (''config'', JObj [(''included.client.audience'', JStr client_id),
                            (''id.token.claim'', JStr ''false''), (''access.token.claim'', JStr ''true'')])]"

definition ensure_audience_mapper ::
  "'k transport \<Rightarrow> keycloak_client \<Rightarrow> string \<Rightarrow> string \<Rightarrow> string \<Rightarrow> ('k web, unit) prog" where
  "ensure_audience_mapper tr kc realm internal_id client_id =
     bnd (request_json tr kc (mappers_path realm internal_id) []) (\<lambda>models.
     bnd (lift_result (bnd_result (jiter models)
            (any_result (\<lambda>m. bnd_result (jget ''name'' m) (\<lambda>n. Inr (n = JStr ''audience'')))))) (\<lambda>present.
       if present then ret ()
       else do_request tr kc POST (mappers_path realm internal_id) (audience_mapper client_id)))"

definition create_client ::
  "'k transport \<Rightarrow> keycloak_client \<Rightarrow> string \<Rightarrow> string \<Rightarrow> bool \<Rightarrow> string list \<Rightarrow> string list
     \<Rightarrow> ('k web, string) prog" where
  "create_client tr kc realm client_id public redirect_uris extra_web_origins =
     bnd (catch KeycloakConflict
            (do_request tr kc POST (clients_path realm)
               (client_payload client_id public redirect_uris extra_web_origins))
            (ret ())) (\<lambda>_.
     bnd (get_client_internal_id tr kc realm client_id) (\<lambda>internal_id.
     bnd (ensure_audience_mapper tr kc realm internal_id client_id) (\<lambda>_.
       ret internal_id)))"

definition get_client_secret ::
  "'k transport \<Rightarrow> keycloak_client \<Rightarrow> string \<Rightarrow> string \<Rightarrow> ('k web, string) prog" where
  "get_client_secret tr kc realm internal_id =
     bnd (request_json tr kc (clients_path realm @ ''/'' @ internal_id @ ''/client-secret'') []) (\<lambda>data.
       lift_result (bnd_result (jitem ''value'' data) jident))"

section \<open>Console accounts\<close>

definition users_path :: "string \<Rightarrow> string" where
  "users_path realm = realm_path realm @ ''/users''"

definition enable_unmanaged_user_attributes ::
  "'k transport \<Rightarrow> keycloak_client \<Rightarrow> string \<Rightarrow> ('k web, unit) prog" where
  "enable_unmanaged_user_attributes tr kc realm =
     bnd (request_json tr kc (users_path realm @ ''/profile'') []) (\<lambda>profile.
     bnd (lift_result (jget ''unmanagedAttributePolicy'' profile)) (\<lambda>policy.
       if policy = JStr ''ADMIN_EDIT'' then ret ()
       else
         bnd (lift_result (jset ''unmanagedAttributePolicy'' (JStr ''ADMIN_EDIT'') profile)) (\<lambda>profile.
           do_request tr kc PUT (users_path realm @ ''/profile'') profile)))"

definition has_attribute :: "string \<Rightarrow> string \<Rightarrow> json \<Rightarrow> exc + bool" where
  "has_attribute key val u =
     bnd_result (jget ''attributes'' u) (\<lambda>attrs.
     bnd_result (jget_default key (JArr []) (jor attrs (JObj []))) (jcontains val))"

definition find_users_by_attribute ::
  "'k transport \<Rightarrow> keycloak_client \<Rightarrow> string \<Rightarrow> string \<Rightarrow> string \<Rightarrow> ('k web, json list) prog" where
  "find_users_by_attribute tr kc realm key val =
     bnd (request_json tr kc (users_path realm)
            [(''q'', key @ '':'' @ val), (''exact'', ''true''), (''briefRepresentation'', ''false'')]) (\<lambda>found.
     lift_result (bnd_result (jiter found) (filter_result (has_attribute key val))))"

text \<open>\<open>None\<close> for no such user is \<open>JNull\<close>.\<close>

definition find_user_by_username ::
  "'k transport \<Rightarrow> keycloak_client \<Rightarrow> string \<Rightarrow> string \<Rightarrow> ('k web, json) prog" where
  "find_user_by_username tr kc realm username =
     bnd (request_json tr kc (users_path realm) [(''username'', username), (''exact'', ''true'')]) (\<lambda>found.
       if truthy found then lift_result (jfirst found) else ret JNull)"

definition account_payload :: "string \<Rightarrow> int \<Rightarrow> string \<Rightarrow> string \<Rightarrow> json" where
  "account_payload username cnp_user_id first_name last_name =
     JObj [(''username'', JStr username), (''firstName'', JStr first_name), (''lastName'', JStr last_name),
           (''enabled'', JBool True),
           (''attributes'', JObj [(''cnp_user_id'', JArr [JStr (string_of_int cnp_user_id)]),
                                (''cnp_managed'', JArr [JStr ''true''])])]"

definition ensure_cnp_admin_user ::
  "'k transport \<Rightarrow> keycloak_client \<Rightarrow> string \<Rightarrow> string \<Rightarrow> int \<Rightarrow> string \<Rightarrow> string \<Rightarrow> ('k web, string) prog" where
  "ensure_cnp_admin_user tr kc realm username cnp_user_id first_name last_name =
     bnd (enable_unmanaged_user_attributes tr kc realm) (\<lambda>_.
     bnd (find_users_by_attribute tr kc realm ''cnp_user_id'' (string_of_int cnp_user_id)) (\<lambda>existing.
       case existing of
         u # _ \<Rightarrow>
           bnd (lift_result (bnd_result (jitem ''id'' u) jident)) (\<lambda>user_id.
           bnd (do_request tr kc PUT (users_path realm @ ''/'' @ user_id) (JObj [(''enabled'', JBool True)])) (\<lambda>_.
             ret user_id))
       | [] \<Rightarrow>
           bnd (find_user_by_username tr kc realm username) (\<lambda>taken.
             if truthy taken then raise_exc KeycloakConflict
             else
               bnd (do_request tr kc POST (users_path realm)
                      (account_payload username cnp_user_id first_name last_name)) (\<lambda>_.
               bnd (find_users_by_attribute tr kc realm ''cnp_user_id'' (string_of_int cnp_user_id)) (\<lambda>created.
                 case created of
                   [] \<Rightarrow> raise_exc KeycloakErr
                 | u # _ \<Rightarrow> lift_result (bnd_result (jitem ''id'' u) jident))))))"

text \<open>
  \<open>{role["name"]: role for role in ...}\<close> keeps the last role of a name; the comprehensions read
  each role's name in turn.
\<close>

definition role_name :: "json \<Rightarrow> exc + string" where
  "role_name role = bnd_result (jitem ''name'' role) jident"

definition named_roles :: "json \<Rightarrow> exc + (string \<times> json) list" where
  "named_roles j =
     bnd_result (jiter j) (map_result (\<lambda>role. bnd_result (role_name role) (\<lambda>n. Inr (n, role))))"

definition role_mappings_path :: "string \<Rightarrow> string \<Rightarrow> string \<Rightarrow> string" where
  "role_mappings_path realm user_id rm_id =
     users_path realm @ ''/'' @ user_id @ ''/role-mappings/clients/'' @ rm_id"

definition set_team_console_roles ::
  "'k transport \<Rightarrow> keycloak_client \<Rightarrow> string \<Rightarrow> string \<Rightarrow> ('k web, unit) prog" where
  "set_team_console_roles tr kc realm user_id =
     bnd (request_json tr kc (clients_path realm) [(''clientId'', ''realm-management'')]) (\<lambda>rm_clients.
       if \<not> truthy rm_clients then raise_exc KeycloakErr
       else
         bnd (lift_result (bnd_result (bnd_result (jfirst rm_clients) (jitem ''id'')) jident)) (\<lambda>rm_id.
         bnd (request_json tr kc (clients_path realm @ ''/'' @ rm_id @ ''/roles'') []) (\<lambda>roles.
         bnd (lift_result (named_roles roles)) (\<lambda>available.
           if \<exists>name \<in> set TEAM_CONSOLE_ROLES. name \<notin> fst ` set available then raise_exc KeycloakErr
           else
             bnd (request_json tr kc (role_mappings_path realm user_id rm_id) []) (\<lambda>held.
             bnd (lift_result (named_roles held)) (\<lambda>current.
             let extra = map snd (filter (\<lambda>(n, _). n \<notin> set TEAM_CONSOLE_ROLES) current);
                 to_add = map (\<lambda>name. the (map_of (rev available) name))
                            (filter (\<lambda>name. name \<notin> fst ` set current) TEAM_CONSOLE_ROLES)
             in bnd (if extra \<noteq> [] then do_request tr kc DELETE_M (role_mappings_path realm user_id rm_id) (JArr extra)
                     else ret ()) (\<lambda>_.
                if to_add \<noteq> [] then do_request tr kc POST (role_mappings_path realm user_id rm_id) (JArr to_add)
                else ret ())))))))"

definition set_temporary_password ::
  "'k transport \<Rightarrow> keycloak_client \<Rightarrow> string \<Rightarrow> string \<Rightarrow> string \<Rightarrow> ('k web, unit) prog" where
  "set_temporary_password tr kc realm user_id password =
     do_request tr kc PUT (users_path realm @ ''/'' @ user_id @ ''/reset-password'')
       (JObj [(''type'', JStr ''password''), (''value'', JStr password), (''temporary'', JBool True)])"

definition delete_users_by_attribute ::
  "'k transport \<Rightarrow> keycloak_client \<Rightarrow> string \<Rightarrow> string \<Rightarrow> string \<Rightarrow> ('k web, unit) prog" where
  "delete_users_by_attribute tr kc realm key val =
     bnd (find_users_by_attribute tr kc realm key val) (\<lambda>found.
       for_each found (\<lambda>u.
         catch KeycloakNotFound
           (bnd (lift_result (bnd_result (jitem ''id'' u) jident)) (\<lambda>user_id.
              do_request tr kc DELETE_M (users_path realm @ ''/'' @ user_id) JNull))
           (ret ())))"

section \<open>What the operations send\<close>

type_synonym exchange = "http_request \<times> http_response option"

definition is_token_request :: "exchange \<Rightarrow> bool" where
  "is_token_request e \<longleftrightarrow> rq_path (fst e) = ''/realms/master/protocol/openid-connect/token''"

text \<open>A path of the realm itself or of something in it.\<close>

definition below :: "string \<Rightarrow> string \<Rightarrow> bool" where
  "below realm path \<longleftrightarrow> path = realm_path realm \<or> prefix (realm_path realm @ ''/'') path"

definition writes_below :: "string \<Rightarrow> exchange \<Rightarrow> bool" where
  "writes_below realm e \<longleftrightarrow> rq_method (fst e) \<noteq> GET \<and> below realm (rq_path (fst e))"

definition reads_only :: "exchange \<Rightarrow> bool" where
  "reads_only e \<longleftrightarrow> is_token_request e \<or> rq_method (fst e) = GET"

text \<open>An exchange that leaves every realm but this one alone.\<close>

definition only_realm :: "string \<Rightarrow> exchange \<Rightarrow> bool" where
  "only_realm realm e \<longleftrightarrow> reads_only e \<or> below realm (rq_path (fst e))"

lemma reads_only_only_realm: "reads_only e \<Longrightarrow> only_realm realm e"
  by (simp add: only_realm_def)

lemma below_realm_path [simp]: "below realm (realm_path realm)"
  by (simp add: below_def)

lemma below_append [simp]: "below realm (realm_path realm @ CHR ''/'' # p)"
  by (simp add: below_def)

lemma below_paths [simp]:
  "below realm (clients_path realm)" "below realm (clients_path realm @ CHR ''/'' # p)"
  "below realm (users_path realm)" "below realm (users_path realm @ CHR ''/'' # p)"
  "below realm (mappers_path realm i)" "below realm (role_mappings_path realm u i)"
  by (simp_all add: clients_path_def users_path_def mappers_path_def role_mappings_path_def)

lemma not_below_others [simp]:
  "\<not> below realm realms_path" "\<not> below realm ''/realms/master/protocol/openid-connect/token''"
  by (simp_all add: below_def realm_path_def realms_path_def)

lemma appends_modify_no_token [appends_intros]: "appends trace P (modify no_token)"
  by (rule appends_same) (simp add: prog_simps no_token_def)

lemma appends_new_client [appends_intros]: "appends trace P (new_client b c cs)"
  unfolding new_client_def by (intro appends_intros)

lemma appends_send: "(\<And>r. P (rq, r)) \<Longrightarrow> appends trace P (send_request tr kc rq)"
  by (rule appendsI) (simp add: send_request_def split: prod.split)

lemma appends_get_token:
  assumes "\<And>e. is_token_request e \<Longrightarrow> P e"
  shows "appends trace P (get_token tr kc)"
proof -
  have "appends trace P (send_request tr kc (token_request kc))"
    by (rule appends_send) (simp add: assms is_token_request_def token_request_def)
  moreover have "appends trace P (modify (\<lambda>s. s\<lparr>cached_token := t\<rparr>))"
    "appends trace P (modify (\<lambda>s. s\<lparr>token_expires_at := x\<rparr>))" for t x
    by (rule appends_same, simp add: prog_simps)+
  ultimately show ?thesis unfolding get_token_def by (intro appends_intros)
qed

lemma appends_request:
  assumes "\<And>e. is_token_request e \<Longrightarrow> P e"
    and "\<And>e. rq_method (fst e) = m \<Longrightarrow> rq_path (fst e) = path \<Longrightarrow> rq_params (fst e) = params
            \<Longrightarrow> rq_json (fst e) = body \<Longrightarrow> P e"
  shows "appends trace P (request tr kc m path params body)"
proof -
  have "appends trace P (get_token tr kc)" by (rule appends_get_token) (rule assms(1))
  moreover have "appends trace P (send_request tr kc
      \<lparr>rq_method = m, rq_path = path, rq_bearer = t, rq_params = params, rq_json = body\<rparr>)" for t
    by (rule appends_send) (simp add: assms(2))
  ultimately show ?thesis unfolding request_def by (intro appends_intros)
qed

lemma appends_request_json:
  assumes "\<And>e. reads_only e \<Longrightarrow> P e"
  shows "appends trace P (request_json tr kc path params)"
  unfolding request_json_def
  by (intro appends_intros appends_request) (auto intro!: assms simp: reads_only_def)

lemma appends_do_request:
  assumes "\<And>e. is_token_request e \<Longrightarrow> P e"
    and "\<And>e. rq_method (fst e) = m \<Longrightarrow> rq_path (fst e) = path \<Longrightarrow> rq_json (fst e) = body \<Longrightarrow> P e"
  shows "appends trace P (do_request tr kc m path body)"
proof -
  have "appends trace P (request tr kc m path [] body)"
    by (rule appends_request) (simp_all add: assms)
  then show ?thesis unfolding do_request_def by (intro appends_intros)
qed

lemma get_realm_reads [appends_intros]: "appends trace reads_only (get_realm tr kc realm)"
  unfolding get_realm_def by (intro appends_intros appends_request) (auto simp: reads_only_def)

lemma write_only_realm [appends_intros]:
  "below realm path \<Longrightarrow> appends trace (only_realm realm) (do_request tr kc m path body)"
  by (rule appends_do_request) (auto simp: only_realm_def reads_only_def)

lemma read_only_realm [appends_intros]: "appends trace (only_realm realm) (request_json tr kc path params)"
  by (rule appends_request_json) (rule reads_only_only_realm)

lemma get_realm_only_realm [appends_intros]: "appends trace (only_realm realm) (get_realm tr kc r)"
  by (rule appends_mono[OF get_realm_reads]) (rule reads_only_only_realm)

lemma delete_realm_only_realm [appends_intros]: "appends trace (only_realm realm) (delete_realm tr kc realm)"
  unfolding delete_realm_def by (intro appends_intros) simp

lemma disable_admin_cli_only_realm [appends_intros]:
  "appends trace (only_realm realm) (disable_admin_cli_password_grant tr kc realm)"
  unfolding disable_admin_cli_password_grant_def by (intro appends_intros) simp

lemma create_client_only_realm [appends_intros]:
  "appends trace (only_realm realm) (create_client tr kc realm cid pub uris origins)"
  unfolding create_client_def get_client_internal_id_def ensure_audience_mapper_def
  by (intro appends_intros) simp_all

lemma get_client_secret_only_realm [appends_intros]:
  "appends trace (only_realm realm) (get_client_secret tr kc realm i)"
  unfolding get_client_secret_def by (intro appends_intros)

lemma find_users_reads [appends_intros]:
  "appends trace reads_only (find_users_by_attribute tr kc realm key val)"
  unfolding find_users_by_attribute_def by (intro appends_intros appends_request_json)

lemma find_users_only_realm [appends_intros]:
  "appends trace (only_realm realm) (find_users_by_attribute tr kc r key val)"
  by (rule appends_mono[OF find_users_reads]) (rule reads_only_only_realm)

lemma ensure_cnp_admin_user_only_realm [appends_intros]:
  "appends trace (only_realm realm) (ensure_cnp_admin_user tr kc realm username uid f l)"
  unfolding ensure_cnp_admin_user_def enable_unmanaged_user_attributes_def find_user_by_username_def
  by (intro appends_intros) simp_all

lemma set_team_console_roles_only_realm [appends_intros]:
  "appends trace (only_realm realm) (set_team_console_roles tr kc realm user_id)"
  unfolding set_team_console_roles_def Let_def by (intro appends_intros) simp_all

lemma set_temporary_password_only_realm [appends_intros]:
  "appends trace (only_realm realm) (set_temporary_password tr kc realm user_id pw)"
  unfolding set_temporary_password_def by (intro appends_intros) simp

text \<open>
  Deleting the accounts that carry an attribute: every deletion names the id of a user that an
  earlier answer to the search listed with that attribute.
\<close>

definition listed_with :: "string \<Rightarrow> string \<Rightarrow> string \<Rightarrow> string \<Rightarrow> exchange \<Rightarrow> bool" where
  "listed_with realm key val user_id e \<longleftrightarrow>
     rq_method (fst e) = GET \<and> rq_path (fst e) = users_path realm
     \<and> (\<exists>resp j us u. snd e = Some resp \<and> rs_body resp = Some j \<and> jiter j = Inr us \<and> u \<in> set us
          \<and> has_attribute key val u = Inr True \<and> bnd_result (jitem ''id'' u) jident = Inr user_id)"

definition deletes_account :: "string \<Rightarrow> string \<Rightarrow> exchange \<Rightarrow> bool" where
  "deletes_account realm user_id e \<longleftrightarrow>
     rq_method (fst e) = DELETE_M \<and> rq_path (fst e) = users_path realm @ ''/'' @ user_id"

definition tagged_deletions :: "string \<Rightarrow> string \<Rightarrow> string \<Rightarrow> exchange list \<Rightarrow> bool" where
  "tagged_deletions realm key val es \<longleftrightarrow>
     (\<forall>e \<in> set es. reads_only e \<or> (\<exists>user_id. deletes_account realm user_id e
        \<and> (\<exists>e' \<in> set es. listed_with realm key val user_id e')))"

lemma request_answer:
  assumes "request tr kc m path params body s = (Inr resp, s')"
  obtains es rq where "trace s' = trace s @ es @ [(rq, Some resp)]" "rq_method rq = m" "rq_path rq = path"
    "rs_status resp \<noteq> 404" "rs_status resp < 400" "list_all is_token_request es"
proof -
  obtain t s1 where t: "get_token tr kc s = (Inr t, s1)"
    using assms by (cases "get_token tr kc s") (auto simp: request_def prog_simps split: sum.splits)
  have "appends trace is_token_request (get_token tr kc)" by (rule appends_get_token)
  then obtain es where es: "trace s1 = trace s @ es" "list_all is_token_request es"
    using t by (metis appendsE snd_conv)
  let ?rq = "\<lparr>rq_method = m, rq_path = path, rq_bearer = t, rq_params = params, rq_json = body\<rparr>"
  obtain r n where h: "http_send tr (base_url kc) ?rq (net s1) = (r, n)" by fastforce
  from assms t h have "r = Some resp" "s' = s1\<lparr>net := n, trace := trace s1 @ [(?rq, r)]\<rparr>"
    "rs_status resp \<noteq> 404" "rs_status resp < 400"
    by (auto simp: request_def prog_simps send_request_def split: option.splits if_splits)
  with es show ?thesis by (intro that[of es ?rq]) auto
qed

lemma request_json_answer:
  assumes "request_json tr kc path params s = (Inr j, s')"
  obtains es rq resp where "trace s' = trace s @ es @ [(rq, Some resp)]" "rq_method rq = GET" "rq_path rq = path"
    "rs_body resp = Some j" "list_all is_token_request es"
proof -
  obtain r s1 where r: "request tr kc GET path params JNull s = (r, s1)" by fastforce
  with assms obtain resp where resp: "r = Inr resp" "response_json resp = Inr j" "s1 = s'"
    by (cases r) (auto simp: request_json_def prog_simps)
  from request_answer[OF r[unfolded resp(1)]] obtain es rq where
    "trace s1 = trace s @ es @ [(rq, Some resp)]" "rq_method rq = GET" "rq_path rq = path"
    "list_all is_token_request es" by blast
  with resp show ?thesis by (intro that) (auto simp: response_json_def split: option.splits)
qed

lemma delete_users_tagged:
  "\<exists>es. trace (snd (delete_users_by_attribute tr kc realm key val s)) = trace s @ es
      \<and> tagged_deletions realm key val es"
proof -
  obtain r s1 where f: "find_users_by_attribute tr kc realm key val s = (r, s1)" by fastforce
  obtain es where es: "trace s1 = trace s @ es" "list_all reads_only es"
    using appendsE[OF find_users_reads] f by (metis snd_conv)
  show ?thesis
  proof (cases r)
    case (Inl e)
    with f es show ?thesis
      by (intro exI[of _ es]) (auto simp: delete_users_by_attribute_def prog_simps tagged_deletions_def list_all_iff)
  next
    case (Inr found)
    let ?P = "\<lambda>e. is_token_request e \<or> (\<exists>u \<in> set found. \<exists>user_id. bnd_result (jitem ''id'' u) jident = Inr user_id
        \<and> deletes_account realm user_id e)"
    let ?del = "\<lambda>u. catch KeycloakNotFound
           (bnd (lift_result (bnd_result (jitem ''id'' u) jident)) (\<lambda>user_id.
              do_request tr kc DELETE_M (users_path realm @ ''/'' @ user_id) JNull)) (ret ())"
    have step: "appends trace ?P (?del u)" if u: "u \<in> set found" for u
    proof (cases "bnd_result (jitem ''id'' u) jident")
      case (Inl e)
      then show ?thesis by (intro appends_catch appends_ret appends_same) (simp add: prog_simps)
    next
      case (Inr user_id)
      have "appends trace ?P (do_request tr kc DELETE_M (users_path realm @ ''/'' @ user_id) JNull)"
        by (rule appends_do_request) (use u Inr in \<open>auto simp: deletes_account_def\<close>)
      moreover have "bnd (lift_result (Inr user_id)) k = k user_id" for k :: "string \<Rightarrow> ('a web, unit) prog"
        by (simp add: fun_eq_iff prog_simps)
      ultimately show ?thesis unfolding Inr by (auto intro: appends_catch appends_ret)
    qed
    have "appends trace ?P (for_each found ?del)" by (rule appends_for_each) (rule step)
    then obtain ds where ds: "trace (snd (for_each found ?del s1)) = trace s1 @ ds" "list_all ?P ds"
      by (rule appendsE)
    have run: "snd (delete_users_by_attribute tr kc realm key val s) = snd (for_each found ?del s1)"
      using f Inr by (simp add: delete_users_by_attribute_def prog_simps)
    from f Inr obtain j where j: "request_json tr kc (users_path realm)
            [(''q'', key @ '':'' @ val), (''exact'', ''true''), (''briefRepresentation'', ''false'')] s = (Inr j, s1)"
      and flt: "bnd_result (jiter j) (filter_result (has_attribute key val)) = Inr found"
      by (auto simp: find_users_by_attribute_def prog_simps split: sum.splits prod.splits)
    from request_json_answer[OF j] obtain es1 rq resp where
      ans: "trace s1 = trace s @ es1 @ [(rq, Some resp)]" "rq_method rq = GET" "rq_path rq = users_path realm"
        "rs_body resp = Some j" by metis
    from flt obtain us where us: "jiter j = Inr us" "filter_result (has_attribute key val) us = Inr found"
      by (auto simp: bnd_result_def split: sum.splits)
    have listed: "listed_with realm key val user_id (rq, Some resp)"
      if "u \<in> set found" "bnd_result (jitem ''id'' u) jident = Inr user_id" for u user_id
      using that ans us filter_result_sound[OF us(2) that(1)] by (auto simp: listed_with_def)
    have "(rq, Some resp) \<in> set es" using ans(1) es(1) by simp
    with listed ds(2) es(2) have "tagged_deletions realm key val (es @ ds)"
      unfolding tagged_deletions_def list_all_iff set_append
      by (metis UnCI UnE reads_only_def)
    with run ds(1) es(1) show ?thesis by (intro exI[of _ "es @ ds"]) simp
  qed
qed

end
