(* ===== verification/Keycloak_Instances.thy ===== *)
theory Keycloak_Instances
  imports Keycloak_Client Env_Vars Urls
begin

text \<open>
  backend/services/keycloak_instance_service.py, the request validation of shared/models.py and the
  administrators' routes of backend/api/routes/keycloak_instances.py: the registry of Keycloak
  instances, one per cluster, the choice of the instance an application uses, and the writes an
  administrator may make. Lemmas: a refused write changes nothing, a linked instance keeps its
  issuer.
\<close>

section \<open>The world of the identity services\<close>

record ('v, 'k) identity_world = "'v services" +
  web :: "'k web"

record ('v, 'k) identity_env =
  hvac_of :: "'v hvac"
  http_of :: "'k transport"
  ip_literal_ok :: "string \<Rightarrow> bool"
  KEYCLOAK_ENABLED :: bool
  KEYCLOAK_URL :: string
  KEYCLOAK_PUBLIC_URL :: string
  KEYCLOAK_ADMIN_CLIENT_ID :: string
  KEYCLOAK_ADMIN_CLIENT_SECRET :: "string option"

definition on_web :: "('k web, 'a) prog \<Rightarrow> (('v, 'k) identity_world, 'a) prog" where
  "on_web m = (\<lambda>w. case m (web w) of (r, k) \<Rightarrow> (r, w\<lparr>web := k\<rparr>))"

lemma on_web_apply [prog_simps]: "on_web m w = (fst (m (web w)), w\<lparr>web := snd (m (web w))\<rparr>)"
  by (simp add: on_web_def split: prod.split)

definition w_trace :: "('v, 'k) identity_world \<Rightarrow> exchange list" where
  "w_trace w = trace (web w)"

text \<open>
  A commit fails when the constraints of the tables do not hold: unique instance keys and clusters,
  a cluster and an instance that exist behind each reference.
\<close>

definition registry_ok :: "database \<Rightarrow> bool" where
  "registry_ok d \<longleftrightarrow>
     unique_on ki_instance_key (keycloak_instances d)
   \<and> distinct (filter (\<lambda>c. c \<noteq> None) (map ki_cluster_id (rows (keycloak_instances d))))
   \<and> (\<forall>r \<in> set (rows (keycloak_instances d)). case ki_cluster_id r of None \<Rightarrow> True | Some c \<Rightarrow> get_cluster_row c d \<noteq> None)
   \<and> (\<forall>a \<in> set (rows (applications d)). case app_auth_instance_key a of None \<Rightarrow> True
        | Some k \<Rightarrow> k \<in> ki_instance_key ` set (rows (keycloak_instances d)))"

lemma registry_ok_iff:
  "registry_ok d \<longleftrightarrow>
     unique_on ki_instance_key (keycloak_instances d)
   \<and> distinct (filter (\<lambda>c. c \<noteq> None) (map ki_cluster_id (rows (keycloak_instances d))))
   \<and> (\<forall>r \<in> set (rows (keycloak_instances d)). \<forall>c. ki_cluster_id r = Some c \<longrightarrow> get_cluster_row c d \<noteq> None)
   \<and> (\<forall>a \<in> set (rows (applications d)). \<forall>k. app_auth_instance_key a = Some k
        \<longrightarrow> k \<in> ki_instance_key ` set (rows (keycloak_instances d)))"
proof -
  have i: "(case x of None \<Rightarrow> True | Some c \<Rightarrow> P c) \<longleftrightarrow> (\<forall>c. x = Some c \<longrightarrow> P c)" for x :: "int option" and P
    by (cases x) auto
  have s: "(case x of None \<Rightarrow> True | Some c \<Rightarrow> P c) \<longleftrightarrow> (\<forall>c. x = Some c \<longrightarrow> P c)" for x :: "string option" and P
    by (cases x) auto
  show ?thesis unfolding registry_ok_def i s ..
qed

definition commit_checked :: "(session, unit) prog" where
  "commit_checked = (\<lambda>s. if registry_ok (db s) then (Inr (), commit s) else (Inl IntegrityError, s))"

section \<open>Validation of a registry request\<close>

record instance_upsert =
  iu_cluster_id :: "int option"
  iu_public_url :: string
  iu_admin_url :: string
  iu_admin_client_id :: string
  iu_provisioner_secret_ref :: string
  iu_enabled :: bool

definition strip_slashes :: "string \<Rightarrow> string" where
  "strip_slashes = rstrip (\<lambda>c. c = CHR ''/'')"

definition validate_url :: "(string \<Rightarrow> bool) \<Rightarrow> bool \<Rightarrow> string \<Rightarrow> exc + string" where
  "validate_url ip_ok is_public val =
     (case urlsplit ip_ok val of
        Inl e \<Rightarrow> Inl e
      | Inr parsed \<Rightarrow>
          if url_scheme parsed \<notin> set (if is_public then [''https''] else [''http'', ''https''])
             \<or> \<not> truthy_str (url_hostname parsed) \<or> url_username parsed \<noteq> None \<or> url_password parsed \<noteq> None
             \<or> url_query parsed \<noteq> [] \<or> url_fragment parsed \<noteq> []
             \<or> (\<exists>c \<in> set val. py_isspace c \<or> (of_char c :: nat) < 32)
          then Inl ValueError
          else (case url_port parsed of Inl e \<Rightarrow> Inl ValueError | Inr _ \<Rightarrow> Inr (strip_slashes val)))"

definition validate_client_id :: "string \<Rightarrow> exc + string" where
  "validate_client_id val =
     (if val \<noteq> [] \<and> length val \<le> 128
         \<and> list_all (\<lambda>c. is_az c \<or> is_AZ c \<or> is_09 c \<or> c = CHR ''_'' \<or> c = CHR ''-'') val
      then Inr val else Inl ValueError)"

definition parse_upsert :: "(string \<Rightarrow> bool) \<Rightarrow> instance_upsert \<Rightarrow> exc + instance_upsert" where
  "parse_upsert ip_ok body =
     bnd_result (validate_url ip_ok True (iu_public_url body)) (\<lambda>public_url.
     bnd_result (validate_url ip_ok False (iu_admin_url body)) (\<lambda>admin_url.
     bnd_result (validate_client_id (iu_admin_client_id body)) (\<lambda>client_id.
       Inr (body\<lparr>iu_public_url := public_url, iu_admin_url := admin_url, iu_admin_client_id := client_id\<rparr>))))"

definition validate_for_key :: "(string \<Rightarrow> bool) \<Rightarrow> instance_upsert \<Rightarrow> string \<Rightarrow> exc + unit" where
  "validate_for_key ip_ok payload key =
     bnd_result (validate_keycloak_instance_key key) (\<lambda>_.
     bnd_result (any_result (\<lambda>url. bnd_result (urlsplit ip_ok url) (\<lambda>u. Inr (url_path u \<noteq> ''/clusters/'' @ key)))
                   [iu_public_url payload, iu_admin_url payload]) (\<lambda>bad.
       if bad then Inl ValueError
       else if iu_provisioner_secret_ref payload \<noteq> ''cnp/keycloak/'' @ key @ ''/provisioner'' then Inl ValueError
       else Inr ()))"

section \<open>Choosing the instance of an application\<close>

record resolved_keycloak =
  rk_instance_key :: "string option"
  rk_public_url :: string
  rk_admin_url :: string
  rk_client_id :: string
  rk_client_secret :: string

definition unavailable :: exc where
  "unavailable = HTTPException 503"

definition get_instance_row :: "string \<Rightarrow> database \<Rightarrow> keycloak_instance option" where
  "get_instance_row key d = find_row (\<lambda>r. ki_instance_key r = key) (keycloak_instances d)"

definition cluster_instance :: "int \<Rightarrow> database \<Rightarrow> keycloak_instance option" where
  "cluster_instance c d = find_row (\<lambda>r. ki_cluster_id r = Some c) (keycloak_instances d)"

definition get_instance :: "string \<Rightarrow> (('v, 'k) identity_world, keycloak_instance) prog" where
  "get_instance key =
     bnd (from_db (get_instance_row key)) (\<lambda>row.
       case row of None \<Rightarrow> raise_exc (HTTPException 404) | Some r \<Rightarrow> ret r)"

definition list_instances :: "(('v, 'k) identity_world, keycloak_instance list) prog" where
  "list_instances = from_db (\<lambda>d. sort_key ki_instance_key (rows (keycloak_instances d)))"

definition connection_of ::
  "('v, 'k) identity_env \<Rightarrow> keycloak_instance \<Rightarrow> (('v, 'k) identity_world, resolved_keycloak) prog" where
  "connection_of env row =
     (if \<not> ki_enabled row then raise_exc unavailable
      else
        bnd (try_except
               (bnd (on_vault (get_secret (hvac_of env) (ki_provisioner_secret_ref row))) (\<lambda>data.
                  case map_of data ''client_secret'' of
                    None \<Rightarrow> raise_exc KeyError
                  | Some secret \<Rightarrow> if secret = [] then raise_exc ValueError else ret secret))
               (\<lambda>_. raise_exc unavailable)) (\<lambda>secret.
          ret \<lparr>rk_instance_key = Some (ki_instance_key row), rk_public_url = ki_public_url row,
               rk_admin_url = ki_admin_url row, rk_client_id = ki_admin_client_id row,
               rk_client_secret = secret\<rparr>))"

definition legacy :: "('v, 'k) identity_env \<Rightarrow> exc + resolved_keycloak" where
  "legacy env =
     (if \<not> KEYCLOAK_ENABLED env \<or> \<not> truthy_str (KEYCLOAK_ADMIN_CLIENT_SECRET env) then Inl unavailable
      else Inr \<lparr>rk_instance_key = None, rk_public_url = strip_slashes (KEYCLOAK_PUBLIC_URL env),
                rk_admin_url = strip_slashes (KEYCLOAK_URL env), rk_client_id = KEYCLOAK_ADMIN_CLIENT_ID env,
                rk_client_secret = the (KEYCLOAK_ADMIN_CLIENT_SECRET env)\<rparr>)"

definition resolve_for_app ::
  "('v, 'k) identity_env \<Rightarrow> application \<Rightarrow> (('v, 'k) identity_world, resolved_keycloak) prog" where
  "resolve_for_app env app =
     (if truthy_str (app_auth_instance_key app) then
        bnd (from_db (get_instance_row (the (app_auth_instance_key app)))) (\<lambda>row.
          case row of None \<Rightarrow> raise_exc unavailable | Some r \<Rightarrow> connection_of env r)
      else if app_auth_enabled app then lift_result (legacy env)
      else (case app_target_cluster_id app of
          None \<Rightarrow> lift_result (legacy env)
        | Some c \<Rightarrow>
            bnd (from_db (cluster_instance c)) (\<lambda>row.
              case row of None \<Rightarrow> lift_result (legacy env) | Some r \<Rightarrow> connection_of env r)))"

text \<open>
  The application object of a request, by its id: its attributes are those of its row in the
  session. Every caller has loaded the row; a missing row is an error of the session.
\<close>

definition app_object :: "int \<Rightarrow> (('v, 'k) identity_world, application) prog" where
  "app_object aid =
     bnd (from_db (get_application aid)) (\<lambda>a. case a of None \<Rightarrow> raise_exc AttributeError | Some app \<Rightarrow> ret app)"

definition set_app ::
  "int \<Rightarrow> (application \<Rightarrow> application) \<Rightarrow> (('v, 'k) identity_world, unit) prog" where
  "set_app aid f = on_sess (modify (\<lambda>s. s\<lparr>db := update_application aid f (db s)\<rparr>))"

definition commit_world :: "(('v, 'k) identity_world, unit) prog" where
  "commit_world = on_sess (modify commit)"

definition bind_for_activation ::
  "('v, 'k) identity_env \<Rightarrow> int \<Rightarrow> (('v, 'k) identity_world, resolved_keycloak) prog" where
  "bind_for_activation env aid =
     bnd (app_object aid) (\<lambda>app.
     bnd (resolve_for_app env app) (\<lambda>resolved.
     bnd (set_app aid (\<lambda>a. a\<lparr>app_auth_instance_key := rk_instance_key resolved\<rparr>)) (\<lambda>_.
     bnd commit_world (\<lambda>_. ret resolved))))"

datatype instance_source = CLUSTER_SOURCE | LEGACY_SOURCE

record instance_summary =
  is_instance_key :: "string option"
  is_cluster_id :: "int option"
  is_cluster_name :: "string option"
  is_public_url :: string
  is_enabled :: bool
  is_source :: instance_source

definition summary_row :: "application \<Rightarrow> database \<Rightarrow> keycloak_instance option" where
  "summary_row app d =
     (if truthy_str (app_auth_instance_key app) then get_instance_row (the (app_auth_instance_key app)) d
      else if \<not> app_auth_enabled app \<and> app_target_cluster_id app \<noteq> None
      then cluster_instance (the (app_target_cluster_id app)) d
      else None)"

definition summary_for_app :: "('v, 'k) identity_env \<Rightarrow> application \<Rightarrow> database \<Rightarrow> instance_summary option" where
  "summary_for_app env app d =
     (case summary_row app d of
        Some row \<Rightarrow>
          Some \<lparr>is_instance_key = Some (ki_instance_key row), is_cluster_id = ki_cluster_id row,
                is_cluster_name = (case ki_cluster_id row of
                    None \<Rightarrow> None | Some c \<Rightarrow> map_option cl_name (get_cluster_row c d)),
                is_public_url = ki_public_url row, is_enabled = ki_enabled row, is_source = CLUSTER_SOURCE\<rparr>
      | None \<Rightarrow>
          if \<not> truthy_str (app_auth_instance_key app) \<and> (app_auth_enabled app \<or> KEYCLOAK_ENABLED env)
          then Some \<lparr>is_instance_key = None, is_cluster_id = None, is_cluster_name = None,
                     is_public_url = strip_slashes (KEYCLOAK_PUBLIC_URL env),
                     is_enabled = (KEYCLOAK_ENABLED env \<and> truthy_str (KEYCLOAK_ADMIN_CLIENT_SECRET env)),
                     is_source = LEGACY_SOURCE\<rparr>
          else None)"

section \<open>Writing the registry\<close>

definition linked :: "string \<Rightarrow> database \<Rightarrow> bool" where
  "linked key d \<longleftrightarrow> select_rows (\<lambda>a. app_auth_instance_key a = Some key) (applications d) \<noteq> []"

definition instance_of_payload :: "string \<Rightarrow> instance_upsert \<Rightarrow> keycloak_instance" where
  "instance_of_payload key payload =
     \<lparr>ki_instance_key = key, ki_cluster_id = iu_cluster_id payload, ki_public_url = iu_public_url payload,
      ki_admin_url = iu_admin_url payload, ki_admin_client_id = iu_admin_client_id payload,
      ki_provisioner_secret_ref = iu_provisioner_secret_ref payload, ki_enabled = iu_enabled payload\<rparr>"

definition write_instance :: "string \<Rightarrow> instance_upsert \<Rightarrow> database \<Rightarrow> database" where
  "write_instance key payload d =
     d\<lparr>keycloak_instances :=
         (if get_instance_row key d = None
          then insert_row (\<lambda>_. instance_of_payload key payload) (keycloak_instances d)
          else update_rows (\<lambda>r. ki_instance_key r = key) (\<lambda>_. instance_of_payload key payload)
                 (keycloak_instances d))\<rparr>"

text \<open>The check that an enabled instance can be reached with its credential.\<close>

definition check_reachable ::
  "('v, 'k) identity_env \<Rightarrow> keycloak_instance \<Rightarrow> (('v, 'k) identity_world, unit) prog" where
  "check_reachable env candidate =
     bnd (connection_of env candidate) (\<lambda>connection.
       try_except
         (bnd (on_web (new_client (rk_admin_url connection) (rk_client_id connection)
                         (rk_client_secret connection))) (\<lambda>kc.
          bnd (on_web (get_realm (http_of env) kc ''master'')) (\<lambda>realm.
            if \<not> truthy realm then raise_exc unavailable else ret ())))
         (\<lambda>_. raise_exc unavailable))"

definition commit_or :: "nat \<Rightarrow> (('v, 'k) identity_world, unit) prog" where
  "commit_or code =
     on_sess (catch IntegrityError commit_checked
                (bnd (modify rollback) (\<lambda>_. raise_exc (HTTPException code))))"

definition upsert ::
  "('v, 'k) identity_env \<Rightarrow> string \<Rightarrow> instance_upsert \<Rightarrow> bool \<Rightarrow> (('v, 'k) identity_world, keycloak_instance) prog" where
  "upsert env key payload create_only =
     (case validate_for_key (ip_literal_ok env) payload key of
        Inl _ \<Rightarrow> raise_exc (HTTPException 422)
      | Inr _ \<Rightarrow>
          bnd (from_db (get_instance_row key)) (\<lambda>row.
            if row \<noteq> None \<and> create_only then raise_exc (HTTPException 412)
            else
              bnd (from_db (\<lambda>d. case iu_cluster_id payload of None \<Rightarrow> False | Some c \<Rightarrow> get_cluster_row c d = None)) (\<lambda>no_cluster.
                if no_cluster then raise_exc (HTTPException 422)
                else
                  bnd (from_db (linked key)) (\<lambda>is_linked.
                    if is_linked \<and> (case row of None \<Rightarrow> False | Some r \<Rightarrow> ki_public_url r \<noteq> iu_public_url payload)
                    then raise_exc (HTTPException 409)
                    else
                      bnd (if iu_enabled payload then check_reachable env (instance_of_payload key payload)
                           else ret ()) (\<lambda>_.
                      bnd (on_sess (modify (\<lambda>s. s\<lparr>db := write_instance key payload (db s)\<rparr>))) (\<lambda>_.
                      bnd (commit_or (if create_only then 412 else 409)) (\<lambda>_.
                        ret (instance_of_payload key payload))))))))"

definition delete_instance_row :: "string \<Rightarrow> database \<Rightarrow> database" where
  "delete_instance_row key d =
     d\<lparr>keycloak_instances := delete_rows (\<lambda>r. ki_instance_key r = key) (keycloak_instances d)\<rparr>"

definition delete_instance :: "string \<Rightarrow> (('v, 'k) identity_world, unit) prog" where
  "delete_instance key =
     (case validate_keycloak_instance_key key of
        Inl _ \<Rightarrow> raise_exc (HTTPException 422)
      | Inr _ \<Rightarrow>
          bnd (get_instance key) (\<lambda>_.
          bnd (from_db (linked key)) (\<lambda>is_linked.
            if is_linked then raise_exc (HTTPException 409)
            else
              bnd (on_sess (modify (\<lambda>s. s\<lparr>db := delete_instance_row key (db s)\<rparr>))) (\<lambda>_.
                commit_or 409))))"

section \<open>The administrators' routes\<close>

definition upsert_instance_route ::
  "('v, 'k) identity_env \<Rightarrow> user \<Rightarrow> string \<Rightarrow> instance_upsert \<Rightarrow> string option
     \<Rightarrow> (('v, 'k) identity_world, keycloak_instance) prog" where
  "upsert_instance_route env current_user key body if_none_match =
     bnd (lift_result (require_admin current_user)) (\<lambda>u.
     case parse_upsert (ip_literal_ok env) body of
       Inl _ \<Rightarrow> raise_exc (HTTPException 422)
     | Inr payload \<Rightarrow>
         if if_none_match \<noteq> None \<and> if_none_match \<noteq> Some ''*'' then raise_exc (HTTPException 422)
         else
           bnd (upsert env key payload (if_none_match = Some ''*'')) (\<lambda>result.
           bnd (on_sess (log_action (usr_id u) ''keycloak.instance.upsert'' None)) (\<lambda>_.
           bnd commit_world (\<lambda>_. ret result))))"

definition delete_instance_route :: "user \<Rightarrow> string \<Rightarrow> (('v, 'k) identity_world, unit) prog" where
  "delete_instance_route current_user key =
     bnd (lift_result (require_admin current_user)) (\<lambda>u.
     bnd (delete_instance key) (\<lambda>_.
     bnd (on_sess (log_action (usr_id u) ''keycloak.instance.delete'' None)) (\<lambda>_.
       commit_world)))"

definition list_instances_route :: "user \<Rightarrow> (('v, 'k) identity_world, keycloak_instance list) prog" where
  "list_instances_route current_user =
     bnd (lift_result (require_admin current_user)) (\<lambda>_. list_instances)"

definition get_instance_route :: "user \<Rightarrow> string \<Rightarrow> (('v, 'k) identity_world, keycloak_instance) prog" where
  "get_instance_route current_user key =
     bnd (lift_result (require_admin current_user)) (\<lambda>_. get_instance key)"

section \<open>What a registry write does\<close>

lemma connection_of_frame:
  "sess (snd (connection_of env r w)) = sess w" "vault (snd (connection_of env r w)) = vault w"
  "web (snd (connection_of env r w)) = web w"
  by (auto simp: connection_of_def prog_simps get_secret_def split: sum.splits option.splits)

lemma connection_of_error: "fst (connection_of env r w) = Inl e \<Longrightarrow> e = unavailable"
  by (auto simp: connection_of_def prog_simps get_secret_def split: sum.splits option.splits if_splits)

lemma connection_of_state: "connection_of env r w = (x, w') \<Longrightarrow> w' = w"
  using connection_of_frame[of env r w] by (cases w; cases w') simp

lemma resolve_for_app_state: "resolve_for_app env app w = (x, w') \<Longrightarrow> w' = w"
  by (auto simp: resolve_for_app_def prog_simps dest: connection_of_state split: if_splits option.splits)

lemma resolve_for_app_error: "fst (resolve_for_app env app w) = Inl e \<Longrightarrow> e = unavailable"
  by (auto simp: resolve_for_app_def prog_simps legacy_def dest: connection_of_error
      split: if_splits option.splits)

lemma check_reachable_effect:
  assumes "check_reachable env cand w = (r, w')"
  shows "sess w' = sess w \<and> vault w' = vault w \<and> (\<forall>e. r = Inl e \<longrightarrow> e = unavailable)"
proof -
  obtain c w1 where c: "connection_of env cand w = (c, w1)" by fastforce
  from connection_of_state[OF c] have w1: "w1 = w" .
  show ?thesis
  proof (cases c)
    case (Inl e)
    with assms c w1 connection_of_error[of env cand w e] show ?thesis
      by (auto simp: check_reachable_def prog_simps)
  next
    case (Inr conn)
    with assms c w1 show ?thesis
      by (auto simp: check_reachable_def prog_simps split: sum.splits if_splits)
  qed
qed

lemma commit_or_effect:
  "commit_or n w = (if registry_ok (db (sess w)) then (Inr (), w\<lparr>sess := commit (sess w)\<rparr>)
                    else (Inl (HTTPException n), w\<lparr>sess := rollback (sess w)\<rparr>))"
  by (auto simp: commit_or_def prog_simps catch_def commit_checked_def)

definition settled :: "('v, 'k) identity_world \<Rightarrow> bool" where
  "settled w \<longleftrightarrow> saved (sess w) = db (sess w)"

lemma write_then_commit:
  assumes "settled w"
  shows "bnd (on_sess (modify (\<lambda>s. s\<lparr>db := f (db s)\<rparr>))) (\<lambda>_. bnd (commit_or n) (\<lambda>_. ret x)) w =
    (if registry_ok (f (db (sess w))) then (Inr x, w\<lparr>sess := open_session (f (db (sess w)))\<rparr>)
     else (Inl (HTTPException n), w))"
  using assms
  by (auto simp: prog_simps commit_or_effect commit_def rollback_def open_session_def settled_def)

lemma upsert_effect:
  assumes "settled w" and "upsert env key payload create_only w = (r, w')"
  shows "(\<exists>e. r = Inl e \<and> sess w' = sess w \<and> vault w' = vault w
            \<and> e \<in> {HTTPException 422, HTTPException 412, HTTPException 409, unavailable})
       \<or> (r = Inr (instance_of_payload key payload)
            \<and> sess w' = open_session (write_instance key payload (db (sess w)))
            \<and> registry_ok (write_instance key payload (db (sess w)))
            \<and> (\<forall>row. linked key (db (sess w)) \<longrightarrow> get_instance_row key (db (sess w)) = Some row
                 \<longrightarrow> ki_public_url row = iu_public_url payload))"
proof -
  let ?d = "db (sess w)"
  define checks where "checks = (if iu_enabled payload
      then check_reachable env (instance_of_payload key payload) else ret ())"
  obtain c w1 where c: "checks w = (c, w1)" by fastforce
  have frame: "sess w1 = sess w" "vault w1 = vault w" "\<forall>e. c = Inl e \<longrightarrow> e = unavailable"
    using c check_reachable_effect[of env "instance_of_payload key payload" w c w1]
    by (auto simp: checks_def prog_simps split: if_splits)
  have s1: "settled w1" using assms(1) frame(1) by (simp add: settled_def)
  show ?thesis
  proof (cases "isl (validate_for_key (ip_literal_ok env) payload key)
      \<or> (get_instance_row key ?d \<noteq> None \<and> create_only)
      \<or> (case iu_cluster_id payload of None \<Rightarrow> False | Some c \<Rightarrow> get_cluster_row c ?d = None)
      \<or> (linked key ?d \<and> (case get_instance_row key ?d of None \<Rightarrow> False | Some r \<Rightarrow> ki_public_url r \<noteq> iu_public_url payload))")
    case True
    then have "\<exists>e. r = Inl e \<and> w' = w \<and> e \<in> {HTTPException 422, HTTPException 412, HTTPException 409}"
      using assms(2) by (auto simp: upsert_def prog_simps isl_def split: sum.splits if_splits)
    then show ?thesis by blast
  next
    case False
    have run: "upsert env key payload create_only w =
        (case checks w of (Inl e, w1) \<Rightarrow> (Inl e, w1)
         | (Inr _, w1) \<Rightarrow> bnd (on_sess (modify (\<lambda>s. s\<lparr>db := write_instance key payload (db s)\<rparr>))) (\<lambda>_.
              bnd (commit_or (if create_only then 412 else 409)) (\<lambda>_. ret (instance_of_payload key payload))) w1)"
      using False by (cases "validate_for_key (ip_literal_ok env) payload key")
        (auto simp: upsert_def bnd_apply from_db_apply checks_def)
    show ?thesis
    proof (cases c)
      case (Inl e)
      with run c assms(2) frame show ?thesis by auto
    next
      case (Inr u)
      have "(r, w') = (if registry_ok (write_instance key payload ?d)
          then (Inr (instance_of_payload key payload), w1\<lparr>sess := open_session (write_instance key payload ?d)\<rparr>)
          else (Inl (HTTPException (if create_only then 412 else 409)), w1))"
        using run c Inr assms(2)
          write_then_commit[OF s1, of "write_instance key payload" "if create_only then 412 else 409"
            "instance_of_payload key payload"] frame(1) by (simp del: if_split)
      with frame(1,2) False show ?thesis by (auto split: if_splits)
    qed
  qed
qed

lemma delete_instance_effect:
  assumes "settled w" and "delete_instance key w = (r, w')"
  shows "(\<exists>e. r = Inl e \<and> w' = w \<and> e \<in> {HTTPException 422, HTTPException 404, HTTPException 409})
       \<or> (r = Inr () \<and> w' = w\<lparr>sess := open_session (delete_instance_row key (db (sess w)))\<rparr>
            \<and> registry_ok (delete_instance_row key (db (sess w))) \<and> \<not> linked key (db (sess w)))"
proof -
  have ww: "w\<lparr>sess := sess w\<rparr> = w" by simp
  show ?thesis using assms
    by (auto simp: delete_instance_def prog_simps get_instance_def commit_or_effect settled_def ww
        commit_def rollback_def open_session_def split: sum.splits option.splits if_splits)
qed

lemma get_instance_write:
  "get_instance_row k (write_instance key payload d) =
     (if k = key then Some (instance_of_payload key payload) else get_instance_row k d)"
proof -
  let ?row = "instance_of_payload key payload"
  have key: "ki_instance_key ?row = key" by (simp add: instance_of_payload_def)
  have upd: "find_row (\<lambda>r. ki_instance_key r = k) (update_rows (\<lambda>r. ki_instance_key r = key) (\<lambda>_. ?row) t)
      = (if k = key then map_option (\<lambda>_. ?row) (find_row (\<lambda>r. ki_instance_key r = k) t)
         else find_row (\<lambda>r. ki_instance_key r = k) t)" for t
  proof -
    have "List.find (\<lambda>r. ki_instance_key r = k) (map (\<lambda>r. if ki_instance_key r = key then ?row else r) xs)
      = (if k = key then map_option (\<lambda>_. ?row) (List.find (\<lambda>r. ki_instance_key r = k) xs)
         else List.find (\<lambda>r. ki_instance_key r = k) xs)" for xs
      using key by (induction xs) auto
    then show ?thesis by (simp add: find_row_def table_simps)
  qed
  show ?thesis
  proof (cases "get_instance_row key d")
    case None
    with key show ?thesis
      by (auto simp: get_instance_row_def write_instance_def find_insert_row split: option.splits)
  next
    case (Some old)
    with upd show ?thesis by (simp add: get_instance_row_def write_instance_def)
  qed
qed

text \<open>
  A registry write that is refused answers 422, 412, 409 or 503 and changes neither the
  database nor Vault; one that succeeds commits exactly the row of the request under its key,
  keeps the constraints of the tables, and did not change the issuer of an instance that
  applications are linked to.
\<close>

theorem upsert_all_or_nothing:
  assumes "saved (sess w) = db (sess w)" and "upsert env key payload create_only w = (r, w')"
  shows "(case r of
       Inl e \<Rightarrow> sess w' = sess w \<and> vault w' = vault w
              \<and> e \<in> {HTTPException 422, HTTPException 412, HTTPException 409, HTTPException 503}
     | Inr row \<Rightarrow> row = instance_of_payload key payload
              \<and> sess w' = open_session (write_instance key payload (db (sess w)))
              \<and> registry_ok (saved (sess w')) \<and> get_instance_row key (saved (sess w')) = Some row
              \<and> (\<forall>k. k \<noteq> key \<longrightarrow> get_instance_row k (saved (sess w')) = get_instance_row k (db (sess w)))
              \<and> (\<forall>old. linked key (db (sess w)) \<and> get_instance_row key (db (sess w)) = Some old
                   \<longrightarrow> ki_public_url old = ki_public_url row))"
proof -
  have "settled w" using assms(1) by (simp add: settled_def)
  from upsert_effect[OF this assms(2)] show ?thesis
    by (auto simp: unavailable_def open_session_def get_instance_write instance_of_payload_def)
qed

section \<open>Sequences of requests\<close>

datatype registry_request =
    PUT_INSTANCE user string instance_upsert "string option"
  | DELETE_INSTANCE user string

text \<open>Each request has a session of its own, opened on what is committed.\<close>

definition serve ::
  "('v, 'k) identity_env \<Rightarrow> registry_request \<Rightarrow> ('v, 'k) identity_world \<Rightarrow> ('v, 'k) identity_world" where
  "serve env rq w =
     (let w0 = w\<lparr>sess := open_session (saved (sess w))\<rparr> in
      case rq of
        PUT_INSTANCE u key body precondition \<Rightarrow> snd (upsert_instance_route env u key body precondition w0)
      | DELETE_INSTANCE u key \<Rightarrow> snd (delete_instance_route u key w0))"

definition issuer_of :: "string \<Rightarrow> database \<Rightarrow> string option" where
  "issuer_of key d = map_option ki_public_url (get_instance_row key d)"

lemma issuer_of_audit [simp]:
  "issuer_of k (d\<lparr>audit_logs := t\<rparr>) = issuer_of k d" "linked k (d\<lparr>audit_logs := t\<rparr>) = linked k d"
  "applications (d\<lparr>audit_logs := t\<rparr>) = applications d"
  by (simp_all add: issuer_of_def get_instance_row_def linked_def)

lemma linked_applications: "applications d' = applications d \<Longrightarrow> linked k d' = linked k d"
  by (simp add: linked_def)

lemma registry_ok_audit [simp]: "registry_ok (d\<lparr>audit_logs := t\<rparr>) = registry_ok d"
  by (simp add: registry_ok_iff get_cluster_row_def)

lemma linked_has_row:
  assumes "registry_ok d" and "linked k d"
  shows "get_instance_row k d \<noteq> None"
proof -
  from assms(2) obtain a where "a \<in> set (rows (applications d))" "app_auth_instance_key a = Some k"
    by (auto simp: linked_def select_rows_def filter_empty_conv)
  with assms(1) have "k \<in> ki_instance_key ` set (rows (keycloak_instances d))"
    unfolding registry_ok_iff by blast
  then obtain r where "r \<in> set (rows (keycloak_instances d))" "ki_instance_key r = k" by blast
  then show ?thesis unfolding get_instance_row_def find_row_None by blast
qed

text \<open>What a served request commits: nothing new, or one written or deleted row and an audit entry.\<close>

lemma serve_put:
  assumes "d = saved (sess w)" and "registry_ok d"
  shows "saved (sess (serve env (PUT_INSTANCE u key body precondition) w)) = d
    \<or> (\<exists>payload t. saved (sess (serve env (PUT_INSTANCE u key body precondition) w)) =
          (write_instance key payload d)\<lparr>audit_logs := t\<rparr>
        \<and> registry_ok (write_instance key payload d)
        \<and> (\<forall>old. linked key d \<and> get_instance_row key d = Some old \<longrightarrow> ki_public_url old = iu_public_url payload))"
proof (cases "\<exists>payload. require_admin u = Inr u \<and> parse_upsert (ip_literal_ok env) body = Inr payload
      \<and> \<not> (precondition \<noteq> None \<and> precondition \<noteq> Some ''*'')")
  case False
  then show ?thesis using assms(1)
    by (auto simp: serve_def upsert_instance_route_def prog_simps require_admin_def open_session_def
        split: sum.splits)
next
  case True
  let ?w0 = "w\<lparr>sess := open_session (saved (sess w))\<rparr>"
  from True obtain payload where p: "require_admin u = Inr u" "parse_upsert (ip_literal_ok env) body = Inr payload"
      "\<not> (precondition \<noteq> None \<and> precondition \<noteq> Some ''*'')" by blast
  obtain r w1 where up: "upsert env key payload (precondition = Some ''*'') ?w0 = (r, w1)" by fastforce
  have sv: "serve env (PUT_INSTANCE u key body precondition) w = (case r of Inl e \<Rightarrow> w1
      | Inr x \<Rightarrow> snd (commit_world (snd (on_sess (log_action (usr_id u) ''keycloak.instance.upsert'' None) w1))))"
    using p up
    by (auto simp: serve_def upsert_instance_route_def bnd_apply lift_apply commit_world_def
        on_sess_apply modify_apply log_action_def ret_apply split: sum.split)
  have "settled ?w0" by (simp add: settled_def open_session_def)
  from upsert_effect[OF this up] sv assms(1) show ?thesis
    by (cases r) (auto simp: open_session_def commit_world_def prog_simps log_action_def commit_def
        instance_of_payload_def)
qed

lemma serve_delete:
  assumes "d = saved (sess w)"
  shows "saved (sess (serve env (DELETE_INSTANCE u key) w)) = d
    \<or> (\<exists>t. saved (sess (serve env (DELETE_INSTANCE u key) w)) = (delete_instance_row key d)\<lparr>audit_logs := t\<rparr>
        \<and> registry_ok (delete_instance_row key d) \<and> \<not> linked key d)"
proof -
  let ?w0 = "w\<lparr>sess := open_session (saved (sess w))\<rparr>"
  obtain r w1 where del: "delete_instance key ?w0 = (r, w1)" by fastforce
  have "settled ?w0" by (simp add: settled_def open_session_def)
  from delete_instance_effect[OF this del] del assms show ?thesis
    by (cases r) (auto simp: serve_def delete_instance_route_def prog_simps require_admin_def
        open_session_def commit_world_def log_action_def commit_def)
qed

lemma serve_keeps_linked:
  assumes "registry_ok (saved (sess w))" and "linked k (saved (sess w))"
  shows "registry_ok (saved (sess (serve env rq w))) \<and> linked k (saved (sess (serve env rq w)))
       \<and> issuer_of k (saved (sess (serve env rq w))) = issuer_of k (saved (sess w))"
proof (cases rq)
  case (PUT_INSTANCE u key body precondition)
  let ?d = "saved (sess w)"
  have lw: "linked k (write_instance key payload d) = linked k d" for payload d
    by (rule linked_applications) (simp add: write_instance_def)
  obtain old where old: "get_instance_row k ?d = Some old" using linked_has_row[OF assms] by blast
  from serve_put[OF refl assms(1), of env u key body precondition] consider
      (same) "saved (sess (serve env rq w)) = ?d"
    | (wrote) payload t where "saved (sess (serve env rq w)) = (write_instance key payload ?d)\<lparr>audit_logs := t\<rparr>"
        "registry_ok (write_instance key payload ?d)"
        "\<forall>old. linked key ?d \<and> get_instance_row key ?d = Some old \<longrightarrow> ki_public_url old = iu_public_url payload"
    unfolding PUT_INSTANCE by blast
  then show ?thesis
  proof cases
    case same
    with assms show ?thesis by simp
  next
    case wrote
    have "issuer_of k (write_instance key payload ?d) = issuer_of k ?d"
      using wrote(3) assms(2) old
      by (cases "k = key") (simp_all add: issuer_of_def get_instance_write instance_of_payload_def)
    with wrote(1,2) assms(2) lw show ?thesis by simp
  qed
next
  case (DELETE_INSTANCE u key)
  have other: "get_instance_row k (delete_instance_row key d) = get_instance_row k d" if "k \<noteq> key" for d
  proof -
    have "List.find (\<lambda>r. ki_instance_key r = k) (filter (\<lambda>r. ki_instance_key r \<noteq> key) xs)
        = List.find (\<lambda>r. ki_instance_key r = k) xs" for xs
      using that by (induction xs) auto
    then show ?thesis by (simp add: get_instance_row_def delete_instance_row_def find_row_def table_simps)
  qed
  let ?d = "saved (sess w)"
  have ld: "linked k (delete_instance_row key d) = linked k d" for d
    by (rule linked_applications) (simp add: delete_instance_row_def)
  from serve_delete[OF refl, of env u key w] consider
      (same) "saved (sess (serve env rq w)) = ?d"
    | (deleted) t where "saved (sess (serve env rq w)) = (delete_instance_row key ?d)\<lparr>audit_logs := t\<rparr>"
        "registry_ok (delete_instance_row key ?d)" "\<not> linked key ?d"
    unfolding DELETE_INSTANCE by blast
  then show ?thesis
  proof cases
    case same
    with assms show ?thesis by simp
  next
    case deleted
    with assms(2) have "k \<noteq> key" by metis
    then have "issuer_of k (delete_instance_row key ?d) = issuer_of k ?d" by (simp add: issuer_of_def other)
    with deleted(1,2) assms(2) ld show ?thesis by simp
  qed
qed

text \<open>
  C23: over any sequence of requests to the registry, by whoever, an instance that an application
  is bound to stays registered with the same issuer address, and the bindings never dangle.
\<close>

theorem linked_instance_keeps_issuer:
  assumes "registry_ok (saved (sess w))" and "linked k (saved (sess w))"
  shows "registry_ok (saved (sess (fold (serve env) rqs w)))
       \<and> issuer_of k (saved (sess (fold (serve env) rqs w))) = issuer_of k (saved (sess w))
       \<and> issuer_of k (saved (sess w)) \<noteq> None"
proof -
  have "registry_ok (saved (sess (fold (serve env) rqs w))) \<and> linked k (saved (sess (fold (serve env) rqs w)))
      \<and> issuer_of k (saved (sess (fold (serve env) rqs w))) = issuer_of k (saved (sess w))"
    using assms
  proof (induction rqs arbitrary: w)
    case Nil
    then show ?case by simp
  next
    case (Cons rq rqs)
    from serve_keeps_linked[OF Cons.prems, of env rq] Cons.IH[of "serve env rq w"] show ?case by simp
  qed
  then show ?thesis using linked_has_row[OF assms] by (simp add: issuer_of_def)
qed

section \<open>Examples\<close>

definition demo_app :: application where
  "demo_app = (blank_application 7 ''Shop'' ''shop'' ''alice'')\<lparr>app_auth_enabled := True,
     app_auth_instance_key := Some ''gke'', app_target_cluster_id := Some 1\<rparr>"

definition demo_payload :: "string \<Rightarrow> string \<Rightarrow> instance_upsert" where
  "demo_payload key host =
     \<lparr>iu_cluster_id = Some 1, iu_public_url = ''https://'' @ host @ ''/clusters/'' @ key,
      iu_admin_url = ''http://'' @ host @ ''/clusters/'' @ key, iu_admin_client_id = ''cnp-provisioner'',
      iu_provisioner_secret_ref = ''cnp/keycloak/'' @ key @ ''/provisioner'', iu_enabled = False\<rparr>"

definition demo_registry :: database where
  "demo_registry = empty_database
     \<lparr>applications := \<lparr>rows = [demo_app], seq = 8\<rparr>,
      cluster_connections := \<lparr>rows = [blank_cluster 1 ''gke''], seq = 2\<rparr>,
      keycloak_instances := \<lparr>rows = [instance_of_payload ''gke'' (demo_payload ''gke'' ''id.example'')], seq = 2\<rparr>\<rparr>"

definition silent_transport :: "unit transport" where
  "silent_transport =
     \<lparr>http_send = (\<lambda>_ _ n. (None, n)), monotonic = (\<lambda>_. 0), token_urlsafe = (\<lambda>n. (''secret'', n))\<rparr>"

definition demo_identity_env :: "((string \<times> dict) list, unit) identity_env" where
  "demo_identity_env =
     \<lparr>hvac_of = ref_kv, http_of = silent_transport, ip_literal_ok = (\<lambda>_. False), KEYCLOAK_ENABLED = False,
      KEYCLOAK_URL = '''', KEYCLOAK_PUBLIC_URL = '''', KEYCLOAK_ADMIN_CLIENT_ID = '''',
      KEYCLOAK_ADMIN_CLIENT_SECRET = None\<rparr>"

definition demo_world :: "((string \<times> dict) list, unit) identity_world" where
  "demo_world = \<lparr>sess = open_session demo_registry, vault = [],
     web = \<lparr>net = (), cached_token = JNull, token_expires_at = 0, trace = []\<rparr>\<rparr>"

definition demo_admin :: user where
  "demo_admin = \<lparr>usr_id = 1, usr_email = ''root@cnp'', usr_hashed_password = '''', usr_role = ADMIN,
     usr_is_active = True, usr_gitlab_user_id = None\<rparr>"

lemma upsert_all_or_nothing_witness:
  "sess (snd (upsert demo_identity_env ''gke'' (demo_payload ''gke'' ''evil.example'') False demo_world))
     = sess demo_world"
proof -
  have "\<exists>w'. upsert demo_identity_env ''gke'' (demo_payload ''gke'' ''evil.example'') False demo_world
      = (Inl (HTTPException 409), w')"
    by (intro exI[of _ demo_world]) code_simp
  then obtain w' where run: "upsert demo_identity_env ''gke'' (demo_payload ''gke'' ''evil.example'') False demo_world
      = (Inl (HTTPException 409), w')" by blast
  from upsert_all_or_nothing[OF _ run] show ?thesis unfolding run
    by (simp add: demo_world_def open_session_def)
qed

lemma linked_instance_keeps_issuer_witness:
  "issuer_of ''gke'' (saved (sess (fold (serve demo_identity_env)
     [PUT_INSTANCE demo_admin ''gke'' (demo_payload ''gke'' ''evil.example'') None, DELETE_INSTANCE demo_admin ''gke'']
     demo_world))) = Some ''https://id.example/clusters/gke''"
proof -
  have "registry_ok demo_registry"
    by (simp add: registry_ok_def demo_registry_def unique_on_def instance_of_payload_def demo_payload_def
        get_cluster_row_def find_row_def blank_cluster_def demo_app_def blank_application_def)
  moreover have "linked ''gke'' demo_registry" by code_simp
  moreover have "issuer_of ''gke'' demo_registry = Some ''https://id.example/clusters/gke''" by code_simp
  ultimately show ?thesis
    using linked_instance_keeps_issuer[of demo_world "''gke''" demo_identity_env
      "[PUT_INSTANCE demo_admin ''gke'' (demo_payload ''gke'' ''evil.example'') None, DELETE_INSTANCE demo_admin ''gke'']"]
    by (simp add: demo_world_def open_session_def)
qed

end
