(* ===== verification/Keycloak.thy ===== *)
theory Keycloak
  imports Keycloak_Instances Gitlab_Sync Gitops "HOL-Library.Product_Lexorder"
begin

text \<open>
  backend/services/keycloak_service.py and backend/api/routes/keycloak.py: one realm per application
  and environment, the application's client in it, its OIDC variables in Vault, and the console
  accounts of its maintainers. Keycloak is whatever the transport answers. Lemmas: what each
  operation may send, and when; what it leaves in the database and in Vault.
\<close>

section \<open>Names and markers\<close>

definition PUBLIC_CLIENT_FRAMEWORKS :: "string list" where
  "PUBLIC_CLIENT_FRAMEWORKS = [''react-vite'']"

definition REALM_OWNER_ATTRIBUTE :: string where
  "REALM_OWNER_ATTRIBUTE = ''cnp_app_id''"

definition USER_OWNER_ATTRIBUTE :: string where
  "USER_OWNER_ATTRIBUTE = ''cnp_user_id''"

definition realm_name :: "string \<Rightarrow> string \<Rightarrow> string" where
  "realm_name slug e = slug @ ''-'' @ e"

definition realm_id :: "int \<Rightarrow> string \<Rightarrow> string" where
  "realm_id aid e = ''cnp-'' @ string_of_int aid @ ''-'' @ e"

definition is_username_char :: "char \<Rightarrow> bool" where
  "is_username_char c \<longleftrightarrow> is_az c \<or> is_09 c \<or> c = CHR ''_'' \<or> c = CHR ''-''"

definition console_username :: "user \<Rightarrow> string" where
  "console_username u =
     (let local = py_lower (fst (partition_at (CHR ''@'') (usr_email u)));
          local = strip (\<lambda>c. c = CHR ''-'') (sub_outside is_username_char (CHR ''-'') local);
          local = (if local = [] then ''user'' else local)
      in ''cnp.'' @ local @ ''.'' @ string_of_int (usr_id u))"

definition owned_by :: "json \<Rightarrow> application \<Rightarrow> string \<Rightarrow> exc + bool" where
  "owned_by realm_repr app e =
     bnd_result (jget ''id'' realm_repr) (\<lambda>i.
       if i \<noteq> JStr (realm_id (app_id app) e) then Inr False
       else
         bnd_result (jget ''attributes'' realm_repr) (\<lambda>attrs.
         bnd_result (jget REALM_OWNER_ATTRIBUTE (jor attrs (JObj []))) (\<lambda>owner.
           Inr (owner = JStr (string_of_int (app_id app))))))"

definition require_enabled :: "application \<Rightarrow> ('s, unit) prog" where
  "require_enabled app = (if \<not> app_auth_enabled app then raise_exc (HTTPException 409) else ret ())"

definition is_public_client :: "string option \<Rightarrow> bool" where
  "is_public_client framework =
     (case framework of None \<Rightarrow> False | Some f \<Rightarrow> f \<in> set PUBLIC_CLIENT_FRAMEWORKS)"

definition LOCAL_DEV_WEB_ORIGINS :: "string list" where
  "LOCAL_DEV_WEB_ORIGINS = [''http://localhost:5173'', ''http://localhost:8000'']"

definition redirect_uris :: "application \<Rightarrow> string \<Rightarrow> string list" where
  "redirect_uris app e =
     (let uris = (if app_expose app = Some True then [app_internet_url (app_slug app) e @ ''/*''] else [])
               @ (if e = ''dev'' then [''http://localhost:*''] else [])
      in if uris = [] then [''http://localhost:*''] else uris)"

section \<open>Warnings of an activation\<close>

definition ACTIVATION_WARNINGS :: "keycloak_auth_warning list" where
  "ACTIVATION_WARNINGS = [INSTANCE_UNAVAILABLE, PROVISIONING_FAILED, OIDC_KEYS_CONFLICT]"

definition current_warnings :: "application \<Rightarrow> keycloak_auth_warning list" where
  "current_warnings app = (case app_auth_warnings app of None \<Rightarrow> [] | Some ws \<Rightarrow> ws)"

text \<open>\<open>list(dict.fromkeys(xs))\<close>: the first occurrence of each value, in order.\<close>

fun dedup :: "'a list \<Rightarrow> 'a list" where
  "dedup [] = []"
| "dedup (x # xs) = x # filter (\<lambda>y. y \<noteq> x) (dedup xs)"

definition add_auth_warnings :: "keycloak_auth_warning list \<Rightarrow> application \<Rightarrow> application" where
  "add_auth_warnings warnings app = app\<lparr>app_auth_warnings := Some (dedup (current_warnings app @ warnings))\<rparr>"

definition clear_activation_warnings :: "application \<Rightarrow> application" where
  "clear_activation_warnings app =
     app\<lparr>app_auth_warnings := Some (filter (\<lambda>w. w \<notin> set ACTIVATION_WARNINGS) (current_warnings app))\<rparr>"

section \<open>Realms of an application\<close>

record env_status =
  es_enabled :: bool
  es_realm :: string
  es_exists :: bool
  es_state :: keycloak_env_state
  es_console_url :: "string option"
  es_issuer_url :: "string option"

record status_response =
  st_instance :: "instance_summary option"
  st_auth_provisioned :: "bool option"
  st_dev :: env_status
  st_prod :: env_status
  st_auth_warnings :: "keycloak_auth_warning list"

definition client_of :: "resolved_keycloak \<Rightarrow> (('v, 'k) identity_world, keycloak_client) prog" where
  "client_of connection =
     on_web (new_client (rk_admin_url connection) (rk_client_id connection) (rk_client_secret connection))"

definition get_owned_realm ::
  "('v, 'k) identity_env \<Rightarrow> keycloak_client \<Rightarrow> application \<Rightarrow> string \<Rightarrow> (('v, 'k) identity_world, json) prog" where
  "get_owned_realm cfg kc app e =
     bnd (on_web (get_realm (http_of cfg) kc (realm_name (app_slug app) e))) (\<lambda>realm_repr.
       if realm_repr = JNull then ret JNull
       else
         bnd (lift_result (owned_by realm_repr app e)) (\<lambda>owned.
           if \<not> owned then raise_exc (HTTPException 409) else ret realm_repr))"

definition env_status_of ::
  "application \<Rightarrow> string \<Rightarrow> bool \<Rightarrow> keycloak_env_state \<Rightarrow> string option \<Rightarrow> string option \<Rightarrow> env_status" where
  "env_status_of app e present state console issuer =
     \<lparr>es_enabled = app_auth_enabled app, es_realm = realm_name (app_slug app) e, es_exists = present,
      es_state = state, es_console_url = console, es_issuer_url = issuer\<rparr>"

definition status_for_env ::
  "('v, 'k) identity_env \<Rightarrow> application \<Rightarrow> string \<Rightarrow> keycloak_client \<Rightarrow> string
     \<Rightarrow> (('v, 'k) identity_world, env_status) prog" where
  "status_for_env cfg app e kc public_url =
     (let realm = realm_name (app_slug app) e in
      bnd (try_except (bnd (on_web (get_realm (http_of cfg) kc realm)) (\<lambda>r. ret (Some r)))
             (\<lambda>x. if is_KeycloakError x then ret None else raise_exc x)) (\<lambda>found.
        case found of
          None \<Rightarrow> ret (env_status_of app e False KC_UNKNOWN None None)
        | Some realm_repr \<Rightarrow>
            if realm_repr = JNull then ret (env_status_of app e False KC_MISSING None None)
            else
              bnd (lift_result (owned_by realm_repr app e)) (\<lambda>owned.
                if \<not> owned then ret (env_status_of app e True KC_FOREIGN None None)
                else ret (env_status_of app e True KC_ACTIVE
                       (Some (public_url @ ''/admin/'' @ realm @ ''/console/''))
                       (Some (public_url @ ''/realms/'' @ realm))))))"

definition ensure_realm ::
  "('v, 'k) identity_env \<Rightarrow> keycloak_client \<Rightarrow> application \<Rightarrow> string \<Rightarrow> (('v, 'k) identity_world, unit) prog" where
  "ensure_realm cfg kc app e =
     bnd (get_owned_realm cfg kc app e) (\<lambda>found.
       if found \<noteq> JNull then ret ()
       else
         bnd (on_web (create_realm (http_of cfg) kc (realm_name (app_slug app) e) (realm_id (app_id app) e) False
                 [(REALM_OWNER_ATTRIBUTE, JStr (string_of_int (app_id app)))])) (\<lambda>_.
         bnd (get_owned_realm cfg kc app e) (\<lambda>again.
           if again = JNull then raise_exc (HTTPException 409) else ret ())))"

definition provision_client ::
  "('v, 'k) identity_env \<Rightarrow> resolved_keycloak \<Rightarrow> keycloak_client \<Rightarrow> application \<Rightarrow> string
     \<Rightarrow> (('v, 'k) identity_world, dict) prog" where
  "provision_client cfg connection kc app e =
     (let realm = realm_name (app_slug app) e; public = is_public_client (app_framework app) in
      bnd (on_web (disable_admin_cli_password_grant (http_of cfg) kc realm)) (\<lambda>_.
      bnd (on_web (create_client (http_of cfg) kc realm (app_slug app) public (redirect_uris app e)
              (if e = ''dev'' then LOCAL_DEV_WEB_ORIGINS else []))) (\<lambda>internal_id.
      bnd (if public then ret []
           else bnd (on_web (get_client_secret (http_of cfg) kc realm internal_id))
                  (\<lambda>secret. ret [(''OIDC_CLIENT_SECRET'', secret)])) (\<lambda>secret_var.
        ret ([(''OIDC_ISSUER_URL'', rk_public_url connection @ ''/realms/'' @ realm),
              (''OIDC_CLIENT_ID'', app_slug app)] @ secret_var)))))"

definition provision ::
  "('v, 'k) identity_env \<Rightarrow> application \<Rightarrow> string \<Rightarrow> (('v, 'k) identity_world, env_status) prog" where
  "provision cfg app e =
     bnd (validate_env e) (\<lambda>_.
     bnd (resolve_for_app cfg app) (\<lambda>connection.
     bnd (client_of connection) (\<lambda>kc.
     bnd (ensure_realm cfg kc app e) (\<lambda>_.
     bnd (provision_client cfg connection kc app e) (\<lambda>oidc_vars.
     bnd (vault_path app e) (\<lambda>path.
     bnd (on_vault (patch_secret (hvac_of cfg) path oidc_vars)) (\<lambda>_.
     bnd (status_for_env cfg app e kc (rk_public_url connection)) (\<lambda>result.
       if es_state result = KC_MISSING \<or> es_state result = KC_FOREIGN then raise_exc KeycloakErr
       else ret result))))))))"

definition unknown_status :: "application \<Rightarrow> string \<Rightarrow> env_status" where
  "unknown_status app e = env_status_of app e False KC_UNKNOWN None None"

definition keycloak_status ::
  "('v, 'k) identity_env \<Rightarrow> application \<Rightarrow> (('v, 'k) identity_world, status_response) prog" where
  "keycloak_status cfg app =
     bnd (from_db (summary_for_app cfg app)) (\<lambda>summary.
     bnd (try_except (bnd (resolve_for_app cfg app) (\<lambda>c. ret (Some c)))
            (\<lambda>x. if is_HTTPException x then ret None else raise_exc x)) (\<lambda>found.
       case found of
         None \<Rightarrow>
           ret \<lparr>st_instance = summary, st_auth_provisioned = app_auth_provisioned app,
                st_dev = unknown_status app ''dev'', st_prod = unknown_status app ''prod'',
                st_auth_warnings = current_warnings app\<rparr>
       | Some connection \<Rightarrow>
           bnd (client_of connection) (\<lambda>kc.
           bnd (status_for_env cfg app ''dev'' kc (rk_public_url connection)) (\<lambda>dev.
           bnd (status_for_env cfg app ''prod'' kc (rk_public_url connection)) (\<lambda>prod.
             ret \<lparr>st_instance = summary, st_auth_provisioned = app_auth_provisioned app,
                  st_dev = dev, st_prod = prod, st_auth_warnings = current_warnings app\<rparr>)))))"

section \<open>Activation\<close>

definition mark_activation_failed ::
  "int \<Rightarrow> keycloak_auth_warning \<Rightarrow> (('v, 'k) identity_world, unit) prog" where
  "mark_activation_failed aid warning =
     bnd (set_app aid (\<lambda>app. add_auth_warnings [warning]
            (clear_activation_warnings (app\<lparr>app_auth_provisioned := Some False\<rparr>)))) (\<lambda>_.
       commit_world)"

definition activation_failed ::
  "('v, 'k) identity_env \<Rightarrow> int \<Rightarrow> keycloak_auth_warning \<Rightarrow> (('v, 'k) identity_world, status_response) prog" where
  "activation_failed cfg aid warning =
     bnd (mark_activation_failed aid warning) (\<lambda>_.
     bnd (app_object aid) (\<lambda>app. keycloak_status cfg app))"

definition assert_no_foreign_oidc_keys ::
  "('v, 'k) identity_env \<Rightarrow> application \<Rightarrow> (('v, 'k) identity_world, unit) prog" where
  "assert_no_foreign_oidc_keys cfg app =
     for_each VALID_ENVS (\<lambda>e.
       bnd (vault_path app e) (\<lambda>path.
       bnd (catch InvalidPath (bnd (on_vault (get_secret (hvac_of cfg) path)) (\<lambda>d. ret (Some d))) (ret None)) (\<lambda>found.
         case found of
           None \<Rightarrow> ret ()
         | Some data \<Rightarrow>
             if \<exists>k \<in> set MANAGED_ENV_KEYS. k \<in> fst ` set data then raise_exc (HTTPException 409) else ret ())))"

definition activate_provision ::
  "('v, 'k) identity_env \<Rightarrow> int \<Rightarrow> (('v, 'k) identity_world, unit) prog" where
  "activate_provision cfg aid =
     bnd (app_object aid) (\<lambda>app.
     bnd (provision cfg app ''dev'') (\<lambda>_.
     bnd (app_object aid) (\<lambda>app.
     bnd (provision cfg app ''prod'') (\<lambda>_.
       set_app aid (\<lambda>app. clear_activation_warnings (app\<lparr>app_auth_provisioned := Some True\<rparr>))))))"

text \<open>
  \<open>activate\<close> in its three steps: the check that the application defines no OIDC variable itself,
  the binding to an instance, the provisioning of both environments. A step that fails answers for
  the whole request (\<open>Some\<close> response) or raises.
\<close>

definition activation_check ::
  "('v, 'k) identity_env \<Rightarrow> int \<Rightarrow> application \<Rightarrow> (('v, 'k) identity_world, status_response option) prog" where
  "activation_check cfg aid app =
     (if app_auth_enabled app then ret None
      else
        try_except (bnd (assert_no_foreign_oidc_keys cfg app) (\<lambda>_. ret None))
          (\<lambda>x. if is_HTTPException x then
                 bnd (if app_auth_provisioned app = Some False
                      then mark_activation_failed aid OIDC_KEYS_CONFLICT else ret ()) (\<lambda>_. raise_exc x)
               else bnd (activation_failed cfg aid INSTANCE_UNAVAILABLE) (\<lambda>r. ret (Some r))))"

definition activation_bind ::
  "('v, 'k) identity_env \<Rightarrow> int \<Rightarrow> (('v, 'k) identity_world, status_response option) prog" where
  "activation_bind cfg aid =
     try_except (bnd (bind_for_activation cfg aid) (\<lambda>_. ret None))
       (\<lambda>_. bnd (activation_failed cfg aid INSTANCE_UNAVAILABLE) (\<lambda>r. ret (Some r)))"

definition activation_provision ::
  "('v, 'k) identity_env \<Rightarrow> int \<Rightarrow> (('v, 'k) identity_world, status_response option) prog" where
  "activation_provision cfg aid =
     bnd (set_app aid (\<lambda>app. app\<lparr>app_auth_enabled := True\<rparr>)) (\<lambda>_.
       try_except (bnd (activate_provision cfg aid) (\<lambda>_. ret None))
         (\<lambda>_. bnd (activation_failed cfg aid PROVISIONING_FAILED) (\<lambda>r. ret (Some r))))"

definition or_else ::
  "('s, 'a option) prog \<Rightarrow> ('s, 'a) prog \<Rightarrow> ('s, 'a) prog" where
  "or_else m k = bnd m (\<lambda>r. case r of Some x \<Rightarrow> ret x | None \<Rightarrow> k)"

definition activate ::
  "('v, 'k) identity_env \<Rightarrow> int \<Rightarrow> (('v, 'k) identity_world, status_response) prog" where
  "activate cfg aid =
     bnd (app_object aid) (\<lambda>app.
       if app_auth_enabled app \<and> app_auth_provisioned app \<noteq> Some False then raise_exc (HTTPException 409)
       else
         or_else (activation_check cfg aid app) (
         or_else (activation_bind cfg aid) (
         or_else (activation_provision cfg aid) (
           bnd commit_world (\<lambda>_.
           bnd (app_object aid) (\<lambda>app. keycloak_status cfg app))))))"

section \<open>Recreation and console access\<close>

definition reprovision ::
  "('v, 'k) identity_env \<Rightarrow> application \<Rightarrow> string \<Rightarrow> (('v, 'k) identity_world, env_status) prog" where
  "reprovision cfg app e =
     bnd (validate_env e) (\<lambda>_.
     bnd (require_enabled app) (\<lambda>_.
     bnd (resolve_for_app cfg app) (\<lambda>connection.
     bnd (client_of connection) (\<lambda>kc.
     bnd (get_owned_realm cfg kc app e) (\<lambda>found.
       if found \<noteq> JNull then raise_exc (HTTPException 409) else provision cfg app e)))))"

record console_access =
  ca_console_url :: string
  ca_username :: string
  ca_temporary_password :: string

definition fresh_password :: "('v, 'k) identity_env \<Rightarrow> (('v, 'k) identity_world, string) prog" where
  "fresh_password cfg = on_web (\<lambda>s. case token_urlsafe (http_of cfg) (net s) of (pw, n) \<Rightarrow> (Inr pw, s\<lparr>net := n\<rparr>))"

definition grant_console_access ::
  "('v, 'k) identity_env \<Rightarrow> application \<Rightarrow> string \<Rightarrow> user \<Rightarrow> (('v, 'k) identity_world, console_access) prog" where
  "grant_console_access cfg app e u =
     bnd (validate_env e) (\<lambda>_.
     bnd (require_enabled app) (\<lambda>_.
     bnd (resolve_for_app cfg app) (\<lambda>connection.
     bnd (client_of connection) (\<lambda>kc.
     bnd (get_owned_realm cfg kc app e) (\<lambda>found.
       if found = JNull then raise_exc (HTTPException 409)
       else
         (let realm = realm_name (app_slug app) e; username = console_username u;
              (local, _, domain) = partition_at (CHR ''@'') (usr_email u) in
          bnd (catch KeycloakConflict
                 (on_web (ensure_cnp_admin_user (http_of cfg) kc realm username (usr_id u)
                            (if local = [] then username else local) domain))
                 (raise_exc (HTTPException 409))) (\<lambda>user_id.
          bnd (on_web (set_team_console_roles (http_of cfg) kc realm user_id)) (\<lambda>_.
          bnd (fresh_password cfg) (\<lambda>temporary_password.
          bnd (on_web (set_temporary_password (http_of cfg) kc realm user_id temporary_password)) (\<lambda>_.
            ret \<lparr>ca_console_url = rk_public_url connection @ ''/admin/'' @ realm @ ''/console/'',
                 ca_username = username, ca_temporary_password = temporary_password\<rparr>))))))))))"

section \<open>Revocation and deletion\<close>

text \<open>The realm's answer, when it says the realm is this application's.\<close>

definition if_owned ::
  "('v, 'k) identity_env \<Rightarrow> keycloak_client \<Rightarrow> application \<Rightarrow> string
     \<Rightarrow> (('v, 'k) identity_world, unit) prog \<Rightarrow> (('v, 'k) identity_world, unit) prog" where
  "if_owned cfg kc app e act =
     bnd (on_web (get_realm (http_of cfg) kc (realm_name (app_slug app) e))) (\<lambda>realm_repr.
       if realm_repr = JNull then ret ()
       else
         bnd (lift_result (owned_by realm_repr app e)) (\<lambda>owned.
           if owned then act else ret ()))"

definition with_keycloak ::
  "('v, 'k) identity_env \<Rightarrow> application \<Rightarrow> (keycloak_client \<Rightarrow> (('v, 'k) identity_world, unit) prog)
     \<Rightarrow> (('v, 'k) identity_world, unit) prog" where
  "with_keycloak cfg app act =
     bnd (try_except (bnd (bnd (resolve_for_app cfg app) client_of) (\<lambda>kc. ret (Some kc)))
            (\<lambda>x. if is_HTTPException x then ret None else raise_exc x)) (\<lambda>found.
       case found of None \<Rightarrow> ret () | Some kc \<Rightarrow> act kc)"

definition revoke_member ::
  "('v, 'k) identity_env \<Rightarrow> application \<Rightarrow> int \<Rightarrow> (('v, 'k) identity_world, unit) prog" where
  "revoke_member cfg app cnp_user_id =
     with_keycloak cfg app (\<lambda>kc.
       for_each VALID_ENVS (\<lambda>e. best_effort (if_owned cfg kc app e
         (on_web (delete_users_by_attribute (http_of cfg) kc (realm_name (app_slug app) e)
                    USER_OWNER_ATTRIBUTE (string_of_int cnp_user_id))))))"

definition deprovision ::
  "('v, 'k) identity_env \<Rightarrow> application \<Rightarrow> (('v, 'k) identity_world, unit) prog" where
  "deprovision cfg app =
     with_keycloak cfg app (\<lambda>kc.
       for_each VALID_ENVS (\<lambda>e. best_effort (if_owned cfg kc app e
         (on_web (delete_realm (http_of cfg) kc (realm_name (app_slug app) e))))))"

definition revoke_console_access_if_not_maintainer ::
  "('v, 'k) identity_env \<Rightarrow> application \<Rightarrow> int option \<Rightarrow> (('v, 'k) identity_world, unit) prog" where
  "revoke_console_access_if_not_maintainer cfg app cnp_user_id =
     (if \<not> truthy_id cnp_user_id \<or> \<not> app_auth_enabled app then ret ()
      else
        best_effort
          (bnd (from_db (get_effective_tier (the cnp_user_id) (app_id app))) (\<lambda>tier.
           bnd commit_world (\<lambda>_.
             if has_console_tier tier then ret () else revoke_member cfg app (the cnp_user_id)))))"

definition revoke_lost_console_access ::
  "('v, 'k) identity_env \<Rightarrow> (int \<times> int) list \<Rightarrow> (('v, 'k) identity_world, unit) prog" where
  "revoke_lost_console_access cfg pairs =
     for_each (sort (remdups pairs)) (\<lambda>(aid, cnp_user_id).
       bnd (on_sess (modify rollback)) (\<lambda>_.
       bnd (from_db (get_application aid)) (\<lambda>found.
         case found of
           None \<Rightarrow> ret ()
         | Some app \<Rightarrow> revoke_console_access_if_not_maintainer cfg app (Some cnp_user_id))))"

definition keycloak_enabled_app_ids :: "database \<Rightarrow> int list" where
  "keycloak_enabled_app_ids d = map app_id (select_rows app_auth_enabled (applications d))"

definition revoke_user_everywhere ::
  "('v, 'k) identity_env \<Rightarrow> int \<Rightarrow> (('v, 'k) identity_world, unit) prog" where
  "revoke_user_everywhere cfg cnp_user_id =
     bnd (from_db keycloak_enabled_app_ids) (\<lambda>ids.
       for_each ids (\<lambda>aid.
         bnd (on_sess (modify rollback)) (\<lambda>_.
           best_effort
             (bnd (from_db (get_application aid)) (\<lambda>found.
                case found of None \<Rightarrow> ret () | Some app \<Rightarrow> revoke_member cfg app cnp_user_id)))))"

definition revoke_user_where_not_maintainer ::
  "('v, 'k) identity_env \<Rightarrow> int \<Rightarrow> (('v, 'k) identity_world, unit) prog" where
  "revoke_user_where_not_maintainer cfg cnp_user_id =
     bnd (from_db keycloak_enabled_app_ids) (\<lambda>ids.
       revoke_lost_console_access cfg (map (\<lambda>aid. (aid, cnp_user_id)) ids))"

text \<open>The background task of a user update, in a session of its own.\<close>

definition revoke_console_access_after_user_update ::
  "('v, 'k) identity_env \<Rightarrow> int \<Rightarrow> bool \<Rightarrow> (('v, 'k) identity_world, unit) prog" where
  "revoke_console_access_after_user_update cfg cnp_user_id deactivated =
     best_effort
       (bnd (on_sess (modify (\<lambda>s. open_session (saved s)))) (\<lambda>_.
          if deactivated then revoke_user_everywhere cfg cnp_user_id
          else revoke_user_where_not_maintainer cfg cnp_user_id))"

section \<open>The chart of an onboarded repository\<close>

definition is_chart_template :: "tree_item \<Rightarrow> bool" where
  "is_chart_template f \<longleftrightarrow> ti_type f = ''blob'' \<and> prefix ''chart/templates/'' (ti_path f)
     \<and> (suffix ''.yaml'' (ti_path f) \<or> suffix ''.yml'' (ti_path f))"

primrec chart_consumes_env ::
  "'g gitlab_api \<Rightarrow> string \<Rightarrow> string \<Rightarrow> tree_item list \<Rightarrow> ('g, bool) prog" where
  "chart_consumes_env gl project_path slug [] = ret False"
| "chart_consumes_env gl project_path slug (f # fs) =
     bnd (try_except (bnd (read_file gl project_path (ti_path f) ''main'') (\<lambda>c. ret (Some c))) (\<lambda>_. ret None)) (\<lambda>found.
       case found of
         None \<Rightarrow> chart_consumes_env gl project_path slug fs
       | Some content \<Rightarrow>
           if substring ''envFrom'' content \<and> (substring (slug @ ''-env'') content \<or> substring ''app.name'' content)
           then ret True
           else chart_consumes_env gl project_path slug fs)"

definition detect_envfrom_warning ::
  "'g gitlab_api \<Rightarrow> string \<Rightarrow> string \<Rightarrow> ('g, keycloak_auth_warning list) prog" where
  "detect_envfrom_warning gl project_path slug =
     bnd (try_except (bnd (list_tree_recursive gl project_path ''main'') (\<lambda>fs. ret (Some fs))) (\<lambda>_. ret None)) (\<lambda>found.
       case found of
         None \<Rightarrow> ret []
       | Some files \<Rightarrow>
           if filter is_chart_template files = [] then ret []
           else bnd (chart_consumes_env gl project_path slug (filter is_chart_template files)) (\<lambda>consumes.
                  ret (if consumes then [] else [CHART_MISSING_ENVFROM])))"

section \<open>The routes\<close>

definition get_auth_status ::
  "('v, 'k) identity_env \<Rightarrow> user \<Rightarrow> string \<Rightarrow> (('v, 'k) identity_world, status_response) prog" where
  "get_auth_status cfg current_user raw_id =
     bnd (on_sess (require_tier VIEWER (Some raw_id) current_user)) (\<lambda>_.
     bnd (get_app (the (py_int raw_id))) (\<lambda>app. keycloak_status cfg app))"

definition enable_auth ::
  "('v, 'k) identity_env \<Rightarrow> user \<Rightarrow> string \<Rightarrow> (('v, 'k) identity_world, status_response) prog" where
  "enable_auth cfg current_user raw_id =
     bnd (on_sess (require_tier MAINTAINER (Some raw_id) current_user)) (\<lambda>_.
     bnd (get_app (the (py_int raw_id))) (\<lambda>app.
     bnd (try_except (activate cfg (app_id app))
            (\<lambda>x. if is_HTTPException x then
                   bnd (app_object (app_id app)) (\<lambda>app.
                   bnd (if app_auth_provisioned app = Some False
                        then bnd (on_sess (log_action (usr_id current_user) ''app.auth.enable_failed'' (Some (app_id app))))
                               (\<lambda>_. commit_world)
                        else ret ()) (\<lambda>_. raise_exc x))
                 else raise_exc x)) (\<lambda>result.
     bnd (on_sess (log_action (usr_id current_user)
            (if st_auth_provisioned result = Some True then ''app.auth.enabled'' else ''app.auth.enable_failed'')
            (Some (app_id app)))) (\<lambda>_.
     bnd commit_world (\<lambda>_. ret result)))))"

definition get_console_access ::
  "('v, 'k) identity_env \<Rightarrow> user \<Rightarrow> string \<Rightarrow> string \<Rightarrow> (('v, 'k) identity_world, console_access) prog" where
  "get_console_access cfg current_user raw_id e =
     bnd (on_sess (require_tier MAINTAINER (Some raw_id) current_user)) (\<lambda>_.
     bnd (validate_env e) (\<lambda>_.
     bnd (get_app (the (py_int raw_id))) (\<lambda>app.
     bnd (grant_console_access cfg app e current_user) (\<lambda>result.
     bnd (on_sess (log_action (usr_id current_user) ''app.auth.console_access'' (Some (app_id app)))) (\<lambda>_.
     bnd commit_world (\<lambda>_. ret result))))))"

definition reprovision_auth ::
  "('v, 'k) identity_env \<Rightarrow> user \<Rightarrow> string \<Rightarrow> string \<Rightarrow> (('v, 'k) identity_world, status_response) prog" where
  "reprovision_auth cfg current_user raw_id e =
     bnd (on_sess (require_tier MAINTAINER (Some raw_id) current_user)) (\<lambda>_.
     bnd (validate_env e) (\<lambda>_.
     bnd (from_db (get_effective_tier (usr_id current_user) (the (py_int raw_id)))) (\<lambda>tier.
       if e = ''prod'' \<and> \<not> is_admin current_user \<and> tier \<noteq> OWNER then raise_exc (HTTPException 403)
       else
         bnd (get_app (the (py_int raw_id))) (\<lambda>app.
         bnd (reprovision cfg app e) (\<lambda>_.
         bnd (on_sess (log_action (usr_id current_user) ''app.auth.reprovisioned'' (Some (app_id app)))) (\<lambda>_.
         bnd commit_world (\<lambda>_. keycloak_status cfg app)))))))"

end
