(* ===== verification/Keycloak_Guard.thy ===== *)
theory Keycloak_Guard
  imports Keycloak
begin

text \<open>
  What the operations of Keycloak.thy may send, whatever the server answers: no realm is written
  to before an answer identified it by its markers. The predicates speak of the trace of exchanges;
  \<open>guards\<close> composes along the program combinators, and each operation is guarded.
\<close>

section \<open>Guarded writes\<close>

text \<open>
  An answer of Keycloak that identifies the realm of this application and environment: its internal
  id and its owner attribute are the markers.
\<close>

definition owned_answer :: "int \<Rightarrow> string \<Rightarrow> string \<Rightarrow> exchange \<Rightarrow> bool" where
  "owned_answer aid slug e x \<longleftrightarrow>
     rq_method (fst x) = GET \<and> rq_path (fst x) = realm_path (realm_name slug e)
     \<and> (case snd x of None \<Rightarrow> False | Some resp \<Rightarrow> rs_status resp < 400 \<and>
          (case rs_body resp of None \<Rightarrow> False | Some j \<Rightarrow>
             jget ''id'' j = Inr (JStr (realm_id aid e))
             \<and> bnd_result (jget ''attributes'' j) (\<lambda>a. jget REALM_OWNER_ATTRIBUTE (jor a (JObj [])))
               = Inr (JStr (string_of_int aid))))"

text \<open>The creation of a realm with the markers of this application.\<close>

definition creates_own :: "int \<Rightarrow> string \<Rightarrow> exchange \<Rightarrow> bool" where
  "creates_own aid slug x \<longleftrightarrow>
     rq_method (fst x) = POST \<and> rq_path (fst x) = realms_path
     \<and> (\<exists>e \<in> set VALID_ENVS. rq_json (fst x) = realm_payload (realm_name slug e) (realm_id aid e) False
          [(REALM_OWNER_ATTRIBUTE, JStr (string_of_int aid))])"

text \<open>
  What may be sent after \<open>seen\<close> was exchanged: a read, a creation with the markers, or a write in a
  realm of this application that an earlier answer identified.
\<close>

definition permitted :: "int \<Rightarrow> string \<Rightarrow> exchange list \<Rightarrow> exchange \<Rightarrow> bool" where
  "permitted aid slug seen x \<longleftrightarrow>
     reads_only x \<or> creates_own aid slug x
     \<or> (\<exists>e \<in> set VALID_ENVS. below (realm_name slug e) (rq_path (fst x))
          \<and> (\<exists>y \<in> set seen. owned_answer aid slug e y))"

primrec guarded :: "int \<Rightarrow> string \<Rightarrow> exchange list \<Rightarrow> exchange list \<Rightarrow> bool" where
  "guarded aid slug seen [] = True"
| "guarded aid slug seen (x # xs) = (permitted aid slug seen x \<and> guarded aid slug (x # seen) xs)"

lemma permitted_mono: "permitted aid slug seen x \<Longrightarrow> set seen \<subseteq> set seen' \<Longrightarrow> permitted aid slug seen' x"
  by (auto simp: permitted_def)

lemma guarded_mono: "guarded aid slug seen xs \<Longrightarrow> set seen \<subseteq> set seen' \<Longrightarrow> guarded aid slug seen' xs"
proof (induction xs arbitrary: seen seen')
  case Nil
  then show ?case by simp
next
  case (Cons x xs)
  then have "set (x # seen) \<subseteq> set (x # seen')" by auto
  with Cons.IH[of "x # seen" "x # seen'"] Cons.prems permitted_mono[of aid slug seen x seen'] show ?case by simp
qed

lemma guarded_append: "guarded aid slug seen (xs @ ys) \<longleftrightarrow> guarded aid slug seen xs \<and> guarded aid slug (rev xs @ seen) ys"
  by (induction xs arbitrary: seen) auto

lemma guarded_all: "(\<And>x. x \<in> set xs \<Longrightarrow> permitted aid slug seen x) \<Longrightarrow> guarded aid slug seen xs"
proof (induction xs arbitrary: seen)
  case Nil
  then show ?case by simp
next
  case (Cons x xs)
  have "permitted aid slug (x # seen) y" if "y \<in> set xs" for y
    using Cons.prems[of y] that by (auto intro: permitted_mono)
  with Cons show ?case by simp
qed

definition slug_at :: "int \<Rightarrow> string \<Rightarrow> ('v, 'k) identity_world \<Rightarrow> bool" where
  "slug_at aid slug w \<longleftrightarrow> (\<forall>a. get_application aid (db (sess w)) = Some a \<longrightarrow> app_slug a = slug)"

text \<open>
  A program whose writes are guarded. It keeps the application's slug in the session, which the
  names of its realms depend on.
\<close>

definition guards :: "int \<Rightarrow> string \<Rightarrow> (('v, 'k) identity_world, 'a) prog \<Rightarrow> bool" where
  "guards aid slug m \<longleftrightarrow>
     (\<forall>w. slug_at aid slug w \<longrightarrow> slug_at aid slug (snd (m w))
        \<and> (\<exists>es. w_trace (snd (m w)) = w_trace w @ es \<and> guarded aid slug [] es))"

lemma guardsI:
  assumes "\<And>w. slug_at aid slug w \<Longrightarrow> slug_at aid slug (snd (m w))"
    and "\<And>w. slug_at aid slug w \<Longrightarrow> \<exists>es. w_trace (snd (m w)) = w_trace w @ es \<and> guarded aid slug [] es"
  shows "guards aid slug m"
  using assms by (simp add: guards_def)

lemma guardsD:
  assumes "guards aid slug m" and "slug_at aid slug w" and "m w = (r, w')"
  obtains es where "slug_at aid slug w'" "w_trace w' = w_trace w @ es" "guarded aid slug [] es"
  using assms by (metis guards_def snd_conv)

lemma guards_quiet:
  "(\<And>w. slug_at aid slug w \<Longrightarrow> slug_at aid slug (snd (m w))) \<Longrightarrow> (\<And>w. w_trace (snd (m w)) = w_trace w) \<Longrightarrow> guards aid slug m"
  by (rule guardsI) (simp_all add: exI[of _ "[]"])

lemma guards_ret [guards_intros]: "guards aid slug (ret x)"
  by (rule guards_quiet) (simp_all add: prog_simps)

lemma guards_raise [guards_intros]: "guards aid slug (raise_exc x)"
  by (rule guards_quiet) (simp_all add: prog_simps)

lemma guards_lift [guards_intros]: "guards aid slug (lift_result x)"
  by (rule guards_quiet) (simp_all add: prog_simps)

lemma guards_from_db [guards_intros]: "guards aid slug (from_db f)"
  by (rule guards_quiet) (simp_all add: prog_simps)

lemma guards_seq:
  assumes "guards aid slug m" and "\<And>r. guards aid slug (f r)" and "slug_at aid slug w"
  shows "slug_at aid slug (snd (case m w of (r, w1) \<Rightarrow> f r w1))
       \<and> (\<exists>es. w_trace (snd (case m w of (r, w1) \<Rightarrow> f r w1)) = w_trace w @ es \<and> guarded aid slug [] es)"
proof -
  obtain r w1 where m: "m w = (r, w1)" by fastforce
  obtain r2 w2 where f: "f r w1 = (r2, w2)" by fastforce
  from guardsD[OF assms(1,3) m] obtain es1 where 1: "slug_at aid slug w1" "w_trace w1 = w_trace w @ es1"
    "guarded aid slug [] es1" .
  from guardsD[OF assms(2) 1(1) f] obtain es2 where 2: "slug_at aid slug w2" "w_trace w2 = w_trace w1 @ es2"
    "guarded aid slug [] es2" .
  have "guarded aid slug (rev es1 @ []) es2" by (rule guarded_mono[OF 2(3)]) simp
  with 1 2 m f show ?thesis by (intro conjI exI[of _ "es1 @ es2"]) (simp_all add: guarded_append)
qed

lemma guards_bnd [guards_intros]:
  assumes "guards aid slug m" and "\<And>x. guards aid slug (k x)"
  shows "guards aid slug (bnd m k)"
proof -
  have "bnd m k = (\<lambda>w. case m w of (r, w1) \<Rightarrow> (case r of Inl e \<Rightarrow> raise_exc e | Inr x \<Rightarrow> k x) w1)"
    by (simp add: fun_eq_iff prog_simps split: prod.split sum.split)
  moreover have "guards aid slug (case r of Inl e \<Rightarrow> raise_exc e | Inr x \<Rightarrow> k x)" for r
    using assms(2) by (cases r) (simp_all add: guards_raise)
  ultimately show ?thesis using guards_seq[OF assms(1)] by (metis (no_types, lifting) guardsI)
qed

lemma guards_try [guards_intros]:
  assumes "guards aid slug m" and "\<And>e. guards aid slug (h e)"
  shows "guards aid slug (try_except m h)"
proof -
  have "try_except m h = (\<lambda>w. case m w of (r, w1) \<Rightarrow> (case r of Inl e \<Rightarrow> h e | Inr x \<Rightarrow> ret x) w1)"
    by (simp add: fun_eq_iff prog_simps split: prod.split sum.split)
  moreover have "guards aid slug (case r of Inl e \<Rightarrow> h e | Inr x \<Rightarrow> ret x)" for r
    using assms(2) by (cases r) (simp_all add: guards_ret)
  ultimately show ?thesis using guards_seq[OF assms(1)] by (metis (no_types, lifting) guardsI)
qed

lemma guards_catch [guards_intros]: "guards aid slug m \<Longrightarrow> guards aid slug h \<Longrightarrow> guards aid slug (catch e m h)"
  unfolding catch_def by (rule guards_try) (simp_all add: guards_raise)

lemma guards_best_effort [guards_intros]: "guards aid slug m \<Longrightarrow> guards aid slug (best_effort m)"
  unfolding best_effort_def by (rule guards_try) (simp_all add: guards_ret)

lemma guards_for_each [guards_intros]:
  "(\<And>x. x \<in> set xs \<Longrightarrow> guards aid slug (f x)) \<Longrightarrow> guards aid slug (for_each xs f)"
  by (induction xs) (auto intro: guards_intros)

lemma guards_if [guards_intros]:
  "(c \<Longrightarrow> guards aid slug a) \<Longrightarrow> (\<not> c \<Longrightarrow> guards aid slug b) \<Longrightarrow> guards aid slug (if c then a else b)"
  by simp

lemma guards_option [guards_intros]:
  "guards aid slug a \<Longrightarrow> (\<And>x. z = Some x \<Longrightarrow> guards aid slug (f x)) \<Longrightarrow> guards aid slug (case z of None \<Rightarrow> a | Some x \<Rightarrow> f x)"
  by (cases z) auto

lemma guards_or_else [guards_intros]: "guards aid slug m \<Longrightarrow> guards aid slug k \<Longrightarrow> guards aid slug (or_else m k)"
  unfolding or_else_def by (intro guards_intros)

section \<open>The operations are guarded\<close>

lemma appends_on_web [appends_intros]: "appends trace P m \<Longrightarrow> appends w_trace P (on_web m)"
  unfolding appends_def by (simp add: prog_simps w_trace_def)

lemma appends_on_vault [appends_intros]: "appends w_trace P (on_vault m)"
  by (rule appends_same) (simp add: prog_simps w_trace_def)

lemma appends_from_db [appends_intros]: "appends w_trace P (from_db f)"
  by (rule appends_same) (simp add: prog_simps)

lemma keeps_slug_on_web [keeps_intros]: "keeps (slug_at aid slug) (on_web m)"
  by (rule keepsI) (simp add: prog_simps slug_at_def)

lemma keeps_slug_on_vault [keeps_intros]: "keeps (slug_at aid slug) (on_vault m)"
  by (rule keepsI) (simp add: prog_simps slug_at_def)

lemma keeps_slug_from_db [keeps_intros]: "keeps (slug_at aid slug) (from_db f)"
  by (rule keepsI) (simp add: prog_simps)

lemma guards_log:
  fixes m :: "(('v, 'k) identity_world, 'a) prog"
  assumes "appends w_trace reads_only m" and "keeps (slug_at aid slug) m"
  shows "guards aid slug m"
proof (rule guardsI)
  fix w :: "('v, 'k) identity_world" assume "slug_at aid slug w"
  with assms(2) show "slug_at aid slug (snd (m w))" by (rule keepsD)
  from appendsE[OF assms(1), of w] obtain es where "w_trace (snd (m w)) = w_trace w @ es" "list_all reads_only es" .
  then show "\<exists>es. w_trace (snd (m w)) = w_trace w @ es \<and> guarded aid slug [] es"
    by (intro exI[of _ es]) (auto simp: list_all_iff permitted_def intro!: guarded_all)
qed

lemma guards_reads: "appends trace reads_only m \<Longrightarrow> guards aid slug (on_web m)"
  by (intro guards_log appends_intros keeps_intros)

lemma guards_client_of [guards_intros]: "guards aid slug (client_of c)"
  unfolding client_of_def by (rule guards_reads) (rule appends_new_client)

lemma guards_get_realm [guards_intros]: "guards aid slug (on_web (get_realm tr kc r))"
  by (rule guards_reads) (rule get_realm_reads)

lemma guards_resolve [guards_intros]: "guards aid slug (resolve_for_app cfg app)"
  by (rule guards_quiet) (metis prod.collapse resolve_for_app_state)+

lemma guards_status_for_env [guards_intros]: "guards aid slug (status_for_env cfg app e kc url)"
  unfolding status_for_env_def Let_def by (intro guards_intros)

lemma guards_keycloak_status [guards_intros]: "guards aid slug (keycloak_status cfg app)"
  unfolding keycloak_status_def by (intro guards_intros)

text \<open>What a check of a realm establishes: its answers only read, and identify the realm.\<close>

lemma get_realm_answer:
  assumes "get_realm tr kc realm s = (r, s')"
  obtains es where "trace s' = trace s @ es" "list_all reads_only es"
    "\<And>j. r = Inr j \<Longrightarrow> j \<noteq> JNull \<Longrightarrow> \<exists>rq resp. (rq, Some resp) \<in> set es \<and> rq_method rq = GET
        \<and> rq_path rq = realm_path realm \<and> rs_status resp < 400 \<and> rs_body resp = Some j"
proof -
  from appendsE[OF get_realm_reads[of tr kc realm], of s] assms obtain es where
    es: "trace s' = trace s @ es" "list_all reads_only es" by (metis snd_conv)
  have "\<exists>rq resp. (rq, Some resp) \<in> set es \<and> rq_method rq = GET
        \<and> rq_path rq = realm_path realm \<and> rs_status resp < 400 \<and> rs_body resp = Some j"
    if j: "r = Inr j" "j \<noteq> JNull" for j
  proof -
    obtain resp where rq: "request tr kc GET (realm_path realm) [] JNull s = (Inr resp, s')"
      and body: "response_json resp = Inr j"
      using assms j by (auto simp: get_realm_def catch_def prog_simps split: sum.splits prod.splits if_splits)
    from request_answer[OF rq] obtain es1 rq where "trace s' = trace s @ es1 @ [(rq, Some resp)]"
      "rq_method rq = GET" "rq_path rq = realm_path realm" "rs_status resp < 400" by metis
    with es(1) body show ?thesis
      by (intro exI[of _ rq] exI[of _ resp]) (auto simp: response_json_def split: option.splits)
  qed
  with es show ?thesis by (rule that)
qed

lemma owned_by_true:
  "owned_by j app e = Inr True \<longleftrightarrow>
     jget ''id'' j = Inr (JStr (realm_id (app_id app) e))
     \<and> bnd_result (jget ''attributes'' j) (\<lambda>a. jget REALM_OWNER_ATTRIBUTE (jor a (JObj [])))
       = Inr (JStr (string_of_int (app_id app)))"
  by (auto simp: owned_by_def bnd_result_def split: sum.splits if_splits)

lemma checked_realm:
  assumes "on_web (get_realm (http_of cfg) kc (realm_name (app_slug app) e)) w = (r, w1)"
  obtains es where "sess w1 = sess w" "vault w1 = vault w" "w_trace w1 = w_trace w @ es" "list_all reads_only es"
    "\<And>j. r = Inr j \<Longrightarrow> j \<noteq> JNull \<Longrightarrow> owned_by j app e = Inr True \<Longrightarrow>
        \<exists>y \<in> set es. owned_answer (app_id app) (app_slug app) e y"
proof -
  obtain s1 where g: "get_realm (http_of cfg) kc (realm_name (app_slug app) e) (web w) = (r, s1)"
    and w1: "w1 = w\<lparr>web := s1\<rparr>"
    using assms by (cases "get_realm (http_of cfg) kc (realm_name (app_slug app) e) (web w)") (simp add: on_web_def)
  from get_realm_answer[OF g] obtain es where es: "trace s1 = trace (web w) @ es" "list_all reads_only es"
    "\<And>j. r = Inr j \<Longrightarrow> j \<noteq> JNull \<Longrightarrow> \<exists>rq resp. (rq, Some resp) \<in> set es \<and> rq_method rq = GET
        \<and> rq_path rq = realm_path (realm_name (app_slug app) e) \<and> rs_status resp < 400 \<and> rs_body resp = Some j"
    by blast
  show ?thesis
  proof (rule that[of es])
    fix j assume "r = Inr j" "j \<noteq> JNull" and own: "owned_by j app e = Inr True"
    with es(3) obtain rq resp where "(rq, Some resp) \<in> set es" "rq_method rq = GET"
      "rq_path rq = realm_path (realm_name (app_slug app) e)" "rs_status resp < 400" "rs_body resp = Some j" by blast
    with own show "\<exists>y \<in> set es. owned_answer (app_id app) (app_slug app) e y"
      by (intro bexI[of _ "(rq, Some resp)"]) (simp_all add: owned_answer_def owned_by_true)
  qed (use w1 es(1,2) in \<open>simp_all add: w_trace_def\<close>)
qed

text \<open>
  A program that stays silent about other realms and so may run once the realm is identified.
\<close>

definition confined ::
  "int \<Rightarrow> string \<Rightarrow> string \<Rightarrow> (('v, 'k) identity_world, 'a) prog \<Rightarrow> bool" where
  "confined aid slug e m \<longleftrightarrow> appends w_trace (only_realm (realm_name slug e)) m \<and> keeps (slug_at aid slug) m"

lemma confinedI:
  "appends w_trace (only_realm (realm_name slug e)) m \<Longrightarrow> keeps (slug_at aid slug) m \<Longrightarrow> confined aid slug e m"
  by (simp add: confined_def)

text \<open>
  A check: it changes nothing but the exchange with Keycloak, sends only reads and creations with the
  markers, and a good result means that the realm was identified.
\<close>

definition checks_realm ::
  "int \<Rightarrow> string \<Rightarrow> string \<Rightarrow> ('a \<Rightarrow> bool) \<Rightarrow> (('v, 'k) identity_world, 'a) prog \<Rightarrow> bool" where
  "checks_realm aid slug e good m \<longleftrightarrow>
     (\<forall>w r w1. m w = (r, w1) \<longrightarrow> sess w1 = sess w \<and> vault w1 = vault w
        \<and> (\<exists>es. w_trace w1 = w_trace w @ es \<and> (\<forall>x \<in> set es. reads_only x \<or> creates_own aid slug x)
             \<and> (\<forall>x. r = Inr x \<longrightarrow> good x \<longrightarrow> (\<exists>y \<in> set es. owned_answer aid slug e y))))"

lemma checks_realmD:
  assumes "checks_realm aid slug e good m" and "m w = (r, w1)"
  obtains es where "sess w1 = sess w" "vault w1 = vault w" "w_trace w1 = w_trace w @ es"
    "\<forall>x \<in> set es. reads_only x \<or> creates_own aid slug x" "guarded aid slug [] es"
    "\<And>x. r = Inr x \<Longrightarrow> good x \<Longrightarrow> \<exists>y \<in> set es. owned_answer aid slug e y"
proof -
  note run = assms(1)[unfolded checks_realm_def, THEN spec, THEN spec, THEN spec, THEN mp, OF assms(2)]
  then obtain es where tr: "w_trace w1 = w_trace w @ es"
    and sent: "\<forall>x \<in> set es. reads_only x \<or> creates_own aid slug x"
    and own: "\<forall>x. r = Inr x \<longrightarrow> good x \<longrightarrow> (\<exists>y \<in> set es. owned_answer aid slug e y)"
    by (elim conjE exE)
  have "guarded aid slug [] es" using sent by (intro guarded_all) (auto simp: permitted_def)
  moreover have "sess w1 = sess w" "vault w1 = vault w" using run by simp_all
  ultimately show ?thesis using tr sent own by (intro that[of es]) simp_all
qed

lemma guards_checked:
  fixes m :: "(('v, 'k) identity_world, 'a) prog"
  assumes m: "checks_realm aid slug e good m" and e: "e \<in> set VALID_ENVS"
    and good: "\<And>x. good x \<Longrightarrow> confined aid slug e (k x)"
    and bad: "\<And>x. \<not> good x \<Longrightarrow> guards aid slug (k x)"
  shows "guards aid slug (bnd m k)"
proof (rule guardsI)
  fix w :: "('v, 'k) identity_world" assume w: "slug_at aid slug w"
  obtain r w1 where mw: "m w = (r, w1)" by fastforce
  from checks_realmD[OF m mw] obtain es where es: "sess w1 = sess w" "w_trace w1 = w_trace w @ es"
    "guarded aid slug [] es" "\<And>x. r = Inr x \<Longrightarrow> good x \<Longrightarrow> \<exists>y \<in> set es. owned_answer aid slug e y" by metis
  have w1: "slug_at aid slug w1" using w es(1) by (simp add: slug_at_def)
  have "slug_at aid slug (snd (bnd m k w)) \<and> (\<exists>es. w_trace (snd (bnd m k w)) = w_trace w @ es \<and> guarded aid slug [] es)"
  proof (cases r)
    case (Inl x)
    with mw es w1 show ?thesis by (auto simp: prog_simps)
  next
    case (Inr x)
    then have run: "bnd m k w = k x w1" using mw by (simp add: prog_simps)
    show ?thesis
    proof (cases "good x")
      case True
      from good[OF True] have kp: "keeps (slug_at aid slug) (k x)" and
        ap: "appends w_trace (only_realm (realm_name slug e)) (k x)" by (simp_all add: confined_def)
      have st: "slug_at aid slug (snd (k x w1))" by (rule keepsD[OF kp w1])
      from appendsE[OF ap, of w1] obtain es2 where es2: "w_trace (snd (k x w1)) = w_trace w1 @ es2"
        "list_all (only_realm (realm_name slug e)) es2" .
      have "permitted aid slug (rev es) y" if "y \<in> set es2" for y
        using that es2(2) es(4)[OF Inr True] e
        by (auto simp: permitted_def only_realm_def list_all_iff)
      then have "guarded aid slug [] (es @ es2)" using es(3)
        by (simp add: guarded_append guarded_all)
      with run st es(2) es2(1) show ?thesis by (intro conjI exI[of _ "es @ es2"]) simp_all
    next
      case False
      obtain r2 w2 where k: "k x w1 = (r2, w2)" by fastforce
      from guardsD[OF bad[OF False] w1 k] obtain es2 where es2: "slug_at aid slug w2"
        "w_trace w2 = w_trace w1 @ es2" "guarded aid slug [] es2" .
      have "guarded aid slug (rev es @ []) es2" by (rule guarded_mono[OF es2(3)]) simp
      with run k es es2 show ?thesis by (intro conjI exI[of _ "es @ es2"]) (simp_all add: guarded_append)
    qed
  qed
  then show "slug_at aid slug (snd (bnd m k w))"
    and "\<exists>es. w_trace (snd (bnd m k w)) = w_trace w @ es \<and> guarded aid slug [] es" by blast+
qed

lemma get_owned_realm_checks:
  "checks_realm (app_id app) (app_slug app) e (\<lambda>j. j \<noteq> JNull) (get_owned_realm cfg kc app e)"
  unfolding checks_realm_def
proof (intro allI impI)
  fix w r w1 assume g: "get_owned_realm cfg kc app e w = (r, w1)"
  obtain r0 w0 where c: "on_web (get_realm (http_of cfg) kc (realm_name (app_slug app) e)) w = (r0, w0)" by fastforce
  from checked_realm[OF c] obtain es where es: "sess w0 = sess w" "vault w0 = vault w" "w_trace w0 = w_trace w @ es"
    "list_all reads_only es" "\<And>j. r0 = Inr j \<Longrightarrow> j \<noteq> JNull \<Longrightarrow> owned_by j app e = Inr True \<Longrightarrow>
        \<exists>y \<in> set es. owned_answer (app_id app) (app_slug app) e y" by blast
  have w1: "w1 = w0" and r: "r = Inr j \<Longrightarrow> j \<noteq> JNull \<Longrightarrow> r0 = Inr j \<and> owned_by j app e = Inr True" for j
    using g by (auto simp: get_owned_realm_def bnd_apply c lift_apply ret_apply raise_apply
        split: sum.splits if_splits)
  show "sess w1 = sess w \<and> vault w1 = vault w
        \<and> (\<exists>es. w_trace w1 = w_trace w @ es \<and> (\<forall>x \<in> set es. reads_only x \<or> creates_own (app_id app) (app_slug app) x)
             \<and> (\<forall>x. r = Inr x \<longrightarrow> x \<noteq> JNull \<longrightarrow> (\<exists>y \<in> set es. owned_answer (app_id app) (app_slug app) e y)))"
  proof (intro conjI exI[of _ es] ballI allI impI)
    show "sess w1 = sess w" "vault w1 = vault w" "w_trace w1 = w_trace w @ es" using es(1-3) w1 by simp_all
  next
    fix x assume "x \<in> set es"
    with es(4) show "reads_only x \<or> creates_own (app_id app) (app_slug app) x" by (simp add: list_all_iff)
  next
    fix x assume "r = Inr x" "x \<noteq> JNull"
    with r[OF this] es(5) show "\<exists>y \<in> set es. owned_answer (app_id app) (app_slug app) e y" by simp
  qed
qed

lemma create_realm_creates:
  assumes "e \<in> set VALID_ENVS"
  shows "appends trace (\<lambda>x. reads_only x \<or> creates_own aid slug x)
    (create_realm tr kc (realm_name slug e) (realm_id aid e) False [(REALM_OWNER_ATTRIBUTE, JStr (string_of_int aid))])"
proof -
  let ?body = "realm_payload (realm_name slug e) (realm_id aid e) False [(REALM_OWNER_ATTRIBUTE, JStr (string_of_int aid))]"
  have "creates_own aid slug x" if "rq_method (fst x) = POST" "rq_path (fst x) = realms_path" "rq_json (fst x) = ?body" for x
    unfolding creates_own_def using that assms by blast
  then have "appends trace (\<lambda>x. reads_only x \<or> creates_own aid slug x) (do_request tr kc POST realms_path ?body)"
    by (intro appends_do_request) (simp_all add: reads_only_def)
  then show ?thesis unfolding create_realm_def
    by (intro appends_bnd appends_catch appends_modify_no_token appends_ret)
qed

lemma ensure_realm_checks:
  assumes e: "e \<in> set VALID_ENVS"
  shows "checks_realm (app_id app) (app_slug app) e (\<lambda>_. True) (ensure_realm cfg kc app e)"
proof -
  let ?P = "\<lambda>x. reads_only x \<or> creates_own (app_id app) (app_slug app) x"
  let ?own = "\<lambda>es. \<exists>y \<in> set es. owned_answer (app_id app) (app_slug app) e y"
  have "sess w1 = sess w \<and> vault w1 = vault w
        \<and> (\<exists>es. w_trace w1 = w_trace w @ es \<and> (\<forall>x \<in> set es. ?P x) \<and> (\<forall>x. r = Inr x \<longrightarrow> ?own es))"
    if run: "ensure_realm cfg kc app e w = (r, w1)" for w r w1
  proof -
    obtain r0 w0 where c0: "get_owned_realm cfg kc app e w = (r0, w0)" by fastforce
    from checks_realmD[OF get_owned_realm_checks c0] obtain es0 where es0: "sess w0 = sess w" "vault w0 = vault w"
      "w_trace w0 = w_trace w @ es0" "\<forall>x \<in> set es0. ?P x" "\<And>j. r0 = Inr j \<Longrightarrow> j \<noteq> JNull \<Longrightarrow> ?own es0" by metis
    show ?thesis
    proof (cases "r0 = Inr JNull")
      case False
      then have w1: "w1 = w0" and r: "r = Inr x \<Longrightarrow> \<exists>j. r0 = Inr j \<and> j \<noteq> JNull" for x
        using run c0 by (auto simp: ensure_realm_def bnd_apply ret_apply split: sum.splits if_splits)
      show ?thesis unfolding w1 using es0 r by (intro conjI exI[of _ es0]) (simp_all, metis)
    next
      case True
      let ?create = "create_realm (http_of cfg) kc (realm_name (app_slug app) e) (realm_id (app_id app) e) False
                 [(REALM_OWNER_ATTRIBUTE, JStr (string_of_int (app_id app)))]"
      obtain r2 w2 where cr: "on_web ?create w0 = (r2, w2)" by fastforce
      have ap: "appends w_trace ?P (on_web ?create)"
        by (rule appends_on_web) (rule create_realm_creates[OF e])
      obtain es2 where es2: "w_trace (snd (on_web ?create w0)) = w_trace w0 @ es2" "list_all ?P es2"
        by (rule appendsE[OF ap, of w0])
      note es2 = es2[unfolded cr snd_conv]
      have w2: "sess w2 = sess w0" "vault w2 = vault w0" using cr by (auto simp: prog_simps)
      obtain r3 w3 where c3: "get_owned_realm cfg kc app e w2 = (r3, w3)" by fastforce
      from checks_realmD[OF get_owned_realm_checks c3] obtain es3 where es3: "sess w3 = sess w2" "vault w3 = vault w2"
        "w_trace w3 = w_trace w2 @ es3" "\<forall>x \<in> set es3. ?P x" "\<And>j. r3 = Inr j \<Longrightarrow> j \<noteq> JNull \<Longrightarrow> ?own es3" by metis
      have step: "ensure_realm cfg kc app e w = (case r2 of Inl x \<Rightarrow> (Inl x, w2)
          | Inr _ \<Rightarrow> (case r3 of Inl x \<Rightarrow> (Inl x, w3)
              | Inr j \<Rightarrow> (if j = JNull then Inl (HTTPException 409) else Inr (), w3)))"
        using c0 cr c3 True
        by (auto simp: ensure_realm_def bnd_apply ret_apply raise_apply split: sum.split)
      show ?thesis
      proof (cases r2)
        case (Inl x)
        with step run have "r = Inl x" "w1 = w2" by simp_all
        with es0 es2 w2 show ?thesis
          by (intro conjI exI[of _ "es0 @ es2"]) (simp_all add: list_all_iff ball_Un)
      next
        case (Inr u)
        with step run have "w1 = w3" "\<And>x. r = Inr x \<Longrightarrow> \<exists>j. r3 = Inr j \<and> j \<noteq> JNull"
          by (auto split: sum.splits if_splits)
        note w1 = this
        have tr: "w_trace w1 = w_trace w @ (es0 @ es2 @ es3)" using w1(1) es0(3) es2(1) es3(3) by simp
        have "\<forall>x \<in> set (es0 @ es2 @ es3). ?P x" using es0(4) es2(2) es3(4) by (simp add: list_all_iff ball_Un)
        moreover have "?own (es0 @ es2 @ es3)" if "r = Inr x" for x
          using w1(2)[OF that] es3(5) by auto
        moreover have "sess w1 = sess w" "vault w1 = vault w" using w1(1) es0 es3 w2 by simp_all
        ultimately show ?thesis using tr by blast
      qed
    qed
  qed
  then show ?thesis unfolding checks_realm_def by (intro allI impI) simp
qed

lemma confined_provision_client:
  "appends w_trace (only_realm (realm_name (app_slug app) e)) (provision_client cfg connection kc app e)"
  "keeps (slug_at aid slug) (provision_client cfg connection kc app e)"
  unfolding provision_client_def Let_def by (intro appends_intros keeps_intros)+

lemma confined_vault_path:
  "appends w_trace P (vault_path app e)" "keeps (slug_at aid slug) (vault_path app e)"
  unfolding vault_path_def by (intro appends_intros keeps_intros)+

lemma confined_status_for_env:
  "appends w_trace (only_realm realm) (status_for_env cfg app e kc url)"
  "keeps (slug_at aid slug) (status_for_env cfg app e kc url)"
  unfolding status_for_env_def Let_def by (intro appends_intros keeps_intros)+

lemma guards_validate_env [guards_intros]: "guards aid slug (validate_env e)"
  unfolding validate_env_def by (intro guards_intros)

lemma guards_require_enabled [guards_intros]: "guards aid slug (require_enabled app)"
  unfolding require_enabled_def by (intro guards_intros)

lemma guards_validated:
  assumes "e \<in> set VALID_ENVS \<Longrightarrow> guards aid slug k"
  shows "guards aid slug (bnd (validate_env e) (\<lambda>_. k))"
  using assms by (cases "e \<in> set VALID_ENVS") (simp_all add: validate_env_def guards_raise)

lemma provision_guards: "guards (app_id app) (app_slug app) (provision cfg app e)"
  unfolding provision_def
proof (rule guards_validated, rule guards_bnd[OF guards_resolve], rule guards_bnd[OF guards_client_of])
  fix connection kc assume e: "e \<in> set VALID_ENVS"
  show "guards (app_id app) (app_slug app) (bnd (ensure_realm cfg kc app e) (\<lambda>_.
     bnd (provision_client cfg connection kc app e) (\<lambda>oidc_vars.
     bnd (vault_path app e) (\<lambda>path.
     bnd (on_vault (patch_secret (hvac_of cfg) path oidc_vars)) (\<lambda>_.
     bnd (status_for_env cfg app e kc (rk_public_url connection)) (\<lambda>result.
       if es_state result = KC_MISSING \<or> es_state result = KC_FOREIGN then raise_exc KeycloakErr
       else ret result))))))"
    by (rule guards_checked[OF ensure_realm_checks[OF e] e])
      (intro confinedI appends_intros keeps_intros confined_provision_client confined_vault_path
        confined_status_for_env, simp)
qed

lemma reprovision_guards: "guards (app_id app) (app_slug app) (reprovision cfg app e)"
  unfolding reprovision_def
proof (rule guards_validated, rule guards_bnd[OF guards_require_enabled], rule guards_bnd[OF guards_resolve],
    rule guards_bnd[OF guards_client_of])
  fix connection kc assume e: "e \<in> set VALID_ENVS"
  show "guards (app_id app) (app_slug app) (bnd (get_owned_realm cfg kc app e) (\<lambda>found.
       if found \<noteq> JNull then raise_exc (HTTPException 409) else provision cfg app e))"
    by (rule guards_checked[OF get_owned_realm_checks e])
      (simp_all add: provision_guards confinedI appends_raise keeps_raise)
qed

lemma keeps_slug_lift: "keeps (slug_at aid slug) (lift_result r)"
  by (rule keeps_lift)

lemma grant_console_access_guards: "guards (app_id app) (app_slug app) (grant_console_access cfg app e u)"
proof -
  have pw: "appends w_trace P (fresh_password cfg)" "keeps (slug_at aid slug) (fresh_password cfg)" for P aid slug
    unfolding fresh_password_def
    by (rule appends_on_web, rule appends_same, simp split: prod.split) (rule keeps_slug_on_web)
  show ?thesis
    unfolding grant_console_access_def
    apply (rule guards_validated, rule guards_bnd[OF guards_require_enabled], rule guards_bnd[OF guards_resolve],
        rule guards_bnd[OF guards_client_of], rule guards_checked[OF get_owned_realm_checks], assumption)
    subgoal by (simp add: Let_def split_beta) (intro conjI impI confinedI appends_intros keeps_intros pw)
    subgoal by (simp add: guards_raise)
    done
qed

definition owned_check ::
  "('v, 'k) identity_env \<Rightarrow> keycloak_client \<Rightarrow> application \<Rightarrow> string \<Rightarrow> (('v, 'k) identity_world, bool) prog" where
  "owned_check cfg kc app e =
     bnd (on_web (get_realm (http_of cfg) kc (realm_name (app_slug app) e))) (\<lambda>realm_repr.
       if realm_repr = JNull then ret False else lift_result (owned_by realm_repr app e))"

lemma if_owned_check: "if_owned cfg kc app e act = bnd (owned_check cfg kc app e) (\<lambda>owned. if owned then act else ret ())"
  unfolding if_owned_def owned_check_def bnd_assoc
  by (rule arg_cong[where f = "bnd _"]) (auto simp: fun_eq_iff prog_simps)

lemma owned_check_checks:
  "checks_realm (app_id app) (app_slug app) e (\<lambda>owned. owned) (owned_check cfg kc app e)"
proof -
  let ?own = "\<lambda>es. \<exists>y \<in> set es. owned_answer (app_id app) (app_slug app) e y"
  have "sess w1 = sess w \<and> vault w1 = vault w
        \<and> (\<exists>es. w_trace w1 = w_trace w @ es \<and> (\<forall>x \<in> set es. reads_only x \<or> creates_own (app_id app) (app_slug app) x)
             \<and> (\<forall>x. r = Inr x \<longrightarrow> x \<longrightarrow> ?own es))"
    if g: "owned_check cfg kc app e w = (r, w1)" for w r w1
  proof -
    obtain r0 w0 where c: "on_web (get_realm (http_of cfg) kc (realm_name (app_slug app) e)) w = (r0, w0)" by fastforce
    from checked_realm[OF c] obtain es where es: "sess w0 = sess w" "vault w0 = vault w" "w_trace w0 = w_trace w @ es"
      "list_all reads_only es" "\<And>j. r0 = Inr j \<Longrightarrow> j \<noteq> JNull \<Longrightarrow> owned_by j app e = Inr True \<Longrightarrow> ?own es" by blast
    have w1: "w1 = w0" and r: "r = Inr True \<Longrightarrow> \<exists>j. r0 = Inr j \<and> j \<noteq> JNull \<and> owned_by j app e = Inr True"
      using g by (auto simp: owned_check_def bnd_apply c lift_apply ret_apply split: sum.splits if_splits)
    have "?own es" if "r = Inr True" using r[OF that] es(5) by blast
    with es(1-4) w1 show ?thesis by (intro conjI exI[of _ es]) (auto simp: list_all_iff)
  qed
  then show ?thesis unfolding checks_realm_def by (intro allI impI) simp
qed

lemma if_owned_guards:
  assumes "e \<in> set VALID_ENVS" and "confined (app_id app) (app_slug app) e act"
  shows "guards (app_id app) (app_slug app) (if_owned cfg kc app e act)"
  unfolding if_owned_check
  by (rule guards_checked[OF owned_check_checks assms(1)]) (simp_all add: assms(2) guards_ret)

lemma with_keycloak_guards:
  "(\<And>kc. guards aid slug (act kc)) \<Longrightarrow> guards aid slug (with_keycloak cfg app act)"
  unfolding with_keycloak_def by (intro guards_intros)

lemma delete_users_only_realm: "appends trace (only_realm realm) (delete_users_by_attribute tr kc realm key val)"
  unfolding delete_users_by_attribute_def by (intro appends_intros) simp

lemma revoke_member_guards: "guards (app_id app) (app_slug app) (revoke_member cfg app uid)"
  unfolding revoke_member_def
  by (intro with_keycloak_guards guards_for_each guards_best_effort if_owned_guards confinedI appends_on_web
      delete_users_only_realm keeps_slug_on_web)

lemma deprovision_guards: "guards (app_id app) (app_slug app) (deprovision cfg app)"
  unfolding deprovision_def
  by (intro with_keycloak_guards guards_for_each guards_best_effort if_owned_guards confinedI appends_on_web
      delete_realm_only_realm keeps_slug_on_web)

lemma guards_app_object:
  fixes k :: "application \<Rightarrow> (('v, 'k) identity_world, 'a) prog"
  assumes "\<And>app. app_id app = aid \<Longrightarrow> app_slug app = slug \<Longrightarrow> guards aid slug (k app)"
  shows "guards aid slug (bnd (app_object aid) k)"
proof -
  have obj: "bnd (app_object aid) k w = (case get_application aid (db (sess w)) of
      None \<Rightarrow> (Inl AttributeError, w) | Some app \<Rightarrow> k app w)" for w
    by (simp add: app_object_def prog_simps split: option.split)
  show ?thesis unfolding guards_def
  proof (intro allI impI)
    fix w :: "('v, 'k) identity_world" assume w: "slug_at aid slug w"
    show "slug_at aid slug (snd (bnd (app_object aid) k w)) \<and>
      (\<exists>es. w_trace (snd (bnd (app_object aid) k w)) = w_trace w @ es \<and> guarded aid slug [] es)"
    proof (cases "get_application aid (db (sess w))")
      case None
      with w show ?thesis by (simp add: obj)
    next
      case (Some app)
      have "guards aid slug (k app)"
        using assms get_application_Some[OF Some] w Some by (simp add: slug_at_def)
      with w Some show ?thesis by (simp add: obj guards_def)
    qed
  qed
qed

lemma guards_set_app [guards_intros]:
  assumes "\<And>a. app_id (f a) = app_id a" and "\<And>a. app_slug (f a) = app_slug a"
  shows "guards aid slug (set_app i f)"
proof (rule guards_quiet)
  fix w assume w: "slug_at aid slug w"
  have "get_application aid (update_application i f d) = map_option (\<lambda>a. if app_id a = i then f a else a) (get_application aid d)" for d
    unfolding get_application_def update_application_def by (simp add: find_update_stable assms(1))
  with w assms(2) show "slug_at aid slug (snd (set_app i f w))"
    by (auto simp: slug_at_def set_app_def prog_simps)
qed (simp add: set_app_def prog_simps w_trace_def)

lemma guards_commit_world [guards_intros]: "guards aid slug commit_world"
  by (rule guards_quiet) (simp_all add: commit_world_def prog_simps commit_def slug_at_def w_trace_def)

lemma guards_on_vault [guards_intros]: "guards aid slug (on_vault m)"
  by (rule guards_quiet) (simp_all add: prog_simps slug_at_def w_trace_def)

lemma warnings_frame [simp]:
  "app_id (add_auth_warnings ws a) = app_id a" "app_slug (add_auth_warnings ws a) = app_slug a"
  "app_id (clear_activation_warnings a) = app_id a" "app_slug (clear_activation_warnings a) = app_slug a"
  by (simp_all add: add_auth_warnings_def clear_activation_warnings_def)

lemma activation_failed_guards [guards_intros]:
  "guards aid slug (mark_activation_failed aid wn)" "guards aid slug (activation_failed cfg aid wn)"
proof -
  show m: "guards aid slug (mark_activation_failed aid wn)"
    unfolding mark_activation_failed_def by (intro guards_intros) simp_all
  show "guards aid slug (activation_failed cfg aid wn)"
    unfolding activation_failed_def by (intro guards_bnd[OF m] guards_app_object guards_intros)
qed

lemma activate_guards: "guards aid slug (activate cfg aid)"
proof -
  have prov: "guards aid slug (provision cfg app e)" if "app_id app = aid" "app_slug app = slug" for app e
    using provision_guards[of app cfg e] that by simp
  have check: "guards aid slug (activation_check cfg aid app)" for app
    unfolding activation_check_def assert_no_foreign_oidc_keys_def vault_path_def by (intro guards_intros)
  have bind: "guards aid slug (activation_bind cfg aid)"
  proof -
    have "guards aid slug (bind_for_activation cfg aid)"
      unfolding bind_for_activation_def by (rule guards_app_object) (intro guards_intros; simp)
    then show ?thesis unfolding activation_bind_def by (intro guards_intros)
  qed
  have ap: "guards aid slug (activate_provision cfg aid)"
    unfolding activate_provision_def
    apply (rule guards_app_object, rule guards_bnd, rule prov, assumption, assumption)
    apply (rule guards_app_object, rule guards_bnd, rule prov, assumption, assumption)
    apply (rule guards_set_app; simp)
    done
  have "guards aid slug (activation_provision cfg aid)"
    unfolding activation_provision_def
    by (rule guards_bnd, rule guards_set_app; (intro guards_intros ap)?; simp?)
  with check bind show ?thesis unfolding activate_def
    by (intro guards_app_object guards_if guards_raise guards_or_else guards_bnd[OF guards_commit_world]
        guards_keycloak_status) assumption+
qed

section \<open>Any sequence of operations\<close>

datatype realm_operation =
    ENABLE
  | READ_STATUS
  | RECREATE string
  | CONSOLE_ACCESS string user
  | REVOKE_USER int
  | REMOVE

definition discard :: "('s, 'a) prog \<Rightarrow> ('s, unit) prog" where
  "discard m = bnd m (\<lambda>_. ret ())"

definition perform :: "('v, 'k) identity_env \<Rightarrow> int \<Rightarrow> realm_operation \<Rightarrow> (('v, 'k) identity_world, unit) prog" where
  "perform cfg aid oper =
     bnd (app_object aid) (\<lambda>app.
       case oper of
         ENABLE \<Rightarrow> discard (activate cfg aid)
       | READ_STATUS \<Rightarrow> discard (keycloak_status cfg app)
       | RECREATE e \<Rightarrow> discard (reprovision cfg app e)
       | CONSOLE_ACCESS e u \<Rightarrow> discard (grant_console_access cfg app e u)
       | REVOKE_USER uid \<Rightarrow> revoke_member cfg app uid
       | REMOVE \<Rightarrow> deprovision cfg app)"

lemma guards_discard: "guards aid slug m \<Longrightarrow> guards aid slug (discard m)"
  unfolding discard_def by (intro guards_intros)

lemma perform_guards: "guards aid slug (perform cfg aid oper)"
  unfolding perform_def
proof (rule guards_app_object)
  fix app :: application assume "app_id app = aid" "app_slug app = slug"
  then show "guards aid slug (case oper of
         ENABLE \<Rightarrow> discard (activate cfg aid)
       | READ_STATUS \<Rightarrow> discard (keycloak_status cfg app)
       | RECREATE e \<Rightarrow> discard (reprovision cfg app e)
       | CONSOLE_ACCESS e u \<Rightarrow> discard (grant_console_access cfg app e u)
       | REVOKE_USER uid \<Rightarrow> revoke_member cfg app uid
       | REMOVE \<Rightarrow> deprovision cfg app)"
    using reprovision_guards[of app cfg] grant_console_access_guards[of app cfg] revoke_member_guards[of app cfg]
      deprovision_guards[of app cfg]
    by (cases oper) (simp_all add: guards_discard activate_guards guards_keycloak_status)
qed

text \<open>
  C24: whatever Keycloak answers or fails to answer, over any sequence of the service's operations
  on an application (activation, status, recreation, console access, revocation, removal), every
  request that writes is either the creation of a realm carrying the application's own markers, or
  a write inside one of the application's two realms after an earlier answer showed that this realm
  has the internal id and the owner attribute of the application. A realm of somebody else that has
  the name is never adopted, completed, written to or deleted.
\<close>

theorem realm_writes_are_guarded:
  assumes "get_application aid (db (sess w)) = Some app"
  shows "\<exists>es. w_trace (snd (for_each opers (\<lambda>oper. best_effort (perform cfg aid oper)) w)) = w_trace w @ es
           \<and> guarded aid (app_slug app) [] es"
proof -
  have "slug_at aid (app_slug app) w" using assms by (simp add: slug_at_def)
  moreover have "guards aid (app_slug app) (for_each opers (\<lambda>oper. best_effort (perform cfg aid oper)))"
    by (intro guards_for_each guards_best_effort perform_guards)
  ultimately show ?thesis by (simp add: guards_def)
qed

section \<open>Revocation\<close>

lemma with_keycloak_never_raises:
  assumes "\<And>kc w. fst (act kc w) = Inr ()"
  shows "fst (with_keycloak cfg app act w) = Inr ()"
proof -
  obtain r w1 where r: "resolve_for_app cfg app w = (r, w1)" by fastforce
  then show ?thesis
    using resolve_for_app_error[of cfg app w] assms
    by (cases r) (auto simp: with_keycloak_def prog_simps unavailable_def client_of_def new_client_def)
qed

lemma revoke_member_never_raises: "fst (revoke_member cfg app uid w) = Inr ()"
  unfolding revoke_member_def
  by (intro with_keycloak_never_raises for_each_never_raises best_effort_never_raises)

lemma deprovision_never_raises: "fst (deprovision cfg app w) = Inr ()"
  unfolding deprovision_def
  by (intro with_keycloak_never_raises for_each_never_raises best_effort_never_raises)

lemma revoke_if_never_raises: "fst (revoke_console_access_if_not_maintainer cfg app uid w) = Inr ()"
  by (simp add: revoke_console_access_if_not_maintainer_def ret_apply best_effort_never_raises)

text \<open>
  The clean-up paths never raise, whatever Keycloak, Vault or the registry answer: revoking a
  member, revoking what a synchronisation or a user update costs, and deleting an application's
  realms all return.
\<close>

theorem revocation_never_raises:
  "fst (revoke_member cfg app uid w) = Inr ()
   \<and> fst (deprovision cfg app w) = Inr ()
   \<and> fst (revoke_console_access_if_not_maintainer cfg app cnp_user w) = Inr ()
   \<and> fst (revoke_lost_console_access cfg pairs w) = Inr ()
   \<and> fst (revoke_console_access_after_user_update cfg uid deactivated w) = Inr ()"
proof -
  have "fst (revoke_lost_console_access cfg pairs w) = Inr ()"
    unfolding revoke_lost_console_access_def
    by (rule for_each_never_raises)
      (auto simp: prog_simps split: option.split prod.split intro: revoke_if_never_raises)
  then show ?thesis
    by (simp add: revoke_member_never_raises deprovision_never_raises revoke_if_never_raises
        revoke_console_access_after_user_update_def best_effort_never_raises)
qed

text \<open>What revoking a member sends: reads, and deletions of accounts that carry the member's id.\<close>

definition revokes_only :: "application \<Rightarrow> int \<Rightarrow> exchange list \<Rightarrow> bool" where
  "revokes_only app uid es \<longleftrightarrow>
     (\<forall>x \<in> set es. reads_only x \<or> (\<exists>e \<in> set VALID_ENVS. \<exists>account.
        deletes_account (realm_name (app_slug app) e) account x
        \<and> (\<exists>y \<in> set es. listed_with (realm_name (app_slug app) e) USER_OWNER_ATTRIBUTE (string_of_int uid) account y)
        \<and> (\<exists>y \<in> set es. owned_answer (app_id app) (app_slug app) e y)))"

lemma revokes_only_append: "revokes_only app uid xs \<Longrightarrow> revokes_only app uid ys \<Longrightarrow> revokes_only app uid (xs @ ys)"
  unfolding revokes_only_def set_append by blast

lemma revokes_only_reads: "list_all reads_only es \<Longrightarrow> revokes_only app uid es"
  by (simp add: revokes_only_def list_all_iff)

definition revokes :: "application \<Rightarrow> int \<Rightarrow> (('v, 'k) identity_world, unit) prog \<Rightarrow> bool" where
  "revokes app uid m \<longleftrightarrow>
     (\<forall>w. \<exists>es. w_trace (snd (m w)) = w_trace w @ es \<and> revokes_only app uid es)"

lemma revokes_for_each: "(\<And>x. x \<in> set xs \<Longrightarrow> revokes app uid (f x)) \<Longrightarrow> revokes app uid (for_each xs f)"
proof (induction xs)
  case Nil
  then show ?case by (simp add: revokes_def prog_simps revokes_only_def)
next
  case (Cons x xs)
  show ?case unfolding revokes_def
  proof
    fix w
    obtain r w1 where f: "f x w = (r, w1)" by fastforce
    from Cons.prems[of x] obtain es where es: "w_trace (snd (f x w)) = w_trace w @ es" "revokes_only app uid es"
      by (auto simp: revokes_def)
    from Cons have "revokes app uid (for_each xs f)" by simp
    then obtain es2 where es2: "w_trace (snd (for_each xs f w1)) = w_trace w1 @ es2" "revokes_only app uid es2"
      unfolding revokes_def by blast
    show "\<exists>es. w_trace (snd (for_each (x # xs) f w)) = w_trace w @ es \<and> revokes_only app uid es"
    proof (cases r)
      case (Inl e)
      with f es show ?thesis by (simp add: prog_simps)
    next
      case (Inr u)
      with f es es2 revokes_only_append show ?thesis
        by (intro exI[of _ "es @ es2"]) (simp add: prog_simps)
    qed
  qed
qed

lemma revokes_realm:
  assumes "e \<in> set VALID_ENVS"
  shows "revokes app uid (best_effort (if_owned cfg kc app e
           (on_web (delete_users_by_attribute (http_of cfg) kc (realm_name (app_slug app) e)
                      USER_OWNER_ATTRIBUTE (string_of_int uid)))))"
proof -
  let ?del = "delete_users_by_attribute (http_of cfg) kc (realm_name (app_slug app) e) USER_OWNER_ATTRIBUTE (string_of_int uid)"
  let ?m = "if_owned cfg kc app e (on_web ?del)"
  have "\<exists>es. w_trace (snd (?m w)) = w_trace w @ es \<and> revokes_only app uid es" for w
  proof -
    obtain r w1 where c: "owned_check cfg kc app e w = (r, w1)" by fastforce
    have ap: "appends w_trace reads_only (owned_check cfg kc app e)"
      unfolding owned_check_def by (intro appends_intros)
    obtain es where es: "w_trace (snd (owned_check cfg kc app e w)) = w_trace w @ es" "list_all reads_only es"
      by (rule appendsE[OF ap, of w])
    note es = es[unfolded c snd_conv]
    show ?thesis
    proof (cases "r = Inr True")
      case False
      then have "snd (?m w) = w1" unfolding if_owned_check using c by (auto simp: prog_simps split: sum.split)
      with es show ?thesis by (auto intro: revokes_only_reads)
    next
      case True
      from checks_realmD[OF owned_check_checks c] obtain es' where "w_trace w1 = w_trace w @ es'"
        "\<And>x. r = Inr x \<Longrightarrow> x \<Longrightarrow> \<exists>y \<in> set es'. owned_answer (app_id app) (app_slug app) e y" by metis
      with True es have own: "\<exists>y \<in> set es. owned_answer (app_id app) (app_slug app) e y" by simp
      from delete_users_tagged[of "http_of cfg" kc "realm_name (app_slug app) e" USER_OWNER_ATTRIBUTE "string_of_int uid" "web w1"]
      obtain ds where ds: "trace (snd (?del (web w1))) = trace (web w1) @ ds"
        "tagged_deletions (realm_name (app_slug app) e) USER_OWNER_ATTRIBUTE (string_of_int uid) ds" by blast
      have "snd (?m w) = w1\<lparr>web := snd (?del (web w1))\<rparr>"
        unfolding if_owned_check using c True by (simp add: prog_simps)
      with ds(1) es(1) have tr: "w_trace (snd (?m w)) = w_trace w @ (es @ ds)" by (simp add: w_trace_def)
      have "revokes_only app uid (es @ ds)"
        unfolding revokes_only_def
      proof
        fix x assume "x \<in> set (es @ ds)"
        then consider "reads_only x" | account where "deletes_account (realm_name (app_slug app) e) account x"
            "\<exists>y \<in> set ds. listed_with (realm_name (app_slug app) e) USER_OWNER_ATTRIBUTE (string_of_int uid) account y"
          using es(2) ds(2) unfolding tagged_deletions_def list_all_iff set_append by blast
        then show "reads_only x \<or> (\<exists>e \<in> set VALID_ENVS. \<exists>account.
            deletes_account (realm_name (app_slug app) e) account x
            \<and> (\<exists>y \<in> set (es @ ds). listed_with (realm_name (app_slug app) e) USER_OWNER_ATTRIBUTE (string_of_int uid) account y)
            \<and> (\<exists>y \<in> set (es @ ds). owned_answer (app_id app) (app_slug app) e y))"
        proof cases
          case 2
          with assms own show ?thesis unfolding set_append by blast
        qed simp
      qed
      with tr show ?thesis by blast
    qed
  qed
  then show ?thesis unfolding revokes_def by (simp add: prog_simps)
qed

lemma revoke_member_revokes: "revokes app uid (revoke_member cfg app uid)"
  unfolding revokes_def
proof
  fix w :: "('a, 'b) identity_world"
  let ?act = "\<lambda>kc. for_each VALID_ENVS (\<lambda>e. best_effort (if_owned cfg kc app e
         (on_web (delete_users_by_attribute (http_of cfg) kc (realm_name (app_slug app) e)
                    USER_OWNER_ATTRIBUTE (string_of_int uid)))))"
  obtain r w1 where res: "resolve_for_app cfg app w = (r, w1)" by fastforce
  from resolve_for_app_state[OF res] have w1: "w1 = w" .
  show "\<exists>es. w_trace (snd (revoke_member cfg app uid w)) = w_trace w @ es \<and> revokes_only app uid es"
  proof (cases r)
    case (Inl e)
    with res w1 resolve_for_app_error[of cfg app w e] have "snd (revoke_member cfg app uid w) = w"
      by (simp add: revoke_member_def with_keycloak_def prog_simps unavailable_def)
    then show ?thesis by (simp add: revokes_only_def)
  next
    case (Inr c)
    obtain kc w2 where kc: "client_of c w = (Inr kc, w2)" "w_trace w2 = w_trace w"
      by (simp add: client_of_def new_client_def prog_simps w_trace_def no_token_def)
    have act: "revokes app uid (?act kc)" by (intro revokes_for_each revokes_realm)
    note act[unfolded revokes_def, THEN spec, of w2]
    moreover have "snd (revoke_member cfg app uid w) = snd (?act kc w2)"
      using res w1 Inr kc(1) unfolding revoke_member_def by (simp add: with_keycloak_def bnd_apply try_apply ret_apply)
    ultimately show ?thesis using kc(2) by (simp add: revokes_def)
  qed
qed

text \<open>
  C25: after a membership change, a user who still has the console tier on the application keeps
  everything: Keycloak is not even contacted. Otherwise only accounts are deleted, each one listed
  by Keycloak with the user's own id as its attribute, in a realm that was identified as the
  application's: never an account of the application's end users.
\<close>

theorem revocation_is_targeted:
  "(if has_console_tier (get_effective_tier uid (app_id app) (db (sess w))) \<or> \<not> app_auth_enabled app
    then w_trace (snd (revoke_console_access_if_not_maintainer cfg app (Some uid) w)) = w_trace w
    else \<exists>es. w_trace (snd (revoke_console_access_if_not_maintainer cfg app (Some uid) w)) = w_trace w @ es
           \<and> revokes_only app uid es)"
proof (cases "truthy_id (Some uid) \<and> app_auth_enabled app
    \<and> \<not> has_console_tier (get_effective_tier uid (app_id app) (db (sess w)))")
  case False
  then show ?thesis
    by (auto simp: revoke_console_access_if_not_maintainer_def prog_simps commit_world_def w_trace_def
        revokes_only_def)
next
  case True
  let ?w1 = "w\<lparr>sess := commit (sess w)\<rparr>"
  have "snd (revoke_console_access_if_not_maintainer cfg app (Some uid) w) = snd (revoke_member cfg app uid ?w1)"
    using True by (simp add: revoke_console_access_if_not_maintainer_def prog_simps commit_world_def)
  moreover have "w_trace ?w1 = w_trace w" by (simp add: w_trace_def)
  moreover obtain es where "w_trace (snd (revoke_member cfg app uid ?w1)) = w_trace ?w1 @ es" "revokes_only app uid es"
    using revoke_member_revokes[of app uid cfg] unfolding revokes_def by blast
  ultimately show ?thesis using True by auto
qed

section \<open>Example\<close>

theorem realm_writes_are_guarded_witness:
  "\<exists>es. w_trace (snd (for_each [REMOVE] (\<lambda>oper. best_effort (perform demo_identity_env 7 oper)) demo_world)) = es
     \<and> guarded 7 ''shop'' [] es"
proof -
  have row: "get_application 7 (db (sess demo_world)) = Some demo_app"
    by (simp add: demo_world_def open_session_def demo_registry_def get_application_def find_row_def demo_app_def
        blank_application_def)
  have "app_slug demo_app = ''shop''" by (simp add: demo_app_def blank_application_def)
  with realm_writes_are_guarded[OF row, of "[REMOVE]" demo_identity_env] show ?thesis
    by (simp add: demo_world_def w_trace_def)
qed

theorem revocation_is_targeted_witness:
  "\<exists>es. w_trace (snd (revoke_console_access_if_not_maintainer demo_identity_env demo_app (Some 5) demo_world)) = es
     \<and> revokes_only demo_app 5 es"
proof -
  have "\<not> (has_console_tier (get_effective_tier 5 (app_id demo_app) (db (sess demo_world))) \<or> \<not> app_auth_enabled demo_app)"
    by code_simp
  with revocation_is_targeted[of 5 demo_app demo_world demo_identity_env] show ?thesis
    by (simp add: demo_world_def w_trace_def)
qed

end
