(* ===== verification/Keycloak_Outcome.thy ===== *)
theory Keycloak_Outcome
  imports Keycloak_Guard
begin

text \<open>
  What the operations of Keycloak.thy leave in the database and in Vault: an activation always
  records how it ended, and a provisioning that succeeds has published the application's OIDC
  variables and nothing else.
\<close>

section \<open>What stays of the session and of Vault\<close>

lemma keeps_sess_on_web [keeps_intros]: "keeps (\<lambda>w. sess w = s) (on_web m)"
  by (rule keepsI) (simp add: prog_simps)

lemma keeps_sess_on_vault [keeps_intros]: "keeps (\<lambda>w. sess w = s) (on_vault m)"
  by (rule keepsI) (simp add: prog_simps)

lemma keeps_from_db [keeps_intros]: "keeps P (from_db f)"
  by (rule keepsI) (simp add: prog_simps)

lemma keeps_resolve [keeps_intros]: "keeps P (resolve_for_app cfg app)"
  by (rule keepsI) (metis prod.collapse resolve_for_app_state)

lemma keeps_client_of [keeps_intros]: "keeps (\<lambda>w. sess w = s) (client_of c)"
  unfolding client_of_def by (rule keeps_sess_on_web)

lemma provision_sess: "keeps (\<lambda>w. sess w = s) (provision cfg app e)"
  unfolding provision_def validate_env_def ensure_realm_def get_owned_realm_def provision_client_def
    vault_path_def status_for_env_def Let_def
  by (intro keeps_intros)

lemma status_sess: "keeps (\<lambda>w. sess w = s) (keycloak_status cfg app)"
  unfolding keycloak_status_def status_for_env_def Let_def by (intro keeps_intros)

lemma sess_after: "keeps (\<lambda>v. sess v = sess w) m \<Longrightarrow> m w = (r, w1) \<Longrightarrow> sess w1 = sess w"
  using keepsD'[of "\<lambda>v. sess v = sess w" m w r w1] by simp

lemma keycloak_status_fields:
  assumes "keycloak_status cfg app w = (Inr st, w1)"
  shows "st_auth_provisioned st = app_auth_provisioned app \<and> st_auth_warnings st = current_warnings app
       \<and> sess w1 = sess w"
proof -
  have "sess w1 = sess w" by (rule sess_after[OF status_sess assms])
  with assms show ?thesis
    by (auto simp: keycloak_status_def prog_simps split: sum.splits option.splits prod.splits if_splits)
qed

lemma get_update_application:
  assumes "\<And>a. app_id (f a) = app_id a"
  shows "get_application aid (update_application aid f d) = map_option f (get_application aid d)"
  unfolding get_application_def update_application_def using find_update_same[of app_id f aid "applications d"] assms
  by simp

lemma set_dedup [simp]: "set (dedup xs) = set xs"
  by (induction xs) auto

section \<open>How an activation ends\<close>

definition standing :: "application \<Rightarrow> keycloak_auth_warning set" where
  "standing app = set (current_warnings app) - set ACTIVATION_WARNINGS"

lemma warnings_after:
  "current_warnings (clear_activation_warnings a) = filter (\<lambda>x. x \<notin> set ACTIVATION_WARNINGS) (current_warnings a)"
  "set (current_warnings (add_auth_warnings ws a)) = set (current_warnings a) \<union> set ws"
  "app_auth_provisioned (clear_activation_warnings a) = app_auth_provisioned a"
  "app_auth_provisioned (add_auth_warnings ws a) = app_auth_provisioned a"
  "app_auth_enabled (clear_activation_warnings a) = app_auth_enabled a"
  "app_auth_enabled (add_auth_warnings ws a) = app_auth_enabled a"
  "current_warnings (a\<lparr>app_auth_provisioned := p\<rparr>) = current_warnings a"
  "current_warnings (a\<lparr>app_auth_enabled := b\<rparr>) = current_warnings a"
  "current_warnings (a\<lparr>app_auth_instance_key := k\<rparr>) = current_warnings a"
  by (simp_all add: clear_activation_warnings_def add_auth_warnings_def current_warnings_def)

definition activation_outcome :: "int \<Rightarrow> keycloak_auth_warning set \<Rightarrow> status_response \<Rightarrow> ('v, 'k) identity_world \<Rightarrow> bool" where
  "activation_outcome aid kept st w \<longleftrightarrow>
     (\<exists>a. get_application aid (saved (sess w)) = Some a \<and> get_application aid (db (sess w)) = Some a
        \<and> st_auth_provisioned st = app_auth_provisioned a \<and> st_auth_warnings st = current_warnings a
        \<and> standing a = kept
        \<and> (app_auth_provisioned a = Some True \<and> app_auth_enabled a
             \<and> set (current_warnings a) \<inter> set ACTIVATION_WARNINGS = {}
           \<or> app_auth_provisioned a = Some False
             \<and> (\<exists>wn. set (current_warnings a) \<inter> set ACTIVATION_WARNINGS = {wn})))"

lemma mark_activation_failed_run:
  assumes "get_application aid (db (sess w)) = Some a" and "wn \<in> set ACTIVATION_WARNINGS"
  obtains w1 b where "mark_activation_failed aid wn w = (Inr (), w1)" "saved (sess w1) = db (sess w1)"
    "get_application aid (db (sess w1)) = Some b" "app_auth_provisioned b = Some False" "standing b = standing a"
    "set (current_warnings b) \<inter> set ACTIVATION_WARNINGS = {wn}"
proof -
  let ?f = "\<lambda>app. add_auth_warnings [wn] (clear_activation_warnings (app\<lparr>app_auth_provisioned := Some False\<rparr>))"
  let ?w1 = "w\<lparr>sess := commit ((sess w)\<lparr>db := update_application aid ?f (db (sess w))\<rparr>)\<rparr>"
  have "mark_activation_failed aid wn w = (Inr (), ?w1)"
    by (simp add: mark_activation_failed_def prog_simps set_app_def commit_world_def)
  moreover have "saved (sess ?w1) = db (sess ?w1)" by (simp add: commit_def)
  moreover have "get_application aid (db (sess ?w1)) = Some (?f a)"
    using assms(1) by (simp add: commit_def get_update_application)
  moreover have "standing (?f a) = standing a" "set (current_warnings (?f a)) \<inter> set ACTIVATION_WARNINGS = {wn}"
    using assms(2) by (auto simp: standing_def warnings_after)
  ultimately show ?thesis using that by (simp add: warnings_after)
qed

lemma activation_failed_outcome:
  assumes "get_application aid (db (sess w)) = Some a" and "wn \<in> set ACTIVATION_WARNINGS"
    and "activation_failed cfg aid wn w = (Inr st, w')"
  shows "activation_outcome aid (standing a) st w'"
proof -
  from mark_activation_failed_run[OF assms(1,2)] obtain w1 b where m: "mark_activation_failed aid wn w = (Inr (), w1)"
    "saved (sess w1) = db (sess w1)" "get_application aid (db (sess w1)) = Some b"
    "app_auth_provisioned b = Some False" "standing b = standing a"
    "set (current_warnings b) \<inter> set ACTIVATION_WARNINGS = {wn}" .
  have "keycloak_status cfg b w1 = (Inr st, w')"
    using assms(3) m by (simp add: activation_failed_def bnd_apply app_object_def from_db_apply ret_apply)
  from keycloak_status_fields[OF this] m show ?thesis unfolding activation_outcome_def
    by (intro exI[of _ b]) simp
qed

lemma activate_provision_run:
  assumes "get_application aid (db (sess w)) = Some a" and "activate_provision cfg aid w = (r, w1)"
  shows "(\<exists>x. r = Inl x \<and> sess w1 = sess w)
    \<or> (r = Inr () \<and> sess w1 = (sess w)\<lparr>db := update_application aid
         (\<lambda>app. clear_activation_warnings (app\<lparr>app_auth_provisioned := Some True\<rparr>)) (db (sess w))\<rparr>)"
proof -
  obtain r1 v1 where p1: "provision cfg a ''dev'' w = (r1, v1)" by fastforce
  from sess_after[OF provision_sess p1] have s1: "sess v1 = sess w" .
  obtain r2 v2 where p2: "provision cfg a ''prod'' v1 = (r2, v2)" by fastforce
  from sess_after[OF provision_sess p2] s1 have s2: "sess v2 = sess w" by simp
  from assms p1 p2 s1 s2 show ?thesis
    by (cases r1; cases r2)
      (auto simp: activate_provision_def bnd_apply app_object_def from_db_apply ret_apply set_app_def
        on_sess_apply modify_apply)
qed

lemma activation_provision_run:
  assumes "get_application aid (db (sess w)) = Some a" and "activation_provision cfg aid w = (Inr r, w1)"
  shows "case r of
      Some st \<Rightarrow> activation_outcome aid (standing a) st w1
    | None \<Rightarrow> (\<exists>b. get_application aid (db (sess w1)) = Some b \<and> app_auth_provisioned b = Some True
         \<and> app_auth_enabled b \<and> standing b = standing a \<and> set (current_warnings b) \<inter> set ACTIVATION_WARNINGS = {})"
proof -
  let ?en = "\<lambda>app. app\<lparr>app_auth_enabled := True\<rparr>"
  let ?ok = "\<lambda>app. clear_activation_warnings (app\<lparr>app_auth_provisioned := Some True\<rparr>)"
  let ?w0 = "w\<lparr>sess := (sess w)\<lparr>db := update_application aid ?en (db (sess w))\<rparr>\<rparr>"
  have a0: "get_application aid (db (sess ?w0)) = Some (?en a)"
    using assms(1) by (simp add: get_update_application)
  have en: "standing (?en a) = standing a" by (simp add: standing_def warnings_after)
  obtain r1 v where ap: "activate_provision cfg aid ?w0 = (r1, v)" by fastforce
  have run: "activation_provision cfg aid w = (case r1 of Inr _ \<Rightarrow> (Inr None, v)
      | Inl _ \<Rightarrow> bnd (activation_failed cfg aid PROVISIONING_FAILED) (\<lambda>r. ret (Some r)) v)"
    using ap by (simp add: activation_provision_def bnd_apply set_app_def on_sess_apply modify_apply try_apply
        ret_apply split: sum.split)
  show ?thesis
  proof (cases r1)
    case (Inl x)
    with activate_provision_run[OF a0 ap] have v: "sess v = sess ?w0" by simp
    from run Inl assms(2) obtain st where st: "r = Some st" "activation_failed cfg aid PROVISIONING_FAILED v = (Inr st, w1)"
      by (auto simp: bnd_apply ret_apply split: sum.splits prod.splits)
    have "PROVISIONING_FAILED \<in> set ACTIVATION_WARNINGS" by (simp add: ACTIVATION_WARNINGS_def)
    from activation_failed_outcome[OF a0[folded v] this st(2)] st(1) en show ?thesis by simp
  next
    case (Inr u)
    with run assms(2) have r: "r = None" "w1 = v" by simp_all
    from activate_provision_run[OF a0 ap] Inr have
      "sess v = (sess ?w0)\<lparr>db := update_application aid ?ok (db (sess ?w0))\<rparr>" by simp
    then have "get_application aid (db (sess v)) = Some (?ok (?en a))"
      using assms(1) by (simp add: get_update_application)
    with r show ?thesis by (auto simp: standing_def warnings_after)
  qed
qed

lemma activation_bind_run:
  assumes "get_application aid (db (sess w)) = Some a" and "activation_bind cfg aid w = (Inr r, w1)"
  shows "case r of
      Some st \<Rightarrow> activation_outcome aid (standing a) st w1
    | None \<Rightarrow> (\<exists>b. get_application aid (db (sess w1)) = Some b \<and> standing b = standing a)"
proof -
  obtain c v where res: "resolve_for_app cfg a w = (c, v)" by fastforce
  from resolve_for_app_state[OF res] have v: "v = w" .
  show ?thesis
  proof (cases c)
    case (Inl x)
    have "bind_for_activation cfg aid w = (Inl x, w)"
      using assms(1) res Inl v by (simp add: bind_for_activation_def bnd_apply app_object_def from_db_apply ret_apply)
    with assms(2) obtain st where st: "r = Some st" "activation_failed cfg aid INSTANCE_UNAVAILABLE w = (Inr st, w1)"
      by (auto simp: activation_bind_def bnd_apply try_apply ret_apply split: sum.splits prod.splits)
    have "INSTANCE_UNAVAILABLE \<in> set ACTIVATION_WARNINGS" by (simp add: ACTIVATION_WARNINGS_def)
    from activation_failed_outcome[OF assms(1) this st(2)] st(1) show ?thesis by simp
  next
    case (Inr conn)
    let ?f = "\<lambda>a. a\<lparr>app_auth_instance_key := rk_instance_key conn\<rparr>"
    let ?w1 = "w\<lparr>sess := commit ((sess w)\<lparr>db := update_application aid ?f (db (sess w))\<rparr>)\<rparr>"
    have "bind_for_activation cfg aid w = (Inr conn, ?w1)"
      using assms(1) res Inr v
      by (simp add: bind_for_activation_def prog_simps app_object_def set_app_def commit_world_def)
    with assms(2) have "r = None" "w1 = ?w1" by (auto simp: activation_bind_def bnd_apply try_apply ret_apply)
    moreover have "get_application aid (db (sess ?w1)) = Some (?f a)"
      using assms(1) by (simp add: commit_def get_update_application)
    ultimately show ?thesis by (simp add: standing_def warnings_after)
  qed
qed

lemma foreign_keys_sess: "keeps (\<lambda>w. sess w = s) (assert_no_foreign_oidc_keys cfg app)"
  unfolding assert_no_foreign_oidc_keys_def vault_path_def by (intro keeps_intros)

lemma activation_check_run:
  assumes "get_application aid (db (sess w)) = Some a" and "activation_check cfg aid a w = (Inr r, w1)"
  shows "case r of
      Some st \<Rightarrow> activation_outcome aid (standing a) st w1
    | None \<Rightarrow> sess w1 = sess w"
proof (cases "app_auth_enabled a")
  case True
  with assms(2) show ?thesis by (auto simp: activation_check_def ret_apply)
next
  case False
  obtain c v where chk: "assert_no_foreign_oidc_keys cfg a w = (c, v)" by fastforce
  from sess_after[OF foreign_keys_sess chk] have v: "sess v = sess w" .
  have run: "activation_check cfg aid a w = (case c of Inr _ \<Rightarrow> (Inr None, v)
      | Inl x \<Rightarrow> (if is_HTTPException x then
                 bnd (if app_auth_provisioned a = Some False
                      then mark_activation_failed aid OIDC_KEYS_CONFLICT else ret ()) (\<lambda>_. raise_exc x)
               else bnd (activation_failed cfg aid INSTANCE_UNAVAILABLE) (\<lambda>r. ret (Some r))) v)"
    using False chk by (simp add: activation_check_def bnd_apply try_apply ret_apply split: sum.split)
  show ?thesis
  proof (cases c)
    case (Inr u)
    with run assms(2) v show ?thesis by simp
  next
    case (Inl x)
    have "\<not> is_HTTPException x"
      using run Inl assms(2) by (auto simp: bnd_apply raise_apply split: sum.splits prod.splits if_splits)
    with run Inl assms(2) obtain st where st: "r = Some st" "activation_failed cfg aid INSTANCE_UNAVAILABLE v = (Inr st, w1)"
      by (auto simp: bnd_apply ret_apply split: sum.splits prod.splits)
    have "INSTANCE_UNAVAILABLE \<in> set ACTIVATION_WARNINGS" by (simp add: ACTIVATION_WARNINGS_def)
    from activation_failed_outcome[OF _ this st(2)] assms(1) v st(1) show ?thesis by simp
  qed
qed

lemma or_else_cases:
  assumes "or_else m k w = (Inr x, w')"
  shows "m w = (Inr (Some x), w') \<or> (\<exists>w1. m w = (Inr None, w1) \<and> k w1 = (Inr x, w'))"
  using assms by (auto simp: or_else_def prog_simps split: sum.splits prod.splits option.splits)

text \<open>
  An activation that answers has recorded how it ended, and committed it: either the
  application is marked provisioned, with Keycloak on and no warning of an activation left, or it
  is marked as failed with exactly one reason. The other warnings of the application are kept in
  both cases, and the answer shows what is recorded.
\<close>

theorem activation_is_recorded:
  assumes "get_application aid (db (sess w)) = Some app" and "activate cfg aid w = (Inr st, w')"
  shows "\<exists>a. get_application aid (saved (sess w')) = Some a \<and> get_application aid (db (sess w')) = Some a
        \<and> st_auth_provisioned st = app_auth_provisioned a \<and> st_auth_warnings st = current_warnings a
        \<and> standing a = standing app
        \<and> (app_auth_provisioned a = Some True \<and> app_auth_enabled a
             \<and> set (current_warnings a) \<inter> set ACTIVATION_WARNINGS = {}
           \<or> app_auth_provisioned a = Some False
             \<and> (\<exists>wn. set (current_warnings a) \<inter> set ACTIVATION_WARNINGS = {wn}))"
proof -
  let ?finish = "bnd commit_world (\<lambda>_. bnd (app_object aid) (\<lambda>app. keycloak_status cfg app))"
  have run: "or_else (activation_check cfg aid app) (or_else (activation_bind cfg aid)
      (or_else (activation_provision cfg aid) ?finish)) w = (Inr st, w')"
    using assms by (auto simp: activate_def bnd_apply app_object_def from_db_apply ret_apply raise_apply
        split: if_splits)
  have "activation_outcome aid (standing app) st w'"
    using or_else_cases[OF run]
  proof (elim disjE exE conjE)
    assume "activation_check cfg aid app w = (Inr (Some st), w')"
    from activation_check_run[OF assms(1) this] show ?thesis by simp
  next
    fix w1 assume c: "activation_check cfg aid app w = (Inr None, w1)"
      and rest: "or_else (activation_bind cfg aid) (or_else (activation_provision cfg aid) ?finish) w1 = (Inr st, w')"
    from activation_check_run[OF assms(1) c] assms(1) have a1: "get_application aid (db (sess w1)) = Some app" by simp
    show ?thesis using or_else_cases[OF rest]
    proof (elim disjE exE conjE)
      assume "activation_bind cfg aid w1 = (Inr (Some st), w')"
      from activation_bind_run[OF a1 this] show ?thesis by simp
    next
      fix w2 assume b: "activation_bind cfg aid w1 = (Inr None, w2)"
        and rest: "or_else (activation_provision cfg aid) ?finish w2 = (Inr st, w')"
      from activation_bind_run[OF a1 b] obtain a where a2: "get_application aid (db (sess w2)) = Some a"
        "standing a = standing app" by auto
      show ?thesis using or_else_cases[OF rest]
      proof (elim disjE exE conjE)
        assume "activation_provision cfg aid w2 = (Inr (Some st), w')"
        from activation_provision_run[OF a2(1) this] a2(2) show ?thesis by simp
      next
        fix w3 assume p: "activation_provision cfg aid w2 = (Inr None, w3)" and fin: "?finish w3 = (Inr st, w')"
        from activation_provision_run[OF a2(1) p] a2(2) obtain b where b: "get_application aid (db (sess w3)) = Some b"
          "app_auth_provisioned b = Some True" "app_auth_enabled b" "standing b = standing app"
          "set (current_warnings b) \<inter> set ACTIVATION_WARNINGS = {}" by auto
        let ?w4 = "w3\<lparr>sess := commit (sess w3)\<rparr>"
        have "keycloak_status cfg b ?w4 = (Inr st, w')"
          using fin b(1) by (simp add: prog_simps commit_world_def app_object_def commit_def)
        from keycloak_status_fields[OF this] b show ?thesis unfolding activation_outcome_def
          by (intro exI[of _ b]) (simp add: commit_def)
      qed
    qed
  qed
  then show ?thesis unfolding activation_outcome_def .
qed

section \<open>What a provisioning publishes\<close>

lemma keeps_vault_on_web [keeps_intros]: "keeps (\<lambda>w. vault w = v) (on_web m)"
  by (rule keepsI) (simp add: prog_simps)

lemma keeps_vault_client_of [keeps_intros]: "keeps (\<lambda>w. vault w = v) (client_of c)"
  unfolding client_of_def by (rule keeps_vault_on_web)

lemma vault_after: "keeps (\<lambda>u. vault u = vault w) m \<Longrightarrow> m w = (r, w1) \<Longrightarrow> vault w1 = vault w"
  using keepsD'[of "\<lambda>u. vault u = vault w" m w r w1] by simp

lemma web_steps_vault:
  "keeps (\<lambda>w. vault w = v) (ensure_realm cfg kc app e)"
  "keeps (\<lambda>w. vault w = v) (provision_client cfg connection kc app e)"
  "keeps (\<lambda>w. vault w = v) (status_for_env cfg app e kc url)"
  unfolding ensure_realm_def get_owned_realm_def provision_client_def status_for_env_def Let_def
  by (intro keeps_intros)+

lemma web_steps_sess:
  "keeps (\<lambda>w. sess w = s) (ensure_realm cfg kc app e)"
  "keeps (\<lambda>w. sess w = s) (provision_client cfg connection kc app e)"
  unfolding ensure_realm_def get_owned_realm_def provision_client_def Let_def
  by (intro keeps_intros)+

definition oidc_vars_of :: "resolved_keycloak \<Rightarrow> application \<Rightarrow> string \<Rightarrow> dict \<Rightarrow> bool" where
  "oidc_vars_of connection app e vars \<longleftrightarrow>
     (if is_public_client (app_framework app)
      then vars = [(''OIDC_ISSUER_URL'', rk_public_url connection @ ''/realms/'' @ realm_name (app_slug app) e),
                   (''OIDC_CLIENT_ID'', app_slug app)]
      else \<exists>secret. vars =
                  [(''OIDC_ISSUER_URL'', rk_public_url connection @ ''/realms/'' @ realm_name (app_slug app) e),
                   (''OIDC_CLIENT_ID'', app_slug app), (''OIDC_CLIENT_SECRET'', secret)])"

lemma provision_client_vars:
  "provision_client cfg connection kc app e w = (Inr vars, w1) \<Longrightarrow> oidc_vars_of connection app e vars"
  by (auto simp: provision_client_def Let_def bnd_ok ret_apply oidc_vars_of_def split: if_splits)

lemma provision_success:
  assumes "provision cfg app e w = (Inr st, w')"
  obtains connection vars where "resolve_for_app cfg app w = (Inr connection, w)" "e \<in> set VALID_ENVS"
    "oidc_vars_of connection app e vars"
    "patch_secret (hvac_of cfg) (app_env_path app e (db (sess w))) vars (vault w) = (Inr (), vault w')"
    "sess w' = sess w" "es_state st \<noteq> KC_MISSING" "es_state st \<noteq> KC_FOREIGN"
proof -
  from assms obtain w0 connection w1 kc w2 w3 vars w4 path w5 w6 where
    env: "validate_env e w = (Inr (), w0)"
    and res: "resolve_for_app cfg app w0 = (Inr connection, w1)"
    and kc: "client_of connection w1 = (Inr kc, w2)"
    and ens: "ensure_realm cfg kc app e w2 = (Inr (), w3)"
    and cl: "provision_client cfg connection kc app e w3 = (Inr vars, w4)"
    and path: "vault_path app e w4 = (Inr path, w5)"
    and patch: "on_vault (patch_secret (hvac_of cfg) path vars) w5 = (Inr (), w6)"
    and st: "bnd (status_for_env cfg app e kc (rk_public_url connection)) (\<lambda>result.
       if es_state result = KC_MISSING \<or> es_state result = KC_FOREIGN then raise_exc KeycloakErr
       else ret result) w6 = (Inr st, w')"
    unfolding provision_def bnd_ok by auto
  have w0: "w0 = w" "e \<in> set VALID_ENVS" using env by (auto simp: validate_env_def prog_simps split: if_splits)
  have w1: "w1 = w" using resolve_for_app_state[OF res] w0 by simp
  from st obtain result where fin: "status_for_env cfg app e kc (rk_public_url connection) w6 = (Inr result, w')"
    "es_state result \<noteq> KC_MISSING" "es_state result \<noteq> KC_FOREIGN" "st = result"
    by (auto simp: bnd_ok raise_apply ret_apply split: if_splits)
  have s4: "sess w4 = sess w"
    using sess_after[OF keeps_client_of kc] sess_after[OF web_steps_sess(1) ens] sess_after[OF web_steps_sess(2) cl] w1
    by simp
  have v4: "vault w4 = vault w"
    using vault_after[OF keeps_vault_client_of kc] vault_after[OF web_steps_vault(1) ens]
      vault_after[OF web_steps_vault(2) cl] w1 by simp
  have p: "w5 = w4" "path = app_env_path app e (db (sess w4))"
    using path by (auto simp: vault_path_def bnd_apply from_db_apply ret_apply app_env_path_def)
  have v6: "patch_secret (hvac_of cfg) path vars (vault w5) = (Inr (), vault w6)"
    using patch by (auto simp: on_vault_def split: prod.splits)
  have "vault w' = vault w6" by (rule vault_after[OF web_steps_vault(3) fin(1)])
  moreover have "sess w' = sess w" using sess_after[OF provision_sess assms] .
  ultimately show ?thesis
    using that[OF res[unfolded w0 w1] w0(2) provision_client_vars[OF cl]] v6 p s4 v4 fin by simp
qed

text \<open>
  A provisioning that succeeds ends with the issuer and the client id of the application's
  realm among its variables in Vault (and a client secret unless its client is public), keeps
  every other variable of that path and every other path, leaves the database alone, and never
  reports a realm that is missing or somebody else's.
\<close>

theorem provision_publishes_credentials:
  assumes "hvac_kv2 (hvac_of cfg) contents" and "provision cfg app e w = (Inr st, w')"
  shows "\<exists>connection. resolve_for_app cfg app w = (Inr connection, w)
       \<and> (let path = app_env_path app e (db (sess w)); new = data_at (contents (vault w')) path;
              old = data_at (contents (vault w)) path
          in new ''OIDC_ISSUER_URL'' = Some (rk_public_url connection @ ''/realms/'' @ realm_name (app_slug app) e)
           \<and> new ''OIDC_CLIENT_ID'' = Some (app_slug app)
           \<and> (if is_public_client (app_framework app) then new ''OIDC_CLIENT_SECRET'' = old ''OIDC_CLIENT_SECRET''
              else new ''OIDC_CLIENT_SECRET'' \<noteq> None)
           \<and> (\<forall>k. k \<notin> set MANAGED_ENV_KEYS \<longrightarrow> new k = old k)
           \<and> (\<forall>q. q \<noteq> path \<longrightarrow> contents (vault w') q = contents (vault w) q))
       \<and> sess w' = sess w \<and> es_state st \<in> {KC_ACTIVE, KC_UNKNOWN}"
proof -
  from provision_success[OF assms(2)] obtain connection vars where run:
    "resolve_for_app cfg app w = (Inr connection, w)" "oidc_vars_of connection app e vars"
    "patch_secret (hvac_of cfg) (app_env_path app e (db (sess w))) vars (vault w) = (Inr (), vault w')"
    "sess w' = sess w" "es_state st \<noteq> KC_MISSING" "es_state st \<noteq> KC_FOREIGN" by metis
  let ?path = "app_env_path app e (db (sess w))"
  let ?old = "data_at (contents (vault w)) ?path"
  have patched: "contents (vault w') = (contents (vault w))(?path \<mapsto> ?old ++ map_of vars)"
    by (rule vault_patch_done[OF assms(1) run(3)])
  have new: "data_at (contents (vault w')) ?path = ?old ++ map_of vars" by (simp add: patched data_at_def)
  have "es_state st \<in> {KC_ACTIVE, KC_UNKNOWN}" using run(5,6) by (cases "es_state st") simp_all
  moreover have "\<forall>q. q \<noteq> ?path \<longrightarrow> contents (vault w') q = contents (vault w) q" by (simp add: patched)
  ultimately show ?thesis using run(1,2,4) new
    by (auto simp: Let_def oidc_vars_of_def MANAGED_ENV_KEYS_def map_add_def split: if_splits)
qed

section \<open>Examples\<close>

text \<open>
  A server that knows the two realms of the application \<open>shop\<close> and answers every request: it is not
  a model of Keycloak, the examples run against it.
\<close>

definition answer :: "json \<Rightarrow> http_response option" where
  "answer j = Some \<lparr>rs_status = 200, rs_body = Some j\<rparr>"

definition demo_realm :: "string \<Rightarrow> json" where
  "demo_realm e = JObj [(''id'', JStr (realm_id 7 e)), (''attributes'', JObj [(''cnp_app_id'', JStr ''7'')])]"

definition demo_server :: "http_request \<Rightarrow> http_response option" where
  "demo_server rq =
     (if rq_path rq = ''/realms/master/protocol/openid-connect/token'' then answer (JObj [(''access_token'', JStr ''t'')])
      else if rq_path rq = ''/admin/realms/shop-dev'' then answer (demo_realm ''dev'')
      else if rq_path rq = ''/admin/realms/shop-prod'' then answer (demo_realm ''prod'')
      else if suffix ''/client-secret'' (rq_path rq) then answer (JObj [(''value'', JStr ''s3cret'')])
      else if suffix ''/models'' (rq_path rq) then answer (JArr [JObj [(''name'', JStr ''audience'')]])
      else if rq_params rq = [(''clientId'', ''shop'')] then answer (JArr [JObj [(''id'', JStr ''c1'')]])
      else answer (JArr []))"

definition demo_transport :: "unit transport" where
  "demo_transport =
     \<lparr>http_send = (\<lambda>_ rq n. (demo_server rq, n)), monotonic = (\<lambda>_. 0), token_urlsafe = (\<lambda>n. (''pw'', n))\<rparr>"

definition demo_legacy_env :: "((string \<times> dict) list, unit) identity_env" where
  "demo_legacy_env = demo_identity_env
     \<lparr>http_of := demo_transport, KEYCLOAK_ENABLED := True, KEYCLOAK_PUBLIC_URL := ''https://id.example/'',
      KEYCLOAK_ADMIN_CLIENT_SECRET := Some ''x''\<rparr>"

definition demo_shop :: application where
  "demo_shop = (blank_application 7 ''Shop'' ''shop'' ''alice'')
     \<lparr>app_auth_provisioned := Some False, app_auth_warnings := Some [CHART_MISSING_ENVFROM, PROVISIONING_FAILED]\<rparr>"

definition demo_shop_world :: "((string \<times> dict) list, unit) identity_world" where
  "demo_shop_world = demo_world
     \<lparr>sess := open_session (empty_database\<lparr>applications := \<lparr>rows = [demo_shop], seq = 8\<rparr>\<rparr>),
      vault := [(''apps/_ungrouped/shop/dev'', [(''DEBUG'', ''1'')])]\<rparr>"

lemma demo_shop_row: "get_application 7 (db (sess demo_shop_world)) = Some demo_shop"
  by (simp add: demo_shop_world_def open_session_def get_application_def find_row_def demo_shop_def
      blank_application_def)

theorem activation_is_recorded_witness:
  "\<exists>st w'. activate demo_legacy_env 7 demo_shop_world = (Inr st, w')
     \<and> st_auth_provisioned st = Some True \<and> st_auth_warnings st = [CHART_MISSING_ENVFROM]
     \<and> standing demo_shop = {CHART_MISSING_ENVFROM}"
proof -
  have run: "(case activate demo_legacy_env 7 demo_shop_world of (Inl _, _) \<Rightarrow> False
     | (Inr st, w') \<Rightarrow> st_auth_provisioned st = Some True \<and> st_auth_warnings st = [CHART_MISSING_ENVFROM])"
    by code_simp
  then obtain st w' where st: "activate demo_legacy_env 7 demo_shop_world = (Inr st, w')"
    "st_auth_provisioned st = Some True" "st_auth_warnings st = [CHART_MISSING_ENVFROM]"
    by (auto split: prod.splits sum.splits)
  from activation_is_recorded[OF demo_shop_row st(1)] obtain a where
    "st_auth_warnings st = current_warnings a" "standing a = standing demo_shop" by blast
  with st show ?thesis by (auto simp: standing_def ACTIVATION_WARNINGS_def)
qed

theorem provision_publishes_credentials_witness:
  "\<exists>w'. data_at (ref_contents (vault w')) ''apps/_ungrouped/shop/dev'' ''OIDC_ISSUER_URL''
          = Some ''https://id.example/realms/shop-dev''
     \<and> data_at (ref_contents (vault w')) ''apps/_ungrouped/shop/dev'' ''DEBUG'' = Some ''1''
     \<and> w' = snd (provision demo_legacy_env demo_shop ''dev'' demo_shop_world)"
proof -
  have run: "(case provision demo_legacy_env demo_shop ''dev'' demo_shop_world of (Inl _, _) \<Rightarrow> False
     | (Inr st, w') \<Rightarrow> es_state st = KC_ACTIVE)"
    by code_simp
  then obtain st w' where st: "provision demo_legacy_env demo_shop ''dev'' demo_shop_world = (Inr st, w')"
    by (auto split: prod.splits sum.splits)
  have hv: "hvac_kv2 (hvac_of demo_legacy_env) ref_contents"
    by (simp add: demo_legacy_env_def demo_identity_env_def ref_store.hvac_kv2_axioms)
  have res: "resolve_for_app demo_legacy_env demo_shop demo_shop_world =
      (Inr \<lparr>rk_instance_key = None, rk_public_url = ''https://id.example'', rk_admin_url = '''',
            rk_client_id = '''', rk_client_secret = ''x''\<rparr>, demo_shop_world)"
    by code_simp
  have path: "app_env_path demo_shop ''dev'' (db (sess demo_shop_world)) = ''apps/_ungrouped/shop/dev''"
    by code_simp
  have old: "data_at (ref_contents (vault demo_shop_world)) ''apps/_ungrouped/shop/dev'' ''DEBUG'' = Some ''1''"
    by code_simp
  from provision_publishes_credentials[OF hv st] show ?thesis
    unfolding st using res path old
    by (auto simp: Let_def realm_name_def demo_shop_def blank_application_def MANAGED_ENV_KEYS_def)
qed

end
