(* ===== verification/Clusters.thy ===== *)
theory Clusters
  imports Keycloak_Instances Gitops
begin

text \<open>
  backend/services/cluster_service.py and backend/api/routes/clusters.py: the registered clusters,
  their kubeconfigs and ArgoCD tokens in Vault, and the checks on what users upload. Vault may be
  slower than the service waits; the YAML reader and the probe of a cluster are parameters. Lemmas:
  what a validated kubeconfig cannot contain, what each outcome of a registration leaves behind,
  and that deleting a cluster orphans no application.
\<close>

section \<open>Validation of a kubeconfig\<close>

definition FORBIDDEN_USER_KEYS :: "string list" where
  "FORBIDDEN_USER_KEYS = [''exec'', ''auth-provider'', ''client-certificate'', ''client-key'', ''tokenFile'']"

definition FORBIDDEN_CLUSTER_KEYS :: "string list" where
  "FORBIDDEN_CLUSTER_KEYS = [''certificate-authority'']"

definition required_keys :: "string list" where
  "required_keys = [''apiVersion'', ''clusters'', ''users'', ''contexts'']"

definition dict_get :: "string \<Rightarrow> (string \<times> json) list \<Rightarrow> json" where
  "dict_get k kvs = (case map_of kvs k of None \<Rightarrow> JNull | Some v \<Rightarrow> v)"

text \<open>The forbidden keys of one entry of a section: \<open>inner\<close> is the dict that holds the credentials.\<close>

definition forbidden_in :: "string \<Rightarrow> string list \<Rightarrow> json \<Rightarrow> string list" where
  "forbidden_in inner keys entry =
     (case entry of
        JObj kvs \<Rightarrow> (case dict_get inner kvs of
                       JObj body \<Rightarrow> filter (\<lambda>k. k \<in> fst ` set body) keys
                     | _ \<Rightarrow> [])
      | _ \<Rightarrow> [])"

definition forbidden_keys :: "(string \<times> json) list \<Rightarrow> exc + string list" where
  "forbidden_keys data =
     bnd_result (jiter (jor (dict_get ''users'' data) (JArr []))) (\<lambda>users.
     bnd_result (jiter (jor (dict_get ''clusters'' data) (JArr []))) (\<lambda>clusters.
       Inr (concat (map (forbidden_in ''user'' FORBIDDEN_USER_KEYS) users)
          @ concat (map (forbidden_in ''cluster'' FORBIDDEN_CLUSTER_KEYS) clusters))))"

definition validate_kubeconfig :: "yaml_lib \<Rightarrow> string \<Rightarrow> exc + unit" where
  "validate_kubeconfig y kubeconfig_yaml =
     (case yaml_load y kubeconfig_yaml of
        Inl e \<Rightarrow> Inl (if e = YAMLError then HTTPException 422 else e)
      | Inr (JObj data) \<Rightarrow>
          if \<exists>k \<in> set required_keys. k \<notin> fst ` set data then Inl (HTTPException 422)
          else
            bnd_result (forbidden_keys data) (\<lambda>forbidden.
              if forbidden \<noteq> [] then Inl (HTTPException 422) else Inr ())
      | Inr _ \<Rightarrow> Inl (HTTPException 422))"

section \<open>Vault with a time limit\<close>

datatype probe_outcome = PROBE_TIMEOUT | PROBE_FAILED | PROBE_OK int nat

text \<open>
  \<open>vault_slow\<close> says whether an operation on a path exceeds the limit; it is then abandoned in its
  thread, with an effect that is unknown (\<open>abandoned\<close>).
\<close>

record 'v cluster_env =
  c_hvac :: "'v hvac"
  c_yaml :: yaml_lib
  vault_slow :: "string \<Rightarrow> 'v \<Rightarrow> bool"
  abandoned :: "string \<Rightarrow> 'v \<Rightarrow> 'v"
  probe_kubeconfig :: "string \<Rightarrow> probe_outcome"
  c_now :: int

definition within_limit ::
  "'v cluster_env \<Rightarrow> string \<Rightarrow> ('v, 'a) prog \<Rightarrow> ('v services, 'a option) prog" where
  "within_limit env path m =
     on_vault (\<lambda>v. if vault_slow env path v then (Inr None, abandoned env path v)
                   else bnd m (\<lambda>x. ret (Some x)) v)"

definition kubeconfig_path :: "int \<Rightarrow> string" where
  "kubeconfig_path cid = ''clusters/'' @ string_of_int cid"

definition argocd_path :: "int \<Rightarrow> string" where
  "argocd_path cid = ''argocd/'' @ string_of_int cid"

section \<open>The table of clusters\<close>

definition names_unique :: "database \<Rightarrow> bool" where
  "names_unique d \<longleftrightarrow> unique_on cl_name (cluster_connections d)"

definition commit_names :: "(session, unit) prog" where
  "commit_names = (\<lambda>s. if names_unique (db s) then (Inr (), commit s) else (Inl IntegrityError, s))"

definition app_count :: "int \<Rightarrow> database \<Rightarrow> nat" where
  "app_count cid d = length (select_rows (\<lambda>a. app_target_cluster_id a = Some cid) (applications d))"

definition list_clusters :: "('v services, (cluster_connection \<times> nat) list) prog" where
  "list_clusters =
     from_db (\<lambda>d. map (\<lambda>c. (c, app_count (cl_id c) d)) (sort_key cl_name (rows (cluster_connections d))))"

definition get_cluster :: "int \<Rightarrow> ('v services, cluster_connection \<times> nat) prog" where
  "get_cluster cid =
     bnd (from_db (\<lambda>d. (get_cluster_row cid d, app_count cid d))) (\<lambda>(found, n).
       case found of None \<Rightarrow> raise_exc (HTTPException 404) | Some c \<Rightarrow> ret (c, n))"

definition set_cluster :: "int \<Rightarrow> (cluster_connection \<Rightarrow> cluster_connection) \<Rightarrow> database \<Rightarrow> database" where
  "set_cluster cid f d = d\<lparr>cluster_connections := update_rows (\<lambda>c. cl_id c = cid) f (cluster_connections d)\<rparr>"

text \<open>
  Deleting a cluster nulls the references to it (\<open>ON DELETE SET NULL\<close> of the applications and of
  the Keycloak instances).
\<close>

definition remove_cluster :: "int \<Rightarrow> database \<Rightarrow> database" where
  "remove_cluster cid d =
     d\<lparr>cluster_connections := delete_rows (\<lambda>c. cl_id c = cid) (cluster_connections d),
       applications := update_rows (\<lambda>a. app_target_cluster_id a = Some cid) (\<lambda>a. a\<lparr>app_target_cluster_id := None\<rparr>)
                         (applications d),
       keycloak_instances := update_rows (\<lambda>r. ki_cluster_id r = Some cid) (\<lambda>r. r\<lparr>ki_cluster_id := None\<rparr>)
                         (keycloak_instances d)\<rparr>"

definition change_db :: "(database \<Rightarrow> database) \<Rightarrow> ('v services, unit) prog" where
  "change_db f = on_sess (modify (\<lambda>s. s\<lparr>db := f (db s)\<rparr>))"

definition commit_plain :: "('v services, unit) prog" where
  "commit_plain = on_sess (modify commit)"

definition commit_names_or_409 :: "('v services, unit) prog" where
  "commit_names_or_409 =
     on_sess (catch IntegrityError commit_names (bnd (modify rollback) (\<lambda>_. raise_exc (HTTPException 409))))"

section \<open>Registration\<close>

record cluster_create =
  cc_name :: string
  cc_endpoint :: string
  cc_provider :: cluster_provider
  cc_prometheus_url :: "string option"
  cc_loki_url :: "string option"
  cc_argocd_url :: "string option"
  cc_kubeconfig :: string
  cc_argocd_token :: "string option"

definition cluster_row :: "cluster_create \<Rightarrow> string \<Rightarrow> int \<Rightarrow> cluster_connection" where
  "cluster_row p ref cid =
     \<lparr>cl_id = cid, cl_name = cc_name p, cl_endpoint = cc_endpoint p, cl_provider = cc_provider p,
      cl_kubeconfig_secret_ref = ref, cl_prometheus_url = cc_prometheus_url p, cl_loki_url = cc_loki_url p,
      cl_argocd_url = cc_argocd_url p, cl_status = UNKNOWN, cl_last_seen_at = None\<rparr>"

definition add_cluster :: "cluster_create \<Rightarrow> database \<Rightarrow> database" where
  "add_cluster p d = d\<lparr>cluster_connections := insert_row (cluster_row p ''pending'') (cluster_connections d)\<rparr>"

definition with_ref :: "string \<Rightarrow> cluster_connection \<Rightarrow> cluster_connection" where
  "with_ref ref c = c\<lparr>cl_kubeconfig_secret_ref := ref\<rparr>"

definition drop_and_raise :: "int \<Rightarrow> nat \<Rightarrow> ('v services, 'a) prog" where
  "drop_and_raise cid code =
     bnd (change_db (remove_cluster cid)) (\<lambda>_. bnd commit_plain (\<lambda>_. raise_exc (HTTPException code)))"

definition store_argocd_token :: "'v cluster_env \<Rightarrow> int \<Rightarrow> string option \<Rightarrow> ('v services, unit) prog" where
  "store_argocd_token env cid token =
     (case token of
        None \<Rightarrow> ret ()
      | Some t \<Rightarrow> best_effort (bnd (within_limit env (argocd_path cid)
                     (put_secret (c_hvac env) (argocd_path cid) [(''token'', t)])) (\<lambda>_. ret ())))"

definition create_cluster :: "'v cluster_env \<Rightarrow> cluster_create \<Rightarrow> ('v services, cluster_connection) prog" where
  "create_cluster env p =
     bnd (lift_result (validate_kubeconfig (c_yaml env) (cc_kubeconfig p))) (\<lambda>_.
     bnd (from_db (\<lambda>d. seq (cluster_connections d))) (\<lambda>cid.
     bnd (change_db (add_cluster p)) (\<lambda>_.
     bnd commit_names_or_409 (\<lambda>_.
     bnd (try_except
            (within_limit env (kubeconfig_path cid)
               (put_secret (c_hvac env) (kubeconfig_path cid) [(''kubeconfig'', cc_kubeconfig p)]))
            (\<lambda>e. if is_HTTPException e then raise_exc e else drop_and_raise cid 500)) (\<lambda>stored.
     bnd (case stored of None \<Rightarrow> drop_and_raise cid 504 | Some _ \<Rightarrow> ret ()) (\<lambda>_.
     bnd (change_db (set_cluster cid (with_ref (''secret/'' @ kubeconfig_path cid)))) (\<lambda>_.
     bnd commit_plain (\<lambda>_.
     bnd (store_argocd_token env cid (if cc_argocd_token p = Some [] then None else cc_argocd_token p)) (\<lambda>_.
       ret (cluster_row p (''secret/'' @ kubeconfig_path cid) cid))))))))))"

section \<open>Update, deletion and tests\<close>

text \<open>A field that is not set is \<open>None\<close>; an explicit null of a nullable column is \<open>Some None\<close>.\<close>

record cluster_update =
  cu_name :: "string option"
  cu_endpoint :: "string option"
  cu_provider :: "cluster_provider option"
  cu_prometheus_url :: "string option option"
  cu_loki_url :: "string option option"
  cu_argocd_url :: "string option option"
  cu_kubeconfig :: "string option"
  cu_argocd_token :: "string option"

definition given :: "'a option \<Rightarrow> 'a \<Rightarrow> 'a" where
  "given x old = (case x of None \<Rightarrow> old | Some v \<Rightarrow> v)"

definition apply_update :: "cluster_update \<Rightarrow> cluster_connection \<Rightarrow> cluster_connection" where
  "apply_update p c =
     c\<lparr>cl_name := given (cu_name p) (cl_name c), cl_endpoint := given (cu_endpoint p) (cl_endpoint c),
       cl_provider := given (cu_provider p) (cl_provider c),
       cl_prometheus_url := given (cu_prometheus_url p) (cl_prometheus_url c),
       cl_loki_url := given (cu_loki_url p) (cl_loki_url c), cl_argocd_url := given (cu_argocd_url p) (cl_argocd_url c)\<rparr>"

definition update_cluster :: "'v cluster_env \<Rightarrow> int \<Rightarrow> cluster_update \<Rightarrow> ('v services, cluster_connection) prog" where
  "update_cluster env cid p =
     bnd (get_cluster cid) (\<lambda>(c, _).
     bnd (case cu_kubeconfig p of
            None \<Rightarrow> ret ()
          | Some k \<Rightarrow>
              bnd (lift_result (validate_kubeconfig (c_yaml env) k)) (\<lambda>_.
              bnd (try_except
                     (within_limit env (kubeconfig_path cid)
                        (put_secret (c_hvac env) (kubeconfig_path cid) [(''kubeconfig'', k)]))
                     (\<lambda>e. if is_HTTPException e then raise_exc e else raise_exc (HTTPException 500))) (\<lambda>stored.
                case stored of None \<Rightarrow> raise_exc (HTTPException 504) | Some _ \<Rightarrow> ret ()))) (\<lambda>_.
     bnd (change_db (set_cluster cid (apply_update p))) (\<lambda>_.
     bnd commit_names_or_409 (\<lambda>_.
     bnd (store_argocd_token env cid (cu_argocd_token p)) (\<lambda>_.
       ret (apply_update p c))))))"

definition forget_secret :: "'v cluster_env \<Rightarrow> string \<Rightarrow> ('v services, unit) prog" where
  "forget_secret env path =
     best_effort (bnd (within_limit env path (delete_secret (c_hvac env) path)) (\<lambda>_. ret ()))"

definition delete_cluster :: "'v cluster_env \<Rightarrow> int \<Rightarrow> ('v services, unit) prog" where
  "delete_cluster env cid =
     bnd (get_cluster cid) (\<lambda>(c, n).
       if n \<noteq> 0 then raise_exc (HTTPException 409)
       else
         bnd (change_db (remove_cluster cid)) (\<lambda>_.
         bnd commit_names_or_409 (\<lambda>_.
         bnd (forget_secret env (kubeconfig_path cid)) (\<lambda>_.
           forget_secret env (argocd_path cid)))))"

record test_result =
  tr_reachable :: bool
  tr_latency_ms :: "int option"
  tr_namespace_count :: "nat option"

definition unreachable_result :: test_result where
  "unreachable_result = \<lparr>tr_reachable = False, tr_latency_ms = None, tr_namespace_count = None\<rparr>"

definition test_kubeconfig :: "'v cluster_env \<Rightarrow> string \<Rightarrow> exc + test_result" where
  "test_kubeconfig env kubeconfig_yaml =
     bnd_result (validate_kubeconfig (c_yaml env) kubeconfig_yaml) (\<lambda>_.
       Inr (case probe_kubeconfig env kubeconfig_yaml of
              PROBE_OK latency n \<Rightarrow> \<lparr>tr_reachable = True, tr_latency_ms = Some latency, tr_namespace_count = Some n\<rparr>
            | _ \<Rightarrow> unreachable_result))"

definition seen_now :: "int \<Rightarrow> cluster_connection \<Rightarrow> cluster_connection" where
  "seen_now now c =
     c\<lparr>cl_last_seen_at := Some now, cl_status := (if cl_status c = UNKNOWN then ONLINE else cl_status c)\<rparr>"

definition test_cluster :: "'v cluster_env \<Rightarrow> int \<Rightarrow> ('v services, test_result) prog" where
  "test_cluster env cid =
     bnd (try_except
            (bnd (within_limit env (kubeconfig_path cid) (get_secret (c_hvac env) (kubeconfig_path cid))) (\<lambda>secret.
               case secret of
                 None \<Rightarrow> ret None
               | Some data \<Rightarrow> (case map_of data ''kubeconfig'' of None \<Rightarrow> raise_exc KeyError | Some k \<Rightarrow> ret (Some k))))
            (\<lambda>_. ret None)) (\<lambda>found.
       case found of
         None \<Rightarrow> ret unreachable_result
       | Some kubeconfig_yaml \<Rightarrow>
           bnd (lift_result (test_kubeconfig env kubeconfig_yaml)) (\<lambda>result.
           bnd (if tr_reachable result then change_db (set_cluster cid (seen_now (c_now env))) else ret ()) (\<lambda>_.
             ret result)))"

section \<open>The routes\<close>

definition audited :: "user \<Rightarrow> string \<Rightarrow> ('v services, unit) prog" where
  "audited u action = bnd (on_sess (log_action (usr_id u) action None)) (\<lambda>_. commit_plain)"

definition create_cluster_route :: "'v cluster_env \<Rightarrow> user \<Rightarrow> cluster_create \<Rightarrow> ('v services, cluster_connection) prog" where
  "create_cluster_route env current_user p =
     bnd (lift_result (require_admin current_user)) (\<lambda>u.
     bnd (create_cluster env p) (\<lambda>c. bnd (audited u ''cluster.created'') (\<lambda>_. ret c)))"

definition update_cluster_route ::
  "'v cluster_env \<Rightarrow> user \<Rightarrow> int \<Rightarrow> cluster_update \<Rightarrow> ('v services, cluster_connection) prog" where
  "update_cluster_route env current_user cid p =
     bnd (lift_result (require_admin current_user)) (\<lambda>u.
     bnd (update_cluster env cid p) (\<lambda>c. bnd (audited u ''cluster.updated'') (\<lambda>_. ret c)))"

definition delete_cluster_route :: "'v cluster_env \<Rightarrow> user \<Rightarrow> int \<Rightarrow> ('v services, unit) prog" where
  "delete_cluster_route env current_user cid =
     bnd (lift_result (require_admin current_user)) (\<lambda>u.
     bnd (get_cluster cid) (\<lambda>_.
     bnd (delete_cluster env cid) (\<lambda>_. audited u ''cluster.deleted'')))"

definition test_cluster_route :: "'v cluster_env \<Rightarrow> user \<Rightarrow> int \<Rightarrow> ('v services, test_result) prog" where
  "test_cluster_route env current_user cid =
     bnd (lift_result (require_admin current_user)) (\<lambda>u.
     bnd (get_cluster cid) (\<lambda>_.
     bnd (test_cluster env cid) (\<lambda>result. bnd (audited u ''cluster.tested'') (\<lambda>_. ret result))))"

definition test_kubeconfig_route :: "'v cluster_env \<Rightarrow> user \<Rightarrow> string \<Rightarrow> exc + test_result" where
  "test_kubeconfig_route env current_user kubeconfig_yaml =
     bnd_result (require_admin current_user) (\<lambda>_. test_kubeconfig env kubeconfig_yaml)"

section \<open>What the operations leave behind\<close>

text \<open>
  The references to clusters hold: unique names and ids, ids below the sequence, and every target of
  an application or instance is a registered cluster.
\<close>

definition clusters_ok :: "database \<Rightarrow> bool" where
  "clusters_ok d \<longleftrightarrow>
     names_unique d \<and> unique_on cl_id (cluster_connections d)
   \<and> (\<forall>c \<in> set (rows (cluster_connections d)). cl_id c < seq (cluster_connections d))
   \<and> (\<forall>a \<in> set (rows (applications d)). \<forall>c. app_target_cluster_id a = Some c
        \<longrightarrow> c \<in> cl_id ` set (rows (cluster_connections d)))
   \<and> (\<forall>r \<in> set (rows (keycloak_instances d)). \<forall>c. ki_cluster_id r = Some c
        \<longrightarrow> c \<in> cl_id ` set (rows (cluster_connections d)))"

lemma cluster_row_fields [simp]:
  "cl_id (cluster_row p ref i) = i" "cl_name (cluster_row p ref i) = cc_name p"
  by (simp_all add: cluster_row_def)

lemma add_then_remove:
  assumes "clusters_ok d"
  shows "remove_cluster (seq (cluster_connections d)) (add_cluster p d) =
           d\<lparr>cluster_connections := (cluster_connections d)\<lparr>seq := seq (cluster_connections d) + 1\<rparr>\<rparr>"
proof -
  let ?i = "seq (cluster_connections d)"
  have ids: "?i \<notin> cl_id ` set (rows (cluster_connections d))" using assms by (force simp: clusters_ok_def)
  have "filter (\<lambda>c. cl_id c \<noteq> ?i) (rows (cluster_connections d)) = rows (cluster_connections d)"
    by (intro filter_True) (metis ids image_eqI)
  then have clusters: "delete_rows (\<lambda>c. cl_id c = ?i) (insert_row (cluster_row p ''pending'') (cluster_connections d))
      = (cluster_connections d)\<lparr>seq := ?i + 1\<rparr>"
    by (simp add: delete_rows_def insert_row_def)
  have apps: "update_rows (\<lambda>a. app_target_cluster_id a = Some ?i) (\<lambda>a. a\<lparr>app_target_cluster_id := None\<rparr>) (applications d)
      = applications d"
    using assms ids by (intro update_rows_none) (auto simp: clusters_ok_def)
  have insts: "update_rows (\<lambda>r. ki_cluster_id r = Some ?i) (\<lambda>r. r\<lparr>ki_cluster_id := None\<rparr>) (keycloak_instances d)
      = keycloak_instances d"
    using assms ids by (intro update_rows_none) (auto simp: clusters_ok_def)
  show ?thesis by (simp add: remove_cluster_def add_cluster_def clusters apps insts)
qed

lemma clusters_ok_seq: "clusters_ok d \<Longrightarrow> clusters_ok (d\<lparr>cluster_connections := (cluster_connections d)\<lparr>seq := seq (cluster_connections d) + 1\<rparr>\<rparr>)"
  by (force simp: clusters_ok_def names_unique_def unique_on_def)

lemma clusters_ok_add:
  "clusters_ok d \<Longrightarrow> names_unique (add_cluster p d) \<Longrightarrow> clusters_ok (add_cluster p d)"
  by (force simp: clusters_ok_def add_cluster_def names_unique_def unique_on_def table_simps insert_row_def)

lemma rows_set_cluster:
  "rows (cluster_connections (set_cluster cid f d)) = map (\<lambda>c. if cl_id c = cid then f c else c) (rows (cluster_connections d))"
  by (simp add: set_cluster_def table_simps)

lemma clusters_ok_set:
  assumes ok: "clusters_ok d" and id: "\<And>c. cl_id (f c) = cl_id c" and nm: "names_unique (set_cluster cid f d)"
  shows "clusters_ok (set_cluster cid f d)"
proof -
  have ids: "map cl_id (rows (cluster_connections (set_cluster cid f d))) = map cl_id (rows (cluster_connections d))"
    using id by (simp add: rows_set_cluster)
  then have img: "cl_id ` set (rows (cluster_connections (set_cluster cid f d))) = cl_id ` set (rows (cluster_connections d))"
    by (metis image_set)
  have frame: "seq (cluster_connections (set_cluster cid f d)) = seq (cluster_connections d)"
    "applications (set_cluster cid f d) = applications d" "keycloak_instances (set_cluster cid f d) = keycloak_instances d"
    by (simp_all add: set_cluster_def update_rows_def)
  have "\<forall>c \<in> set (rows (cluster_connections (set_cluster cid f d))). cl_id c < seq (cluster_connections d)"
  proof
    fix c assume "c \<in> set (rows (cluster_connections (set_cluster cid f d)))"
    then have "cl_id c \<in> cl_id ` set (rows (cluster_connections d))" unfolding img[symmetric] by (rule imageI)
    with ok show "cl_id c < seq (cluster_connections d)" by (auto simp: clusters_ok_def)
  qed
  with ok nm show ?thesis unfolding clusters_ok_def unique_on_def ids img frame by simp
qed

lemma clusters_ok_remove:
  assumes "clusters_ok d"
  shows "clusters_ok (remove_cluster cid d)"
proof -
  from assms have "\<forall>a \<in> set (rows (applications d)). \<forall>c. app_target_cluster_id a = Some c
        \<longrightarrow> c \<in> cl_id ` set (rows (cluster_connections d))"
    "\<forall>r \<in> set (rows (keycloak_instances d)). \<forall>c. ki_cluster_id r = Some c
        \<longrightarrow> c \<in> cl_id ` set (rows (cluster_connections d))" by (simp_all add: clusters_ok_def)
  moreover have "c \<in> cl_id ` {x \<in> set (rows (cluster_connections d)). cl_id x \<noteq> cid}"
    if "c \<in> cl_id ` set (rows (cluster_connections d))" "c \<noteq> cid" for c
    using that by auto
  ultimately show ?thesis using assms
    by (auto simp: clusters_ok_def names_unique_def remove_cluster_def table_simps delete_rows_def
        delete_rows_unique[unfolded delete_rows_def] unique_on_def distinct_map_filter split: if_splits)
qed

lemma within_limit_cases:
  assumes "within_limit env path m w = (r, w')"
  shows "sess w' = sess w \<and>
    ((r = Inr None \<and> vault w' = abandoned env path (vault w))
     \<or> (\<exists>x. r = Inr (Some x) \<and> m (vault w) = (Inr x, vault w'))
     \<or> (\<exists>e. r = Inl e \<and> m (vault w) = (Inl e, vault w')))"
proof (cases "vault_slow env path (vault w)")
  case True
  with assms show ?thesis by (auto simp: within_limit_def prog_simps)
next
  case False
  obtain x v where m: "m (vault w) = (x, v)" by fastforce
  with False assms show ?thesis by (cases x) (auto simp: within_limit_def prog_simps)
qed

text \<open>
  What the service relies on beyond the KV engine: the library does not raise FastAPI's exception,
  and an abandoned operation still only concerns its own path.
\<close>

locale cluster_vault = hvac_kv2 hv contents
  for hv :: "'v hvac" and contents :: "'v \<Rightarrow> contents" +
  fixes ab :: "string \<Rightarrow> 'v \<Rightarrow> 'v"
  assumes write_error: "kv_write hv p d v = (Inl e, v') \<Longrightarrow> \<not> is_HTTPException e"
    and ab_local: "q \<noteq> p \<Longrightarrow> contents (ab p v) q = contents v q"
begin

lemma token_keeps_kubeconfig:
  assumes "c_hvac env = hv" and "abandoned env = ab"
  shows "sess (snd (store_argocd_token env cid token w)) = sess w
    \<and> fst (store_argocd_token env cid token w) = Inr ()
    \<and> contents (vault (snd (store_argocd_token env cid token w))) (kubeconfig_path i)
        = contents (vault w) (kubeconfig_path i)"
proof (cases token)
  case None
  then show ?thesis by (simp add: store_argocd_token_def prog_simps)
next
  case (Some t)
  have ne: "kubeconfig_path i \<noteq> argocd_path cid" by (simp add: kubeconfig_path_def argocd_path_def)
  obtain r w1 where m: "within_limit env (argocd_path cid) (put_secret hv (argocd_path cid) [(''token'', t)]) w = (r, w1)"
    by fastforce
  have "contents (vault w1) (kubeconfig_path i) = contents (vault w) (kubeconfig_path i)"
    using within_limit_cases[OF m]
  proof (elim conjE disjE exE)
    assume "vault w1 = abandoned env (argocd_path cid) (vault w)"
    then show ?thesis using ab_local[OF ne] assms(2) by simp
  next
    fix x :: unit assume "put_secret hv (argocd_path cid) [(''token'', t)] (vault w) = (Inr x, vault w1)"
    then have "kv_write hv (argocd_path cid) [(''token'', t)] (vault w) = (Inr (), vault w1)" by (simp add: put_secret_def)
    from write_ok[OF this] ne show ?thesis by simp
  next
    fix e assume "put_secret hv (argocd_path cid) [(''token'', t)] (vault w) = (Inl e, vault w1)"
    from write_fail[OF this[unfolded put_secret_def]] show ?thesis by simp
  qed
  moreover have "snd (store_argocd_token env cid token w) = w1" "fst (store_argocd_token env cid token w) = Inr ()"
    using Some m assms(1) by (auto simp: store_argocd_token_def prog_simps split: sum.split)
  moreover have "sess w1 = sess w" using within_limit_cases[OF m] by simp
  ultimately show ?thesis by simp
qed

end

lemmas token_keeps_kubeconfig = cluster_vault.token_keeps_kubeconfig

interpretation ref_cluster_vault: cluster_vault ref_kv ref_contents "\<lambda>_ v. v"
  by unfold_locales (auto simp: ref_kv_def split: option.splits)

lemma commit_names_or_409_run:
  "commit_names_or_409 w =
     (if names_unique (db (sess w)) then (Inr (), w\<lparr>sess := commit (sess w)\<rparr>)
      else (Inl (HTTPException 409), w\<lparr>sess := rollback (sess w)\<rparr>))"
  by (simp add: commit_names_or_409_def prog_simps catch_def commit_names_def)

lemma change_and_commit:
  "bnd (change_db f) (\<lambda>_. bnd commit_plain (\<lambda>_. m)) w = m (w\<lparr>sess := open_session (f (db (sess w)))\<rparr>)"
  by (cases "sess w") (simp add: prog_simps change_db_def commit_plain_def commit_def open_session_def)

lemma session_db: "db (open_session d) = d"
  by (simp add: open_session_def)

lemma drop_and_raise_run:
  "drop_and_raise cid code w = (Inl (HTTPException code), w\<lparr>sess := open_session (remove_cluster cid (db (sess w)))\<rparr>)"
  by (simp add: drop_and_raise_def prog_simps change_db_def commit_plain_def commit_def open_session_def)

definition bumped :: "database \<Rightarrow> database" where
  "bumped d = d\<lparr>cluster_connections := (cluster_connections d)\<lparr>seq := seq (cluster_connections d) + 1\<rparr>\<rparr>"

lemma add_then_set:
  assumes "clusters_ok d"
  shows "rows (cluster_connections (set_cluster (seq (cluster_connections d)) (with_ref ref) (add_cluster p d)))
       = rows (cluster_connections d) @ [cluster_row p ref (seq (cluster_connections d))]"
proof -
  let ?i = "seq (cluster_connections d)"
  have "?i \<notin> cl_id ` set (rows (cluster_connections d))" using assms by (force simp: clusters_ok_def)
  then have "map (\<lambda>c. if cl_id c = ?i then with_ref ref c else c) (rows (cluster_connections d)) = rows (cluster_connections d)"
    by (intro map_idI) (metis image_eqI)
  then show ?thesis
    by (simp add: rows_set_cluster add_cluster_def table_simps with_ref_def cluster_row_def)
qed

lemma names_unique_set: "(\<And>c. cl_name (f c) = cl_name c) \<Longrightarrow> names_unique d \<Longrightarrow> names_unique (set_cluster cid f d)"
  unfolding names_unique_def set_cluster_def by (simp add: update_rows_unique)

text \<open>A registration whose row is committed goes on by the answer of Vault.\<close>

lemma create_cluster_after_commit:
  fixes w :: "'v services"
  defines "d \<equiv> db (sess w)" and "i \<equiv> seq (cluster_connections (db (sess w)))"
  assumes "validate_kubeconfig (c_yaml env) (cc_kubeconfig p) = Inr ()" and "names_unique (add_cluster p d)"
    and stored: "within_limit env (kubeconfig_path i) (put_secret (c_hvac env) (kubeconfig_path i) [(''kubeconfig'', cc_kubeconfig p)])
        (w\<lparr>sess := open_session (add_cluster p d)\<rparr>) = (r1, w2)"
  shows "create_cluster env p w = (case r1 of
        Inl e \<Rightarrow> if is_HTTPException e then (Inl e, w2) else drop_and_raise i 500 w2
      | Inr None \<Rightarrow> drop_and_raise i 504 w2
      | Inr (Some u) \<Rightarrow>
          bnd (store_argocd_token env i (if cc_argocd_token p = Some [] then None else cc_argocd_token p))
            (\<lambda>_. ret (cluster_row p (''secret/'' @ kubeconfig_path i) i))
            (w2\<lparr>sess := open_session (set_cluster i (with_ref (''secret/'' @ kubeconfig_path i)) (add_cluster p d))\<rparr>))"
proof -
  let ?path = "kubeconfig_path i" and ?w1 = "w\<lparr>sess := open_session (add_cluster p d)\<rparr>"
  let ?store = "within_limit env ?path (put_secret (c_hvac env) ?path [(''kubeconfig'', cc_kubeconfig p)])"
  have added_step: "change_db (add_cluster p) w = (Inr (), w\<lparr>sess := (sess w)\<lparr>db := add_cluster p d\<rparr>\<rparr>)"
    by (simp add: change_db_def prog_simps d_def)
  have committed: "commit_names_or_409 (w\<lparr>sess := (sess w)\<lparr>db := add_cluster p d\<rparr>\<rparr>) = (Inr (), ?w1)"
    using assms(4) by (simp add: commit_names_or_409_run commit_def open_session_def)
  have sess2: "sess w2 = open_session (add_cluster p d)"
    using within_limit_cases[OF stored] by simp
  have "create_cluster env p w = bnd (try_except ?store (\<lambda>e. if is_HTTPException e then raise_exc e else drop_and_raise i 500)) (\<lambda>stored.
      bnd (case stored of None \<Rightarrow> drop_and_raise i 504 | Some _ \<Rightarrow> ret ()) (\<lambda>_.
      bnd (change_db (set_cluster i (with_ref (''secret/'' @ ?path)))) (\<lambda>_.
      bnd commit_plain (\<lambda>_.
      bnd (store_argocd_token env i (if cc_argocd_token p = Some [] then None else cc_argocd_token p)) (\<lambda>_.
        ret (cluster_row p (''secret/'' @ ?path) i)))))) ?w1"
    unfolding create_cluster_def
    by (subst bnd_step[of "lift_result _" w "()" w], simp add: assms(3) lift_apply,
        subst bnd_step[of "from_db _" w i w], simp add: from_db_apply i_def,
        subst bnd_step[of "change_db _" w "()" "w\<lparr>sess := (sess w)\<lparr>db := add_cluster p d\<rparr>\<rparr>"], rule added_step,
        subst bnd_step[of commit_names_or_409 _ "()" ?w1], rule committed, rule refl)
  then show ?thesis
    by (cases r1) (simp_all add: bnd_apply[of "try_except _ _"] try_apply stored raise_apply drop_and_raise_run
        bnd_apply[of "drop_and_raise _ _"] change_and_commit sess2 session_db split: option.split)
qed

text \<open>The four ways in which a registration ends.\<close>

lemma create_cluster_run:
  fixes w :: "'v services"
  assumes "cluster_vault (c_hvac env) contents (abandoned env)" and "saved (sess w) = db (sess w)"
    and ok: "clusters_ok (db (sess w))" and run: "create_cluster env p w = (r, w')"
  defines "d \<equiv> db (sess w)" and "i \<equiv> seq (cluster_connections (db (sess w)))"
  shows "(\<exists>e. r = Inl e \<and> sess w' = sess w)
       \<or> (\<exists>e. r = Inl e \<and> sess w' = open_session (bumped d))
       \<or> (r = Inr (cluster_row p (''secret/'' @ kubeconfig_path i) i)
            \<and> validate_kubeconfig (c_yaml env) (cc_kubeconfig p) = Inr () \<and> names_unique (add_cluster p d)
            \<and> sess w' = open_session (set_cluster i (with_ref (''secret/'' @ kubeconfig_path i)) (add_cluster p d))
            \<and> contents (vault w') (kubeconfig_path i) = Some [''kubeconfig'' \<mapsto> cc_kubeconfig p])"
proof -
  let ?path = "kubeconfig_path i" and ?kub = "[(''kubeconfig'', cc_kubeconfig p)]"
  let ?w1 = "w\<lparr>sess := open_session (add_cluster p d)\<rparr>"
  let ?store = "within_limit env ?path (put_secret (c_hvac env) ?path ?kub)"
  have start: "sess w = open_session d" using assms(2) by (simp add: d_def open_session_def)
  note steps = create_cluster_def prog_simps i_def[symmetric] d_def[symmetric]
  consider (invalid) e where "validate_kubeconfig (c_yaml env) (cc_kubeconfig p) = Inl e"
    | (taken) "validate_kubeconfig (c_yaml env) (cc_kubeconfig p) = Inr ()" "\<not> names_unique (add_cluster p d)"
    | (added) "validate_kubeconfig (c_yaml env) (cc_kubeconfig p) = Inr ()" "names_unique (add_cluster p d)"
    by (cases "validate_kubeconfig (c_yaml env) (cc_kubeconfig p)") auto
  then show ?thesis
  proof cases
    case invalid
    with run have "r = Inl e" "w' = w" by (auto simp: steps)
    then show ?thesis by simp
  next
    case taken
    with run start show ?thesis
      by (auto simp: steps commit_names_or_409_run change_db_def rollback_def open_session_def)
  next
    case added
    obtain r1 w2 where stored: "?store ?w1 = (r1, w2)" by fastforce
    have sess2: "sess w2 = open_session (add_cluster p d)"
      using within_limit_cases[OF stored] by simp
    note run2 = create_cluster_after_commit[of env p w, folded d_def i_def, OF added stored]
    have dropped: "sess (snd (drop_and_raise i code w2)) = open_session (bumped d)" for code
      using add_then_remove[OF ok] by (simp add: drop_and_raise_run sess2 open_session_def bumped_def d_def i_def)
    show ?thesis
    proof (cases r1)
      case (Inl e)
      with within_limit_cases[OF stored] obtain v where "put_secret (c_hvac env) ?path ?kub v = (Inl e, vault w2)" by auto
      then have "\<not> is_HTTPException e"
        unfolding put_secret_def by (rule cluster_vault.write_error[OF assms(1)])
      with run run2 Inl dropped[of 500] have "r = Inl (HTTPException 500)" "sess w' = open_session (bumped d)"
        by (auto simp: drop_and_raise_run)
      then show ?thesis by blast
    next
      case (Inr res)
      show ?thesis
      proof (cases res)
        case None
        with run run2 Inr dropped[of 504] have "r = Inl (HTTPException 504)" "sess w' = open_session (bumped d)"
          by (auto simp: drop_and_raise_run)
        then show ?thesis by blast
      next
        case (Some u)
        let ?w3 = "w2\<lparr>sess := open_session (set_cluster i (with_ref (''secret/'' @ ?path)) (add_cluster p d))\<rparr>"
        let ?token = "store_argocd_token env i (if cc_argocd_token p = Some [] then None else cc_argocd_token p)"
        have put: "put_secret (c_hvac env) ?path ?kub (vault ?w1) = (Inr (), vault w2)"
          using within_limit_cases[OF stored] Inr Some by auto
        have kv: "hvac_kv2 (c_hvac env) contents" using assms(1) by (simp add: cluster_vault_def)
        have "contents (vault w2) = (contents (vault ?w1))(?path \<mapsto> map_of ?kub)"
          by (rule hvac_kv2.write_ok[OF kv put[unfolded put_secret_def]])
        then have kub: "contents (vault w2) ?path = Some [''kubeconfig'' \<mapsto> cc_kubeconfig p]" by simp
        note kept = token_keeps_kubeconfig[OF assms(1) refl refl, of i "if cc_argocd_token p = Some [] then None else cc_argocd_token p" ?w3 i]
        from run run2 Inr Some have "bnd ?token (\<lambda>_. ret (cluster_row p (''secret/'' @ ?path) i)) ?w3 = (r, w')" by simp
        with kept have "r = Inr (cluster_row p (''secret/'' @ ?path) i)" "w' = snd (?token ?w3)"
          by (auto simp: prog_simps split: prod.splits)
        with kept kub added show ?thesis by simp
      qed
    qed
  qed
qed

text \<open>
  C26: A registration that fails leaves the clusters, the applications and the instances as they were; one
  that succeeds has committed the row and stored the validated kubeconfig at its path.
\<close>

theorem create_cluster_outcomes:
  fixes w :: "'v services"
  assumes "cluster_vault (c_hvac env) contents (abandoned env)" and "saved (sess w) = db (sess w)"
    and "clusters_ok (db (sess w))" and "create_cluster env p w = (r, w')"
  shows "saved (sess w') = db (sess w') \<and> clusters_ok (db (sess w'))
    \<and> applications (db (sess w')) = applications (db (sess w))
    \<and> (case r of
         Inl _ \<Rightarrow> rows (cluster_connections (db (sess w'))) = rows (cluster_connections (db (sess w)))
       | Inr c \<Rightarrow> rows (cluster_connections (db (sess w'))) = rows (cluster_connections (db (sess w))) @ [c]
           \<and> cl_kubeconfig_secret_ref c = ''secret/'' @ kubeconfig_path (cl_id c)
           \<and> contents (vault w') (kubeconfig_path (cl_id c)) = Some [''kubeconfig'' \<mapsto> cc_kubeconfig p]
           \<and> validate_kubeconfig (c_yaml env) (cc_kubeconfig p) = Inr ())"
proof -
  let ?d = "db (sess w)" and ?i = "seq (cluster_connections (db (sess w)))"
  note create_cluster_run[OF assms]
  then consider (same) e where "r = Inl e" "sess w' = sess w"
    | (bump) e where "r = Inl e" "sess w' = open_session (bumped ?d)"
    | (made) ref where "ref = ''secret/'' @ kubeconfig_path ?i" "r = Inr (cluster_row p ref ?i)"
        "validate_kubeconfig (c_yaml env) (cc_kubeconfig p) = Inr ()" "names_unique (add_cluster p ?d)"
        "sess w' = open_session (set_cluster ?i (with_ref ref) (add_cluster p ?d))"
        "contents (vault w') (kubeconfig_path ?i) = Some [''kubeconfig'' \<mapsto> cc_kubeconfig p]"
    by blast
  then show ?thesis
  proof cases
    case same
    with assms(2,3) show ?thesis by simp
  next
    case bump
    with clusters_ok_seq[OF assms(3)] show ?thesis by (simp add: open_session_def bumped_def)
  next
    case (made ref)
    have keeps: "cl_id (with_ref ref c) = cl_id c" "cl_name (with_ref ref c) = cl_name c" for c
      by (simp_all add: with_ref_def)
    have "clusters_ok (set_cluster ?i (with_ref ref) (add_cluster p ?d))"
      using made(4) keeps by (intro clusters_ok_set clusters_ok_add assms(3) names_unique_set) auto
    moreover have "applications (set_cluster ?i (with_ref ref) (add_cluster p ?d)) = applications ?d"
      by (simp add: set_cluster_def add_cluster_def)
    moreover have "cl_kubeconfig_secret_ref (cluster_row p ref ?i) = ref" by (simp add: cluster_row_def)
    ultimately show ?thesis using made add_then_set[OF assms(3), of ref p] by (simp add: open_session_def)
  qed
qed

lemma get_cluster_run:
  "get_cluster cid w = (case get_cluster_row cid (db (sess w)) of
     None \<Rightarrow> (Inl (HTTPException 404), w) | Some c \<Rightarrow> (Inr (c, app_count cid (db (sess w))), w))"
  by (simp add: get_cluster_def prog_simps split: option.split)

lemma remove_unused:
  assumes "app_count cid d = 0"
  shows "applications (remove_cluster cid d) = applications d"
proof -
  from assms have "\<forall>a \<in> set (rows (applications d)). app_target_cluster_id a \<noteq> Some cid"
    by (simp add: app_count_def select_rows_def filter_empty_conv)
  then have "update_rows (\<lambda>a. app_target_cluster_id a = Some cid) (\<lambda>a. a\<lparr>app_target_cluster_id := None\<rparr>) (applications d)
      = applications d"
    by (intro update_rows_none) auto
  then show ?thesis by (simp add: remove_cluster_def)
qed

lemma forget_secret_run: "fst (forget_secret env path w) = Inr () \<and> sess (snd (forget_secret env path w)) = sess w"
proof -
  obtain r w1 where m: "within_limit env path (delete_secret (c_hvac env) path) w = (r, w1)" by fastforce
  from within_limit_cases[OF m] have "sess w1 = sess w" by simp
  with m show ?thesis by (auto simp: forget_secret_def prog_simps split: sum.split)
qed

text \<open>
  C27: Whatever Vault does, a deletion orphans no application: it is refused while one targets the cluster,
  and afterwards every reference to a cluster is to a registered one.
\<close>

theorem delete_cluster_orphans_nothing:
  assumes "saved (sess w) = db (sess w)" and "clusters_ok (db (sess w))" and "delete_cluster env cid w = (r, w')"
  shows "applications (db (sess w')) = applications (db (sess w)) \<and> clusters_ok (db (sess w'))
    \<and> saved (sess w') = db (sess w')
    \<and> (case r of
         Inl e \<Rightarrow> w' = w \<and> e = (if get_cluster_row cid (db (sess w)) = None then HTTPException 404 else HTTPException 409)
       | Inr _ \<Rightarrow> app_count cid (db (sess w)) = 0 \<and> cid \<notin> cl_id ` set (rows (cluster_connections (db (sess w')))))"
proof -
  let ?d = "db (sess w)"
  consider (missing) "get_cluster_row cid ?d = None"
    | (used) c where "get_cluster_row cid ?d = Some c" "app_count cid ?d \<noteq> 0"
    | (free) c where "get_cluster_row cid ?d = Some c" "app_count cid ?d = 0" by fastforce
  then show ?thesis
  proof cases
    case missing
    with assms show ?thesis by (auto simp: delete_cluster_def bnd_apply[of "get_cluster _"] get_cluster_run)
  next
    case used
    with assms show ?thesis
      by (auto simp: delete_cluster_def bnd_apply[of "get_cluster _"] get_cluster_run raise_apply)
  next
    case (free c)
    let ?d' = "remove_cluster cid ?d"
    have ok: "clusters_ok ?d'" by (rule clusters_ok_remove[OF assms(2)])
    then have names: "names_unique ?d'" by (simp add: clusters_ok_def)
    let ?w1 = "w\<lparr>sess := (sess w)\<lparr>db := ?d'\<rparr>\<rparr>"
    have got: "get_cluster cid w = (Inr (c, app_count cid ?d), w)" using free by (simp add: get_cluster_run)
    have removed: "change_db (remove_cluster cid) w = (Inr (), ?w1)" by (simp add: change_db_def prog_simps)
    have committed: "commit_names_or_409 ?w1 = (Inr (), w\<lparr>sess := open_session ?d'\<rparr>)"
      using names by (simp add: commit_names_or_409_run commit_def open_session_def)
    have "delete_cluster env cid w = bnd (forget_secret env (kubeconfig_path cid)) (\<lambda>_. forget_secret env (argocd_path cid))
        (w\<lparr>sess := open_session ?d'\<rparr>)"
      using free by (simp add: delete_cluster_def bnd_step[of "get_cluster cid", OF got] bnd_step[of "change_db (remove_cluster cid)", OF removed] bnd_step[of commit_names_or_409, OF committed])
    with assms(3) have "r = Inr () \<and> sess w' = open_session ?d'"
      using forget_secret_run[of env "kubeconfig_path cid" "w\<lparr>sess := open_session ?d'\<rparr>"]
        forget_secret_run[of env "argocd_path cid" "snd (forget_secret env (kubeconfig_path cid) (w\<lparr>sess := open_session ?d'\<rparr>))"]
      by (auto simp: bnd_apply split: prod.splits sum.splits)
    moreover have "cid \<notin> cl_id ` set (rows (cluster_connections ?d'))"
      by (auto simp: remove_cluster_def table_simps)
    ultimately show ?thesis using ok remove_unused free by (simp add: open_session_def)
  qed
qed

text \<open>
  A kubeconfig that the service accepts is a mapping with the required sections, and no entry of it
  makes the Kubernetes client run a command or read a file of the backend.
\<close>

theorem accepted_kubeconfig_is_inline:
  assumes "validate_kubeconfig y k = Inr ()"
  shows "\<exists>data. yaml_load y k = Inr (JObj data) \<and> set required_keys \<subseteq> fst ` set data
    \<and> (\<forall>users kvs body. map_of data ''users'' = Some (JArr users) \<and> JObj kvs \<in> set users
         \<and> map_of kvs ''user'' = Some (JObj body) \<longrightarrow> fst ` set body \<inter> set FORBIDDEN_USER_KEYS = {})
    \<and> (\<forall>clusters kvs body. map_of data ''clusters'' = Some (JArr clusters) \<and> JObj kvs \<in> set clusters
         \<and> map_of kvs ''cluster'' = Some (JObj body) \<longrightarrow> fst ` set body \<inter> set FORBIDDEN_CLUSTER_KEYS = {})"
proof -
  from assms obtain data where data: "yaml_load y k = Inr (JObj data)" and keys: "set required_keys \<subseteq> fst ` set data"
    and free: "forbidden_keys data = Inr []"
    by (auto simp: validate_kubeconfig_def bnd_result_def split: sum.splits json.splits if_splits)
  have sect: "map_of kvs inner = Some (JObj body) \<Longrightarrow> forbidden_in inner ks (JObj kvs) = [] \<Longrightarrow> fst ` set body \<inter> set ks = {}"
    for inner ks kvs body by (auto simp: forbidden_in_def dict_get_def filter_empty_conv)
  have arr: "map_of data s = Some (JArr xs) \<Longrightarrow> jiter (jor (dict_get s data) (JArr [])) = Inr xs" for s xs
    by (cases xs) (auto simp: dict_get_def jor_def)
  have "\<exists>us cs. jiter (jor (dict_get ''users'' data) (JArr [])) = Inr us \<and> jiter (jor (dict_get ''clusters'' data) (JArr [])) = Inr cs
      \<and> (\<forall>u \<in> set us. forbidden_in ''user'' FORBIDDEN_USER_KEYS u = [])
      \<and> (\<forall>c \<in> set cs. forbidden_in ''cluster'' FORBIDDEN_CLUSTER_KEYS c = [])"
    using free by (auto simp: forbidden_keys_def bnd_result_def split: sum.splits)
  then obtain us cs where us: "jiter (jor (dict_get ''users'' data) (JArr [])) = Inr us" "\<forall>u \<in> set us. forbidden_in ''user'' FORBIDDEN_USER_KEYS u = []"
    and cs: "jiter (jor (dict_get ''clusters'' data) (JArr [])) = Inr cs" "\<forall>c \<in> set cs. forbidden_in ''cluster'' FORBIDDEN_CLUSTER_KEYS c = []"
    by blast
  have "fst ` set body \<inter> set FORBIDDEN_USER_KEYS = {}"
    if "map_of data ''users'' = Some (JArr users)" "JObj kvs \<in> set users" "map_of kvs ''user'' = Some (JObj body)" for users kvs body
    using arr[OF that(1)] us that(2) sect[OF that(3)] by auto
  moreover have "fst ` set body \<inter> set FORBIDDEN_CLUSTER_KEYS = {}"
    if "map_of data ''clusters'' = Some (JArr clusters)" "JObj kvs \<in> set clusters" "map_of kvs ''cluster'' = Some (JObj body)"
    for clusters kvs body
    using arr[OF that(1)] cs that(2) sect[OF that(3)] by auto
  ultimately show ?thesis using data keys by blast
qed

section \<open>Examples\<close>

definition demo_kubeconfig :: json where
  "demo_kubeconfig = JObj
     [(''apiVersion'', JStr ''v1''), (''contexts'', JArr []), (''clusters'', JArr []),
      (''users'', JArr [JObj [(''name'', JStr ''ci''), (''user'', JObj [(''token'', JStr ''t'')])]])]"

definition demo_cluster_env :: "(string \<times> dict) list cluster_env" where
  "demo_cluster_env =
     \<lparr>c_hvac = ref_kv, c_yaml = \<lparr>yaml_load = (\<lambda>s. if s = ''k'' then Inr demo_kubeconfig else Inl YAMLError), yaml_dump = (\<lambda>_. '''')\<rparr>,
      vault_slow = (\<lambda>_ _. False), abandoned = (\<lambda>_ v. v), probe_kubeconfig = (\<lambda>_. PROBE_FAILED), c_now = 0\<rparr>"

definition demo_cluster_create :: "string \<Rightarrow> cluster_create" where
  "demo_cluster_create name =
     \<lparr>cc_name = name, cc_endpoint = ''https://k8s'', cc_provider = OTHER, cc_prometheus_url = None, cc_loki_url = None,
      cc_argocd_url = None, cc_kubeconfig = ''k'', cc_argocd_token = Some ''t''\<rparr>"

definition demo_clusters :: "(string \<times> dict) list services" where
  "demo_clusters =
     \<lparr>sess = open_session (empty_database\<lparr>cluster_connections := \<lparr>rows = [blank_cluster 1 ''a'', blank_cluster 2 ''b''], seq = 3\<rparr>\<rparr>),
      vault = [(''clusters/1'', [(''kubeconfig'', ''old'')])]\<rparr>"

lemma demo_clusters_ok: "saved (sess demo_clusters) = db (sess demo_clusters)" "clusters_ok (db (sess demo_clusters))"
  by (simp_all add: demo_clusters_def open_session_def clusters_ok_def names_unique_def unique_on_def empty_database_def
      empty_table_def blank_cluster_def)

lemma demo_cluster_vault: "cluster_vault (c_hvac demo_cluster_env) ref_contents (abandoned demo_cluster_env)"
  using ref_cluster_vault.cluster_vault_axioms by (simp add: demo_cluster_env_def)

lemma create_cluster_outcomes_witness:
  "\<exists>c w'. create_cluster demo_cluster_env (demo_cluster_create ''c'') demo_clusters = (Inr c, w')
     \<and> ref_contents (vault w') (kubeconfig_path (cl_id c)) = Some [''kubeconfig'' \<mapsto> ''k'']"
proof -
  have "\<exists>c. fst (create_cluster demo_cluster_env (demo_cluster_create ''c'') demo_clusters) = Inr c"
    by (rule exI[of _ "cluster_row (demo_cluster_create ''c'') ''secret/clusters/3'' 3"]) code_simp
  then obtain c w' where run: "create_cluster demo_cluster_env (demo_cluster_create ''c'') demo_clusters = (Inr c, w')"
    by (metis prod.collapse)
  from create_cluster_outcomes[OF demo_cluster_vault demo_clusters_ok run] run show ?thesis
    by (simp add: demo_cluster_create_def)
qed

lemma delete_cluster_orphans_nothing_witness:
  "clusters_ok (db (sess (snd (delete_cluster demo_cluster_env 1 demo_clusters))))"
  using delete_cluster_orphans_nothing[OF demo_clusters_ok, of demo_cluster_env 1] by (metis prod.collapse)

lemma accepted_kubeconfig_is_inline_witness:
  "validate_kubeconfig (c_yaml demo_cluster_env) ''k'' = Inr () \<and> (\<exists>data. yaml_load (c_yaml demo_cluster_env) ''k'' = Inr (JObj data))"
proof -
  have ok: "validate_kubeconfig (c_yaml demo_cluster_env) ''k'' = Inr ()" by code_simp
  obtain data where "yaml_load (c_yaml demo_cluster_env) ''k'' = Inr (JObj data)"
    using accepted_kubeconfig_is_inline[OF ok] by (elim exE conjE) (rule that)
  with ok show ?thesis by simp
qed

text \<open>
  An update that is refused because another cluster has the name it sets has already replaced the
  kubeconfig in Vault.
\<close>

definition demo_rename :: cluster_update where
  "demo_rename = \<lparr>cu_name = Some ''b'', cu_endpoint = None, cu_provider = None, cu_prometheus_url = None, cu_loki_url = None,
     cu_argocd_url = None, cu_kubeconfig = Some ''k'', cu_argocd_token = None\<rparr>"

lemma refused_update_replaces_kubeconfig:
  "fst (update_cluster demo_cluster_env 1 demo_rename demo_clusters) = Inl (HTTPException 409)"
  "vault (snd (update_cluster demo_cluster_env 1 demo_rename demo_clusters)) = [(''clusters/1'', [(''kubeconfig'', ''k'')])]"
  by code_simp+

end
