(* ===== verification/Ci_Injection.thy ===== *)
theory Ci_Injection
  imports Gitops Vault
begin

text \<open>
  backend/ci/templates.py, build_files.py and injector.py, and the two generators of
  backend/services/scaffolding_service.py they share: the pipeline, Dockerfile and chart that CNP
  proposes to a repository. Lemmas: the values written into the pipeline stay inside their YAML
  scalars, and an injection overwrites nothing on any existing branch. Characters outside Latin-1 in
  the generated comments are spelled by their UTF-8 bytes; commit messages and the texts of merge
  requests are not modelled.
\<close>

section \<open>Projects of the GitLab client\<close>

record project_info =
  pi_id :: int
  pi_path :: string
  pi_web_url :: string

text \<open>
  The operations of python-gitlab on projects, groups and members, beside those on one repository.
  A project is named by its path, or by its number in the member calls.
\<close>

record 'g gitlab_projects =
  repos :: "'g gitlab_api"
  default_branch_of :: "string \<Rightarrow> ('g, string option) prog"
  mergerequests_create :: "string \<Rightarrow> string \<Rightarrow> string \<Rightarrow> ('g, unit) prog"
  project_info_of :: "string \<Rightarrow> ('g, project_info) prog"
  projects_create :: "string \<Rightarrow> string \<Rightarrow> int \<Rightarrow> string option \<Rightarrow> ('g, project_info) prog"
  project_delete :: "string \<Rightarrow> ('g, unit) prog"
  groups_get :: "string \<Rightarrow> ('g, int) prog"
  namespaces_search :: "string \<Rightarrow> ('g, (string \<times> int) list) prog"
  import_status :: "int \<Rightarrow> ('g, project_info \<times> string) prog"
  project_by_id :: "int \<Rightarrow> ('g, unit) prog"
  members_create :: "int \<Rightarrow> int \<Rightarrow> int \<Rightarrow> ('g, unit) prog"
  members_get :: "int \<Rightarrow> int \<Rightarrow> ('g, unit) prog"
  members_save :: "int \<Rightarrow> int \<Rightarrow> int \<Rightarrow> ('g, unit) prog"
  invitations_create :: "int \<Rightarrow> string \<Rightarrow> int \<Rightarrow> ('g, unit) prog"

definition get_default_branch :: "'g gitlab_projects \<Rightarrow> string \<Rightarrow> ('g, string) prog" where
  "get_default_branch gl project_path =
     bnd (default_branch_of gl project_path) (\<lambda>b. ret (if truthy_str b then the b else ''main''))"

definition create_mr :: "'g gitlab_projects \<Rightarrow> string \<Rightarrow> string \<Rightarrow> string \<Rightarrow> ('g, unit) prog" where
  "create_mr gl project_path source_branch target_branch =
     bnd (get_project (repos gl) project_path) (\<lambda>_. mergerequests_create gl project_path source_branch target_branch)"

definition delete_project :: "'g gitlab_projects \<Rightarrow> string \<Rightarrow> ('g, unit) prog" where
  "delete_project gl project_path =
     catch GitlabGetError
       (bnd (get_project (repos gl) project_path) (\<lambda>_. project_delete gl project_path)) (ret ())"

definition get_namespace_id_for :: "'g gitlab_projects \<Rightarrow> string \<Rightarrow> ('g, int option) prog" where
  "get_namespace_id_for gl path =
     try_except (bnd (groups_get gl path) (\<lambda>i. ret (Some i)))
       (\<lambda>_. try_except (bnd (namespaces_search gl path) (\<lambda>found. ret (map_of found path))) (\<lambda>_. ret None))"

definition create_project :: "'g gitlab_projects \<Rightarrow> string \<Rightarrow> int \<Rightarrow> ('g, project_info) prog" where
  "create_project gl name namespace_id = projects_create gl name (slugify name) namespace_id None"

definition get_project_info :: "'g gitlab_projects \<Rightarrow> string \<Rightarrow> ('g, project_info) prog" where
  "get_project_info gl project_path = project_info_of gl project_path"

definition add_project_member :: "'g gitlab_projects \<Rightarrow> int \<Rightarrow> int \<Rightarrow> int \<Rightarrow> ('g, unit) prog" where
  "add_project_member gl project_id gitlab_user_id access_level =
     bnd (project_by_id gl project_id) (\<lambda>_.
       try_except (members_create gl project_id gitlab_user_id access_level)
         (\<lambda>_. bnd (members_get gl project_id gitlab_user_id)
               (\<lambda>_. members_save gl project_id gitlab_user_id access_level)))"

definition invite_project_member :: "'g gitlab_projects \<Rightarrow> int \<Rightarrow> string \<Rightarrow> int \<Rightarrow> ('g, unit) prog" where
  "invite_project_member gl project_id email access_level =
     bnd (project_by_id gl project_id) (\<lambda>_. invitations_create gl project_id email access_level)"

section \<open>Settings\<close>

text \<open>An unset setting is the empty string where the code only tests it for truth.\<close>

record ci_settings =
  GITLAB_BOT_TOKEN :: string
  GITLAB_CI_PROJECT :: string
  GITLAB_BOT_NAMESPACE :: "string option"
  GITLAB_TEMPLATES_NAMESPACE :: string
  GITLAB_APPS_NAMESPACE :: string
  GITLAB_REGISTRY_URL :: string
  GITOPS_REPO_URL :: string

section \<open>The pipeline\<close>

definition ALLOWED_FRAMEWORKS :: "string list" where
  "ALLOWED_FRAMEWORKS = [''python'', ''nodejs'', ''go'', ''generic'']"

definition FRAMEWORK_ALIASES :: "(string \<times> string) list" where
  "FRAMEWORK_ALIASES =
     [(''python-fastapi'', ''python''), (''python-flask'', ''python''),
      (''react-vite'', ''nodejs''), (''node-express'', ''nodejs'')]"

definition resolve_framework :: "string \<Rightarrow> string" where
  "resolve_framework framework = (case map_of FRAMEWORK_ALIASES framework of None \<Rightarrow> framework | Some f \<Rightarrow> f)"

definition nl :: string where "nl = [CHR 0x0A]"
definition dq :: string where "dq = [CHR 0x22]"
definition sq :: string where "sq = [CHR 0x27]"
definition em_dash :: string where "em_dash = [CHR 0xE2, CHR 0x80, CHR 0x94]"

definition yaml_escape :: "string \<Rightarrow> string" where
  "yaml_escape value =
     py_replace [CHR 0x0D] [CHR 0x5C, CHR ''r'']
       (py_replace nl [CHR 0x5C, CHR ''n'']
         (py_replace dq [CHR 0x5C, CHR 0x22]
           (py_replace [CHR 0x5C] [CHR 0x5C, CHR 0x5C] value)))"

definition ci_templates_project :: "ci_settings \<Rightarrow> string" where
  "ci_templates_project cfg =
     (if GITLAB_CI_PROJECT cfg \<noteq> [] then GITLAB_CI_PROJECT cfg
      else (if truthy_str (GITLAB_BOT_NAMESPACE cfg) then the (GITLAB_BOT_NAMESPACE cfg) else ''cnp'')
             @ ''/cnp-ci-modules'')"

definition ci_variable :: "string \<Rightarrow> string \<Rightarrow> string" where
  "ci_variable key value = ''  '' @ key @ '': '' @ dq @ value @ dq @ nl"

definition ci_include :: "string \<Rightarrow> string \<Rightarrow> string" where
  "ci_include project file =
     ''  - project: '' @ sq @ project @ sq @ nl @ ''    ref: main'' @ nl
     @ ''    file: '' @ sq @ file @ sq @ nl"

definition generate_gitlab_ci :: "ci_settings \<Rightarrow> string \<Rightarrow> int \<Rightarrow> string \<Rightarrow> string \<Rightarrow> string \<Rightarrow> exc + string" where
  "generate_gitlab_ci cfg slug aid framework owner cluster_name =
     (let framework = resolve_framework framework in
      if framework \<notin> set ALLOWED_FRAMEWORKS then Inl ValueError
      else
        (let templates_project = ci_templates_project cfg;
             safe_slug = yaml_escape slug;
             safe_owner = yaml_escape (sanitize_k8s_label_value owner);
             gitops_repo = yaml_escape (GITOPS_REPO_URL cfg);
             safe_cluster = yaml_escape cluster_name;
             gitops_app_path = ''apps/'' @ safe_cluster @ ''/'' @ safe_slug
         in Inr (''# Auto-generated by CNP '' @ em_dash @ '' do not edit manually'' @ nl
            @ ''variables:'' @ nl
            @ ci_variable ''CNP_APP_NAME'' safe_slug
            @ ci_variable ''CNP_APP_ID'' (string_of_int aid)
            @ ci_variable ''CNP_APP_OWNER'' safe_owner
            @ ci_variable ''CNP_CLUSTER_NAME'' safe_cluster
            @ ci_variable ''CNP_GITOPS_REPO'' gitops_repo
            @ ci_variable ''CNP_GITOPS_APP_PATH'' gitops_app_path
            @ nl @ ''include:'' @ nl
            @ ci_include templates_project ''/base/pipeline.yml''
            @ ci_include templates_project ''/security/gitleaks.yml''
            @ ci_include templates_project ''/security/trivy.yml''
            @ ci_include templates_project ''/security/hadolint.yml''
            @ (if framework \<noteq> ''generic''
               then ci_include templates_project (''/frameworks/'' @ framework @ ''.yml'') else ''''))))"

section \<open>The chart\<close>

record scaffolding_params =
  sp_port :: int
  sp_image_repository :: "string option"
  sp_image_tag :: string
  sp_replicas :: int
  sp_env :: dict
  sp_services :: "string list"
  sp_pg_size :: string

definition default_params :: scaffolding_params where
  "default_params = \<lparr>sp_port = 8000, sp_image_repository = None, sp_image_tag = ''latest'', sp_replicas = 1,
     sp_env = [], sp_services = [], sp_pg_size = ''1Gi''\<rparr>"

definition database_url :: "string \<Rightarrow> string \<Rightarrow> string \<Rightarrow> string \<Rightarrow> string" where
  "database_url name db_username db_password db_name =
     ''postgresql://'' @ db_username @ '':'' @ db_password @ ''@'' @ name @ ''-postgresql:5432/'' @ db_name"

text \<open>\<open>token\<close> is what \<open>secrets.token_urlsafe(16)\<close> returns.\<close>

definition build_values_yaml ::
  "ci_settings \<Rightarrow> yaml_lib \<Rightarrow> string \<Rightarrow> string \<Rightarrow> string \<Rightarrow> scaffolding_params \<Rightarrow> int option \<Rightarrow> string option \<Rightarrow> string" where
  "build_values_yaml cfg y token name namespace params gitlab_group_id gitlab_group_path =
     (let image_repo = (if truthy_str (sp_image_repository params) then the (sp_image_repository params)
                        else rstrip (\<lambda>c. c = CHR ''/'') (GITLAB_REGISTRY_URL cfg) @ ''/'' @ namespace @ ''/'' @ name);
          db_name = py_replace ''-'' ''_'' name;
          postgresql = (''postgresql'' \<in> set (sp_services params));
          env_vars = (if postgresql
                      then dict_set ''DATABASE_URL'' (database_url name ''appuser'' token db_name) (sp_env params)
                      else sp_env params)
      in yaml_dump y (JObj (
        [(''app'', JObj [(''name'', JStr name), (''port'', JNum (sp_port params)),
            (''owner'', JStr (if truthy_str gitlab_group_path then the gitlab_group_path else ''unknown'')),
            (''groupId'', JStr (if truthy_id gitlab_group_id then string_of_int (the gitlab_group_id) else ''''))]),
         (''image'', JObj [(''repository'', JStr image_repo), (''tag'', JStr (sp_image_tag params)),
            (''pullPolicy'', JStr ''IfNotPresent'')]),
         (''replicas'', JNum (sp_replicas params)),
         (''env'', JObj (map (\<lambda>(k, v). (k, JStr v)) env_vars)),
         (''resources'', JObj [(''requests'', JObj [(''cpu'', JStr ''100m''), (''memory'', JStr ''128Mi'')]),
            (''limits'', JObj [(''cpu'', JStr ''500m''), (''memory'', JStr ''256Mi'')])]),
         (''ingress'', JObj [(''enabled'', JBool False), (''className'', JStr ''''), (''host'', JStr ''''), (''tls'', JBool False)])]
        @ (if postgresql
           then [(''postgresql'', JObj [(''enabled'', JBool True), (''image'', JObj [(''tag'', JStr ''16'')]),
                   (''auth'', JObj [(''username'', JStr ''appuser''), (''password'', JStr token), (''database'', JStr db_name)]),
                   (''primary'', JObj [(''persistence'', JObj [(''size'', JStr (sp_pg_size params))])])])]
           else []))))"

definition build_chart_yaml :: "yaml_lib \<Rightarrow> string \<Rightarrow> string" where
  "build_chart_yaml y name =
     yaml_dump y (JObj [(''apiVersion'', JStr ''v2''), (''name'', JStr name),
       (''description'', JStr (''Helm chart for '' @ name @ '' (generated by CNP scaffolding)'')),
       (''type'', JStr ''application''), (''version'', JStr ''0.1.0''), (''appVersion'', JStr ''0.1.0'')])"

section \<open>Build files\<close>

definition APP_PORT :: int where "APP_PORT = 8000"

definition CHART_TEMPLATES :: "(string \<times> string) list" where
  "CHART_TEMPLATES = [(''python'', ''python-fastapi''), (''nodejs'', ''node-express''), (''go'', ''go'')]"

definition DEFAULT_CHART_TEMPLATE :: string where
  "DEFAULT_CHART_TEMPLATE = ''python-fastapi''"

definition GENERATED_CHART_FILES :: "string list" where
  "GENERATED_CHART_FILES = [''chart/values.yaml'', ''chart/Chart.yaml'']"

definition PYTHON_ENTRYPOINTS :: "string list" where
  "PYTHON_ENTRYPOINTS = [''main.py'', ''app.py'', ''src/main.py'', ''src/app.py'', ''app/main.py'']"

text \<open>
  \<open>_APP_OBJECT_RE\<close>, tried at the start of every line. No alternative of the expression can start
  where another one does, so the match is the one of this left-to-right reading.
\<close>

definition match_constructor :: "string \<Rightarrow> string option" where
  "match_constructor s =
     (if prefix ''FastAPI('' s then Some ''FastAPI''
      else if prefix ''Flask('' s then Some ''Flask'' else None)"

definition match_call :: "string \<Rightarrow> string option" where
  "match_call s =
     (let rest = dropWhile is_word_char s in
      if rest \<noteq> s \<and> rest \<noteq> [] \<and> hd rest = CHR ''.'' then match_constructor (tl rest)
      else match_constructor s)"

definition match_app_object :: "string \<Rightarrow> (string \<times> string) option" where
  "match_app_object s =
     (let variable = takeWhile is_word_char s;
          rest = dropWhile py_isspace (dropWhile is_word_char s)
      in if variable = [] \<or> rest = [] \<or> hd rest \<noteq> CHR ''='' then None
         else map_option (\<lambda>kind. (variable, kind)) (match_call (dropWhile py_isspace (tl rest))))"

fun search_lines :: "bool \<Rightarrow> string \<Rightarrow> (string \<times> string) option" where
  "search_lines at_start [] = None"
| "search_lines at_start (c # cs) =
     (case (if at_start then match_app_object (c # cs) else None) of
        Some m \<Rightarrow> Some m
      | None \<Rightarrow> search_lines (c = CHR 0x0A) cs)"

definition search_app_object :: "string \<Rightarrow> (string \<times> string) option" where
  "search_app_object source = search_lines True source"

definition first_component :: "string \<Rightarrow> string" where
  "first_component path = fst (partition_at (CHR ''/'') path)"

fun find_python_app_in ::
  "'g gitlab_api \<Rightarrow> string \<Rightarrow> string \<Rightarrow> string list \<Rightarrow> string list \<Rightarrow> ('g, (string \<times> string \<times> string) option) prog" where
  "find_python_app_in gl project_path git_ref root [] = ret None"
| "find_python_app_in gl project_path git_ref root (path # paths) =
     (if first_component path \<notin> set root then find_python_app_in gl project_path git_ref root paths
      else
        bnd (try_except (bnd (read_file gl project_path path git_ref) (\<lambda>source. ret (search_app_object source)))
               (\<lambda>_. ret None)) (\<lambda>found.
          case found of
            None \<Rightarrow> find_python_app_in gl project_path git_ref root paths
          | Some (variable, kind) \<Rightarrow> ret (Some (py_replace ''/'' ''.'' (removesuffix ''.py'' path), variable, kind))))"

definition find_python_app ::
  "'g gitlab_api \<Rightarrow> string \<Rightarrow> string \<Rightarrow> string list \<Rightarrow> ('g, (string \<times> string \<times> string) option) prog" where
  "find_python_app gl project_path git_ref root = find_python_app_in gl project_path git_ref root PYTHON_ENTRYPOINTS"

definition quoted :: "string \<Rightarrow> string" where
  "quoted s = dq @ s @ dq"

definition install_lines :: "string list \<Rightarrow> string list" where
  "install_lines root =
     (if ''requirements.txt'' \<in> set root then
        [''COPY requirements.txt .'', ''RUN pip install --no-cache-dir -r requirements.txt'', ''COPY . .'']
      else if ''pyproject.toml'' \<in> set root \<or> ''setup.py'' \<in> set root then
        [''COPY . .'', ''RUN pip install --no-cache-dir .'']
      else if ''Pipfile'' \<in> set root then
        [''COPY . .'', ''RUN pip install --no-cache-dir pipenv && pipenv install --system''
           @ (if ''Pipfile.lock'' \<in> set root then '' --deploy'' else '''')]
      else [''COPY . .''])"

definition python_dockerfile ::
  "'g gitlab_api \<Rightarrow> string \<Rightarrow> string \<Rightarrow> string list \<Rightarrow> ('g, string option) prog" where
  "python_dockerfile gl project_path git_ref root =
     bnd (find_python_app gl project_path git_ref root) (\<lambda>entrypoint.
       case entrypoint of
         None \<Rightarrow> ret None
       | Some (module, variable, kind) \<Rightarrow>
           (let target = module @ '':'' @ variable;
                server = (if kind = ''FastAPI'' then ''RUN pip install --no-cache-dir uvicorn''
                          else ''RUN pip install --no-cache-dir gunicorn'');
                cmd = (if kind = ''FastAPI''
                       then ''CMD ['' @ quoted ''uvicorn'' @ '', '' @ quoted target @ '', '' @ quoted ''--host'' @ '', ''
                              @ quoted ''0.0.0.0'' @ '', '' @ quoted ''--port'' @ '', '' @ quoted (string_of_int APP_PORT) @ '']''
                       else ''CMD ['' @ quoted ''gunicorn'' @ '', '' @ quoted ''--bind'' @ '', ''
                              @ quoted (''0.0.0.0:'' @ string_of_int APP_PORT) @ '', '' @ quoted target @ '']'')
            in ret (Some (py_join nl (
                 [''# Generated by CNP '' @ em_dash @ '' review before merging.'', ''FROM python:3.12-slim'', '''',
                  ''ENV PYTHONDONTWRITEBYTECODE=1 '' @ [CHR 0x5C], ''    PYTHONUNBUFFERED=1'', '''', ''WORKDIR /app'', '''',
                  server, '''']
                 @ install_lines root
                 @ ['''', ''RUN useradd --create-home appuser && chown -R appuser:appuser /app'', ''USER appuser'', '''',
                    ''EXPOSE '' @ string_of_int APP_PORT, '''', cmd]) @ nl))))"

definition skeleton_dockerfile :: "string \<Rightarrow> string" where
  "skeleton_dockerfile framework =
     py_join nl
       [''# Generated by CNP '' @ em_dash @ '' TODO: CNP could not infer how to build/start this app ('' @ framework @ '').'',
        ''# The build fails on purpose until the RUN line below is replaced. Listen on 0.0.0.0:'' @ string_of_int APP_PORT @ ''.'',
        ''FROM debian:bookworm-slim'', '''', ''WORKDIR /app'', '''', ''COPY . .'', '''',
        ''# TODO: replace this line with your build steps.'',
        ''RUN echo '' @ quoted (''CNP: this Dockerfile is a skeleton '' @ em_dash
           @ '' add build steps and a CMD, then remove this line.'') @ '' >&2 && exit 1'', '''',
        ''EXPOSE '' @ string_of_int APP_PORT, '''', ''# TODO: set the start command.'',
        ''CMD ['' @ quoted ''false'' @ '']''] @ nl"

definition is_chart_file :: "tree_item \<Rightarrow> bool" where
  "is_chart_file item \<longleftrightarrow> ti_type item = ''blob'' \<and> prefix ''chart/'' (ti_path item) \<and> ti_path item \<notin> set GENERATED_CHART_FILES"

text \<open>\<open>files[path] = read_file(...)\<close> for each file of the template: a dict in insertion order.\<close>

fun read_files :: "'g gitlab_api \<Rightarrow> string \<Rightarrow> string list \<Rightarrow> dict \<Rightarrow> ('g, dict) prog" where
  "read_files gl template_path [] files = ret files"
| "read_files gl template_path (path # paths) files =
     bnd (read_file gl template_path path ''main'') (\<lambda>content.
       read_files gl template_path paths (dict_set path content files))"

definition chart_values :: "ci_settings \<Rightarrow> yaml_lib \<Rightarrow> string \<Rightarrow> string \<Rightarrow> string \<Rightarrow> exc + string" where
  "chart_values cfg y project_path slug owner =
     (let params = default_params\<lparr>sp_port := APP_PORT, sp_image_repository :=
            Some (rstrip (\<lambda>c. c = CHR ''/'') (GITLAB_REGISTRY_URL cfg) @ ''/'' @ py_lower project_path)\<rparr>
      in bnd_result (yaml_load y (build_values_yaml cfg y '''' slug '''' params None (Some owner))) (\<lambda>values.
           case values of
             JObj kvs \<Rightarrow> Inr (yaml_dump y (JObj (dict_set ''probes'' (JObj [(''type'', JStr ''tcp'')]) kvs)))
           | _ \<Rightarrow> Inl TypeError))"

definition chart_files ::
  "'g gitlab_api \<Rightarrow> ci_settings \<Rightarrow> yaml_lib \<Rightarrow> string \<Rightarrow> string \<Rightarrow> string \<Rightarrow> string \<Rightarrow> ('g, dict) prog" where
  "chart_files gl cfg y project_path slug framework owner =
     (if GITLAB_TEMPLATES_NAMESPACE cfg = [] then raise_exc (RuntimeError ''GITLAB_TEMPLATES_NAMESPACE is not configured'')
      else
        (let template = (case map_of CHART_TEMPLATES framework of None \<Rightarrow> DEFAULT_CHART_TEMPLATE | Some t \<Rightarrow> t);
             template_path = GITLAB_TEMPLATES_NAMESPACE cfg @ ''/'' @ template
         in bnd (list_tree_recursive gl template_path ''main'') (\<lambda>items.
            bnd (read_files gl template_path (map ti_path (filter is_chart_file items)) []) (\<lambda>files.
            bnd (lift_result (chart_values cfg y project_path slug owner)) (\<lambda>values.
              ret (dict_set ''chart/Chart.yaml'' (build_chart_yaml y slug) (dict_set ''chart/values.yaml'' values files)))))))"

definition generate_missing_build_files ::
  "'g gitlab_api \<Rightarrow> ci_settings \<Rightarrow> yaml_lib \<Rightarrow> string \<Rightarrow> string \<Rightarrow> string \<Rightarrow> string \<Rightarrow> string \<Rightarrow> ('g, dict) prog" where
  "generate_missing_build_files gl cfg y project_path slug framework owner git_ref =
     (let framework = resolve_framework framework in
      bnd (list_tree gl project_path '''' git_ref) (\<lambda>items.
      (let root = map ti_name items in
       bnd (if ''Dockerfile'' \<in> set root then ret []
            else bnd (if framework = ''python'' then python_dockerfile gl project_path git_ref root else ret None) (\<lambda>dockerfile.
                   ret [(''Dockerfile'', case dockerfile of None \<Rightarrow> skeleton_dockerfile framework | Some d \<Rightarrow> d)])) (\<lambda>files.
       bnd (if ''chart'' \<in> set root then ret [] else chart_files gl cfg y project_path slug framework owner) (\<lambda>chart.
         ret (fold (\<lambda>(k, v). dict_set k v) chart files))))))"

section \<open>The injection\<close>

record injection =
  inj_app_id :: int
  inj_app_slug :: string
  inj_repo_url :: string
  inj_origin :: string
  inj_framework :: string
  inj_owner :: string
  inj_webhook_url :: string
  inj_cluster_name :: string

text \<open>\<open>ts\<close> is the instant of the call, as \<open>YYYYMMDDHHMMSS\<close>; \<open>ip_ok\<close> parameterises the URL parser.\<close>

definition injection_branch :: "string \<Rightarrow> string" where
  "injection_branch ts = ''cnp/inject-ci-'' @ ts"

definition push_pipeline :: "'g gitlab_api \<Rightarrow> string \<Rightarrow> string \<Rightarrow> ('g, unit) prog" where
  "push_pipeline gl project_path content =
     bnd (file_exists gl project_path ''.gitlab-ci.yml'' ''main'') (\<lambda>found.
       if found then raise_exc (RuntimeError ''.gitlab-ci.yml already exists on main'')
       else push_file gl project_path ''.gitlab-ci.yml'' content ''main'')"

definition propose_pipeline ::
  "'g gitlab_projects \<Rightarrow> ci_settings \<Rightarrow> yaml_lib \<Rightarrow> string \<Rightarrow> injection \<Rightarrow> string \<Rightarrow> string \<Rightarrow> ('g, unit) prog" where
  "propose_pipeline gl cfg y ts req project_path content =
     bnd (get_default_branch gl project_path) (\<lambda>default_branch.
     bnd (try_except
            (generate_missing_build_files (repos gl) cfg y project_path (inj_app_slug req) (inj_framework req)
               (inj_owner req) default_branch)
            (\<lambda>_. ret [])) (\<lambda>build_files.
     bnd (create_branch (repos gl) project_path (injection_branch ts) default_branch) (\<lambda>_.
     bnd (push_multiple_files (repos gl) project_path (injection_branch ts)
            (\<lparr>ca_kind = UPSERT, ca_path = ''.gitlab-ci.yml'', ca_content = Some content\<rparr>
             # map (\<lambda>(path, c). \<lparr>ca_kind = CREATE, ca_path = path, ca_content = Some c\<rparr>) build_files)) (\<lambda>_.
       create_mr gl project_path (injection_branch ts) default_branch))))"

definition inject_ci :: "'g gitlab_projects \<Rightarrow> ci_settings \<Rightarrow> yaml_lib \<Rightarrow> (string \<Rightarrow> bool) \<Rightarrow> string \<Rightarrow> injection \<Rightarrow> ('g, unit) prog" where
  "inject_ci gl cfg y ip_ok ts req =
     bnd (lift_result (extract_project_path ip_ok (inj_repo_url req))) (\<lambda>project_path.
     bnd (lift_result (generate_gitlab_ci cfg (inj_app_slug req) (inj_app_id req) (inj_framework req) (inj_owner req)
            (inj_cluster_name req))) (\<lambda>content.
     bnd (if inj_origin req = ''scaffolded'' then push_pipeline (repos gl) project_path content
          else propose_pipeline gl cfg y ts req project_path content) (\<lambda>_.
       if inj_webhook_url req = [] then ret ()
       else best_effort (register_webhook (repos gl) project_path (inj_webhook_url req)))))"

section \<open>What an injection may change\<close>

text \<open>Only additions to the injection branch, apart from the pipeline file itself.\<close>

definition only_adds :: "(string \<Rightarrow> string \<Rightarrow> string option) \<Rightarrow> string \<Rightarrow> (string \<Rightarrow> string \<Rightarrow> string option) \<Rightarrow> bool" where
  "only_adds old ib new \<longleftrightarrow>
     (\<forall>b. b \<noteq> ib \<longrightarrow> new b = old b)
   \<and> (\<forall>f c. f \<noteq> ''.gitlab-ci.yml'' \<longrightarrow> old ib f = Some c \<longrightarrow> new ib f = Some c)"

definition only_file :: "(string \<Rightarrow> string \<Rightarrow> string option) \<Rightarrow> string \<Rightarrow> string \<Rightarrow> (string \<Rightarrow> string \<Rightarrow> string option) \<Rightarrow> bool" where
  "only_file old b f new \<longleftrightarrow> (\<forall>c h. (c, h) \<noteq> (b, f) \<longrightarrow> new c h = old c h)"

text \<open>
  The branches of the project \<open>p\<close>, a branch that does not exist being empty: reads change nothing; a
  branch is only created where there is none; a commit applies actions that fit the branch, and a
  refused operation changes nothing.
\<close>

locale branched_repo =
  fixes gl :: "'g gitlab_projects"
    and p :: string
    and branches :: "'g \<Rightarrow> string \<Rightarrow> string \<Rightarrow> string option"
  assumes project_same: "branches (snd (project_get (repos gl) q g)) = branches g"
    and default_same: "branches (snd (default_branch_of gl q g)) = branches g"
    and get_same: "branches (snd (files_get (repos gl) q f b g)) = branches g"
    and raw_same: "branches (snd (files_raw (repos gl) q f b g)) = branches g"
    and tree_same: "branches (snd (repository_tree (repos gl) q dir b all g)) = branches g"
    and hooks_same: "branches (snd (hooks_list (repos gl) q g)) = branches g"
    and hook_same: "branches (snd (hooks_create (repos gl) q u v g)) = branches g"
    and mr_same: "branches (snd (mergerequests_create gl q b c g)) = branches g"
    and save_one: "branches (snd (files_save (repos gl) p f b c g)) \<in> {branches g, (branches g)(b := (branches g b)(f \<mapsto> c))}"
    and create_one: "branches (snd (files_create (repos gl) p f b c g)) \<in> {branches g, (branches g)(b := (branches g b)(f \<mapsto> c))}"
    and branch_new: "branches (snd (branches_create (repos gl) p b src g)) = branches g
          \<or> branches g b = Map.empty \<and> branches (snd (branches_create (repos gl) p b src g)) = (branches g)(b := branches g src)"
    and commit_fits: "branches (snd (commits_create (repos gl) p b acts g)) = branches g
          \<or> list_all (fits (branches g b)) acts
            \<and> branches (snd (commits_create (repos gl) p b acts g)) = (branches g)(b := commits acts (branches g b))"
begin

lemma keeps_same: "(\<And>g. branches (snd (m g)) = branches g) \<Longrightarrow> (\<And>g g'. branches g = branches g' \<Longrightarrow> P g = P g') \<Longrightarrow> keeps P m"
  by (rule keepsI) blast

definition branch_pred :: "((string \<Rightarrow> string \<Rightarrow> string option) \<Rightarrow> bool) \<Rightarrow> 'g \<Rightarrow> bool" where
  "branch_pred Q g \<longleftrightarrow> Q (branches g)"

lemma keeps_reads:
  "keeps (branch_pred Q) (project_get (repos gl) q)" "keeps (branch_pred Q) (default_branch_of gl q)"
  "keeps (branch_pred Q) (files_get (repos gl) q f b)" "keeps (branch_pred Q) (files_raw (repos gl) q f b)"
  "keeps (branch_pred Q) (repository_tree (repos gl) q dir b all)" "keeps (branch_pred Q) (hooks_list (repos gl) q)"
  "keeps (branch_pred Q) (hooks_create (repos gl) q u v)" "keeps (branch_pred Q) (mergerequests_create gl q b c)"
  by (rule keeps_same; simp add: branch_pred_def project_same default_same get_same raw_same tree_same hooks_same
      hook_same mr_same)+

lemma keeps_client_reads:
  "keeps (branch_pred Q) (get_project (repos gl) q)" "keeps (branch_pred Q) (read_file (repos gl) q f b)"
  "keeps (branch_pred Q) (list_tree (repos gl) q dir b)" "keeps (branch_pred Q) (list_tree_recursive (repos gl) q b)"
  "keeps (branch_pred Q) (file_exists (repos gl) q f b)" "keeps (branch_pred Q) (get_default_branch gl q)"
  "keeps (branch_pred Q) (create_mr gl q b c)" "keeps (branch_pred Q) (register_webhook (repos gl) q u)"
  unfolding get_project_def read_file_def list_tree_def list_tree_recursive_def file_exists_def get_default_branch_def
    create_mr_def register_webhook_def
  by (intro keeps_intros keeps_reads)+

lemma keeps_find_python_app: "keeps (branch_pred Q) (find_python_app_in (repos gl) q r root paths)"
  by (induction paths) (auto intro!: keeps_intros keeps_client_reads split: option.split prod.split)

lemma keeps_python_dockerfile: "keeps (branch_pred Q) (python_dockerfile (repos gl) q r root)"
  unfolding python_dockerfile_def find_python_app_def Let_def
  by (auto intro!: keeps_intros keeps_find_python_app split: option.split prod.split)

lemma keeps_read_files: "keeps (branch_pred Q) (read_files (repos gl) q paths files)"
  by (induction paths arbitrary: files) (auto intro!: keeps_intros keeps_client_reads)

lemma keeps_chart_files: "keeps (branch_pred Q) (chart_files (repos gl) cfg y q slug fw owner)"
  unfolding chart_files_def Let_def by (intro keeps_intros keeps_client_reads keeps_read_files)

lemma keeps_build_files: "keeps (branch_pred Q) (generate_missing_build_files (repos gl) cfg y q slug fw owner r)"
  unfolding generate_missing_build_files_def Let_def
  by (intro keeps_intros keeps_client_reads keeps_python_dockerfile keeps_chart_files)

lemma keeps_create_branch: "keeps (branch_pred (only_adds old ib)) (create_branch (repos gl) p ib src)"
proof -
  have "keeps (branch_pred (only_adds old ib)) (branches_create (repos gl) p ib src)"
  proof (rule keepsI)
    fix g assume "branch_pred (only_adds old ib) g"
    then show "branch_pred (only_adds old ib) (snd (branches_create (repos gl) p ib src g))"
      using branch_new[of ib src g] by (auto simp: branch_pred_def only_adds_def)
  qed
  then show ?thesis unfolding create_branch_def by (intro keeps_intros keeps_client_reads)
qed

lemma commits_keep:
  assumes "list_all (fits t) acts" and "\<forall>a \<in> set acts. ca_path a = ci \<or> ca_kind a = CREATE" and "f \<noteq> ci" and "t f = Some c"
  shows "commits acts t f = Some c"
proof (cases "find (\<lambda>a. ca_path a = f) acts")
  case (Some a)
  then have a: "a \<in> set acts" "ca_path a = f" by (auto dest: find_cong_prop)
  with assms(2,3) have "ca_kind a = CREATE" by auto
  with a assms(1,4) have False by (auto simp: list_all_iff fits_def)
  then show ?thesis ..
qed (simp add: commits_def assms(4))

lemma keeps_push_multiple:
  assumes acts: "\<forall>a \<in> set acts. ca_kind a = UPSERT \<and> ca_path a = ''.gitlab-ci.yml'' \<or> ca_kind a = CREATE"
  shows "keeps (branch_pred (only_adds old ib)) (push_multiple_files (repos gl) p ib acts)"
  unfolding push_multiple_files_def
proof (rule keeps_bnd, rule keeps_client_reads, rule keeps_bnd_value)
  show "keeps (branch_pred (only_adds old ib)) (map_prog (resolve_action (repos gl) p ib) acts)"
    unfolding resolve_action_def by (intro keeps_intros keeps_client_reads)
next
  fix resolved g g'
  assume r: "map_prog (resolve_action (repos gl) p ib) acts g = (Inr resolved, g')"
  have res: "\<forall>a \<in> set resolved. ca_path a = ''.gitlab-ci.yml'' \<or> ca_kind a = CREATE"
  proof (rule map_prog_all[OF r])
    fix a s a' s' assume a: "a \<in> set acts" "resolve_action (repos gl) p ib a s = (Inr a', s')"
    with acts show "ca_path a' = ''.gitlab-ci.yml'' \<or> ca_kind a' = CREATE"
      by (auto simp: resolve_action_def prog_simps split: if_splits prod.splits sum.splits)
  qed
  show "keeps (branch_pred (only_adds old ib)) (commits_create (repos gl) p ib resolved)"
  proof (rule keepsI)
    fix h assume h: "branch_pred (only_adds old ib) h"
    from commit_fits[of ib resolved h] show "branch_pred (only_adds old ib) (snd (commits_create (repos gl) p ib resolved h))"
    proof
      assume "branches (snd (commits_create (repos gl) p ib resolved h)) = branches h"
      with h show ?thesis by (simp add: branch_pred_def)
    next
      assume c: "list_all (fits (branches h ib)) resolved
        \<and> branches (snd (commits_create (repos gl) p ib resolved h)) = (branches h)(ib := commits resolved (branches h ib))"
      with h commits_keep[OF conjunct1[OF c] res] show ?thesis
        by (simp add: branch_pred_def only_adds_def)
    qed
  qed
qed

lemma keeps_propose_pipeline:
  "keeps (branch_pred (only_adds old (injection_branch ts))) (propose_pipeline gl cfg y ts req p content)"
  unfolding propose_pipeline_def
  by (intro keeps_intros keeps_client_reads keeps_build_files keeps_create_branch keeps_push_multiple) auto

lemma keeps_push_file: "keeps (branch_pred (only_file old b f)) (push_file (repos gl) p f c b)"
proof -
  have "keeps (branch_pred (only_file old b f)) (files_save (repos gl) p f b c)"
  proof (rule keepsI)
    fix g assume "branch_pred (only_file old b f) g"
    then show "branch_pred (only_file old b f) (snd (files_save (repos gl) p f b c g))"
      using save_one[of f b c g] by (auto simp: branch_pred_def only_file_def)
  qed
  moreover have "keeps (branch_pred (only_file old b f)) (files_create (repos gl) p f b c)"
  proof (rule keepsI)
    fix g assume "branch_pred (only_file old b f) g"
    then show "branch_pred (only_file old b f) (snd (files_create (repos gl) p f b c g))"
      using create_one[of f b c g] by (auto simp: branch_pred_def only_file_def)
  qed
  ultimately show ?thesis unfolding push_file_def by (intro keeps_intros keeps_client_reads keeps_reads)
qed

lemma keeps_push_pipeline: "keeps (branch_pred (only_file old ''main'' ''.gitlab-ci.yml'')) (push_pipeline (repos gl) p c)"
  unfolding push_pipeline_def by (intro keeps_intros keeps_client_reads keeps_push_file)

lemma injection_effect:
  assumes "extract_project_path ip_ok (inj_repo_url req) = Inr p" and "inject_ci gl cfg y ip_ok ts req g = (r, g')"
  shows "if inj_origin req = ''scaffolded'' then only_file (branches g) ''main'' ''.gitlab-ci.yml'' (branches g')
    else only_adds (branches g) (injection_branch ts) (branches g')"
proof -
  let ?P = "branch_pred (if inj_origin req = ''scaffolded'' then only_file (branches g) ''main'' ''.gitlab-ci.yml''
      else only_adds (branches g) (injection_branch ts))"
  have push: "keeps ?P (if inj_origin req = ''scaffolded'' then push_pipeline (repos gl) p content
      else propose_pipeline gl cfg y ts req p content)" for content
    using keeps_push_pipeline keeps_propose_pipeline by simp
  have kept: "keeps ?P (inject_ci gl cfg y ip_ok ts req)"
    unfolding inject_ci_def assms(1) lift_Inr bnd_ret
    by (rule keeps_bnd[OF keeps_lift], rule keeps_bnd[OF push], rule keeps_if, rule keeps_ret, rule keeps_best_effort,
        rule keeps_client_reads)
  have "?P g" by (simp add: branch_pred_def only_file_def only_adds_def)
  then have "?P g'" by (rule keepsD'[OF kept assms(2)])
  then show ?thesis by (simp add: branch_pred_def split: if_splits)
qed

end

section \<open>The values of the pipeline stay inside their scalars\<close>

text \<open>How YAML reads the rest of a double-quoted scalar: up to the closing quote, with these escapes.\<close>

fun read_scalar :: "string \<Rightarrow> (string \<times> string) option" where
  "read_scalar [] = None"
| "read_scalar (c # cs) =
     (if c = CHR 0x22 then Some ([], cs)
      else if c = CHR 0x0A \<or> c = CHR 0x0D then None
      else if c = CHR 0x5C then
        (case cs of
           [] \<Rightarrow> None
         | e # rest \<Rightarrow>
             (case map_of [(CHR 0x5C, CHR 0x5C), (CHR 0x22, CHR 0x22), (CHR ''n'', CHR 0x0A), (CHR ''r'', CHR 0x0D)] e of
                None \<Rightarrow> None
              | Some x \<Rightarrow> map_option (\<lambda>(s, t). (x # s, t)) (read_scalar rest)))
      else map_option (\<lambda>(s, t). (c # s, t)) (read_scalar cs))"

definition escaped :: "char \<Rightarrow> string" where
  "escaped c =
     (if c = CHR 0x5C then [CHR 0x5C, CHR 0x5C]
      else if c = CHR 0x22 then [CHR 0x5C, CHR 0x22]
      else if c = CHR 0x0A then [CHR 0x5C, CHR ''n'']
      else if c = CHR 0x0D then [CHR 0x5C, CHR ''r''] else [c])"

lemma py_replace_char: "py_replace [x] new s = concat (map (\<lambda>c. if c = x then new else [c]) s)"
  by (induction s) auto

lemma yaml_escape_chars: "yaml_escape s = concat (map escaped s)"
  by (induction s) (auto simp: yaml_escape_def py_replace_char escaped_def nl_def dq_def)

lemma read_escaped: "read_scalar (escaped c @ rest) = map_option (\<lambda>(s, t). (c # s, t)) (read_scalar rest)"
  by (simp add: escaped_def)


section \<open>GitLab in memory\<close>

text \<open>
  Projects with their branches as association lists, and one group \<open>apps\<close>: an instance on which the
  contract holds and the examples run.
\<close>

type_synonym hosting = "(string \<times> (string \<times> dict) list) list"

definition files_on :: "hosting \<Rightarrow> string \<Rightarrow> string \<Rightarrow> dict option" where
  "files_on g q b = (case map_of g q of None \<Rightarrow> None | Some bs \<Rightarrow> map_of bs b)"

definition put_files :: "string \<Rightarrow> string \<Rightarrow> dict \<Rightarrow> hosting \<Rightarrow> hosting" where
  "put_files q b files g = (case map_of g q of None \<Rightarrow> g | Some bs \<Rightarrow> dict_set q (dict_set b files bs) g)"

definition ref_info :: "string \<Rightarrow> project_info" where
  "ref_info q = \<lparr>pi_id = 1, pi_path = q, pi_web_url = ''https://gitlab.example/'' @ q\<rparr>"

definition ref_repos :: "hosting gitlab_api" where
  "ref_repos =
     \<lparr>project_get = (\<lambda>q g. (if map_of g q = None then Inl GitlabGetError else Inr (), g)),
      files_get = (\<lambda>q f b g. (case files_on g q b of None \<Rightarrow> Inl GitlabGetError
         | Some fs \<Rightarrow> if map_of fs f = None then Inl GitlabGetError else Inr (), g)),
      files_raw = (\<lambda>q f b g. (case files_on g q b of None \<Rightarrow> Inl GitlabGetError
         | Some fs \<Rightarrow> (case map_of fs f of None \<Rightarrow> Inl GitlabGetError | Some c \<Rightarrow> Inr c), g)),
      files_save = (\<lambda>q f b c g. (case files_on g q b of None \<Rightarrow> (Inl GitlabGetError, g)
         | Some fs \<Rightarrow> (Inr (), put_files q b (dict_set f c fs) g))),
      files_create = (\<lambda>q f b c g. (case files_on g q b of None \<Rightarrow> (Inl GitlabCreateError, g)
         | Some fs \<Rightarrow> if map_of fs f \<noteq> None then (Inl GitlabCreateError, g) else (Inr (), put_files q b (dict_set f c fs) g))),
      repository_tree = (\<lambda>q dir b all g. (case files_on g q b of None \<Rightarrow> Inl GitlabGetError
         | Some fs \<Rightarrow> Inr (map (\<lambda>f. \<lparr>ti_name = first_component f, ti_type = ''blob'', ti_path = f\<rparr>)
                       (filter (\<lambda>f. dir = '''' \<or> prefix (dir @ ''/'') f) (map fst fs))), g)),
      commits_create = (\<lambda>q b acts g.
         let fs = (case files_on g q b of None \<Rightarrow> [] | Some fs \<Rightarrow> fs) in
         if map_of g q \<noteq> None \<and> distinct (map ca_path acts) \<and> list_all (fits (map_of fs)) acts
         then (Inr (), put_files q b (fold ref_commit acts fs) g) else (Inl GitlabCreateError, g)),
      branches_create = (\<lambda>q b src g. (case files_on g q src of None \<Rightarrow> (Inl GitlabCreateError, g)
         | Some fs \<Rightarrow> if files_on g q b \<noteq> None then (Inl GitlabCreateError, g) else (Inr (), put_files q b fs g))),
      hooks_list = (\<lambda>_. ret []),
      hooks_create = (\<lambda>_ _ _. ret ())\<rparr>"

definition ref_projects :: "hosting gitlab_projects" where
  "ref_projects =
     \<lparr>repos = ref_repos,
      default_branch_of = (\<lambda>q g. (if map_of g q = None then Inl GitlabGetError else Inr (Some ''main''), g)),
      mergerequests_create = (\<lambda>_ _ _. ret ()),
      project_info_of = (\<lambda>q g. (if map_of g q = None then Inl GitlabGetError else Inr (ref_info q), g)),
      projects_create = (\<lambda>_ path _ _ g.
         let q = ''apps/'' @ path in
         if map_of g q \<noteq> None then (Inl GitlabCreateError, g) else (Inr (ref_info q), g @ [(q, [])])),
      project_delete = (\<lambda>q g. (Inr (), dict_pop q g)),
      groups_get = (\<lambda>path g. (if path = ''apps'' then Inr 1 else Inl GitlabGetError, g)),
      namespaces_search = (\<lambda>_. ret []),
      import_status = (\<lambda>_. raise_exc GitlabGetError),
      project_by_id = (\<lambda>_. ret ()),
      members_create = (\<lambda>_ _ _. ret ()),
      members_get = (\<lambda>_ _. ret ()),
      members_save = (\<lambda>_ _ _. ret ()),
      invitations_create = (\<lambda>_ _ _. ret ())\<rparr>"

definition ref_branches :: "string \<Rightarrow> hosting \<Rightarrow> string \<Rightarrow> string \<Rightarrow> string option" where
  "ref_branches q g b = (case files_on g q b of None \<Rightarrow> Map.empty | Some fs \<Rightarrow> map_of fs)"

lemma files_on_put: "map_of g q \<noteq> None \<Longrightarrow> files_on (put_files q b fs g) q c = (if c = b then Some fs else files_on g q c)"
  by (auto simp: files_on_def put_files_def split: option.split)

lemma ref_branches_put: "map_of g q \<noteq> None \<Longrightarrow> ref_branches q (put_files q b fs g) = (ref_branches q g)(b := map_of fs)"
  by (auto simp: ref_branches_def files_on_put fun_eq_iff)

lemma files_on_project: "files_on g q b = Some fs \<Longrightarrow> map_of g q \<noteq> None"
  by (auto simp: files_on_def split: option.splits)

interpretation ref_branched: branched_repo ref_projects q "ref_branches q" for q
proof
  fix f b c g
  show "ref_branches q (snd (files_save (repos ref_projects) q f b c g))
      \<in> {ref_branches q g, (ref_branches q g)(b := (ref_branches q g b)(f \<mapsto> c))}"
    by (auto simp: ref_projects_def ref_repos_def ref_branches_put files_on_project ref_branches_def[of q g b]
        split: option.split)
  show "ref_branches q (snd (files_create (repos ref_projects) q f b c g))
      \<in> {ref_branches q g, (ref_branches q g)(b := (ref_branches q g b)(f \<mapsto> c))}"
    by (auto simp: ref_projects_def ref_repos_def ref_branches_put files_on_project ref_branches_def[of q g b]
        split: option.split)
next
  fix b src g
  show "ref_branches q (snd (branches_create (repos ref_projects) q b src g)) = ref_branches q g
      \<or> ref_branches q g b = Map.empty
        \<and> ref_branches q (snd (branches_create (repos ref_projects) q b src g)) = (ref_branches q g)(b := ref_branches q g src)"
    by (auto simp: ref_projects_def ref_repos_def ref_branches_put files_on_project ref_branches_def[of q g b]
        ref_branches_def[of q g src] split: option.split)
next
  fix b acts g
  define fs where "fs = (case files_on g q b of None \<Rightarrow> [] | Some fs \<Rightarrow> fs)"
  have fs: "map_of fs = ref_branches q g b" by (auto simp: fs_def ref_branches_def split: option.split)
  have "map_of (fold ref_commit acts fs) = commits acts (map_of fs)" if "distinct (map ca_path acts)"
    using map_of_ref_commits[OF that] by (simp add: fun_eq_iff)
  then show "ref_branches q (snd (commits_create (repos ref_projects) q b acts g)) = ref_branches q g
      \<or> list_all (fits (ref_branches q g b)) acts
        \<and> ref_branches q (snd (commits_create (repos ref_projects) q b acts g)) = (ref_branches q g)(b := commits acts (ref_branches q g b))"
    by (simp add: ref_projects_def ref_repos_def Let_def fs_def[symmetric] ref_branches_put fs)
qed (simp_all add: ref_projects_def ref_repos_def prog_simps)

section \<open>An injection overwrites nothing\<close>

text \<open>
  C30: Whatever GitLab answers, in whatever order it fails: for an application that brings its own
  repository no existing branch changes, and the injection branch keeps every file it has apart from
  the pipeline; for a scaffolded one only the pipeline file of main may change.
\<close>

theorem injection_overwrites_nothing:
  assumes "branched_repo gl p branches" and "extract_project_path ip_ok (inj_repo_url req) = Inr p"
    and "inject_ci gl cfg y ip_ok ts req g = (r, g')"
  shows "if inj_origin req = ''scaffolded''
    then \<forall>b f. (b, f) \<noteq> (''main'', ''.gitlab-ci.yml'') \<longrightarrow> branches g' b f = branches g b f
    else (\<forall>b. b \<noteq> injection_branch ts \<longrightarrow> branches g' b = branches g b)
       \<and> (\<forall>f c. f \<noteq> ''.gitlab-ci.yml'' \<longrightarrow> branches g (injection_branch ts) f = Some c
             \<longrightarrow> branches g' (injection_branch ts) f = Some c)"
  using branched_repo.injection_effect[OF assms]
  by (simp add: only_file_def only_adds_def split: if_splits)

definition demo_ci_settings :: ci_settings where
  "demo_ci_settings = \<lparr>GITLAB_BOT_TOKEN = ''bot'', GITLAB_CI_PROJECT = '''', GITLAB_BOT_NAMESPACE = None, GITLAB_TEMPLATES_NAMESPACE = ''tpl'',
     GITLAB_APPS_NAMESPACE = ''apps'', GITLAB_REGISTRY_URL = ''registry.gitlab.com'',
     GITOPS_REPO_URL = ''https://gitlab.example/cnp/gitops''\<rparr>"

definition demo_injection :: injection where
  "demo_injection = \<lparr>inj_app_id = 7, inj_app_slug = ''shop'', inj_repo_url = ''https://gitlab.example/apps/shop'',
     inj_origin = ''onboarded'', inj_framework = ''python'', inj_owner = ''team'', inj_webhook_url = '''',
     inj_cluster_name = ''aks''\<rparr>"

definition demo_hosting :: hosting where
  "demo_hosting = [(''apps/shop'', [(''main'', [(''Dockerfile'', ''FROM scratch''), (''chart/Chart.yaml'', ''mine'')])])]"

lemma injection_overwrites_nothing_witness:
  "\<exists>g'. inject_ci ref_projects demo_ci_settings ref_yaml (\<lambda>_. False) ''20260101000000'' demo_injection demo_hosting = (Inr (), g')
     \<and> ref_branches ''apps/shop'' g' ''main'' = map_of [(''Dockerfile'', ''FROM scratch''), (''chart/Chart.yaml'', ''mine'')]"
proof -
  have path: "extract_project_path (\<lambda>_. False) (inj_repo_url demo_injection) = Inr ''apps/shop''" by code_simp
  have "fst (inject_ci ref_projects demo_ci_settings ref_yaml (\<lambda>_. False) ''20260101000000'' demo_injection demo_hosting) = Inr ()"
    by code_simp
  then obtain g' where run: "inject_ci ref_projects demo_ci_settings ref_yaml (\<lambda>_. False) ''20260101000000'' demo_injection demo_hosting
      = (Inr (), g')" by (metis prod.collapse)
  have "ref_branches ''apps/shop'' demo_hosting ''main'' = map_of [(''Dockerfile'', ''FROM scratch''), (''chart/Chart.yaml'', ''mine'')]"
    by (simp add: ref_branches_def files_on_def demo_hosting_def)
  moreover have "ref_branches ''apps/shop'' g' ''main'' = ref_branches ''apps/shop'' demo_hosting ''main''"
    using injection_overwrites_nothing[OF ref_branched.branched_repo_axioms path run]
    by (simp add: demo_injection_def injection_branch_def)
  ultimately show ?thesis using run by auto
qed

lemma demo_pipeline_proposed:
  "map_option (map fst) (files_on (snd (inject_ci ref_projects demo_ci_settings ref_yaml (\<lambda>_. False) ''1'' demo_injection demo_hosting))
     ''apps/shop'' (injection_branch ''1'')) = Some [''Dockerfile'', ''chart/Chart.yaml'', ''.gitlab-ci.yml'']"
  by code_simp

end
