(* ===== verification/Scaffolding.thy ===== *)
theory Scaffolding
  imports Ci_Injection
begin

text \<open>
  backend/services/scaffolding_service.py and backend/gitlab/importer.py: a new repository from a
  template, and the import of an external one. Lemmas: what the first commit of a scaffolded
  repository contains, and that the wait for an import ends.
\<close>

section \<open>The files of a new repository\<close>

definition SKIP_FILES :: "string list" where
  "SKIP_FILES = [''chart/values.yaml'', ''chart/Chart.yaml'']"

definition build_ingress_values :: "yaml_lib \<Rightarrow> bool \<Rightarrow> string \<Rightarrow> string" where
  "build_ingress_values y enabled host =
     yaml_dump y (JObj [(''ingress'', JObj [(''enabled'', JBool enabled), (''className'', JStr ''nginx''),
       (''host'', JStr (if enabled then host else '''')), (''tls'', JBool False)])])"

definition postgresql_lines :: "string list" where
  "postgresql_lines =
    [''{{- if .Values.postgresql.enabled }}'',
     ''---'',
     ''apiVersion: v1'',
     ''kind: Secret'',
     ''metadata:'',
     ''  name: {{ include '' @ dq @ ''app.name'' @ dq @ '' . }}-postgresql'',
     ''  labels:'',
     ''    {{- include '' @ dq @ ''app.labels'' @ dq @ '' . | nindent 4 }}'',
     ''type: Opaque'',
     ''stringData:'',
     ''  username: {{ .Values.postgresql.auth.username }}'',
     ''  password: {{ .Values.postgresql.auth.password }}'',
     ''  database: {{ .Values.postgresql.auth.database }}'',
     ''---'',
     ''apiVersion: v1'',
     ''kind: Service'',
     ''metadata:'',
     ''  name: {{ include '' @ dq @ ''app.name'' @ dq @ '' . }}-postgresql'',
     ''  labels:'',
     ''    {{- include '' @ dq @ ''app.labels'' @ dq @ '' . | nindent 4 }}'',
     ''spec:'',
     ''  type: ClusterIP'',
     ''  ports:'',
     ''    - port: 5432'',
     ''      targetPort: 5432'',
     ''      protocol: TCP'',
     ''  selector:'',
     ''    app.kubernetes.io/name: {{ include '' @ dq @ ''app.name'' @ dq @ '' . }}-postgresql'',
     ''---'',
     ''apiVersion: apps/v1'',
     ''kind: StatefulSet'',
     ''metadata:'',
     ''  name: {{ include '' @ dq @ ''app.name'' @ dq @ '' . }}-postgresql'',
     ''  labels:'',
     ''    {{- include '' @ dq @ ''app.labels'' @ dq @ '' . | nindent 4 }}'',
     ''spec:'',
     ''  serviceName: {{ include '' @ dq @ ''app.name'' @ dq @ '' . }}-postgresql'',
     ''  replicas: 1'',
     ''  selector:'',
     ''    matchLabels:'',
     ''      app.kubernetes.io/name: {{ include '' @ dq @ ''app.name'' @ dq @ '' . }}-postgresql'',
     ''  template:'',
     ''    metadata:'',
     ''      labels:'',
     ''        app.kubernetes.io/name: {{ include '' @ dq @ ''app.name'' @ dq @ '' . }}-postgresql'',
     ''        app.kubernetes.io/managed-by: cnp'',
     ''    spec:'',
     ''      containers:'',
     ''        - name: postgresql'',
     ''          image: '' @ dq @ ''docker.io/postgres:{{ .Values.postgresql.image.tag }}'' @ dq @ '''',
     ''          env:'',
     ''            - name: POSTGRES_DB'',
     ''              value: {{ .Values.postgresql.auth.database }}'',
     ''            - name: POSTGRES_USER'',
     ''              value: {{ .Values.postgresql.auth.username }}'',
     ''            - name: POSTGRES_PASSWORD'',
     ''              valueFrom:'',
     ''                secretKeyRef:'',
     ''                  name: {{ include '' @ dq @ ''app.name'' @ dq @ '' . }}-postgresql'',
     ''                  key: password'',
     ''          ports:'',
     ''            - containerPort: 5432'',
     ''          volumeMounts:'',
     ''            - name: data'',
     ''              mountPath: /var/lib/postgresql/data'',
     ''              subPath: pgdata'',
     ''          resources:'',
     ''            requests:'',
     ''              cpu: 100m'',
     ''              memory: 128Mi'',
     ''            limits:'',
     ''              cpu: 500m'',
     ''              memory: 512Mi'',
     ''          readinessProbe:'',
     ''            exec:'',
     ''              command: ['' @ dq @ ''pg_isready'' @ dq @ '', '' @ dq @ ''-U'' @ dq @ '', {{ .Values.postgresql.auth.username | quote }}]'',
     ''            initialDelaySeconds: 10'',
     ''            periodSeconds: 10'',
     ''  volumeClaimTemplates:'',
     ''    - metadata:'',
     ''        name: data'',
     ''      spec:'',
     ''        accessModes: ['' @ dq @ ''ReadWriteOnce'' @ dq @ '']'',
     ''        resources:'',
     ''          requests:'',
     ''            storage: {{ .Values.postgresql.primary.persistence.size }}'',
     ''{{- end }}'']"

definition build_postgresql_yaml :: string where
  "build_postgresql_yaml = concat (map (\<lambda>l. l @ nl) postgresql_lines)"

definition overrides ::
  "ci_settings \<Rightarrow> yaml_lib \<Rightarrow> string \<Rightarrow> string list \<Rightarrow> string \<Rightarrow> string \<Rightarrow> scaffolding_params \<Rightarrow> bool
     \<Rightarrow> int option \<Rightarrow> string option \<Rightarrow> dict" where
  "overrides cfg y token template_paths slug namespace params expose gid gpath =
     [(''chart/values.yaml'', build_values_yaml cfg y token slug namespace params gid gpath),
      (''chart/Chart.yaml'', build_chart_yaml y slug)]
     @ (if ''postgresql'' \<in> set (sp_services params) \<and> ''chart/templates/postgresql.yaml'' \<notin> set template_paths
        then [(''chart/templates/postgresql.yaml'', build_postgresql_yaml)] else [])
     @ (if expose
        then [(''chart/values-dev.yaml'', build_ingress_values y True (app_hostname slug ''dev'')),
              (''chart/values-prod.yaml'', build_ingress_values y True (app_hostname slug ''prod''))]
        else [])"

definition merge_files :: "dict \<Rightarrow> dict \<Rightarrow> dict" where
  "merge_files batch generated = filter (\<lambda>f. fst f \<notin> fst ` set generated) batch @ generated"

section \<open>Scaffolding\<close>

record scaffold_request =
  sr_slug :: string
  sr_template :: string
  sr_params :: "scaffolding_params option"
  sr_target_namespace :: "string option"
  sr_expose :: bool
  sr_group_id :: "int option"
  sr_group_path :: "string option"

text \<open>
  \<open>taken\<close> recognises the exceptions whose text contains \<open>has already been taken\<close>; \<open>token\<close> is the
  random password of the database.
\<close>

record 'g scaffold_env =
  sc_gitlab :: "'g gitlab_projects"
  sc_settings :: ci_settings
  sc_yaml :: yaml_lib
  sc_taken :: "exc \<Rightarrow> bool"
  sc_token :: string

definition bot_namespace :: "ci_settings \<Rightarrow> string" where
  "bot_namespace cfg =
     (if GITLAB_APPS_NAMESPACE cfg \<noteq> [] then GITLAB_APPS_NAMESPACE cfg
      else (case GITLAB_BOT_NAMESPACE cfg of None \<Rightarrow> ''None'' | Some n \<Rightarrow> n) @ ''/cnp-apps'')"

definition or_http :: "nat \<Rightarrow> ('s, 'a) prog \<Rightarrow> ('s, 'a) prog" where
  "or_http code m = try_except m (\<lambda>_. raise_exc (HTTPException code))"

definition create_or_reuse :: "'g scaffold_env \<Rightarrow> string \<Rightarrow> string \<Rightarrow> int \<Rightarrow> ('g, project_info) prog" where
  "create_or_reuse env slug namespace namespace_id =
     try_except (create_project (sc_gitlab env) slug namespace_id)
       (\<lambda>e. if sc_taken env e then or_http 422 (get_project_info (sc_gitlab env) (namespace @ ''/'' @ slug))
            else raise_exc (HTTPException 422))"

definition read_template :: "'g scaffold_env \<Rightarrow> string \<Rightarrow> tree_item list \<Rightarrow> ('g, dict) prog" where
  "read_template env template_path items =
     map_prog (\<lambda>f. bnd (or_http 502 (read_file (repos (sc_gitlab env)) template_path (ti_path f) ''main''))
                     (\<lambda>content. ret (ti_path f, content)))
       (filter (\<lambda>f. ti_type f = ''blob'' \<and> ti_path f \<notin> set SKIP_FILES) items)"

definition scaffold :: "'g scaffold_env \<Rightarrow> scaffold_request \<Rightarrow> ('g, string \<times> string) prog" where
  "scaffold env req =
     (let gl = sc_gitlab env; cfg = sc_settings env;
          template_path = GITLAB_TEMPLATES_NAMESPACE cfg @ ''/'' @ sr_template req;
          namespace = (if truthy_str (sr_target_namespace req) then the (sr_target_namespace req) else bot_namespace cfg);
          params = (case sr_params req of None \<Rightarrow> default_params | Some p \<Rightarrow> p)
      in if GITLAB_TEMPLATES_NAMESPACE cfg = [] \<or> GITLAB_BOT_TOKEN cfg = [] then raise_exc (HTTPException 503)
         else
           bnd (or_http 404 (get_project (repos gl) template_path)) (\<lambda>_.
           bnd (get_namespace_id_for gl namespace) (\<lambda>nid.
           case nid of
             None \<Rightarrow> raise_exc (HTTPException 422)
           | Some namespace_id \<Rightarrow>
               bnd (create_or_reuse env (sr_slug req) namespace namespace_id) (\<lambda>project.
               bnd (or_http 502 (list_tree_recursive (repos gl) template_path ''main'')) (\<lambda>items.
               bnd (read_template env template_path items) (\<lambda>batch.
               bnd (or_http 502 (push_files_batch (repos gl) (pi_path project)
                      (merge_files batch
                        (overrides cfg (sc_yaml env) (sc_token env)
                           (map ti_path (filter (\<lambda>f. ti_type f = ''blob'') items))
                           (sr_slug req) namespace params (sr_expose req) (sr_group_id req) (sr_group_path req)))
                      ''main'')) (\<lambda>_.
                 ret (pi_web_url project, pi_path project))))))))"

definition cleanup_project :: "'g scaffold_env \<Rightarrow> string \<Rightarrow> ('g, unit) prog" where
  "cleanup_project env project_path =
     best_effort (if GITLAB_BOT_TOKEN (sc_settings env) = [] then raise_exc (HTTPException 503)
                  else delete_project (sc_gitlab env) project_path)"

section \<open>Import of an external repository\<close>

definition IMPORT_TIMEOUT :: int where "IMPORT_TIMEOUT = 60"

text \<open>
  \<open>clock n\<close> is the n-th reading of \<open>time.monotonic()\<close>: reading 0 sets the deadline, each later one is the
  test of the loop, after the sleep of the round before. The loop has fuel; \<open>None\<close> means it ran out.
\<close>

fun poll_import ::
  "'g gitlab_projects \<Rightarrow> (nat \<Rightarrow> int) \<Rightarrow> int \<Rightarrow> nat \<Rightarrow> nat \<Rightarrow> ('g, project_info option) prog" where
  "poll_import gl clock pid 0 n = ret None"
| "poll_import gl clock pid (Suc fuel) n =
     (if clock n < clock 0 + IMPORT_TIMEOUT then
        bnd (import_status gl pid) (\<lambda>(project, status).
          if status = ''finished'' then ret (Some project)
          else if status = ''failed'' then raise_exc (RuntimeError ''GitLab import failed'')
          else poll_import gl clock pid fuel (Suc n))
      else raise_exc TimeoutError)"

definition import_external_repo ::
  "'g gitlab_projects \<Rightarrow> (nat \<Rightarrow> int) \<Rightarrow> string \<Rightarrow> string \<Rightarrow> string \<Rightarrow> ('g, project_info option) prog" where
  "import_external_repo gl clock source_url name namespace =
     bnd (try_except (groups_get gl namespace) (\<lambda>_. raise_exc (RuntimeError ''Cannot resolve apps namespace''))) (\<lambda>namespace_id.
     bnd (projects_create gl name (slugify name) namespace_id (Some source_url)) (\<lambda>project.
       poll_import gl clock (pi_id project) 31 1))"

section \<open>What the first commit contains\<close>

lemma overrides_distinct: "distinct (map fst (overrides cfg y token paths slug ns params expose gid gpath))"
  by (auto simp: overrides_def)

lemma map_of_filter_keys: "map_of (filter (\<lambda>f. fst f \<notin> K) xs) k = (if k \<in> K then None else map_of xs k)"
  by (induction xs) auto

lemma merge_files_distinct:
  assumes "distinct (map fst batch)" and "distinct (map fst generated)"
  shows "distinct (map fst (merge_files batch generated))"
proof -
  have "fst ` set (filter (\<lambda>f. fst f \<notin> fst ` set generated) batch) \<inter> fst ` set generated = {}" by auto
  then show ?thesis using assms by (simp add: merge_files_def distinct_map_filter)
qed

text \<open>
  The commit of a scaffolded repository has one entry per path: each generated file replaces the
  template's, and every other template file is copied as it is.
\<close>

theorem scaffold_commit_files:
  fixes batch :: dict and params :: scaffolding_params and cfg :: ci_settings and y :: yaml_lib
    and token slug ns :: string and paths :: "string list" and expose :: bool and gid :: "int option"
    and gpath :: "string option"
  defines "gen \<equiv> overrides cfg y token paths slug ns params expose gid gpath"
  assumes "distinct (map fst batch)"
  shows "distinct (map fst (merge_files batch gen))
    \<and> map_of (merge_files batch gen) = map_of batch ++ map_of gen
    \<and> {''chart/values.yaml'', ''chart/Chart.yaml''} \<subseteq> dom (map_of gen)
    \<and> (''chart/values-prod.yaml'' \<in> dom (map_of gen)) = expose"
proof -
  have "map_of (merge_files batch gen) k = (map_of batch ++ map_of gen) k" for k
  proof (cases "map_of gen k")
    case None
    then have "k \<notin> fst ` set gen" by (simp add: map_of_eq_None_iff)
    with None show ?thesis by (simp add: merge_files_def map_add_def map_of_filter_keys split: option.split)
  next
    case (Some v)
    then have "k \<in> fst ` set gen" by (metis map_of_eq_None_iff option.distinct(1))
    then have "map_of (filter (\<lambda>f. fst f \<notin> fst ` set gen) batch) k = None" by (subst map_of_filter_keys) simp
    with Some show ?thesis by (simp add: merge_files_def map_add_def)
  qed
  moreover have "distinct (map fst (merge_files batch gen))"
    unfolding gen_def by (rule merge_files_distinct[OF assms(2) overrides_distinct])
  ultimately show ?thesis by (auto simp: fun_eq_iff gen_def overrides_def)
qed

lemma scaffold_commit_files_witness:
  "map_of (merge_files [(''README.md'', ''r''), (''chart/Chart.yaml'', ''t'')]
     (overrides demo_ci_settings ref_yaml ''pw'' [] ''shop'' ''apps'' default_params False None None)) ''README.md'' = Some ''r''"
proof -
  have "distinct (map fst [(''README.md'', ''r''), (''chart/Chart.yaml'', ''t'')])" by simp
  from scaffold_commit_files[OF this, of demo_ci_settings ref_yaml "''pw''" "[]" "''shop''" "''apps''" default_params False None None]
  show ?thesis by (simp add: map_add_def overrides_def default_params_def)
qed

section \<open>The wait for an import ends\<close>

lemma poll_out_of_fuel:
  assumes "poll_import gl clock pid fuel n s = (Inr None, s')"
  shows "\<forall>k. n \<le> k \<and> k < n + fuel \<longrightarrow> clock k < clock 0 + IMPORT_TIMEOUT"
  using assms
proof (induction fuel arbitrary: n s)
  case (Suc fuel)
  from Suc.prems have n: "clock n < clock 0 + IMPORT_TIMEOUT" by (auto simp: prog_simps split: if_splits)
  with Suc.prems obtain s1 where "poll_import gl clock pid fuel (Suc n) s1 = (Inr None, s')"
    by (auto simp: prog_simps split: prod.splits sum.splits if_splits)
  from Suc.IH[OF this] n show ?case by (metis Suc_leI add_Suc_right add_Suc_shift le_neq_implies_less)
qed simp

text \<open>
  Every round sleeps two seconds, so an import is decided: finished, failed or timed out, after at
  most thirty looks at its status, whatever GitLab answers.
\<close>

theorem import_is_decided:
  assumes "clock 0 \<le> clock 1" and "\<And>k. k \<ge> 1 \<Longrightarrow> clock k + 2 \<le> clock (Suc k)"
    and "import_external_repo gl clock source_url name namespace g = (r, g')"
  shows "r \<noteq> Inr None"
proof
  assume "r = Inr None"
  with assms(3) obtain pid g1 where "poll_import gl clock pid 31 1 g1 = (Inr None, g')"
    by (auto simp: import_external_repo_def prog_simps split: prod.splits sum.splits)
  then have "clock 31 < clock 0 + IMPORT_TIMEOUT" using poll_out_of_fuel by fastforce
  moreover have "clock 0 + 2 * int k \<le> clock (Suc k)" for k
  proof (induction k)
    case (Suc k)
    with assms(2)[of "Suc k"] show ?case by simp
  qed (use assms(1) in simp)
  from this[of 30] have "clock 0 + 60 \<le> clock 31" by simp
  ultimately show False by (simp add: IMPORT_TIMEOUT_def)
qed

lemma import_is_decided_witness:
  "fst (import_external_repo ref_projects (\<lambda>n. 2 * int n) ''https://github.com/x/y'' ''y'' ''apps'' []) \<noteq> Inr None"
  by (rule import_is_decided[of "\<lambda>n. 2 * int n" ref_projects "''https://github.com/x/y''" "''y''" "''apps''" "[]" _
        "snd (import_external_repo ref_projects (\<lambda>n. 2 * int n) ''https://github.com/x/y'' ''y'' ''apps'' [])"]) simp_all

end
