(* ===== verification/App_Service.thy ===== *)
theory App_Service
  imports Keycloak_Outcome Scaffolding Clusters
begin

text \<open>
  backend/services/app_service.py and its routes of backend/api/routes/apps.py: the life of an
  application, from its creation (scaffolded, onboarded, imported, found in Kubernetes) to its
  deletion, with its members, its target cluster, its exposure and the status its pipelines report.
  GitLab, Vault, Keycloak and Kubernetes answer as they like.
\<close>

section \<open>The world of the service\<close>

text \<open>Beside the session, Vault and Keycloak of \<open>identity_world\<close>, the state of GitLab.\<close>

record ('v, 'k, 'g) app_world =
  idw :: "('v, 'k) identity_world"
  gitw :: 'g

record deployment =
  dep_name :: string
  dep_ready_replicas :: "int option"
  dep_image :: "string option"

text \<open>
  \<open>list_deployments\<close> is what the cluster's Kubernetes API lists in the target namespace, \<open>None\<close> when
  the client is not configured, too slow or fails.
\<close>

record ('v, 'k, 'g) app_env =
  ae_identity :: "('v, 'k) identity_env"
  ae_scaffold :: "'g scaffold_env"
  ae_alert :: alert_env
  ae_webhook_url :: string
  ae_timestamp :: string
  ae_clock :: "nat \<Rightarrow> int"
  ae_callback_token :: "string option"
  list_deployments :: "cluster_connection \<Rightarrow> deployment list option"

definition on_id :: "(('v, 'k) identity_world, 'a) prog \<Rightarrow> (('v, 'k, 'g) app_world, 'a) prog" where
  "on_id m = (\<lambda>w. case m (idw w) of (r, i) \<Rightarrow> (r, w\<lparr>idw := i\<rparr>))"

definition on_git :: "('g, 'a) prog \<Rightarrow> (('v, 'k, 'g) app_world, 'a) prog" where
  "on_git m = (\<lambda>w. case m (gitw w) of (r, g) \<Rightarrow> (r, w\<lparr>gitw := g\<rparr>))"

definition app_sess :: "('v, 'k, 'g) app_world \<Rightarrow> session" where
  "app_sess w = sess (idw w)"

definition in_sess :: "(session, 'a) prog \<Rightarrow> (('v, 'k, 'g) app_world, 'a) prog" where
  "in_sess m = on_id (on_sess m)"

definition read_db :: "(database \<Rightarrow> 'a) \<Rightarrow> (('v, 'k, 'g) app_world, 'a) prog" where
  "read_db f = on_id (from_db f)"

definition alter_db :: "(database \<Rightarrow> database) \<Rightarrow> (('v, 'k, 'g) app_world, unit) prog" where
  "alter_db f = in_sess (modify (\<lambda>s. s\<lparr>db := f (db s)\<rparr>))"

definition commit_app :: "(('v, 'k, 'g) app_world, unit) prog" where
  "commit_app = in_sess (modify commit)"

definition gl_of :: "('v, 'k, 'g) app_env \<Rightarrow> 'g gitlab_projects" where
  "gl_of env = sc_gitlab (ae_scaffold env)"

definition cfg_of :: "('v, 'k, 'g) app_env \<Rightarrow> ci_settings" where
  "cfg_of env = sc_settings (ae_scaffold env)"

definition yaml_of :: "('v, 'k, 'g) app_env \<Rightarrow> yaml_lib" where
  "yaml_of env = sc_yaml (ae_scaffold env)"

text \<open>\<open>_get_bot_client\<close> gives a client exactly when the bot's token is set.\<close>

definition has_bot :: "('v, 'k, 'g) app_env \<Rightarrow> bool" where
  "has_bot env \<longleftrightarrow> GITLAB_BOT_TOKEN (cfg_of env) \<noteq> []"

definition gitops_on :: "('v, 'k, 'g) app_env \<Rightarrow> bool" where
  "gitops_on env \<longleftrightarrow> GITOPS_REPO_URL (cfg_of env) \<noteq> []"

definition project_path_of :: "('v, 'k, 'g) app_env \<Rightarrow> string \<Rightarrow> (('v, 'k, 'g) app_world, string) prog" where
  "project_path_of env url = lift_result (extract_project_path (ip_literal_ok (ae_identity env)) url)"

section \<open>Lookups\<close>

definition validated_slug :: "string \<Rightarrow> exc + string" where
  "validated_slug name = (let slug = compute_slug name in if slug = [] then Inl (HTTPException 400) else Inr slug)"

definition first_cluster :: "database \<Rightarrow> int option" where
  "first_cluster d = (case sort_key cl_id (rows (cluster_connections d)) of [] \<Rightarrow> None | c # _ \<Rightarrow> Some (cl_id c))"

definition resolve_target_cluster_id :: "int option \<Rightarrow> database \<Rightarrow> int option" where
  "resolve_target_cluster_id explicit d = (case explicit of Some c \<Rightarrow> Some c | None \<Rightarrow> first_cluster d)"

definition resolve_cluster_name :: "int option \<Rightarrow> database \<Rightarrow> string" where
  "resolve_cluster_name cid d =
     (if \<not> truthy_id cid then ''aks''
      else (case get_cluster_row (the cid) d of None \<Rightarrow> ''aks'' | Some c \<Rightarrow> cl_name c))"

definition resolve_group_namespace :: "int option \<Rightarrow> database \<Rightarrow> string option" where
  "resolve_group_namespace gid d =
     (if \<not> truthy_id gid then None else map_option grp_full_path (get_group_row (the gid) d))"

definition find_app :: "int \<Rightarrow> (('v, 'k, 'g) app_world, application) prog" where
  "find_app aid =
     bnd (read_db (get_application aid)) (\<lambda>a.
       case a of None \<Rightarrow> raise_exc (HTTPException 404) | Some app \<Rightarrow> ret app)"

text \<open>The attributes of an application object the request holds: those of its row in the session.\<close>

definition app_now :: "int \<Rightarrow> (('v, 'k, 'g) app_world, application) prog" where
  "app_now aid = on_id (app_object aid)"

section \<open>Constraints\<close>

text \<open>
  What the database checks of the applications when a transaction commits: unique slugs and
  repository addresses, and a cluster behind every target.
\<close>

definition apps_valid :: "database \<Rightarrow> bool" where
  "apps_valid d \<longleftrightarrow>
     unique_on app_slug (applications d)
   \<and> distinct (filter (\<lambda>u. u \<noteq> None) (map app_repo_url (rows (applications d))))
   \<and> (\<forall>a \<in> set (rows (applications d)). case app_target_cluster_id a of None \<Rightarrow> True
        | Some c \<Rightarrow> get_cluster_row c d \<noteq> None)"

definition commit_valid :: "(('v, 'k, 'g) app_world, unit) prog" where
  "commit_valid = in_sess (\<lambda>s. if apps_valid (db s) then (Inr (), commit s) else (Inl IntegrityError, s))"

section \<open>Best-effort steps around a creation\<close>

definition push_externalsecrets_to_gitops ::
  "('v, 'k, 'g) app_env \<Rightarrow> application \<Rightarrow> string \<Rightarrow> (('v, 'k, 'g) app_world, unit) prog" where
  "push_externalsecrets_to_gitops env app cluster_name =
     best_effort
       (bnd (read_db (resolve_group_slug (app_owning_gitlab_group_id app))) (\<lambda>group_slug.
        bnd (project_path_of env (GITOPS_REPO_URL (cfg_of env))) (\<lambda>gitops_path.
          for_each VALID_ENVS (\<lambda>env_name.
            on_git (upsert_externalsecret (repos (gl_of env)) (yaml_of env) gitops_path (app_slug app) group_slug
                      env_name cluster_name ''main'')))))"

definition push_ingress_to_gitops ::
  "('v, 'k, 'g) app_env \<Rightarrow> string \<Rightarrow> string \<Rightarrow> (('v, 'k, 'g) app_world, unit) prog" where
  "push_ingress_to_gitops env slug cluster_name =
     best_effort
       (bnd (project_path_of env (GITOPS_REPO_URL (cfg_of env))) (\<lambda>gitops_path.
          for_each VALID_ENVS (\<lambda>env_name.
            on_git (upsert_gitops_ingress (repos (gl_of env)) (yaml_of env) gitops_path slug env_name True
                      (app_hostname slug env_name) cluster_name ''main''))))"

definition provision_keycloak :: "('v, 'k, 'g) app_env \<Rightarrow> int \<Rightarrow> (('v, 'k, 'g) app_world, unit) prog" where
  "provision_keycloak env aid =
     on_id (try_except (bnd (activate (ae_identity env) aid) (\<lambda>_. ret ()))
       (\<lambda>e. if is_HTTPException e then mark_activation_failed aid OIDC_KEYS_CONFLICT
            else best_effort (bnd (on_sess (modify rollback)) (\<lambda>_. mark_activation_failed aid PROVISIONING_FAILED))))"

definition check_envfrom_warning :: "('v, 'k, 'g) app_env \<Rightarrow> int \<Rightarrow> (('v, 'k, 'g) app_world, unit) prog" where
  "check_envfrom_warning env aid =
     bnd (app_now aid) (\<lambda>app.
       if \<not> truthy_str (app_repo_url app) then ret ()
       else
         bnd (try_except
                (bnd (project_path_of env (the (app_repo_url app))) (\<lambda>project_path.
                   on_git (detect_envfrom_warning (repos (gl_of env)) project_path (app_slug app))))
                (\<lambda>_. ret [])) (\<lambda>warnings.
           if warnings = [] then ret ()
           else bnd (on_id (set_app aid (add_auth_warnings warnings))) (\<lambda>_. commit_app)))"

section \<open>Creation\<close>

definition injection_of :: "('v, 'k, 'g) app_env \<Rightarrow> application \<Rightarrow> string \<Rightarrow> injection" where
  "injection_of env app cluster_name =
     \<lparr>inj_app_id = app_id app, inj_app_slug = app_slug app, inj_repo_url = the (app_repo_url app),
      inj_origin = the (app_origin app),
      inj_framework = (if truthy_str (app_framework app) then the (app_framework app) else ''generic''),
      inj_owner = app_owner app, inj_webhook_url = ae_webhook_url env, inj_cluster_name = cluster_name\<rparr>"

definition wants_ci :: "('v, 'k, 'g) app_env \<Rightarrow> bool \<Rightarrow> application \<Rightarrow> bool" where
  "wants_ci env skip_ci app \<longleftrightarrow>
     \<not> skip_ci \<and> has_bot env \<and> truthy_str (app_repo_url app)
     \<and> (case app_origin app of None \<Rightarrow> False | Some orig \<Rightarrow> orig \<in> {''scaffolded'', ''onboarded'', ''imported''})"

definition after_save :: "('v, 'k, 'g) app_env \<Rightarrow> int \<Rightarrow> bool \<Rightarrow> (('v, 'k, 'g) app_world, unit) prog" where
  "after_save env aid skip_ci =
     bnd (app_now aid) (\<lambda>app.
     bnd (read_db (resolve_cluster_name (app_target_cluster_id app))) (\<lambda>cluster_name.
     bnd (if wants_ci env skip_ci app then
            bnd (try_except
                   (bnd (on_git (inject_ci (gl_of env) (cfg_of env) (yaml_of env) (ip_literal_ok (ae_identity env))
                           (ae_timestamp env) (injection_of env app cluster_name))) (\<lambda>_. ret True))
                   (\<lambda>_. ret False)) (\<lambda>injected.
            bnd (on_id (set_app aid (\<lambda>a. a\<lparr>app_ci_injected := Some injected\<rparr>))) (\<lambda>_. commit_app))
          else ret ()) (\<lambda>_.
     bnd (app_now aid) (\<lambda>app.
       if has_bot env \<and> gitops_on env then push_externalsecrets_to_gitops env app cluster_name else ret ()))))"

text \<open>
  \<open>_save_app\<close>: \<open>mk\<close> makes the row from its primary key, and the result is that key. Whether the first
  pipeline run is skipped (\<open>skip_gitops\<close>) only changes a commit message.
\<close>

definition save_app ::
  "('v, 'k, 'g) app_env \<Rightarrow> (int \<Rightarrow> application) \<Rightarrow> string option \<Rightarrow> bool \<Rightarrow> (('v, 'k, 'g) app_world, int) prog" where
  "save_app env mk scaffolded_project_path skip_ci =
     bnd (read_db (\<lambda>d. seq (applications d))) (\<lambda>aid.
     bnd (alter_db (\<lambda>d. d\<lparr>applications := insert_row mk (applications d)\<rparr>)) (\<lambda>_.
     bnd (try_except commit_valid (\<lambda>_.
            bnd (if truthy_str scaffolded_project_path
                 then on_git (cleanup_project (ae_scaffold env) (the scaffolded_project_path)) else ret ())
              (\<lambda>_. raise_exc (HTTPException 500)))) (\<lambda>_.
     bnd (after_save env aid skip_ci) (\<lambda>_. ret aid))))"

text \<open>The columns that a creation sets; the others have their defaults.\<close>

record app_data =
  ad_name :: string
  ad_slug :: string
  ad_description :: "string option"
  ad_repo_url :: "string option"
  ad_owner :: string
  ad_origin :: "string option"
  ad_source_url :: "string option"
  ad_framework :: "string option"
  ad_owning_gitlab_group_id :: "int option"
  ad_target_cluster_id :: "int option"
  ad_expose :: "bool option"

definition app_row :: "app_data \<Rightarrow> int \<Rightarrow> application" where
  "app_row a i =
     (blank_application i (ad_name a) (ad_slug a) (ad_owner a))
       \<lparr>app_description := ad_description a, app_repo_url := ad_repo_url a, app_origin := ad_origin a,
        app_source_url := ad_source_url a, app_framework := ad_framework a,
        app_owning_gitlab_group_id := ad_owning_gitlab_group_id a,
        app_target_cluster_id := ad_target_cluster_id a, app_expose := ad_expose a\<rparr>"

record scaffold_payload =
  sp_name :: string
  sp_owner :: string
  sp_template :: string
  sp_scaffolding :: "scaffolding_params option"
  sp_target_cluster_id :: "int option"
  sp_owning_gitlab_group_id :: "int option"
  sp_expose :: bool

definition scaffold_app :: "('v, 'k, 'g) app_env \<Rightarrow> scaffold_payload \<Rightarrow> (('v, 'k, 'g) app_world, int) prog" where
  "scaffold_app env p =
     bnd (lift_result (validated_slug (sp_name p))) (\<lambda>slug.
     bnd (read_db (resolve_group_namespace (sp_owning_gitlab_group_id p))) (\<lambda>namespace.
     bnd (on_git (scaffold (ae_scaffold env)
            \<lparr>sr_slug = slug, sr_template = sp_template p, sr_params = sp_scaffolding p,
             sr_target_namespace = namespace, sr_expose = sp_expose p,
             sr_group_id = sp_owning_gitlab_group_id p, sr_group_path = namespace\<rparr>)) (\<lambda>(repo_url, project_path).
     bnd (read_db (resolve_target_cluster_id (sp_target_cluster_id p))) (\<lambda>target.
     bnd (save_app env
            (app_row \<lparr>ad_name = sp_name p, ad_slug = slug, ad_description = None, ad_repo_url = Some repo_url,
               ad_owner = sp_owner p, ad_origin = Some ''scaffolded'', ad_source_url = None,
               ad_framework = Some (sp_template p), ad_owning_gitlab_group_id = sp_owning_gitlab_group_id p,
               ad_target_cluster_id = target, ad_expose = Some (sp_expose p)\<rparr>)
            (Some project_path) False) (\<lambda>aid.
     bnd (if (case sp_scaffolding p of None \<Rightarrow> False | Some s \<Rightarrow> ''keycloak'' \<in> set (sp_services s))
          then provision_keycloak env aid else ret ()) (\<lambda>_. ret aid))))))"

record onboard_payload =
  op_name :: string
  op_owner :: string
  op_repo_url :: string
  op_framework :: "string option"
  op_target_cluster_id :: "int option"
  op_owning_gitlab_group_id :: "int option"
  op_expose :: bool
  op_services :: "string list"

definition normalized_url :: "string \<Rightarrow> string" where
  "normalized_url url = removesuffix ''.git'' (rstrip (\<lambda>c. c = CHR ''/'') url)"

definition already_onboarded :: "string \<Rightarrow> database \<Rightarrow> bool" where
  "already_onboarded url d \<longleftrightarrow>
     select_rows (\<lambda>a. app_repo_url a \<in> {Some url, Some (url @ ''.git'')}) (applications d) \<noteq> []"

definition choose_framework ::
  "('v, 'k, 'g) app_env \<Rightarrow> string option \<Rightarrow> string \<Rightarrow> (('v, 'k, 'g) app_world, string) prog" where
  "choose_framework env framework repo_url =
     (if truthy_str framework then ret (the framework)
      else bnd (try_except (on_git (detect_framework (repos (gl_of env)) (ip_literal_ok (ae_identity env)) repo_url))
                  (\<lambda>_. ret ''generic'')) (\<lambda>f. ret (if f = [] then ''generic'' else f)))"

definition push_ingress_if ::
  "('v, 'k, 'g) app_env \<Rightarrow> bool \<Rightarrow> string \<Rightarrow> int \<Rightarrow> (('v, 'k, 'g) app_world, unit) prog" where
  "push_ingress_if env expose slug aid =
     (if expose \<and> has_bot env \<and> gitops_on env then
        bnd (app_now aid) (\<lambda>app.
        bnd (read_db (resolve_cluster_name (app_target_cluster_id app))) (\<lambda>cluster_name.
          push_ingress_to_gitops env slug cluster_name))
      else ret ())"

definition onboard_app :: "('v, 'k, 'g) app_env \<Rightarrow> onboard_payload \<Rightarrow> (('v, 'k, 'g) app_world, int) prog" where
  "onboard_app env p =
     bnd (lift_result (validated_slug (op_name p))) (\<lambda>slug.
     bnd (read_db (already_onboarded (normalized_url (op_repo_url p)))) (\<lambda>known.
       if known then raise_exc (HTTPException 409)
       else if \<not> has_bot env then raise_exc (HTTPException 503)
       else
         bnd (project_path_of env (normalized_url (op_repo_url p))) (\<lambda>project_path.
         bnd (on_git (or_http 422 (get_project (repos (gl_of env)) project_path))) (\<lambda>_.
         bnd (choose_framework env (op_framework p) (op_repo_url p)) (\<lambda>framework.
         bnd (read_db (resolve_target_cluster_id (op_target_cluster_id p))) (\<lambda>target.
         bnd (save_app env
                (app_row \<lparr>ad_name = op_name p, ad_slug = slug, ad_description = None,
                   ad_repo_url = Some (normalized_url (op_repo_url p)), ad_owner = op_owner p,
                   ad_origin = Some ''onboarded'', ad_source_url = None, ad_framework = Some framework,
                   ad_owning_gitlab_group_id = op_owning_gitlab_group_id p, ad_target_cluster_id = target,
                   ad_expose = Some (op_expose p)\<rparr>) None False) (\<lambda>aid.
         bnd (push_ingress_if env (op_expose p) slug aid) (\<lambda>_.
         bnd (if ''keycloak'' \<in> set (op_services p)
              then bnd (provision_keycloak env aid) (\<lambda>_. check_envfrom_warning env aid) else ret ())
           (\<lambda>_. ret aid)))))))))"

record import_payload =
  ip_name :: string
  ip_owner :: string
  ip_source_url :: string
  ip_framework :: "string option"
  ip_target_cluster_id :: "int option"
  ip_raw :: bool
  ip_owning_gitlab_group_id :: "int option"
  ip_expose :: bool

text \<open>
  The loop of the import has fuel; it never runs out (\<open>import_is_decided\<close>), and its outcome then would
  be the exception of the timeout.
\<close>

definition external_import_app :: "('v, 'k, 'g) app_env \<Rightarrow> import_payload \<Rightarrow> (('v, 'k, 'g) app_world, int) prog" where
  "external_import_app env p =
     bnd (lift_result (validated_slug (ip_name p))) (\<lambda>slug.
       if \<not> has_bot env then raise_exc (HTTPException 503)
       else
         bnd (read_db (\<lambda>d. case resolve_group_namespace (ip_owning_gitlab_group_id p) d of
                Some n \<Rightarrow> if n = [] then GITLAB_APPS_NAMESPACE (cfg_of env) else n
              | None \<Rightarrow> GITLAB_APPS_NAMESPACE (cfg_of env))) (\<lambda>namespace.
         if namespace = [] then raise_exc (HTTPException 503)
         else
           bnd (try_except
                  (on_git (import_external_repo (gl_of env) (ae_clock env) (ip_source_url p) (ip_name p) namespace))
                  (\<lambda>e. raise_exc (case e of TimeoutError \<Rightarrow> HTTPException 504
                                   | RuntimeError _ \<Rightarrow> HTTPException 422 | _ \<Rightarrow> e))) (\<lambda>project.
           case project of
             None \<Rightarrow> raise_exc (HTTPException 504)
           | Some info \<Rightarrow>
               bnd (choose_framework env (ip_framework p) (pi_web_url info)) (\<lambda>framework.
               bnd (save_app env
                      (app_row \<lparr>ad_name = ip_name p, ad_slug = slug, ad_description = None,
                         ad_repo_url = Some (pi_web_url info), ad_owner = ip_owner p, ad_origin = Some ''imported'',
                         ad_source_url = Some (ip_source_url p), ad_framework = Some framework,
                         ad_owning_gitlab_group_id = ip_owning_gitlab_group_id p,
                         ad_target_cluster_id = ip_target_cluster_id p, ad_expose = Some (ip_expose p)\<rparr>)
                      None (ip_raw p)) (\<lambda>aid.
               bnd (push_ingress_if env (ip_expose p) slug aid) (\<lambda>_. ret aid))))))"

record create_payload =
  cp_name :: string
  cp_description :: "string option"
  cp_repo_url :: "string option"
  cp_owner :: string
  cp_origin :: "string option"
  cp_source_url :: "string option"
  cp_framework :: "string option"

definition create_app :: "('v, 'k, 'g) app_env \<Rightarrow> create_payload \<Rightarrow> (('v, 'k, 'g) app_world, int) prog" where
  "create_app env p =
     bnd (lift_result (validated_slug (cp_name p))) (\<lambda>slug.
       save_app env
         (app_row \<lparr>ad_name = cp_name p, ad_slug = slug, ad_description = cp_description p, ad_repo_url = cp_repo_url p,
            ad_owner = cp_owner p, ad_origin = cp_origin p, ad_source_url = cp_source_url p,
            ad_framework = cp_framework p, ad_owning_gitlab_group_id = None, ad_target_cluster_id = None,
            ad_expose = Some False\<rparr>) None False)"

section \<open>Members\<close>

text \<open>The linked project and the bot that both member operations need.\<close>

definition linked_project :: "('v, 'k, 'g) app_env \<Rightarrow> int \<Rightarrow> (('v, 'k, 'g) app_world, application \<times> int) prog" where
  "linked_project env aid =
     bnd (find_app aid) (\<lambda>app.
       if \<not> truthy_id (app_gitlab_project_id app) then raise_exc (HTTPException 422)
       else if \<not> has_bot env then raise_exc (HTTPException 503)
       else ret (app, the (app_gitlab_project_id app)))"

definition user_by_gitlab :: "int \<Rightarrow> database \<Rightarrow> int option" where
  "user_by_gitlab gitlab_user_id d =
     map_option usr_id (find_row (\<lambda>u. usr_gitlab_user_id u = Some gitlab_user_id) (users d))"

definition member_row :: "int \<Rightarrow> int \<Rightarrow> database \<Rightarrow> app_member option" where
  "member_row project_id gitlab_user_id d =
     find_row (\<lambda>m. am_project_id m = project_id \<and> am_user_id m = Some gitlab_user_id) (app_members d)"

definition invited_row :: "int \<Rightarrow> string \<Rightarrow> database \<Rightarrow> app_member option" where
  "invited_row project_id email d =
     find_row (\<lambda>m. am_project_id m = project_id \<and> am_email m = Some email) (app_members d)"

definition activated :: "int \<Rightarrow> int option \<Rightarrow> app_member \<Rightarrow> app_member" where
  "activated access_level cnp_user_id m =
     m\<lparr>am_access_level := access_level, am_status := ACTIVE,
       am_cnp_user_id := (if truthy_id cnp_user_id then cnp_user_id else am_cnp_user_id m)\<rparr>"

definition new_member :: "int \<Rightarrow> int option \<Rightarrow> string option \<Rightarrow> int \<Rightarrow> int option \<Rightarrow> member_status \<Rightarrow> int \<Rightarrow> app_member" where
  "new_member project_id gitlab_user_id email access_level cnp_user_id st i =
     \<lparr>am_id = i, am_project_id = project_id, am_user_id = gitlab_user_id, am_email = email,
      am_access_level = access_level, am_cnp_user_id = cnp_user_id, am_status = st, am_updated_at = None\<rparr>"

definition store_member :: "int \<Rightarrow> int \<Rightarrow> int \<Rightarrow> database \<Rightarrow> database" where
  "store_member project_id gitlab_user_id access_level d =
     (let cnp_user_id = user_by_gitlab gitlab_user_id d in
      case member_row project_id gitlab_user_id d of
        Some m \<Rightarrow> set_app_member (am_id m) (activated access_level cnp_user_id) d
      | None \<Rightarrow> d\<lparr>app_members := insert_row
          (new_member project_id (Some gitlab_user_id) None access_level cnp_user_id ACTIVE) (app_members d)\<rparr>)"

definition store_invitation :: "int \<Rightarrow> string \<Rightarrow> int \<Rightarrow> database \<Rightarrow> database" where
  "store_invitation project_id email access_level d =
     (case invited_row project_id email d of
        Some m \<Rightarrow> set_app_member (am_id m) (\<lambda>m. m\<lparr>am_access_level := access_level, am_status := PENDING_INVITE\<rparr>) d
      | None \<Rightarrow> d\<lparr>app_members := insert_row
          (new_member project_id None (Some email) access_level None PENDING_INVITE) (app_members d)\<rparr>)"

definition add_member ::
  "('v, 'k, 'g) app_env \<Rightarrow> int \<Rightarrow> int \<Rightarrow> int \<Rightarrow> (('v, 'k, 'g) app_world, app_member option) prog" where
  "add_member env aid gitlab_user_id access_level =
     bnd (linked_project env aid) (\<lambda>(app, project_id).
     bnd (on_git (or_http 422 (add_project_member (gl_of env) project_id gitlab_user_id access_level))) (\<lambda>_.
     bnd (read_db (member_row project_id gitlab_user_id)) (\<lambda>before.
     bnd (alter_db (store_member project_id gitlab_user_id access_level)) (\<lambda>_.
     bnd commit_app (\<lambda>_.
     bnd (read_db (member_row project_id gitlab_user_id)) (\<lambda>member.
     bnd (if (case before of None \<Rightarrow> False
              | Some m \<Rightarrow> loses_console_tier (am_status m) (am_access_level m) (Some access_level))
          then on_id (revoke_console_access_if_not_maintainer (ae_identity env) app
                        (case member of None \<Rightarrow> None | Some m \<Rightarrow> am_cnp_user_id m))
          else ret ()) (\<lambda>_. ret member)))))))"

definition invite_member ::
  "('v, 'k, 'g) app_env \<Rightarrow> int \<Rightarrow> string \<Rightarrow> int \<Rightarrow> (('v, 'k, 'g) app_world, app_member option) prog" where
  "invite_member env aid email access_level =
     bnd (linked_project env aid) (\<lambda>(app, project_id).
     bnd (on_git (or_http 422 (invite_project_member (gl_of env) project_id email access_level))) (\<lambda>_.
     bnd (alter_db (store_invitation project_id email access_level)) (\<lambda>_.
     bnd commit_app (\<lambda>_. read_db (invited_row project_id email)))))"

section \<open>Changes\<close>

definition update_expose :: "('v, 'k, 'g) app_env \<Rightarrow> int \<Rightarrow> bool \<Rightarrow> (('v, 'k, 'g) app_world, unit) prog" where
  "update_expose env aid expose =
     bnd (find_app aid) (\<lambda>app.
       if \<not> has_bot env \<or> \<not> gitops_on env then raise_exc (HTTPException 503)
       else
         bnd (read_db (resolve_cluster_name (app_target_cluster_id app))) (\<lambda>cluster_name.
         bnd (project_path_of env (GITOPS_REPO_URL (cfg_of env))) (\<lambda>gitops_path.
         bnd (for_each VALID_ENVS (\<lambda>env_name.
                on_git (or_http 502
                  (upsert_gitops_ingress (repos (gl_of env)) (yaml_of env) gitops_path (app_slug app) env_name expose
                     (if expose then app_hostname (app_slug app) env_name else '''') cluster_name ''main'')))) (\<lambda>_.
         bnd (on_id (set_app aid (\<lambda>a. a\<lparr>app_expose := Some expose\<rparr>))) (\<lambda>_. commit_app)))))"

text \<open>
  A field that the request does not set is \<open>None\<close>; \<open>Some None\<close> is an explicit null, which the columns
  that may not be null refuse at the commit.
\<close>

record app_update =
  au_name :: "string option option"
  au_description :: "string option option"
  au_repo_url :: "string option option"
  au_owner :: "string option option"
  au_origin :: "string option option"
  au_framework :: "string option option"
  au_last_known_status :: "application_status option option"
  au_target_cluster_id :: "int option option"

definition assign :: "app_update \<Rightarrow> application \<Rightarrow> application" where
  "assign p a =
     a\<lparr>app_name := (case au_name p of Some (Some n) \<Rightarrow> n | _ \<Rightarrow> app_name a),
       app_description := given (au_description p) (app_description a),
       app_repo_url := given (au_repo_url p) (app_repo_url a),
       app_owner := (case au_owner p of Some (Some n) \<Rightarrow> n | _ \<Rightarrow> app_owner a),
       app_origin := given (au_origin p) (app_origin a),
       app_framework := given (au_framework p) (app_framework a),
       app_last_known_status := (case au_last_known_status p of Some (Some s) \<Rightarrow> s | _ \<Rightarrow> app_last_known_status a),
       app_target_cluster_id := given (au_target_cluster_id p) (app_target_cluster_id a)\<rparr>"

definition nulls_required :: "app_update \<Rightarrow> bool" where
  "nulls_required p \<longleftrightarrow> au_name p = Some None \<or> au_owner p = Some None \<or> au_last_known_status p = Some None"

definition check_target :: "app_update \<Rightarrow> application \<Rightarrow> database \<Rightarrow> exc + unit" where
  "check_target p app d =
     (case au_target_cluster_id p of
        Some (Some c) \<Rightarrow>
          if Some c = app_target_cluster_id app then Inr ()
          else (case get_cluster_row c d of
                  None \<Rightarrow> Inl (HTTPException 404)
                | Some cluster \<Rightarrow> if cl_status cluster = OFFLINE then Inl (HTTPException 409) else Inr ())
      | _ \<Rightarrow> Inr ())"

definition update_app :: "int \<Rightarrow> app_update \<Rightarrow> (('v, 'k, 'g) app_world, unit) prog" where
  "update_app aid p =
     bnd (find_app aid) (\<lambda>app.
     bnd (read_db (check_target p app)) (\<lambda>checked.
     bnd (lift_result checked) (\<lambda>_.
     bnd (on_id (set_app aid (assign p))) (\<lambda>_.
       if nulls_required p then raise_exc IntegrityError else commit_valid))))"

record ci_status_update =
  cs_pipeline_status :: string
  cs_app_status :: "application_status option"

definition ci_status_after :: "ci_status_update \<Rightarrow> application_status \<Rightarrow> application_status" where
  "ci_status_after p old =
     (case cs_app_status p of
        Some s \<Rightarrow> s
      | None \<Rightarrow> if cs_pipeline_status p = ''success'' \<and> old = ONBOARDING then READY else old)"

definition update_ci_status :: "alert_env \<Rightarrow> int \<Rightarrow> ci_status_update \<Rightarrow> (('v, 'k, 'g) app_world, unit) prog" where
  "update_ci_status alert aid p =
     bnd (find_app aid) (\<lambda>app.
     bnd (on_id (set_app aid (\<lambda>a. a\<lparr>app_last_pipeline_status := Some (cs_pipeline_status p),
            app_last_known_status := ci_status_after p (app_last_known_status a)\<rparr>))) (\<lambda>_.
     bnd commit_app (\<lambda>_.
       if cs_pipeline_status p = ''success'' \<and> app_last_known_status app \<noteq> ci_status_after p (app_last_known_status app)
       then bnd (in_sess (emit_event alert APP_DEPLOYED ''info'' ''ci'' (Some (app_id app))
                  [(''name'', JStr (app_name app)), (''pipeline_status'', JStr ''success'')] None)) (\<lambda>_. commit_app)
       else ret ())))"

section \<open>Deletion\<close>

text \<open>
  The row goes with its scale states, its assistant settings and its security scans with their findings
  (\<open>ON DELETE CASCADE\<close>); the audit entries, events and usage records that name it stay, without it
  (\<open>SET NULL\<close>).
\<close>

definition remove_app :: "int \<Rightarrow> database \<Rightarrow> database" where
  "remove_app aid d =
     d\<lparr>applications := delete_rows (\<lambda>a. app_id a = aid) (applications d),
       scale_states := delete_rows (\<lambda>s. ss_app_id s = aid) (scale_states d),
       audit_logs := update_rows (\<lambda>l. al_app_id l = Some aid) (\<lambda>l. l\<lparr>al_app_id := None\<rparr>) (audit_logs d),
       events := update_rows (\<lambda>e. ev_app_id e = Some aid) (\<lambda>e. e\<lparr>ev_app_id := None\<rparr>) (events d),
       ai_app_rows := delete_rows (\<lambda>r. aas_app_id r = aid) (ai_app_rows d),
       ai_usage_records := update_rows (\<lambda>r. aur_app_id r = Some aid) (\<lambda>r. r\<lparr>aur_app_id := None\<rparr>) (ai_usage_records d),
       security_findings := delete_rows (\<lambda>f. \<exists>s \<in> set (rows (security_scans d)). scan_id s = fnd_scan_id f \<and> scan_app_id s = aid) (security_findings d),
       security_scans := delete_rows (\<lambda>s. scan_app_id s = aid) (security_scans d)\<rparr>"

definition clean_gitops :: "('v, 'k, 'g) app_env \<Rightarrow> application \<Rightarrow> string \<Rightarrow> (('v, 'k, 'g) app_world, unit) prog" where
  "clean_gitops env app cluster_name =
     (if has_bot env \<and> gitops_on env then
        best_effort
          (bnd (project_path_of env (GITOPS_REPO_URL (cfg_of env))) (\<lambda>gitops_path.
             for_each [''apps/'', ''argocd/''] (\<lambda>top.
               best_effort (on_git (delete_directory_contents (repos (gl_of env)) gitops_path
                 (top @ cluster_name @ ''/'' @ app_slug app) ''main'')))))
      else ret ())"

definition clean_repository :: "('v, 'k, 'g) app_env \<Rightarrow> application \<Rightarrow> (('v, 'k, 'g) app_world, unit) prog" where
  "clean_repository env app =
     (if has_bot env \<and> app_origin app = Some ''scaffolded'' \<and> truthy_str (app_repo_url app) then
        best_effort (bnd (project_path_of env (the (app_repo_url app))) (\<lambda>repo_path. on_git (delete_project (gl_of env) repo_path)))
      else ret ())"

definition clean_vault :: "('v, 'k, 'g) app_env \<Rightarrow> application \<Rightarrow> (('v, 'k, 'g) app_world, unit) prog" where
  "clean_vault env app =
     best_effort
       (bnd (read_db (resolve_group_slug (app_owning_gitlab_group_id app))) (\<lambda>group_slug.
          for_each VALID_ENVS (\<lambda>env_name.
            on_id (on_vault (delete_secret (hvac_of (ae_identity env)) (vault_env_path group_slug (app_slug app) env_name))))))"

definition delete_app :: "('v, 'k, 'g) app_env \<Rightarrow> int \<Rightarrow> (('v, 'k, 'g) app_world, unit) prog" where
  "delete_app env aid =
     bnd (find_app aid) (\<lambda>app.
     bnd (read_db (resolve_cluster_name (app_target_cluster_id app))) (\<lambda>cluster_name.
     bnd (clean_gitops env app cluster_name) (\<lambda>_.
     bnd (clean_repository env app) (\<lambda>_.
     bnd (clean_vault env app) (\<lambda>_.
     bnd (if app_auth_enabled app then on_id (deprovision (ae_identity env) app) else ret ()) (\<lambda>_.
     bnd (alter_db (remove_app aid)) (\<lambda>_. commit_app)))))))"

section \<open>Applications found in Kubernetes\<close>

definition found_deployments :: "('v, 'k, 'g) app_env \<Rightarrow> database \<Rightarrow> deployment list" where
  "found_deployments env d = concat (List.map_filter (list_deployments env) (rows (cluster_connections d)))"

definition status_of_deployment :: "deployment \<Rightarrow> application_status" where
  "status_of_deployment dep =
     (if (case dep_ready_replicas dep of None \<Rightarrow> 0 | Some n \<Rightarrow> n) \<ge> 1 then DEPLOYED else ONBOARDING)"

definition synced_row :: "deployment \<Rightarrow> int \<Rightarrow> application" where
  "synced_row dep i =
     (blank_application i (dep_name dep)
        (if compute_slug (dep_name dep) = [] then ''app-'' @ dep_name dep else compute_slug (dep_name dep)) ''k8s-sync'')
       \<lparr>app_origin := Some ''kubernetes'', app_repo_url := dep_image dep,
        app_last_known_status := status_of_deployment dep\<rparr>"

text \<open>\<open>existing_by_name\<close>, read once before the loop: of several applications with one name, the last.\<close>

definition existing_by_name :: "database \<Rightarrow> string \<Rightarrow> int option" where
  "existing_by_name d name =
     (case rev (select_rows (\<lambda>a. app_name a = name) (applications d)) of [] \<Rightarrow> None | a # _ \<Rightarrow> Some (app_id a))"

definition sync_one :: "(string \<Rightarrow> int option) \<Rightarrow> deployment \<Rightarrow> database \<Rightarrow> database" where
  "sync_one existing dep d =
     (case existing (dep_name dep) of
        None \<Rightarrow> d\<lparr>applications := insert_row (synced_row dep) (applications d)\<rparr>
      | Some aid \<Rightarrow> update_application aid (\<lambda>a.
          if status_of_deployment dep = DEPLOYED \<or> app_last_known_status a \<noteq> READY
          then a\<lparr>app_last_known_status := status_of_deployment dep\<rparr> else a) d)"

definition sync_from_k8s :: "('v, 'k, 'g) app_env \<Rightarrow> (('v, 'k, 'g) app_world, unit) prog" where
  "sync_from_k8s env =
     bnd (read_db (\<lambda>d. (rows (cluster_connections d), found_deployments env d, existing_by_name d))) (\<lambda>(clusters, deps, existing).
       if clusters = [] \<or> deps = [] then raise_exc (HTTPException 503)
       else bnd (alter_db (fold (sync_one existing) deps)) (\<lambda>_. commit_valid))"

section \<open>The routes\<close>

text \<open>The audit entry, the event and the commit that end each route.\<close>

definition announce ::
  "('v, 'k, 'g) app_env \<Rightarrow> user \<Rightarrow> string \<Rightarrow> string \<Rightarrow> string \<Rightarrow> int option \<Rightarrow> (string \<times> json) list
     \<Rightarrow> (('v, 'k, 'g) app_world, unit) prog" where
  "announce env u action event severity aid payload =
     bnd (in_sess (log_action (usr_id u) action aid)) (\<lambda>_.
     bnd (in_sess (emit_event (ae_alert env) event severity ''app_service'' aid payload (Some (usr_id u)))) (\<lambda>_.
       commit_app))"

definition origin_json :: "application \<Rightarrow> json" where
  "origin_json app = (case app_origin app of None \<Rightarrow> JNull | Some s \<Rightarrow> JStr s)"

definition creation_route ::
  "('v, 'k, 'g) app_env \<Rightarrow> user_role \<Rightarrow> user \<Rightarrow> (('v, 'k, 'g) app_world, int) prog \<Rightarrow> (('v, 'k, 'g) app_world, application) prog" where
  "creation_route env role current_user creation =
     bnd (lift_result (require_role role current_user)) (\<lambda>u.
     bnd creation (\<lambda>aid.
     bnd (app_now aid) (\<lambda>app.
     bnd (announce env u ''app.created'' APP_CREATED ''info'' (Some aid)
            [(''name'', JStr (app_name app)), (''origin'', origin_json app)]) (\<lambda>_. ret app))))"

definition scaffold_app_route ::
  "('v, 'k, 'g) app_env \<Rightarrow> user \<Rightarrow> scaffold_payload \<Rightarrow> (('v, 'k, 'g) app_world, application) prog" where
  "scaffold_app_route env u p = creation_route env DEV u (scaffold_app env p)"

definition onboard_app_route ::
  "('v, 'k, 'g) app_env \<Rightarrow> user \<Rightarrow> onboard_payload \<Rightarrow> (('v, 'k, 'g) app_world, application) prog" where
  "onboard_app_route env u p = creation_route env DEV u (onboard_app env p)"

definition import_app_route ::
  "('v, 'k, 'g) app_env \<Rightarrow> user \<Rightarrow> import_payload \<Rightarrow> (('v, 'k, 'g) app_world, application) prog" where
  "import_app_route env u p = creation_route env DEV u (external_import_app env p)"

definition create_app_route ::
  "('v, 'k, 'g) app_env \<Rightarrow> user \<Rightarrow> create_payload \<Rightarrow> (('v, 'k, 'g) app_world, application) prog" where
  "create_app_route env u p = creation_route env ADMIN u (create_app env p)"

definition sync_apps_route :: "('v, 'k, 'g) app_env \<Rightarrow> user \<Rightarrow> (('v, 'k, 'g) app_world, unit) prog" where
  "sync_apps_route env current_user =
     bnd (lift_result (require_role ADMIN current_user)) (\<lambda>_. sync_from_k8s env)"

definition changed_fields :: "app_update \<Rightarrow> json list" where
  "changed_fields p =
     map (\<lambda>(k, _). JStr k) (filter snd
       [(''name'', au_name p \<noteq> None), (''description'', au_description p \<noteq> None), (''repo_url'', au_repo_url p \<noteq> None),
        (''owner'', au_owner p \<noteq> None), (''origin'', au_origin p \<noteq> None), (''framework'', au_framework p \<noteq> None),
        (''last_known_status'', au_last_known_status p \<noteq> None), (''target_cluster_id'', au_target_cluster_id p \<noteq> None)])"

definition update_app_route ::
  "('v, 'k, 'g) app_env \<Rightarrow> user \<Rightarrow> int \<Rightarrow> app_update \<Rightarrow> (('v, 'k, 'g) app_world, application) prog" where
  "update_app_route env current_user aid p =
     bnd (lift_result (require_role ADMIN current_user)) (\<lambda>u.
     bnd (update_app aid p) (\<lambda>_.
     bnd (app_now aid) (\<lambda>app.
     bnd (announce env u ''app.updated'' APP_UPDATED ''info'' (Some aid)
            [(''name'', JStr (app_name app)), (''changed'', JArr (changed_fields p))]) (\<lambda>_. ret app))))"

text \<open>\<open>hmac.compare_digest\<close> refuses text outside ASCII with a \<open>TypeError\<close>.\<close>

definition verify_ci_callback_token :: "string option \<Rightarrow> string option \<Rightarrow> exc + unit" where
  "verify_ci_callback_token configured header =
     (if \<not> truthy_str configured then Inl (HTTPException 503)
      else if \<not> truthy_str header then Inl (HTTPException 401)
      else if \<exists>c \<in> set (the header @ the configured). (of_char c :: nat) \<ge> 128 then Inl TypeError
      else if header \<noteq> configured then Inl (HTTPException 401)
      else Inr ())"

definition update_ci_status_route ::
  "('v, 'k, 'g) app_env \<Rightarrow> string option \<Rightarrow> int \<Rightarrow> ci_status_update \<Rightarrow> (('v, 'k, 'g) app_world, application) prog" where
  "update_ci_status_route env header aid p =
     bnd (lift_result (verify_ci_callback_token (ae_callback_token env) header)) (\<lambda>_.
     bnd (update_ci_status (ae_alert env) aid p) (\<lambda>_. app_now aid))"

definition delete_app_route :: "('v, 'k, 'g) app_env \<Rightarrow> user \<Rightarrow> int \<Rightarrow> (('v, 'k, 'g) app_world, unit) prog" where
  "delete_app_route env current_user aid =
     bnd (in_sess (require_tier MAINTAINER (Some (string_of_int aid)) current_user)) (\<lambda>u.
     bnd (find_app aid) (\<lambda>app.
     bnd (delete_app env aid) (\<lambda>_.
       announce env u ''app.deleted'' APP_DELETED ''warning'' None [(''name'', JStr (app_name app))])))"

definition toggle_expose_route ::
  "('v, 'k, 'g) app_env \<Rightarrow> user \<Rightarrow> int \<Rightarrow> bool \<Rightarrow> (('v, 'k, 'g) app_world, application) prog" where
  "toggle_expose_route env current_user aid expose =
     bnd (in_sess (require_tier MAINTAINER (Some (string_of_int aid)) current_user)) (\<lambda>u.
     bnd (update_expose env aid expose) (\<lambda>_.
     bnd (app_now aid) (\<lambda>app.
     bnd (announce env u ''app.expose.changed'' APP_EXPOSE_CHANGED ''info'' (Some aid)
            [(''name'', JStr (app_name app)), (''expose'', JBool expose)]) (\<lambda>_. ret app))))"

record member_read =
  mr_cnp_user_id :: "int option"
  mr_display_name :: "string option"
  mr_access_level :: int
  mr_tier_cnp :: cnp_tier
  mr_status :: member_status

definition read_member :: "app_member \<Rightarrow> string option \<Rightarrow> member_read" where
  "read_member m display =
     \<lparr>mr_cnp_user_id = am_cnp_user_id m, mr_display_name = display, mr_access_level = am_access_level m,
      mr_tier_cnp = access_level_to_tier (am_access_level m), mr_status = am_status m\<rparr>"

definition email_of :: "int option \<Rightarrow> database \<Rightarrow> string option" where
  "email_of cnp_user_id d =
     (case cnp_user_id of None \<Rightarrow> None | Some i \<Rightarrow> map_option usr_email (get_user_row i d))"

definition list_app_members_route :: "user \<Rightarrow> int \<Rightarrow> (('v, 'k, 'g) app_world, member_read list) prog" where
  "list_app_members_route current_user aid =
     bnd (in_sess (require_tier VIEWER (Some (string_of_int aid)) current_user)) (\<lambda>_.
       read_db (\<lambda>d. case get_application aid d of
         None \<Rightarrow> []
       | Some app \<Rightarrow>
           if \<not> truthy_id (app_gitlab_project_id app) then []
           else map (\<lambda>m. read_member m (email_of (am_cnp_user_id m) d))
                  (select_rows (\<lambda>m. Some (am_project_id m) = app_gitlab_project_id app) (app_members d))))"

definition add_app_member_route ::
  "('v, 'k, 'g) app_env \<Rightarrow> user \<Rightarrow> int \<Rightarrow> int \<Rightarrow> int \<Rightarrow> (('v, 'k, 'g) app_world, member_read option) prog" where
  "add_app_member_route env current_user aid gitlab_user_id access_level =
     bnd (in_sess (require_tier MAINTAINER (Some (string_of_int aid)) current_user)) (\<lambda>_.
     bnd (add_member env aid gitlab_user_id access_level) (\<lambda>member.
       read_db (\<lambda>d. map_option (\<lambda>m. read_member m
         (if truthy_id (am_cnp_user_id m) then email_of (am_cnp_user_id m) d else None)) member)))"

definition invite_app_member_route ::
  "('v, 'k, 'g) app_env \<Rightarrow> user \<Rightarrow> int \<Rightarrow> string \<Rightarrow> int \<Rightarrow> (('v, 'k, 'g) app_world, member_read option) prog" where
  "invite_app_member_route env current_user aid email access_level =
     bnd (in_sess (require_tier MAINTAINER (Some (string_of_int aid)) current_user)) (\<lambda>_.
     bnd (invite_member env aid email access_level) (\<lambda>member.
       ret (map_option (\<lambda>m. (read_member m (Some email))\<lparr>mr_cnp_user_id := None\<rparr>) member)))"

definition get_my_access_route :: "user \<Rightarrow> int \<Rightarrow> (('v, 'k, 'g) app_world, cnp_tier \<times> bool) prog" where
  "get_my_access_route current_user aid =
     bnd (read_db (get_effective_tier (usr_id current_user) aid)) (\<lambda>tier. ret (tier, is_admin current_user))"

end
