(* ===== verification/App_Outcome.thy ===== *)
theory App_Outcome
  imports App_Service
begin

text \<open>
  What the operations of App_Service.thy leave behind, whatever GitLab, Vault, Keycloak and Kubernetes
  answer: a saved application stays saved, a deletion completes and spares the other applications,
  an update never targets a cluster that is down, memberships mirror GitLab.
\<close>

section \<open>Programs that leave the session alone\<close>

lemma on_id_apply [prog_simps]: "on_id m w = (fst (m (idw w)), w\<lparr>idw := snd (m (idw w))\<rparr>)"
  by (simp add: on_id_def split: prod.split)

lemma on_git_apply [prog_simps]: "on_git m w = (fst (m (gitw w)), w\<lparr>gitw := snd (m (gitw w))\<rparr>)"
  by (simp add: on_git_def split: prod.split)

lemma in_sess_apply [prog_simps]:
  "in_sess m w = (fst (m (app_sess w)), w\<lparr>idw := (idw w)\<lparr>sess := snd (m (app_sess w))\<rparr>\<rparr>)"
  by (simp add: in_sess_def app_sess_def prog_simps)

lemma read_db_apply [prog_simps]: "read_db f w = (Inr (f (db (app_sess w))), w)"
  by (simp add: read_db_def app_sess_def prog_simps)

lemma app_sess_simps [simp]:
  "app_sess (w\<lparr>idw := i\<rparr>) = sess i" "app_sess (w\<lparr>gitw := g\<rparr>) = app_sess w" "sess (idw w) = app_sess w"
  by (simp_all add: app_sess_def)

text \<open>The steps that raise nothing and write nothing to the database.\<close>

definition quiet :: "(('v, 'k, 'g) app_world, unit) prog \<Rightarrow> bool" where
  "quiet m \<longleftrightarrow> (\<forall>w. fst (m w) = Inr () \<and> app_sess (snd (m w)) = app_sess w)"

lemma quiet_step:
  assumes "quiet m"
  obtains w1 where "app_sess w1 = app_sess w" and "m w = (Inr (), w1)" and "bnd m k w = k () w1"
proof
  show run: "m w = (Inr (), snd (m w))" using assms by (metis prod.collapse quiet_def)
  show "bnd m k w = k () (snd (m w))" using run by (rule bnd_step)
  show "app_sess (snd (m w)) = app_sess w" using assms by (simp add: quiet_def)
qed

lemma quiet_ret: "quiet (ret ())"
  by (simp add: quiet_def prog_simps)

lemma quiet_if: "quiet a \<Longrightarrow> quiet b \<Longrightarrow> quiet (if c then a else b)"
  by simp

definition keeps_session :: "(('v, 'k, 'g) app_world, 'a) prog \<Rightarrow> bool" where
  "keeps_session m \<longleftrightarrow> (\<forall>s. keeps (\<lambda>w. app_sess w = s) m)"

lemma keeps_sessionI: "(\<And>s. keeps (\<lambda>w. app_sess w = s) m) \<Longrightarrow> keeps_session m"
  by (simp add: keeps_session_def)

lemma keeps_on_git [keeps_intros]: "keeps (\<lambda>w. app_sess w = s) (on_git m)"
  by (rule keepsI) (simp add: prog_simps)

lemma keeps_read_db [keeps_intros]: "keeps P (read_db f)"
  by (rule keepsI) (simp add: prog_simps)

lemma keeps_on_id: "keeps (\<lambda>i. sess i = s) m \<Longrightarrow> keeps (\<lambda>w. app_sess w = s) (on_id m)"
  by (simp add: keeps_def prog_simps)

lemma keeps_project_path [keeps_intros]: "keeps P (project_path_of env u)"
  unfolding project_path_of_def by (rule keeps_lift)

lemma quiet_best_effort: "keeps_session m \<Longrightarrow> quiet (best_effort m)"
  by (simp add: quiet_def prog_simps keeps_session_def keeps_def)

lemma quiet_on_id:
  assumes "\<And>i. fst (m i) = Inr ()" and "\<And>s. keeps (\<lambda>i. sess i = s) m"
  shows "quiet (on_id m)"
  using assms by (simp add: quiet_def prog_simps keeps_def)

lemmas app_steps = keeps_bnd keeps_read_db keeps_project_path keeps_for_each keeps_best_effort keeps_on_git

lemma quiet_externalsecrets: "quiet (push_externalsecrets_to_gitops env app c)"
  unfolding push_externalsecrets_to_gitops_def
  by (rule quiet_best_effort) (rule keeps_sessionI, (rule app_steps)+)

lemma quiet_ingress: "quiet (push_ingress_to_gitops env slug c)"
  unfolding push_ingress_to_gitops_def by (rule quiet_best_effort) (rule keeps_sessionI, (rule app_steps)+)

lemma quiet_clean_gitops: "quiet (clean_gitops env app c)"
  unfolding clean_gitops_def
  by (rule quiet_if[OF quiet_best_effort quiet_ret]) (rule keeps_sessionI, (rule app_steps)+)

lemma quiet_clean_repository: "quiet (clean_repository env app)"
  unfolding clean_repository_def
  by (rule quiet_if[OF quiet_best_effort quiet_ret]) (rule keeps_sessionI, (rule app_steps)+)

lemma quiet_clean_vault: "quiet (clean_vault env app)"
  unfolding clean_vault_def
  by (rule quiet_best_effort) (rule keeps_sessionI, (rule app_steps keeps_on_id keeps_sess_on_vault)+)

lemma deprovision_sess: "keeps (\<lambda>i. sess i = s) (deprovision cfg app)"
  unfolding deprovision_def with_keycloak_def if_owned_def get_owned_realm_def by (intro keeps_intros)

lemma quiet_deprovision: "quiet (on_id (deprovision cfg app))"
  by (intro quiet_on_id deprovision_never_raises deprovision_sess)

section \<open>Deletion\<close>

text \<open>
  C29: A deletion completes: whatever GitLab, Vault and Keycloak answer, it returns normally and has
  committed a database without the application and its scale states, and otherwise as before.
\<close>

theorem delete_app_completes:
  fixes w :: "('v, 'k, 'g) app_world"
  assumes "get_application aid (db (app_sess w)) = Some app" and "delete_app env aid w = (r, w')"
  shows "r = Inr () \<and> app_sess w' = open_session (remove_app aid (db (app_sess w)))
    \<and> get_application aid (saved (app_sess w')) = None"
proof -
  define c where "c = resolve_cluster_name (app_target_cluster_id app) (db (app_sess w))"
  define rest :: "(('v, 'k, 'g) app_world, unit) prog" where "rest = bnd (alter_db (remove_app aid)) (\<lambda>_. commit_app)"
  have found: "find_app aid w = (Inr app, w)" using assms(1) by (simp add: find_app_def prog_simps)
  have "delete_app env aid w =
      bnd (clean_gitops env app c) (\<lambda>_. bnd (clean_repository env app) (\<lambda>_. bnd (clean_vault env app) (\<lambda>_.
      bnd (if app_auth_enabled app then on_id (deprovision (ae_identity env) app) else ret ()) (\<lambda>_. rest)))) w"
    unfolding delete_app_def rest_def c_def
    by (subst bnd_step[of "find_app aid", OF found], subst bnd_step[of "read_db _", OF read_db_apply], rule refl)
  moreover obtain w1 where w1: "app_sess w1 = app_sess w" "bnd (clean_gitops env app c) (\<lambda>_. bnd (clean_repository env app) (\<lambda>_. bnd (clean_vault env app) (\<lambda>_.
      bnd (if app_auth_enabled app then on_id (deprovision (ae_identity env) app) else ret ()) (\<lambda>_. rest)))) w =
      bnd (clean_repository env app) (\<lambda>_. bnd (clean_vault env app) (\<lambda>_.
      bnd (if app_auth_enabled app then on_id (deprovision (ae_identity env) app) else ret ()) (\<lambda>_. rest))) w1"
    by (rule quiet_step[OF quiet_clean_gitops, of w env app c])
  moreover obtain w2 where w2: "app_sess w2 = app_sess w1" "bnd (clean_repository env app) (\<lambda>_. bnd (clean_vault env app) (\<lambda>_.
      bnd (if app_auth_enabled app then on_id (deprovision (ae_identity env) app) else ret ()) (\<lambda>_. rest))) w1 =
      bnd (clean_vault env app) (\<lambda>_.
      bnd (if app_auth_enabled app then on_id (deprovision (ae_identity env) app) else ret ()) (\<lambda>_. rest)) w2"
    by (rule quiet_step[OF quiet_clean_repository, of w1 env app])
  moreover obtain w3 where w3: "app_sess w3 = app_sess w2" "bnd (clean_vault env app) (\<lambda>_.
      bnd (if app_auth_enabled app then on_id (deprovision (ae_identity env) app) else ret ()) (\<lambda>_. rest)) w2 =
      bnd (if app_auth_enabled app then on_id (deprovision (ae_identity env) app) else ret ()) (\<lambda>_. rest) w3"
    by (rule quiet_step[OF quiet_clean_vault, of w2 env app])
  moreover obtain w4 where w4: "app_sess w4 = app_sess w3"
      "bnd (if app_auth_enabled app then on_id (deprovision (ae_identity env) app) else ret ()) (\<lambda>_. rest) w3 = rest w4"
    by (rule quiet_step[OF quiet_if[OF quiet_deprovision quiet_ret], of w3 "app_auth_enabled app" "ae_identity env" app])
  ultimately have "delete_app env aid w = rest w4" "app_sess w4 = app_sess w" by simp_all
  moreover have "rest w4 = (Inr (), w4\<lparr>idw := (idw w4)\<lparr>sess := open_session (remove_app aid (db (app_sess w4)))\<rparr>\<rparr>)"
    by (cases "app_sess w4") (simp add: rest_def prog_simps alter_db_def commit_app_def commit_def open_session_def)
  ultimately have "r = Inr ()" "app_sess w' = open_session (remove_app aid (db (app_sess w)))" using assms(2) by auto
  moreover have "get_application aid (remove_app aid d) = None" for d
    by (auto simp: get_application_def remove_app_def find_row_None table_simps)
  ultimately show ?thesis by (simp add: open_session_def)
qed

section \<open>Creation\<close>

lemma app_now_apply [prog_simps]:
  "app_now aid w = (case get_application aid (db (app_sess w)) of None \<Rightarrow> (Inl AttributeError, w) | Some a \<Rightarrow> (Inr a, w))"
  by (simp add: app_now_def app_object_def prog_simps split: option.split)

lemma set_app_apply [prog_simps]:
  "set_app aid f i = (Inr (), i\<lparr>sess := (sess i)\<lparr>db := update_application aid f (db (sess i))\<rparr>\<rparr>)"
  by (simp add: set_app_def prog_simps)

lemma commit_app_apply [prog_simps]: "commit_app w = (Inr (), w\<lparr>idw := (idw w)\<lparr>sess := commit (app_sess w)\<rparr>\<rparr>)"
  by (simp add: commit_app_def prog_simps)

lemma commit_written [simp]: "commit (s\<lparr>db := d\<rparr>) = open_session d"
  by (cases s) (simp add: commit_def open_session_def)

lemma open_session_db [simp]: "db (open_session d) = d" "saved (open_session d) = d"
  by (simp_all add: open_session_def)

lemma on_git_sess: "on_git m w = (r, w1) \<Longrightarrow> app_sess w1 = app_sess w"
  by (auto simp: prog_simps)

text \<open>The attempt to inject the pipeline: it always tells whether it succeeded.\<close>

definition attempted_injection :: "('v, 'k, 'g) app_env \<Rightarrow> injection \<Rightarrow> (('v, 'k, 'g) app_world, bool) prog" where
  "attempted_injection env job =
     try_except
       (bnd (on_git (inject_ci (gl_of env) (cfg_of env) (yaml_of env) (ip_literal_ok (ae_identity env)) (ae_timestamp env) job))
         (\<lambda>_. ret True))
       (\<lambda>_. ret False)"

lemma attempted_injection_tells:
  obtains b w1 where "attempted_injection env job w = (Inr b, w1)" and "app_sess w1 = app_sess w"
proof -
  obtain r w1 where run: "on_git (inject_ci (gl_of env) (cfg_of env) (yaml_of env) (ip_literal_ok (ae_identity env))
      (ae_timestamp env) job) w = (r, w1)" by fastforce
  show thesis
  proof (rule that)
    show "attempted_injection env job w = (Inr (case r of Inl _ \<Rightarrow> False | Inr _ \<Rightarrow> True), w1)"
      unfolding attempted_injection_def by (simp only: try_apply bnd_apply run) (simp add: prog_simps split: sum.split)
    show "app_sess w1 = app_sess w" by (rule on_git_sess[OF run])
  qed
qed

text \<open>What the row becomes: only the outcome of the injection is recorded.\<close>

definition with_injection :: "bool \<Rightarrow> int \<Rightarrow> bool \<Rightarrow> database \<Rightarrow> database" where
  "with_injection attempted aid b d =
     (if attempted then update_application aid (\<lambda>a. a\<lparr>app_ci_injected := Some b\<rparr>) d else d)"

lemma after_save_outcome:
  fixes w :: "('v, 'k, 'g) app_world"
  assumes row: "get_application aid (db (app_sess w)) = Some app" and clean: "saved (app_sess w) = db (app_sess w)"
  obtains b w' where "after_save env aid skip_ci w = (Inr (), w')"
    and "app_sess w' = open_session (with_injection (wants_ci env skip_ci app) aid b (db (app_sess w)))"
proof -
  define c where "c = resolve_cluster_name (app_target_cluster_id app) (db (app_sess w))"
  define push :: "application \<Rightarrow> (('v, 'k, 'g) app_world, unit) prog" where
    "push = (\<lambda>a. if has_bot env \<and> gitops_on env then push_externalsecrets_to_gitops env a c else ret ())"
  have quiet_push: "quiet (push a)" for a
    unfolding push_def by (rule quiet_if[OF quiet_externalsecrets quiet_ret])
  have tail: "\<exists>w'. bnd (app_now aid) push w1 = (Inr (), w') \<and> app_sess w' = app_sess w1"
    if "get_application aid (db (app_sess w1)) = Some a" for w1 a
  proof -
    have now: "app_now aid w1 = (Inr a, w1)" using that by (simp add: prog_simps)
    have step: "bnd (app_now aid) push w1 = push a w1" using now by (rule bnd_step)
    have "push a w1 = (Inr (), snd (push a w1)) \<and> app_sess (snd (push a w1)) = app_sess w1"
      using quiet_push[of a] by (metis prod.collapse quiet_def)
    then show ?thesis unfolding step by blast
  qed
  have run: "after_save env aid skip_ci w =
      bnd (if wants_ci env skip_ci app then
             bnd (attempted_injection env (injection_of env app c)) (\<lambda>injected.
             bnd (on_id (set_app aid (\<lambda>a. a\<lparr>app_ci_injected := Some injected\<rparr>))) (\<lambda>_. commit_app))
           else ret ()) (\<lambda>_. bnd (app_now aid) push) w"
    unfolding after_save_def push_def c_def attempted_injection_def
    by (subst bnd_step[of "app_now aid" w app w], simp add: prog_simps row,
        subst bnd_step[of "read_db _", OF read_db_apply], rule refl)
  show thesis
  proof (cases "wants_ci env skip_ci app")
    case False
    from tail[OF row] obtain w' where "bnd (app_now aid) push w = (Inr (), w')" "app_sess w' = app_sess w" by blast
    with False run clean show thesis
      by (intro that[of w' False]) (simp_all add: with_injection_def open_session_def prog_simps)
  next
    case True
    obtain b w1 where inj: "attempted_injection env (injection_of env app c) w = (Inr b, w1)" "app_sess w1 = app_sess w"
      by (rule attempted_injection_tells)
    define d where "d = update_application aid (\<lambda>a. a\<lparr>app_ci_injected := Some b\<rparr>) (db (app_sess w))"
    define w2 where "w2 = w1\<lparr>idw := (idw w1)\<lparr>sess := open_session d\<rparr>\<rparr>"
    have w2: "app_sess w2 = open_session d" by (simp add: w2_def)
    have "after_save env aid skip_ci w = bnd (app_now aid) push w2"
      unfolding run using True inj
      by (simp add: bnd_apply on_id_apply set_app_apply commit_app_apply d_def w2_def)
    moreover have "get_application aid (db (app_sess w2)) = Some (app\<lparr>app_ci_injected := Some b\<rparr>)"
      by (simp add: w2 open_session_def d_def get_update_application row)
    ultimately obtain w' where "after_save env aid skip_ci w = (Inr (), w')" "app_sess w' = app_sess w2"
      using tail by metis
    with True w2 show thesis by (intro that[of w' b]) (simp_all add: with_injection_def d_def)
  qed
qed

definition with_new_row :: "(int \<Rightarrow> application) \<Rightarrow> database \<Rightarrow> database" where
  "with_new_row mk d = d\<lparr>applications := insert_row mk (applications d)\<rparr>"

lemma save_app_run:
  fixes w :: "('v, 'k, 'g) app_world"
  obtains w1 :: "('v, 'k, 'g) app_world" where "app_sess w1 = (app_sess w)\<lparr>db := with_new_row mk (db (app_sess w))\<rparr>"
    and "save_app env mk project_path skip_ci w =
      bnd (try_except commit_valid (\<lambda>_.
            bnd (if truthy_str project_path
                 then on_git (cleanup_project (ae_scaffold env) (the project_path)) else ret ())
              (\<lambda>_. raise_exc (HTTPException 500)))) (\<lambda>_.
      bnd (after_save env (seq (applications (db (app_sess w)))) skip_ci)
        (\<lambda>_. ret (seq (applications (db (app_sess w)))))) w1"
proof
  let ?w1 = "w\<lparr>idw := (idw w)\<lparr>sess := (app_sess w)\<lparr>db := with_new_row mk (db (app_sess w))\<rparr>\<rparr>\<rparr>"
  show "app_sess ?w1 = (app_sess w)\<lparr>db := with_new_row mk (db (app_sess w))\<rparr>" by simp
  have "alter_db (\<lambda>d. d\<lparr>applications := insert_row mk (applications d)\<rparr>) w = (Inr (), ?w1)"
    by (simp add: alter_db_def prog_simps with_new_row_def)
  then show "save_app env mk project_path skip_ci w =
      bnd (try_except commit_valid (\<lambda>_.
            bnd (if truthy_str project_path
                 then on_git (cleanup_project (ae_scaffold env) (the project_path)) else ret ())
              (\<lambda>_. raise_exc (HTTPException 500)))) (\<lambda>_.
      bnd (after_save env (seq (applications (db (app_sess w)))) skip_ci)
        (\<lambda>_. ret (seq (applications (db (app_sess w)))))) ?w1"
    unfolding save_app_def
    by (subst bnd_step[of "read_db _", OF read_db_apply], intro bnd_step)
qed

text \<open>
  C28: A creation ends in one of two ways. When the new row breaks a constraint (a slug or a repository
  address that another application has, a target cluster that does not exist) it answers 500 and the
  committed database is as before; otherwise it succeeds and the row is committed, whatever happens to
  the pipeline and to the gitops repository afterwards, with no other trace than \<open>ci_injected\<close>.
\<close>

theorem save_app_commits_or_answers_500:
  fixes w :: "('v, 'k, 'g) app_world"
  assumes run: "save_app env mk project_path skip_ci w = (r, w')" and before: "db (app_sess w) = d"
    and ids: "\<And>i. app_id (mk i) = i" and fresh: "get_application (seq (applications d)) d = None"
  shows "if apps_valid (with_new_row mk d)
    then r = Inr (seq (applications d))
      \<and> (\<exists>b. app_sess w' = open_session (with_injection (wants_ci env skip_ci (mk (seq (applications d))))
           (seq (applications d)) b (with_new_row mk d)))
    else r = Inl (HTTPException 500) \<and> saved (app_sess w') = saved (app_sess w)"
proof -
  let ?aid = "seq (applications d)"
  obtain w1 :: "('v, 'k, 'g) app_world" where w1: "app_sess w1 = (app_sess w)\<lparr>db := with_new_row mk d\<rparr>"
    and main: "save_app env mk project_path skip_ci w =
      bnd (try_except commit_valid (\<lambda>_.
            bnd (if truthy_str project_path
                 then on_git (cleanup_project (ae_scaffold env) (the project_path)) else ret ())
              (\<lambda>_. raise_exc (HTTPException 500)))) (\<lambda>_.
      bnd (after_save env ?aid skip_ci) (\<lambda>_. ret ?aid)) w1"
    using save_app_run[where w = w and mk = mk and env = env and project_path = project_path and skip_ci = skip_ci]
    unfolding before by blast
  show ?thesis
  proof (cases "apps_valid (with_new_row mk d)")
    case False
    with main run w1 show ?thesis
      by (auto simp: prog_simps commit_valid_def cleanup_project_def split: if_splits sum.splits)
  next
    case True
    define w2 where "w2 = w1\<lparr>idw := (idw w1)\<lparr>sess := open_session (with_new_row mk d)\<rparr>\<rparr>"
    have w2: "app_sess w2 = open_session (with_new_row mk d)" by (simp add: w2_def)
    have ok: "commit_valid w1 = (Inr (), w2)"
      using True w1 by (simp add: commit_valid_def prog_simps w2_def)
    have row: "get_application ?aid (db (app_sess w2)) = Some (mk ?aid)"
      using fresh ids by (simp add: w2 open_session_def get_application_def with_new_row_def find_insert_row)
    have clean: "saved (app_sess w2) = db (app_sess w2)" by (simp add: w2 open_session_def)
    obtain b w3 where w3: "after_save env ?aid skip_ci w2 = (Inr (), w3)"
      "app_sess w3 = open_session (with_injection (wants_ci env skip_ci (mk ?aid)) ?aid b (with_new_row mk d))"
      using after_save_outcome[OF row clean, where env = env and skip_ci = skip_ci] unfolding w2
      by (metis open_session_db)
    then have "save_app env mk project_path skip_ci w = (Inr ?aid, w3)" unfolding main by (simp add: prog_simps ok)
    with run True w3(2) show ?thesis by auto
  qed
qed

section \<open>Updates\<close>

text \<open>
  An update retargets an application to a cluster that the database knows and that is not offline,
  or keeps its target; an explicit null clears it.
\<close>

theorem update_app_never_targets_offline_cluster:
  assumes "update_app aid p w = (Inr (), w')" and "get_application aid (db (app_sess w)) = Some app"
    and "get_application aid (saved (app_sess w')) = Some app'" and "app_target_cluster_id app' = Some c"
  shows "app_target_cluster_id app = Some c
    \<or> (\<exists>cluster. get_cluster_row c (db (app_sess w)) = Some cluster \<and> cl_status cluster \<noteq> OFFLINE)"
proof -
  have found: "find_app aid w = (Inr app, w)" using assms(2) by (simp add: find_app_def prog_simps)
  have run: "update_app aid p w =
      bnd (lift_result (check_target p app (db (app_sess w)))) (\<lambda>_.
      bnd (on_id (set_app aid (assign p))) (\<lambda>_.
        if nulls_required p then raise_exc IntegrityError else commit_valid)) w"
    unfolding update_app_def
    by (subst bnd_step[of "find_app aid", OF found], subst bnd_step[of "read_db _", OF read_db_apply], rule refl)
  have checked: "check_target p app (db (app_sess w)) = Inr ()"
    using assms(1) unfolding run by (cases "check_target p app (db (app_sess w))") (simp_all add: prog_simps)
  moreover have "app_sess w' = open_session (update_application aid (assign p) (db (app_sess w)))"
    using assms(1) unfolding run checked by (auto simp: prog_simps commit_valid_def split: if_splits)
  ultimately have "app' = assign p app"
    using assms(2,3) by (simp add: get_update_application assign_def)
  then have "given (au_target_cluster_id p) (app_target_cluster_id app) = Some c"
    using assms(4) by (simp add: assign_def)
  with checked show ?thesis
    by (auto simp: check_target_def given_def split: option.splits if_splits)
qed

text \<open>
  The callback of a pipeline sets the two statuses of its application and announces a deployment
  exactly when a successful run changes the status: with no explicit status, a first success makes an
  application under onboarding READY and no other report moves it.
\<close>

theorem update_ci_status_announces_transition:
  assumes "update_ci_status alert aid p w = (r, w')" and "get_application aid (db (app_sess w)) = Some app"
    and "app' = app\<lparr>app_last_pipeline_status := Some (cs_pipeline_status p),
                    app_last_known_status := ci_status_after p (app_last_known_status app)\<rparr>"
  shows "r = Inr () \<and> get_application aid (saved (app_sess w')) = Some app'
    \<and> rows (events (saved (app_sess w'))) = rows (events (db (app_sess w))) @
        (if cs_pipeline_status p = ''success'' \<and> app_last_known_status app' \<noteq> app_last_known_status app
         then [make_event alert APP_DEPLOYED ''info'' ''ci'' (Some aid)
                 [(''name'', JStr (app_name app)), (''pipeline_status'', JStr ''success'')]
                 (seq (events (db (app_sess w))))]
         else [])"
proof -
  let ?f = "\<lambda>a. a\<lparr>app_last_pipeline_status := Some (cs_pipeline_status p),
                app_last_known_status := ci_status_after p (app_last_known_status a)\<rparr>"
  let ?d = "update_application aid ?f (db (app_sess w))"
  have id: "app_id app = aid" using get_application_Some[OF assms(2)] by simp
  have row: "get_application aid ?d = Some app'" using assms(2,3) by (simp add: get_update_application)
  have kept: "get_application i' (emit_db alert ty sev src i pl actor d) = get_application i' d" for i' ty sev src i pl actor d
    by (simp add: get_application_def)
  show ?thesis
    using assms(1) row id unfolding assms(3)
    by (auto simp: update_ci_status_def find_app_def prog_simps assms(2) kept emit_db_events split: if_splits)
qed

section \<open>Members\<close>

lemma revoke_member_sess: "keeps (\<lambda>i. sess i = s) (revoke_member cfg app u)"
  unfolding revoke_member_def with_keycloak_def if_owned_def get_owned_realm_def by (intro keeps_intros)

lemma quiet_revocation:
  fixes w :: "('v, 'k, 'g) app_world"
  assumes "app_sess w = open_session d"
  obtains w1 :: "('v, 'k, 'g) app_world" where "app_sess w1 = open_session d"
    and "on_id (revoke_console_access_if_not_maintainer cfg app u) w = (Inr (), w1)"
proof -
  have "keeps (\<lambda>i. sess i = open_session d) commit_world"
    by (rule keepsI) (simp add: commit_world_def prog_simps commit_def open_session_def)
  then have kept: "keeps (\<lambda>i. sess i = open_session d) (revoke_console_access_if_not_maintainer cfg app u)"
    unfolding revoke_console_access_if_not_maintainer_def
    by (intro keeps_if keeps_ret keeps_best_effort keeps_bnd revoke_member_sess keeps_from_db)
  have "fst (revoke_console_access_if_not_maintainer cfg app u i) = Inr ()" for i
    by (simp add: revoke_console_access_if_not_maintainer_def prog_simps)
  with keepsD[OF kept, of "idw w"] assms show thesis by (intro that) (simp_all add: prog_simps)
qed

lemma alter_commit:
  "bnd (alter_db f) (\<lambda>_. bnd commit_app k) w = k () (w\<lparr>idw := (idw w)\<lparr>sess := open_session (f (db (app_sess w)))\<rparr>\<rparr>)"
  by (simp add: alter_db_def prog_simps)

lemma stored_member:
  "\<exists>m. member_row pid g (store_member pid g level d) = Some m \<and> am_project_id m = pid
     \<and> am_user_id m = Some g \<and> am_access_level m = level \<and> am_status m = ACTIVE"
proof (cases "member_row pid g d")
  case None
  then show ?thesis
    by (simp add: member_row_def store_member_def find_insert_row new_member_def Let_def)
next
  case (Some m)
  then have "am_project_id m = pid" "am_user_id m = Some g"
    unfolding member_row_def using find_row_Some[of _ "app_members d" m] by auto
  moreover have "find_row (\<lambda>m. am_project_id m = pid \<and> am_user_id m = Some g)
      (update_rows (\<lambda>r. am_id r = am_id m) (activated level (user_by_gitlab g d)) (app_members d))
    = Some (activated level (user_by_gitlab g d) m)"
    using Some by (subst find_update_stable) (simp_all add: activated_def member_row_def)
  ultimately show ?thesis
    using Some by (simp add: member_row_def store_member_def set_app_member_def activated_def Let_def)
qed

text \<open>
  A member is added in GitLab first: when GitLab refuses, the request answers 422 and the database
  is untouched; when it accepts, the request succeeds whatever Keycloak answers, and the committed
  mirror has the member active at the level that GitLab was given.
\<close>

theorem add_member_follows_gitlab:
  fixes w :: "('v, 'k, 'g) app_world"
  assumes run: "add_member env aid g level w = (r, w')" and linked: "linked_project env aid w = (Inr (app, pid), w)"
  shows "case fst (add_project_member (gl_of env) pid g level (gitw w)) of
      Inl _ \<Rightarrow> r = Inl (HTTPException 422) \<and> app_sess w' = app_sess w
    | Inr _ \<Rightarrow> (\<exists>m. r = Inr (Some m) \<and> member_row pid g (saved (app_sess w')) = Some m
        \<and> am_access_level m = level \<and> am_status m = ACTIVE)"
proof (cases "fst (add_project_member (gl_of env) pid g level (gitw w))")
  case (Inl e)
  then have "on_git (or_http 422 (add_project_member (gl_of env) pid g level)) w =
      (Inl (HTTPException 422), w\<lparr>gitw := snd (add_project_member (gl_of env) pid g level (gitw w))\<rparr>)"
    by (cases "add_project_member (gl_of env) pid g level (gitw w)") (simp add: prog_simps or_http_def)
  with run Inl show ?thesis by (auto simp: add_member_def bnd_apply linked)
next
  case (Inr u)
  define d where "d = store_member pid g level (db (app_sess w))"
  define w1 where "w1 = w\<lparr>gitw := snd (add_project_member (gl_of env) pid g level (gitw w))\<rparr>"
  define w2 where "w2 = w1\<lparr>idw := (idw w1)\<lparr>sess := open_session d\<rparr>\<rparr>"
  obtain m where m: "member_row pid g d = Some m" "am_access_level m = level" "am_status m = ACTIVE"
    using stored_member unfolding d_def by metis
  have git: "on_git (or_http 422 (add_project_member (gl_of env) pid g level)) w = (Inr u, w1)"
    using Inr by (cases "add_project_member (gl_of env) pid g level (gitw w)") (simp add: prog_simps or_http_def w1_def)
  have same: "app_sess w1 = app_sess w" by (simp add: w1_def)
  have main: "add_member env aid g level w =
     bnd (if (case member_row pid g (db (app_sess w)) of None \<Rightarrow> False
              | Some m \<Rightarrow> loses_console_tier (am_status m) (am_access_level m) (Some level))
          then on_id (revoke_console_access_if_not_maintainer (ae_identity env) app (am_cnp_user_id m))
          else ret ()) (\<lambda>_. ret (Some m)) w2"
    unfolding add_member_def
    by (subst bnd_step[of "linked_project env aid", OF linked], unfold prod.case, subst bnd_step[of "on_git _", OF git],
        subst bnd_step[of "read_db _", OF read_db_apply], subst alter_commit,
        subst bnd_step[of "read_db _", OF read_db_apply])
      (simp add: same m(1)[unfolded d_def] w2_def d_def)
  have w2: "app_sess w2 = open_session d" by (simp add: w2_def)
  obtain w3 :: "('v, 'k, 'g) app_world" where w3: "app_sess w3 = open_session d"
    "on_id (revoke_console_access_if_not_maintainer (ae_identity env) app (am_cnp_user_id m)) w2 = (Inr (), w3)"
    using quiet_revocation[OF w2] by blast
  with main m run w2 Inr show ?thesis by (auto simp: bnd_apply ret_apply split: if_splits)
qed

section \<open>Exposure\<close>

text \<open>
  The exposure of an application changes in the database only when every environment of the gitops
  repository has its ingress; a refusal of either one leaves the database as it was.
\<close>

theorem update_expose_all_or_nothing:
  fixes w :: "('v, 'k, 'g) app_world"
  assumes "update_expose env aid expose w = (r, w')" and "get_application aid (db (app_sess w)) = Some app"
  shows "case r of Inl e \<Rightarrow> app_sess w' = app_sess w
    | Inr _ \<Rightarrow> get_application aid (saved (app_sess w')) = Some (app\<lparr>app_expose := Some expose\<rparr>)"
proof -
  have found: "find_app aid w = (Inr app, w)" using assms(2) by (simp add: find_app_def prog_simps)
  define c where "c = resolve_cluster_name (app_target_cluster_id app) (db (app_sess w))"
  define push :: "string \<Rightarrow> (('v, 'k, 'g) app_world, unit) prog" where "push = (\<lambda>path. for_each VALID_ENVS (\<lambda>env_name.
                on_git (or_http 502
                  (upsert_gitops_ingress (repos (gl_of env)) (yaml_of env) path (app_slug app) env_name expose
                     (if expose then app_hostname (app_slug app) env_name else '''') c ''main''))))"
  have kept: "app_sess (snd (push path w)) = app_sess w" for path
  proof -
    have "keeps (\<lambda>v. app_sess v = app_sess w) (push path)"
      unfolding push_def by (rule keeps_for_each, rule keeps_on_git)
    then show ?thesis by (rule keepsD) (rule refl)
  qed
  show ?thesis
  proof (cases "has_bot env \<and> gitops_on env")
    case False
    with assms(1) have "r = Inl (HTTPException 503) \<and> w' = w"
      unfolding update_expose_def by (subst (asm) bnd_step[of "find_app aid", OF found]) (auto simp: prog_simps)
    then show ?thesis by simp
  next
    case True
    have run: "update_expose env aid expose w =
        bnd (project_path_of env (GITOPS_REPO_URL (cfg_of env))) (\<lambda>path. bnd (push path) (\<lambda>_.
          bnd (on_id (set_app aid (\<lambda>a. a\<lparr>app_expose := Some expose\<rparr>))) (\<lambda>_. commit_app))) w"
      unfolding update_expose_def push_def c_def using True
      by (subst bnd_step[of "find_app aid", OF found])
        (simp, subst bnd_step[of "read_db _", OF read_db_apply], rule refl)
    show ?thesis
    proof (cases "extract_project_path (ip_literal_ok (ae_identity env)) (GITOPS_REPO_URL (cfg_of env))")
      case (Inl e)
      with assms(1) run have "r = Inl e \<and> w' = w" by (simp add: bnd_apply project_path_of_def lift_apply)
      then show ?thesis by simp
    next
      case (Inr path)
      then have "project_path_of env (GITOPS_REPO_URL (cfg_of env)) w = (Inr path, w)"
        by (simp add: project_path_of_def lift_apply)
      note run' = run[unfolded bnd_step[of "project_path_of env (GITOPS_REPO_URL (cfg_of env))", OF this]]
      show ?thesis
      proof (cases "push path w")
        case (Pair q w1)
        have w1: "app_sess w1 = app_sess w" using kept[of path] Pair by simp
        show ?thesis
        proof (cases q)
          case (Inl e)
          with assms(1) run' Pair w1 show ?thesis by (auto simp: bnd_apply)
        next
          case (Inr u)
          with assms(1,2) run' Pair w1 show ?thesis
            by (auto simp: prog_simps get_update_application)
        qed
      qed
    qed
  qed
qed

section \<open>Synchronisation with Kubernetes\<close>

definition synced_status :: "deployment \<Rightarrow> application_status \<Rightarrow> application_status" where
  "synced_status dep old =
     (if status_of_deployment dep = DEPLOYED \<or> old \<noteq> READY then status_of_deployment dep else old)"

lemma existing_by_name_row:
  assumes "existing_by_name d n = Some aid"
  obtains a where "a \<in> set (rows (applications d))" and "app_name a = n" and "app_id a = aid"
proof -
  obtain a as where "rev (select_rows (\<lambda>a. app_name a = n) (applications d)) = a # as" and id: "app_id a = aid"
    using assms by (auto simp: existing_by_name_def split: list.splits)
  then have "a \<in> set (select_rows (\<lambda>a. app_name a = n) (applications d))" by (metis list.set_intros(1) set_rev)
  then have "a \<in> set (rows (applications d))" "app_name a = n" by (simp_all add: table_simps)
  with id show thesis by (intro that)
qed

lemma existing_by_name_injective:
  assumes "unique_on app_id (applications d)" and "existing_by_name d n = Some aid" and "existing_by_name d m = Some aid"
  shows "n = m"
proof -
  obtain a b where "a \<in> set (rows (applications d))" "app_name a = n" "app_id a = aid"
    and "b \<in> set (rows (applications d))" "app_name b = m" "app_id b = aid"
    using assms(2,3) existing_by_name_row by metis
  with find_row_unique[OF assms(1), of a] find_row_unique[OF assms(1), of b] show ?thesis by simp
qed

lemma sync_one_other:
  assumes "ex (dep_name dep) \<noteq> Some aid" and "get_application aid d = Some a"
  shows "get_application aid (sync_one ex dep d) = Some a"
proof (cases "ex (dep_name dep)")
  case None
  with assms show ?thesis by (simp add: sync_one_def get_application_def find_insert_row)
next
  case (Some i)
  with assms show ?thesis
    by (simp add: sync_one_def get_application_def update_application_def)
      (subst find_update_other, auto)
qed

lemma sync_fold_other:
  assumes "\<forall>dep \<in> set deps. ex (dep_name dep) \<noteq> Some aid" and "get_application aid d = Some a"
  shows "get_application aid (fold (sync_one ex) deps d) = Some a"
  using assms by (induction deps arbitrary: d) (simp_all add: sync_one_other)

lemma sync_one_row:
  assumes "a \<in> set (rows (applications d))" and "ex (dep_name dep) \<noteq> Some (app_id a)"
  shows "a \<in> set (rows (applications (sync_one ex dep d)))"
  using assms by (auto simp: sync_one_def update_application_def table_simps image_iff split: option.split
    intro!: bexI[of _ a])

lemma sync_fold_row:
  assumes "a \<in> set (rows (applications d))" and "\<forall>dep \<in> set deps. ex (dep_name dep) \<noteq> Some (app_id a)"
  shows "a \<in> set (rows (applications (fold (sync_one ex) deps d)))"
  using assms by (induction deps arbitrary: d) (simp_all add: sync_one_row)

lemma sync_one_seq: "seq (applications d) \<le> seq (applications (sync_one ex dep d))"
  by (simp add: sync_one_def update_application_def insert_row_def update_rows_def split: option.split)

lemma sync_fold_seq: "seq (applications d) \<le> seq (applications (fold (sync_one ex) deps d))"
  by (induction deps arbitrary: d) (simp_all, meson order_trans sync_one_seq)

text \<open>
  A synchronisation that succeeds leaves, for every deployment of the clusters, an application with
  its name: a new one of origin \<open>kubernetes\<close> when the name was unknown, and otherwise the same one, whose
  status alone changes: a ready deployment makes it DEPLOYED, another one ONBOARDING unless its pipeline
  had made it READY.
\<close>

theorem sync_reports_the_cluster:
  assumes "sync_from_k8s env w = (Inr (), w')" and "db (app_sess w) = d"
    and "dep \<in> set (found_deployments env d)" and "distinct (map dep_name (found_deployments env d))"
    and "unique_on app_id (applications d)" and "\<forall>a \<in> set (rows (applications d)). app_id a < seq (applications d)"
  shows "case existing_by_name d (dep_name dep) of
      None \<Rightarrow> \<exists>i. synced_row dep i \<in> set (rows (applications (saved (app_sess w'))))
    | Some aid \<Rightarrow> \<exists>a. get_application aid d = Some a \<and> get_application aid (saved (app_sess w')) =
        Some (a\<lparr>app_last_known_status := synced_status dep (app_last_known_status a)\<rparr>)"
proof -
  let ?ex = "existing_by_name d"
  obtain xs ys where split: "found_deployments env d = xs @ dep # ys" using assms(3) by (metis split_list)
  have others: "dep_name x \<noteq> dep_name dep" if "x \<in> set xs \<union> set ys" for x
    using assms(4) that unfolding split by (auto simp: image_iff)
  have result: "saved (app_sess w') = fold (sync_one ?ex) ys (sync_one ?ex dep (fold (sync_one ?ex) xs d))"
    using assms(1,2) by (auto simp: sync_from_k8s_def prog_simps alter_db_def commit_valid_def split split: if_splits)
  show ?thesis
  proof (cases "?ex (dep_name dep)")
    case None
    let ?d = "fold (sync_one ?ex) xs d"
    have "synced_row dep (seq (applications ?d)) \<in> set (rows (applications (sync_one ?ex dep ?d)))"
      using None by (simp add: sync_one_def table_simps)
    moreover have "?ex n \<noteq> Some (seq (applications ?d))" for n
    proof
      assume "?ex n = Some (seq (applications ?d))"
      then obtain a where "a \<in> set (rows (applications d))" "app_id a = seq (applications ?d)"
        using existing_by_name_row by metis
      with assms(6) sync_fold_seq[of d ?ex xs] show False by auto
    qed
    moreover have "app_id (synced_row dep i) = i" for i by (simp add: synced_row_def blank_application_def)
    ultimately have "synced_row dep (seq (applications ?d)) \<in> set (rows (applications (saved (app_sess w'))))"
      unfolding result by (intro sync_fold_row) simp_all
    with None show ?thesis by auto
  next
    case (Some aid)
    have apart: "\<forall>x \<in> set xs \<union> set ys. ?ex (dep_name x) \<noteq> Some aid"
      using others existing_by_name_injective[OF assms(5) _ Some] by blast
    obtain a0 where "a0 \<in> set (rows (applications d))" "app_id a0 = aid" using existing_by_name_row[OF Some] by metis
    then obtain a where a: "get_application aid d = Some a"
      unfolding get_application_def by (metis (mono_tags, lifting) find_row_None not_Some_eq)
    have "get_application aid (fold (sync_one ?ex) xs d) = Some a"
      using apart a by (intro sync_fold_other) auto
    then have "get_application aid (sync_one ?ex dep (fold (sync_one ?ex) xs d)) =
        Some (a\<lparr>app_last_known_status := synced_status dep (app_last_known_status a)\<rparr>)"
      using Some by (simp add: sync_one_def get_update_application synced_status_def)
    then have "get_application aid (saved (app_sess w')) =
        Some (a\<lparr>app_last_known_status := synced_status dep (app_last_known_status a)\<rparr>)"
      unfolding result using apart by (intro sync_fold_other) auto
    with Some a show ?thesis by auto
  qed
qed

section \<open>Examples\<close>

definition shop :: application where
  "shop = (blank_application 1 ''Shop'' ''shop'' ''alice'')\<lparr>app_origin := Some ''scaffolded'',
     app_repo_url := Some ''https://gitlab.example/apps/shop'', app_gitlab_project_id := Some 9\<rparr>"

definition shop_db :: database where
  "shop_db = empty_database
     \<lparr>applications := \<lparr>rows = [shop], seq = 2\<rparr>,
      cluster_connections := \<lparr>rows = [(blank_cluster 1 ''gke'')\<lparr>cl_status := ONLINE\<rparr>,
        (blank_cluster 2 ''old'')\<lparr>cl_status := OFFLINE\<rparr>], seq = 3\<rparr>\<rparr>"

definition shop_hosting :: hosting where
  "shop_hosting = [(''cnp/gitops'', [(''main'', [])]), (''tpl/python'', [(''main'', [(''README.md'', ''hello'')])]),
     (''apps/shop'', [(''main'', [(''main.py'', ''precious'')])])]"

definition shop_world :: "((string \<times> dict) list, unit, hosting) app_world" where
  "shop_world = \<lparr>idw = demo_world\<lparr>sess := open_session shop_db\<rparr>, gitw = shop_hosting\<rparr>"

definition shop_alert :: alert_env where
  "shop_alert = \<lparr>sha256_hex = (\<lambda>s. s), py_repr = (\<lambda>_. ''''), clock = 0\<rparr>"

definition shop_env :: "((string \<times> dict) list, unit, hosting) app_env" where
  "shop_env =
     \<lparr>ae_identity = demo_identity_env,
      ae_scaffold = \<lparr>sc_gitlab = ref_projects, sc_settings = demo_ci_settings, sc_yaml = ref_yaml,
        sc_taken = (\<lambda>e. e = GitlabCreateError), sc_token = ''pw''\<rparr>,
      ae_alert = shop_alert, ae_webhook_url = '''', ae_timestamp = ''1'', ae_clock = (\<lambda>n. 2 * int n),
      ae_callback_token = None,
      list_deployments = (\<lambda>c. if cl_id c = 1 then Some [\<lparr>dep_name = ''web'', dep_ready_replicas = Some 1, dep_image = None\<rparr>] else None)\<rparr>"

lemma shop_row: "get_application 1 (db (app_sess shop_world)) = Some shop"
  by code_simp

lemma delete_app_completes_witness:
  "get_application 1 (saved (app_sess (snd (delete_app shop_env 1 shop_world)))) = None"
  using delete_app_completes[OF shop_row prod.collapse[symmetric], of shop_env] by blast

definition cart_row :: "int \<Rightarrow> application" where
  "cart_row i = blank_application i ''Cart'' ''cart'' ''bob''"

lemma save_app_commits_or_answers_500_witness:
  "fst (save_app shop_env cart_row None False shop_world) = Inr 2"
proof -
  have "db (app_sess shop_world) = shop_db" "apps_valid (with_new_row cart_row shop_db)"
    "get_application (seq (applications shop_db)) shop_db = None" "seq (applications shop_db) = 2"
    "\<And>i. app_id (cart_row i) = i"
    by code_simp+
  with save_app_commits_or_answers_500[of shop_env cart_row None False shop_world
      "fst (save_app shop_env cart_row None False shop_world)" "snd (save_app shop_env cart_row None False shop_world)" shop_db]
  show ?thesis by simp
qed

definition to_gke :: app_update where
  "to_gke = \<lparr>au_name = None, au_description = None, au_repo_url = None, au_owner = None, au_origin = None,
     au_framework = None, au_last_known_status = None, au_target_cluster_id = Some (Some 1)\<rparr>"

lemma update_app_never_targets_offline_cluster_witness:
  "\<exists>cluster. get_cluster_row 1 shop_db = Some cluster \<and> cl_status cluster \<noteq> OFFLINE"
proof -
  have "fst (update_app 1 to_gke shop_world) = Inr ()" by code_simp
  then have run: "update_app 1 to_gke shop_world = (Inr (), snd (update_app 1 to_gke shop_world))" by (metis prod.collapse)
  have "get_application 1 (saved (app_sess (snd (update_app 1 to_gke shop_world)))) = Some (shop\<lparr>app_target_cluster_id := Some 1\<rparr>)"
    by code_simp
  from update_app_never_targets_offline_cluster[OF run shop_row this, of 1] show ?thesis
    by (auto simp: shop_def blank_application_def shop_world_def open_session_def app_sess_def)
qed

lemma update_ci_status_announces_transition_witness:
  "length (rows (events (saved (app_sess (snd (update_ci_status shop_alert 1
     \<lparr>cs_pipeline_status = ''success'', cs_app_status = None\<rparr> shop_world)))))) = 1"
proof -
  let ?p = "\<lparr>cs_pipeline_status = ''success'', cs_app_status = None\<rparr>"
  have "rows (events (db (app_sess shop_world))) = []" by code_simp
  then show ?thesis
    using update_ci_status_announces_transition[of shop_alert 1 ?p shop_world "fst (update_ci_status shop_alert 1 ?p shop_world)"
        "snd (update_ci_status shop_alert 1 ?p shop_world)" shop, OF _ shop_row refl]
    by (simp add: ci_status_after_def shop_def blank_application_def)
qed

lemma add_member_follows_gitlab_witness:
  "\<exists>m. fst (add_member shop_env 1 42 40 shop_world) = Inr (Some m) \<and> am_access_level m = 40"
proof -
  have linked: "linked_project shop_env 1 shop_world = (Inr (shop, 9), shop_world)"
    by (simp add: linked_project_def find_app_def prog_simps shop_row has_bot_def cfg_of_def)
      (simp add: shop_def truthy_id_def shop_env_def demo_ci_settings_def)
  have "fst (add_project_member (gl_of shop_env) 9 42 40 (gitw shop_world)) = Inr ()" by code_simp
  with add_member_follows_gitlab[OF _ linked, of 42 40 "fst (add_member shop_env 1 42 40 shop_world)"
      "snd (add_member shop_env 1 42 40 shop_world)"]
  show ?thesis by auto
qed

lemma update_expose_all_or_nothing_witness:
  "get_application 1 (saved (app_sess (snd (update_expose shop_env 1 True shop_world)))) = Some (shop\<lparr>app_expose := Some True\<rparr>)"
proof -
  have "fst (update_expose shop_env 1 True shop_world) = Inr ()" by code_simp
  then have "update_expose shop_env 1 True shop_world = (Inr (), snd (update_expose shop_env 1 True shop_world))"
    by (metis prod.collapse)
  from update_expose_all_or_nothing[OF this shop_row] show ?thesis by simp
qed

lemma sync_reports_the_cluster_witness:
  "\<exists>i. synced_row \<lparr>dep_name = ''web'', dep_ready_replicas = Some 1, dep_image = None\<rparr> i
     \<in> set (rows (applications (saved (app_sess (snd (sync_from_k8s shop_env shop_world))))))"
proof -
  let ?dep = "\<lparr>dep_name = ''web'', dep_ready_replicas = Some 1, dep_image = None\<rparr>"
  have "fst (sync_from_k8s shop_env shop_world) = Inr ()" by code_simp
  then have run: "sync_from_k8s shop_env shop_world = (Inr (), snd (sync_from_k8s shop_env shop_world))" by (metis prod.collapse)
  have facts: "db (app_sess shop_world) = shop_db" "found_deployments shop_env shop_db = [?dep]" "existing_by_name shop_db ''web'' = None"
    "unique_on app_id (applications shop_db)" "\<forall>a \<in> set (rows (applications shop_db)). app_id a < seq (applications shop_db)"
    by code_simp+
  from sync_reports_the_cluster[OF run facts(1) _ _ facts(4,5), of ?dep] facts(2,3) show ?thesis by simp
qed

definition second_shop :: scaffold_payload where
  "second_shop = \<lparr>sp_name = ''Shop'', sp_owner = ''mallory'', sp_template = ''python'', sp_scaffolding = None,
     sp_target_cluster_id = None, sp_owning_gitlab_group_id = None, sp_expose = False\<rparr>"

definition terse_env :: "((string \<times> dict) list, unit, hosting) app_env" where
  "terse_env = shop_env\<lparr>ae_scaffold := (ae_scaffold shop_env)
     \<lparr>sc_yaml := \<lparr>yaml_load = yaml_load ref_yaml, yaml_dump = (\<lambda>_. ''...'')\<rparr>\<rparr>\<rparr>"


text \<open>A deployment of the same new name on two clusters makes the synchronisation fail at its commit.\<close>

definition twin_env :: "((string \<times> dict) list, unit, hosting) app_env" where
  "twin_env = shop_env\<lparr>list_deployments :=
     (\<lambda>_. Some [\<lparr>dep_name = ''web'', dep_ready_replicas = Some 1, dep_image = None\<rparr>])\<rparr>"

lemma twin_deployments_fail: "fst (sync_from_k8s twin_env shop_world) = Inl IntegrityError"
  by code_simp

end
