(* ===== verification/Regex.thy ===== *)
theory Regex
  imports Py_Strings
begin

text \<open>
  The fragment of Python's \<open>re\<close> that the redaction rules use, with its backtracking semantics: a
  matcher lists the ends of all matches at a position, in the order in which the engine tries them, so
  that the first one is the match. \<open>subn\<close> replaces the matches from left to right. The lemmas relate a
  match to the language of the expression and say which languages a substitution eliminates.
\<close>

section \<open>Expressions and matching\<close>

text \<open>
  \<open>Many n P\<close> is \<open>[P]{n,}\<close>, greedy; \<open>Few P\<close> is \<open>[P]*?\<close>, lazy; \<open>Boundary\<close> is a word boundary. A position
  is the character before it, if any, and the text after it.
\<close>

datatype regex =
    Eps
  | Class "char \<Rightarrow> bool"
  | Seq regex regex
  | Alt regex regex
  | Many nat "char \<Rightarrow> bool"
  | Few "char \<Rightarrow> bool"
  | Boundary

fun greedy :: "(char \<Rightarrow> bool) \<Rightarrow> nat \<Rightarrow> char option \<Rightarrow> string \<Rightarrow> (char option \<times> string) list" where
  "greedy P n p [] = (if n = 0 then [(p, [])] else [])"
| "greedy P n p (c # cs) =
     (if P c then greedy P (n - 1) (Some c) cs else []) @ (if n = 0 then [(p, c # cs)] else [])"

fun sparing :: "(char \<Rightarrow> bool) \<Rightarrow> char option \<Rightarrow> string \<Rightarrow> (char option \<times> string) list" where
  "sparing P p [] = [(p, [])]"
| "sparing P p (c # cs) = (p, c # cs) # (if P c then sparing P (Some c) cs else [])"

definition at_boundary :: "char option \<Rightarrow> string \<Rightarrow> bool" where
  "at_boundary p s \<longleftrightarrow>
     (case p of None \<Rightarrow> False | Some c \<Rightarrow> is_word_char c) \<noteq> (case s of [] \<Rightarrow> False | c # _ \<Rightarrow> is_word_char c)"

fun runs :: "regex \<Rightarrow> char option \<times> string \<Rightarrow> (char option \<times> string) list" where
  "runs Eps q = [q]"
| "runs (Class P) q = (case snd q of [] \<Rightarrow> [] | c # cs \<Rightarrow> if P c then [(Some c, cs)] else [])"
| "runs (Seq r s) q = concat (map (runs s) (runs r q))"
| "runs (Alt r s) q = runs r q @ runs s q"
| "runs (Many n P) q = greedy P n (fst q) (snd q)"
| "runs (Few P) q = sparing P (fst q) (snd q)"
| "runs Boundary q = (if at_boundary (fst q) (snd q) then [q] else [])"

text \<open>
  \<open>pattern.subn(rep, s)\<close>: the new text and the number of replacements. None of the expressions here
  matches the empty text; an empty match is passed over.
\<close>

function sub_from :: "regex \<Rightarrow> string \<Rightarrow> char option \<Rightarrow> string \<Rightarrow> string \<times> nat" where
  "sub_from r rep p s =
     (case runs r (p, s) of
        (p', s') # _ \<Rightarrow>
          if length s' < length s then
            (let (t, n) = sub_from r rep p' s' in (rep @ t, Suc n))
          else (case s of [] \<Rightarrow> ([], 0) | c # cs \<Rightarrow> let (t, n) = sub_from r rep (Some c) cs in (c # t, n))
      | [] \<Rightarrow> (case s of [] \<Rightarrow> ([], 0) | c # cs \<Rightarrow> let (t, n) = sub_from r rep (Some c) cs in (c # t, n)))"
  by pat_completeness auto
termination by (relation "measure (\<lambda>(_, _, _, s). length s)") auto

declare sub_from.simps [simp del]

definition subn :: "regex \<Rightarrow> string \<Rightarrow> string \<Rightarrow> string \<times> nat" where
  "subn r rep s = sub_from r rep None s"

definition Lit :: "string \<Rightarrow> regex" where
  "Lit w = foldr (\<lambda>c. Seq (Class (\<lambda>x. x = c))) w Eps"

section \<open>Languages\<close>

text \<open>What an expression can match, word boundaries left aside.\<close>

fun lang :: "regex \<Rightarrow> string set" where
  "lang Eps = {[]}"
| "lang (Class P) = {[c] |c. P c}"
| "lang (Seq r s) = {v @ w |v w. v \<in> lang r \<and> w \<in> lang s}"
| "lang (Alt r s) = lang r \<union> lang s"
| "lang (Many n P) = {v. n \<le> length v \<and> list_all P v}"
| "lang (Few P) = {v. list_all P v}"
| "lang Boundary = {[]}"

fun unbounded :: "regex \<Rightarrow> bool" where
  "unbounded (Seq r s) = (unbounded r \<and> unbounded s)"
| "unbounded (Alt r s) = (unbounded r \<and> unbounded s)"
| "unbounded Boundary = False"
| "unbounded _ = True"

definition occurs :: "regex \<Rightarrow> string \<Rightarrow> bool" where
  "occurs r s \<longleftrightarrow> (\<exists>u v w. s = u @ v @ w \<and> v \<in> lang r)"

lemma lang_Lit [simp]: "lang (Lit w) = {w}"
  by (induction w) (auto simp: Lit_def)

lemma unbounded_Lit [simp]: "unbounded (Lit w)"
  by (induction w) (simp_all add: Lit_def)

lemma greedy_sound:
  "(p', t) \<in> set (greedy P n p s) \<Longrightarrow> \<exists>v. s = v @ t \<and> n \<le> length v \<and> list_all P v"
proof (induction P n p s rule: greedy.induct)
  case (2 P n p c cs)
  then consider "P c" "(p', t) \<in> set (greedy P (n - 1) (Some c) cs)" | "n = 0" "t = c # cs"
    by (auto split: if_splits)
  then show ?case
  proof cases
    case 1
    with "2.IH" obtain v where "cs = v @ t" "n - 1 \<le> length v" "list_all P v" by blast
    with 1 show ?thesis by (intro exI[of _ "c # v"]) auto
  qed auto
qed (auto split: if_splits)

lemma greedy_complete: "n \<le> length v \<Longrightarrow> list_all P v \<Longrightarrow> \<exists>p'. (p', t) \<in> set (greedy P n p (v @ t))"
proof (induction v arbitrary: n p)
  case Nil
  then show ?case by (cases t) auto
next
  case (Cons c v)
  from Cons.IH[of "n - 1" "Some c"] Cons.prems show ?case by auto
qed

lemma sparing_sound: "(p', t) \<in> set (sparing P p s) \<Longrightarrow> \<exists>v. s = v @ t \<and> list_all P v"
proof (induction P p s rule: sparing.induct)
  case (2 P p c cs)
  then consider "t = c # cs" | "P c" "(p', t) \<in> set (sparing P (Some c) cs)" by (auto split: if_splits)
  then show ?case
  proof cases
    case 2
    with "2.IH" obtain v where "cs = v @ t" "list_all P v" by blast
    with 2 show ?thesis by (intro exI[of _ "c # v"]) auto
  qed auto
qed auto

lemma sparing_complete: "list_all P v \<Longrightarrow> \<exists>p'. (p', t) \<in> set (sparing P p (v @ t))"
proof (induction v arbitrary: p)
  case Nil
  then show ?case by (cases t) auto
next
  case (Cons c v)
  from Cons.IH[of "Some c"] Cons.prems show ?case by auto
qed

lemma runs_sound: "(p', t) \<in> set (runs r (p, s)) \<Longrightarrow> \<exists>v \<in> lang r. s = v @ t"
proof (induction r arbitrary: p s p' t)
  case (Class P)
  then show ?case by (cases s) (auto split: if_splits)
next
  case (Seq r1 r2)
  then obtain p1 s1 where "(p1, s1) \<in> set (runs r1 (p, s))" and "(p', t) \<in> set (runs r2 (p1, s1))" by auto
  with Seq.IH obtain v w where "v \<in> lang r1" "s = v @ s1" "w \<in> lang r2" "s1 = w @ t" by meson
  then show ?case by (intro bexI[of _ "v @ w"]) auto
next
  case (Many n P)
  then show ?case using greedy_sound by fastforce
next
  case (Few P)
  then show ?case using sparing_sound by fastforce
next
  case (Alt r1 r2)
  then consider "(p', t) \<in> set (runs r1 (p, s))" | "(p', t) \<in> set (runs r2 (p, s))" by auto
  then show ?case using Alt.IH by cases fastforce+
qed (auto split: if_splits)

lemma runs_complete:
  assumes "unbounded r" and "v \<in> lang r"
  shows "\<exists>p'. (p', t) \<in> set (runs r (p, v @ t))"
  using assms
proof (induction r arbitrary: v p t)
  case (Seq r1 r2)
  then obtain x y where v: "v = x @ y" "x \<in> lang r1" "y \<in> lang r2" by auto
  from Seq.IH(1)[of x "y @ t" p] Seq.prems(1) v(2) obtain p1 where "(p1, y @ t) \<in> set (runs r1 (p, x @ y @ t))" by auto
  moreover from Seq.IH(2)[of y t p1] Seq.prems(1) v(3) obtain p2 where "(p2, t) \<in> set (runs r2 (p1, y @ t))" by auto
  ultimately show ?case using v(1) by auto
next
  case (Alt r1 r2)
  then show ?case by (metis Un_iff lang.simps(4) runs.simps(4) set_append unbounded.simps(2))
next
  case (Many n P)
  then show ?case using greedy_complete[of n v P t p] by simp
next
  case (Few P)
  then show ?case using sparing_complete[of P v t p] by simp
qed auto

section \<open>Substitution\<close>

text \<open>The first match at a position, if it consumes something.\<close>

definition first_match :: "regex \<Rightarrow> char option \<Rightarrow> string \<Rightarrow> (char option \<times> string) option" where
  "first_match r p s =
     (case runs r (p, s) of (p', s') # _ \<Rightarrow> if length s' < length s then Some (p', s') else None | [] \<Rightarrow> None)"

lemma sub_from_cases:
  "sub_from r rep p s =
     (case first_match r p s of
        Some (p', s') \<Rightarrow> (rep @ fst (sub_from r rep p' s'), Suc (snd (sub_from r rep p' s')))
      | None \<Rightarrow> (case s of [] \<Rightarrow> ([], 0)
          | c # cs \<Rightarrow> (c # fst (sub_from r rep (Some c) cs), snd (sub_from r rep (Some c) cs))))"
  by (subst sub_from.simps) (simp add: first_match_def split: list.split prod.split)

lemma first_match_sound:
  assumes "first_match r p s = Some (p', s')"
  obtains v where "v \<in> lang r" and "s = v @ s'" and "v \<noteq> []"
proof -
  have "(p', s') \<in> set (runs r (p, s))" "length s' < length s"
    using assms by (auto simp: first_match_def split: list.splits if_splits)
  then obtain v where "v \<in> lang r" "s = v @ s'" "length s' < length s" using runs_sound by blast
  with that show thesis by auto
qed

text \<open>Without boundaries and empty matches, every word of the language at a position is found.\<close>

lemma first_match_complete:
  assumes "unbounded r" and "[] \<notin> lang r" and "v \<in> lang r"
  shows "first_match r p (v @ t) \<noteq> None"
proof -
  obtain p' where "(p', t) \<in> set (runs r (p, v @ t))" using runs_complete[OF assms(1,3)] by blast
  then obtain p1 s1 rest where runs: "runs r (p, v @ t) = (p1, s1) # rest" by (cases "runs r (p, v @ t)") auto
  then have "(p1, s1) \<in> set (runs r (p, v @ t))" by simp
  then obtain w where "w \<in> lang r" "v @ t = w @ s1" using runs_sound by blast
  with assms(2) have "length s1 < length (v @ t)" by (metis append_Nil length_append length_greater_0_conv less_add_same_cancel2)
  with runs show ?thesis by (simp add: first_match_def)
qed

lemma sub_from_induct [case_names Match End Skip]:
  assumes "\<And>p s p' s'. first_match r p s = Some (p', s') \<Longrightarrow> Q p' s' \<Longrightarrow> Q p s"
    and "\<And>p. first_match r p [] = None \<Longrightarrow> Q p []"
    and "\<And>p c cs. first_match r p (c # cs) = None \<Longrightarrow> Q (Some c) cs \<Longrightarrow> Q p (c # cs)"
  shows "Q p s"
proof (induction s arbitrary: p rule: measure_induct_rule[of length])
  case (less s)
  show ?case
  proof (cases "first_match r p s")
    case None
    with less assms(2,3) show ?thesis by (cases s) auto
  next
    case (Some q)
    obtain p' s' where q: "q = (p', s')" by (cases q)
    with Some have "length s' < length s" by (auto simp: first_match_def split: list.splits if_splits)
    with less assms(1) Some q show ?thesis by blast
  qed
qed

lemma occurs_tl: "occurs r cs \<Longrightarrow> occurs r (c # cs)"
  unfolding occurs_def by (metis append_Cons)

lemma occurs_append: "occurs r t \<Longrightarrow> occurs r (s @ t)"
  by (induction s) (auto intro: occurs_tl)

lemma occurs_prefix: "occurs r s \<Longrightarrow> occurs r (s @ t)"
  unfolding occurs_def by (metis append.assoc)

lemma occurs_Cons:
  assumes "occurs r (c # cs)" and "\<not> occurs r cs"
  obtains v w where "c # cs = v @ w" and "v \<in> lang r"
proof -
  obtain u v w where uvw: "c # cs = u @ v @ w" "v \<in> lang r" using assms(1) by (auto simp: occurs_def)
  have "u = []"
  proof (cases u)
    case (Cons a u')
    with uvw have "cs = u' @ v @ w" by simp
    with uvw(2) assms(2) show ?thesis unfolding occurs_def by blast
  qed simp
  with uvw that show thesis by simp
qed

text \<open>
  A replacement text is closed to a language when it is fenced by characters that no word of the
  language has, and no word lies between the fences.
\<close>

definition over :: "(char \<Rightarrow> bool) \<Rightarrow> regex \<Rightarrow> bool" where
  "over A r \<longleftrightarrow> (\<forall>v \<in> lang r. v \<noteq> [] \<and> list_all A v)"

lemma occurs_across:
  assumes "over A r" and "occurs r (s @ d # t)" and "\<not> A d"
  shows "occurs r s \<or> occurs r t"
proof -
  obtain u v w where uvw: "s @ d # t = u @ v @ w" "v \<in> lang r" using assms(2) by (auto simp: occurs_def)
  have "d \<notin> set v" using assms(1,3) uvw(2) by (auto simp: over_def list_all_iff)
  consider "length (u @ v) \<le> length s" | "length s < length u" | "length u \<le> length s" "length s < length (u @ v)" by linarith
  then show ?thesis
  proof cases
    case 1
    then have "s = u @ v @ take (length s - length (u @ v)) w"
      using arg_cong[OF uvw(1), of "take (length s)"] by simp
    with uvw(2) show ?thesis unfolding occurs_def by blast
  next
    case 2
    then have "t = drop (Suc (length s)) u @ v @ w"
      using arg_cong[OF uvw(1), of "drop (Suc (length s))"] by simp
    with uvw(2) show ?thesis unfolding occurs_def by blast
  next
    case 3
    have "(s @ d # t) ! length s = d" by simp
    moreover from 3 have inside: "length s - length u < length v" by auto
    moreover have "(u @ v @ w) ! length s = v ! (length s - length u)" using 3(1) inside by (simp add: nth_append)
    ultimately have "d \<in> set v" using uvw(1) by (metis nth_mem)
    with \<open>d \<notin> set v\<close> show ?thesis by contradiction
  qed
qed

lemma occurs_fenced:
  assumes "over A r" and "occurs r ((c # m @ [d]) @ t)" and "\<not> A c" and "\<not> A d"
  shows "occurs r m \<or> occurs r t"
proof -
  have "\<not> occurs r []" using assms(1) by (auto simp: occurs_def over_def)
  with occurs_across[OF assms(1) _ assms(3), of "[]" "m @ d # t"] assms(2) have "occurs r (m @ d # t)" by simp
  then show ?thesis by (rule occurs_across[OF assms(1) _ assms(4)])
qed

text \<open>
  A replacement that keeps a header, up to a relation between characters (the word \<open>Bearer\<close> in any
  case, say), then opens a fence. Before the fence, the result of a substitution is the text itself,
  apart from the headers.
\<close>

definition headed :: "(char \<Rightarrow> char \<Rightarrow> bool) \<Rightarrow> string \<Rightarrow> regex \<Rightarrow> bool" where
  "headed R h r \<longleftrightarrow> (\<forall>v \<in> lang r. \<exists>b y. v = b @ y \<and> list_all2 R h b)"

lemma headed_nil: "headed R [] r"
  by (auto simp: headed_def)

lemma sub_from_prefix:
  assumes "\<not> A c" and "headed R h r"
  shows "fst (sub_from r (h @ c # m) p s) = x @ y \<Longrightarrow> list_all A x
    \<Longrightarrow> \<exists>x1 b' b z. x = x1 @ b' \<and> prefix b' h \<and> list_all2 R b' b \<and> s = x1 @ b @ z"
proof (induction p s arbitrary: x y rule: sub_from_induct[where r = r])
  case (Match p s p' s')
  then have out: "h @ c # m @ fst (sub_from r (h @ c # m) p' s') = x @ y" by (subst (asm) sub_from_cases) simp
  have "length x \<le> length h"
  proof (rule ccontr)
    assume long: "\<not> length x \<le> length h"
    with arg_cong[OF out, of "\<lambda>l. l ! length h"] have "x ! length h = c" by (simp add: nth_append)
    with long assms(1) Match.prems(2) show False by (auto simp: list_all_length)
  qed
  then have x: "x = take (length x) h" using arg_cong[OF out, of "take (length x)"] by simp
  from Match(1) obtain v where v: "v \<in> lang r" "s = v @ s'" by (rule first_match_sound)
  with assms(2) obtain b z where b: "v = b @ z" "list_all2 R h b" by (auto simp: headed_def)
  have "list_all2 R x (take (length x) b)" using list_all2_takeI[OF b(2)] x by metis
  moreover have "s = [] @ take (length x) b @ drop (length x) b @ z @ s'" using v b by simp
  ultimately show ?case using x take_is_prefix by (metis append_Nil)
next
  case (End p)
  then have "x = []" by (subst (asm) sub_from_cases) simp
  then show ?case by auto
next
  case (Skip p a cs)
  then have eq: "a # fst (sub_from r (h @ c # m) (Some a) cs) = x @ y" by (subst (asm) sub_from_cases) simp
  show ?case
  proof (cases x)
    case Nil
    then show ?thesis by auto
  next
    case (Cons b x')
    with eq Skip.prems(2) have "fst (sub_from r (h @ c # m) (Some a) cs) = x' @ y" "list_all A x'" "b = a" by auto
    with Skip.IH obtain x1 b' bb z where "x' = x1 @ b'" "prefix b' h" "list_all2 R b' bb" "cs = x1 @ bb @ z" by meson
    with Cons \<open>b = a\<close> show ?thesis
      by (intro exI[of _ "a # x1"] exI[of _ b'] exI[of _ bb] exI[of _ z]) simp
  qed
qed

text \<open>A substitution leaves no word of its own language, when its replacement is closed to it.\<close>

lemma sub_from_eliminates:
  assumes "unbounded r" and "over A r" and "\<not> A c" and "\<not> A d" and "\<not> occurs r m"
  shows "\<not> occurs r (fst (sub_from r (c # m @ [d]) p s))"
proof (induction p s rule: sub_from_induct[where r = r])
  case (Match p s p' s')
  then have "fst (sub_from r (c # m @ [d]) p s) = (c # m @ [d]) @ fst (sub_from r (c # m @ [d]) p' s')"
    by (subst sub_from_cases) simp
  with occurs_fenced[OF assms(2) _ assms(3,4)] assms(5) Match(2) show ?case by metis
next
  case (End p)
  have "fst (sub_from r (c # m @ [d]) p []) = []" using End by (subst sub_from_cases) simp
  with assms(2) show ?case by (auto simp: occurs_def over_def)
next
  case (Skip p a cs)
  let ?o = "fst (sub_from r (c # m @ [d]) (Some a) cs)"
  have out: "fst (sub_from r (c # m @ [d]) p (a # cs)) = a # ?o" using Skip(1) by (subst sub_from_cases) simp
  show ?case
  proof
    assume "occurs r (fst (sub_from r (c # m @ [d]) p (a # cs)))"
    then obtain v w where vw: "a # ?o = v @ w" "v \<in> lang r" using occurs_Cons Skip(2) unfolding out by metis
    with assms(2) obtain v' where v': "v = a # v'" "?o = v' @ w" "list_all A v'"
      by (cases v) (auto simp: over_def)
    with sub_from_prefix[where A = A and h = "[]" and m = "m @ [d]", OF assms(3) headed_nil, of r "Some a" cs v' w] obtain z where "cs = v' @ z" by auto
    then have "a # cs = v @ z" using v' by simp
    with first_match_complete[OF assms(1) _ vw(2), of p z] assms(2) Skip(1) show False by (auto simp: over_def)
  qed
qed

text \<open>
  A substitution whose replacement is a header and a closed text creates no word of another language
  that does not tell a header from its variants.
\<close>

definition blind_to :: "(char \<Rightarrow> char \<Rightarrow> bool) \<Rightarrow> string \<Rightarrow> regex \<Rightarrow> bool" where
  "blind_to R h q \<longleftrightarrow> \<not> occurs q h
     \<and> (\<forall>x b' b. x @ b' \<in> lang q \<longrightarrow> prefix b' h \<longrightarrow> list_all2 R b' b \<longrightarrow> x @ b \<in> lang q)"

lemma sub_from_preserves:
  assumes "over A q" and "\<not> A c" and "\<not> A d" and "\<not> occurs q m" and "headed R h r" and "blind_to R h q"
  shows "\<not> occurs q s \<Longrightarrow> \<not> occurs q (fst (sub_from r (h @ c # m @ [d]) p s))"
proof (induction p s rule: sub_from_induct[where r = r])
  case (Match p s p' s')
  let ?o = "fst (sub_from r (h @ c # m @ [d]) p' s')"
  from Match(1) obtain v where "s = v @ s'" by (rule first_match_sound)
  with Match(3) have "\<not> occurs q s'" using occurs_append by metis
  with Match(2) have IH: "\<not> occurs q ?o" by blast
  have "fst (sub_from r (h @ c # m @ [d]) p s) = h @ c # m @ d # ?o"
    using Match(1) by (subst sub_from_cases) simp
  with occurs_across[OF assms(1) _ assms(2), of h "m @ d # ?o"] occurs_across[OF assms(1) _ assms(3), of m ?o]
    IH assms(4,6) show ?case by (auto simp: blind_to_def)
next
  case (End p)
  have "fst (sub_from r (h @ c # m @ [d]) p []) = []" using End(1) by (subst sub_from_cases) simp
  with End(2) show ?case by simp
next
  case (Skip p a cs)
  let ?o = "fst (sub_from r (h @ c # m @ [d]) (Some a) cs)"
  have out: "fst (sub_from r (h @ c # m @ [d]) p (a # cs)) = a # ?o" using Skip(1) by (subst sub_from_cases) simp
  have IH: "\<not> occurs q ?o" using Skip(2,3) occurs_tl by metis
  show ?case
  proof
    assume "occurs q (fst (sub_from r (h @ c # m @ [d]) p (a # cs)))"
    then obtain v w where vw: "a # ?o = v @ w" "v \<in> lang q" using occurs_Cons IH unfolding out by metis
    with assms(1) obtain v' where v': "v = a # v'" "?o = v' @ w" "list_all A v'"
      by (cases v) (auto simp: over_def)
    with sub_from_prefix[where A = A and m = "m @ [d]", OF assms(2,5), of "Some a" cs v' w]
    obtain x1 b' b z where split: "v' = x1 @ b'" "prefix b' h" "list_all2 R b' b" "cs = x1 @ b @ z" by auto
    with vw(2) v'(1) assms(6) have "(a # x1) @ b \<in> lang q" unfolding blind_to_def by (metis append_Cons)
    moreover have "a # cs = [] @ ((a # x1) @ b) @ z" using split(4) by simp
    ultimately show False using Skip(3) unfolding occurs_def by blast
  qed
qed

section \<open>Reading a language off its expression\<close>

fun alphabet :: "(char \<Rightarrow> bool) \<Rightarrow> regex \<Rightarrow> bool" where
  "alphabet A (Class P) = (\<forall>c. P c \<longrightarrow> A c)"
| "alphabet A (Many n P) = (\<forall>c. P c \<longrightarrow> A c)"
| "alphabet A (Few P) = (\<forall>c. P c \<longrightarrow> A c)"
| "alphabet A (Seq r s) = (alphabet A r \<and> alphabet A s)"
| "alphabet A (Alt r s) = (alphabet A r \<and> alphabet A s)"
| "alphabet A _ = True"

lemma alphabet_lang: "alphabet A r \<Longrightarrow> v \<in> lang r \<Longrightarrow> list_all A v"
  by (induction r arbitrary: v) (auto simp: list_all_iff)

lemma alphabet_Lit [simp]: "alphabet A (Lit w) = list_all A w"
  by (induction w) (auto simp: Lit_def)

lemma overI: "alphabet A r \<Longrightarrow> [] \<notin> lang r \<Longrightarrow> over A r"
  using alphabet_lang by (auto simp: over_def)

text \<open>Words whose end can be exchanged for a variant, as long as that end is made of header letters.\<close>

definition insensitive :: "(char \<Rightarrow> char \<Rightarrow> bool) \<Rightarrow> char set \<Rightarrow> regex \<Rightarrow> bool" where
  "insensitive R L q \<longleftrightarrow>
     (\<forall>x b' b. x @ b' \<in> lang q \<longrightarrow> set b' \<subseteq> L \<longrightarrow> list_all2 R b' b \<longrightarrow> x @ b \<in> lang q)"

lemma insensitive_Many:
  assumes "\<And>a c. a \<in> L \<Longrightarrow> R a c \<Longrightarrow> P c"
  shows "insensitive R L (Many n P)"
proof -
  have "list_all P b" if "set b' \<subseteq> L" "list_all2 R b' b" for b' b
    using that assms by (auto simp: list_all_length list_all2_conv_all_nth) (metis nth_mem subsetD)
  then show ?thesis by (auto simp: insensitive_def dest: list_all2_lengthD)
qed

lemma insensitive_Lit:
  assumes "insensitive R L s" and "d \<notin> L"
  shows "insensitive R L (Seq (Lit (w @ [d])) s)"
  unfolding insensitive_def
proof (intro allI impI)
  fix x b' b assume *: "x @ b' \<in> lang (Seq (Lit (w @ [d])) s)" "set b' \<subseteq> L" "list_all2 R b' b"
  then obtain t where t: "x @ b' = w @ d # t" "t \<in> lang s" by auto
  then obtain u where "(x @ u = w \<and> b' = u @ d # t) \<or> (x = w @ u \<and> u @ b' = d # t)"
    by (auto simp: append_eq_append_conv2)
  then show "x @ b \<in> lang (Seq (Lit (w @ [d])) s)"
  proof
    assume "x @ u = w \<and> b' = u @ d # t"
    with *(2) assms(2) show ?thesis by auto
  next
    assume u: "x = w @ u \<and> u @ b' = d # t"
    with *(2) assms(2) obtain u' where "u = d # u'" "u' @ b' = t" by (cases u) auto
    with t(2) *(2,3) assms(1) have "u' @ b \<in> lang s" by (auto simp: insensitive_def)
    with u \<open>u = d # u'\<close> show ?thesis by auto
  qed
qed

lemma insensitive_Seq:
  assumes "insensitive R L s" and "\<And>w. w \<in> lang s \<Longrightarrow> \<not> set w \<subseteq> L"
  shows "insensitive R L (Seq r s)"
  unfolding insensitive_def
proof (intro allI impI)
  fix x b' b assume *: "x @ b' \<in> lang (Seq r s)" "set b' \<subseteq> L" "list_all2 R b' b"
  then obtain v w where vw: "x @ b' = v @ w" "v \<in> lang r" "w \<in> lang s" by auto
  then obtain u where "(x @ u = v \<and> b' = u @ w) \<or> (x = v @ u \<and> u @ b' = w)"
    by (auto simp: append_eq_append_conv2)
  then show "x @ b \<in> lang (Seq r s)"
  proof
    assume "x @ u = v \<and> b' = u @ w"
    with *(2) assms(2)[OF vw(3)] show ?thesis by auto
  next
    assume u: "x = v @ u \<and> u @ b' = w"
    with vw(3) *(2,3) assms(1) have "u @ b \<in> lang s" by (auto simp: insensitive_def)
    with u vw(2) show ?thesis by auto
  qed
qed

lemma insensitive_blind: "insensitive R (set h) q \<Longrightarrow> \<not> occurs q h \<Longrightarrow> blind_to R h q"
  unfolding insensitive_def blind_to_def using set_mono_prefix by meson

text \<open>Whether a word of the language occurs, by trying every position.\<close>

lemma occurs_found:
  assumes "unbounded r" and "[] \<notin> lang r" and "occurs r s"
  shows "\<exists>t \<in> set (suffixes s). first_match r None t \<noteq> None"
proof -
  obtain u v w where "s = u @ v @ w" "v \<in> lang r" using assms(3) by (auto simp: occurs_def)
  with first_match_complete[OF assms(1,2), of v None w] show ?thesis
    by (intro bexI[of _ "v @ w"]) (auto simp: suffix_def)
qed

end
