(* ===== verification/Redaction.thy ===== *)
theory Redaction
  imports Regex Urls
begin

text \<open>
  backend/ai/redaction.py: the rules that take secrets out of a text before it is sent to a language
  model, and the pseudonyms of email addresses. The theorem says what a redacted text cannot contain,
  whatever the text was.
\<close>

section \<open>The rules\<close>

definition redacted :: "string \<Rightarrow> string" where
  "redacted label = ''[REDACTED:'' @ label @ '']''"

definition alternatives :: "string list \<Rightarrow> regex" where
  "alternatives ws = foldr (\<lambda>w. Alt (Lit w)) (butlast ws) (Lit (List.last ws))"

definition token_char :: "char \<Rightarrow> bool" where
  "token_char c \<longleftrightarrow> is_word_char c \<or> c = CHR ''-''"

definition base64_char :: "char \<Rightarrow> bool" where
  "base64_char c \<longleftrightarrow> is_az c \<or> is_AZ c \<or> is_09 c \<or> c \<in> set ''+/-_''"

definition GITLAB_TOKEN :: regex where
  "GITLAB_TOKEN =
     Seq (Lit ''gl'') (Seq (alternatives [''pat'', ''cbt'', ''dt'', ''oit'', ''prt'', ''sst'', ''rt''])
       (Seq (Lit ''-'') (Many 10 token_char)))"

definition JWT :: regex where
  "JWT =
     Seq (Lit ''eyJ'') (Seq (Many 1 base64_char) (Seq (Lit ''.eyJ'') (Seq (Many 1 base64_char)
       (Seq (Lit ''.'') (Many 1 (\<lambda>c. base64_char c \<or> c = CHR ''='')))))) "

definition VAULT_TOKEN :: regex where
  "VAULT_TOKEN =
     Seq Boundary (Seq (alternatives [''hvs'', ''s'']) (Seq (Lit ''.'') (Seq (Many 20 is_word_char) Boundary)))"

text \<open>A word in any case: \<open>(?i)\<close>.\<close>

definition any_case :: "string \<Rightarrow> regex" where
  "any_case w = foldr (\<lambda>c. Seq (Class (\<lambda>x. lower_char x = lower_char c))) w Eps"

definition BEARER_TOKEN :: regex where
  "BEARER_TOKEN =
     Seq Boundary (Seq (any_case ''Bearer'') (Seq (Many 1 py_isspace)
       (Many 8 (\<lambda>c. is_word_char c \<or> c \<in> set ''.-_=+/''))))"

definition pem_marker :: "string \<Rightarrow> regex" where
  "pem_marker w =
     Seq (Lit (''-----'' @ w @ '' '')) (Seq (Many 1 (\<lambda>c. is_AZ c \<or> c = CHR '' ''))
       (Seq (alternatives [''KEY'', ''CERTIFICATE'']) (Lit ''-----'')))"

definition PRIVATE_KEY :: regex where
  "PRIVATE_KEY = Seq (pem_marker ''BEGIN'') (Seq (Few (\<lambda>_. True)) (pem_marker ''END''))"

definition CONNECTION_STRING :: regex where
  "CONNECTION_STRING =
     Seq (alternatives [''postgresql'', ''mysql'', ''mongodb'', ''redis'']) (Seq (Lit ''://'')
       (Seq (Many 1 (\<lambda>c. \<not> py_isspace c \<and> c \<noteq> CHR '':'' \<and> c \<noteq> CHR ''@'')) (Seq (Lit '':'')
         (Seq (Many 1 (\<lambda>c. \<not> py_isspace c \<and> c \<noteq> CHR ''@'')) (Seq (Lit ''@'') (Many 1 (\<lambda>c. \<not> py_isspace c)))))))"

definition ARGOCD_TOKEN :: regex where
  "ARGOCD_TOKEN = Seq Boundary (Seq (Lit ''argocd_'') (Seq (Many 16 is_word_char) Boundary))"

definition RULES :: "(string \<times> regex \<times> string) list" where
  "RULES =
     [(''gitlab-token'', GITLAB_TOKEN, redacted ''gitlab-token''),
      (''jwt'', JWT, redacted ''jwt''),
      (''vault-token'', VAULT_TOKEN, redacted ''vault-token''),
      (''bearer-token'', BEARER_TOKEN, ''Bearer '' @ redacted ''bearer-token''),
      (''private-key'', PRIVATE_KEY, redacted ''private-key''),
      (''connection-string'', CONNECTION_STRING, redacted ''connection-string''),
      (''argocd-token'', ARGOCD_TOKEN, redacted ''argocd-token'')]"

section \<open>Redaction\<close>

definition apply_rule :: "string \<times> regex \<times> string \<Rightarrow> string \<times> string list \<Rightarrow> string \<times> string list" where
  "apply_rule rule acc =
     (case (rule, acc) of ((label, pattern, replacement), (text, labels)) \<Rightarrow>
        let (new_text, n) = subn pattern replacement text in
        if n > 0 then (new_text, labels @ [label]) else (text, labels))"

definition redact :: "string \<Rightarrow> string \<times> string list" where
  "redact text = fold apply_rule RULES (text, [])"

definition mask_email :: "string \<Rightarrow> string" where
  "mask_email email =
     (case partition_at (CHR ''@'') email of
        (local, sep, domain) \<Rightarrow>
          if \<not> sep \<or> local = [] then email else hd local # ''***@'' @ domain)"

section \<open>Languages of the rules\<close>

definition same_letter :: "char \<Rightarrow> char \<Rightarrow> bool" where
  "same_letter a c \<longleftrightarrow> lower_char c = lower_char a"

lemma lang_any_case: "b \<in> lang (any_case w) \<Longrightarrow> list_all2 same_letter w b"
  by (induction w arbitrary: b) (auto simp: any_case_def same_letter_def)

lemma bearer_headed: "headed same_letter ''Bearer'' BEARER_TOKEN"
  unfolding headed_def
proof
  fix v assume "v \<in> lang BEARER_TOKEN"
  then obtain b y where "v = b @ y" "b \<in> lang (any_case ''Bearer'')" unfolding BEARER_TOKEN_def by auto
  with lang_any_case show "\<exists>b y. v = b @ y \<and> list_all2 same_letter ''Bearer'' b" by blast
qed

lemma lower_char_inverse: "lower_char c = x \<Longrightarrow> of_char x < (192 :: nat) \<Longrightarrow> c = x \<or> (c = char_of (of_char x - 32 :: nat))"
proof -
  assume c: "lower_char c = x" "of_char x < (192 :: nat)"
  show ?thesis
  proof (cases "c = x")
    case False
    with c(1) have x: "x = char_of (of_char c + 32 :: nat)" by (auto simp: lower_char_def Let_def split: if_splits)
    have "of_char x = (of_char c + 32 :: nat) mod 256" unfolding x by simp
    moreover have "(of_char c :: nat) < 256" by simp
    ultimately have "of_char c = (of_char x - 32 :: nat) \<or> (of_char c :: nat) \<ge> 224" by auto
    with False c show ?thesis
      by (auto simp: lower_char_def Let_def split: if_splits)
  qed simp
qed

lemma header_letters: "a \<in> set ''Bearer'' \<Longrightarrow> same_letter a c \<Longrightarrow> c \<in> set ''BEARbear''"
proof -
  have codes: "char_of (66 :: nat) = CHR ''B''" "char_of (69 :: nat) = CHR ''E''" "char_of (65 :: nat) = CHR ''A''"
    "char_of (82 :: nat) = CHR ''R''" by code_simp+
  have inverse: "lower_char c = CHR ''b'' \<Longrightarrow> c \<in> set ''bB''" "lower_char c = CHR ''e'' \<Longrightarrow> c \<in> set ''eE''"
    "lower_char c = CHR ''a'' \<Longrightarrow> c \<in> set ''aA''" "lower_char c = CHR ''r'' \<Longrightarrow> c \<in> set ''rR''"
    using lower_char_inverse[of c "CHR ''b''"] lower_char_inverse[of c "CHR ''e''"] lower_char_inverse[of c "CHR ''a''"]
      lower_char_inverse[of c "CHR ''r''"] by (simp_all add: codes)
  have lower: "\<forall>a \<in> set ''Bearer''. lower_char a \<in> set ''bear''" by code_simp
  assume "a \<in> set ''Bearer''" "same_letter a c"
  then have "lower_char c \<in> set ''bear''" using lower by (metis same_letter_def)
  with inverse show ?thesis by auto
qed

lemma token_char_header: "a \<in> set ''Bearer'' \<Longrightarrow> same_letter a c \<Longrightarrow> token_char c"
  and base64_char_header: "a \<in> set ''Bearer'' \<Longrightarrow> same_letter a c \<Longrightarrow> base64_char c \<or> c = CHR ''=''"
proof -
  have "\<forall>c \<in> set ''BEARbear''. token_char c \<and> base64_char c" by code_simp
  then show "a \<in> set ''Bearer'' \<Longrightarrow> same_letter a c \<Longrightarrow> token_char c"
    and "a \<in> set ''Bearer'' \<Longrightarrow> same_letter a c \<Longrightarrow> base64_char c \<or> c = CHR ''=''"
    using header_letters by blast+
qed

definition jwt_char :: "char \<Rightarrow> bool" where
  "jwt_char c \<longleftrightarrow> base64_char c \<or> c \<in> set ''.=''"

lemma token_rules_plain: "unbounded GITLAB_TOKEN" "unbounded JWT" "[] \<notin> lang GITLAB_TOKEN" "[] \<notin> lang JWT"
  by (simp_all add: GITLAB_TOKEN_def JWT_def alternatives_def)

lemma over_gitlab: "over token_char GITLAB_TOKEN"
proof (rule overI[OF _ token_rules_plain(3)])
  have "list_all token_char ''gl''" "list_all token_char ''-''"
    "list_all (list_all token_char) [''pat'', ''cbt'', ''dt'', ''oit'', ''prt'', ''sst'', ''rt'']" by code_simp+
  then show "alphabet token_char GITLAB_TOKEN" by (simp add: GITLAB_TOKEN_def alternatives_def)
qed

lemma over_jwt: "over jwt_char JWT"
proof (rule overI[OF _ token_rules_plain(4)])
  have "list_all jwt_char ''eyJ''" "list_all jwt_char ''.eyJ''" "list_all jwt_char ''.''" by code_simp+
  then show "alphabet jwt_char JWT" by (auto simp: JWT_def jwt_char_def)
qed

lemma gitlab_insensitive: "insensitive same_letter (set ''Bearer'') GITLAB_TOKEN"
proof -
  have "insensitive same_letter (set ''Bearer'') (Many 10 token_char)"
    by (rule insensitive_Many) (rule token_char_header)
  from insensitive_Lit[OF this, where w = "[]" and d = "CHR ''-''"]
  have tail: "insensitive same_letter (set ''Bearer'') (Seq (Lit ''-'') (Many 10 token_char))" by simp
  show ?thesis unfolding GITLAB_TOKEN_def
    by (rule insensitive_Seq[OF insensitive_Seq[OF tail]]) auto
qed

lemma jwt_insensitive: "insensitive same_letter (set ''Bearer'') JWT"
proof -
  have "insensitive same_letter (set ''Bearer'') (Many 1 (\<lambda>c. base64_char c \<or> c = CHR ''=''))"
    by (rule insensitive_Many) (rule base64_char_header)
  from insensitive_Lit[OF this, where w = "[]" and d = "CHR ''.''"]
  have tail: "insensitive same_letter (set ''Bearer'') (Seq (Lit ''.'') (Many 1 (\<lambda>c. base64_char c \<or> c = CHR ''='')))" by simp
  show ?thesis unfolding JWT_def
    by (rule insensitive_Seq[OF insensitive_Seq[OF insensitive_Seq[OF insensitive_Seq[OF tail]]]]) auto
qed

section \<open>What a redacted text cannot contain\<close>

text \<open>No token is made of the text of the replacements.\<close>

definition replacement_texts :: "string list" where
  "replacement_texts = ''Bearer'' # ''[REDACTED:bearer-token'' # map (\<lambda>(label, _, _). ''REDACTED:'' @ label) RULES"

lemma labels_tokenless: "m \<in> set replacement_texts \<Longrightarrow> \<not> occurs GITLAB_TOKEN m \<and> \<not> occurs JWT m"
proof -
  have none: "\<forall>m \<in> set replacement_texts.
      \<forall>t \<in> set (suffixes m). first_match GITLAB_TOKEN None t = None \<and> first_match JWT None t = None"
    by code_simp
  assume m: "m \<in> set replacement_texts"
  show ?thesis
  proof
    show "\<not> occurs GITLAB_TOKEN m" using occurs_found[OF token_rules_plain(1,3), of m] none m by auto
    show "\<not> occurs JWT m" using occurs_found[OF token_rules_plain(2,4), of m] none m by auto
  qed
qed

lemma fst_apply_rule: "fst (apply_rule (label, pattern, replacement) (text, labels)) = fst (subn pattern replacement text)"
proof -
  have same: "snd (sub_from r rep p s) = 0 \<Longrightarrow> fst (sub_from r rep p s) = s" for r rep p s
  proof (induction p s rule: sub_from_induct[where r = r])
    case (Match p s p' s')
    then show ?case by (subst (asm) sub_from_cases) simp
  next
    case (End p)
    then show ?case by (subst sub_from_cases) simp
  next
    case (Skip p c cs)
    then show ?case by (subst (asm) (2) sub_from_cases, subst sub_from_cases) simp
  qed
  show ?thesis
    using same[of pattern replacement None "text"]
    by (cases "subn pattern replacement text") (auto simp: apply_rule_def subn_def)
qed

text \<open>A rule whose replacement a token cannot reach across creates no token.\<close>

definition harmless :: "regex \<Rightarrow> string \<times> regex \<times> string \<Rightarrow> bool" where
  "harmless q rule \<longleftrightarrow> (\<forall>acc. \<not> occurs q (fst acc) \<longrightarrow> \<not> occurs q (fst (apply_rule rule acc)))"

lemma harmlessI:
  assumes "over A q" and "\<not> A c" and "\<not> A (CHR '']'')" and "\<not> occurs q m" and "headed R h r" and "blind_to R h q"
  shows "harmless q (label, r, h @ c # m @ [CHR '']''])"
  unfolding harmless_def
proof (intro allI impI)
  fix acc :: "string \<times> string list" assume "\<not> occurs q (fst acc)"
  then have "\<not> occurs q (fst (subn r (h @ c # m @ [CHR '']'']) (fst acc)))"
    unfolding subn_def by (rule sub_from_preserves[OF assms])
  then show "\<not> occurs q (fst (apply_rule (label, r, h @ c # m @ [CHR '']'']) acc))"
    using fst_apply_rule[of label r _ "fst acc" "snd acc"] by simp
qed

lemma harmless_redacted:
  assumes "over A q" and "\<not> A (CHR ''['')" and "\<not> A (CHR '']'')" and "\<not> occurs q (''REDACTED:'' @ label)"
  shows "harmless q (label, r, redacted label)"
proof -
  have "\<not> occurs q []" using assms(1) by (auto simp: occurs_def over_def)
  then have "blind_to (=) [] q" by (auto simp: blind_to_def)
  from harmlessI[OF assms headed_nil this] show ?thesis by (simp add: redacted_def)
qed

lemma harmless_bearer:
  assumes "over A q" and "\<not> A (CHR '' '')" and "\<not> A (CHR '']'')" and "insensitive same_letter (set ''Bearer'') q"
    and "\<not> occurs q ''Bearer''" and "\<not> occurs q ''[REDACTED:bearer-token''"
  shows "harmless q (''bearer-token'', BEARER_TOKEN, ''Bearer '' @ redacted ''bearer-token'')"
  using harmlessI[OF assms(1-3,6) bearer_headed insensitive_blind[OF assms(4,5)], of "''bearer-token''"]
  by (simp add: redacted_def)

lemma fold_harmless:
  "list_all (harmless q) rules \<Longrightarrow> \<not> occurs q (fst acc) \<Longrightarrow> \<not> occurs q (fst (fold apply_rule rules acc))"
proof (induction rules arbitrary: acc)
  case (Cons rule rules)
  then have "harmless q rule" by simp
  with Cons.prems(2) have "\<not> occurs q (fst (apply_rule rule acc))" unfolding harmless_def by blast
  with Cons show ?case by simp
qed simp

lemma own_rule:
  assumes "unbounded q" and "over A q" and "\<not> A (CHR ''['')" and "\<not> A (CHR '']'')" and "\<not> occurs q (''REDACTED:'' @ label)"
  shows "\<not> occurs q (fst (apply_rule (label, q, redacted label) acc))"
  using sub_from_eliminates[OF assms, of None "fst acc"] fst_apply_rule[of label q "redacted label" "fst acc" "snd acc"]
  by (simp add: redacted_def subn_def)

text \<open>
  A redacted text contains no GitLab token and no JSON web token, whatever the text was: each rule
  removes every token it names, and no other rule puts one together again.
\<close>

lemma redact_leaves_no_token:
  "\<not> occurs GITLAB_TOKEN (fst (redact text)) \<and> \<not> occurs JWT (fst (redact text))"
proof -
  have fences: "\<not> token_char (CHR ''['')" "\<not> token_char (CHR '']'')" "\<not> token_char (CHR '' '')"
    "\<not> jwt_char (CHR ''['')" "\<not> jwt_char (CHR '']'')" "\<not> jwt_char (CHR '' '')" by code_simp+
  have rest: "list_all (harmless q) (tl RULES)"
    if q: "over A q" "\<not> A (CHR ''['')" "\<not> A (CHR '']'')" "\<not> A (CHR '' '')"
      and header: "insensitive same_letter (set ''Bearer'') q" and none: "\<forall>m \<in> set replacement_texts. \<not> occurs q m" for A q
  proof -
    have plain: "harmless q (label, r, redacted label)" if "''REDACTED:'' @ label \<in> set replacement_texts" for label r
      using harmless_redacted[OF q(1-3)] none that by blast
    have bearer: "harmless q (''bearer-token'', BEARER_TOKEN, ''Bearer '' @ redacted ''bearer-token'')"
      using harmless_bearer[OF q(1,4,3) header] none by (simp add: replacement_texts_def)
    show "list_all (harmless q) (tl RULES)" using plain bearer by (simp add: RULES_def replacement_texts_def)
  qed
  have split: "redact text = fold apply_rule (tl RULES) (apply_rule (''gitlab-token'', GITLAB_TOKEN, redacted ''gitlab-token'') (text, []))"
    "redact text = fold apply_rule (tl (tl RULES)) (apply_rule (''jwt'', JWT, redacted ''jwt'')
       (apply_rule (''gitlab-token'', GITLAB_TOKEN, redacted ''gitlab-token'') (text, [])))"
    by (simp_all add: redact_def RULES_def)
  have labels: "''REDACTED:gitlab-token'' \<in> set replacement_texts" "''REDACTED:jwt'' \<in> set replacement_texts"
    by (simp_all add: replacement_texts_def RULES_def)
  show ?thesis
  proof
    show "\<not> occurs GITLAB_TOKEN (fst (redact text))" unfolding split(1)
      using labels_tokenless labels
      by (intro fold_harmless rest[OF over_gitlab fences(1,2,3) gitlab_insensitive]
          own_rule[OF token_rules_plain(1) over_gitlab fences(1,2)]) simp_all
    show "\<not> occurs JWT (fst (redact text))" unfolding split(2)
      using labels_tokenless labels rest(1)[OF over_jwt fences(4,5,6) jwt_insensitive]
      by (intro fold_harmless own_rule[OF token_rules_plain(2) over_jwt fences(4,5)]) (simp_all add: RULES_def)
  qed
qed

text \<open>The texts that hold neither a GitLab token nor a JSON web token, and how they are put together.\<close>

definition tokenless :: "string \<Rightarrow> bool" where
  "tokenless text \<longleftrightarrow> \<not> occurs GITLAB_TOKEN text \<and> \<not> occurs JWT text"

lemma tokenless_redact: "tokenless (fst (redact text))"
  unfolding tokenless_def by (rule redact_leaves_no_token)

lemma tokenless_prefix: "tokenless (s @ t) \<Longrightarrow> tokenless s"
  unfolding tokenless_def using occurs_prefix by blast

lemma tokenless_take: "tokenless s \<Longrightarrow> tokenless (take n s)"
  using tokenless_prefix[of "take n s" "drop n s"] by simp

lemma tokenless_line: "tokenless s \<Longrightarrow> tokenless t \<Longrightarrow> tokenless (s @ CHR 0x0A # t)"
proof -
  have "\<not> token_char (CHR 0x0A)" "\<not> jwt_char (CHR 0x0A)" by code_simp+
  then show "tokenless s \<Longrightarrow> tokenless t \<Longrightarrow> tokenless (s @ CHR 0x0A # t)"
    unfolding tokenless_def using occurs_across[OF over_gitlab, of s _ t] occurs_across[OF over_jwt, of s _ t] by blast
qed

text \<open>Deciding it on a text, by trying every position.\<close>

lemma tokenlessI:
  assumes "list_all (\<lambda>t. first_match GITLAB_TOKEN None t = None \<and> first_match JWT None t = None) (suffixes s)"
  shows "tokenless s"
  unfolding tokenless_def
proof
  show "\<not> occurs GITLAB_TOKEN s" using occurs_found[OF token_rules_plain(1,3), of s] assms by (auto simp: list_all_iff)
  show "\<not> occurs JWT s" using occurs_found[OF token_rules_plain(2,4), of s] assms by (auto simp: list_all_iff)
qed

text \<open>
  What the rules do not cover: a connection string without a user name keeps its password, and so does
  one whose scheme names a driver.
\<close>

lemma redaction_gaps:
  "redact ''redis://:hunter2@cache:6379'' = (''redis://:hunter2@cache:6379'', [])"
  "redact ''postgresql+asyncpg://cnp:hunter2@db/cnp'' = (''postgresql+asyncpg://cnp:hunter2@db/cnp'', [])"
  by code_simp+

end
