(* ===== verification/Lexical.thy ===== *)
theory Lexical
  imports Py_Strings Complex_Main
begin

text \<open>
  backend/ai/lexical.py: the words of a text and the Okapi BM25 ranking of documents against a question.
  Scores are real numbers where the code has floats, and the terms of a question are summed in no order.
\<close>

section \<open>Words\<close>

definition is_term_char :: "char \<Rightarrow> bool" where
  "is_term_char c \<longleftrightarrow>
     (let l = lower_char c in
      is_09 l \<or> is_az l
      \<or> l \<in> {CHR 0xE0, CHR 0xE2, CHR 0xE4, CHR 0xE7, CHR 0xE9, CHR 0xE8, CHR 0xEA, CHR 0xEB, CHR 0xEE, CHR 0xEF,
              CHR 0xF4, CHR 0xF6, CHR 0xF9, CHR 0xFB, CHR 0xFC, CHR 0xFF, CHR 0xE6})"

text \<open>\<open>re.finditer\<close> of \<open>[class]+\<close>: the maximal runs of characters of the class.\<close>

function find_runs :: "(char \<Rightarrow> bool) \<Rightarrow> string \<Rightarrow> string list" where
  "find_runs P s =
     (case dropWhile (\<lambda>c. \<not> P c) s of
        [] \<Rightarrow> []
      | c # cs \<Rightarrow> (c # takeWhile P cs) # find_runs P (dropWhile P cs))"
  by pat_completeness auto
termination
proof (relation "measure (\<lambda>(_, s). length s)", simp)
  fix P s c cs assume "dropWhile (\<lambda>c. \<not> P c) s = c # cs"
  then have "length (c # cs) \<le> length s" by (metis length_dropWhile_le)
  moreover have "length (dropWhile P cs) \<le> length cs" by (rule length_dropWhile_le)
  ultimately show "((P, dropWhile P cs), P, s) \<in> measure (\<lambda>(_, s). length s)" by simp
qed

declare find_runs.simps [simp del]

definition STOPWORDS :: "string list" where
  "STOPWORDS =
    [''le'', ''la'', ''les'', ''un'', ''une'', ''des'', ''de'', ''du'', ''et'', ''ou'', [CHR 0xE0], ''au'',
     ''aux'', ''en'', ''dans'', ''pour'', ''par'', ''sur'', ''avec'', ''sans'', ''que'', ''qui'',
     ''quoi'', ''quel'', ''quelle'', ''quels'', ''quelles'', ''est'', ''sont'', ''ce'', ''cette'',
     ''ces'', ''il'', ''elle'', ''je'', ''tu'', ''on'', ''se'', ''sa'', ''son'', ''ses'', ''mon'',
     ''ma'', ''mes'', ''the'', ''a'', ''an'', ''of'', ''and'', ''or'', ''to'', ''in'', ''on'', ''for'',
     ''is'', ''are'', ''be'', ''with'', ''what'', ''which'', ''how'', ''do'', ''does'', ''can'',
     ''comment'', ''pourquoi'', ''quand'', ''o'' @ [CHR 0xF9], ''combien'', ''faire'', ''fait'', ''peux'',
     ''puis'', ''peut'', ''veux'', ''voudrais'', ''voir'', ''ai'', ''as'', ''mon'', ''notre'', ''nos'',
     ''votre'', ''vos'', ''leur'', ''leurs'', ''ne'', ''pas'', ''plus'', ''moi'', ''nous'', ''vous'']"

definition normalize :: "string \<Rightarrow> string" where
  "normalize token =
     (if length token > 3 \<and> List.last token \<in> set ''sx'' \<and> token ! (length token - 2) \<noteq> CHR ''s''
      then butlast token else token)"

definition tokenize :: "string \<Rightarrow> string list" where
  "tokenize text =
     map normalize (filter (\<lambda>t. length t > 1 \<and> t \<notin> set STOPWORDS) (map py_lower (find_runs is_term_char text)))"

section \<open>Ranking\<close>

definition BM25_K1 :: real where
  "BM25_K1 = 1.5"

definition BM25_B :: real where
  "BM25_B = 0.75"

definition doc_frequency :: "string list list \<Rightarrow> string \<Rightarrow> nat" where
  "doc_frequency doc_tokens term = length (filter (\<lambda>dt. term \<in> set dt) doc_tokens)"

definition term_score :: "string list list \<Rightarrow> string list \<Rightarrow> string \<Rightarrow> real" where
  "term_score doc_tokens dt term =
     (let n = real (length doc_tokens);
          avgdl = real (sum_list (map length doc_tokens)) / n;
          f = real (count_list dt term);
          df = real (doc_frequency doc_tokens term);
          idf = ln (1 + (n - df + 0.5) / (df + 0.5));
          denom = f + BM25_K1 * (1 - BM25_B + BM25_B * (if avgdl \<noteq> 0 then real (length dt) / avgdl else 0))
      in if f = 0 then 0 else idf * (f * (BM25_K1 + 1)) / denom)"

definition bm25_rank :: "string \<Rightarrow> string list \<Rightarrow> (nat \<times> real) list" where
  "bm25_rank query documents =
     (let q_terms = set (tokenize query);
          doc_tokens = map tokenize documents;
          score = (\<lambda>dt. \<Sum>term \<in> q_terms. term_score doc_tokens dt term)
      in if q_terms = {} \<or> documents = [] then []
         else sort_key (\<lambda>x. - snd x)
                (map (\<lambda>(i, dt). (i, score dt))
                  (filter (\<lambda>(i, dt). dt \<noteq> [] \<and> score dt > 0) (enumerate 0 doc_tokens))))"

section \<open>What is ranked\<close>

definition shares_term :: "string \<Rightarrow> string \<Rightarrow> bool" where
  "shares_term query document \<longleftrightarrow> (\<exists>t \<in> set (tokenize query). t \<in> set (tokenize document))"

lemma term_score_pos:
  assumes "dt \<in> set doc_tokens" and "term \<in> set dt"
  shows "term_score doc_tokens dt term > 0"
proof -
  define n where "n = real (length doc_tokens)"
  define avgdl where "avgdl = real (sum_list (map length doc_tokens)) / n"
  define f where "f = real (count_list dt term)"
  define df where "df = real (doc_frequency doc_tokens term)"
  have "f > 0" using assms(2) by (simp add: f_def) (metis count_notin gr0I count_list_0_iff)
  moreover have "df \<le> n" by (simp add: df_def n_def doc_frequency_def)
  moreover have "df \<ge> 0" by (simp add: df_def)
  ultimately have "ln (1 + (n - df + 0.5) / (df + 0.5)) > 0" by (simp add: ln_gt_zero)
  moreover have "avgdl \<ge> 0" by (simp add: avgdl_def n_def)
  then have "f + BM25_K1 * (1 - BM25_B + BM25_B * (if avgdl \<noteq> 0 then real (length dt) / avgdl else 0)) > 0"
    using \<open>f > 0\<close> by (auto simp: BM25_K1_def BM25_B_def intro!: add_pos_nonneg)
  moreover have "BM25_K1 + 1 > 0" by (simp add: BM25_K1_def)
  ultimately show ?thesis
    using \<open>f > 0\<close> unfolding term_score_def Let_def n_def[symmetric] avgdl_def[symmetric] f_def[symmetric] df_def[symmetric]
    by simp
qed

lemma term_score_zero: "term \<notin> set dt \<Longrightarrow> term_score doc_tokens dt term = 0"
  by (simp add: term_score_def Let_def count_list_0_iff)

lemma score_pos_iff:
  assumes "dt \<in> set doc_tokens" and "finite q"
  shows "(\<Sum>term \<in> q. term_score doc_tokens dt term) > 0 \<longleftrightarrow> (\<exists>t \<in> q. t \<in> set dt)"
proof -
  have nonneg: "term_score doc_tokens dt t \<ge> 0" for t
    using term_score_pos[OF assms(1), of t] term_score_zero[of t dt doc_tokens] by (cases "t \<in> set dt") simp_all
  have "(\<Sum>term \<in> q. term_score doc_tokens dt term) = 0 \<longleftrightarrow> (\<forall>t \<in> q. term_score doc_tokens dt t = 0)"
    using assms(2) nonneg by (rule sum_nonneg_eq_0_iff)
  moreover have "(\<Sum>term \<in> q. term_score doc_tokens dt term) \<ge> 0" by (rule sum_nonneg) (rule nonneg)
  moreover have "term_score doc_tokens dt t = 0 \<longleftrightarrow> t \<notin> set dt" for t
    using term_score_pos[OF assms(1), of t] term_score_zero[of t dt doc_tokens] by (cases "t \<in> set dt") auto
  ultimately show ?thesis by (metis less_eq_real_def less_irrefl)
qed

lemma bm25_rank_indices:
  "fst ` set (bm25_rank query documents) = {i. i < length documents \<and> shares_term query (documents ! i)}"
proof (cases "set (tokenize query) = {} \<or> documents = []")
  case True
  then show ?thesis by (auto simp: bm25_rank_def shares_term_def Let_def)
next
  case False
  let ?d = "map tokenize documents"
  have "i < length documents \<Longrightarrow> (\<Sum>term \<in> set (tokenize query). term_score ?d (?d ! i) term) > 0
      \<longleftrightarrow> shares_term query (documents ! i)" for i
    using score_pos_iff[of "?d ! i" ?d "set (tokenize query)"] by (auto simp: shares_term_def)
  moreover have "i < length documents \<Longrightarrow> shares_term query (documents ! i) \<Longrightarrow> ?d ! i \<noteq> []" for i
    by (auto simp: shares_term_def)
  ultimately have "{i. i < length documents \<and> shares_term query (documents ! i)}
      = {i. i < length documents \<and> ?d ! i \<noteq> [] \<and> (\<Sum>term \<in> set (tokenize query). term_score ?d (?d ! i) term) > 0}"
    by auto
  also have "\<dots> = fst ` set (bm25_rank query documents)"
    using False by (force simp: bm25_rank_def Let_def in_set_enumerate_eq image_iff)
  finally show ?thesis by simp
qed

lemma bm25_rank_sorted: "sorted (map (\<lambda>x. - snd x) (bm25_rank query documents))"
  by (simp add: bm25_rank_def Let_def)

end
