(* ===== verification/Knowledge.thy ===== *)
theory Knowledge
  imports Redaction Lexical Database "HOL-Library.List_Lexorder"
begin

text \<open>
  backend/services/platform_knowledge_service.py: the documentation of the platform is cut into chunks
  and stored with its secrets removed, for the assistant to quote. Lemmas: the words of texts and of
  what \<open>str.join\<close>, \<open>str.split\<close> and \<open>str.strip\<close> make of them. Properties: the chunks carry every word of
  the document, in order, within the size bound; and what an ingestion leaves in the table.
\<close>

section \<open>Lines, words and paragraphs\<close>

text \<open>\<open>str.splitlines()\<close>.\<close>

definition is_linebreak :: "char \<Rightarrow> bool" where
  "is_linebreak c \<longleftrightarrow> c \<in> {CHR 0x0A, CHR 0x0B, CHR 0x0C, CHR 0x0D, CHR 0x1C, CHR 0x1D, CHR 0x1E, CHR 0x85}"

fun splitlines :: "string \<Rightarrow> string list" where
  "splitlines [] = []"
| "splitlines (c # cs) =
     (if c = CHR 0x0D \<and> prefix [CHR 0x0A] cs then [] # splitlines (drop 1 cs)
      else if is_linebreak c then [] # splitlines cs
      else (case splitlines cs of [] \<Rightarrow> [[c]] | w # ws \<Rightarrow> (c # w) # ws))"

text \<open>\<open>s.split()\<close>: the maximal runs of characters that are not whitespace.\<close>

fun words :: "string \<Rightarrow> string list" where
  "words [] = []"
| "words [c] = (if py_isspace c then [] else [[c]])"
| "words (c # d # cs) =
     (if py_isspace c then words (d # cs)
      else if py_isspace d then [c] # words (d # cs)
      else (case words (d # cs) of [] \<Rightarrow> [[c]] | w # ws \<Rightarrow> (c # w) # ws))"

text \<open>\<open>s.split(sep)\<close> for a separator of several characters.\<close>

function split_text :: "string \<Rightarrow> string \<Rightarrow> string list" where
  "split_text sep [] = [[]]"
| "split_text sep (c # cs) =
     (if sep \<noteq> [] \<and> prefix sep (c # cs) then [] # split_text sep (drop (length sep) (c # cs))
      else (case split_text sep cs of [] \<Rightarrow> [[c]] | w # ws \<Rightarrow> (c # w) # ws))"
  by pat_completeness auto
termination by (relation "measure (\<lambda>(_, s). length s)") auto

text \<open>\<open>[xs[i:i + n] for i in range(0, len(xs), n)]\<close> for a positive \<open>n\<close>.\<close>

function slices :: "nat \<Rightarrow> 'a list \<Rightarrow> 'a list list" where
  "slices n xs = (if n = 0 \<or> xs = [] then [] else take n xs # slices n (drop n xs))"
  by pat_completeness auto
termination by (relation "measure (\<lambda>(_, s). length s)") auto

declare slices.simps [simp del]

section \<open>Chunks of a markdown document\<close>

definition HASH :: char where
  "HASH = CHR 0x23"

definition is_heading :: "string \<Rightarrow> bool" where
  "is_heading line =
     (let l = lstrip py_isspace line in
      l \<noteq> [] \<and> hd l = HASH \<and> set (takeWhile (\<lambda>c. c \<noteq> CHR '' '') l) = {HASH})"

definition heading_of :: "string \<Rightarrow> string option" where
  "heading_of line =
     (let h = strip py_isspace (lstrip (\<lambda>c. c = HASH \<or> c = CHR '' '') line) in
      if h = [] then None else Some h)"

type_synonym section_state = "(string option \<times> string list) list \<times> string option \<times> string list"

definition flush :: "section_state \<Rightarrow> section_state" where
  "flush st = (case st of (sections, heading, buffer) \<Rightarrow>
     (if \<exists>line \<in> set buffer. strip py_isspace line \<noteq> [] then sections @ [(heading, buffer)] else sections,
      heading, []))"

definition section_line :: "string \<Rightarrow> section_state \<Rightarrow> section_state" where
  "section_line line st =
     (if is_heading line then (case flush st of (sections, _, buffer) \<Rightarrow> (sections, heading_of line, buffer))
      else (case st of (sections, heading, buffer) \<Rightarrow> (sections, heading, buffer @ [line])))"

definition sections_of :: "string \<Rightarrow> (string option \<times> string list) list" where
  "sections_of text = fst (flush (fold section_line (splitlines text) ([], None, [])))"

type_synonym chunk = "string option \<times> string"

type_synonym pack_state = "chunk list \<times> string list \<times> int"

definition para_break :: string where
  "para_break = [CHR 0x0A, CHR 0x0A]"

definition close_para :: "string option \<Rightarrow> pack_state \<Rightarrow> pack_state" where
  "close_para heading st = (case st of (chunks, para, count) \<Rightarrow>
     if para = [] then st else (chunks @ [(heading, strip py_isspace (py_join para_break para))], [], 0))"

definition hard_split :: "int \<Rightarrow> string list \<Rightarrow> exc + string list" where
  "hard_split max_tokens ws =
     (if max_tokens = 0 then Inl ValueError
      else if max_tokens < 0 then Inr []
      else Inr (map (py_join '' '') (slices (nat max_tokens) ws)))"

definition pack_block :: "int \<Rightarrow> string option \<Rightarrow> string \<Rightarrow> pack_state \<Rightarrow> exc + pack_state" where
  "pack_block max_tokens heading para_block st =
     (let ws = words para_block in
      if int (length ws) > max_tokens then
        (case close_para heading st of (chunks, para, count) \<Rightarrow>
          bnd_result (hard_split max_tokens ws) (\<lambda>parts. Inr (chunks @ map (Pair heading) parts, para, count)))
      else
        (case st of (_, para, count) \<Rightarrow>
           let st1 = (if count + int (length ws) > max_tokens \<and> para \<noteq> [] then close_para heading st else st) in
           (case st1 of (chunks, para, count) \<Rightarrow> Inr (chunks, para @ [para_block], count + int (length ws)))))"

fun pack_blocks :: "int \<Rightarrow> string option \<Rightarrow> string list \<Rightarrow> pack_state \<Rightarrow> exc + pack_state" where
  "pack_blocks max_tokens heading [] st = Inr st"
| "pack_blocks max_tokens heading (b # bs) st =
     bnd_result (pack_block max_tokens heading b st) (pack_blocks max_tokens heading bs)"

definition section_chunks :: "int \<Rightarrow> string option \<times> string list \<Rightarrow> exc + chunk list" where
  "section_chunks max_tokens sec = (case sec of (heading, body_lines) \<Rightarrow>
     let body = strip py_isspace (py_join [CHR 0x0A] body_lines) in
     if body = [] then Inr []
     else if int (length (words body)) \<le> max_tokens then Inr [(heading, body)]
     else bnd_result (pack_blocks max_tokens heading (split_text para_break body) ([], [], 0))
            (\<lambda>st. Inr (fst (close_para heading st))))"

fun all_chunks :: "int \<Rightarrow> (string option \<times> string list) list \<Rightarrow> exc + chunk list" where
  "all_chunks max_tokens [] = Inr []"
| "all_chunks max_tokens (s # ss) =
     bnd_result (section_chunks max_tokens s) (\<lambda>cs. bnd_result (all_chunks max_tokens ss) (\<lambda>rest. Inr (cs @ rest)))"

definition chunk_markdown :: "string \<Rightarrow> int \<Rightarrow> exc + chunk list" where
  "chunk_markdown text max_tokens = all_chunks max_tokens (sections_of text)"

section \<open>Words\<close>

lemma words_Cons_space: "py_isspace c \<Longrightarrow> words (c # s) = words s"
  by (cases s) auto

lemma words_start: "\<not> py_isspace c \<Longrightarrow> words (c # s) \<noteq> []"
  by (cases s) (auto split: list.split)

lemma words_space: "py_isspace x \<Longrightarrow> words (a @ x # b) = words a @ words b"
proof (induction a rule: words.induct)
  case (3 c d cs)
  then show ?case using words_start[of d cs] by (cases "words (d # cs)") auto
qed (auto simp: words_Cons_space)

lemma words_blank: "\<forall>c \<in> set s. py_isspace c \<Longrightarrow> words s = []"
  by (induction s) (auto simp: words_Cons_space)

lemma words_append_blank: "\<forall>c \<in> set s. py_isspace c \<Longrightarrow> words (a @ s) = words a"
  by (cases s) (auto simp: words_space words_blank)

lemma words_lstrip: "words (lstrip py_isspace s) = words s"
  unfolding lstrip_def by (induction s) (auto simp: words_Cons_space)

lemma words_rstrip: "words (rstrip py_isspace s) = words s"
proof -
  have "s = rstrip py_isspace s @ rev (takeWhile py_isspace (rev s))"
    unfolding rstrip_def by (metis rev_append rev_rev_ident takeWhile_dropWhile_id)
  moreover have "\<forall>c \<in> set (rev (takeWhile py_isspace (rev s))). py_isspace c" by (auto dest: set_takeWhileD)
  ultimately show ?thesis using words_append_blank by metis
qed

lemma words_strip [simp]: "words (strip py_isspace s) = words s"
  by (simp add: strip_def words_lstrip words_rstrip)

lemma words_join:
  "sep \<noteq> [] \<Longrightarrow> \<forall>c \<in> set sep. py_isspace c \<Longrightarrow> words (py_join sep ps) = concat (map words ps)"
proof (induction sep ps rule: py_join.induct)
  case (3 sep w v ps)
  then obtain c sep' where sep: "sep = c # sep'" by (cases sep) auto
  have "words (w @ sep @ py_join sep (v # ps)) = words w @ words (sep' @ py_join sep (v # ps))"
    using 3(3) by (simp add: sep words_space)
  moreover have "words (t @ u) = words u" if "\<forall>c \<in> set t. py_isspace c" for t u
    using that by (induction t) (auto simp: words_Cons_space)
  ultimately show ?case using 3 sep by simp
qed auto

definition is_word :: "string \<Rightarrow> bool" where
  "is_word w \<longleftrightarrow> w \<noteq> [] \<and> (\<forall>c \<in> set w. \<not> py_isspace c)"

lemma words_clean: "list_all is_word (words s)"
proof (induction s rule: words.induct)
  case (3 c d cs)
  have step: "list_all is_word (words (d # cs))" using 3 by (cases "py_isspace c"; cases "py_isspace d") simp_all
  show ?case
  proof (cases "words (d # cs)")
    case Nil
    then have "words (c # d # cs) \<in> {[], [[c]]}" by simp
    moreover have "py_isspace c \<Longrightarrow> words (c # d # cs) = []" using Nil by simp
    ultimately show ?thesis by (cases "py_isspace c") (auto simp del: words.simps simp: is_word_def)
  next
    case (Cons w ws)
    have "is_word w" "list_all is_word ws" using step Cons by simp_all
    moreover from this have "\<not> py_isspace c \<Longrightarrow> is_word (c # w)" "\<not> py_isspace c \<Longrightarrow> is_word [c]" by (simp_all add: is_word_def)
    ultimately show ?thesis using Cons unfolding words.simps by simp
  qed
qed (auto simp: is_word_def)

lemma words_word: "is_word w \<Longrightarrow> words w = [w]"
  by (induction w rule: words.induct) (auto simp: is_word_def)

lemma words_join_words:
  assumes "set ws \<subseteq> set (words s)"
  shows "words (py_join '' '' ws) = ws"
proof -
  have "py_isspace (CHR '' '')" by code_simp
  then have "words (py_join '' '' ws) = concat (map words ws)" by (intro words_join) auto
  moreover have "map words ws = map (\<lambda>w. [w]) ws" using assms words_clean[of s] words_word by (auto simp: subset_iff list_all_iff)
  ultimately show ?thesis by (simp add: concat_map_singleton)
qed

lemma split_text_nonempty: "split_text sep s \<noteq> []"
  by (induction sep s rule: split_text.induct) (auto split: list.split)

lemma py_join_Cons_head: "py_join sep ((c # w) # ws) = c # py_join sep (w # ws)"
  by (cases ws) auto

lemma py_join_split_text: "py_join sep (split_text sep s) = s"
proof (induction sep s rule: split_text.induct)
  case (2 sep c cs)
  show ?case
  proof (cases "sep \<noteq> [] \<and> prefix sep (c # cs)")
    case True
    with 2 have "py_join sep (split_text sep (drop (length sep) (c # cs))) = drop (length sep) (c # cs)" by simp
    moreover obtain w ws where "split_text sep (drop (length sep) (c # cs)) = w # ws"
      using split_text_nonempty by (metis neq_Nil_conv)
    moreover have "sep @ drop (length sep) (c # cs) = c # cs" using True by (auto simp: prefix_def)
    ultimately show ?thesis using True by simp
  next
    case False
    with 2 have "py_join sep (split_text sep cs) = cs" by simp
    moreover obtain w ws where "split_text sep cs = w # ws" using split_text_nonempty by (metis neq_Nil_conv)
    ultimately show ?thesis using False unfolding split_text.simps if_not_P[OF False] by (simp add: py_join_Cons_head)
  qed
qed simp

lemma para_break_blank: "\<forall>c \<in> set para_break. py_isspace c" "para_break \<noteq> []"
  by (auto simp: para_break_def py_isspace_def)

lemma words_paragraphs: "concat (map words (split_text para_break s)) = words s"
  using words_join[OF para_break_blank(2,1), of "split_text para_break s"] by (simp add: py_join_split_text)

lemma concat_slices: "0 < n \<Longrightarrow> concat (slices n xs) = xs"
  by (induction n xs rule: slices.induct) (subst slices.simps, auto)

lemma length_slices: "x \<in> set (slices n xs) \<Longrightarrow> length x \<le> n"
  by (induction n xs rule: slices.induct) (subst (asm) (2) slices.simps, auto split: if_splits)

lemma set_slices: "x \<in> set (slices n xs) \<Longrightarrow> set x \<subseteq> set xs"
proof (induction n xs rule: slices.induct)
  case (1 n xs)
  then have "n \<noteq> 0 \<and> xs \<noteq> [] \<and> (x = take n xs \<or> x \<in> set (slices n (drop n xs)))"
    by (subst (asm) (2) slices.simps) (auto split: if_splits)
  with 1 show ?case by (auto dest: in_set_takeD in_set_dropD)
qed

section \<open>The chunks carry the document\<close>

definition section_words :: "section_state \<Rightarrow> string list" where
  "section_words st = (case st of (sections, _, buffer) \<Rightarrow> concat (map words (concat (map snd sections) @ buffer)))"

lemma blank_line: "strip py_isspace l = [] \<Longrightarrow> words l = []"
  using words_strip[of l] by simp

lemma flush_words: "section_words (flush st) = section_words st"
  by (auto simp: section_words_def flush_def blank_line split: prod.split)

lemma flush_empties: "flush st = (a, b, c) \<Longrightarrow> c = []"
  by (auto simp: flush_def split: prod.splits)

lemma section_line_words:
  "section_words (section_line l st) = section_words st @ (if is_heading l then [] else words l)"
proof (cases "is_heading l")
  case True
  obtain a b c where f: "flush st = (a, b, c)" by (metis prod_cases3)
  with True flush_words[of st] show ?thesis by (simp add: section_line_def section_words_def)
qed (auto simp: section_line_def section_words_def split: prod.split)

definition prose_lines :: "string \<Rightarrow> string list" where
  "prose_lines text = filter (\<lambda>l. \<not> is_heading l) (splitlines text)"

lemma sections_words: "concat (map (\<lambda>s. concat (map words (snd s))) (sections_of text)) = concat (map words (prose_lines text))"
proof -
  have fold: "section_words (fold section_line ls st)
      = section_words st @ concat (map words (filter (\<lambda>l. \<not> is_heading l) ls))" for ls st
    by (induction ls arbitrary: st) (auto simp: section_line_words)
  obtain a b c where f: "flush (fold section_line (splitlines text) ([], None, [])) = (a, b, c)" by (metis prod_cases3)
  then have "section_words (a, b, c) = concat (map words (prose_lines text))"
    using flush_words[of "fold section_line (splitlines text) ([], None, [])"] fold
    by (simp add: prose_lines_def section_words_def)
  moreover have "c = []" using f by (rule flush_empties)
  moreover have "concat (map (\<lambda>s. concat (map words (snd s))) xs) = concat (map words (concat (map snd xs)))"
    for xs :: "(string option \<times> string list) list" by (induction xs) simp_all
  ultimately show ?thesis by (simp add: sections_of_def f section_words_def)
qed

definition chunk_words :: "chunk list \<Rightarrow> string list" where
  "chunk_words cs = concat (map (\<lambda>c. words (snd c)) cs)"

definition bounded_chunks :: "int \<Rightarrow> chunk list \<Rightarrow> bool" where
  "bounded_chunks n cs \<longleftrightarrow> (\<forall>c \<in> set cs. int (length (words (snd c))) \<le> n)"

definition pack_ok :: "int \<Rightarrow> pack_state \<Rightarrow> bool" where
  "pack_ok n st = (case st of (chunks, para, count) \<Rightarrow>
     bounded_chunks n chunks \<and> count = int (length (concat (map words para))) \<and> count \<le> n)"

definition pack_words :: "pack_state \<Rightarrow> string list" where
  "pack_words st = (case st of (chunks, para, count) \<Rightarrow> chunk_words chunks @ concat (map words para))"

lemma close_para_ok:
  assumes "pack_ok n st" and "0 < n"
  shows "pack_ok n (close_para h st)" "pack_words (close_para h st) = pack_words st"
    "fst (snd (close_para h st)) = []" "snd (snd (close_para h st)) = 0"
  using assms words_join[OF para_break_blank(2,1)]
  by (auto simp: close_para_def pack_ok_def pack_words_def chunk_words_def bounded_chunks_def split: prod.splits)

lemma hard_split_ok:
  assumes "0 < n"
  obtains parts where "hard_split n (words b) = Inr parts" "concat (map words parts) = words b"
    "\<forall>p \<in> set parts. int (length (words p)) \<le> n"
proof -
  let ?s = "slices (nat n) (words b)"
  have w: "words (py_join '' '' x) = x" if "x \<in> set ?s" for x
    using set_slices[OF that] by (rule words_join_words)
  then have "map (\<lambda>x. words (py_join '' '' x)) ?s = ?s" by (simp add: map_idI)
  then have "concat (map words (map (py_join '' '') ?s)) = words b"
    using concat_slices[of "nat n" "words b"] assms by (simp add: comp_def)
  moreover have "\<forall>p \<in> set (map (py_join '' '') ?s). int (length (words p)) \<le> n"
    using w length_slices[of _ "nat n" "words b"] assms by (auto simp: le_nat_iff)
  ultimately show ?thesis using that assms by (simp add: hard_split_def)
qed

lemma pack_block_ok:
  assumes "0 < n" and "pack_ok n st"
  obtains st' where "pack_block n h b st = Inr st'" "pack_ok n st'" "pack_words st' = pack_words st @ words b"
proof (cases "int (length (words b)) > n")
  case True
  obtain parts where parts: "hard_split n (words b) = Inr parts" "concat (map words parts) = words b"
      "\<forall>p \<in> set parts. int (length (words p)) \<le> n" using hard_split_ok[OF assms(1)] by blast
  obtain cs ps k where c: "close_para h st = (cs, ps, k)" by (metis prod_cases3)
  with close_para_ok[OF assms(2,1), of h] have ok: "pack_ok n (cs, [], 0)" "pack_words (cs, [], 0) = pack_words st" "ps = []" "k = 0"
    by auto
  have "pack_block n h b st = Inr (cs @ map (Pair h) parts, [], 0)"
    using True c parts(1) ok(3,4) by (simp add: pack_block_def Let_def bnd_result_def)
  moreover have "pack_ok n (cs @ map (Pair h) parts, [], 0)"
    using ok(1) parts(3) by (auto simp: pack_ok_def bounded_chunks_def)
  moreover have "pack_words (cs @ map (Pair h) parts, [], 0) = pack_words st @ words b"
    using ok(2) parts(2) by (auto simp: pack_words_def chunk_words_def comp_def)
  ultimately show ?thesis by (rule that)
next
  case False
  obtain cs0 ps0 k0 where st: "st = (cs0, ps0, k0)" by (metis prod_cases3)
  let ?close = "k0 + int (length (words b)) > n \<and> ps0 \<noteq> []"
  define st1 where "st1 = (if ?close then close_para h st else st)"
  obtain cs ps k where st1: "st1 = (cs, ps, k)" by (metis prod_cases3)
  have ok: "pack_ok n (cs, ps, k)" "pack_words (cs, ps, k) = pack_words st"
    using close_para_ok[OF assms(2,1), of h] assms(2) by (auto simp: st1_def st1[symmetric])
  have room: "k + int (length (words b)) \<le> n"
  proof (cases ?close)
    case True
    then have "k = 0" using close_para_ok(4)[OF assms(2,1), of h] st1 by (simp add: st1_def)
    with False show ?thesis by simp
  next
    case F: False
    then have "st1 = st" unfolding st1_def by (rule if_not_P)
    then have "k = k0" "ps = ps0" using st1 st by simp_all
    moreover have "ps0 = [] \<Longrightarrow> k0 = 0" using assms(2) st by (simp add: pack_ok_def)
    ultimately show ?thesis using F False by (cases "ps0 = []") linarith+
  qed
  have "pack_block n h b st = Inr (cs, ps @ [b], k + int (length (words b)))"
    using False st1 st by (auto simp: pack_block_def Let_def st1_def split: if_splits)
  moreover have "pack_ok n (cs, ps @ [b], k + int (length (words b)))" using ok(1) room by (simp add: pack_ok_def)
  moreover have "pack_words (cs, ps @ [b], k + int (length (words b))) = pack_words st @ words b"
    using ok(2) by (simp add: pack_words_def)
  ultimately show ?thesis by (rule that)
qed

lemma pack_blocks_ok:
  assumes "0 < n" and "pack_ok n st"
  shows "\<exists>st'. pack_blocks n h bs st = Inr st' \<and> pack_ok n st' \<and> pack_words st' = pack_words st @ concat (map words bs)"
  using assms(2)
proof (induction bs arbitrary: st)
  case (Cons b bs)
  obtain st1 where "pack_block n h b st = Inr st1" "pack_ok n st1" "pack_words st1 = pack_words st @ words b"
    using pack_block_ok[OF assms(1) Cons.prems] by metis
  with Cons.IH[of st1] show ?case by (auto simp: bnd_result_def)
qed simp

lemma section_chunks_ok:
  assumes "0 < n"
  shows "\<exists>cs. section_chunks n (h, ls) = Inr cs \<and> bounded_chunks n cs \<and> chunk_words cs = concat (map words ls)"
proof -
  define body where "body = strip py_isspace (py_join [CHR 0x0A] ls)"
  have "py_isspace (CHR 0x0A)" by code_simp
  then have w: "words body = concat (map words ls)" unfolding body_def words_strip by (intro words_join) auto
  consider "body = []" | "body \<noteq> []" "int (length (words body)) \<le> n" | "int (length (words body)) > n"
    by linarith
  then show ?thesis
  proof cases
    case 3
    then have ne: "body \<noteq> []" using assms by auto
    have "pack_ok n ([], [], 0)" using assms by (simp add: pack_ok_def bounded_chunks_def)
    from pack_blocks_ok[OF assms this, of h "split_text para_break body"] obtain st where
      st: "pack_blocks n h (split_text para_break body) ([], [], 0) = Inr st" "pack_ok n st" "pack_words st = words body"
      by (auto simp: words_paragraphs pack_words_def chunk_words_def)
    obtain cs ps k where c: "close_para h st = (cs, ps, k)" by (metis prod_cases3)
    have "bounded_chunks n cs" "chunk_words cs = words body"
      using close_para_ok[OF st(2) assms, of h] st(3) c by (auto simp: pack_ok_def pack_words_def)
    with st(1) c 3 ne show ?thesis unfolding section_chunks_def
      by (simp add: body_def[symmetric] Let_def bnd_result_def w)
  qed (use w in \<open>auto simp: section_chunks_def body_def[symmetric] Let_def bounded_chunks_def chunk_words_def\<close>)
qed

text \<open>
  C33: Whatever the document, its chunks hold at most \<open>max_tokens\<close> words each, and one after the other
  they are all the words of its lines that are not headings, in order.
\<close>

theorem chunks_carry_the_document:
  assumes "0 < max_tokens"
  shows "\<exists>cs. chunk_markdown text max_tokens = Inr cs
    \<and> (\<forall>c \<in> set cs. int (length (words (snd c))) \<le> max_tokens)
    \<and> concat (map (\<lambda>c. words (snd c)) cs) = concat (map words (prose_lines text))"
proof -
  have "\<exists>cs. all_chunks max_tokens ss = Inr cs \<and> bounded_chunks max_tokens cs
      \<and> chunk_words cs = concat (map (\<lambda>s. concat (map words (snd s))) ss)" for ss
  proof (induction ss)
    case (Cons s ss)
    then obtain rest where "all_chunks max_tokens ss = Inr rest" "bounded_chunks max_tokens rest"
      "chunk_words rest = concat (map (\<lambda>s. concat (map words (snd s))) ss)" by blast
    moreover obtain cs where "section_chunks max_tokens s = Inr cs" "bounded_chunks max_tokens cs"
      "chunk_words cs = concat (map words (snd s))" using section_chunks_ok[OF assms, of "fst s" "snd s"] by auto
    ultimately show ?case by (auto simp: bnd_result_def bounded_chunks_def chunk_words_def)
  qed (simp add: bounded_chunks_def chunk_words_def)
  from this[of "sections_of text"] show ?thesis
    by (auto simp: chunk_markdown_def bounded_chunks_def chunk_words_def sections_words)
qed

section \<open>Ingestion\<close>

text \<open>
  The walk over the directory is given: the paths of its files relative to it, with the text of each,
  or \<open>None\<close> where opening or decoding fails. SHA-256 is the parameter \<open>file_hash\<close>.
\<close>

record ingest_stats =
  files_seen :: int
  files_indexed :: int
  files_skipped :: int
  chunks_written :: int

definition no_files :: ingest_stats where
  "no_files = \<lparr>files_seen = 0, files_indexed = 0, files_skipped = 0, chunks_written = 0\<rparr>"

definition new_chunk :: "string \<Rightarrow> string \<Rightarrow> string \<Rightarrow> nat \<times> chunk \<Rightarrow> int \<Rightarrow> platform_doc_chunk" where
  "new_chunk source path fhash numbered i =
     (case numbered of (ordinal, heading, body) \<Rightarrow>
        let safe = fst (redact body) in
        \<lparr>pdc_id = i, pdc_source = source, pdc_path = path, pdc_heading = heading, pdc_ordinal = int ordinal,
         pdc_text = safe, pdc_token_count = int (length (words safe)), pdc_file_hash = fhash\<rparr>)"

definition of_page :: "string \<Rightarrow> string \<Rightarrow> platform_doc_chunk \<Rightarrow> bool" where
  "of_page source path r \<longleftrightarrow> pdc_source r = source \<and> pdc_path r = path"

definition stored_hash :: "string \<Rightarrow> string \<Rightarrow> database \<Rightarrow> string option" where
  "stored_hash source path d =
     (case select_rows (of_page source path) (doc_chunks d) of [] \<Rightarrow> None | r # _ \<Rightarrow> Some (pdc_file_hash r))"

definition add_chunks :: "string \<Rightarrow> string \<Rightarrow> string \<Rightarrow> chunk list \<Rightarrow> platform_doc_chunk table \<Rightarrow> platform_doc_chunk table" where
  "add_chunks source path fhash cs t = fold (\<lambda>n. insert_row (new_chunk source path fhash n)) (enumerate 0 cs) t"

definition alter_chunks :: "(platform_doc_chunk table \<Rightarrow> platform_doc_chunk table) \<Rightarrow> (session, unit) prog" where
  "alter_chunks f = modify (\<lambda>s. s\<lparr>db := (db s)\<lparr>doc_chunks := f (doc_chunks (db s))\<rparr>\<rparr>)"

definition ingest_file ::
  "(string \<Rightarrow> string) \<Rightarrow> string \<Rightarrow> int \<Rightarrow> string \<times> string option \<Rightarrow> ingest_stats \<Rightarrow> (session, ingest_stats) prog" where
  "ingest_file file_hash source max_tokens file stats =
     (case file of (rel_path, content) \<Rightarrow>
        let stats = stats\<lparr>files_seen := files_seen stats + 1\<rparr> in
        case content of
          None \<Rightarrow> ret stats
        | Some raw \<Rightarrow>
            let fhash = file_hash raw in
            bnd (gets (\<lambda>s. stored_hash source rel_path (db s))) (\<lambda>existing.
            if existing = Some fhash then ret (stats\<lparr>files_skipped := files_skipped stats + 1\<rparr>)
            else
              bnd (alter_chunks (delete_rows (of_page source rel_path))) (\<lambda>_.
              bnd (lift_result (chunk_markdown raw max_tokens)) (\<lambda>cs.
              bnd (alter_chunks (add_chunks source rel_path fhash cs)) (\<lambda>_.
                ret (stats\<lparr>files_indexed := files_indexed stats + 1,
                           chunks_written := chunks_written stats + int (length cs)\<rparr>))))))"

fun ingest_files ::
  "(string \<Rightarrow> string) \<Rightarrow> string \<Rightarrow> int \<Rightarrow> (string \<times> string option) list \<Rightarrow> ingest_stats \<Rightarrow> (session, ingest_stats) prog" where
  "ingest_files file_hash source max_tokens [] stats = ret stats"
| "ingest_files file_hash source max_tokens (f # fs) stats =
     bnd (ingest_file file_hash source max_tokens f stats) (ingest_files file_hash source max_tokens fs)"

definition md_files :: "(string \<times> string option) list \<Rightarrow> (string \<times> string option) list" where
  "md_files walk = filter (\<lambda>f. suffix ''.md'' (fst f)) walk"

definition drop_stale :: "string \<Rightarrow> string set \<Rightarrow> platform_doc_chunk table \<Rightarrow> platform_doc_chunk table" where
  "drop_stale source current = delete_rows (\<lambda>r. pdc_source r = source \<and> pdc_path r \<notin> current)"

definition ingest_local_dir ::
  "(string \<Rightarrow> string) \<Rightarrow> string \<Rightarrow> int \<Rightarrow> (string \<times> string option) list \<Rightarrow> (session, ingest_stats) prog" where
  "ingest_local_dir file_hash source max_tokens walk =
     bnd (ingest_files file_hash source max_tokens (sort_key fst (md_files walk)) no_files) (\<lambda>stats.
     bnd (alter_chunks (drop_stale source (fst ` set (md_files walk)))) (\<lambda>_.
     bnd (modify commit) (\<lambda>_. ret stats)))"

section \<open>What the table holds for a page\<close>

text \<open>The chunks of a page without their primary keys, and those that a text of the page gives.\<close>

definition page_content :: "string \<Rightarrow> string \<Rightarrow> platform_doc_chunk table \<Rightarrow> platform_doc_chunk list" where
  "page_content source path t = map (\<lambda>r. r\<lparr>pdc_id := 0\<rparr>) (select_rows (of_page source path) t)"

definition page_chunks :: "(string \<Rightarrow> string) \<Rightarrow> string \<Rightarrow> int \<Rightarrow> string \<Rightarrow> string \<Rightarrow> platform_doc_chunk list" where
  "page_chunks file_hash source max_tokens path raw =
     (case chunk_markdown raw max_tokens of
        Inl _ \<Rightarrow> []
      | Inr cs \<Rightarrow> map (\<lambda>n. new_chunk source path (file_hash raw) n 0) (enumerate 0 cs))"

definition kb_consistent :: "(string \<Rightarrow> string) \<Rightarrow> string \<Rightarrow> int \<Rightarrow> platform_doc_chunk table \<Rightarrow> bool" where
  "kb_consistent file_hash source max_tokens t \<longleftrightarrow>
     (\<forall>path. \<exists>raw. page_content source path t = page_chunks file_hash source max_tokens path raw)"

lemma new_chunk_fields [simp]:
  "pdc_source (new_chunk source path h n i) = source" "pdc_path (new_chunk source path h n i) = path"
  "pdc_file_hash (new_chunk source path h n i) = h" "(new_chunk source path h n i)\<lparr>pdc_id := 0\<rparr> = new_chunk source path h n 0"
  by (auto simp: new_chunk_def Let_def split: prod.split)

lemma add_chunks_content:
  "page_content src q (add_chunks source path h cs t)
   = page_content src q t @ (if src = source \<and> q = path then map (\<lambda>n. new_chunk source path h n 0) (enumerate 0 cs) else [])"
proof -
  have "page_content src q (fold (\<lambda>n. insert_row (new_chunk source path h n)) ns t)
      = page_content src q t @ (if src = source \<and> q = path then map (\<lambda>n. new_chunk source path h n 0) ns else [])" for ns t
    by (induction ns arbitrary: t) (auto simp: page_content_def select_rows_def of_page_def insert_row_def)
  then show ?thesis by (simp add: add_chunks_def)
qed

lemma delete_page_content:
  "page_content src q (delete_rows (of_page source path) t)
   = (if src = source \<and> q = path then [] else page_content src q t)"
proof -
  have "filter (of_page src q) (filter (\<lambda>r. \<not> of_page source path r) xs)
      = (if src = source \<and> q = path then [] else filter (of_page src q) xs)" for xs
    by (auto simp: of_page_def filter_empty_conv intro!: filter_cong)
  then show ?thesis by (simp add: page_content_def select_rows_def delete_rows_def)
qed

lemma drop_stale_content:
  "page_content src q (drop_stale source current t) = (if src = source \<and> q \<notin> current then [] else page_content src q t)"
proof -
  have "filter (of_page src q) (filter (\<lambda>r. \<not> (pdc_source r = source \<and> pdc_path r \<notin> current)) xs)
      = (if src = source \<and> q \<notin> current then [] else filter (of_page src q) xs)" for xs
    by (auto simp: of_page_def filter_empty_conv intro!: filter_cong)
  then show ?thesis by (simp add: page_content_def select_rows_def delete_rows_def drop_stale_def)
qed

lemma stored_hash_content:
  assumes "page_content source path (doc_chunks d) = page_chunks file_hash source max_tokens path raw"
    and "stored_hash source path d = Some h"
  shows "h = file_hash raw"
proof -
  obtain r rs where r: "select_rows (of_page source path) (doc_chunks d) = r # rs" "pdc_file_hash r = h"
    using assms(2) by (auto simp: stored_hash_def split: list.splits)
  then have "r\<lparr>pdc_id := 0\<rparr> \<in> set (page_chunks file_hash source max_tokens path raw)"
    by (simp add: assms(1)[symmetric] page_content_def)
  then obtain m where "r\<lparr>pdc_id := 0\<rparr> = new_chunk source path (file_hash raw) m 0"
    by (auto simp: page_chunks_def split: sum.splits)
  then have "pdc_file_hash (r\<lparr>pdc_id := 0\<rparr>) = file_hash raw" by (simp only: new_chunk_fields)
  with r(2) show ?thesis by simp
qed

section \<open>An ingestion mirrors the directory\<close>

definition chunk_frame :: "session \<Rightarrow> session \<Rightarrow> bool" where
  "chunk_frame s s' \<longleftrightarrow> (\<exists>t. s' = s\<lparr>db := (db s)\<lparr>doc_chunks := t\<rparr>\<rparr>)"

lemma chunk_frame_refl: "chunk_frame s s"
  unfolding chunk_frame_def by (rule exI[of _ "doc_chunks (db s)"]) simp

lemma chunk_frame_trans: "chunk_frame s t \<Longrightarrow> chunk_frame t u \<Longrightarrow> chunk_frame s u"
  by (auto simp: chunk_frame_def)

definition chunks_of :: "session \<Rightarrow> platform_doc_chunk table" where
  "chunks_of s = doc_chunks (db s)"

lemma ingest_file_mirrors:
  assumes n: "0 < n" and hash: "inj hash" and ok: "kb_consistent hash src n (chunks_of s)"
  obtains st' s' where "ingest_file hash src n (p, content) st s = (Inr st', s')" "chunk_frame s s'"
    "\<And>src' q. page_content src' q (chunks_of s') =
       (case content of Some raw \<Rightarrow> if src' = src \<and> q = p then page_chunks hash src n p raw
                                    else page_content src' q (chunks_of s)
        | None \<Rightarrow> page_content src' q (chunks_of s))"
proof (cases content)
  case None
  then show ?thesis
    by (intro that[of _ s]) (auto simp: ingest_file_def Let_def prog_simps chunk_frame_refl)
next
  case (Some raw)
  obtain cs where cs: "chunk_markdown raw n = Inr cs"
  proof -
    have "\<exists>cs. section_chunks n x = Inr cs" for x using section_chunks_ok[OF n, of "fst x" "snd x"] by auto
    note one = this
    have "\<exists>cs. all_chunks n ss = Inr cs" for ss
    proof (induction ss)
      case (Cons x ss)
      with one[of x] show ?case by (auto simp: bnd_result_def)
    qed simp
    then show ?thesis using that unfolding chunk_markdown_def by blast
  qed
  show ?thesis
  proof (cases "stored_hash src p (db s) = Some (hash raw)")
    case True
    obtain raw' where raw': "page_content src p (doc_chunks (db s)) = page_chunks hash src n p raw'"
      using ok unfolding kb_consistent_def chunks_of_def by blast
    from stored_hash_content[OF raw' True] hash have "raw' = raw" by (simp add: inj_eq)
    with True Some raw' show ?thesis
      by (intro that[of _ s]) (auto simp: ingest_file_def Let_def prog_simps chunk_frame_refl chunks_of_def)
  next
    case False
    let ?s' = "s\<lparr>db := (db s)\<lparr>doc_chunks := add_chunks src p (hash raw) cs (delete_rows (of_page src p) (doc_chunks (db s)))\<rparr>\<rparr>"
    have "ingest_file hash src n (p, content) st s
        = (Inr (st\<lparr>files_seen := files_seen st + 1, files_indexed := files_indexed st + 1,
                   chunks_written := chunks_written st + int (length cs)\<rparr>), ?s')"
      using Some False by (simp add: ingest_file_def Let_def prog_simps alter_chunks_def cs)
    moreover have "chunk_frame s ?s'" unfolding chunk_frame_def by blast
    ultimately show ?thesis
      by (rule that) (auto simp: Some chunks_of_def add_chunks_content delete_page_content page_chunks_def cs)
  qed
qed

lemma kb_consistent_step:
  assumes "kb_consistent hash src n t"
    and "\<And>q. page_content src q t' = page_content src q t \<or> (\<exists>raw. page_content src q t' = page_chunks hash src n q raw)"
  shows "kb_consistent hash src n t'"
  using assms unfolding kb_consistent_def by metis

lemma ingest_files_mirrors:
  assumes "0 < n" and "inj hash" and "kb_consistent hash src n (chunks_of s)" and "distinct (map fst fs)"
  shows "\<exists>st' s'. ingest_files hash src n fs st s = (Inr st', s') \<and> chunk_frame s s'
    \<and> (\<forall>src' q. page_content src' q (chunks_of s') =
        (case map_of fs q of Some (Some raw) \<Rightarrow> if src' = src then page_chunks hash src n q raw else page_content src' q (chunks_of s)
         | _ \<Rightarrow> page_content src' q (chunks_of s)))"
  using assms(3,4)
proof (induction fs arbitrary: st s)
  case Nil
  then show ?case by (simp add: prog_simps chunk_frame_refl)
next
  case (Cons f fs)
  obtain p content where f: "f = (p, content)" by fastforce
  obtain st1 s1 where one: "ingest_file hash src n (p, content) st s = (Inr st1, s1)" "chunk_frame s s1"
    and pages: "\<And>src' q. page_content src' q (chunks_of s1) =
       (case content of Some raw \<Rightarrow> if src' = src \<and> q = p then page_chunks hash src n p raw
                                    else page_content src' q (chunks_of s)
        | None \<Rightarrow> page_content src' q (chunks_of s))"
    using ingest_file_mirrors[OF assms(1,2) Cons.prems(1), of p content st] by metis
  have "kb_consistent hash src n (chunks_of s1)"
    by (rule kb_consistent_step[OF Cons.prems(1)]) (auto simp: pages split: option.split)
  with Cons.IH[of s1 st1] Cons.prems(2) obtain st2 s2 where two: "ingest_files hash src n fs st1 s1 = (Inr st2, s2)"
    "chunk_frame s1 s2" and rest: "\<forall>src' q. page_content src' q (chunks_of s2) =
        (case map_of fs q of Some (Some raw) \<Rightarrow> if src' = src then page_chunks hash src n q raw else page_content src' q (chunks_of s1)
         | _ \<Rightarrow> page_content src' q (chunks_of s1))" by auto
  have "map_of fs p = None" using Cons.prems(2) f by (auto simp: map_of_eq_None_iff)
  then have "\<forall>src' q. page_content src' q (chunks_of s2) =
        (case map_of (f # fs) q of Some (Some raw) \<Rightarrow> if src' = src then page_chunks hash src n q raw else page_content src' q (chunks_of s)
         | _ \<Rightarrow> page_content src' q (chunks_of s))"
    using f by (auto simp: rest pages split: option.split)
  moreover have "ingest_files hash src n (f # fs) st s = (Inr st2, s2)" using one(1) two(1) f by (simp add: prog_simps)
  moreover have "chunk_frame s s2" using one(2) two(2) by (rule chunk_frame_trans)
  ultimately show ?case by blast
qed

text \<open>What each page holds after an ingestion, in the cases of the walk.\<close>

definition pages_mirror ::
  "(string \<Rightarrow> string) \<Rightarrow> string \<Rightarrow> int \<Rightarrow> (string \<Rightarrow> string option option) \<Rightarrow> platform_doc_chunk table \<Rightarrow> platform_doc_chunk table \<Rightarrow> bool" where
  "pages_mirror hash source n walk t t' \<longleftrightarrow>
     (\<forall>src q. page_content src q t' =
        (if src \<noteq> source then page_content src q t
         else case walk q of None \<Rightarrow> [] | Some None \<Rightarrow> page_content src q t | Some (Some raw) \<Rightarrow> page_chunks hash source n q raw))"

lemma ingestion_mirrors_pages:
  assumes "0 < max_tokens" and "inj file_hash" and "distinct (map fst walk)"
    and "kb_consistent file_hash source max_tokens (chunks_of s)"
  shows "\<exists>stats s'. ingest_local_dir file_hash source max_tokens walk s = (Inr stats, s')
    \<and> s' = open_session ((db s)\<lparr>doc_chunks := chunks_of s'\<rparr>)
    \<and> pages_mirror file_hash source max_tokens (map_of (md_files walk)) (chunks_of s) (chunks_of s')"
proof -
  let ?fs = "sort_key fst (md_files walk)"
  have distinct_md: "distinct (map fst (md_files walk))" using assms(3) by (simp add: md_files_def distinct_map_filter)
  then have distinct: "distinct (map fst ?fs)" by (simp add: distinct_map)
  then have same: "map_of ?fs = map_of (md_files walk)" using distinct_md by (intro map_of_eqI) (auto simp: map_of_eq_Some_iff)
  obtain stats s1 where run: "ingest_files file_hash source max_tokens ?fs no_files s = (Inr stats, s1)" "chunk_frame s s1"
    and pages: "\<forall>src' q. page_content src' q (chunks_of s1) =
        (case map_of ?fs q of Some (Some raw) \<Rightarrow> if src' = source then page_chunks file_hash source max_tokens q raw
                                                 else page_content src' q (chunks_of s)
         | _ \<Rightarrow> page_content src' q (chunks_of s))"
    using ingest_files_mirrors[OF assms(1,2,4) distinct] by blast
  let ?t = "drop_stale source (fst ` set (md_files walk)) (chunks_of s1)"
  let ?s' = "commit (s1\<lparr>db := (db s1)\<lparr>doc_chunks := ?t\<rparr>\<rparr>)"
  have "ingest_local_dir file_hash source max_tokens walk s = (Inr stats, ?s')"
    using run(1) by (simp add: ingest_local_dir_def prog_simps alter_chunks_def chunks_of_def)
  moreover have table: "chunks_of ?s' = ?t" by (simp add: chunks_of_def commit_def)
  moreover have "?s' = open_session ((db s)\<lparr>doc_chunks := chunks_of ?s'\<rparr>)"
    using run(2) by (auto simp: chunk_frame_def open_session_def commit_def chunks_of_def)
  moreover have "pages_mirror file_hash source max_tokens (map_of (md_files walk)) (chunks_of s) ?t"
    unfolding pages_mirror_def drop_stale_content pages[rule_format] same
    by (auto simp: map_of_eq_None_iff[symmetric] split: option.split)
  ultimately show ?thesis by metis
qed

lemma mirrored_pages_consistent:
  assumes "kb_consistent hash source n t" and "pages_mirror hash source n walk t t'"
  shows "kb_consistent hash source n t'"
proof (rule kb_consistent_step[OF assms(1)])
  fix q
  have "page_chunks hash source n q [] = []"
    by (simp add: page_chunks_def chunk_markdown_def sections_of_def flush_def)
  then have "\<exists>raw. [] = page_chunks hash source n q raw" by metis
  then show "page_content source q t' = page_content source q t \<or> (\<exists>raw. page_content source q t' = page_chunks hash source n q raw)"
    using assms(2)[unfolded pages_mirror_def, rule_format, of source q] by (auto split: option.splits)
qed

text \<open>
  C34: After an ingestion the table holds, committed, exactly the redacted chunks of the current text of
  every page that could be read; pages that could not be read keep their chunks, pages that are gone lose
  theirs, other sources and other tables are untouched. The hash identifies texts, and the pages stored
  before are those of an earlier ingestion.
\<close>

theorem ingestion_mirrors_the_directory:
  assumes "0 < max_tokens" and "inj file_hash" and "distinct (map fst walk)"
    and "kb_consistent file_hash source max_tokens (chunks_of s)"
  shows "\<exists>stats s'. ingest_local_dir file_hash source max_tokens walk s = (Inr stats, s')
    \<and> s' = open_session ((db s)\<lparr>doc_chunks := chunks_of s'\<rparr>)
    \<and> (\<forall>(path, content) \<in> set (md_files walk).
         page_content source path (chunks_of s') =
           (case content of Some raw \<Rightarrow> page_chunks file_hash source max_tokens path raw
            | None \<Rightarrow> page_content source path (chunks_of s)))
    \<and> (\<forall>path. path \<notin> fst ` set (md_files walk) \<longrightarrow> page_content source path (chunks_of s') = [])
    \<and> (\<forall>other path. other \<noteq> source \<longrightarrow> page_content other path (chunks_of s') = page_content other path (chunks_of s))
    \<and> kb_consistent file_hash source max_tokens (chunks_of s')"
proof -
  obtain stats s' where run: "ingest_local_dir file_hash source max_tokens walk s = (Inr stats, s')"
      "s' = open_session ((db s)\<lparr>doc_chunks := chunks_of s'\<rparr>)"
    and mirror: "pages_mirror file_hash source max_tokens (map_of (md_files walk)) (chunks_of s) (chunks_of s')"
    using ingestion_mirrors_pages[OF assms] by blast
  note page = mirror[unfolded pages_mirror_def, rule_format]
  have "distinct (map fst (md_files walk))" using assms(3) by (simp add: md_files_def distinct_map_filter)
  then have "\<forall>(path, content) \<in> set (md_files walk). page_content source path (chunks_of s') =
      (case content of Some raw \<Rightarrow> page_chunks file_hash source max_tokens path raw
       | None \<Rightarrow> page_content source path (chunks_of s))"
    by (auto simp: page map_of_eq_Some_iff split: option.split)
  moreover have "\<forall>path. path \<notin> fst ` set (md_files walk) \<longrightarrow> page_content source path (chunks_of s') = []"
    by (auto simp: page map_of_eq_None_iff[symmetric])
  moreover have "\<forall>other path. other \<noteq> source \<longrightarrow> page_content other path (chunks_of s') = page_content other path (chunks_of s)"
    by (simp add: page)
  ultimately show ?thesis using run mirrored_pages_consistent[OF assms(4) mirror] by blast
qed

text \<open>
  The hypotheses hold for the ingestion of a first page beside a file that is no markdown and a page
  that cannot be read.
\<close>

definition demo_walk :: "(string \<times> string option) list" where
  "demo_walk = [(''guide.md'', Some (''# Menu'' @ [CHR 0x0A] @ ''logs and metrics'')), (''logo.png'', None), (''broken.md'', None)]"

lemma ingestion_mirrors_the_directory_witness:
  "\<exists>stats s'. ingest_local_dir id ''local'' 400 demo_walk (open_session empty_database) = (Inr stats, s')
    \<and> page_content ''local'' ''guide.md'' (chunks_of s')
        = page_chunks id ''local'' 400 ''guide.md'' (''# Menu'' @ [CHR 0x0A] @ ''logs and metrics'')"
proof -
  have "page_chunks id ''local'' 400 q [] = []" for q
    by (simp add: page_chunks_def chunk_markdown_def sections_of_def flush_def)
  then have "kb_consistent id ''local'' 400 (chunks_of (open_session empty_database))"
    unfolding kb_consistent_def by (auto simp: chunks_of_def open_session_def empty_database_def empty_table_def
      page_content_def select_rows_def intro!: exI[of _ "[]"])
  moreover have "distinct (map fst demo_walk)" by (simp add: demo_walk_def)
  ultimately obtain stats s' where run: "ingest_local_dir id ''local'' 400 demo_walk (open_session empty_database) = (Inr stats, s')"
    and pages: "\<forall>(path, content) \<in> set (md_files demo_walk). page_content ''local'' path (chunks_of s') =
         (case content of Some raw \<Rightarrow> page_chunks id ''local'' 400 path raw
          | None \<Rightarrow> page_content ''local'' path (chunks_of (open_session empty_database)))"
    using ingestion_mirrors_the_directory[of 400 id demo_walk "''local''" "open_session empty_database"] by auto
  have "(''guide.md'', Some (''# Menu'' @ [CHR 0x0A] @ ''logs and metrics'')) \<in> set (md_files demo_walk)"
    by (simp add: md_files_def demo_walk_def suffix_def)
  with pages have "page_content ''local'' ''guide.md'' (chunks_of s')
        = page_chunks id ''local'' 400 ''guide.md'' (''# Menu'' @ [CHR 0x0A] @ ''logs and metrics'')" by fastforce
  with run show ?thesis by blast
qed

lemma chunks_carry_the_document_witness:
  "\<exists>cs. chunk_markdown (''# Logs'' @ [CHR 0x0A] @ ''one two three'') 2 = Inr cs
    \<and> (\<forall>c \<in> set cs. int (length (words (snd c))) \<le> 2)
    \<and> concat (map (\<lambda>c. words (snd c)) cs) = concat (map words (prose_lines (''# Logs'' @ [CHR 0x0A] @ ''one two three'')))"
  using chunks_carry_the_document[of 2 "''# Logs'' @ [CHR 0x0A] @ ''one two three''"] by simp

section \<open>Retrieval\<close>

record retrieved_chunk =
  rc_path :: string
  rc_heading :: "string option"
  rc_text :: string
  rc_score :: real

definition citation :: "retrieved_chunk \<Rightarrow> string" where
  "citation c =
     (case rc_heading c of
        None \<Rightarrow> rc_path c
      | Some h \<Rightarrow> if h = [] then rc_path c else rc_path c @ [HASH] @ h)"

definition retrieved :: "platform_doc_chunk \<Rightarrow> real \<Rightarrow> retrieved_chunk" where
  "retrieved r score = \<lparr>rc_path = pdc_path r, rc_heading = pdc_heading r, rc_text = pdc_text r, rc_score = score\<rparr>"

definition primer :: "string list \<Rightarrow> string \<Rightarrow> database \<Rightarrow> retrieved_chunk list" where
  "primer paths source d =
     (if paths = [] then []
      else map (\<lambda>r. retrieved r 0)
             (sort_key pdc_path (sort_key pdc_ordinal
               (select_rows (\<lambda>r. pdc_source r = source \<and> pdc_path r \<in> set paths) (doc_chunks d)))))"

definition scoring_doc :: "platform_doc_chunk \<Rightarrow> string" where
  "scoring_doc r =
     (let heading = (case pdc_heading r of None \<Rightarrow> [] | Some h \<Rightarrow> h);
          stem = map (\<lambda>c. if c = CHR ''-'' then CHR '' '' else c)
                   (removesuffix ''.md'' (List.last (split_on (CHR ''/'') (pdc_path r))))
      in heading @ '' '' @ heading @ '' '' @ stem @ '' '' @ pdc_text r)"

definition search :: "string \<Rightarrow> nat \<Rightarrow> string \<Rightarrow> database \<Rightarrow> retrieved_chunk list" where
  "search query top_k source d =
     (let rs = select_rows (\<lambda>r. pdc_source r = source) (doc_chunks d) in
      if rs = [] then []
      else map (\<lambda>(idx, score). retrieved (rs ! idx) score) (take top_k (bm25_rank query (map scoring_doc rs))))"

text \<open>
  A search answers at most \<open>top_k\<close> chunks of the source, best score first, each of which shares a
  term with the question; it answers nothing only when \<open>top_k\<close> is 0 or no chunk of the source shares a
  term with the question.
\<close>

theorem search_answers_the_question:
  "length (search query top_k source d) \<le> top_k
   \<and> sorted (map (\<lambda>c. - rc_score c) (search query top_k source d))
   \<and> (\<forall>c. c \<in> set (search query top_k source d) \<longrightarrow>
        (\<exists>r. r \<in> set (rows (doc_chunks d)) \<and> pdc_source r = source \<and> shares_term query (scoring_doc r)
           \<and> c = retrieved r (rc_score c)))
   \<and> (search query top_k source d = [] \<longleftrightarrow>
        (top_k = 0 \<or> (\<forall>r. r \<in> set (rows (doc_chunks d)) \<and> pdc_source r = source \<longrightarrow> \<not> shares_term query (scoring_doc r))))"
proof -
  define rs where "rs = select_rows (\<lambda>r. pdc_source r = source) (doc_chunks d)"
  define ranked where "ranked = bm25_rank query (map scoring_doc rs)"
  have indices: "fst ` set ranked = {i. i < length rs \<and> shares_term query (scoring_doc (rs ! i))}"
    using bm25_rank_indices[of query "map scoring_doc rs"] by (auto simp: ranked_def)
  have "rs = [] \<Longrightarrow> ranked = []" by (simp add: ranked_def bm25_rank_def Let_def)
  then have answer: "search query top_k source d = map (\<lambda>(idx, score). retrieved (rs ! idx) score) (take top_k ranked)"
    by (simp add: search_def rs_def[symmetric] ranked_def[symmetric])
  have rows: "set rs = {r \<in> set (rows (doc_chunks d)). pdc_source r = source}" by (auto simp: rs_def table_simps)
  have "map (\<lambda>c. - rc_score c) (search query top_k source d) = take top_k (map (\<lambda>x. - snd x) ranked)"
    by (auto simp: answer retrieved_def take_map)
  then have "sorted (map (\<lambda>c. - rc_score c) (search query top_k source d))"
    using bm25_rank_sorted by (simp add: ranked_def sorted_wrt_take)
  moreover have "\<exists>r. r \<in> set (rows (doc_chunks d)) \<and> pdc_source r = source \<and> shares_term query (scoring_doc r)
      \<and> c = retrieved r (rc_score c)" if "c \<in> set (search query top_k source d)" for c
  proof -
    from that obtain i x where c: "c = retrieved (rs ! i) x" and "(i, x) \<in> set ranked"
      by (auto simp: answer dest: in_set_takeD)
    then have "i \<in> fst ` set ranked" by force
    then have "i < length rs" "shares_term query (scoring_doc (rs ! i))" by (simp_all add: indices)
    moreover from this(1) have "rs ! i \<in> set (rows (doc_chunks d)) \<and> pdc_source (rs ! i) = source"
      using rows nth_mem by blast
    moreover have "c = retrieved (rs ! i) (rc_score c)" unfolding c by (simp add: retrieved_def)
    ultimately show ?thesis by blast
  qed
  moreover have "ranked = [] \<longleftrightarrow> (\<forall>r. r \<in> set (rows (doc_chunks d)) \<and> pdc_source r = source \<longrightarrow> \<not> shares_term query (scoring_doc r))"
  proof -
    have "ranked = [] \<longleftrightarrow> fst ` set ranked = {}" by simp
    also have "\<dots> \<longleftrightarrow> (\<forall>r \<in> set rs. \<not> shares_term query (scoring_doc r))"
      unfolding indices set_conv_nth[of rs] by blast
    finally show ?thesis by (auto simp: rows)
  qed
  ultimately show ?thesis by (simp add: answer)
qed

definition demo_kb :: database where
  "demo_kb = empty_database\<lparr>doc_chunks := \<lparr>rows =
     [\<lparr>pdc_id = 1, pdc_source = ''local'', pdc_path = ''guide.md'', pdc_heading = Some ''Menu'', pdc_ordinal = 0,
       pdc_text = ''logs and metrics'', pdc_token_count = 3, pdc_file_hash = ''h''\<rparr>], seq = 2\<rparr>\<rparr>"

lemma search_answers_the_question_witness:
  "length (search ''the log'' 6 ''local'' demo_kb) \<le> 6 \<and> search ''the log'' 6 ''local'' demo_kb \<noteq> []"
proof -
  let ?r = "\<lparr>pdc_id = 1, pdc_source = ''local'', pdc_path = ''guide.md'', pdc_heading = Some ''Menu'', pdc_ordinal = 0,
       pdc_text = ''logs and metrics'', pdc_token_count = 3, pdc_file_hash = ''h''\<rparr>"
  have "?r \<in> set (rows (doc_chunks demo_kb))" by (simp add: demo_kb_def)
  moreover have "pdc_source ?r = ''local'' \<and> shares_term ''the log'' (scoring_doc ?r)" by code_simp
  ultimately show ?thesis using search_answers_the_question[of "''the log''" 6 "''local''" demo_kb] by auto
qed

end
