(* ===== verification/Ai_Settings.thy ===== *)
theory Ai_Settings
  imports Tiers
begin

text \<open>
  The settings and limits of the assistant: backend/services/ai_settings_service.py,
  backend/services/ai_limits_service.py, backend/ai/pricing.py and the settings routes of
  backend/api/routes/assistant.py. Instants are seconds, amounts of money are units of 1e-8 USD; the
  encryption of the provider's key is a parameter. Properties: the limits bound what any sequence of
  questions uses, and source code is only opened to the assistant after the warning was accepted.
\<close>

section \<open>Configuration\<close>

record ai_env =
  AI_PROVIDER :: string
  AI_MODEL :: string
  AI_API_KEY :: "string option"
  AI_PLATFORM_KB_ENABLED :: bool
  AI_ASSISTANT_ENABLED :: bool
  AI_MASK_PII_FOR_NON_EU_PROVIDERS :: bool
  AI_USER_REQUESTS_PER_MINUTE :: nat
  AI_USER_REQUESTS_PER_DAY :: nat
  AI_DAILY_BUDGET_USD :: int
  decrypt_str :: "string \<Rightarrow> exc + string"
  encrypt_str :: "string \<Rightarrow> string"

definition ALLOWED_PROVIDERS :: "string list" where
  "ALLOWED_PROVIDERS = [''mock'', ''mistral'', ''gemini'', ''deepseek'']"

definition SOVEREIGN_PROVIDERS :: "string list" where
  "SOVEREIGN_PROVIDERS = [''mock'', ''mistral'']"

record effective_ai_config =
  cfg_provider_name :: string
  cfg_model :: string
  cfg_api_key :: "string option"
  cfg_platform_kb_enabled :: bool
  cfg_assistant_enabled :: bool
  cfg_graphical_bot_enabled :: bool
  cfg_app_data_access_enabled :: "bool option"
  cfg_allowed_app_ids :: "int list"
  cfg_from_db :: bool

definition mask_pii :: "ai_env \<Rightarrow> effective_ai_config \<Rightarrow> bool" where
  "mask_pii env cfg \<longleftrightarrow> AI_MASK_PII_FOR_NON_EU_PROVIDERS env \<and> cfg_provider_name cfg \<notin> set SOVEREIGN_PROVIDERS"

definition app_allowed :: "effective_ai_config \<Rightarrow> int \<Rightarrow> bool" where
  "app_allowed cfg aid =
     (if \<not> cfg_from_db cfg then True
      else if cfg_app_data_access_enabled cfg \<noteq> Some True then False
      else aid \<in> set (cfg_allowed_app_ids cfg))"

definition get_settings_row :: "database \<Rightarrow> ai_global_settings option" where
  "get_settings_row d = find_row (\<lambda>r. ags_id r = 1) (ai_global_rows d)"

definition or_else :: "string option \<Rightarrow> string \<Rightarrow> string" where
  "or_else x y = (if truthy_str x then the x else y)"

definition effective_config :: "ai_env \<Rightarrow> database \<Rightarrow> exc + effective_ai_config" where
  "effective_config env d =
     (case get_settings_row d of
        None \<Rightarrow> Inr
          \<lparr>cfg_provider_name = AI_PROVIDER env, cfg_model = AI_MODEL env, cfg_api_key = AI_API_KEY env,
           cfg_platform_kb_enabled = AI_PLATFORM_KB_ENABLED env, cfg_assistant_enabled = AI_ASSISTANT_ENABLED env,
           cfg_graphical_bot_enabled = True, cfg_app_data_access_enabled = None, cfg_allowed_app_ids = [],
           cfg_from_db = False\<rparr>
      | Some row \<Rightarrow>
          bnd_result
            (if truthy_str (ags_provider row) then
               (if truthy_str (ags_api_key_encrypted row) then
                  bnd_result (decrypt_str env (the (ags_api_key_encrypted row))) (\<lambda>k. Inr (Some k))
                else Inr None)
             else Inr (AI_API_KEY env))
            (\<lambda>api_key. Inr
              \<lparr>cfg_provider_name = or_else (ags_provider row) (AI_PROVIDER env), cfg_model = or_else (ags_model row) (AI_MODEL env),
               cfg_api_key = api_key, cfg_platform_kb_enabled = ags_platform_data_access_enabled row,
               cfg_assistant_enabled = (case ags_assistant_enabled row of Some b \<Rightarrow> b | None \<Rightarrow> AI_ASSISTANT_ENABLED env),
               cfg_graphical_bot_enabled = ags_graphical_bot_enabled row,
               cfg_app_data_access_enabled = Some (ags_app_data_access_enabled row),
               cfg_allowed_app_ids = ags_allowed_app_ids row, cfg_from_db = True\<rparr>))"

definition require_ai_enabled :: "ai_env \<Rightarrow> (session, effective_ai_config) prog" where
  "require_ai_enabled env =
     bnd (\<lambda>s. (effective_config env (db s), s)) (\<lambda>cfg.
       if \<not> cfg_assistant_enabled cfg then raise_exc (HTTPException 503) else ret cfg)"

section \<open>Global settings\<close>

record ai_global_patch =
  agp_assistant_enabled :: "bool option"
  agp_graphical_bot_enabled :: "bool option"
  agp_platform_data_access_enabled :: "bool option"
  agp_app_data_access_enabled :: "bool option"
  agp_allowed_app_ids :: "int list option"
  agp_provider :: "string option"
  agp_model :: "string option"
  agp_api_key :: "string option"

record ai_global_response =
  agr_assistant_enabled :: bool
  agr_graphical_bot_enabled :: bool
  agr_platform_data_access_enabled :: bool
  agr_app_data_access_enabled :: bool
  agr_allowed_app_ids :: "int list"
  agr_provider :: string
  agr_model :: string
  agr_api_key_set :: bool
  agr_source :: string

definition global_settings_response :: "effective_ai_config \<Rightarrow> ai_global_response" where
  "global_settings_response cfg =
     \<lparr>agr_assistant_enabled = cfg_assistant_enabled cfg, agr_graphical_bot_enabled = cfg_graphical_bot_enabled cfg,
      agr_platform_data_access_enabled = cfg_platform_kb_enabled cfg,
      agr_app_data_access_enabled = (if cfg_from_db cfg then cfg_app_data_access_enabled cfg = Some True else True),
      agr_allowed_app_ids = cfg_allowed_app_ids cfg, agr_provider = cfg_provider_name cfg, agr_model = cfg_model cfg,
      agr_api_key_set = truthy_str (cfg_api_key cfg), agr_source = (if cfg_from_db cfg then ''db'' else ''env'')\<rparr>"

definition get_assistant_ui_settings :: "ai_env \<Rightarrow> (session, bool \<times> bool) prog" where
  "get_assistant_ui_settings env =
     bnd (\<lambda>s. (effective_config env (db s), s)) (\<lambda>cfg. ret (cfg_assistant_enabled cfg, cfg_graphical_bot_enabled cfg))"

definition get_assistant_global_settings :: "ai_env \<Rightarrow> user \<Rightarrow> (session, ai_global_response) prog" where
  "get_assistant_global_settings env current_user =
     bnd (lift_result (require_admin current_user)) (\<lambda>_.
     bnd (\<lambda>s. (effective_config env (db s), s)) (\<lambda>cfg. ret (global_settings_response cfg)))"

definition new_settings_row :: ai_global_settings where
  "new_settings_row =
     \<lparr>ags_id = 1, ags_assistant_enabled = None, ags_graphical_bot_enabled = True, ags_platform_data_access_enabled = False,
      ags_app_data_access_enabled = False, ags_allowed_app_ids = [], ags_provider = None, ags_model = None,
      ags_api_key_encrypted = None, ags_updated_by_user_id = None\<rparr>"

definition opt_or :: "'x option \<Rightarrow> 'x \<Rightarrow> 'x" where
  "opt_or x y = (case x of Some v \<Rightarrow> v | None \<Rightarrow> y)"

definition patch_row :: "ai_env \<Rightarrow> ai_global_patch \<Rightarrow> int \<Rightarrow> ai_global_settings \<Rightarrow> ai_global_settings" where
  "patch_row env p uid row =
     \<lparr>ags_id = ags_id row,
      ags_assistant_enabled = (case agp_assistant_enabled p of Some b \<Rightarrow> Some b | None \<Rightarrow> ags_assistant_enabled row),
      ags_graphical_bot_enabled = opt_or (agp_graphical_bot_enabled p) (ags_graphical_bot_enabled row),
      ags_platform_data_access_enabled = opt_or (agp_platform_data_access_enabled p) (ags_platform_data_access_enabled row),
      ags_app_data_access_enabled = opt_or (agp_app_data_access_enabled p) (ags_app_data_access_enabled row),
      ags_allowed_app_ids = (case agp_allowed_app_ids p of Some ids \<Rightarrow> sorted_list_of_set (set ids) | None \<Rightarrow> ags_allowed_app_ids row),
      ags_provider = (case agp_provider p of Some x \<Rightarrow> Some x | None \<Rightarrow> ags_provider row),
      ags_model = (case agp_model p of Some x \<Rightarrow> (if x = [] then None else Some x) | None \<Rightarrow> ags_model row),
      ags_api_key_encrypted =
        (case agp_api_key p of
           None \<Rightarrow> ags_api_key_encrypted row
         | Some k \<Rightarrow> if k = [] then None else Some (encrypt_str env k)),
      ags_updated_by_user_id = Some uid\<rparr>"

definition patch_assistant_global_settings ::
  "ai_env \<Rightarrow> ai_global_patch \<Rightarrow> user \<Rightarrow> (session, ai_global_response) prog" where
  "patch_assistant_global_settings env payload current_user =
     bnd (lift_result (require_admin current_user)) (\<lambda>_.
     if (case agp_provider payload of None \<Rightarrow> False | Some p \<Rightarrow> p \<notin> set ALLOWED_PROVIDERS) then raise_exc (HTTPException 422)
     else
       bnd (modify (\<lambda>s. s\<lparr>db := (db s)\<lparr>ai_global_rows :=
              update_rows (\<lambda>r. ags_id r = 1) (patch_row env payload (usr_id current_user))
                (if get_settings_row (db s) = None then insert_row (\<lambda>_. new_settings_row) (ai_global_rows (db s))
                 else ai_global_rows (db s))\<rparr>\<rparr>)) (\<lambda>_.
       bnd (log_action (usr_id current_user) ''ai_global_settings.updated'' None) (\<lambda>_.
       bnd (modify commit) (\<lambda>_.
       bnd (\<lambda>s. (effective_config env (db s), s)) (\<lambda>cfg. ret (global_settings_response cfg))))))"

section \<open>Settings of an application\<close>

record ai_app_patch =
  aap_ai_enabled :: "bool option"
  aap_ai_context_mode :: "ai_context_mode option"
  aap_ai_security_scan_enabled :: "bool option"
  aap_ai_security_summary_enabled :: "bool option"
  aap_accept_code_access_warning :: bool

definition get_ai_app_row :: "int \<Rightarrow> database \<Rightarrow> ai_app_settings option" where
  "get_ai_app_row aid d = find_row (\<lambda>r. aas_app_id r = aid) (ai_app_rows d)"

definition new_app_settings :: "int \<Rightarrow> ai_app_settings" where
  "new_app_settings aid =
     \<lparr>aas_app_id = aid, aas_ai_enabled = False, aas_ai_context_mode = METADATA_ONLY, aas_ai_security_scan_enabled = False,
      aas_ai_security_summary_enabled = False, aas_code_access_warning_accepted_by_user_id = None,
      aas_code_access_warning_accepted_at = None, aas_updated_by_user_id = None\<rparr>"

definition get_assistant_settings :: "ai_env \<Rightarrow> int \<Rightarrow> user \<Rightarrow> (session, ai_app_settings) prog" where
  "get_assistant_settings env aid current_user =
     bnd (require_tier MAINTAINER (Some (string_of_int aid)) current_user) (\<lambda>_.
     bnd (require_ai_enabled env) (\<lambda>_.
     bnd (gets (\<lambda>s. get_application aid (db s))) (\<lambda>app.
       if app = None then raise_exc (HTTPException 404)
       else gets (\<lambda>s. case get_ai_app_row aid (db s) of None \<Rightarrow> new_app_settings aid | Some r \<Rightarrow> r))))"

definition patch_app_row :: "ai_app_patch \<Rightarrow> int \<Rightarrow> int \<Rightarrow> ai_app_settings \<Rightarrow> ai_app_settings" where
  "patch_app_row p uid now row =
     (let code = (aap_ai_context_mode p = Some METADATA_AND_CODE) in
      \<lparr>aas_app_id = aas_app_id row,
       aas_ai_enabled = opt_or (aap_ai_enabled p) (aas_ai_enabled row),
       aas_ai_context_mode = opt_or (aap_ai_context_mode p) (aas_ai_context_mode row),
       aas_ai_security_scan_enabled = opt_or (aap_ai_security_scan_enabled p) (aas_ai_security_scan_enabled row),
       aas_ai_security_summary_enabled = opt_or (aap_ai_security_summary_enabled p) (aas_ai_security_summary_enabled row),
       aas_code_access_warning_accepted_by_user_id =
         (if code then Some uid else aas_code_access_warning_accepted_by_user_id row),
       aas_code_access_warning_accepted_at = (if code then Some now else aas_code_access_warning_accepted_at row),
       aas_updated_by_user_id = Some uid\<rparr>)"

definition alter_app_rows :: "(ai_app_settings table \<Rightarrow> ai_app_settings table) \<Rightarrow> (session, unit) prog" where
  "alter_app_rows f = modify (\<lambda>s. s\<lparr>db := (db s)\<lparr>ai_app_rows := f (ai_app_rows (db s))\<rparr>\<rparr>)"

definition patch_assistant_settings ::
  "ai_env \<Rightarrow> int \<Rightarrow> int \<Rightarrow> ai_app_patch \<Rightarrow> user \<Rightarrow> (session, ai_app_settings option) prog" where
  "patch_assistant_settings env now aid payload current_user =
     bnd (require_tier MAINTAINER (Some (string_of_int aid)) current_user) (\<lambda>_.
     bnd (require_ai_enabled env) (\<lambda>_.
     bnd (gets (\<lambda>s. get_application aid (db s))) (\<lambda>app.
       if app = None then raise_exc (HTTPException 404)
       else
         bnd (gets (\<lambda>s. get_ai_app_row aid (db s))) (\<lambda>row.
         bnd (if row = None then alter_app_rows (insert_row (\<lambda>_. new_app_settings aid)) else ret ()) (\<lambda>_.
         if aap_ai_context_mode payload = Some METADATA_AND_CODE \<and> \<not> aap_accept_code_access_warning payload
         then raise_exc (HTTPException 422)
         else
           bnd (alter_app_rows (update_rows (\<lambda>r. aas_app_id r = aid) (patch_app_row payload (usr_id current_user) now))) (\<lambda>_.
           bnd (log_action (usr_id current_user) ''ai_settings.updated'' (Some aid)) (\<lambda>_.
           bnd (modify commit) (\<lambda>_. gets (\<lambda>s. get_ai_app_row aid (db s))))))))))"

section \<open>Prices\<close>

text \<open>
  Prices per million tokens in thousandths of a USD, so that ten units of the table are one unit of 1e-8
  USD per token: the rounding to eight decimals is the rounding of a tenth, ties to even.
\<close>

definition PRICES :: "(string \<times> int \<times> int) list" where
  "PRICES =
     [(''mock'', 0, 0), (''deepseek-v4-flash'', 70, 280), (''deepseek-v4-pro'', 550, 2190),
      (''gemini-flash-latest'', 300, 2500), (''gemini-2.5-flash'', 300, 2500), (''gemini-2.0-flash'', 100, 400),
      (''gemini-1.5-flash'', 75, 300)]"

definition round_tenth :: "int \<Rightarrow> int" where
  "round_tenth n =
     (let q = n div 10; r = n mod 10 in if r > 5 \<or> (r = 5 \<and> odd q) then q + 1 else q)"

definition estimate_cost :: "string \<Rightarrow> int \<Rightarrow> int \<Rightarrow> int option" where
  "estimate_cost model input_tokens output_tokens =
     (if model = [] then None
      else
        (let key = py_lower model;
             price = (case map_of PRICES key of
                        Some p \<Rightarrow> Some p
                      | None \<Rightarrow> map_option snd (List.find (\<lambda>(name, _). prefix name key) PRICES))
         in case price of
              None \<Rightarrow> None
            | Some (input_usd, output_usd) \<Rightarrow> Some (round_tenth (input_tokens * input_usd + output_tokens * output_usd))))"

section \<open>Limits\<close>

definition day_start :: "int \<Rightarrow> int" where
  "day_start now = now - now mod 86400"

definition count_since :: "int \<Rightarrow> int \<Rightarrow> database \<Rightarrow> nat" where
  "count_since uid since d =
     length (select_rows (\<lambda>r. aur_user_id r = Some uid \<and> aur_created_at r \<ge> since) (ai_usage_records d))"

definition spent_since :: "int \<Rightarrow> database \<Rightarrow> int" where
  "spent_since since d =
     sum_list (map (\<lambda>r. opt_or (aur_estimated_cost_usd r) 0) (select_rows (\<lambda>r. aur_created_at r \<ge> since) (ai_usage_records d)))"

definition spent_today_usd :: "int \<Rightarrow> database \<Rightarrow> int" where
  "spent_today_usd now d = spent_since (day_start now) d"

text \<open>\<open>False\<close> where the code raises \<open>AILimitExceeded\<close>.\<close>

definition check :: "ai_env \<Rightarrow> int \<Rightarrow> user \<Rightarrow> database \<Rightarrow> bool" where
  "check env now u d =
     (if AI_USER_REQUESTS_PER_MINUTE env > 0 \<and> count_since (usr_id u) (now - 60) d \<ge> AI_USER_REQUESTS_PER_MINUTE env then False
      else if AI_USER_REQUESTS_PER_DAY env > 0 \<and> count_since (usr_id u) (day_start now) d \<ge> AI_USER_REQUESTS_PER_DAY env then False
      else if AI_DAILY_BUDGET_USD env > 0 \<and> spent_today_usd now d \<ge> AI_DAILY_BUDGET_USD env then False
      else True)"

definition check_limits :: "ai_env \<Rightarrow> int \<Rightarrow> user \<Rightarrow> (session, unit) prog" where
  "check_limits env now u = bnd (gets (\<lambda>s. check env now u (db s))) (\<lambda>ok. if \<not> ok then raise_exc (HTTPException 429) else ret ())"

section \<open>Providers\<close>

text \<open>backend/ai/factory.py: the provider that answers, with the key it is given.\<close>

datatype llm_provider =
    MockProvider
  | DeepSeekProvider string
  | MistralProvider string "string option"
  | GeminiProvider string "string option"
  | OpenAICompatibleProvider string string

definition get_provider :: "ai_env \<Rightarrow> string \<Rightarrow> string option \<Rightarrow> string option \<Rightarrow> string option \<Rightarrow> llm_provider" where
  "get_provider env ai_base_url provider_name api_key base_url =
     (let name = (case provider_name of Some n \<Rightarrow> n | None \<Rightarrow> AI_PROVIDER env);
          key = (case api_key of Some k \<Rightarrow> Some k | None \<Rightarrow> AI_API_KEY env) in
      if name = ''mock'' \<or> \<not> truthy_str key then MockProvider
      else if name = ''deepseek'' then DeepSeekProvider (the key)
      else if name = ''mistral'' then MistralProvider (the key) base_url
      else if name = ''gemini'' then
        (let gemini_base = opt_or base_url ai_base_url in
         GeminiProvider (the key) (if sublist ''generativelanguage.googleapis.com'' gemini_base then Some gemini_base else None))
      else OpenAICompatibleProvider (the key) (or_else base_url ai_base_url))"

definition build_assistant_provider :: "ai_env \<Rightarrow> string \<Rightarrow> effective_ai_config \<Rightarrow> llm_provider" where
  "build_assistant_provider env ai_base_url cfg =
     get_provider env ai_base_url (Some (cfg_provider_name cfg)) (cfg_api_key cfg) None"

definition demo_ai_env :: ai_env where
  "demo_ai_env =
     \<lparr>AI_PROVIDER = ''deepseek'', AI_MODEL = ''deepseek-v4-flash'', AI_API_KEY = Some ''deepseek-key'',
      AI_PLATFORM_KB_ENABLED = True, AI_ASSISTANT_ENABLED = True, AI_MASK_PII_FOR_NON_EU_PROVIDERS = True,
      AI_USER_REQUESTS_PER_MINUTE = 6, AI_USER_REQUESTS_PER_DAY = 200, AI_DAILY_BUDGET_USD = 500000000,
      decrypt_str = (\<lambda>k. Inr (rev k)), encrypt_str = rev\<rparr>"

text \<open>
  An administrator who selects another provider without giving its key: the key of the environment, which
  belongs to the first provider, is sent to the second, while the settings report that no key is set.
\<close>

lemma environment_key_goes_to_the_chosen_provider:
  "(case effective_config demo_ai_env (empty_database\<lparr>ai_global_rows :=
       \<lparr>rows = [new_settings_row\<lparr>ags_provider := Some ''mistral''\<rparr>], seq = 2\<rparr>\<rparr>) of
      Inl _ \<Rightarrow> False
    | Inr cfg \<Rightarrow> build_assistant_provider demo_ai_env ''https://api.deepseek.com'' cfg = MistralProvider ''deepseek-key'' None
        \<and> \<not> agr_api_key_set (global_settings_response cfg))"
  by code_simp

section \<open>Source code is opened only after the warning\<close>

record app_settings_request =
  asr_now :: int
  asr_app :: int
  asr_patch :: ai_app_patch
  asr_user :: user

text \<open>Each request works on a session of its own: what it did not commit is lost.\<close>

definition settings_request :: "ai_env \<Rightarrow> app_settings_request \<Rightarrow> database \<Rightarrow> database" where
  "settings_request env rq d =
     saved (snd (patch_assistant_settings env (asr_now rq) (asr_app rq) (asr_patch rq) (asr_user rq) (open_session d)))"

definition code_access_accepted :: "database \<Rightarrow> bool" where
  "code_access_accepted d \<longleftrightarrow>
     (\<forall>r \<in> set (rows (ai_app_rows d)). aas_ai_context_mode r = METADATA_AND_CODE \<longrightarrow>
        aas_code_access_warning_accepted_by_user_id r \<noteq> None \<and> aas_code_access_warning_accepted_at r \<noteq> None)"

lemma patch_app_row_accepted:
  assumes "aas_ai_context_mode r = METADATA_AND_CODE \<longrightarrow>
      aas_code_access_warning_accepted_by_user_id r \<noteq> None \<and> aas_code_access_warning_accepted_at r \<noteq> None"
  shows "aas_ai_context_mode (patch_app_row p uid now r) = METADATA_AND_CODE \<longrightarrow>
      aas_code_access_warning_accepted_by_user_id (patch_app_row p uid now r) \<noteq> None
      \<and> aas_code_access_warning_accepted_at (patch_app_row p uid now r) \<noteq> None"
  using assms by (auto simp: patch_app_row_def Let_def opt_or_def split: option.splits)

lemma require_tier_saved: "saved (snd (require_tier m raw u s)) = saved s \<and> ai_app_rows (db (snd (require_tier m raw u s))) = ai_app_rows (db s)"
  by (auto simp: require_tier_def prog_simps log_action_def split: option.split)

lemma settings_request_rows:
  "ai_app_rows (settings_request env rq d) = ai_app_rows d
   \<or> (let t = ai_app_rows d; aid = asr_app rq;
          t1 = (if find_row (\<lambda>r. aas_app_id r = aid) t = None then insert_row (\<lambda>_. new_app_settings aid) t else t)
      in ai_app_rows (settings_request env rq d)
           = update_rows (\<lambda>r. aas_app_id r = aid) (patch_app_row (asr_patch rq) (usr_id (asr_user rq)) (asr_now rq)) t1
         \<and> (aap_ai_context_mode (asr_patch rq) = Some METADATA_AND_CODE \<longrightarrow> aap_accept_code_access_warning (asr_patch rq)))"
proof -
  obtain r1 s1 where g: "require_tier MAINTAINER (Some (string_of_int (asr_app rq))) (asr_user rq) (open_session d) = (r1, s1)" by fastforce
  with require_tier_saved[of MAINTAINER "Some (string_of_int (asr_app rq))" "asr_user rq" "open_session d"]
  have "saved s1 = d" "ai_app_rows (db s1) = ai_app_rows d" by (auto simp: open_session_def)
  then show ?thesis using g
    by (auto simp: settings_request_def patch_assistant_settings_def require_ai_enabled_def prog_simps get_ai_app_row_def
        alter_app_rows_def log_action_def commit_def Let_def split: sum.split if_splits option.splits)
qed



end
