(* ===== verification/Accounts.thy ===== *)
theory Accounts
  imports Tiers Json_Text
begin

text \<open>
  Sessions and accounts: backend/services/auth_service.py, backend/core/security.py and
  backend/api/routes/auth.py (login, refresh, API keys, the GitLab single sign-on),
  backend/api/routes/users.py, and the registration of GitLab groups in backend/api/routes/admin.py.
  Passwords, token signatures and the encryption of stored tokens are parameters. Properties: whom a
  session authenticates, when an API key does, where the sign-on sends its tokens, and what removing a
  group removes.
\<close>

section \<open>Tokens\<close>

record token_claims =
  tok_exp :: int
  tok_sub :: string
  tok_role :: "string option"
  tok_is_admin :: "bool option"
  tok_type :: string

record account_env =
  jwt_encode :: "token_claims \<Rightarrow> string"
  jwt_decode :: "string \<Rightarrow> claims option"
  verify_password :: "string \<Rightarrow> string \<Rightarrow> bool"
  get_password_hash :: "string \<Rightarrow> string"
  get_api_key_hash :: "string \<Rightarrow> string"
  fernet_encrypt :: "string \<Rightarrow> string"
  urlencode :: "(string \<times> string) list \<Rightarrow> string"
  ACCESS_TOKEN_EXPIRE_MINUTES :: int
  REFRESH_TOKEN_EXPIRE_DAYS :: int
  GITLAB_OAUTH_ALLOWED_GROUP :: "string option"
  FRONTEND_BASE_URL :: string
  CLI_REDIRECT_BASE_URL :: string

fun role_value :: "user_role \<Rightarrow> string" where
  "role_value ADMIN = ''admin''"
| "role_value DEV = ''dev''"
| "role_value VIEWER_ROLE = ''viewer''"

definition create_access_token :: "account_env \<Rightarrow> int \<Rightarrow> int \<Rightarrow> string \<Rightarrow> bool \<Rightarrow> string" where
  "create_access_token env now subject role admin =
     jwt_encode env \<lparr>tok_exp = now + 60 * ACCESS_TOKEN_EXPIRE_MINUTES env, tok_sub = string_of_int subject,
                     tok_role = Some role, tok_is_admin = Some admin, tok_type = ''access''\<rparr>"

definition create_refresh_token :: "account_env \<Rightarrow> int \<Rightarrow> int \<Rightarrow> string" where
  "create_refresh_token env now subject =
     jwt_encode env \<lparr>tok_exp = now + 86400 * REFRESH_TOKEN_EXPIRE_DAYS env, tok_sub = string_of_int subject,
                     tok_role = None, tok_is_admin = None, tok_type = ''refresh''\<rparr>"

definition create_tokens :: "account_env \<Rightarrow> int \<Rightarrow> user \<Rightarrow> string \<times> string" where
  "create_tokens env now u =
     (create_access_token env now (usr_id u) (role_value (usr_role u)) (is_admin u),
      create_refresh_token env now (usr_id u))"

section \<open>Login and refresh\<close>

definition user_by_email :: "string \<Rightarrow> database \<Rightarrow> user option" where
  "user_by_email email d = find_row (\<lambda>u. usr_email u = email) (users d)"

definition authenticate_user :: "account_env \<Rightarrow> string \<Rightarrow> string \<Rightarrow> (session, user) prog" where
  "authenticate_user env email password =
     bnd (gets (\<lambda>s. user_by_email email (db s))) (\<lambda>found.
       case found of
         None \<Rightarrow> raise_exc (HTTPException 401)
       | Some u \<Rightarrow>
           if \<not> usr_is_active u then raise_exc (HTTPException 401)
           else if \<not> verify_password env password (usr_hashed_password u) then raise_exc (HTTPException 401)
           else ret u)"

text \<open>
  The answer of a login: the access token, the refresh token of the cookie, and the user whose
  memberships a task then synchronises, if any.
\<close>

record login_answer =
  la_access_token :: string
  la_refresh_cookie :: string
  la_sync_user :: "int option"

definition login :: "account_env \<Rightarrow> int \<Rightarrow> string \<Rightarrow> string \<Rightarrow> (session, login_answer) prog" where
  "login env now username password =
     bnd (authenticate_user env username password) (\<lambda>u.
       case create_tokens env now u of (access, refresh) \<Rightarrow>
         ret \<lparr>la_access_token = access, la_refresh_cookie = refresh,
              la_sync_user = (if truthy_id (usr_gitlab_user_id u) then Some (usr_id u) else None)\<rparr>)"

definition refresh_token :: "account_env \<Rightarrow> int \<Rightarrow> string option \<Rightarrow> string option \<Rightarrow> (session, string) prog" where
  "refresh_token env now cookie payload =
     (let token = (if truthy_str cookie then cookie else payload) in
      if \<not> truthy_str token then raise_exc (HTTPException 401)
      else
        (case jwt_decode env (the token) of
           None \<Rightarrow> raise_exc (HTTPException 401)
         | Some cl \<Rightarrow>
             if claim_type cl \<noteq> Some ''refresh'' then raise_exc (HTTPException 401)
             else
               (case claim_sub cl of
                  None \<Rightarrow> raise_exc TypeError
                | Some sub \<Rightarrow>
                    (case py_int sub of
                       None \<Rightarrow> raise_exc ValueError
                     | Some i \<Rightarrow>
                         bnd (gets (\<lambda>s. get_user_row i (db s))) (\<lambda>found.
                           case found of
                             None \<Rightarrow> raise_exc (HTTPException 401)
                           | Some u \<Rightarrow> ret (fst (create_tokens env now u)))))))"

section \<open>API keys\<close>

definition alter_table_of_keys :: "(api_key table \<Rightarrow> api_key table) \<Rightarrow> (session, unit) prog" where
  "alter_table_of_keys f = modify (\<lambda>s. s\<lparr>db := (db s)\<lparr>api_keys := f (api_keys (db s))\<rparr>\<rparr>)"

definition commit_keys :: "(session, unit) prog" where
  "commit_keys = (\<lambda>s. if unique_on ak_hashed_key (api_keys (db s)) then (Inr (), commit s) else (Inl IntegrityError, s))"

definition new_key :: "account_env \<Rightarrow> string \<Rightarrow> string \<Rightarrow> user \<Rightarrow> int \<Rightarrow> api_key" where
  "new_key env raw label u i =
     \<lparr>ak_id = i, ak_user_id = usr_id u, ak_hashed_key = get_api_key_hash env raw, ak_label = label,
      ak_last_used_at = None, ak_revoked = False\<rparr>"

text \<open>\<open>raw\<close> is the random token of the request.\<close>

definition create_api_key :: "account_env \<Rightarrow> string \<Rightarrow> string \<Rightarrow> user \<Rightarrow> (session, string) prog" where
  "create_api_key env raw label current_user =
     bnd (alter_table_of_keys (insert_row (new_key env raw label current_user))) (\<lambda>_.
     bnd commit_keys (\<lambda>_. ret raw))"

definition list_api_keys :: "user \<Rightarrow> (session, api_key list) prog" where
  "list_api_keys current_user = gets (\<lambda>s. select_rows (\<lambda>k. ak_user_id k = usr_id current_user) (api_keys (db s)))"

definition revoke_api_key :: "int \<Rightarrow> user \<Rightarrow> (session, unit) prog" where
  "revoke_api_key key_id current_user =
     bnd (gets (\<lambda>s. find_row (\<lambda>k. ak_id k = key_id \<and> ak_user_id k = usr_id current_user) (api_keys (db s)))) (\<lambda>found.
       case found of
         None \<Rightarrow> ret ()
       | Some k \<Rightarrow>
           bnd (alter_table_of_keys (update_rows (\<lambda>r. ak_id r = ak_id k) (\<lambda>r. r\<lparr>ak_revoked := True\<rparr>))) (\<lambda>_. commit_keys))"

section \<open>Single sign-on with GitLab\<close>

text \<open>
  GitLab's answers are given: the token and the profile of the code, or the exception of the request,
  and whether the user belongs to a group.
\<close>

record oauth_token =
  ot_access_token :: "string option"
  ot_refresh_token :: "string option"
  ot_expires_in :: "int option"
  ot_created_at :: "int option"

record gitlab_profile =
  pf_email :: "string option"
  pf_username :: "string option"
  pf_name :: "string option"
  pf_id :: "int option"

record oauth_provider =
  exchange_code :: "string \<Rightarrow> exc + oauth_token"
  get_profile :: "string \<Rightarrow> exc + gitlab_profile"
  is_group_member :: "string \<Rightarrow> string \<Rightarrow> int \<Rightarrow> exc + bool"

definition strip_url :: "string \<Rightarrow> string" where
  "strip_url = rstrip (\<lambda>c. c = CHR ''/'')"

definition is_allowed_return_to :: "account_env \<Rightarrow> string option \<Rightarrow> bool" where
  "is_allowed_return_to env value =
     (case value of
        None \<Rightarrow> False
      | Some v \<Rightarrow>
          let v = strip py_isspace v in
          v \<noteq> [] \<and> (prefix (strip_url (FRONTEND_BASE_URL env)) v \<or> prefix (strip_url (CLI_REDIRECT_BASE_URL env)) v))"

definition users_ok :: "database \<Rightarrow> bool" where
  "users_ok d \<longleftrightarrow> unique_on usr_email (users d)
     \<and> distinct (List.map_filter usr_gitlab_user_id (rows (users d)))"

definition commit_users :: "(session, unit) prog" where
  "commit_users = (\<lambda>s. if users_ok (db s) then (Inr (), commit s) else (Inl IntegrityError, s))"

definition alter_users :: "(user table \<Rightarrow> user table) \<Rightarrow> (session, unit) prog" where
  "alter_users f = modify (\<lambda>s. s\<lparr>db := (db s)\<lparr>users := f (users (db s))\<rparr>\<rparr>)"

definition find_or_create_user :: "account_env \<Rightarrow> string \<Rightarrow> string \<Rightarrow> int option \<Rightarrow> (session, user) prog" where
  "find_or_create_user env random_password email gitlab_user_id =
     bnd (gets (\<lambda>s. user_by_email email (db s))) (\<lambda>found.
       case found of
         None \<Rightarrow>
           bnd (gets (\<lambda>s. \<lparr>usr_id = seq (users (db s)), usr_email = email,
                           usr_hashed_password = get_password_hash env random_password, usr_role = DEV,
                           usr_is_active = True, usr_gitlab_user_id = gitlab_user_id\<rparr>)) (\<lambda>new_user.
           bnd (alter_users (insert_row (\<lambda>_. new_user))) (\<lambda>_.
           bnd commit_users (\<lambda>_. ret new_user)))
       | Some u \<Rightarrow>
           if usr_gitlab_user_id u \<noteq> gitlab_user_id then
             bnd (alter_users (update_rows (\<lambda>r. usr_id r = usr_id u) (\<lambda>r. r\<lparr>usr_gitlab_user_id := gitlab_user_id\<rparr>))) (\<lambda>_.
             bnd commit_users (\<lambda>_. ret (u\<lparr>usr_gitlab_user_id := gitlab_user_id\<rparr>)))
           else ret u)"

definition expires_at :: "int \<Rightarrow> oauth_token \<Rightarrow> int option" where
  "expires_at now tok =
     (if \<not> truthy_id (ot_expires_in tok) then None
      else Some ((if truthy_id (ot_created_at tok) then the (ot_created_at tok) else now) + the (ot_expires_in tok)))"

definition store_gitlab_credential ::
  "int \<Rightarrow> string \<Rightarrow> string option \<Rightarrow> int option \<Rightarrow> string \<Rightarrow> gitlab_credential table \<Rightarrow> gitlab_credential table" where
  "store_gitlab_credential uid encrypted encrypted_refresh expiry namespace t =
     (case find_row (\<lambda>c. gc_user_id c = uid) t of
        None \<Rightarrow> insert_row (\<lambda>i. \<lparr>gc_id = i, gc_user_id = uid, gc_encrypted_token = encrypted,
                  gc_encrypted_refresh_token = encrypted_refresh, gc_token_expires_at = expiry, gc_namespace = namespace\<rparr>) t
      | Some _ \<Rightarrow> update_rows (\<lambda>c. gc_user_id c = uid)
                  (\<lambda>c. c\<lparr>gc_encrypted_token := encrypted, gc_encrypted_refresh_token := encrypted_refresh,
                         gc_token_expires_at := expiry, gc_namespace := namespace\<rparr>) t)"

text \<open>The redirection: its address, the refresh cookie, and the user to synchronise in the background.\<close>

record sso_answer =
  sso_redirect_url :: string
  sso_refresh_cookie :: string
  sso_sync_user :: int

definition redirect_address ::
  "account_env \<Rightarrow> int \<Rightarrow> user \<Rightarrow> string \<Rightarrow> string option \<Rightarrow> string" where
  "redirect_address env now u email cookie_return_to =
     (let return_to = (if is_allowed_return_to env cookie_return_to then the cookie_return_to
                       else FRONTEND_BASE_URL env @ ''/oauth/callback'');
          is_cli = prefix (strip_url (CLI_REDIRECT_BASE_URL env)) return_to;
          rest = [(''user_id'', string_of_int (usr_id u)), (''email'', email), (''role'', role_value (usr_role u))]
      in case create_tokens env now u of (access, refresh) \<Rightarrow>
           if is_cli then return_to @ ''?'' @ urlencode env ((''refresh_token'', refresh) # rest)
           else return_to @ [CHR 0x23] @ urlencode env ((''access_token'', access) # rest))"

definition check_allowed_group :: "account_env \<Rightarrow> oauth_provider \<Rightarrow> string \<Rightarrow> gitlab_profile \<Rightarrow> (session, unit) prog" where
  "check_allowed_group env gl access_token profile =
     (if truthy_str (GITLAB_OAUTH_ALLOWED_GROUP env) \<and> truthy_id (pf_id profile) then
        bnd (lift_result (is_group_member gl access_token (the (GITLAB_OAUTH_ALLOWED_GROUP env)) (the (pf_id profile))))
          (\<lambda>allowed. if \<not> allowed then raise_exc (HTTPException 403) else ret ())
      else ret ())"

definition store_tokens :: "account_env \<Rightarrow> int \<Rightarrow> oauth_token \<Rightarrow> gitlab_profile \<Rightarrow> user \<Rightarrow> (session, unit) prog" where
  "store_tokens env now tok profile u =
     (let username = (if truthy_str (pf_username profile) then the (pf_username profile)
                      else if truthy_str (pf_name profile) then the (pf_name profile) else []) in
      modify (\<lambda>s. s\<lparr>db := (db s)\<lparr>gitlab_credentials :=
        store_gitlab_credential (usr_id u) (fernet_encrypt env (the (ot_access_token tok)))
          (if truthy_str (ot_refresh_token tok) then Some (fernet_encrypt env (the (ot_refresh_token tok))) else None)
          (expires_at now tok) username (gitlab_credentials (db s))\<rparr>\<rparr>))"

definition gitlab_callback ::
  "account_env \<Rightarrow> oauth_provider \<Rightarrow> int \<Rightarrow> string \<Rightarrow> string option \<Rightarrow> string option \<Rightarrow> string option \<Rightarrow> string option
     \<Rightarrow> (session, sso_answer) prog" where
  "gitlab_callback env gl now random_password code state cookie_state cookie_return_to =
     (if \<not> truthy_str code \<or> \<not> truthy_str state \<or> state \<noteq> cookie_state then raise_exc (HTTPException 401)
      else
        bnd (lift_result (exchange_code gl (the code))) (\<lambda>tok.
        if \<not> truthy_str (ot_access_token tok) then raise_exc (HTTPException 401)
        else
          (let access_token = the (ot_access_token tok) in
           bnd (lift_result (get_profile gl access_token)) (\<lambda>profile.
           if \<not> truthy_str (pf_email profile) then raise_exc (HTTPException 401)
           else
             (let email = the (pf_email profile) in
              bnd (check_allowed_group env gl access_token profile) (\<lambda>_.
              bnd (find_or_create_user env random_password email (pf_id profile)) (\<lambda>u.
              bnd (store_tokens env now tok profile u) (\<lambda>_.
              bnd commit_users (\<lambda>_.
                ret \<lparr>sso_redirect_url = redirect_address env now u email cookie_return_to,
                     sso_refresh_cookie = snd (create_tokens env now u), sso_sync_user = usr_id u\<rparr>)))))))))"

section \<open>Users\<close>

record user_create =
  uc_email :: string
  uc_password :: string
  uc_role :: user_role
  uc_is_active :: bool

record user_update =
  uu_email :: "string option"
  uu_role :: "user_role option"
  uu_is_active :: "bool option"
  uu_password :: "string option"

definition create_user :: "account_env \<Rightarrow> user_create \<Rightarrow> user \<Rightarrow> (session, user) prog" where
  "create_user env payload current_user =
     bnd (lift_result (require_role ADMIN current_user)) (\<lambda>_.
     bnd (gets (\<lambda>s. user_by_email (uc_email payload) (db s))) (\<lambda>found.
       if found \<noteq> None then raise_exc (HTTPException 400)
       else
         bnd (gets (\<lambda>s. \<lparr>usr_id = seq (users (db s)), usr_email = uc_email payload,
                         usr_hashed_password = get_password_hash env (uc_password payload), usr_role = uc_role payload,
                         usr_is_active = uc_is_active payload, usr_gitlab_user_id = None\<rparr>)) (\<lambda>u.
         bnd (alter_users (insert_row (\<lambda>_. u))) (\<lambda>_.
         bnd commit_users (\<lambda>_. ret u)))))"

definition get_user_route :: "int \<Rightarrow> user \<Rightarrow> (session, user) prog" where
  "get_user_route user_id current_user =
     bnd (lift_result (require_role ADMIN current_user)) (\<lambda>_.
     bnd (gets (\<lambda>s. get_user_row user_id (db s))) (\<lambda>found.
       case found of None \<Rightarrow> raise_exc (HTTPException 404) | Some u \<Rightarrow> ret u))"

text \<open>
  The answer carries the task that runs after the response: the user whose console access is revoked,
  and whether because the account was deactivated.
\<close>

definition assign_user :: "user_update \<Rightarrow> user \<Rightarrow> user" where
  "assign_user payload u =
     (let u = (case uu_role payload of None \<Rightarrow> u | Some r \<Rightarrow> u\<lparr>usr_role := r\<rparr>)
      in (case uu_is_active payload of None \<Rightarrow> u | Some a \<Rightarrow> u\<lparr>usr_is_active := a\<rparr>))"

definition update_user :: "int \<Rightarrow> user_update \<Rightarrow> user \<Rightarrow> (session, user \<times> (int \<times> bool) option) prog" where
  "update_user user_id payload current_user =
     bnd (lift_result (require_role ADMIN current_user)) (\<lambda>_.
     bnd (gets (\<lambda>s. get_user_row user_id (db s))) (\<lambda>found.
       case found of
         None \<Rightarrow> raise_exc (HTTPException 404)
       | Some u \<Rightarrow>
           (let deactivated = (uu_is_active payload = Some False \<and> usr_is_active u);
                demoted = (uu_role payload \<notin> {None, Some ADMIN} \<and> usr_role u = ADMIN)
            in bnd (alter_users (update_rows (\<lambda>r. usr_id r = user_id) (assign_user payload))) (\<lambda>_.
               bnd commit_users (\<lambda>_.
                 ret (assign_user payload u, if deactivated \<or> demoted then Some (user_id, deactivated) else None))))))"

definition SYSTEM_GROUP_NAMES :: "string list" where
  "SYSTEM_GROUP_NAMES = [''cnp-templates'', ''4k-cnp-2027'', ''cnp-apps'', ''subgroup-team-1-test'']"

text \<open>The inner join of the memberships of a user with their groups.\<close>

definition user_groups :: "int \<Rightarrow> database \<Rightarrow> (gitlab_group_member \<times> gitlab_group) list" where
  "user_groups uid d =
     [(m, g). m \<leftarrow> rows (group_members d), gm_cnp_user_id m = Some uid \<and> gm_status m = ACTIVE,
              g \<leftarrow> rows (gitlab_groups d), grp_id g = gm_group_id m \<and> grp_name g \<notin> set SYSTEM_GROUP_NAMES]"

record group_membership_read =
  gmr_group_id :: int
  gmr_name :: string
  gmr_full_path :: string
  gmr_access_level :: int
  gmr_tier_cnp :: cnp_tier

definition membership_read :: "gitlab_group_member \<times> gitlab_group \<Rightarrow> group_membership_read" where
  "membership_read p = (case p of (m, g) \<Rightarrow>
     \<lparr>gmr_group_id = grp_id g, gmr_name = grp_name g, gmr_full_path = grp_full_path g,
      gmr_access_level = gm_access_level m, gmr_tier_cnp = access_level_to_tier (gm_access_level m)\<rparr>)"

definition get_my_groups :: "user \<Rightarrow> (session, group_membership_read list) prog" where
  "get_my_groups current_user = gets (\<lambda>s. map membership_read (user_groups (usr_id current_user) (db s)))"

definition get_user_groups :: "int \<Rightarrow> user \<Rightarrow> (session, group_membership_read list) prog" where
  "get_user_groups user_id current_user =
     bnd (lift_result (require_role ADMIN current_user)) (\<lambda>_.
       gets (\<lambda>s. map membership_read (user_groups user_id (db s))))"

section \<open>GitLab groups of the platform\<close>

record gitlab_group_found =
  ggf_id :: int
  ggf_name :: string
  ggf_full_path :: string

definition groups_ok :: "database \<Rightarrow> bool" where
  "groups_ok d \<longleftrightarrow> unique_on grp_id (gitlab_groups d) \<and> unique_on grp_full_path (gitlab_groups d)"

definition commit_groups :: "(session, unit) prog" where
  "commit_groups = (\<lambda>s. if groups_ok (db s) then (Inr (), commit s) else (Inl IntegrityError, s))"

definition alter_groups :: "(database \<Rightarrow> database) \<Rightarrow> (session, unit) prog" where
  "alter_groups f = modify (\<lambda>s. s\<lparr>db := f (db s)\<rparr>)"

text \<open>\<open>lookup\<close> is GitLab's answer for an id or a path; \<open>None\<close> for the client when no token is configured.\<close>

definition register_gitlab_group ::
  "(int + string \<Rightarrow> exc + gitlab_group_found) option \<Rightarrow> int option \<Rightarrow> string option \<Rightarrow> user \<Rightarrow> (session, int) prog" where
  "register_gitlab_group client group_id full_path current_user =
     bnd (lift_result (require_admin current_user)) (\<lambda>_.
     if \<not> truthy_id group_id \<and> \<not> truthy_str full_path then raise_exc (HTTPException 422)
     else
       (case client of
          None \<Rightarrow> raise_exc (HTTPException 503)
        | Some lookup \<Rightarrow>
            (case lookup (if truthy_id group_id then Inl (the group_id) else Inr (the full_path)) of
               Inl _ \<Rightarrow> raise_exc (HTTPException 404)
             | Inr found \<Rightarrow>
                 bnd (alter_groups (\<lambda>d. d\<lparr>gitlab_groups :=
                        (case get_group_row (ggf_id found) d of
                           Some _ \<Rightarrow> update_rows (\<lambda>g. grp_id g = ggf_id found)
                                      (\<lambda>g. g\<lparr>grp_name := ggf_name found, grp_full_path := ggf_full_path found\<rparr>) (gitlab_groups d)
                         | None \<Rightarrow> insert_row (\<lambda>_. \<lparr>grp_id = ggf_id found, grp_name = ggf_name found,
                                      grp_full_path = ggf_full_path found, grp_synced_at = None\<rparr>) (gitlab_groups d))\<rparr>)) (\<lambda>_.
                 bnd commit_groups (\<lambda>_.
                 bnd (log_action (usr_id current_user) ''admin.register_gitlab_group'' None) (\<lambda>_.
                 bnd (modify commit) (\<lambda>_. ret (ggf_id found))))))))"

text \<open>
  The row goes with its memberships: \<open>cascade="all, delete-orphan"\<close> on the relationship and
  \<open>ON DELETE CASCADE\<close> on the foreign key.
\<close>

definition remove_group :: "int \<Rightarrow> database \<Rightarrow> database" where
  "remove_group gid d =
     d\<lparr>gitlab_groups := delete_rows (\<lambda>g. grp_id g = gid) (gitlab_groups d),
       group_members := delete_rows (\<lambda>m. gm_group_id m = gid) (group_members d)\<rparr>"

definition deregister_gitlab_group :: "int \<Rightarrow> user \<Rightarrow> (session, unit) prog" where
  "deregister_gitlab_group gid current_user =
     bnd (lift_result (require_admin current_user)) (\<lambda>_.
     bnd (gets (\<lambda>s. get_group_row gid (db s))) (\<lambda>found.
       case found of
         None \<Rightarrow> raise_exc (HTTPException 404)
       | Some _ \<Rightarrow>
           bnd (alter_groups (remove_group gid)) (\<lambda>_.
           bnd (modify commit) (\<lambda>_.
           bnd (log_action (usr_id current_user) ''admin.deregister_gitlab_group'' None) (\<lambda>_. modify commit)))))"

section \<open>Whom a session authenticates\<close>

text \<open>What the JWT library promises for a token that is neither altered nor expired.\<close>

definition tokens_decode :: "account_env \<Rightarrow> bool" where
  "tokens_decode env \<longleftrightarrow>
     (\<forall>c. jwt_encode env c \<noteq> []
        \<and> jwt_decode env (jwt_encode env c) = Some \<lparr>claim_sub = Some (tok_sub c), claim_type = Some (tok_type c)\<rparr>)"

lemma access_authenticates:
  assumes "tokens_decode env" and "unique_on usr_id (users (db s))" and "u \<in> set (rows (users (db s)))" and "usr_is_active u"
  shows "authenticate_jwt (jwt_decode env) (fst (create_tokens env now u)) s = (Inr u, s)"
proof -
  have "get_user_row (usr_id u) (db s) = Some u" unfolding get_user_row_def using assms(2,3) by (rule find_row_unique)
  with assms(1,4) show ?thesis
    by (simp add: tokens_decode_def authenticate_jwt_def create_tokens_def create_access_token_def py_int_string_of_int prog_simps)
qed

lemma refresh_never_authenticates:
  assumes "tokens_decode env"
  shows "authenticate_jwt (jwt_decode env) (snd (create_tokens env now u)) s = (Inl (HTTPException 401), s)"
  using assms by (simp add: tokens_decode_def authenticate_jwt_def create_tokens_def create_refresh_token_def prog_simps)

lemma refresh_renews:
  assumes "tokens_decode env" and "unique_on usr_id (users (db s))" and "u \<in> set (rows (users (db s)))"
  shows "refresh_token env later (Some (snd (create_tokens env now u))) payload s = (Inr (fst (create_tokens env later u)), s)"
proof -
  have "get_user_row (usr_id u) (db s) = Some u" unfolding get_user_row_def using assms(2,3) by (rule find_row_unique)
  with assms(1) show ?thesis
    by (simp add: tokens_decode_def refresh_token_def create_tokens_def create_refresh_token_def truthy_str_def
        py_int_string_of_int prog_simps)
qed

text \<open>
  A login succeeds only for an active user of that address with that password, and changes nothing;
  its access token authenticates exactly that user, its refresh token never authenticates a request but
  buys, at any later time, an access token of the same user.
\<close>

theorem login_opens_the_users_session:
  assumes "tokens_decode env" and "unique_on usr_id (users (db s))"
    and "login env now name password s = (Inr a, s')"
  shows "s' = s \<and> (\<exists>u. u \<in> set (rows (users (db s))) \<and> usr_email u = name \<and> usr_is_active u
      \<and> verify_password env password (usr_hashed_password u)
      \<and> authenticate_jwt (jwt_decode env) (la_access_token a) s = (Inr u, s)
      \<and> authenticate_jwt (jwt_decode env) (la_refresh_cookie a) s = (Inl (HTTPException 401), s)
      \<and> (\<exists>t. refresh_token env later (Some (la_refresh_cookie a)) payload s = (Inr t, s)
           \<and> authenticate_jwt (jwt_decode env) t s = (Inr u, s)))"
proof -
  obtain u where u: "user_by_email name (db s) = Some u" "usr_is_active u" "verify_password env password (usr_hashed_password u)"
    and a: "la_access_token a = fst (create_tokens env now u)" "la_refresh_cookie a = snd (create_tokens env now u)" and "s' = s"
    using assms(3) by (auto simp: login_def authenticate_user_def prog_simps create_tokens_def split: option.splits if_splits)
  from u(1) have row: "u \<in> set (rows (users (db s)))" "usr_email u = name"
    using find_row_Some[OF u(1)[unfolded user_by_email_def]] by simp_all
  note row
  moreover have "authenticate_jwt (jwt_decode env) (la_access_token a) s = (Inr u, s)"
    unfolding a by (rule access_authenticates[OF assms(1,2) row(1) u(2)])
  moreover have "authenticate_jwt (jwt_decode env) (la_refresh_cookie a) s = (Inl (HTTPException 401), s)"
    unfolding a by (rule refresh_never_authenticates[OF assms(1)])
  moreover have "\<exists>t. refresh_token env later (Some (la_refresh_cookie a)) payload s = (Inr t, s)
           \<and> authenticate_jwt (jwt_decode env) t s = (Inr u, s)"
    unfolding a using refresh_renews[OF assms(1,2) row(1)] access_authenticates[OF assms(1,2) row(1) u(2)] by blast
  ultimately show ?thesis using \<open>s' = s\<close> u(2,3) by metis
qed

section \<open>When an API key authenticates\<close>

text \<open>The primary keys of a table come from its sequence.\<close>

definition keys_numbered :: "database \<Rightarrow> bool" where
  "keys_numbered d \<longleftrightarrow> unique_on ak_id (api_keys d) \<and> (\<forall>k \<in> set (rows (api_keys d)). ak_id k < seq (api_keys d))"

definition accepts_key :: "account_env \<Rightarrow> int \<Rightarrow> string \<Rightarrow> session \<Rightarrow> exc + user" where
  "accepts_key env now raw s = fst (authenticate_api_key (get_api_key_hash env) now raw s)"

lemma accepts_key_cases:
  "accepts_key env now raw s =
     (case find_row (\<lambda>k. ak_hashed_key k = get_api_key_hash env raw \<and> ak_revoked k = False) (api_keys (db s)) of
        None \<Rightarrow> Inl (HTTPException 401)
      | Some k \<Rightarrow>
          (case get_user_row (ak_user_id k) (db s) of
             None \<Rightarrow> Inl (HTTPException 401)
           | Some u \<Rightarrow> if usr_is_active u then Inr u else Inl (HTTPException 401)))"
  by (auto simp: accepts_key_def authenticate_api_key_def prog_simps commit_def get_user_row_def split: option.split)

lemma create_api_key_run:
  assumes "create_api_key env raw label u s = (Inr r, s1)"
  shows "r = raw \<and> api_keys (db s1) = insert_row (new_key env raw label u) (api_keys (db s)) \<and> users (db s1) = users (db s)
    \<and> unique_on ak_hashed_key (api_keys (db s1))"
  using assms
  by (auto simp: create_api_key_def alter_table_of_keys_def commit_keys_def commit_def prog_simps split: if_splits)

lemma revoked_key_unknown:
  assumes "unique_on ak_hashed_key t" and "k \<in> set (rows t)"
  shows "find_row (\<lambda>r. ak_hashed_key r = ak_hashed_key k \<and> ak_revoked r = False)
           (update_rows (\<lambda>r. ak_id r = ak_id k) (\<lambda>r. r\<lparr>ak_revoked := True\<rparr>) t) = None"
proof -
  have "r = k" if "r \<in> set (rows t)" "ak_hashed_key r = ak_hashed_key k" for r
    using assms that by (auto simp: unique_on_def distinct_map inj_on_def)
  then show ?thesis by (auto simp: find_row_None table_simps split: if_splits)
qed


section \<open>Where the sign-on sends its tokens\<close>

lemma find_or_create_user_run:
  assumes "find_or_create_user env pw email gid s = (Inr u, s')"
  shows "user_by_email email (db s') = Some u \<and> gitlab_credentials (db s') = gitlab_credentials (db s)"
proof (cases "user_by_email email (db s)")
  case None
  with assms show ?thesis
    by (auto simp: find_or_create_user_def bnd_ok gets_apply modify_apply ret_apply alter_users_def commit_users_def
        commit_def user_by_email_def find_insert_row split: if_splits)
next
  case (Some v)
  show ?thesis
  proof (cases "usr_gitlab_user_id v = gid")
    case True
    with Some assms show ?thesis by (simp add: find_or_create_user_def bnd_ok gets_apply ret_apply)
  next
    case False
    let ?t = "update_rows (\<lambda>r. usr_id r = usr_id v) (\<lambda>r. r\<lparr>usr_gitlab_user_id := gid\<rparr>) (users (db s))"
    have "users (db s') = ?t \<and> u = v\<lparr>usr_gitlab_user_id := gid\<rparr> \<and> gitlab_credentials (db s') = gitlab_credentials (db s)"
      using False Some assms
      by (auto simp: find_or_create_user_def bnd_ok gets_apply modify_apply ret_apply alter_users_def commit_users_def
          commit_def split: if_splits)
    moreover have "find_row (\<lambda>u. usr_email u = email) ?t
        = map_option (\<lambda>r. if usr_id r = usr_id v then r\<lparr>usr_gitlab_user_id := gid\<rparr> else r) (find_row (\<lambda>u. usr_email u = email) (users (db s)))"
      by (rule find_update_stable) simp
    ultimately show ?thesis using Some by (simp add: user_by_email_def)
  qed
qed

lemma stored_credential:
  "\<exists>g. g \<in> set (rows (store_gitlab_credential uid e r x n t)) \<and> gc_user_id g = uid \<and> gc_encrypted_token g = e"
proof (cases "find_row (\<lambda>c. gc_user_id c = uid) t")
  case None
  then show ?thesis by (force simp: store_gitlab_credential_def table_simps)
next
  case (Some c)
  then have "c \<in> set (rows t)" "gc_user_id c = uid" using find_row_Some by force+
  let ?c = "c\<lparr>gc_encrypted_token := e, gc_encrypted_refresh_token := r, gc_token_expires_at := x, gc_namespace := n\<rparr>"
  have "?c \<in> set (rows (store_gitlab_credential uid e r x n t))"
    using Some \<open>c \<in> set (rows t)\<close> \<open>gc_user_id c = uid\<close>
    by (simp add: store_gitlab_credential_def table_simps image_iff) (rule bexI[of _ c], simp_all)
  with \<open>gc_user_id c = uid\<close> show ?thesis by (intro exI[of _ ?c]) simp
qed

lemma strip_prefix:
  assumes "prefix p (strip P v)"
  shows "\<exists>w. (\<forall>c. c \<in> set w \<longrightarrow> P c) \<and> prefix (w @ p) v"
proof -
  have "v = takeWhile P v @ lstrip P v" by (simp add: lstrip_def)
  moreover have "prefix p (lstrip P v)" using assms rstrip_is_prefix by (metis strip_def prefix_order.trans)
  ultimately have "prefix (takeWhile P v @ p) v" by (metis same_prefix_prefix)
  then show ?thesis by (meson set_takeWhileD)
qed

lemma redirect_address_prefix:
  "\<exists>blanks. (\<forall>c. c \<in> set blanks \<longrightarrow> py_isspace c)
     \<and> (prefix (blanks @ strip_url (FRONTEND_BASE_URL env)) (redirect_address env now u email r)
        \<or> prefix (blanks @ strip_url (CLI_REDIRECT_BASE_URL env)) (redirect_address env now u email r))"
proof -
  let ?to = "if is_allowed_return_to env r then the r else FRONTEND_BASE_URL env @ ''/oauth/callback''"
  have "\<exists>blanks. (\<forall>c. c \<in> set blanks \<longrightarrow> py_isspace c)
     \<and> (prefix (blanks @ strip_url (FRONTEND_BASE_URL env)) ?to \<or> prefix (blanks @ strip_url (CLI_REDIRECT_BASE_URL env)) ?to)"
  proof (cases "is_allowed_return_to env r")
    case True
    then obtain v where v: "r = Some v" "prefix (strip_url (FRONTEND_BASE_URL env)) (strip py_isspace v)
        \<or> prefix (strip_url (CLI_REDIRECT_BASE_URL env)) (strip py_isspace v)"
      by (auto simp: is_allowed_return_to_def Let_def split: option.splits)
    have to: "?to = v" using True v(1) by simp
    show ?thesis unfolding to using v(2) strip_prefix by metis
  next
    case False
    have "prefix (strip_url (FRONTEND_BASE_URL env)) (FRONTEND_BASE_URL env)"
      unfolding strip_url_def by (rule rstrip_is_prefix)
    then have "prefix (strip_url (FRONTEND_BASE_URL env)) (FRONTEND_BASE_URL env @ ''/oauth/callback'')"
      by (rule prefix_prefix)
    with False show ?thesis by (intro exI[of _ "[]"]) simp
  qed
  then obtain blanks where "\<forall>c. c \<in> set blanks \<longrightarrow> py_isspace c"
    "prefix (blanks @ strip_url (FRONTEND_BASE_URL env)) ?to \<or> prefix (blanks @ strip_url (CLI_REDIRECT_BASE_URL env)) ?to" by blast
  moreover have "prefix ?to (redirect_address env now u email r)"
    by (simp add: redirect_address_def Let_def split: prod.split)
  note prefix_order.trans[OF _ this]
  ultimately show ?thesis by (intro exI[of _ blanks]) blast
qed


text \<open>
  The base URLs are only prefixes: an address on a foreign host whose name begins with the frontend's is
  allowed too, and receives the tokens.
\<close>

definition demo_accounts :: account_env where
  "demo_accounts =
     \<lparr>jwt_encode = (\<lambda>c. enc_str (tok_type c) @ tok_sub c),
      jwt_decode = (\<lambda>t. map_option (\<lambda>(ty, sub). \<lparr>claim_sub = Some sub, claim_type = Some ty\<rparr>) (dec_str t)),
      verify_password = (\<lambda>p h. h = p), get_password_hash = id, get_api_key_hash = id, fernet_encrypt = rev,
      urlencode = (\<lambda>kvs. concat (map (\<lambda>(k, v). k @ ''='' @ v @ ''&'') kvs)),
      ACCESS_TOKEN_EXPIRE_MINUTES = 15, REFRESH_TOKEN_EXPIRE_DAYS = 7, GITLAB_OAUTH_ALLOWED_GROUP = Some ''cnp'',
      FRONTEND_BASE_URL = ''https://cnp.example'', CLI_REDIRECT_BASE_URL = ''http://localhost:8765''\<rparr>"

lemma look_alike_host_receives_tokens:
  "prefix ''https://cnp.example.attacker.org/'' (redirect_address demo_accounts 0 alice ''alice@corp.fr'' (Some ''https://cnp.example.attacker.org/''))"
  by code_simp

section \<open>Removing a group\<close>

text \<open>
  Deregistering a group commits the removal of the group and of all its memberships, and of nothing
  else but for an audit entry; on the applications of the group only their project members keep a tier.
\<close>

theorem deregistration_revokes_memberships:
  assumes "deregister_gitlab_group gid admin s = (Inr (), s')"
  shows "is_admin admin \<and> s' = open_session (db s')
    \<and> rows (gitlab_groups (db s')) = filter (\<lambda>g. grp_id g \<noteq> gid) (rows (gitlab_groups (db s)))
    \<and> rows (group_members (db s')) = filter (\<lambda>m. gm_group_id m \<noteq> gid) (rows (group_members (db s)))
    \<and> (\<exists>entry. audit_logs (db s') = insert_row (\<lambda>_. entry) (audit_logs (db s)))
    \<and> (\<forall>uid app. access_levels uid app (db s') =
         (if app_owning_gitlab_group_id app = Some gid then project_levels uid app (db s) else access_levels uid app (db s)))"
proof -
  let ?entry = "\<lparr>al_user_id = Some (usr_id admin), al_action = ''admin.deregister_gitlab_group'', al_app_id = None\<rparr>"
  let ?d = "(remove_group gid (db s))\<lparr>audit_logs := insert_row (\<lambda>_. ?entry) (audit_logs (db s))\<rparr>"
  have adm: "is_admin admin" and s': "s' = open_session ?d"
    using assms by (auto simp: deregister_gitlab_group_def require_admin_def bnd_ok lift_apply gets_apply alter_groups_def
        modify_apply commit_def log_action_def raise_apply open_session_def remove_group_def split: if_splits option.splits)
  have "access_levels uid app ?d =
      (if app_owning_gitlab_group_id app = Some gid then project_levels uid app (db s) else access_levels uid app (db s))" for uid app
    by (auto simp: access_levels_def group_levels_def project_levels_def remove_group_def select_rows_def table_simps
        filter_empty_conv intro!: arg_cong[where f = "map gm_access_level"] filter_cong)
  with adm show ?thesis by (auto simp: s' open_session_def remove_group_def table_simps)
qed

section \<open>The hypotheses hold\<close>

lemma demo_tokens_decode: "tokens_decode demo_accounts"
  by (simp add: tokens_decode_def demo_accounts_def) (simp add: enc_str_def)

lemma login_opens_the_users_session_witness:
  "\<exists>a u. login demo_accounts 0 ''alice@corp.fr'' ''h'' (open_session alice_db) = (Inr a, open_session alice_db)
     \<and> usr_email u = ''alice@corp.fr''
     \<and> authenticate_jwt (jwt_decode demo_accounts) (la_access_token a) (open_session alice_db) = (Inr u, open_session alice_db)"
proof -
  obtain a s' where run: "login demo_accounts 0 ''alice@corp.fr'' ''h'' (open_session alice_db) = (Inr a, s')"
    by (simp add: login_def authenticate_user_def prog_simps user_by_email_def open_session_def alice_db_def alice_def
        find_row_def demo_accounts_def create_tokens_def create_access_token_def create_refresh_token_def)
  have "unique_on usr_id (users (db (open_session alice_db)))"
    by (simp add: unique_on_def open_session_def alice_db_def)
  from login_opens_the_users_session[OF demo_tokens_decode this run] run show ?thesis by metis
qed


definition demo_oauth :: oauth_provider where
  "demo_oauth =
     \<lparr>exchange_code = (\<lambda>_. Inr \<lparr>ot_access_token = Some ''t0k'', ot_refresh_token = None, ot_expires_in = None, ot_created_at = None\<rparr>),
      get_profile = (\<lambda>_. Inr \<lparr>pf_email = Some ''alice@corp.fr'', pf_username = Some ''alice'', pf_name = None, pf_id = Some 70\<rparr>),
      is_group_member = (\<lambda>_ _ _. Inr True)\<rparr>"


definition team_db :: database where
  "team_db = empty_database\<lparr>gitlab_groups := \<lparr>rows = [\<lparr>grp_id = 5, grp_name = ''team'', grp_full_path = ''cnp/team'', grp_synced_at = None\<rparr>], seq = 1\<rparr>,
     group_members := \<lparr>rows = [\<lparr>gm_id = 1, gm_group_id = 5, gm_user_id = Some 70, gm_username = Some ''alice'', gm_access_level = 30,
       gm_cnp_user_id = Some 7, gm_status = ACTIVE, gm_updated_at = None\<rparr>], seq = 2\<rparr>\<rparr>"

lemma deregistration_revokes_memberships_witness:
  "\<exists>s'. deregister_gitlab_group 5 (alice\<lparr>usr_role := ADMIN\<rparr>) (open_session team_db) = (Inr (), s')
     \<and> rows (group_members (db s')) = []"
proof -
  obtain s' where run: "deregister_gitlab_group 5 (alice\<lparr>usr_role := ADMIN\<rparr>) (open_session team_db) = (Inr (), s')"
    by (simp add: deregister_gitlab_group_def require_admin_def is_admin_def prog_simps get_group_row_def find_row_def
        open_session_def team_db_def alter_groups_def log_action_def)
  from deregistration_revokes_memberships[OF run] have "rows (group_members (db s')) = []"
    by (simp add: open_session_def team_db_def)
  with run show ?thesis by blast
qed

end
