(* ===== verification/Assistant_Tools.thy ===== *)
theory Assistant_Tools
  imports Env_Vars Knowledge Ai_Settings Accounts
begin

text \<open>
  backend/services/assistant_tools.py: the read-only tools that the language model calls on behalf of a
  user. A tool answers lines made of a sentence and the values filled into it; the French sentences are
  the parameter \<open>wording\<close>. Prometheus, Loki, Kubernetes, ArgoCD and GitLab are parameters that answer or
  raise. Properties: a tool reveals nothing of the database but what its user may see, the role it
  reckons with is the tier of the API, and what reaches the model holds no token and has a bounded size.
\<close>

section \<open>Lines of text\<close>

datatype phrase = Val string | Say string "phrase list"

fun render :: "(string \<Rightarrow> string list \<Rightarrow> string) \<Rightarrow> phrase \<Rightarrow> string" where
  "render wording (Val s) = s"
| "render wording (Say sentence ps) = wording sentence (map (render wording) ps)"

definition NEWLINE :: string where
  "NEWLINE = [CHR 0x0A]"

definition render_lines :: "(string \<Rightarrow> string list \<Rightarrow> string) \<Rightarrow> phrase list \<Rightarrow> string" where
  "render_lines wording ps = py_join NEWLINE (map (render wording) ps)"

definition num :: "int \<Rightarrow> phrase" where
  "num n = Val (string_of_int n)"

definition count_of :: "'x list \<Rightarrow> phrase" where
  "count_of xs = num (int (length xs))"

section \<open>Constants\<close>

definition BOT_USERNAMES :: "string list" where
  "BOT_USERNAMES = [''4k-service-bot'']"

definition MAX_RESULT_CHARS :: nat where "MAX_RESULT_CHARS = 6000"
definition MAX_DOC_RESULT_CHARS :: nat where "MAX_DOC_RESULT_CHARS = 16000"
definition MAX_EVENTS :: nat where "MAX_EVENTS = 10"
definition MAX_LOG_LINES :: nat where "MAX_LOG_LINES = 30"
definition MAX_LOG_LINE_CHARS :: nat where "MAX_LOG_LINE_CHARS = 300"

definition K8S_HINTS :: "string list" where
  "K8S_HINTS = [''CrashLoopBackOff'', ''OOMKilled'', ''ImagePullBackOff'', ''ErrImagePull'', ''CreateContainerConfigError'', ''Error'']"

definition TIER_BY_LEVEL :: "(int \<times> string) list" where
  "TIER_BY_LEVEL = [(50, ''owner''), (40, ''maintainer''), (30, ''developer'')]"

definition ROLE_ORDER :: "string list" where
  "ROLE_ORDER = [''viewer'', ''developer'', ''maintainer'', ''owner'', ''admin'']"

definition TOOL_MIN_ROLE :: "(string \<times> string) list" where
  "TOOL_MIN_ROLE =
     [(''get_app_logs'', ''developer''), (''get_pod_status'', ''developer''), (''get_ci_failure'', ''developer''),
      (''list_env_var_keys'', ''developer''), (''get_platform_health'', ''admin'')]"

text \<open>The tools with the parameters that their schemas and handlers declare.\<close>

definition TOOL_DEFINITIONS :: "(string \<times> string list) list" where
  "TOOL_DEFINITIONS =
     [(''list_my_groups'', []), (''list_apps'', [''group'']), (''get_app_details'', [''app'']),
      (''get_metrics'', [''group'', ''app'']), (''get_costs'', [''group'']), (''list_group_members'', [''group'']),
      (''get_recent_activity'', [''group'', ''app'']), (''get_app_logs'', [''app'', ''env'', ''level'']),
      (''get_pod_status'', [''app'', ''env'']), (''get_ci_failure'', [''app'']), (''list_env_var_keys'', [''app'', ''env'']),
      (''get_platform_health'', []), (''search_platform_docs'', [''query''])]"

definition role_rank :: "string \<Rightarrow> nat" where
  "role_rank role = (if role \<in> set ROLE_ORDER then index_of ROLE_ORDER role else 0)"

definition tool_min_role :: "string \<Rightarrow> string" where
  "tool_min_role name = (case map_of TOOL_MIN_ROLE name of Some r \<Rightarrow> r | None \<Rightarrow> ''viewer'')"

definition tier_name :: "int \<Rightarrow> string" where
  "tier_name access_level =
     (case List.find (\<lambda>(threshold, _). access_level \<ge> threshold) TIER_BY_LEVEL of
        Some (_, name) \<Rightarrow> name | None \<Rightarrow> ''viewer'')"

definition group_slug_of :: "gitlab_group \<Rightarrow> string" where
  "group_slug_of g = List.last (split_on (CHR ''/'') (grp_full_path g))"

definition matches_label :: "string \<Rightarrow> string \<Rightarrow> bool" where
  "matches_label name target =
     (let a = py_lower name; b = py_lower target in
      a \<noteq> [] \<and> b \<noteq> [] \<and> (a = b \<or> sublist a b \<or> sublist b a))"

section \<open>Who asks, from where, and the services behind the tools\<close>

record page_context =
  pg_path :: "string option"
  pg_group_slug :: "string option"
  pg_app_slug :: "string option"

record app_metric =
  mt_app_name :: string
  mt_cpu_current :: string
  mt_ram_current_mb :: string
  mt_points :: nat

text \<open>Costs in units of 1e-4 USD: the monitoring service rounds them to four decimals.\<close>

record app_cost =
  co_app_name :: string
  co_total :: int
  co_cpu :: int
  co_ram :: int

record log_entry =
  le_time :: string
  le_level :: string
  le_msg :: string

record container_status =
  ct_name :: string
  ct_ready :: bool
  ct_restarts :: int
  ct_waiting_reason :: "string option"
  ct_last_terminated_reason :: "string option"
  ct_last_exit_code :: string
  ct_last_finished_at :: "string option"

record pod_status =
  pod_name :: string
  pod_phase :: string
  pod_containers :: "container_status list"

record pod_diagnostics =
  pd_replicas_ready :: int
  pd_replicas_desired :: int
  pd_pods :: "pod_status list"
  pd_warnings :: "(string \<times> int \<times> string \<times> string) list"

record failed_job =
  fj_name :: string
  fj_stage :: string
  fj_failure_reason :: "string option"
  fj_web_url :: string
  fj_log_tail :: string

record pipeline_info =
  pi_id :: string
  pi_status :: string
  pi_ref :: string
  pi_sha :: string
  pi_created_at :: string
  pi_web_url :: string
  pi_failed_jobs :: "failed_job list"

record argo_status =
  ag_sync :: "string option"
  ag_health :: "string option"
  ag_images :: "string list"
  ag_finished_at :: "string option"

record 'v tool_env =
  tl_hvac :: "'v hvac"
  wording :: "string \<Rightarrow> string list \<Rightarrow> string"
  tl_settings :: ai_env
  fmt_dt :: "int option \<Rightarrow> string"
  fmt_cost :: "int \<Rightarrow> string"
  fmt_spent :: "int \<Rightarrow> string"
  fmt_budget :: "int \<Rightarrow> string"
  str_json :: "json \<Rightarrow> string"
  json_loads :: "string \<Rightarrow> exc + json"
  exc_name :: "exc \<Rightarrow> string"
  exc_text :: "exc \<Rightarrow> string"
  LOKI_URL :: "string option"
  HAS_BOT_TOKEN :: bool
  AI_PLATFORM_KB_TOP_K :: nat
  get_metrics_series :: "exc + app_metric list"
  get_cost_by_group :: "string \<Rightarrow> exc + app_cost list"
  get_logs :: "string \<Rightarrow> string \<Rightarrow> string \<Rightarrow> exc + log_entry list"
  get_pod_diagnostics :: "cluster_connection \<Rightarrow> string \<Rightarrow> string \<Rightarrow> exc + pod_diagnostics option"
  get_last_pipeline_failure :: "int \<Rightarrow> exc + pipeline_info option"
  argocd_client :: "cluster_connection \<Rightarrow> exc + (string \<Rightarrow> exc + argo_status)"

text \<open>\<open>PlatformTools(db, user, cfg, page)\<close>.\<close>

record 'v platform_tools =
  tl_env :: "'v tool_env"
  tl_user :: user
  tl_cfg :: "effective_ai_config option"
  tl_page :: page_context
  tl_now :: int

definition masks_pii :: "'v platform_tools \<Rightarrow> bool" where
  "masks_pii t \<longleftrightarrow> (case tl_cfg t of None \<Rightarrow> False | Some cfg \<Rightarrow> mask_pii (tl_settings (tl_env t)) cfg)"

definition tool_app_allowed :: "'v platform_tools \<Rightarrow> application \<Rightarrow> bool" where
  "tool_app_allowed t a \<longleftrightarrow> (case tl_cfg t of None \<Rightarrow> True | Some cfg \<Rightarrow> app_allowed cfg (app_id a))"

section \<open>What the user sees\<close>

definition own_level :: "user \<Rightarrow> gitlab_group \<Rightarrow> gitlab_group_member \<Rightarrow> bool" where
  "own_level u g m \<longleftrightarrow> gm_group_id m = grp_id g \<and> gm_cnp_user_id m = Some (usr_id u) \<and> gm_status m = ACTIVE"

definition join_levels :: "user \<Rightarrow> database \<Rightarrow> gitlab_group \<Rightarrow> (gitlab_group \<times> int option) list" where
  "join_levels u d g =
     (case select_rows (own_level u g) (group_members d) of
        [] \<Rightarrow> [(g, None)]
      | ms \<Rightarrow> map (\<lambda>m. (g, Some (gm_access_level m))) ms)"

definition visible_groups :: "'v platform_tools \<Rightarrow> database \<Rightarrow> (gitlab_group \<times> int option) list" where
  "visible_groups t d =
     filter (\<lambda>(g, level). is_admin (tl_user t) \<or> level \<noteq> None)
       (sort_key (\<lambda>p. grp_name (fst p))
         (concat (map (join_levels (tl_user t) d)
           (select_rows (\<lambda>g. grp_name g \<notin> set SYSTEM_GROUP_NAMES) (gitlab_groups d)))))"

definition own_projects :: "user \<Rightarrow> database \<Rightarrow> app_member list" where
  "own_projects u d = select_rows (\<lambda>m. am_cnp_user_id m = Some (usr_id u) \<and> am_status m = ACTIVE) (app_members d)"

definition user_project_levels :: "'v platform_tools \<Rightarrow> database \<Rightarrow> (int \<times> int) list" where
  "user_project_levels t d =
     fold (\<lambda>m levels. dict_set (am_project_id m)
             (max (am_access_level m) (case map_of levels (am_project_id m) of Some l \<Rightarrow> l | None \<Rightarrow> 0)) levels)
       (own_projects (tl_user t) d) []"

definition visible_apps :: "'v platform_tools \<Rightarrow> database \<Rightarrow> application list" where
  "visible_apps t d =
     (let group_ids = map (\<lambda>p. grp_id (fst p)) (visible_groups t d);
          project_ids = map am_project_id (own_projects (tl_user t) d)
      in sort_key app_name
           (if is_admin (tl_user t) then rows (applications d)
            else select_rows (\<lambda>a. (case app_owning_gitlab_group_id a of None \<Rightarrow> False | Some g \<Rightarrow> g \<in> set group_ids)
                              \<or> (case app_gitlab_project_id a of None \<Rightarrow> False | Some p \<Rightarrow> p \<in> set project_ids)) (applications d)))"

definition role_for_group :: "'v platform_tools \<Rightarrow> database \<Rightarrow> gitlab_group \<Rightarrow> string" where
  "role_for_group t d target =
     (if is_admin (tl_user t) then ''admin''
      else (case List.find (\<lambda>(g, level). grp_id g = grp_id target \<and> level \<noteq> None) (visible_groups t d) of
              Some (_, Some level) \<Rightarrow> tier_name level
            | _ \<Rightarrow> ''viewer''))"

definition role_levels :: "'v platform_tools \<Rightarrow> database \<Rightarrow> application \<Rightarrow> int list" where
  "role_levels t d a =
     (if truthy_id (app_gitlab_project_id a) then
        (case map_of (user_project_levels t d) (the (app_gitlab_project_id a)) of Some l \<Rightarrow> [l] | None \<Rightarrow> [])
      else [])
     @ List.map_filter (\<lambda>(g, level). if Some (grp_id g) = app_owning_gitlab_group_id a then level else None) (visible_groups t d)"

definition role_for_app :: "'v platform_tools \<Rightarrow> database \<Rightarrow> application \<Rightarrow> string" where
  "role_for_app t d a =
     (if is_admin (tl_user t) then ''admin''
      else if role_levels t d a \<noteq> [] then tier_name (Max (set (role_levels t d a))) else ''viewer'')"

definition max_role :: "'v platform_tools \<Rightarrow> database \<Rightarrow> string" where
  "max_role t d =
     (if is_admin (tl_user t) then ''admin''
      else
        (let levels = List.map_filter snd (visible_groups t d) @ map snd (user_project_levels t d) in
         if levels \<noteq> [] then tier_name (Max (set levels)) else ''viewer''))"

definition reference :: "string option \<Rightarrow> string option \<Rightarrow> string" where
  "reference given page = py_lower (strip py_isspace (or_else given (or_else page [])))"

definition resolve_group :: "'v platform_tools \<Rightarrow> database \<Rightarrow> string option \<Rightarrow> gitlab_group option" where
  "resolve_group t d given =
     (let ref = reference given (pg_group_slug (tl_page t)) in
      if ref = [] then None
      else map_option fst (List.find (\<lambda>(g, _).
             ref \<in> {string_of_int (grp_id g), py_lower (grp_name g), py_lower (grp_full_path g), py_lower (group_slug_of g)})
             (visible_groups t d)))"

definition resolve_app :: "'v platform_tools \<Rightarrow> database \<Rightarrow> string option \<Rightarrow> application option" where
  "resolve_app t d given =
     (let ref = reference given (pg_app_slug (tl_page t)) in
      if ref = [] then None
      else List.find (\<lambda>a. ref \<in> {string_of_int (app_id a), py_lower (app_slug a), py_lower (app_name a)}) (visible_apps t d))"

definition profile :: "'v platform_tools \<Rightarrow> database \<Rightarrow> string \<times> phrase" where
  "profile t d =
     (if is_admin (tl_user t) then (''admin'', Say ''platform_administrator'' [])
      else
        (case (if truthy_str (pg_app_slug (tl_page t)) then resolve_app t d None else None) of
           Some a \<Rightarrow> (role_for_app t d a, Say ''on_application'' [Val (app_name a)])
         | None \<Rightarrow>
             (case (if truthy_str (pg_group_slug (tl_page t)) then resolve_group t d None else None) of
                Some g \<Rightarrow> (role_for_group t d g, Say ''in_group'' [Val (grp_name g)])
              | None \<Rightarrow> (max_role t d, Say ''highest_role'' []))))"

definition available_definitions :: "'v platform_tools \<Rightarrow> database \<Rightarrow> string list" where
  "available_definitions t d =
     filter (\<lambda>name. role_rank (tool_min_role name) \<le> role_rank (max_role t d)) (map fst TOOL_DEFINITIONS)"

text \<open>The group argument: an error, or the group if one is meant and its visible applications.\<close>

definition group_scope ::
  "'v platform_tools \<Rightarrow> database \<Rightarrow> string option \<Rightarrow> phrase + gitlab_group option \<times> application list" where
  "group_scope t d given =
     (let apps = visible_apps t d in
      if truthy_str given \<or> truthy_str (pg_group_slug (tl_page t)) then
        (case resolve_group t d given of
           None \<Rightarrow> Inl (Say ''group_unknown'' [Val (or_else given (or_else (pg_group_slug (tl_page t)) []))])
         | Some g \<Rightarrow> Inr (Some g, filter (\<lambda>a. app_owning_gitlab_group_id a = Some (grp_id g)) apps))
      else Inr (None, apps))"

definition group_by_id :: "'v platform_tools \<Rightarrow> database \<Rightarrow> int option \<Rightarrow> gitlab_group option" where
  "group_by_id t d gid =
     (let i = (if truthy_id gid then the gid else -1) in
      List.find (\<lambda>g. grp_id g = i) (rev (map fst (visible_groups t d))))"

definition app_link :: "'v platform_tools \<Rightarrow> database \<Rightarrow> application \<Rightarrow> string" where
  "app_link t d a =
     (case group_by_id t d (app_owning_gitlab_group_id a) of
        Some g \<Rightarrow> ''/groups/'' @ group_slug_of g @ ''/apps/'' @ app_slug a
      | None \<Rightarrow> ''/admin/apps ('' @ app_slug a @ '')'')"

section \<open>The tools\<close>

datatype tool_citation =
    Cite_doc string "string option" string
  | Cite_app int string

type_synonym tool_result = "phrase list \<times> tool_citation list"

abbreviation say :: "string \<Rightarrow> string list \<Rightarrow> phrase" where
  "say sentence vs \<equiv> Say sentence (map Val vs)"

abbreviation refuse :: "string \<Rightarrow> string list \<Rightarrow> tool_result" where
  "refuse sentence vs \<equiv> ([say sentence vs], [])"

fun application_status_value :: "application_status \<Rightarrow> string" where
  "application_status_value ONBOARDING = ''onboarding''"
| "application_status_value READY = ''ready''"
| "application_status_value DEPLOYED = ''deployed''"
| "application_status_value DEGRADED = ''degraded''"

fun cluster_status_value :: "cluster_status \<Rightarrow> string" where
  "cluster_status_value ONLINE = ''online''"
| "cluster_status_value OFFLINE = ''offline''"
| "cluster_status_value UNKNOWN = ''unknown''"

fun stop_reason_value :: "scale_stop_reason \<Rightarrow> string" where
  "stop_reason_value SCHEDULE = ''schedule''"
| "stop_reason_value MANUAL = ''manual''"

text \<open>An optional value, or the sentence that stands for none.\<close>

definition shown :: "string option \<Rightarrow> string \<Rightarrow> phrase" where
  "shown x sentence = (if truthy_str x then Val (the x) else Say sentence [])"

definition tally :: "string list \<Rightarrow> phrase list" where
  "tally xs = map (\<lambda>(s, n). Say ''counted'' [num n, Val s])
     (sort_key fst (fold (\<lambda>x counts. dict_set x ((case map_of counts x of Some n \<Rightarrow> n | None \<Rightarrow> 0) + 1) counts) xs []))"

definition list_my_groups :: "'v platform_tools \<Rightarrow> database \<Rightarrow> tool_result" where
  "list_my_groups t d =
     (let gs = visible_groups t d; apps = visible_apps t d in
      if gs = [] then refuse ''no_group'' []
      else
        (Say ''groups'' [count_of gs] #
         map (\<lambda>(g, level). Say ''group''
           [Val (grp_name g), Val (group_slug_of g), num (grp_id g),
            (case level of Some l \<Rightarrow> Val (tier_name l) | None \<Rightarrow> Say ''platform_admin_not_member'' []),
            count_of (filter (\<lambda>a. app_owning_gitlab_group_id a = Some (grp_id g)) apps)]) gs, []))"

definition scope_phrase :: "gitlab_group option \<Rightarrow> string \<Rightarrow> phrase" where
  "scope_phrase g otherwise = (case g of Some g \<Rightarrow> say ''of_group'' [grp_name g] | None \<Rightarrow> Say otherwise [])"

definition scale_stopped :: "database \<Rightarrow> int \<Rightarrow> string \<Rightarrow> bool" where
  "scale_stopped d aid e =
     (case List.find (\<lambda>r. ss_app_id r = aid \<and> ss_env r = e) (rev (rows (scale_states d))) of
        Some r \<Rightarrow> ss_is_stopped r | None \<Rightarrow> False)"

definition cluster_name_of :: "database \<Rightarrow> int option \<Rightarrow> string option" where
  "cluster_name_of d cid =
     (case cid of None \<Rightarrow> None | Some i \<Rightarrow> map_option cl_name (List.find (\<lambda>c. cl_id c = i) (rev (rows (cluster_connections d)))))"

definition app_line :: "'v platform_tools \<Rightarrow> database \<Rightarrow> bool \<Rightarrow> application \<Rightarrow> phrase" where
  "app_line t d in_group a =
     (let stopped = filter (scale_stopped d (app_id a)) [''dev'', ''prod''];
          grp = group_by_id t d (app_owning_gitlab_group_id a)
      in Say ''application''
           ([say ''named'' [app_name a, app_slug a]]
            @ (case grp of Some g \<Rightarrow> if in_group then [] else [say ''its_group'' [grp_name g]] | None \<Rightarrow> [])
            @ [say ''status'' [application_status_value (app_last_known_status a)],
               Say ''pipeline'' [shown (app_last_pipeline_status a) ''unknown'']]
            @ (if stopped \<noteq> [] then [say ''stopped_in'' [py_join ''/'' stopped]] else [])
            @ [Say ''cluster'' [(case cluster_name_of d (app_target_cluster_id a) of Some c \<Rightarrow> Val c | None \<Rightarrow> Say ''undefined'' [])]]
            @ (if app_expose a = Some True then [Say ''exposed'' []] else [])
            @ [say ''page'' [app_link t d a]]))"

definition list_apps :: "'v platform_tools \<Rightarrow> database \<Rightarrow> string option \<Rightarrow> tool_result" where
  "list_apps t d arg_group =
     (case group_scope t d arg_group of
        Inl err \<Rightarrow> ([err], [])
      | Inr (g, apps) \<Rightarrow>
          let scope = scope_phrase g ''visible_to_the_user'' in
          if apps = [] then ([Say ''no_application_create_one'' [scope]], [])
          else
            (Say ''applications'' (count_of apps # scope # tally (map (\<lambda>a. application_status_value (app_last_known_status a)) apps))
             # map (app_line t d (g \<noteq> None)) apps @ [Say ''status_legend'' []], []))"

definition events_where :: "'v platform_tools \<Rightarrow> database \<Rightarrow> (event \<Rightarrow> bool) \<Rightarrow> phrase list" where
  "events_where t d condition =
     (let es = take MAX_EVENTS (sort_key (\<lambda>e. - ev_created_at e) (select_rows condition (events d)));
          name_of = (\<lambda>e. case List.find (\<lambda>a. Some (app_id a) = ev_app_id e) (rev (visible_apps t d)) of
                       Some a \<Rightarrow> app_name a
                     | None \<Rightarrow> (case map_of (ev_payload e) ''name'' of Some v \<Rightarrow> str_json (tl_env t) v | None \<Rightarrow> []))
      in if es = [] then [Say ''no_recent_event'' []]
         else map (\<lambda>e.
           let extra = map (\<lambda>(k, v). k @ ''='' @ str_json (tl_env t) v)
                 (filter (\<lambda>(k, _). k \<in> {''env'', ''health'', ''new_name'', ''reason''}) (ev_payload e))
           in Say ''event''
                ([Val (fmt_dt (tl_env t) (Some (ev_created_at e))), say ''severity'' [ev_severity e], Val (ev_type e)]
                 @ (if truthy_id (ev_app_id e) then [say ''about'' [name_of e]] else [])
                 @ (if extra \<noteq> [] then [say ''details'' [py_join '', '' extra]] else []))) es)"

definition argocd_lines :: "'v platform_tools \<Rightarrow> application \<Rightarrow> cluster_connection option \<Rightarrow> phrase list" where
  "argocd_lines t a cluster =
     (case cluster of
        None \<Rightarrow> [Say ''no_target_cluster'' []]
      | Some c \<Rightarrow>
          (case argocd_client (tl_env t) c of
             Inl e \<Rightarrow> [say ''argocd_unavailable'' [exc_text (tl_env t) e]]
           | Inr client \<Rightarrow>
               map (\<lambda>e. case client (app_slug a @ ''-'' @ e) of
                   Inl x \<Rightarrow> say ''environment_unavailable'' [e, exc_name (tl_env t) x]
                 | Inr st \<Rightarrow> Say ''argocd_environment''
                     [Val e, Val (opt_or (ag_sync st) ''?''), Val (opt_or (ag_health st) ''?''),
                      (case ag_images st of [] \<Rightarrow> Say ''none'' [] | i # _ \<Rightarrow> Val (List.last (split_on (CHR ''/'') i))),
                      (case ag_finished_at st of Some f \<Rightarrow> Val f | None \<Rightarrow> Say ''none'' [])]) [''dev'', ''prod'']))"

definition target_cluster :: "database \<Rightarrow> application \<Rightarrow> cluster_connection option" where
  "target_cluster d a =
     (if truthy_id (app_target_cluster_id a) then get_cluster_row (the (app_target_cluster_id a)) d else None)"

definition scale_line :: "'v platform_tools \<Rightarrow> app_scale_state \<Rightarrow> phrase" where
  "scale_line t s =
     (if ss_is_stopped s then
        Say ''environment_stopped''
          [Val (ss_env s), (case ss_stop_reason s of Some r \<Rightarrow> say ''reason'' [stop_reason_value r] | None \<Rightarrow> Val []),
           Val (fmt_dt (tl_env t) (ss_stopped_at s))]
      else say ''environment_running'' [ss_env s])"

definition app_unknown :: "'v platform_tools \<Rightarrow> string option \<Rightarrow> string \<Rightarrow> tool_result" where
  "app_unknown t arg_app sentence = refuse sentence [or_else arg_app (or_else (pg_app_slug (tl_page t)) ''?'')]"

definition get_app_details :: "'v platform_tools \<Rightarrow> database \<Rightarrow> string option \<Rightarrow> tool_result" where
  "get_app_details t d arg_app =
     (case resolve_app t d arg_app of
        None \<Rightarrow>
          if truthy_str arg_app \<or> truthy_str (pg_app_slug (tl_page t)) then app_unknown t arg_app ''application_unknown_see_list''
          else refuse ''no_application_given'' []
      | Some a \<Rightarrow>
          if \<not> tool_app_allowed t a then refuse ''application_not_allowed'' [app_name a]
          else
            (let grp = group_by_id t d (app_owning_gitlab_group_id a);
                 cluster = target_cluster d a;
                 ai_row = get_ai_app_row (app_id a) d
             in
             ([Say ''application_header'' [Val (app_name a), Val (app_slug a), num (app_id a)],
               Say ''its_group'' [(case grp of Some g \<Rightarrow> Val (grp_name g) | None \<Rightarrow> Say ''none'' [])],
               Say ''description'' [shown (app_description a) ''none''],
               Say ''framework'' [shown (app_framework a) ''unspecified'', shown (app_origin a) ''scaffold''],
               say ''known_status'' [application_status_value (app_last_known_status a)],
               Say ''last_pipeline'' [shown (app_last_pipeline_status a) ''unknown''],
               Say ''repository'' [if truthy_str (app_repo_url a) then Val (the (app_repo_url a)) else shown (app_source_url a) ''not_configured''],
               Say ''target_cluster'' [(case cluster of Some c \<Rightarrow> say ''cluster_with_status'' [cl_name c, cluster_status_value (cl_status c)]
                                         | None \<Rightarrow> Say ''undefined'' [])],
               (if app_expose a = Some True then say ''exposed_at'' [app_slug a] else Say ''not_exposed'' []),
               Say (if (case ai_row of Some r \<Rightarrow> aas_ai_enabled r | None \<Rightarrow> False) then ''assistant_enabled'' else ''assistant_disabled'') [],
               say ''page_with_tabs'' [app_link t d a]]
              @ map (scale_line t) (select_rows (\<lambda>s. ss_app_id s = app_id a) (scale_states d))
              @ [Say ''argocd_status'' []] @ argocd_lines t a cluster
              @ [Say ''recent_events'' []] @ events_where t d (\<lambda>e. ev_app_id e = Some (app_id a)),
              [Cite_app (app_id a) (app_name a)])))"

text \<open>The applications that \<open>get_metrics\<close> is about, with the phrase that names them.\<close>

definition metric_targets ::
  "'v platform_tools \<Rightarrow> database \<Rightarrow> string option \<Rightarrow> string option \<Rightarrow> phrase + application list \<times> phrase" where
  "metric_targets t d arg_group arg_app =
     (if truthy_str arg_app \<or> (truthy_str (pg_app_slug (tl_page t)) \<and> \<not> truthy_str arg_group) then
        (case resolve_app t d arg_app of
           None \<Rightarrow> Inl (say ''application_unknown'' [opt_or arg_app ''None''])
         | Some a \<Rightarrow> Inr ([a], say ''of_application'' [app_name a]))
      else
        (case group_scope t d arg_group of
           Inl err \<Rightarrow> Inl err
         | Inr (g, apps) \<Rightarrow> Inr (apps, scope_phrase g ''visible'')))"

definition get_metrics :: "'v platform_tools \<Rightarrow> database \<Rightarrow> string option \<Rightarrow> string option \<Rightarrow> tool_result" where
  "get_metrics t d arg_group arg_app =
     (case metric_targets t d arg_group arg_app of
        Inl err \<Rightarrow> ([err], [])
      | Inr (targets, scope) \<Rightarrow>
          if targets = [] then ([Say ''no_application'' [scope]], [])
          else
            (let allowed = filter (tool_app_allowed t) targets; hidden = length targets - length allowed in
             if allowed = [] then refuse ''metrics_not_allowed'' []
             else
               (case get_metrics_series (tl_env t) of
                  Inl e \<Rightarrow> refuse ''prometheus_unavailable_see_grafana'' [exc_name (tl_env t) e]
                | Inr series \<Rightarrow>
                    (Say ''current_metrics'' [scope] #
                     map (\<lambda>a. case List.find (\<lambda>s. matches_label (mt_app_name s) (app_slug a)) series of
                         Some m \<Rightarrow> say ''metrics_of'' [app_name a, mt_cpu_current m, mt_ram_current_mb m]
                       | None \<Rightarrow> say ''no_metric'' [app_name a]) allowed
                     @ (if hidden \<noteq> 0 then [Say ''hidden_applications'' [num (int hidden)]] else [])
                     @ [Say ''metrics_pages'' []], []))))"

text \<open>
  The text of the refusal when no group is meant and the user has not exactly one: the slugs of the
  groups.
\<close>

definition slugs_or_none :: "(gitlab_group \<times> int option) list \<Rightarrow> phrase" where
  "slugs_or_none gs = (if gs = [] then Say ''none'' [] else Val (py_join '', '' (map (\<lambda>p. group_slug_of (fst p)) gs)))"

definition cost_lines :: "'v platform_tools \<Rightarrow> gitlab_group \<Rightarrow> application list \<Rightarrow> app_cost list \<Rightarrow> phrase list" where
  "cost_lines t g apps costs =
     (let allowed_slugs = map app_slug (filter (tool_app_allowed t) apps);
          ordered = sort_key (\<lambda>c. - co_total c) costs;
          is_shown = (\<lambda>c. \<exists>s \<in> set allowed_slugs. matches_label (co_app_name c) s);
          hidden = length (filter (\<lambda>c. \<not> is_shown c) ordered);
          money = (\<lambda>n. Val (fmt_cost (tl_env t) n))
      in say ''costs_of_group'' [grp_name g]
         # map (\<lambda>c. Say ''cost_of'' [Val (co_app_name c), money (co_total c), money (co_cpu c), money (co_ram c)]) (filter is_shown ordered)
         @ [Say ''total_cost'' [money (sum_list (map co_total ordered))]]
         @ (if hidden \<noteq> 0 then [Say ''hidden_costs'' [num (int hidden)]] else []))"

definition costs_of_group :: "'v platform_tools \<Rightarrow> gitlab_group \<Rightarrow> application list \<Rightarrow> tool_result" where
  "costs_of_group t g apps =
     (case get_cost_by_group (tl_env t) (string_of_int (grp_id g)) of
        Inl e \<Rightarrow> refuse ''prometheus_unavailable'' [exc_name (tl_env t) e]
      | Inr costs \<Rightarrow> if costs = [] then refuse ''no_cost_data'' [grp_name g] else (cost_lines t g apps costs, []))"

definition get_costs :: "'v platform_tools \<Rightarrow> database \<Rightarrow> string option \<Rightarrow> tool_result" where
  "get_costs t d arg_group =
     (case group_scope t d arg_group of
        Inl err \<Rightarrow> ([err], [])
      | Inr (Some g, apps) \<Rightarrow> costs_of_group t g apps
      | Inr (None, apps) \<Rightarrow>
          (case visible_groups t d of
             [(g, _)] \<Rightarrow> costs_of_group t g (filter (\<lambda>a. app_owning_gitlab_group_id a = Some (grp_id g)) apps)
           | gs \<Rightarrow> ([Say ''which_group'' [slugs_or_none gs]], [])))"

definition member_rows :: "database \<Rightarrow> int \<Rightarrow> gitlab_group_member list" where
  "member_rows d gid =
     sort_key (\<lambda>m. - gm_access_level m)
       (select_rows (\<lambda>m. gm_group_id m = gid \<and> gm_status m = ACTIVE
                       \<and> (case gm_username m of None \<Rightarrow> True | Some n \<Rightarrow> n \<notin> set BOT_USERNAMES)) (group_members d))"

definition linked_user :: "database \<Rightarrow> gitlab_group_member \<Rightarrow> user option" where
  "linked_user d m = (case gm_cnp_user_id m of None \<Rightarrow> None | Some i \<Rightarrow> get_user_row i d)"

definition list_group_members :: "'v platform_tools \<Rightarrow> database \<Rightarrow> string option \<Rightarrow> tool_result" where
  "list_group_members t d arg_group =
     (let gs = visible_groups t d;
          found = (case resolve_group t d arg_group of
                     Some g \<Rightarrow> Some g
                   | None \<Rightarrow>
                       (case gs of
                          [(g, _)] \<Rightarrow> if truthy_str arg_group \<or> truthy_str (pg_group_slug (tl_page t)) then None else Some g
                        | _ \<Rightarrow> None))
      in case found of
           None \<Rightarrow> ([Say ''group_unknown_or_missing'' [slugs_or_none gs]], [])
         | Some g \<Rightarrow>
             (let ms = member_rows d (grp_id g) in
              if ms = [] then refuse ''no_active_member'' [grp_name g]
              else
                (Say ''members'' [count_of ms, Val (grp_name g)] #
                 map (\<lambda>m. Say ''member''
                   [(case linked_user d m of
                       Some u \<Rightarrow> Val (if masks_pii t then mask_email (usr_email u) else usr_email u)
                     | None \<Rightarrow> shown (gm_username m) ''unlinked_gitlab_user''), Val (tier_name (gm_access_level m))]) ms
                 @ (if masks_pii t then [Say ''emails_masked'' []] else [])
                 @ [say ''members_page'' [group_slug_of g]], [])))"

definition names_group :: "int \<Rightarrow> event \<Rightarrow> bool" where
  "names_group gid e \<longleftrightarrow>
     (case map_of (ev_payload e) ''group_id'' of
        Some (JStr s) \<Rightarrow> s = string_of_int gid
      | Some (JNum n) \<Rightarrow> n = gid
      | _ \<Rightarrow> False)"

definition get_recent_activity :: "'v platform_tools \<Rightarrow> database \<Rightarrow> string option \<Rightarrow> string option \<Rightarrow> tool_result" where
  "get_recent_activity t d arg_group arg_app =
     (if truthy_str arg_app \<or> (truthy_str (pg_app_slug (tl_page t)) \<and> \<not> truthy_str arg_group) then
        (case resolve_app t d arg_app of
           None \<Rightarrow> ([say ''application_unknown'' [opt_or arg_app ''None'']], [])
         | Some a \<Rightarrow>
             if \<not> tool_app_allowed t a then refuse ''application_not_allowed'' [app_name a]
             else (say ''recent_activity_of_application'' [app_name a] # events_where t d (\<lambda>e. ev_app_id e = Some (app_id a)), []))
      else
        (case group_scope t d arg_group of
           Inl err \<Rightarrow> ([err], [])
         | Inr (g, apps) \<Rightarrow>
             let ids = map app_id (filter (tool_app_allowed t) apps);
                 of_apps = (\<lambda>e. case ev_app_id e of None \<Rightarrow> False | Some i \<Rightarrow> i \<in> set ids)
             in (Say ''recent_activity'' [scope_phrase g ''of_your_applications''] #
                 events_where t d (\<lambda>e. of_apps e \<or> (case g of Some g \<Rightarrow> names_group (grp_id g) e | None \<Rightarrow> False)), [])))"

definition search_platform_docs :: "'v platform_tools \<Rightarrow> database \<Rightarrow> string option \<Rightarrow> tool_result" where
  "search_platform_docs t d arg_query =
     (let query = or_else arg_query [] in
      if strip py_isspace query = [] then refuse ''empty_query'' []
      else
        (let chunks = search query (AI_PLATFORM_KB_TOP_K (tl_env t)) ''local'' d in
         if chunks = [] then refuse ''no_relevant_extract'' []
         else
           ([Say ''documentation_extracts''
               [Val (py_join (NEWLINE @ NEWLINE @ ''---'' @ NEWLINE @ NEWLINE)
                  (map (\<lambda>c. ''['' @ citation c @ '']'' @ NEWLINE @ rc_text c) chunks))]],
            map (\<lambda>c. Cite_doc (rc_path c) (rc_heading c) (citation c)) chunks)))"

definition list_env_var_keys ::
  "'v platform_tools \<Rightarrow> ('v, 'z) services_scheme \<Rightarrow> string option \<Rightarrow> string option \<Rightarrow> tool_result" where
  "list_env_var_keys t w arg_app arg_env =
     (let d = db (sess w); e = py_lower (or_else arg_env ''dev'') in
      if e \<notin> {''dev'', ''prod''} then refuse ''environment_unknown'' []
      else
        (case resolve_app t d arg_app of
           None \<Rightarrow> app_unknown t arg_app ''application_unknown_or_hidden''
         | Some a \<Rightarrow>
             if \<not> tool_app_allowed t a then refuse ''application_not_allowed'' [app_name a]
             else
               (let role = role_for_app t d a; needed = (if e = ''dev'' then ''developer'' else ''maintainer'') in
                if role_rank role < role_rank needed then refuse ''variables_refused'' [e, app_name a, needed, role]
                else
                  (case fst (list_keys (tl_hvac (tl_env t)) (app_id a) e w) of
                     Inl x \<Rightarrow> refuse ''variables_unavailable''
                       [e, (case x of HTTPException _ \<Rightarrow> exc_text (tl_env t) x | _ \<Rightarrow> exc_name (tl_env t) x)]
                   | Inr ks \<Rightarrow>
                       if ks = [] then refuse ''no_variable'' [e, app_name a]
                       else
                         (say ''variables_of'' [e, app_name a]
                          # map (\<lambda>(k, _). Say ''variable'' [Val k, Say ''defined'' []]) ks, [])))))"

definition get_platform_health :: "'v platform_tools \<Rightarrow> database \<Rightarrow> tool_result" where
  "get_platform_health t d =
     (if \<not> is_admin (tl_user t) then refuse ''administrators_only'' []
      else
        (let cs = sort_key cl_name (rows (cluster_connections d));
             apps = visible_apps t d;
             counted = tally (map (\<lambda>a. application_status_value (app_last_known_status a)) apps);
             degraded = map app_name (filter (\<lambda>a. app_last_known_status a = DEGRADED) apps);
             failed_ci = map app_name (filter (\<lambda>a. app_last_pipeline_status a = Some ''failed'') apps);
             stopped = [app_name a @ '' ('' @ e @ '')''. a \<leftarrow> apps, e \<leftarrow> [''dev'', ''prod''], scale_stopped d (app_id a) e];
             asked = select_rows (\<lambda>r. aur_created_at r \<ge> day_start (tl_now t)) (ai_usage_records d)
         in
         (Say ''clusters'' [count_of cs]
          # map (\<lambda>c. say ''cluster_seen'' [cl_name c, cluster_status_value (cl_status c), fmt_dt (tl_env t) (cl_last_seen_at c)]) cs
          @ (if cs = [] then [Say ''no_cluster'' []] else [])
          @ [Say ''application_count'' [count_of apps], Say ''by_status'' (if counted = [] then [Say ''none'' []] else counted)]
          @ (if degraded \<noteq> [] then [say ''degraded'' degraded] else [])
          @ (if failed_ci \<noteq> [] then [say ''failed_pipelines'' failed_ci] else [])
          @ (if stopped \<noteq> [] then [say ''stopped_environments'' stopped] else [])
          @ [Say ''assistant_today'' [count_of asked, Val (fmt_spent (tl_env t) (spent_today_usd (tl_now t) d)),
               Val (fmt_budget (tl_env t) (AI_DAILY_BUDGET_USD (tl_settings (tl_env t))))]], [])))"

text \<open>The application and the environment of a diagnostic tool, or the refusal.\<close>

definition diagnosable_app ::
  "'v platform_tools \<Rightarrow> database \<Rightarrow> string option \<Rightarrow> string option \<Rightarrow> tool_result + application \<times> string" where
  "diagnosable_app t d arg_app arg_env =
     (let e = py_lower (or_else arg_env ''prod'') in
      if e \<notin> {''dev'', ''prod''} then Inl (refuse ''environment_unknown'' [])
      else
        (case resolve_app t d arg_app of
           None \<Rightarrow> Inl (app_unknown t arg_app ''application_unknown_or_hidden'')
         | Some a \<Rightarrow>
             if \<not> tool_app_allowed t a then Inl (refuse ''application_not_allowed'' [app_name a])
             else if role_rank (role_for_app t d a) < role_rank ''developer''
             then Inl (refuse ''diagnostic_refused'' [app_name a, role_for_app t d a])
             else Inr (a, e)))"

definition allowed_levels :: "string \<Rightarrow> string list option" where
  "allowed_levels level =
     (if level = ''ERROR'' then Some [''ERROR'', ''FATAL'', ''CRITICAL'']
      else if level = ''WARN'' then Some [''ERROR'', ''FATAL'', ''CRITICAL'', ''WARN''] else None)"

definition upper_char :: "char \<Rightarrow> char" where
  "upper_char c =
     (let n = of_char c :: nat in
      if (97 \<le> n \<and> n \<le> 122) \<or> (224 \<le> n \<and> n \<le> 254 \<and> n \<noteq> 247) then char_of (n - 32) else c)"

definition log_lines :: "string \<Rightarrow> string \<Rightarrow> string \<Rightarrow> log_entry list \<Rightarrow> phrase list" where
  "log_lines e name level entries =
     (let selected = filter (\<lambda>x. case allowed_levels level of None \<Rightarrow> True | Some ls \<Rightarrow> le_level x \<in> set ls) entries;
          header = Say ''logs_of'' (Val e # Val name # count_of entries # tally (map le_level entries))
      in if selected = [] then [header, say ''no_line_of_level'' [level]]
         else header # Say ''last_lines'' [num (int (min (length selected) MAX_LOG_LINES)), Val level]
              # map (\<lambda>x. say ''log_line'' [le_time x, le_level x, take MAX_LOG_LINE_CHARS (le_msg x)]) (take MAX_LOG_LINES selected))"

definition get_app_logs ::
  "'v platform_tools \<Rightarrow> database \<Rightarrow> string option \<Rightarrow> string option \<Rightarrow> string option \<Rightarrow> tool_result" where
  "get_app_logs t d arg_app arg_env arg_level =
     (case diagnosable_app t d arg_app arg_env of
        Inl refused \<Rightarrow> refused
      | Inr (a, e) \<Rightarrow>
          (let level = map upper_char (or_else arg_level ''ERROR'');
               of_cluster = (case target_cluster d a of Some c \<Rightarrow> cl_loki_url c | None \<Rightarrow> None);
               loki_url = (if truthy_str of_cluster then of_cluster else LOKI_URL (tl_env t))
           in if \<not> truthy_str loki_url then refuse ''loki_not_configured'' []
              else
                (case get_logs (tl_env t) (the loki_url) e (app_slug a) of
                   Inl x \<Rightarrow> refuse ''logs_unavailable'' [exc_name (tl_env t) x]
                 | Inr entries \<Rightarrow> (log_lines e (app_name a) level entries, []))))"

definition container_lines :: "container_status \<Rightarrow> phrase list" where
  "container_lines c =
     (Say ''container''
        ([Val (ct_name c), Say (if ct_ready c then ''ready'' else ''not_ready'') [], num (ct_restarts c)]
         @ (if truthy_str (ct_waiting_reason c) then [say ''waiting'' [the (ct_waiting_reason c)]] else [])
         @ (if truthy_str (ct_last_terminated_reason c)
            then [say ''last_stop'' [the (ct_last_terminated_reason c), ct_last_exit_code c, or_else (ct_last_finished_at c) ''?'']]
            else []))
      # [say ''hint'' [r]. x \<leftarrow> [ct_waiting_reason c, ct_last_terminated_reason c],
           r \<leftarrow> (case x of Some r \<Rightarrow> [r] | None \<Rightarrow> []), r \<in> set K8S_HINTS])"

definition pod_lines :: "string \<Rightarrow> string \<Rightarrow> string \<Rightarrow> pod_diagnostics \<Rightarrow> phrase list" where
  "pod_lines e name cluster diag =
     (Say ''pods_of'' [Val e, Val name, Val cluster, num (pd_replicas_ready diag), num (pd_replicas_desired diag)]
      # concat (map (\<lambda>p. say ''pod'' [pod_name p, pod_phase p] # concat (map container_lines (pod_containers p))) (pd_pods diag))
      @ (if pd_pods diag = [] then [Say ''no_pod'' []] else [])
      @ (if pd_warnings diag \<noteq> [] then
           Say ''recent_warnings'' []
           # map (\<lambda>(reason, n, obj, message). Say ''warning'' [Val reason, num n, Val obj, Val message]) (pd_warnings diag)
         else []))"

definition get_pod_status :: "'v platform_tools \<Rightarrow> database \<Rightarrow> string option \<Rightarrow> string option \<Rightarrow> tool_result" where
  "get_pod_status t d arg_app arg_env =
     (case diagnosable_app t d arg_app arg_env of
        Inl refused \<Rightarrow> refused
      | Inr (a, e) \<Rightarrow>
          (case target_cluster d a of
             None \<Rightarrow> refuse ''pods_without_cluster'' [app_name a]
           | Some c \<Rightarrow>
               (case get_pod_diagnostics (tl_env t) c e (sanitize_k8s_name (app_name a)) of
                  Inl x \<Rightarrow> if x = APIError 404 then refuse ''no_deployment'' [app_name a, e]
                           else refuse ''kubernetes_unavailable'' [exc_name (tl_env t) x]
                | Inr None \<Rightarrow> refuse ''kubernetes_not_configured'' [cl_name c]
                | Inr (Some diag) \<Rightarrow> (pod_lines e (app_name a) (cl_name c) diag, []))))"

definition get_ci_failure :: "'v platform_tools \<Rightarrow> database \<Rightarrow> string option \<Rightarrow> tool_result" where
  "get_ci_failure t d arg_app =
     (case diagnosable_app t d arg_app None of
        Inl refused \<Rightarrow> refused
      | Inr (a, _) \<Rightarrow>
          if \<not> truthy_id (app_gitlab_project_id a) then refuse ''no_gitlab_project'' [app_name a]
          else if \<not> HAS_BOT_TOKEN (tl_env t) then refuse ''gitlab_not_configured'' []
          else
            (case get_last_pipeline_failure (tl_env t) (the (app_gitlab_project_id a)) of
               Inl x \<Rightarrow> refuse ''gitlab_unavailable'' [exc_name (tl_env t) x]
             | Inr None \<Rightarrow> refuse ''no_pipeline'' [app_name a]
             | Inr (Some info) \<Rightarrow>
                 (say ''last_pipeline_of'' [app_name a, pi_id info, pi_status info, pi_ref info, pi_sha info, pi_created_at info, pi_web_url info]
                  # (if pi_status info \<noteq> ''failed'' then [Say ''pipeline_did_not_fail'' []]
                     else concat (map (\<lambda>j.
                       [Say ''failed_job'' [Val (fj_name j), Val (fj_stage j),
                          (if truthy_str (fj_failure_reason j) then say ''reason'' [the (fj_failure_reason j)] else Val [])],
                        say ''job_link'' [fj_web_url j], Say ''end_of_log'' [],
                        (if fj_log_tail j = [] then Say ''empty_log'' [] else Val (fj_log_tail j))]) (pi_failed_jobs info))), [])))"

section \<open>Dispatch\<close>

definition run_handler ::
  "'v platform_tools \<Rightarrow> ('v, 'z) services_scheme \<Rightarrow> string \<Rightarrow> (string \<Rightarrow> string option) \<Rightarrow> tool_result" where
  "run_handler t w name arg =
     (let d = db (sess w) in
      if name = ''list_my_groups'' then list_my_groups t d
      else if name = ''list_apps'' then list_apps t d (arg ''group'')
      else if name = ''get_app_details'' then get_app_details t d (arg ''app'')
      else if name = ''get_metrics'' then get_metrics t d (arg ''group'') (arg ''app'')
      else if name = ''get_costs'' then get_costs t d (arg ''group'')
      else if name = ''list_group_members'' then list_group_members t d (arg ''group'')
      else if name = ''get_recent_activity'' then get_recent_activity t d (arg ''group'') (arg ''app'')
      else if name = ''search_platform_docs'' then search_platform_docs t d (arg ''query'')
      else if name = ''list_env_var_keys'' then list_env_var_keys t w (arg ''app'') (arg ''env'')
      else if name = ''get_app_logs'' then get_app_logs t d (arg ''app'') (arg ''env'') (arg ''level'')
      else if name = ''get_pod_status'' then get_pod_status t d (arg ''app'') (arg ''env'')
      else if name = ''get_ci_failure'' then get_ci_failure t d (arg ''app'')
      else get_platform_health t d)"

text \<open>
  The arguments that reach the handler: those it declares, whose value is not empty, as text. The raw
  arguments are the JSON text that the model wrote.
\<close>

definition parse_args :: "'v tool_env \<Rightarrow> string option \<Rightarrow> (string \<times> json) list" where
  "parse_args env raw =
     (if truthy_str raw then
        (case json_loads env (the raw) of Inr (JObj kvs) \<Rightarrow> kvs | _ \<Rightarrow> [])
      else [])"

definition clean_args :: "'v tool_env \<Rightarrow> string \<Rightarrow> string option \<Rightarrow> string \<Rightarrow> string option" where
  "clean_args env name raw k =
     (case map_of TOOL_DEFINITIONS name of
        None \<Rightarrow> None
      | Some accepted \<Rightarrow>
          if k \<notin> set accepted then None
          else (case map_of (parse_args env raw) k of
                  Some v \<Rightarrow> if truthy v then Some (str_json env v) else None
                | None \<Rightarrow> None))"

definition call ::
  "'v platform_tools \<Rightarrow> ('v, 'z) services_scheme \<Rightarrow> string \<Rightarrow> string option \<Rightarrow> string \<times> tool_citation list" where
  "call t w name raw =
     (let say_text = (\<lambda>p. render (wording (tl_env t)) p) in
      if name \<notin> fst ` set TOOL_DEFINITIONS then (say_text (say ''tool_unknown'' [name]), [])
      else if role_rank (max_role t (db (sess w))) < role_rank (tool_min_role name)
      then (say_text (say ''tool_not_for_profile'' [name, tool_min_role name]), [])
      else
        (case run_handler t w name (clean_args (tl_env t) name raw) of
           (lines, citations) \<Rightarrow>
             let text = fst (redact (render_lines (wording (tl_env t)) lines));
                 limit = (if name = ''search_platform_docs'' then MAX_DOC_RESULT_CHARS else MAX_RESULT_CHARS)
             in (if length text > limit then take limit text @ NEWLINE @ wording (tl_env t) ''truncated'' [] else text, citations)))"

end
