(* ===== verification/Tools_Security.thy ===== *)
theory Tools_Security
  imports Assistant_Tools
begin

text \<open>
  What the tools of the assistant guarantee: the role they reckon with against the tier of the API, what
  of the database their answers depend on, and the text that reaches the model.
\<close>

section \<open>Roles and tiers\<close>

lemma tier_name_tier: "tier_name l = tier_value (access_level_to_tier l)"
  by (simp add: tier_name_def TIER_BY_LEVEL_def access_level_to_tier_def)

lemma role_rank_tier: "role_rank (tier_value t) = index_of TIER_ORDER t"
  by (cases t) (simp_all add: role_rank_def ROLE_ORDER_def TIER_ORDER_def)

lemma tier_le_viewer: "(m :: cnp_tier) \<le> VIEWER \<longleftrightarrow> m = VIEWER"
  by (cases m) (simp_all add: less_eq_cnp_tier_def TIER_ORDER_def)

text \<open>The best level per project: a level at least the given one, as far as tiers tell.\<close>

lemma best_level:
  "(\<forall>m :: cnp_tier. m \<le> access_level_to_tier (max a (case prev of Some l \<Rightarrow> l | None \<Rightarrow> 0)) \<longleftrightarrow>
      m = VIEWER \<or> m \<le> access_level_to_tier a \<or> (\<exists>l. prev = Some l \<and> m \<le> access_level_to_tier l))"
proof -
  have "access_level_to_tier 0 = VIEWER" by (simp add: access_level_to_tier_def)
  then show ?thesis by (cases prev) (auto simp: tier_max le_max_iff_disj tier_le_viewer)
qed

definition fold_levels :: "app_member list \<Rightarrow> (int \<times> int) list \<Rightarrow> (int \<times> int) list" where
  "fold_levels ms levels0 =
     fold (\<lambda>m levels. dict_set (am_project_id m)
             (max (am_access_level m) (case map_of levels (am_project_id m) of Some l \<Rightarrow> l | None \<Rightarrow> 0)) levels) ms levels0"

lemma fold_levels_None:
  "map_of (fold_levels ms acc) p = None \<longleftrightarrow> map_of acc p = None \<and> (\<forall>m \<in> set ms. am_project_id m \<noteq> p)"
  unfolding fold_levels_def by (induction ms arbitrary: acc) auto

lemma fold_levels_Some:
  "map_of (fold_levels ms acc) p = Some l \<Longrightarrow>
     k \<le> access_level_to_tier l \<longleftrightarrow>
       k = VIEWER \<or> (\<exists>l0. map_of acc p = Some l0 \<and> k \<le> access_level_to_tier l0)
       \<or> (\<exists>m \<in> set ms. am_project_id m = p \<and> k \<le> access_level_to_tier (am_access_level m))"
proof (induction ms arbitrary: acc)
  case Nil
  then show ?case by (auto simp: fold_levels_def)
next
  case (Cons m ms)
  let ?acc = "dict_set (am_project_id m)
             (max (am_access_level m) (case map_of acc (am_project_id m) of Some l \<Rightarrow> l | None \<Rightarrow> 0)) acc"
  have "map_of (fold_levels ms ?acc) p = Some l" using Cons.prems by (simp add: fold_levels_def)
  from Cons.IH[OF this] show ?case
    using best_level[of "am_access_level m" "map_of acc (am_project_id m)"] by (auto split: if_splits)
qed

lemma user_project_levels_fold: "user_project_levels t d = fold_levels (own_projects (tl_user t) d) []"
  by (simp add: user_project_levels_def fold_levels_def)

lemma join_levels_iff:
  "(g', level) \<in> set (join_levels u d g) \<longleftrightarrow>
     g' = g \<and> (if \<exists>m \<in> set (rows (group_members d)). own_level u g m
               then \<exists>m \<in> set (rows (group_members d)). own_level u g m \<and> level = Some (gm_access_level m)
               else level = None)"
proof (cases "select_rows (own_level u g) (group_members d)")
  case Nil
  then have "\<not> (\<exists>m \<in> set (rows (group_members d)). own_level u g m)" by (simp add: select_rows_def filter_empty_conv)
  then show ?thesis using Nil by (auto simp: join_levels_def)
next
  case (Cons m ms)
  then have "{m \<in> set (rows (group_members d)). own_level u g m} = set (m # ms)" by (metis select_rows_def set_filter)
  then show ?thesis using Cons by (auto simp: join_levels_def)
qed

lemma visible_group_levels:
  assumes "\<not> is_admin (tl_user t)"
  shows "(g, level) \<in> set (visible_groups t d) \<longleftrightarrow>
     g \<in> set (rows (gitlab_groups d)) \<and> grp_name g \<notin> set SYSTEM_GROUP_NAMES
     \<and> (\<exists>m \<in> set (rows (group_members d)). own_level (tl_user t) g m \<and> level = Some (gm_access_level m))"
  using assms by (auto simp: visible_groups_def table_simps join_levels_iff split: if_splits)

lemma role_level_tiers:
  assumes "\<not> is_admin (tl_user t)"
  shows "(\<exists>l \<in> set (role_levels t d a). m \<le> access_level_to_tier l) \<or> m = VIEWER \<longleftrightarrow>
     m = VIEWER
     \<or> (\<exists>l \<in> set (project_levels (usr_id (tl_user t)) a d). m \<le> access_level_to_tier l)
     \<or> (\<exists>g \<in> set (rows (gitlab_groups d)). grp_name g \<notin> set SYSTEM_GROUP_NAMES \<and> Some (grp_id g) = app_owning_gitlab_group_id a
          \<and> (\<exists>x \<in> set (rows (group_members d)). own_level (tl_user t) g x \<and> m \<le> access_level_to_tier (gm_access_level x)))"
proof -
  have "(\<exists>l \<in> set (List.map_filter (\<lambda>(g, level). if Some (grp_id g) = app_owning_gitlab_group_id a then level else None) (visible_groups t d)).
        m \<le> access_level_to_tier l)
      \<longleftrightarrow> (\<exists>g \<in> set (rows (gitlab_groups d)). grp_name g \<notin> set SYSTEM_GROUP_NAMES \<and> Some (grp_id g) = app_owning_gitlab_group_id a
          \<and> (\<exists>x \<in> set (rows (group_members d)). own_level (tl_user t) g x \<and> m \<le> access_level_to_tier (gm_access_level x)))"
    by (force simp: List.map_filter_def visible_group_levels[OF assms])
  moreover have "(\<exists>l \<in> set (if truthy_id (app_gitlab_project_id a) then
        (case map_of (user_project_levels t d) (the (app_gitlab_project_id a)) of Some l \<Rightarrow> [l] | None \<Rightarrow> []) else []).
        m \<le> access_level_to_tier l) \<or> m = VIEWER
      \<longleftrightarrow> m = VIEWER \<or> (\<exists>l \<in> set (project_levels (usr_id (tl_user t)) a d). m \<le> access_level_to_tier l)"
  proof (cases "truthy_id (app_gitlab_project_id a)")
    case True
    then obtain p where p: "app_gitlab_project_id a = Some p" by (auto simp: truthy_id_def)
    have levels: "set (project_levels (usr_id (tl_user t)) a d)
        = {am_access_level x | x. x \<in> set (own_projects (tl_user t) d) \<and> am_project_id x = p}"
      using True by (auto simp: project_levels_def p own_projects_def table_simps)
    show ?thesis
    proof (cases "map_of (user_project_levels t d) p")
      case None
      then have "\<forall>x \<in> set (own_projects (tl_user t) d). am_project_id x \<noteq> p"
        by (simp add: user_project_levels_fold fold_levels_None)
      then have none: "l \<notin> set (project_levels (usr_id (tl_user t)) a d)" for l unfolding levels by blast
      show ?thesis unfolding if_P[OF True] p option.sel None option.case using none by auto
    next
      case (Some l)
      note best = fold_levels_Some[OF Some[unfolded user_project_levels_fold], of m]
      have "(\<exists>l' \<in> set (project_levels (usr_id (tl_user t)) a d). m \<le> access_level_to_tier l')
        \<longleftrightarrow> (\<exists>x \<in> set (own_projects (tl_user t) d). am_project_id x = p \<and> m \<le> access_level_to_tier (am_access_level x))"
        unfolding levels by blast
      then show ?thesis unfolding if_P[OF True] p option.sel Some option.case using best True[unfolded p] by simp blast
    qed
  qed (simp add: project_levels_def)
  ultimately show ?thesis unfolding role_levels_def set_append by blast
qed

definition role_tier :: "'v platform_tools \<Rightarrow> database \<Rightarrow> application \<Rightarrow> cnp_tier" where
  "role_tier t d a = (if role_levels t d a \<noteq> [] then access_level_to_tier (Max (set (role_levels t d a))) else VIEWER)"

lemma role_for_app_tier: "\<not> is_admin (tl_user t) \<Longrightarrow> role_for_app t d a = tier_value (role_tier t d a)"
  by (simp add: role_for_app_def role_tier_def tier_name_tier)

lemma role_tier_iff:
  "m \<le> role_tier t d a \<longleftrightarrow> (\<exists>l \<in> set (role_levels t d a). m \<le> access_level_to_tier l) \<or> m = VIEWER"
  using tier_of_Max[of "role_levels t d a" m] by (auto simp: role_tier_def tier_le_viewer)

lemma effective_tier_iff:
  assumes "get_application aid d = Some a"
  shows "m \<le> get_effective_tier uid aid d \<longleftrightarrow>
    (\<exists>l \<in> set (project_levels uid a d). m \<le> access_level_to_tier l)
    \<or> (\<exists>l \<in> set (group_levels uid a d). m \<le> access_level_to_tier l) \<or> m = VIEWER"
  using tier_of_Max[of "access_levels uid a d" m] assms
  by (auto simp: get_effective_tier_def Let_def access_levels_def tier_le_viewer)

lemma group_levels_iff:
  "l \<in> set (group_levels uid a d) \<longleftrightarrow> truthy_id (app_owning_gitlab_group_id a)
     \<and> (\<exists>x \<in> set (rows (group_members d)). Some (gm_group_id x) = app_owning_gitlab_group_id a
          \<and> gm_cnp_user_id x = Some uid \<and> gm_status x = ACTIVE \<and> gm_access_level x = l)"
  by (auto simp: group_levels_def table_simps)

lemma own_group_level:
  assumes "\<forall>g \<in> set (rows (gitlab_groups d)). grp_id g \<noteq> 0" and "g \<in> set (rows (gitlab_groups d))"
    and "Some (grp_id g) = app_owning_gitlab_group_id a" and "x \<in> set (rows (group_members d))" and "own_level u g x"
  shows "gm_access_level x \<in> set (group_levels (usr_id u) a d)"
proof -
  have "truthy_id (app_owning_gitlab_group_id a)"
    unfolding truthy_id_def using assms(1-3) by (metis option.distinct(1) option.inject)
  then show ?thesis unfolding group_levels_iff using assms(3-5) by (metis own_level_def)
qed

lemma level_of_a_visible_group:
  assumes "app_owning_gitlab_group_id a = None
      \<or> (\<exists>g \<in> set (rows (gitlab_groups d)). Some (grp_id g) = app_owning_gitlab_group_id a \<and> grp_name g \<notin> set SYSTEM_GROUP_NAMES)"
    and "l \<in> set (group_levels (usr_id u) a d)"
  shows "\<exists>g \<in> set (rows (gitlab_groups d)). grp_name g \<notin> set SYSTEM_GROUP_NAMES \<and> Some (grp_id g) = app_owning_gitlab_group_id a
      \<and> (\<exists>x \<in> set (rows (group_members d)). own_level u g x \<and> gm_access_level x = l)"
proof -
  obtain x where x: "truthy_id (app_owning_gitlab_group_id a)" "x \<in> set (rows (group_members d))"
    "Some (gm_group_id x) = app_owning_gitlab_group_id a" "gm_cnp_user_id x = Some (usr_id u)" "gm_status x = ACTIVE"
    "gm_access_level x = l" using assms(2) unfolding group_levels_iff by metis
  with assms(1) obtain g where g: "g \<in> set (rows (gitlab_groups d))" "Some (grp_id g) = app_owning_gitlab_group_id a"
    "grp_name g \<notin> set SYSTEM_GROUP_NAMES" by (auto simp: truthy_id_def)
  then have "own_level u g x" using x by (metis own_level_def option.inject)
  with x g show ?thesis by blast
qed

text \<open>
  C38: On any application the role that the assistant's tools reckon with never exceeds the tier that the
  API grants the user; it is that tier, unless the application belongs to a group that the platform hides
  or does not know.
\<close>

theorem assistant_role_is_the_api_tier:
  assumes "\<not> is_admin (tl_user t)" and "get_application aid d = Some a"
    and "\<forall>g \<in> set (rows (gitlab_groups d)). grp_id g \<noteq> 0"
  shows "role_rank (role_for_app t d a) \<le> index_of TIER_ORDER (get_effective_tier (usr_id (tl_user t)) aid d)
    \<and> ((app_owning_gitlab_group_id a = None
         \<or> (\<exists>g \<in> set (rows (gitlab_groups d)). Some (grp_id g) = app_owning_gitlab_group_id a \<and> grp_name g \<notin> set SYSTEM_GROUP_NAMES))
       \<longrightarrow> role_for_app t d a = tier_value (get_effective_tier (usr_id (tl_user t)) aid d))"
proof -
  let ?e = "get_effective_tier (usr_id (tl_user t)) aid d" and ?r = "role_tier t d a"
  let ?vis = "\<lambda>g. g \<in> set (rows (gitlab_groups d)) \<and> grp_name g \<notin> set SYSTEM_GROUP_NAMES \<and> Some (grp_id g) = app_owning_gitlab_group_id a"
  have role: "m \<le> ?r \<longleftrightarrow> m = VIEWER \<or> (\<exists>l \<in> set (project_levels (usr_id (tl_user t)) a d). m \<le> access_level_to_tier l)
      \<or> (\<exists>g x. ?vis g \<and> x \<in> set (rows (group_members d)) \<and> own_level (tl_user t) g x \<and> m \<le> access_level_to_tier (gm_access_level x))" for m
    unfolding role_tier_iff role_level_tiers[OF assms(1)] by blast
  note tier = effective_tier_iff[OF assms(2), of _ "usr_id (tl_user t)"]
  have le: "?r \<le> ?e" using role[of ?r] tier[of ?r] own_group_level[OF assms(3)] by blast
  have ge: "?e \<le> ?r" if "app_owning_gitlab_group_id a = None
      \<or> (\<exists>g \<in> set (rows (gitlab_groups d)). Some (grp_id g) = app_owning_gitlab_group_id a \<and> grp_name g \<notin> set SYSTEM_GROUP_NAMES)"
    using role[of ?e] tier[of ?e] level_of_a_visible_group[OF that, of _ "tl_user t"] by blast
  note role_eq = role_for_app_tier[OF assms(1), of d a]
  show ?thesis
  proof (intro conjI impI)
    show "role_rank (role_for_app t d a) \<le> index_of TIER_ORDER ?e"
      using le unfolding role_eq role_rank_tier less_eq_cnp_tier_def .
  next
    assume "app_owning_gitlab_group_id a = None
      \<or> (\<exists>g \<in> set (rows (gitlab_groups d)). Some (grp_id g) = app_owning_gitlab_group_id a \<and> grp_name g \<notin> set SYSTEM_GROUP_NAMES)"
    from order.antisym[OF le ge[OF this]] show "role_for_app t d a = tier_value ?e" using role_eq by simp
  qed
qed

section \<open>A user with her group\<close>

definition demo_tool_env :: "(string \<times> dict) list tool_env" where
  "demo_tool_env =
     \<lparr>tl_hvac = ref_kv, wording = (\<lambda>sentence vs. py_join '' '' (sentence # vs)), tl_settings = demo_ai_env,
      fmt_dt = (\<lambda>_. ''-''), fmt_cost = string_of_int, fmt_spent = string_of_int, fmt_budget = string_of_int,
      str_json = (\<lambda>v. case v of JStr s \<Rightarrow> s | _ \<Rightarrow> ''?''), json_loads = (\<lambda>s. Inr (JObj [(''app'', JStr s)])),
      exc_name = (\<lambda>_. ''Error''), exc_text = (\<lambda>_. ''error''), LOKI_URL = None, HAS_BOT_TOKEN = True,
      AI_PLATFORM_KB_TOP_K = 6, get_metrics_series = Inr [], get_cost_by_group = (\<lambda>_. Inr []),
      get_logs = (\<lambda>_ _ _. Inr []), get_pod_diagnostics = (\<lambda>_ _ _. Inr None),
      get_last_pipeline_failure = (\<lambda>_. Inr None), argocd_client = (\<lambda>_. Inl (HTTPException 503))\<rparr>"

definition demo_tools :: "(string \<times> dict) list platform_tools" where
  "demo_tools =
     \<lparr>tl_env = demo_tool_env, tl_user = alice, tl_cfg = None,
      tl_page = \<lparr>pg_path = None, pg_group_slug = None, pg_app_slug = None\<rparr>, tl_now = 0\<rparr>"

definition team_app :: application where
  "team_app = (blank_application 1 ''Shop'' ''shop'' ''alice'')\<lparr>app_owning_gitlab_group_id := Some 5\<rparr>"

definition team_apps_db :: database where
  "team_apps_db = team_db\<lparr>applications := \<lparr>rows = [team_app], seq = 2\<rparr>\<rparr>"

lemma assistant_role_is_the_api_tier_witness:
  "role_for_app demo_tools team_apps_db team_app = ''developer''
   \<and> role_for_app demo_tools team_apps_db team_app = tier_value (get_effective_tier 7 1 team_apps_db)"
proof -
  have "\<not> is_admin (tl_user demo_tools)" by (simp add: demo_tools_def alice_def is_admin_def)
  moreover have "get_application 1 team_apps_db = Some team_app"
    by (simp add: team_apps_db_def team_app_def get_application_def find_row_def blank_application_def)
  moreover have "\<forall>g \<in> set (rows (gitlab_groups team_apps_db)). grp_id g \<noteq> 0"
    by (simp add: team_apps_db_def team_db_def)
  ultimately have "role_for_app demo_tools team_apps_db team_app = tier_value (get_effective_tier (usr_id (tl_user demo_tools)) 1 team_apps_db)"
    using assistant_role_is_the_api_tier[of demo_tools 1 team_apps_db team_app]
    by (simp add: team_apps_db_def team_db_def team_app_def SYSTEM_GROUP_NAMES_def)
  moreover have "role_for_app demo_tools team_apps_db team_app = ''developer''" by code_simp
  ultimately show ?thesis by (simp add: demo_tools_def alice_def)
qed

section \<open>What reaches the model\<close>

definition result_limit :: "string \<Rightarrow> nat" where
  "result_limit name = (if name = ''search_platform_docs'' then MAX_DOC_RESULT_CHARS else MAX_RESULT_CHARS)"

definition admitted :: "'v platform_tools \<Rightarrow> ('v, 'z) services_scheme \<Rightarrow> string \<Rightarrow> bool" where
  "admitted t w name \<longleftrightarrow> name \<in> fst ` set TOOL_DEFINITIONS
     \<and> role_rank (tool_min_role name) \<le> role_rank (max_role t (db (sess w)))"

lemma call_admitted:
  assumes "admitted t w name"
  obtains lines citations where "run_handler t w name (clean_args (tl_env t) name raw) = (lines, citations)"
    and "call t w name raw =
      (let text = fst (redact (render_lines (wording (tl_env t)) lines))
       in (if length text > result_limit name then take (result_limit name) text @ NEWLINE @ wording (tl_env t) ''truncated'' [] else text,
           citations))"
proof -
  obtain lines citations where run: "run_handler t w name (clean_args (tl_env t) name raw) = (lines, citations)" by fastforce
  have low: "\<not> role_rank (max_role t (db (sess w))) < role_rank (tool_min_role name)" and known: "\<not> name \<notin> fst ` set TOOL_DEFINITIONS"
    using assms by (auto simp: admitted_def)
  show thesis
    by (rule that[OF run]) (unfold call_def Let_def if_not_P[OF known] if_not_P[OF low] run prod.case result_limit_def, rule refl)
qed

text \<open>
  C39: Whatever a tool reads, logs and events included, its answer to an admitted call holds no GitLab
  token and no JSON web token, and is never longer than the limit of the tool and the notice that says it
  was cut.
\<close>

theorem tool_answers_are_redacted_and_bounded:
  assumes "admitted t w name" and "tokenless (wording (tl_env t) ''truncated'' [])"
  shows "tokenless (fst (call t w name raw))
    \<and> length (fst (call t w name raw)) \<le> result_limit name + 1 + length (wording (tl_env t) ''truncated'' [])"
proof -
  obtain lines citations where out: "call t w name raw =
      (let text = fst (redact (render_lines (wording (tl_env t)) lines))
       in (if length text > result_limit name then take (result_limit name) text @ NEWLINE @ wording (tl_env t) ''truncated'' [] else text,
           citations))" using call_admitted[OF assms(1), of raw thesis] by blast
  let ?text = "fst (redact (render_lines (wording (tl_env t)) lines))"
  have "tokenless (take (result_limit name) ?text @ NEWLINE @ wording (tl_env t) ''truncated'' [])"
    using tokenless_line[OF tokenless_take[OF tokenless_redact] assms(2)] by (simp add: NEWLINE_def)
  then show ?thesis using tokenless_redact[of "render_lines (wording (tl_env t)) lines"]
    by (auto simp: out Let_def NEWLINE_def)
qed

definition tools_world :: "(string \<times> dict) list services" where
  "tools_world = \<lparr>sess = open_session team_apps_db, vault = []\<rparr>"

lemma tool_answers_are_redacted_and_bounded_witness:
  "admitted demo_tools tools_world ''list_apps'' \<and> tokenless (fst (call demo_tools tools_world ''list_apps'' None))
   \<and> length (fst (call demo_tools tools_world ''list_apps'' None)) \<le> 6010"
proof -
  have a: "admitted demo_tools tools_world ''list_apps''" by code_simp
  have n: "wording (tl_env demo_tools) ''truncated'' [] = ''truncated''" by code_simp
  have "tokenless ''truncated''" by (rule tokenlessI) code_simp
  with n have "tokenless (wording (tl_env demo_tools) ''truncated'' [])" by simp
  from tool_answers_are_redacted_and_bounded[OF a this, of None] a n show ?thesis
    by (simp add: result_limit_def MAX_RESULT_CHARS_def)
qed

end
