(* ===== verification/Providers.thy ===== *)
theory Providers
  imports Knowledge Ai_Settings
begin

text \<open>
  backend/ai/provider.py: the messages and answers of a language model, the mock provider, the provider
  of OpenAI-compatible endpoints with its retries, and the router. The HTTP client is a parameter: it
  answers, refuses with a status, or cannot be reached. Properties: a completion ends after a bounded
  number of requests and a bounded wait, and retries only what may pass.
\<close>

section \<open>Messages and answers\<close>

record llm_message =
  lm_role :: string
  lm_content :: "string option"
  lm_tool_calls :: "json list"
  lm_tool_call_id :: "string option"

definition message :: "string \<Rightarrow> string \<Rightarrow> llm_message" where
  "message role content = \<lparr>lm_role = role, lm_content = Some content, lm_tool_calls = [], lm_tool_call_id = None\<rparr>"

definition to_openai :: "llm_message \<Rightarrow> json" where
  "to_openai m =
     JObj ([(''role'', JStr (lm_role m)), (''content'', case lm_content m of Some c \<Rightarrow> JStr c | None \<Rightarrow> JNull)]
       @ (if lm_tool_calls m \<noteq> [] then [(''tool_calls'', JArr (lm_tool_calls m))] else [])
       @ (if truthy_str (lm_tool_call_id m) then [(''tool_call_id'', JStr (the (lm_tool_call_id m)))] else []))"

record llm_response =
  lr_content :: string
  lr_model :: string
  lr_input_tokens :: int
  lr_output_tokens :: int
  lr_tool_calls :: "json list"

section \<open>Numbers that the provider writes as text\<close>

text \<open>
  \<open>float(s)\<close>, over exact rationals: a literal too large for a float is only compared with 20, as
  infinity would be. \<open>None\<close> where Python raises \<open>ValueError\<close>.
\<close>

datatype py_float = Finite rat | Infinite | Neg_infinite | Not_a_number

fun digit_run :: "bool \<Rightarrow> string \<Rightarrow> string \<times> string" where
  "digit_run after_digit [] = ([], [])"
| "digit_run after_digit (c # cs) =
     (if is_09 c then (case digit_run True cs of (ds, r) \<Rightarrow> (c # ds, r))
      else if c = CHR ''_'' \<and> after_digit \<and> cs \<noteq> [] \<and> is_09 (hd cs) then digit_run False cs
      else ([], c # cs))"

definition digits_value :: "string \<Rightarrow> nat" where
  "digits_value ds = foldl (\<lambda>n c. 10 * n + digit_val c) 0 ds"

definition signed :: "string \<Rightarrow> bool \<times> string" where
  "signed s = (case s of c # cs \<Rightarrow> if c = CHR ''-'' then (True, cs) else if c = CHR ''+'' then (False, cs) else (False, s) | [] \<Rightarrow> (False, s))"

definition exponent :: "string \<Rightarrow> int option" where
  "exponent s =
     (case s of
        [] \<Rightarrow> Some 0
      | c # cs \<Rightarrow>
          if c \<notin> set ''eE'' then None
          else (case signed cs of (neg, ds) \<Rightarrow>
                  (case digit_run False ds of (es, r) \<Rightarrow>
                     if es = [] \<or> r \<noteq> [] then None
                     else Some (if neg then - int (digits_value es) else int (digits_value es)))))"

definition decimal :: "string \<Rightarrow> rat option" where
  "decimal s =
     (case digit_run False s of (whole, r) \<Rightarrow>
        (case (case r of c # cs \<Rightarrow> if c = CHR ''.'' then digit_run False cs else ([], r) | [] \<Rightarrow> ([], r)) of (decimals, r2) \<Rightarrow>
           if whole = [] \<and> decimals = [] then None
           else map_option (\<lambda>e. of_nat (digits_value (whole @ decimals)) / 10 ^ length decimals
                  * (if e \<ge> 0 then 10 ^ nat e else 1 / 10 ^ nat (- e))) (exponent r2)))"

definition float_of :: "string \<Rightarrow> py_float option" where
  "float_of s =
     (case signed (strip py_isspace s) of (neg, body) \<Rightarrow>
        if py_lower body \<in> {''inf'', ''infinity''} then Some (if neg then Neg_infinite else Infinite)
        else if py_lower body = ''nan'' then Some Not_a_number
        else map_option (\<lambda>q. Finite (if neg then - q else q)) (decimal body))"

fun exceeds :: "py_float \<Rightarrow> rat \<Rightarrow> bool" where
  "exceeds (Finite q) bound = (q > bound)"
| "exceeds Infinite bound = True"
| "exceeds Neg_infinite bound = False"
| "exceeds Not_a_number bound = False"

fun add_seconds :: "py_float \<Rightarrow> rat \<Rightarrow> py_float" where
  "add_seconds (Finite q) s = Finite (q + s)"
| "add_seconds x s = x"

section \<open>How long to wait before another attempt\<close>

text \<open>
  What a request comes to: an answer with its decoded body (none when it is not JSON), a refusal with its
  status, \<open>Retry-After\<close> header and decoded body, or no connection.
\<close>

datatype http_answer =
    Answered "json option"
  | Refused nat "string option" "json option"
  | Unreachable

text \<open>The values that \<open>for x in v or []\<close> goes through.\<close>

fun iterated :: "json \<Rightarrow> exc + json list" where
  "iterated (JArr xs) = Inr xs"
| "iterated (JObj kvs) = Inr (map (\<lambda>kv. JStr (fst kv)) kvs)"
| "iterated (JStr s) = Inr (map (\<lambda>c. JStr [c]) s)"
| "iterated v = (if truthy v then Inl TypeError else Inr [])"

fun is_dict :: "json \<Rightarrow> bool" where
  "is_dict (JObj _) = True"
| "is_dict _ = False"

definition daily_quota :: "(json \<Rightarrow> string) \<Rightarrow> json \<Rightarrow> exc + bool" where
  "daily_quota str violation =
     bnd_result (jget ''quotaId'' violation) (\<lambda>q. Inr (case violation of
        JObj kvs \<Rightarrow> (case map_of kvs ''quotaId'' of None \<Rightarrow> False | Some _ \<Rightarrow> sublist ''PerDay'' (str q))
      | _ \<Rightarrow> False))"

fun any_result :: "('a \<Rightarrow> exc + bool) \<Rightarrow> 'a list \<Rightarrow> exc + bool" where
  "any_result f [] = Inr False"
| "any_result f (x # xs) = bnd_result (f x) (\<lambda>b. if b then Inr True else any_result f xs)"

definition names_daily_quota :: "(json \<Rightarrow> string) \<Rightarrow> json \<Rightarrow> exc + bool" where
  "names_daily_quota str detail =
     (if is_dict detail
      then bnd_result (jget ''violations'' detail) (\<lambda>vs. bnd_result (iterated vs) (any_result (daily_quota str)))
      else Inr False)"

definition retry_delay_of :: "json \<Rightarrow> py_float option" where
  "retry_delay_of detail =
     (case detail of
        JObj kvs \<Rightarrow>
          (case map_of kvs ''retryDelay'' of
             Some (JStr raw) \<Rightarrow> if suffix ''s'' raw then float_of (butlast raw) else None
           | _ \<Rightarrow> None)
      | _ \<Rightarrow> None)"

definition hinted_by_details :: "(json \<Rightarrow> string) \<Rightarrow> json \<Rightarrow> exc + py_float option" where
  "hinted_by_details str details =
     bnd_result (iterated details) (\<lambda>ds.
       bnd_result (any_result (names_daily_quota str) ds) (\<lambda>daily.
         if daily then Inr (Some Infinite)
         else Inr (case List.map_filter retry_delay_of ds of [] \<Rightarrow> None | d # _ \<Rightarrow> Some d)))"

definition hinted_by_body :: "(json \<Rightarrow> string) \<Rightarrow> json \<Rightarrow> exc + py_float option" where
  "hinted_by_body str body0 =
     (let body = (case body0 of JArr (x # _) \<Rightarrow> x | _ \<Rightarrow> body0) in
      if \<not> is_dict body then Inr None
      else
        bnd_result (jget ''error'' body) (\<lambda>err.
          bnd_result (jget ''details'' (if truthy err then err else JObj [])) (hinted_by_details str)))"

definition hinted_retry_delay :: "(json \<Rightarrow> string) \<Rightarrow> string option \<Rightarrow> json option \<Rightarrow> exc + py_float option" where
  "hinted_retry_delay str header body =
     (case (if truthy_str header then float_of (the header) else None) of
        Some d \<Rightarrow> Inr (Some d)
      | None \<Rightarrow> (case body of None \<Rightarrow> Inr None | Some j \<Rightarrow> hinted_by_body str j))"

definition MAX_RETRY_DELAY :: rat where
  "MAX_RETRY_DELAY = 20"

definition RETRY_STATUSES :: "nat list" where
  "RETRY_STATUSES = [429, 500, 502, 503, 529]"

record 'w http_client =
  http_post :: "json \<Rightarrow> 'w \<Rightarrow> http_answer \<times> 'w"
  http_sleep :: "py_float \<Rightarrow> 'w \<Rightarrow> 'w"
  json_str :: "json \<Rightarrow> string"
  max_retries :: nat
  retry_backoff :: rat

text \<open>\<open>_retry_delay\<close>: \<open>None\<close> to give up now.\<close>

definition retry_delay :: "'w http_client \<Rightarrow> http_answer \<Rightarrow> nat \<Rightarrow> exc + py_float option" where
  "retry_delay c answer attempt =
     (let otherwise = Finite (retry_backoff c * 2 ^ attempt) in
      case answer of
        Refused status header body \<Rightarrow>
          if status \<noteq> 429 then Inr (Some otherwise)
          else bnd_result (hinted_retry_delay (json_str c) header body) (\<lambda>hinted.
                 case hinted of
                   None \<Rightarrow> Inr (Some otherwise)
                 | Some d \<Rightarrow> if exceeds d MAX_RETRY_DELAY then Inr None else Inr (Some (add_seconds d (1 / 2))))
      | _ \<Rightarrow> Inr (Some otherwise))"

fun retryable :: "http_answer \<Rightarrow> bool" where
  "retryable (Answered _) = False"
| "retryable (Refused status _ _) = (status \<in> set RETRY_STATUSES)"
| "retryable Unreachable = True"

fun raised :: "http_answer \<Rightarrow> exc" where
  "raised (Refused status _ _) = HTTPStatusError status"
| "raised Unreachable = TransportError"
| "raised (Answered _) = ValueError"

section \<open>A completion\<close>

text \<open>The attempts of a request: \<open>remaining\<close> of them, the next one numbered \<open>attempt\<close> from 0.\<close>

fun attempts :: "'w http_client \<Rightarrow> json \<Rightarrow> nat \<Rightarrow> nat \<Rightarrow> ('w, json) prog" where
  "attempts c payload attempt 0 w = (Inl TypeError, w)"
| "attempts c payload attempt (Suc remaining) w =
     (case http_post c payload w of
        (Answered (Some data), w1) \<Rightarrow> (Inr data, w1)
      | (answer, w1) \<Rightarrow>
          if retryable answer \<and> attempt < max_retries c then
            (case retry_delay c answer attempt of
               Inl e \<Rightarrow> (Inl e, w1)
             | Inr (Some delay) \<Rightarrow> attempts c payload (Suc attempt) remaining (http_sleep c delay w1)
             | Inr None \<Rightarrow> (Inl (raised answer), w1))
          else (Inl (raised answer), w1))"

definition completion_payload :: "llm_message list \<Rightarrow> string \<Rightarrow> int \<Rightarrow> json \<Rightarrow> json list \<Rightarrow> json" where
  "completion_payload messages model max_tokens temperature tools =
     JObj ([(''model'', JStr model), (''messages'', JArr (map to_openai messages)), (''max_tokens'', JNum max_tokens),
            (''temperature'', temperature), (''stream'', JBool False)]
       @ (if tools \<noteq> [] then [(''tools'', JArr tools), (''tool_choice'', JStr ''auto'')] else []))"

fun first_item :: "json \<Rightarrow> exc + json" where
  "first_item (JArr (x # _)) = Inr x"
| "first_item (JArr []) = Inl IndexError"
| "first_item (JStr (c # _)) = Inr (JStr [c])"
| "first_item (JStr []) = Inl IndexError"
| "first_item (JObj _) = Inl KeyError"
| "first_item _ = Inl TypeError"

text \<open>\<open>d.get(k, default)\<close>.\<close>

definition jget_default :: "string \<Rightarrow> json \<Rightarrow> json \<Rightarrow> exc + json" where
  "jget_default k otherwise v =
     (case v of JObj kvs \<Rightarrow> Inr (case map_of kvs k of Some x \<Rightarrow> x | None \<Rightarrow> otherwise) | _ \<Rightarrow> Inl AttributeError)"

text \<open>
  Texts and counts of the answer. A provider that writes another type there breaks the format that it
  says it speaks: counts fail when they are summed, as here.
\<close>

fun text_or :: "string \<Rightarrow> json \<Rightarrow> string" where
  "text_or otherwise (JStr s) = s"
| "text_or otherwise _ = otherwise"

fun token_count :: "json \<Rightarrow> exc + int" where
  "token_count (JNum n) = Inr n"
| "token_count _ = Inl TypeError"

fun list_of :: "json \<Rightarrow> exc + json list" where
  "list_of v = iterated v"

definition parse_completion :: "string \<Rightarrow> json \<Rightarrow> exc + llm_response" where
  "parse_completion model data =
     bnd_result (jitem ''choices'' data) (\<lambda>choices. bnd_result (first_item choices) (\<lambda>choice.
     bnd_result (jget_default ''usage'' (JObj []) data) (\<lambda>usage.
     bnd_result (jget ''message'' choice) (\<lambda>m0. let m = (if truthy m0 then m0 else JObj []) in
     bnd_result (jget ''content'' m) (\<lambda>content.
     bnd_result (jget_default ''model'' (JStr model) data) (\<lambda>answering.
     bnd_result (bnd_result (jget_default ''prompt_tokens'' (JNum 0) usage) token_count) (\<lambda>ins.
     bnd_result (bnd_result (jget_default ''completion_tokens'' (JNum 0) usage) token_count) (\<lambda>outs.
     bnd_result (bnd_result (jget ''tool_calls'' m) list_of) (\<lambda>calls.
       Inr \<lparr>lr_content = text_or [] content, lr_model = text_or model answering,
            lr_input_tokens = ins, lr_output_tokens = outs, lr_tool_calls = calls\<rparr>)))))))))"

definition complete_openai :: "'w http_client \<Rightarrow> llm_message list \<Rightarrow> string \<Rightarrow> int \<Rightarrow> json \<Rightarrow> json list \<Rightarrow> ('w, llm_response) prog" where
  "complete_openai c messages model max_tokens temperature tools =
     bnd (attempts c (completion_payload messages model max_tokens temperature tools) 0 (max_retries c + 1))
       (\<lambda>data. lift_result (parse_completion model data))"

definition complete_mock :: "string \<Rightarrow> llm_message list \<Rightarrow> llm_response" where
  "complete_mock response messages =
     (let last_user = (case List.find (\<lambda>m. lm_role m = ''user'') (rev messages) of
                         Some m \<Rightarrow> opt_or (lm_content m) [] | None \<Rightarrow> []);
          content = ''[mock] '' @ response
      in \<lparr>lr_content = content, lr_model = ''mock'', lr_input_tokens = int (length (words last_user)),
          lr_output_tokens = int (length (words content)), lr_tool_calls = []\<rparr>)"

section \<open>The providers and the router\<close>

definition DEEPSEEK_BASE_URL :: string where "DEEPSEEK_BASE_URL = ''https://api.deepseek.com''"
definition MISTRAL_BASE_URL :: string where "MISTRAL_BASE_URL = ''https://api.mistral.ai/v1''"
definition GEMINI_BASE_URL :: string where "GEMINI_BASE_URL = ''https://generativelanguage.googleapis.com/v1beta/openai''"

text \<open>
  The address and the key that a provider posts to: none for the mock, an error for a key that was not
  set.
\<close>

definition openai_endpoint :: "string \<Rightarrow> string \<Rightarrow> exc + (string \<times> string) option" where
  "openai_endpoint key base_url =
     (if key = [] \<or> key = ''__VAULT__'' then Inl ValueError
      else Inr (Some (rstrip (\<lambda>c. c = CHR ''/'') base_url @ ''/chat/completions'', key)))"

fun endpoint :: "llm_provider \<Rightarrow> exc + (string \<times> string) option" where
  "endpoint MockProvider = Inr None"
| "endpoint (DeepSeekProvider key) = openai_endpoint key DEEPSEEK_BASE_URL"
| "endpoint (MistralProvider key base_url) = openai_endpoint key (or_else base_url MISTRAL_BASE_URL)"
| "endpoint (GeminiProvider key base_url) = openai_endpoint key (or_else base_url GEMINI_BASE_URL)"
| "endpoint (OpenAICompatibleProvider key base_url) = openai_endpoint key base_url"

text \<open>\<open>type(provider).__name__.replace("Provider", "").lower()\<close>.\<close>

fun provider_name :: "llm_provider \<Rightarrow> string" where
  "provider_name MockProvider = ''mock''"
| "provider_name (DeepSeekProvider _) = ''deepseek''"
| "provider_name (MistralProvider _ _) = ''mistral''"
| "provider_name (GeminiProvider _ _) = ''gemini''"
| "provider_name (OpenAICompatibleProvider _ _) = ''openaicompatible''"

datatype request_purpose = Onboarding | General | Finops | Incident | Security_summary

record provider_route =
  route_provider :: llm_provider
  route_model :: string

record llm_router =
  rt_simple :: provider_route
  rt_complex :: provider_route
  rt_sovereign :: "provider_route option"
  rt_enabled :: bool
  rt_default :: "provider_route option"

definition resolve_route :: "llm_router \<Rightarrow> request_purpose \<Rightarrow> string \<Rightarrow> bool \<Rightarrow> provider_route" where
  "resolve_route rt purpose context_mode data_sensitive =
     (if \<not> rt_enabled rt then (case rt_default rt of Some r \<Rightarrow> r | None \<Rightarrow> rt_simple rt)
      else
        (case (if data_sensitive \<or> context_mode = ''metadata_and_code'' then rt_sovereign rt else None) of
           Some r \<Rightarrow> r
         | None \<Rightarrow> if purpose \<in> {Incident, Security_summary} then rt_complex rt else rt_simple rt))"

text \<open>An enabled router with a sovereign route sends source code and sensitive data nowhere else.\<close>

lemma router_keeps_code_sovereign:
  "rt_enabled rt \<Longrightarrow> rt_sovereign rt = Some r \<Longrightarrow> data_sensitive \<or> context_mode = ''metadata_and_code'' \<Longrightarrow>
   resolve_route rt purpose context_mode data_sensitive = r"
  by (auto simp: resolve_route_def)

section \<open>A completion ends\<close>

text \<open>A client that records what it is asked.\<close>

datatype http_step = Posted json http_answer | Slept py_float

definition recording :: "'w http_client \<Rightarrow> ('w \<times> http_step list) http_client" where
  "recording c =
     \<lparr>http_post = (\<lambda>payload (w, trace). case http_post c payload w of (answer, w1) \<Rightarrow> (answer, (w1, trace @ [Posted payload answer]))),
      http_sleep = (\<lambda>d (w, trace). (http_sleep c d w, trace @ [Slept d])),
      json_str = json_str c, max_retries = max_retries c, retry_backoff = retry_backoff c\<rparr>"

lemma recording_simps [simp]:
  "http_post (recording c) payload (w, trace) =
     (case http_post c payload w of (answer, w1) \<Rightarrow> (answer, (w1, trace @ [Posted payload answer])))"
  "http_sleep (recording c) d (w, trace) = (http_sleep c d w, trace @ [Slept d])"
  "json_str (recording c) = json_str c" "max_retries (recording c) = max_retries c"
  "retry_backoff (recording c) = retry_backoff c"
  by (simp_all add: recording_def)

lemma retry_delay_recording [simp]: "retry_delay (recording c) = retry_delay c"
  by (simp add: fun_eq_iff retry_delay_def Let_def split: http_answer.split)

definition posts :: "http_step list \<Rightarrow> (json \<times> http_answer) list" where
  "posts trace = List.map_filter (\<lambda>s. case s of Posted p a \<Rightarrow> Some (p, a) | Slept _ \<Rightarrow> None) trace"

definition waits :: "http_step list \<Rightarrow> py_float list" where
  "waits trace = List.map_filter (\<lambda>s. case s of Slept d \<Rightarrow> Some d | Posted _ _ \<Rightarrow> None) trace"

lemma trace_simps [simp]:
  "posts [] = []" "waits [] = []" "posts (Posted p a # trace) = (p, a) # posts trace" "posts (Slept d # trace) = posts trace"
  "waits (Posted p a # trace) = waits trace" "waits (Slept d # trace) = d # waits trace"
  by (simp_all add: posts_def waits_def List.map_filter_def)

lemma retry_delay_bounded:
  assumes "retry_delay c answer k = Inr (Some d)" and "0 \<le> retry_backoff c" and "k \<le> n" and "retry_backoff c * 2 ^ n \<le> 41 / 2"
  shows "\<not> exceeds d (41 / 2)"
proof -
  have "retry_backoff c * 2 ^ k \<le> retry_backoff c * 2 ^ n" using assms(2,3) by (intro mult_left_mono power_increasing) auto
  with assms(4) have otherwise: "\<not> retry_backoff c * 2 ^ k > 41 / 2" by linarith
  have hinted: "\<not> exceeds (add_seconds d' (1 / 2)) (41 / 2)" if "\<not> exceeds d' MAX_RETRY_DELAY" for d'
    using that by (cases d') (auto simp: MAX_RETRY_DELAY_def)
  show ?thesis
    using assms(1) otherwise hinted
    by (auto simp: retry_delay_def Let_def bnd_result_def split: http_answer.splits if_splits sum.splits option.splits)
qed

text \<open>The trace of the attempts that remain, and the answer that settles the result.\<close>

definition settled :: "'w http_client \<Rightarrow> json \<Rightarrow> nat \<Rightarrow> exc + json \<Rightarrow> http_step list \<Rightarrow> bool" where
  "settled c payload n r new \<longleftrightarrow>
     posts new \<noteq> [] \<and> length (posts new) \<le> Suc n \<and> length (waits new) = length (posts new) - 1
     \<and> (\<forall>d \<in> set (waits new). \<not> exceeds d (41 / 2))
     \<and> (\<forall>(p, a) \<in> set (posts new). p = payload) \<and> (\<forall>(p, a) \<in> set (butlast (posts new)). retryable a)
     \<and> (\<forall>data. r = Inr data \<longleftrightarrow> snd (List.last (posts new)) = Answered (Some data))"

lemma attempts_trace:
  assumes "0 \<le> retry_backoff c" and "retry_backoff c * 2 ^ max_retries c \<le> 41 / 2"
  shows "k + n = max_retries c \<Longrightarrow> attempts (recording c) payload k (Suc n) (w, trace) = (r, (w', trace')) \<Longrightarrow>
    \<exists>new. trace' = trace @ new \<and> settled c payload n r new"
proof (induction n arbitrary: k w trace)
  case (0 k w trace)
  obtain a w1 where post: "http_post c payload w = (a, w1)" by fastforce
  from 0 post have "trace' = trace @ [Posted payload a] \<and> (\<forall>data. r = Inr data \<longleftrightarrow> a = Answered (Some data))"
    by (cases a) (auto split: option.splits)
  then show ?case by (auto simp: settled_def)
next
  case (Suc n k w trace)
  obtain a w1 where post: "http_post c payload w = (a, w1)" by fastforce
  show ?case
  proof (cases "retryable a \<and> k < max_retries c \<and> (\<exists>d. retry_delay c a k = Inr (Some d))")
    case True
    then obtain d where d: "retryable a" "k < max_retries c" "retry_delay c a k = Inr (Some d)" by blast
    with Suc.prems(2) post have "attempts (recording c) payload (Suc k) (Suc n)
        (http_sleep c d w1, trace @ [Posted payload a] @ [Slept d]) = (r, (w', trace'))"
      by (cases a) auto
    from Suc.IH[OF _ this] Suc.prems(1) obtain new where
      new: "trace' = trace @ ([Posted payload a, Slept d] @ new)" "settled c payload n r new" by auto
    have "\<not> exceeds d (41 / 2)" using retry_delay_bounded[OF d(3) assms(1) _ assms(2)] d(2) by simp
    with new(2) d(1) have "settled c payload (Suc n) r ([Posted payload a, Slept d] @ new)"
      by (auto simp: settled_def)
    with new(1) show ?thesis by blast
  next
    case False
    with Suc.prems(2) post have "trace' = trace @ [Posted payload a] \<and> (\<forall>data. r = Inr data \<longleftrightarrow> a = Answered (Some data))"
      by (cases a) (auto split: option.splits sum.splits if_splits)
    then show ?thesis by (auto simp: settled_def)
  qed
qed

text \<open>
  C40: A completion ends: it posts the same request at most \<open>max_retries + 1\<close> times, waits at most 20.5
  seconds before each new attempt, tries again only after a refusal that may pass or a lost connection,
  and succeeds exactly when the last answer is a decoded body.
\<close>

theorem completion_attempts_are_bounded:
  assumes "0 \<le> retry_backoff c" and "retry_backoff c * 2 ^ max_retries c \<le> 41 / 2"
  shows "\<exists>r w' trace. attempts (recording c) payload 0 (max_retries c + 1) (w, []) = (r, (w', trace))
    \<and> posts trace \<noteq> [] \<and> length (posts trace) \<le> max_retries c + 1 \<and> length (waits trace) = length (posts trace) - 1
    \<and> (\<forall>d \<in> set (waits trace). \<not> exceeds d (41 / 2))
    \<and> (\<forall>(p, a) \<in> set (posts trace). p = payload) \<and> (\<forall>(p, a) \<in> set (butlast (posts trace)). retryable a)
    \<and> (\<forall>data. r = Inr data \<longleftrightarrow> snd (List.last (posts trace)) = Answered (Some data))"
proof -
  obtain r w' trace where run: "attempts (recording c) payload 0 (Suc (max_retries c)) (w, []) = (r, (w', trace))"
    by (metis prod.collapse)
  from attempts_trace[OF assms _ this] have "settled c payload (max_retries c) r trace" by auto
  with run show ?thesis by (auto simp: settled_def simp del: attempts.simps)
qed

text \<open>A free tier that asks for a wait, then answers; and one whose daily quota is used up.\<close>

definition quota_body :: "string \<Rightarrow> string \<Rightarrow> json" where
  "quota_body quota delay =
     JArr [JObj [(''error'', JObj [(''details'', JArr [JObj [(''violations'', JArr [JObj [(''quotaId'', JStr quota)]])],
       JObj [(''retryDelay'', JStr delay)]])])]]"

definition demo_answer :: json where
  "demo_answer = JObj [(''choices'', JArr [JObj [(''message'', JObj [(''content'', JStr ''ok'')])]])]"

definition demo_client :: "http_answer list http_client" where
  "demo_client =
     \<lparr>http_post = (\<lambda>_ as. case as of [] \<Rightarrow> (Unreachable, []) | a # as' \<Rightarrow> (a, as')), http_sleep = (\<lambda>_ as. as),
      json_str = (\<lambda>v. case v of JStr s \<Rightarrow> s | _ \<Rightarrow> ''?''), max_retries = 2, retry_backoff = 1\<rparr>"

lemma completion_attempts_are_bounded_witness:
  "\<exists>r w' trace. attempts (recording demo_client) JNull 0 3 ([Unreachable, Unreachable, Answered (Some demo_answer)], []) = (r, (w', trace))
     \<and> length (posts trace) \<le> 3 \<and> (\<forall>d \<in> set (waits trace). \<not> exceeds d (41 / 2))"
proof -
  have "0 \<le> retry_backoff demo_client" "retry_backoff demo_client * 2 ^ max_retries demo_client \<le> 41 / 2"
    by (simp_all add: demo_client_def)
  from completion_attempts_are_bounded[OF this, of JNull "[Unreachable, Unreachable, Answered (Some demo_answer)]"]
  show ?thesis by (auto simp: demo_client_def)
qed

lemma float_of_examples:
  "float_of '' 7.5 '' = Some (Finite (15 / 2))" "float_of ''1_0e-1'' = Some (Finite 1)" "float_of ''-inf'' = Some Neg_infinite"
  "float_of ''1__0'' = None" "float_of ''Wed, 21 Oct 2026'' = None" "float_of ''.'' = None"
  by code_simp+

lemma retry_examples:
  "fst (attempts demo_client JNull 0 3 [Refused 429 None (Some (quota_body ''PerMinute'' ''7s'')), Answered (Some demo_answer)]) = Inr demo_answer"
  "fst (attempts demo_client JNull 0 3 [Refused 429 None (Some (quota_body ''RequestsPerDay'' ''7s'')), Answered (Some demo_answer)]) = Inl (HTTPStatusError 429)"
  "fst (attempts demo_client JNull 0 3 [Refused 401 None None, Answered (Some demo_answer)]) = Inl (HTTPStatusError 401)"
  by code_simp+

text \<open>
  An endpoint that refuses with 429 and a plain text as \<open>error\<close> makes the computation of the delay
  fail: the caller sees neither the refusal nor another attempt.
\<close>

lemma plain_error_text_breaks_the_retry:
  "fst (attempts demo_client JNull 0 3 [Refused 429 None (Some (JObj [(''error'', JStr ''rate limited'')])), Answered (Some demo_answer)])
   = Inl AttributeError"
  by code_simp

end
