(* ===== verification/Assistant.thy ===== *)
theory Assistant
  imports Tools_Security Providers
begin

text \<open>
  backend/services/assistant_service.py and the chat routes of backend/api/routes/assistant.py: the
  context of a question, the messages of the model, the rounds of tool calls, and the usage that is
  recorded. The French texts are the parameter \<open>wording\<close> of the tools, as are the sources of data; the
  language model is a program on a state of its own. Properties: a question takes a bounded number of
  rounds and every answer's tokens are counted, the client's texts reach the model redacted, and the
  limits bound what the users consume.
\<close>

section \<open>The world of a chat\<close>

record ('v, 'p) ai_world = "'v services" +
  llm :: 'p

definition on_llm :: "('p, 'a) prog \<Rightarrow> (('v, 'p) ai_world, 'a) prog" where
  "on_llm m = (\<lambda>w. case m (llm w) of (r, p) \<Rightarrow> (r, w\<lparr>llm := p\<rparr>))"

record ('v, 'p) chat_env =
  ce_tools :: "'v tool_env"
  ce_complete :: "llm_provider \<Rightarrow> llm_message list \<Rightarrow> string \<Rightarrow> string list \<Rightarrow> ('p, llm_response) prog"
  fmt_price :: "int \<Rightarrow> string"
  fmt_minute :: "int \<Rightarrow> string"
  AI_PLATFORM_KB_PRIMER_PATHS :: string
  AI_BASE_URL :: string
  fresh_id :: string

record ('v, 'p) assistant =
  as_env :: "('v, 'p) chat_env"
  as_cfg :: effective_ai_config
  as_provider :: llm_provider

definition MAX_TOOL_ROUNDS :: nat where "MAX_TOOL_ROUNDS = 4"
definition MAX_HISTORY_MESSAGES :: nat where "MAX_HISTORY_MESSAGES = 12"
definition MAX_HISTORY_CHARS :: nat where "MAX_HISTORY_CHARS = 4000"

section \<open>The profile and the page\<close>

definition describe_profile :: "string \<Rightarrow> phrase \<Rightarrow> phrase" where
  "describe_profile role scope =
     Say ''profile_block'' [Val role, scope,
       Say ''style_of_profile''
         [Val (if role = ''owner'' then ''maintainer'' else if role \<in> {''viewer'', ''developer'', ''maintainer'', ''admin''} then role else ''viewer'')]]"

definition PAGE_LABELS :: "(string \<times> string) list" where
  "PAGE_LABELS =
     [(''/admin/clusters'', ''page_admin_clusters''), (''/admin/apps'', ''page_admin_apps''), (''/admin/finops'', ''page_admin_finops''),
      (''/admin/users'', ''page_admin_users''), (''/admin/audit'', ''page_admin_audit''), (''/admin/settings'', ''page_admin_settings''),
      (''/profile'', ''page_profile'')]"

definition APP_TAB_LABELS :: "(string \<times> string) list" where
  "APP_TAB_LABELS =
     [([], ''Overview''), (''logs'', ''Logs''), (''history'', ''History''), (''settings'', ''Settings''), (''assistant'', ''Assistant'')]"

definition SECTION_LABELS :: "(string \<times> string) list" where
  "SECTION_LABELS = [(''apps'', ''Apps''), (''metrics'', ''Metrics''), (''settings'', ''Settings'')]"

definition label_of :: "(string \<times> string) list \<Rightarrow> string \<Rightarrow> string" where
  "label_of labels k = (case map_of labels k of Some l \<Rightarrow> l | None \<Rightarrow> k)"

definition describe_page :: "page_context option \<Rightarrow> phrase" where
  "describe_page page =
     (case page of
        None \<Rightarrow> Say ''page_unknown'' []
      | Some pg \<Rightarrow>
          if \<not> truthy_str (pg_path pg) \<and> \<not> truthy_str (pg_group_slug pg) then Say ''page_unknown'' []
          else
            (let path = rstrip (\<lambda>c. c = CHR ''/'') (takeWhile (\<lambda>c. c \<noteq> CHR ''?'') (or_else (pg_path pg) []));
                 parts = filter (\<lambda>p. p \<noteq> []) (split_on (CHR ''/'') path) in
             case List.find (\<lambda>(pre, _). prefix pre path) PAGE_LABELS of
               Some (_, label) \<Rightarrow> Say ''page_labelled'' [Say label [], Val path]
             | None \<Rightarrow>
                 if truthy_str (pg_group_slug pg) then
                   Say ''page_of_group''
                     (Val (the (pg_group_slug pg)) #
                      (if truthy_str (pg_app_slug pg) then
                         [say ''page_of_application''
                            [the (pg_app_slug pg), label_of APP_TAB_LABELS (if length parts > 4 then parts ! 4 else [])]]
                       else if length parts > 2 then
                         say ''page_section'' [label_of SECTION_LABELS (parts ! 2)]
                         # (if length parts > 3 \<and> parts ! 3 = ''new'' then [Say ''page_new_application'' []] else [])
                       else [Say ''page_home'' []]) @ [Val path])
                 else say ''page_path'' [if path = [] then ''/'' else path]))"

section \<open>The context of an application\<close>

definition loosely_named :: "string \<Rightarrow> string \<Rightarrow> bool" where
  "loosely_named slug name \<longleftrightarrow> sublist slug (py_lower name) \<or> sublist (py_lower name) slug"

definition fetch_cost_context :: "('v, 'p) chat_env \<Rightarrow> application \<Rightarrow> phrase list \<times> string list" where
  "fetch_cost_context env a =
     (case app_owning_gitlab_group_id a of
        None \<Rightarrow> ([Say ''costs_without_group_label'' []], [])
      | Some gid \<Rightarrow>
          (case get_cost_by_group (ce_tools env) (string_of_int gid) of
             Inl e \<Rightarrow> ([say ''costs_unavailable'' [exc_text (ce_tools env) e]], [])
           | Inr costs \<Rightarrow>
               if costs = [] then ([say ''no_cost_of_group'' [string_of_int gid]], [''get_cost_by_group''])
               else
                 (let this_app = List.find (\<lambda>c. loosely_named (py_lower (app_slug a)) (co_app_name c)) costs in
                  (Say ''cost_rates'' []
                   # (case this_app of
                        Some c \<Rightarrow> say ''cost_of_this_app''
                          [co_app_name c, fmt_price env (co_cpu c), fmt_price env (co_ram c), fmt_price env (co_total c)]
                      | None \<Rightarrow> say ''cost_not_found'' [app_slug a])
                   # say ''cost_comparison'' [string_of_int gid]
                   # map (\<lambda>c. say (if (case this_app of Some x \<Rightarrow> co_app_name c = co_app_name x | None \<Rightarrow> False)
                                    then ''cost_line_marked'' else ''cost_line'')
                          [co_app_name c, fmt_price env (co_total c), fmt_price env (co_cpu c), fmt_price env (co_ram c)]) costs,
                   [''get_cost_by_group'']))))"

definition fetch_metrics_context :: "('v, 'p) chat_env \<Rightarrow> application \<Rightarrow> phrase list \<times> string list" where
  "fetch_metrics_context env a =
     (case get_metrics_series (ce_tools env) of
        Inl e \<Rightarrow> ([say ''metrics_unavailable'' [exc_text (ce_tools env) e]], [])
      | Inr series \<Rightarrow>
          if series = [] then ([Say ''no_metrics'' []], [''get_metrics''])
          else
            (case List.find (\<lambda>m. loosely_named (py_lower (app_slug a)) (mt_app_name m)) series of
               Some m \<Rightarrow> ([Say ''metrics_of_this_app''
                              [Val (mt_app_name m), Val (mt_cpu_current m), Val (mt_ram_current_mb m), num (int (mt_points m))]], [''get_metrics''])
             | None \<Rightarrow> ([say ''metrics_not_found'' [app_slug a]], [''get_metrics''])))"

definition recent_events :: "('v, 'p) chat_env \<Rightarrow> int \<Rightarrow> database \<Rightarrow> phrase list" where
  "recent_events env aid d =
     (let es = take MAX_EVENTS (sort_key (\<lambda>e. - ev_created_at e) (select_rows (\<lambda>e. ev_app_id e = Some aid) (events d))) in
      if es = [] then [Say ''no_recent_events'' []]
      else map (\<lambda>e. say ''event_line'' [map upper_char (ev_severity e), ev_type e, fmt_minute env (ev_created_at e)]) es)"

definition build_app_context :: "('v, 'p) chat_env \<Rightarrow> application \<Rightarrow> database \<Rightarrow> phrase \<times> string list" where
  "build_app_context env a d =
     (let (costs, cost_tools) = fetch_cost_context env a; (metrics, metric_tools) = fetch_metrics_context env a in
      (Say ''app_context''
         [Val (app_name a), Val (app_slug a), Val (application_status_value (app_last_known_status a)),
          shown (app_framework a) ''unspecified'', shown (app_description a) ''dash'', Val (app_owner a),
          shown (app_repo_url a) ''not_configured'', Say ''lines'' (recent_events env (app_id a) d),
          Say ''lines'' metrics, Say ''joined'' costs],
       ''get_app_context'' # ''get_recent_events'' # cost_tools @ metric_tools))"

section \<open>The context of the platform\<close>

text \<open>Only the first element of each key, in order.\<close>

definition first_per :: "('a \<Rightarrow> 'k) \<Rightarrow> 'a list \<Rightarrow> 'a list" where
  "first_per key xs = fold (\<lambda>x kept. if key x \<in> key ` set kept then kept else kept @ [x]) xs []"

definition build_platform_context :: "('v, 'p) chat_env \<Rightarrow> string \<Rightarrow> database \<Rightarrow> phrase \<times> string list \<times> tool_citation list" where
  "build_platform_context env question d =
     (let primer_paths = filter (\<lambda>p. p \<noteq> []) (map (strip py_isspace) (split_on (CHR '','') (AI_PLATFORM_KB_PRIMER_PATHS env)));
          chunks = first_per citation
            (primer primer_paths ''local'' d @ search question (AI_PLATFORM_KB_TOP_K (ce_tools env)) ''local'' d)
      in if chunks = [] then (Say ''no_documentation_found'' [], [''search_platform_docs''], [])
         else
           (Say ''documentation_block''
              [Val (py_join (NEWLINE @ NEWLINE @ ''---'' @ NEWLINE @ NEWLINE)
                 (map (\<lambda>(i, c). ''['' @ string_of_nat (Suc i) @ ''] Source: '' @ citation c @ NEWLINE @ rc_text c)
                    (List.enumerate 0 chunks)))],
            [''search_platform_docs''],
            map (\<lambda>c. Cite_doc (rc_path c) (rc_heading c) (citation c)) chunks))"

definition citation_key :: "tool_citation \<Rightarrow> string" where
  "citation_key c =
     (case c of
        Cite_doc _ _ ref \<Rightarrow> ''doc:'' @ (if ref = [] then ''None'' else ref)
      | Cite_app i _ \<Rightarrow> ''app:'' @ string_of_int i)"

definition dedupe_citations :: "tool_citation list \<Rightarrow> tool_citation list" where
  "dedupe_citations cs = first_per citation_key cs"

section \<open>The messages of a question\<close>

record chat_turn =
  turn_role :: string
  turn_content :: string

definition history_messages :: "chat_turn list \<Rightarrow> llm_message list" where
  "history_messages history =
     map (\<lambda>t. message (turn_role t) (fst (redact (take MAX_HISTORY_CHARS (turn_content t)))))
       (filter (\<lambda>t. turn_role t \<in> {''user'', ''assistant''} \<and> strip py_isspace (turn_content t) \<noteq> [])
         (drop (length history - MAX_HISTORY_MESSAGES) history))"

record question =
  q_message :: string
  q_mode :: string
  q_context_mode :: ai_context_mode
  q_conversation_id :: "string option"
  q_user :: user
  q_app :: "application option"
  q_agent :: string
  q_history :: "chat_turn list"
  q_page :: "page_context option"
  q_now :: int

definition prompt_email :: "('v, 'p) assistant \<Rightarrow> user \<Rightarrow> string" where
  "prompt_email as u =
     (if mask_pii (tl_settings (ce_tools (as_env as))) (as_cfg as) then mask_email (usr_email u) else usr_email u)"

fun context_mode_value :: "ai_context_mode \<Rightarrow> string" where
  "context_mode_value METADATA_ONLY = ''metadata_only''"
| "context_mode_value METADATA_AND_CODE = ''metadata_and_code''"

definition tools_of :: "('v, 'p) assistant \<Rightarrow> question \<Rightarrow> 'v platform_tools" where
  "tools_of as q =
     \<lparr>tl_env = ce_tools (as_env as), tl_user = q_user q, tl_cfg = Some (as_cfg as),
      tl_page = (case q_page q of Some pg \<Rightarrow> pg | None \<Rightarrow> \<lparr>pg_path = None, pg_group_slug = None, pg_app_slug = None\<rparr>),
      tl_now = q_now q\<rparr>"

definition uses_platform :: "('v, 'p) assistant \<Rightarrow> question \<Rightarrow> bool" where
  "uses_platform as q \<longleftrightarrow> q_agent q = ''platform'' \<and> cfg_platform_kb_enabled (as_cfg as)"

text \<open>The system prompt, the tools that were used to build it, and its citations.\<close>

definition prepare :: "('v, 'p) assistant \<Rightarrow> question \<Rightarrow> database \<Rightarrow> phrase \<times> string list \<times> tool_citation list" where
  "prepare as q d =
     (let env = as_env as; redacted_block = (\<lambda>p. Val (fst (redact (render (wording (ce_tools env)) p)))) in
      if uses_platform as q then
        (let (context, ctx_tools, doc_citations) = build_platform_context env (q_message q) d;
             (role, scope) = profile (tools_of as q) d
         in (Say ''platform_system_prompt''
               [Val (prompt_email as (q_user q)), describe_profile role scope, describe_page (q_page q), redacted_block context,
                Say ''style_guide'' []],
             ctx_tools, doc_citations))
      else
        (let (context, app_tools, app_citations) =
               (case q_app q of
                  Some a \<Rightarrow> (case build_app_context env a d of (block, used) \<Rightarrow> (block, used, [Cite_app (app_id a) (app_name a)]))
                | None \<Rightarrow> (Say ''global_context'' [], [], []))
         in (Say ''system_prompt''
               ([Val (context_mode_value (q_context_mode q)), Val (prompt_email as (q_user q)), redacted_block context]
                @ (if q_mode q = ''finops'' then [Say ''finops_addendum'' []] else []) @ [Say ''style_guide'' []]),
             app_tools, app_citations)))"

definition first_messages :: "('v, 'p) assistant \<Rightarrow> question \<Rightarrow> phrase \<Rightarrow> llm_message list" where
  "first_messages as q system =
     message ''system'' (render (wording (ce_tools (as_env as))) system)
     # history_messages (q_history q) @ [message ''user'' (fst (redact (q_message q)))]"

section \<open>Rounds\<close>

record run_state =
  rs_messages :: "llm_message list"
  rs_used_tools :: "string list"
  rs_citations :: "tool_citation list"
  rs_tool_log :: "(string \<times> (string \<times> string) list) list"

definition loggable_args :: "'v tool_env \<Rightarrow> string option \<Rightarrow> (string \<times> string) list" where
  "loggable_args env raw = map (\<lambda>(k, v). (take 40 k, take 100 (str_json env v))) (take 5 (parse_args env raw))"

text \<open>The name and the raw arguments of a call, in the format of OpenAI: both are texts.\<close>

definition parse_call :: "json \<Rightarrow> exc + string \<times> string option \<times> string option" where
  "parse_call c =
     bnd_result (jget ''function'' c) (\<lambda>f0. let f = (if truthy f0 then f0 else JObj []) in
     bnd_result (jget_default ''name'' (JStr []) f) (\<lambda>name.
     bnd_result (jget ''arguments'' f) (\<lambda>raw.
     bnd_result (jget ''id'' c) (\<lambda>i.
     (case name of
        JStr s \<Rightarrow> Inr (s, (case raw of JStr r \<Rightarrow> Some r | _ \<Rightarrow> None), (case i of JStr x \<Rightarrow> Some x | _ \<Rightarrow> None))
      | _ \<Rightarrow> Inl TypeError)))))"

definition run_call :: "'v platform_tools \<Rightarrow> json \<Rightarrow> run_state \<Rightarrow> (('v, 'p) ai_world, run_state) prog" where
  "run_call t c st =
     bnd (lift_result (parse_call c)) (\<lambda>(name, raw, call_id).
     bnd (gets (\<lambda>w. call t w name raw)) (\<lambda>(result, citations).
       ret \<lparr>rs_messages = rs_messages st @
              [\<lparr>lm_role = ''tool'', lm_content = Some result, lm_tool_calls = [], lm_tool_call_id = call_id\<rparr>],
            rs_used_tools = (if name \<noteq> [] \<and> name \<notin> set (rs_used_tools st) then rs_used_tools st @ [name] else rs_used_tools st),
            rs_citations = rs_citations st @ citations,
            rs_tool_log = rs_tool_log st @ [(name, loggable_args (tl_env t) raw)]\<rparr>))"

primrec run_calls :: "'v platform_tools \<Rightarrow> json list \<Rightarrow> run_state \<Rightarrow> (('v, 'p) ai_world, run_state) prog" where
  "run_calls t [] st = ret st"
| "run_calls t (c # cs) st = bnd (run_call t c st) (run_calls t cs)"

definition complete_messages :: "('v, 'p) assistant \<Rightarrow> llm_message list \<Rightarrow> string list option \<Rightarrow> (('v, 'p) ai_world, llm_response) prog" where
  "complete_messages as messages definitions =
     on_llm (ce_complete (as_env as) (as_provider as) messages (cfg_model (as_cfg as)) (case definitions of Some ds \<Rightarrow> ds | None \<Rightarrow> []))"

text \<open>One round of the model: an endpoint that rejects the tools is asked again without them.\<close>

definition complete_round ::
  "('v, 'p) assistant \<Rightarrow> llm_message list \<Rightarrow> string list option \<Rightarrow> (('v, 'p) ai_world, llm_response \<times> string list option) prog" where
  "complete_round as messages definitions =
     try_except (bnd (complete_messages as messages definitions) (\<lambda>resp. ret (resp, definitions)))
       (\<lambda>e. if e = HTTPStatusError 400 \<and> definitions \<noteq> None
             then bnd (complete_messages as messages None) (\<lambda>resp. ret (resp, None))
             else raise_exc e)"

text \<open>\<open>rounds\<close> counts the rounds that are left; the last one offers no tool.\<close>

primrec run_rounds ::
  "('v, 'p) assistant \<Rightarrow> 'v platform_tools \<Rightarrow> nat \<Rightarrow> string list option \<Rightarrow> int \<times> int \<Rightarrow> run_state
   \<Rightarrow> (('v, 'p) ai_world, llm_response \<times> run_state) prog" where
  "run_rounds as t 0 definitions tokens st = raise_exc AssertionError"
| "run_rounds as t (Suc rounds) definitions tokens st =
     bnd (complete_round as (rs_messages st) (if rounds = 0 then None else definitions)) (\<lambda>(resp, offered).
       let ins = fst tokens + lr_input_tokens resp; outs = snd tokens + lr_output_tokens resp in
       if lr_tool_calls resp = [] \<or> offered = None then
         ret (resp\<lparr>lr_input_tokens := ins, lr_output_tokens := outs\<rparr>, st)
       else
         bnd (run_calls t (lr_tool_calls resp)
                (st\<lparr>rs_messages := rs_messages st @
                   [\<lparr>lm_role = ''assistant'', lm_content = (if lr_content resp = [] then None else Some (lr_content resp)),
                     lm_tool_calls = lr_tool_calls resp, lm_tool_call_id = None\<rparr>]\<rparr>))
           (\<lambda>st'. run_rounds as t rounds offered (ins, outs) st'))"

definition run_model ::
  "('v, 'p) assistant \<Rightarrow> 'v platform_tools option \<Rightarrow> run_state \<Rightarrow> (('v, 'p) ai_world, llm_response \<times> run_state) prog" where
  "run_model as tools st =
     (case tools of
        None \<Rightarrow> bnd (complete_messages as (rs_messages st) None) (\<lambda>resp. ret (resp, st))
      | Some t \<Rightarrow>
          bnd (gets (\<lambda>w. available_definitions t (db (sess w)))) (\<lambda>definitions.
            run_rounds as t (MAX_TOOL_ROUNDS + 1) (Some definitions) (0, 0) st))"

section \<open>A question\<close>

definition purpose_of :: "string \<Rightarrow> ai_purpose" where
  "purpose_of mode = (if mode = ''finops'' then PURPOSE_FINOPS else if mode = ''incident'' then PURPOSE_INCIDENT else PURPOSE_CHAT)"

definition record_usage :: "llm_provider \<Rightarrow> question \<Rightarrow> llm_response \<Rightarrow> int option \<Rightarrow> (session, unit) prog" where
  "record_usage provider q resp cost =
     bnd (modify (\<lambda>s. s\<lparr>db := (db s)\<lparr>ai_usage_records := insert_row
            (\<lambda>i. \<lparr>aur_id = i, aur_app_id = map_option app_id (q_app q), aur_user_id = Some (usr_id (q_user q)),
                  aur_provider = provider_name provider, aur_model = lr_model resp, aur_purpose = purpose_of (q_mode q),
                  aur_input_tokens = lr_input_tokens resp, aur_output_tokens = lr_output_tokens resp,
                  aur_estimated_cost_usd = cost, aur_created_at = q_now q\<rparr>) (ai_usage_records (db s))\<rparr>\<rparr>))
       (\<lambda>_. modify commit)"

record chat_response =
  cr_conversation_id :: string
  cr_answer :: string
  cr_citations :: "tool_citation list"
  cr_used_tools :: "string list"
  cr_input_tokens :: int
  cr_output_tokens :: int
  cr_estimated_cost_usd :: "int option"

definition chat :: "('v, 'p) assistant \<Rightarrow> question \<Rightarrow> (('v, 'p) ai_world, chat_response) prog" where
  "chat as q =
     bnd (gets (\<lambda>w. prepare as q (db (sess w)))) (\<lambda>(system, ctx_tools, ctx_citations).
     bnd (run_model as (if uses_platform as q then Some (tools_of as q) else None)
            \<lparr>rs_messages = first_messages as q system, rs_used_tools = ctx_tools, rs_citations = ctx_citations, rs_tool_log = []\<rparr>)
       (\<lambda>(resp, st).
     bnd (if rs_tool_log st \<noteq> [] then
            on_sess (log_action (usr_id (q_user q)) ''ai_assistant.tools_used'' (map_option app_id (q_app q)))
          else ret ()) (\<lambda>_.
     let cost = estimate_cost (lr_model resp) (lr_input_tokens resp) (lr_output_tokens resp) in
     bnd (on_sess (record_usage (as_provider as) q resp cost)) (\<lambda>_.
       ret \<lparr>cr_conversation_id = or_else (q_conversation_id q) (fresh_id (as_env as)), cr_answer = lr_content resp,
            cr_citations = dedupe_citations (rs_citations st), cr_used_tools = rs_used_tools st,
            cr_input_tokens = lr_input_tokens resp, cr_output_tokens = lr_output_tokens resp,
            cr_estimated_cost_usd = cost\<rparr>))))"

section \<open>The routes\<close>

text \<open>Failures of the provider as API errors.\<close>

definition chat_or_error :: "('v, 'p) assistant \<Rightarrow> question \<Rightarrow> (('v, 'p) ai_world, chat_response) prog" where
  "chat_or_error as q =
     try_except (chat as q) (\<lambda>e. case e of
       HTTPStatusError status \<Rightarrow> raise_exc (HTTPException (if status = 429 then 429 else 502))
     | TransportError \<Rightarrow> raise_exc (HTTPException 502)
     | _ \<Rightarrow> raise_exc e)"

definition build_assistant :: "('v, 'p) chat_env \<Rightarrow> effective_ai_config \<Rightarrow> exc + ('v, 'p) assistant" where
  "build_assistant env cfg =
     (let provider = build_assistant_provider (tl_settings (ce_tools env)) (AI_BASE_URL env) cfg in
      bnd_result (endpoint provider) (\<lambda>_. Inr \<lparr>as_env = env, as_cfg = cfg, as_provider = provider\<rparr>))"

record chat_payload =
  cp_message :: string
  cp_mode :: string
  cp_agent :: string
  cp_requested_context_mode :: ai_context_mode
  cp_conversation_id :: "string option"
  cp_history :: "chat_turn list"
  cp_page :: "page_context option"

text \<open>
  The end of both routes: the limits at the instant \<open>checked\<close>, the assistant, and the question, whose
  record is dated \<open>q_now\<close>.
\<close>

definition ask :: "('v, 'p) chat_env \<Rightarrow> int \<Rightarrow> effective_ai_config \<Rightarrow> question \<Rightarrow> (('v, 'p) ai_world, chat_response) prog" where
  "ask env checked cfg q =
     bnd (on_sess (check_limits (tl_settings (ce_tools env)) checked (q_user q))) (\<lambda>_.
     bnd (lift_result (build_assistant env cfg)) (\<lambda>as. chat_or_error as q))"

definition chat_with_app ::
  "('v, 'p) chat_env \<Rightarrow> int \<Rightarrow> int \<Rightarrow> int \<Rightarrow> chat_payload \<Rightarrow> user \<Rightarrow> (('v, 'p) ai_world, chat_response) prog" where
  "chat_with_app env checked now aid payload current_user0 =
     bnd (on_sess (require_tier VIEWER (Some (string_of_int aid)) current_user0)) (\<lambda>current_user.
     bnd (on_sess (require_ai_enabled (tl_settings (ce_tools env)))) (\<lambda>cfg.
     bnd (gets (\<lambda>w. get_application aid (db (sess w)))) (\<lambda>found.
     case found of
       None \<Rightarrow> raise_exc (HTTPException 404)
     | Some a \<Rightarrow>
         bnd (gets (\<lambda>w. get_ai_app_row aid (db (sess w)))) (\<lambda>row.
         case row of
           None \<Rightarrow> raise_exc (HTTPException 400)
         | Some settings \<Rightarrow>
             if \<not> aas_ai_enabled settings then raise_exc (HTTPException 400)
             else if \<not> app_allowed cfg aid then raise_exc (HTTPException 403)
             else ask env checked cfg
               \<lparr>q_message = cp_message payload, q_mode = cp_mode payload,
                q_context_mode = (if aas_ai_context_mode settings = METADATA_ONLY then METADATA_ONLY else cp_requested_context_mode payload),
                q_conversation_id = cp_conversation_id payload, q_user = current_user, q_app = Some a, q_agent = ''default'',
                q_history = cp_history payload, q_page = None, q_now = now\<rparr>))))"

definition chat_global ::
  "('v, 'p) chat_env \<Rightarrow> int \<Rightarrow> int \<Rightarrow> chat_payload \<Rightarrow> user \<Rightarrow> (('v, 'p) ai_world, chat_response) prog" where
  "chat_global env checked now payload current_user =
     bnd (on_sess (require_ai_enabled (tl_settings (ce_tools env)))) (\<lambda>cfg.
       ask env checked cfg
         \<lparr>q_message = cp_message payload, q_mode = cp_mode payload, q_context_mode = METADATA_ONLY,
          q_conversation_id = cp_conversation_id payload, q_user = current_user, q_app = None, q_agent = cp_agent payload,
          q_history = cp_history payload, q_page = cp_page payload, q_now = now\<rparr>)"

text \<open>Reindexing the documentation: \<open>walk\<close> is what the directory holds.\<close>

definition reindex_platform_kb ::
  "ai_env \<Rightarrow> (string \<Rightarrow> string) \<Rightarrow> nat \<Rightarrow> (string \<times> string option) list \<Rightarrow> user \<Rightarrow> (session, ingest_stats) prog" where
  "reindex_platform_kb env digest max_tokens walk current_user =
     bnd (lift_result (require_admin current_user)) (\<lambda>_.
     bnd (require_ai_enabled env) (\<lambda>cfg.
       if \<not> cfg_platform_kb_enabled cfg then raise_exc (HTTPException 400)
       else
         bnd (ingest_local_dir digest ''local'' max_tokens walk) (\<lambda>stats.
         bnd (log_action (usr_id current_user) ''ai_platform_kb.reindexed'' None) (\<lambda>_.
         bnd (modify commit) (\<lambda>_. ret stats)))))"

end
