(* ===== verification/Security_Scans.thy ===== *)
theory Security_Scans
  imports Assistant
begin

text \<open>
  backend/services/security_scan_service.py, the scan routes of backend/api/routes/assistant.py and the
  callback of backend/api/routes/webhooks.py: a scan is queued, run by the CI of the application, and
  closed by the callback that carries its token. The trigger of a pipeline is a parameter. Properties:
  the lifecycle of a scan over any sequence of requests, and what a callback does.
\<close>

section \<open>The service\<close>

record scan_env =
  has_bot_token :: bool
  trigger_scan_pipeline :: "int \<Rightarrow> string \<Rightarrow> (string \<times> string) list \<Rightarrow> exc + int option"
  BACKEND_URL :: string

record finding_input =
  fi_tool :: string
  fi_severity :: string
  fi_title :: string
  fi_description :: "string option"
  fi_file_path :: "string option"
  fi_line_start :: "int option"
  fi_line_end :: "int option"
  fi_confidence :: "string option"
  fi_remediation :: "string option"

definition alter_db :: "(database \<Rightarrow> database) \<Rightarrow> (session, unit) prog" where
  "alter_db f = modify (\<lambda>s. s\<lparr>db := f (db s)\<rparr>)"

definition new_scan :: "int \<Rightarrow> string \<Rightarrow> application \<Rightarrow> string \<Rightarrow> user \<Rightarrow> int \<Rightarrow> ai_security_scan" where
  "new_scan now token a ref triggered_by i =
     \<lparr>scan_id = i, scan_app_id = app_id a, scan_ref = ref, scan_status = ''queued'',
      scan_triggered_by_user_id = Some (usr_id triggered_by), scan_gitlab_pipeline_id = None, scan_callback_token = token,
      scan_error_message = None, scan_ai_summary_text = None, scan_ai_summarized_at = None, scan_created_at = now\<rparr>"

text \<open>\<open>flush\<close> of a new scan: the callback tokens are unique.\<close>

definition flush_scans :: "(session, unit) prog" where
  "flush_scans = (\<lambda>s. if unique_on scan_callback_token (security_scans (db s)) then (Inr (), s) else (Inl IntegrityError, s))"

definition trigger_pipeline :: "scan_env \<Rightarrow> application \<Rightarrow> string \<Rightarrow> ai_security_scan \<Rightarrow> int option" where
  "trigger_pipeline env a ref scan =
     (case trigger_scan_pipeline env (the (app_gitlab_project_id a)) ref
             [(''CNP_SCAN_ID'', string_of_int (scan_id scan)), (''CNP_CALLBACK_TOKEN'', scan_callback_token scan),
              (''CNP_CALLBACK_URL'', BACKEND_URL env @ ''/api/v1/webhooks/security-scan-callback'')] of
        Inl _ \<Rightarrow> None | Inr pipeline \<Rightarrow> pipeline)"

definition update_scan :: "int \<Rightarrow> (ai_security_scan \<Rightarrow> ai_security_scan) \<Rightarrow> database \<Rightarrow> database" where
  "update_scan i f d = d\<lparr>security_scans := update_rows (\<lambda>r. scan_id r = i) f (security_scans d)\<rparr>"

definition create_scan ::
  "scan_env \<Rightarrow> int \<Rightarrow> string \<Rightarrow> application \<Rightarrow> string \<Rightarrow> user \<Rightarrow> bool \<Rightarrow> (session, ai_security_scan) prog" where
  "create_scan env now token a ref triggered_by trigger_ci =
     bnd (gets (\<lambda>s. new_scan now token a ref triggered_by (seq (security_scans (db s))))) (\<lambda>scan.
     bnd (alter_db (\<lambda>d. d\<lparr>security_scans := insert_row (new_scan now token a ref triggered_by) (security_scans d)\<rparr>)) (\<lambda>_.
     bnd flush_scans (\<lambda>_.
     let pipeline = (if trigger_ci \<and> truthy_id (app_gitlab_project_id a) \<and> has_bot_token env then trigger_pipeline env a ref scan else None);
         started = (\<lambda>r. if truthy_id pipeline then r\<lparr>scan_gitlab_pipeline_id := pipeline, scan_status := ''running''\<rparr> else r) in
     bnd (alter_db (update_scan (scan_id scan) started)) (\<lambda>_.
     bnd (log_action (usr_id triggered_by) ''security_scan.created'' (Some (app_id a))) (\<lambda>_.
     bnd (modify commit) (\<lambda>_. ret (started scan)))))))"

definition list_scans :: "int \<Rightarrow> nat \<Rightarrow> nat \<Rightarrow> database \<Rightarrow> ai_security_scan list" where
  "list_scans aid limit offset d =
     take limit (drop offset (sort_key (\<lambda>r. - scan_created_at r) (select_rows (\<lambda>r. scan_app_id r = aid) (security_scans d))))"

definition get_scan :: "int \<Rightarrow> int \<Rightarrow> database \<Rightarrow> ai_security_scan option" where
  "get_scan sid aid d = find_row (\<lambda>r. scan_id r = sid \<and> scan_app_id r = aid) (security_scans d)"

definition get_scan_by_token :: "int \<Rightarrow> string \<Rightarrow> database \<Rightarrow> ai_security_scan option" where
  "get_scan_by_token sid token d = find_row (\<lambda>r. scan_id r = sid \<and> scan_callback_token r = token) (security_scans d)"

definition findings_of :: "int \<Rightarrow> database \<Rightarrow> ai_security_finding list" where
  "findings_of sid d = select_rows (\<lambda>f. fnd_scan_id f = sid) (security_findings d)"

definition new_finding :: "int \<Rightarrow> finding_input \<Rightarrow> int \<Rightarrow> ai_security_finding" where
  "new_finding sid f i =
     \<lparr>fnd_id = i, fnd_scan_id = sid, fnd_tool = fi_tool f, fnd_severity = fi_severity f, fnd_title = fi_title f,
      fnd_description = fi_description f, fnd_file_path = fi_file_path f, fnd_line_start = fi_line_start f,
      fnd_line_end = fi_line_end f, fnd_confidence = fi_confidence f, fnd_remediation = fi_remediation f, fnd_status = ''open''\<rparr>"

definition critical_key :: "int \<Rightarrow> string" where
  "critical_key sid = ''security-scan-'' @ string_of_int sid @ ''-critical''"

definition critical_event :: "int \<Rightarrow> ai_security_scan \<Rightarrow> nat \<Rightarrow> int \<Rightarrow> event" where
  "critical_event now scan n i =
     \<lparr>ev_id = i, ev_type = ''security.scan.critical'', ev_severity = ''critical'', ev_source = ''ai_security_scan'',
      ev_app_id = Some (scan_app_id scan),
      ev_payload = [(''scan_id'', JNum (scan_id scan)), (''critical_count'', JNum (int n)), (''ref'', JStr (scan_ref scan))],
      ev_dedup_key = critical_key (scan_id scan), ev_created_at = now\<rparr>"

definition notify_critical :: "int \<Rightarrow> ai_security_scan \<Rightarrow> nat \<Rightarrow> database \<Rightarrow> database" where
  "notify_critical now scan n d =
     (if find_row (\<lambda>e. ev_dedup_key e = critical_key (scan_id scan)) (events d) \<noteq> None then d
      else
        (let event_id = seq (events d); d1 = d\<lparr>events := insert_row (critical_event now scan n) (events d)\<rparr> in
         if truthy_id (scan_triggered_by_user_id scan) then
           d1\<lparr>notifications := insert_row (\<lambda>i. \<lparr>nt_id = i, nt_event_id = event_id,
                nt_recipient_user_id = the (scan_triggered_by_user_id scan), nt_state = NEW, nt_read_at = None, nt_created_at = now\<rparr>)
              (notifications d1)\<rparr>
         else d1))"

definition critical_count :: "finding_input list \<Rightarrow> nat" where
  "critical_count fs = length (filter (\<lambda>f. fi_severity f = ''critical'') fs)"

definition store_findings :: "int \<Rightarrow> finding_input list \<Rightarrow> ai_security_finding table \<Rightarrow> ai_security_finding table" where
  "store_findings sid fs t = fold (\<lambda>f. insert_row (new_finding sid f)) fs t"

definition close_scan :: "string \<Rightarrow> string option \<Rightarrow> ai_security_scan \<Rightarrow> ai_security_scan" where
  "close_scan status error_message r = r\<lparr>scan_status := status, scan_error_message := error_message\<rparr>"

definition apply_callback ::
  "int \<Rightarrow> ai_security_scan \<Rightarrow> string \<Rightarrow> finding_input list \<Rightarrow> string option \<Rightarrow> (session, unit) prog" where
  "apply_callback now scan status fs error_message =
     bnd (alter_db (update_scan (scan_id scan) (close_scan status error_message))) (\<lambda>_.
     bnd (alter_db (\<lambda>d. d\<lparr>security_findings := store_findings (scan_id scan) fs (security_findings d)\<rparr>)) (\<lambda>_.
     bnd (if status = ''completed'' \<and> critical_count fs > 0 then alter_db (notify_critical now scan (critical_count fs)) else ret ()) (\<lambda>_.
       modify commit)))"

section \<open>The callback of the CI\<close>

record scan_callback_payload =
  scp_scan_id :: int
  scp_status :: string
  scp_findings :: "finding_input list"
  scp_error_message :: "string option"

definition security_scan_callback :: "int \<Rightarrow> scan_callback_payload \<Rightarrow> string option \<Rightarrow> (session, nat) prog" where
  "security_scan_callback now payload x_scan_token =
     (if \<not> truthy_str x_scan_token then raise_exc (HTTPException 401)
      else
        bnd (gets (\<lambda>s. get_scan_by_token (scp_scan_id payload) (the x_scan_token) (db s))) (\<lambda>found.
          case found of
            None \<Rightarrow> raise_exc (HTTPException 404)
          | Some scan \<Rightarrow>
              if scan_status scan \<notin> {''queued'', ''running''} then raise_exc (HTTPException 409)
              else if scp_status payload \<notin> {''completed'', ''failed''} then raise_exc (HTTPException 422)
              else
                bnd (apply_callback now scan (scp_status payload) (scp_findings payload) (scp_error_message payload))
                  (\<lambda>_. ret (length (scp_findings payload)))))"

section \<open>The routes\<close>

definition SCAN_STATUSES :: "string list" where
  "SCAN_STATUSES = [''queued'', ''running'', ''completed'', ''failed'']"

definition FINDING_SEVERITIES :: "string list" where
  "FINDING_SEVERITIES = [''critical'', ''high'', ''medium'', ''low'', ''info'']"

text \<open>
  The response model of a scan with its findings: their enumerations are checked. The routes that create and
  list scans answer the rows themselves, without their findings loaded; what FastAPI makes of such a
  row is not modelled.
\<close>

definition scan_response :: "ai_security_scan \<Rightarrow> ai_security_finding list \<Rightarrow> exc + ai_security_scan \<times> ai_security_finding list" where
  "scan_response scan fs =
     (if scan_status scan \<in> set SCAN_STATUSES
         \<and> list_all (\<lambda>f. fnd_severity f \<in> set FINDING_SEVERITIES \<and> fnd_status f \<in> {''open'', ''acknowledged'', ''fixed''}) fs
      then Inr (scan, fs) else Inl ValueError)"

definition app_or_404 :: "int \<Rightarrow> (session, application) prog" where
  "app_or_404 aid =
     bnd (gets (\<lambda>s. get_application aid (db s))) (\<lambda>found.
       case found of None \<Rightarrow> raise_exc (HTTPException 404) | Some a \<Rightarrow> ret a)"

definition scans_enabled :: "(ai_app_settings \<Rightarrow> bool) \<Rightarrow> int \<Rightarrow> (session, unit) prog" where
  "scans_enabled flag aid =
     bnd (gets (\<lambda>s. get_ai_app_row aid (db s))) (\<lambda>row.
       case row of
         None \<Rightarrow> raise_exc (HTTPException 400)
       | Some r \<Rightarrow> if \<not> flag r then raise_exc (HTTPException 400) else ret ())"

definition create_security_scan ::
  "ai_env \<Rightarrow> scan_env \<Rightarrow> int \<Rightarrow> string \<Rightarrow> int \<Rightarrow> string \<Rightarrow> bool \<Rightarrow> user \<Rightarrow> (session, ai_security_scan) prog" where
  "create_security_scan aenv env now token aid ref trigger_ci current_user0 =
     bnd (require_tier DEVELOPER (Some (string_of_int aid)) current_user0) (\<lambda>current_user.
     bnd (require_ai_enabled aenv) (\<lambda>_.
     bnd (app_or_404 aid) (\<lambda>a.
     bnd (scans_enabled aas_ai_security_scan_enabled aid) (\<lambda>_.
       create_scan env now token a ref current_user trigger_ci))))"

definition list_security_scans ::
  "ai_env \<Rightarrow> int \<Rightarrow> nat \<Rightarrow> nat \<Rightarrow> user \<Rightarrow> (session, ai_security_scan list) prog" where
  "list_security_scans aenv aid limit offset current_user =
     bnd (require_tier DEVELOPER (Some (string_of_int aid)) current_user) (\<lambda>_.
     bnd (require_ai_enabled aenv) (\<lambda>_.
     bnd (app_or_404 aid) (\<lambda>_.
       gets (\<lambda>s. list_scans aid limit offset (db s)))))"

definition scan_or_404 :: "int \<Rightarrow> int \<Rightarrow> (session, ai_security_scan) prog" where
  "scan_or_404 sid aid =
     bnd (gets (\<lambda>s. get_scan sid aid (db s))) (\<lambda>found.
       case found of None \<Rightarrow> raise_exc (HTTPException 404) | Some scan \<Rightarrow> ret scan)"

definition get_security_scan ::
  "ai_env \<Rightarrow> int \<Rightarrow> int \<Rightarrow> user \<Rightarrow> (session, ai_security_scan \<times> ai_security_finding list) prog" where
  "get_security_scan aenv aid sid current_user0 =
     bnd (require_tier DEVELOPER (Some (string_of_int aid)) current_user0) (\<lambda>current_user.
     bnd (require_ai_enabled aenv) (\<lambda>_.
     bnd (scan_or_404 sid aid) (\<lambda>scan.
     bnd (gets (\<lambda>s. findings_of sid (db s))) (\<lambda>fs.
     bnd (if scan_status scan = ''completed'' \<and> (\<exists>f \<in> set fs. fnd_severity f = ''critical'') then
            bnd (log_action (usr_id current_user) ''security_scan.critical_finding_viewed'' (Some aid)) (\<lambda>_. modify commit)
          else ret ()) (\<lambda>_.
       lift_result (scan_response scan fs))))))"

definition finding_phrase :: "ai_security_finding \<Rightarrow> phrase" where
  "finding_phrase f =
     Say ''finding''
       ([Val (map upper_char (fnd_severity f)), Val (fnd_tool f), Val (fnd_title f)]
        @ (if truthy_str (fnd_file_path f) then
             [say ''finding_place'' [the (fnd_file_path f), case fnd_line_start f of Some n \<Rightarrow> string_of_int n | None \<Rightarrow> ''None'']] else [])
        @ (if truthy_str (fnd_description f) then [say ''finding_description'' [the (fnd_description f)]] else [])
        @ (if truthy_str (fnd_remediation f) then [say ''finding_remediation'' [the (fnd_remediation f)]] else []))"

definition summary_prompt :: "ai_security_scan \<Rightarrow> application \<Rightarrow> ai_security_finding list \<Rightarrow> phrase" where
  "summary_prompt scan a fs =
     Say ''scan_summary_prompt''
       [Val (scan_ref scan), Val (app_name a), (if fs = [] then Say ''no_finding'' [] else Say ''lines'' (map finding_phrase fs))]"

definition summarize_security_scan ::
  "('v, 'p) chat_env \<Rightarrow> int \<Rightarrow> int \<Rightarrow> int \<Rightarrow> int \<Rightarrow> user \<Rightarrow> (('v, 'p) ai_world, string) prog" where
  "summarize_security_scan env checked now aid sid current_user0 =
     bnd (on_sess (require_tier DEVELOPER (Some (string_of_int aid)) current_user0)) (\<lambda>current_user.
     bnd (on_sess (require_ai_enabled (tl_settings (ce_tools env)))) (\<lambda>cfg.
     bnd (on_sess (app_or_404 aid)) (\<lambda>a.
     bnd (on_sess (scans_enabled aas_ai_security_summary_enabled aid)) (\<lambda>_.
     bnd (on_sess (scan_or_404 sid aid)) (\<lambda>scan.
     if scan_status scan \<noteq> ''completed'' then raise_exc (HTTPException 400)
     else
       bnd (gets (\<lambda>w. findings_of sid (db (sess w)))) (\<lambda>fs.
       bnd (ask env checked cfg
              \<lparr>q_message = render (wording (ce_tools env)) (summary_prompt scan a fs), q_mode = ''scan_summary'',
               q_context_mode = METADATA_ONLY, q_conversation_id = None, q_user = current_user, q_app = Some a,
               q_agent = ''default'', q_history = [], q_page = None, q_now = now\<rparr>) (\<lambda>resp.
       bnd (on_sess (alter_db (update_scan sid
              (\<lambda>r. r\<lparr>scan_ai_summary_text := Some (cr_answer resp), scan_ai_summarized_at := Some now\<rparr>)))) (\<lambda>_.
       bnd (on_sess (modify commit)) (\<lambda>_.
       bnd (on_sess (log_action (usr_id current_user) ''security_scan.ai_summarized'' (Some aid))) (\<lambda>_.
       bnd (on_sess (modify commit)) (\<lambda>_. ret (cr_answer resp))))))))))))"

end
