(* ===== verification/Assistant_Frame.thy ===== *)
theory Assistant_Frame
  imports Assistant
begin

text \<open>
  What the requests of the assistant leave alone: any part of the database that audit entries do not
  touch stays as it was until the usage of a question is recorded, and a part that usage records do not
  touch either stays as it was throughout. Two interfaces state this once for every such part.
\<close>

lemma keeps_on_sess [keeps_intros]: "keeps P m \<Longrightarrow> keeps (\<lambda>w. P (sess w)) (on_sess m)"
  by (auto simp: keeps_def on_sess_apply)

lemma keeps_on_llm [keeps_intros]: "keeps (\<lambda>w. P (sess w)) (on_llm m)"
  by (auto simp: keeps_def on_llm_def split: prod.splits)

lemma bnd_final:
  assumes "keeps P m" and "\<And>s. P s \<Longrightarrow> Q s" and "\<And>x s. P s \<Longrightarrow> Q (snd (k x s))" and "P s"
  shows "Q (snd (bnd m k s))"
proof -
  obtain r s1 where m: "m s = (r, s1)" by fastforce
  with assms(1,4) have "P s1" by (metis keepsD snd_conv)
  with m assms(2,3) show ?thesis by (cases r) (simp_all add: prog_simps)
qed

text \<open>A part of the database that is the same in the transaction and in what was committed.\<close>

definition steady :: "(database \<Rightarrow> 'x) \<Rightarrow> 'x \<Rightarrow> session \<Rightarrow> bool" where
  "steady part v s \<longleftrightarrow> part (db s) = v \<and> part (saved s) = v"

locale audit_blind =
  fixes part :: "database \<Rightarrow> 'x"
  assumes audit: "part (d\<lparr>audit_logs := t\<rparr>) = part d"
begin

lemma steady_log_action [keeps_intros]: "keeps (steady part v) (log_action uid a aid)"
  by (simp add: keeps_def log_action_def prog_simps steady_def audit)

lemma steady_commit [keeps_intros]: "keeps (steady part v) (modify commit)"
  by (simp add: keeps_def prog_simps steady_def commit_def)

lemma steady_require_tier [keeps_intros]: "keeps (steady part v) (require_tier m raw u)"
  unfolding require_tier_def by (auto intro!: keeps_intros)

lemma steady_require_ai_enabled [keeps_intros]: "keeps (steady part v) (require_ai_enabled aenv)"
  unfolding require_ai_enabled_def by (rule keeps_bnd, simp add: keeps_def) (intro keeps_intros)

lemma steady_check_limits [keeps_intros]: "keeps (steady part v) (check_limits aenv now u)"
  unfolding check_limits_def by (auto intro!: keeps_intros)

lemma steady_run_calls: "keeps (\<lambda>w. steady part v (sess w)) (run_calls t cs st)"
  by (induction cs arbitrary: st) (auto simp: run_call_def intro!: keeps_intros split: prod.split)

lemma steady_complete_messages: "keeps (\<lambda>w. steady part v (sess w)) (complete_messages as ms defs)"
  unfolding complete_messages_def by (intro keeps_intros)

lemma steady_complete_round: "keeps (\<lambda>w. steady part v (sess w)) (complete_round as ms defs)"
  unfolding complete_round_def by (intro keeps_intros steady_complete_messages)

lemma steady_run_rounds: "keeps (\<lambda>w. steady part v (sess w)) (run_rounds as t n defs tokens st)"
proof (induction n arbitrary: defs tokens st)
  case (Suc n)
  then show ?case
    by (auto simp: Let_def split_def intro!: keeps_intros steady_complete_round steady_run_calls)
qed (simp add: keeps_intros)

lemma steady_run_model: "keeps (\<lambda>w. steady part v (sess w)) (run_model as tools st)"
  unfolding run_model_def by (intro keeps_intros steady_complete_messages steady_run_rounds)

end

locale usage_blind = audit_blind +
  assumes usage: "part (d\<lparr>ai_usage_records := t\<rparr>) = part d"
begin

lemma steady_record_usage [keeps_intros]: "keeps (steady part v) (record_usage p q resp cost)"
  unfolding record_usage_def by (intro keeps_intros keeps_modify) (simp add: steady_def usage)

lemma steady_chat: "keeps (\<lambda>w. steady part v (sess w)) (chat as q)"
  unfolding chat_def Let_def split_def by (intro keeps_intros steady_run_model)

lemma steady_ask: "keeps (\<lambda>w. steady part v (sess w)) (ask env checked cfg q)"
proof -
  have "keeps (\<lambda>w. steady part v (sess w)) (case e of
       HTTPStatusError status \<Rightarrow> raise_exc (HTTPException (if status = 429 then 429 else 502))
     | TransportError \<Rightarrow> raise_exc (HTTPException 502)
     | _ \<Rightarrow> raise_exc e)" for e by (cases e) (simp_all add: keeps_raise)
  then show ?thesis unfolding ask_def chat_or_error_def by (intro keeps_intros steady_chat) auto
qed

end

interpretation consumption: audit_blind ai_usage_records
  by unfold_locales simp

end
