(* ===== verification/Scan_Lifecycle.thy ===== *)
theory Scan_Lifecycle
  imports Security_Scans Assistant_Frame
begin

text \<open>
  The lifecycle of the security scans: an abstract board of scans, findings and critical alerts with
  three kinds of steps, the requests of the API as steps of the board (a simulation), and what holds of
  every board that requests can reach.
\<close>

section \<open>The board\<close>

text \<open>A scan without its summary, which may be written again and again.\<close>

definition core :: "ai_security_scan \<Rightarrow> ai_security_scan" where
  "core r = r\<lparr>scan_ai_summary_text := None, scan_ai_summarized_at := None\<rparr>"

record scan_board =
  sb_scans :: "ai_security_scan list"
  sb_next :: int
  sb_findings :: "ai_security_finding list"
  sb_alerts :: "event list"

definition is_scan_alert :: "event \<Rightarrow> bool" where
  "is_scan_alert e \<longleftrightarrow> prefix ''security-scan-'' (ev_dedup_key e)"

definition board :: "database \<Rightarrow> scan_board" where
  "board d =
     \<lparr>sb_scans = map core (rows (security_scans d)), sb_next = seq (security_scans d),
      sb_findings = rows (security_findings d), sb_alerts = filter is_scan_alert (rows (events d))\<rparr>"

definition unfinished :: "ai_security_scan \<Rightarrow> bool" where
  "unfinished r \<longleftrightarrow> scan_status r \<in> {''queued'', ''running''}"

definition has_critical :: "ai_security_finding list \<Rightarrow> bool" where
  "has_critical fs \<longleftrightarrow> (\<exists>f \<in> set fs. fnd_severity f = ''critical'')"

definition findings_on :: "scan_board \<Rightarrow> int \<Rightarrow> ai_security_finding list" where
  "findings_on b sid = filter (\<lambda>f. fnd_scan_id f = sid) (sb_findings b)"

definition alerts_on :: "scan_board \<Rightarrow> int \<Rightarrow> event list" where
  "alerts_on b sid = filter (\<lambda>e. ev_dedup_key e = critical_key sid) (sb_alerts b)"

definition open_scan :: "ai_security_scan \<Rightarrow> scan_board \<Rightarrow> scan_board" where
  "open_scan r b = b\<lparr>sb_scans := sb_scans b @ [r], sb_next := sb_next b + 1\<rparr>"

definition close_on ::
  "int \<Rightarrow> string \<Rightarrow> string option \<Rightarrow> ai_security_finding list \<Rightarrow> event list \<Rightarrow> scan_board \<Rightarrow> scan_board" where
  "close_on sid status error_message fs alerts b =
     b\<lparr>sb_scans := map (\<lambda>x. if scan_id x = sid then close_scan status error_message x else x) (sb_scans b),
       sb_findings := sb_findings b @ fs, sb_alerts := sb_alerts b @ alerts\<rparr>"

inductive board_step :: "scan_board \<Rightarrow> scan_board \<Rightarrow> bool" where
  nothing: "board_step b b"
| opened: "board_step b (open_scan r b)"
    if "scan_id r = sb_next b" and "unfinished r" and "scan_callback_token r \<notin> scan_callback_token ` set (sb_scans b)"
| closed: "board_step b (close_on (scan_id r) status error_message fs alerts b)"
    if "r \<in> set (sb_scans b)" and "unfinished r" and "status \<in> {''completed'', ''failed''}"
      and "\<forall>f \<in> set fs. fnd_scan_id f = scan_id r"
      and "if status = ''completed'' \<and> has_critical fs \<and> alerts_on b (scan_id r) = []
           then \<exists>e. alerts = [e] \<and> ev_dedup_key e = critical_key (scan_id r) else alerts = []"

inductive_cases board_stepE: "board_step b b'"

section \<open>What holds of every board\<close>

text \<open>
  Scans are numbered and their states are known; findings and alerts belong to finished scans; a scan
  has an alert, and one only, exactly when it completed with a critical finding.
\<close>

definition board_ok :: "scan_board \<Rightarrow> bool" where
  "board_ok b \<longleftrightarrow>
     distinct (map scan_id (sb_scans b)) \<and> distinct (map scan_callback_token (sb_scans b))
     \<and> (\<forall>r \<in> set (sb_scans b). scan_id r < sb_next b \<and> scan_status r \<in> set SCAN_STATUSES
          \<and> (unfinished r \<longrightarrow> findings_on b (scan_id r) = [])
          \<and> length (alerts_on b (scan_id r)) = (if scan_status r = ''completed'' \<and> has_critical (findings_on b (scan_id r)) then 1 else 0))
     \<and> (\<forall>f \<in> set (sb_findings b). \<exists>r \<in> set (sb_scans b). scan_id r = fnd_scan_id f)
     \<and> (\<forall>e \<in> set (sb_alerts b). \<exists>r \<in> set (sb_scans b). ev_dedup_key e = critical_key (scan_id r))"

text \<open>Later boards keep every scan, and a finished one as it was, with its findings and alerts.\<close>

definition board_grows :: "scan_board \<Rightarrow> scan_board \<Rightarrow> bool" where
  "board_grows b b' \<longleftrightarrow>
     (\<forall>r \<in> set (sb_scans b). \<exists>r' \<in> set (sb_scans b'). scan_id r' = scan_id r \<and> scan_app_id r' = scan_app_id r
        \<and> scan_callback_token r' = scan_callback_token r
        \<and> (\<not> unfinished r \<longrightarrow> r' = r \<and> findings_on b' (scan_id r) = findings_on b (scan_id r)
                          \<and> alerts_on b' (scan_id r) = alerts_on b (scan_id r)))"

lemma critical_key_inject [simp]: "critical_key i = critical_key j \<longleftrightarrow> i = j"
  by (simp add: critical_key_def)

lemma critical_key_alert [simp]: "prefix ''security-scan-'' (critical_key i)"
  by (simp add: critical_key_def)

lemma board_grows_refl: "board_grows b b"
  by (auto simp: board_grows_def)

lemma board_grows_trans:
  assumes "board_grows a b" and "board_grows b c"
  shows "board_grows a c"
  unfolding board_grows_def
proof
  fix r assume "r \<in> set (sb_scans a)"
  with assms(1) obtain r1 where r1: "r1 \<in> set (sb_scans b)" "scan_id r1 = scan_id r" "scan_app_id r1 = scan_app_id r"
    "scan_callback_token r1 = scan_callback_token r"
    "\<not> unfinished r \<Longrightarrow> r1 = r \<and> findings_on b (scan_id r) = findings_on a (scan_id r) \<and> alerts_on b (scan_id r) = alerts_on a (scan_id r)"
    unfolding board_grows_def by blast
  from assms(2) r1(1) obtain r2 where r2: "r2 \<in> set (sb_scans c)" "scan_id r2 = scan_id r1" "scan_app_id r2 = scan_app_id r1"
    "scan_callback_token r2 = scan_callback_token r1"
    "\<not> unfinished r1 \<Longrightarrow> r2 = r1 \<and> findings_on c (scan_id r1) = findings_on b (scan_id r1) \<and> alerts_on c (scan_id r1) = alerts_on b (scan_id r1)"
    unfolding board_grows_def by blast
  from r1 r2 show "\<exists>r' \<in> set (sb_scans c). scan_id r' = scan_id r \<and> scan_app_id r' = scan_app_id r
        \<and> scan_callback_token r' = scan_callback_token r
        \<and> (\<not> unfinished r \<longrightarrow> r' = r \<and> findings_on c (scan_id r) = findings_on a (scan_id r) \<and> alerts_on c (scan_id r) = alerts_on a (scan_id r))"
    by (intro bexI[of _ r2]) auto
qed

lemma opened_board:
  assumes "board_ok b" and "scan_id r = sb_next b" and "unfinished r" and "scan_callback_token r \<notin> scan_callback_token ` set (sb_scans b)"
  shows "board_ok (open_scan r b)" and "board_grows b (open_scan r b)"
proof -
  have fresh: "scan_id x \<noteq> scan_id r" if "x \<in> set (sb_scans b)" for x using assms(1,2) that by (force simp: board_ok_def)
  have none: "findings_on b (scan_id r) = []" "alerts_on b (scan_id r) = []"
    using assms(1) fresh by (fastforce simp: board_ok_def findings_on_def alerts_on_def filter_empty_conv)+
  have same: "findings_on (open_scan r b) = findings_on b" "alerts_on (open_scan r b) = alerts_on b"
    by (simp_all add: fun_eq_iff findings_on_def alerts_on_def open_scan_def)
  have status: "scan_status r \<in> set SCAN_STATUSES" "scan_status r \<noteq> ''completed''"
    using assms(3) by (auto simp: unfinished_def SCAN_STATUSES_def)
  show "board_ok (open_scan r b)"
    using assms fresh none status unfolding board_ok_def same by (auto simp: open_scan_def)
  show "board_grows b (open_scan r b)" unfolding board_grows_def same by (auto simp: open_scan_def)
qed

text \<open>What closing a scan changes on the board.\<close>

lemma closing_effects:
  assumes ok: "board_ok b" and r: "r \<in> set (sb_scans b)" "unfinished r" and status: "status \<in> {''completed'', ''failed''}"
    and fs: "\<forall>f \<in> set fs. fnd_scan_id f = scan_id r"
    and alerts: "if status = ''completed'' \<and> has_critical fs \<and> alerts_on b (scan_id r) = []
           then \<exists>e. alerts = [e] \<and> ev_dedup_key e = critical_key (scan_id r) else alerts = []"
  shows "findings_on (close_on (scan_id r) status error_message fs alerts b) sid = (if sid = scan_id r then fs else findings_on b sid)"
    and "alerts_on (close_on (scan_id r) status error_message fs alerts b) sid = alerts_on b sid @ (if sid = scan_id r then alerts else [])"
    and "x' \<in> set (sb_scans (close_on (scan_id r) status error_message fs alerts b))
       \<longleftrightarrow> (x' = close_scan status error_message r \<or> (x' \<in> set (sb_scans b) \<and> scan_id x' \<noteq> scan_id r))"
    and "findings_on b (scan_id r) = []" and "alerts_on b (scan_id r) = []"
    and "x \<in> set (sb_scans b) \<Longrightarrow> scan_id x = scan_id r \<Longrightarrow> x = r"
proof -
  let ?b = "close_on (scan_id r) status error_message fs alerts b"
  have unique: "x = r" if "x \<in> set (sb_scans b)" "scan_id x = scan_id r" for x
    using ok r(1) that unfolding board_ok_def by (meson distinct_map inj_onD)
  then show "x \<in> set (sb_scans b) \<Longrightarrow> scan_id x = scan_id r \<Longrightarrow> x = r" .
  show open_r: "findings_on b (scan_id r) = []" "alerts_on b (scan_id r) = []"
    using ok r by (auto simp: board_ok_def unfinished_def)
  show "findings_on ?b sid = (if sid = scan_id r then fs else findings_on b sid)"
    using open_r(1) fs by (auto simp: findings_on_def close_on_def filter_id_conv filter_empty_conv)
  show "alerts_on ?b sid = alerts_on b sid @ (if sid = scan_id r then alerts else [])"
    using alerts by (auto simp: alerts_on_def close_on_def split: if_splits)
  show "x' \<in> set (sb_scans ?b) \<longleftrightarrow> (x' = close_scan status error_message r \<or> (x' \<in> set (sb_scans b) \<and> scan_id x' \<noteq> scan_id r))"
    using r(1) unique by (auto simp: close_on_def)
qed

lemma close_scan_fields:
  assumes "status \<in> {''completed'', ''failed''}"
  shows "scan_id (close_scan status m r) = scan_id r" "scan_status (close_scan status m r) = status"
    "\<not> unfinished (close_scan status m r)" "scan_app_id (close_scan status m r) = scan_app_id r"
    "scan_callback_token (close_scan status m r) = scan_callback_token r" "status \<in> set SCAN_STATUSES"
  using assms by (auto simp: close_scan_def unfinished_def SCAN_STATUSES_def)

lemma closed_scan_kept:
  assumes ok: "board_ok b" and r: "r \<in> set (sb_scans b)" "unfinished r" and status: "status \<in> {''completed'', ''failed''}"
    and fs: "\<forall>f \<in> set fs. fnd_scan_id f = scan_id r"
    and alerts: "if status = ''completed'' \<and> has_critical fs \<and> alerts_on b (scan_id r) = []
           then \<exists>e. alerts = [e] \<and> ev_dedup_key e = critical_key (scan_id r) else alerts = []"
    and x: "x \<in> set (sb_scans b)"
  shows "\<exists>x' \<in> set (sb_scans (close_on (scan_id r) status error_message fs alerts b)). scan_id x' = scan_id x"
  using closing_effects(3)[OF ok r status fs alerts, of _ error_message] closing_effects(6)[OF ok r status fs alerts] x
    close_scan_fields(1)[OF status, of error_message r] by metis

lemma closed_board_ok:
  assumes ok: "board_ok b" and r: "r \<in> set (sb_scans b)" "unfinished r" and status: "status \<in> {''completed'', ''failed''}"
    and fs: "\<forall>f \<in> set fs. fnd_scan_id f = scan_id r"
    and alerts: "if status = ''completed'' \<and> has_critical fs \<and> alerts_on b (scan_id r) = []
           then \<exists>e. alerts = [e] \<and> ev_dedup_key e = critical_key (scan_id r) else alerts = []"
  shows "board_ok (close_on (scan_id r) status error_message fs alerts b)"
proof -
  let ?b = "close_on (scan_id r) status error_message fs alerts b"
  note effects = closing_effects[OF ok r status fs alerts]
  note findings = effects(1) and new = effects(2) and scans = effects(3) and open_r = effects(4,5) and unique = effects(6)
  note closed = close_scan_fields[OF status]
  note kept = closed_scan_kept[OF ok r status fs alerts]
  have ids: "map scan_id (sb_scans ?b) = map scan_id (sb_scans b)"
    "map scan_callback_token (sb_scans ?b) = map scan_callback_token (sb_scans b)"
    by (auto simp: close_on_def close_scan_def)
  have each: "scan_id x < sb_next ?b \<and> scan_status x \<in> set SCAN_STATUSES \<and> (unfinished x \<longrightarrow> findings_on ?b (scan_id x) = [])
      \<and> length (alerts_on ?b (scan_id x)) = (if scan_status x = ''completed'' \<and> has_critical (findings_on ?b (scan_id x)) then 1 else 0)"
    if "x \<in> set (sb_scans ?b)" for x
  proof (cases "scan_id x = scan_id r")
    case True
    with that scans have x: "x = close_scan status error_message r" by blast
    have "scan_id r < sb_next b" using ok r(1) by (simp add: board_ok_def)
    moreover have "length alerts = (if status = ''completed'' \<and> has_critical fs then 1 else 0)"
      using alerts open_r(2) by (auto split: if_splits)
    ultimately show ?thesis using closed open_r(2) unfolding x findings new by (simp add: close_on_def)
  next
    case False
    have "x \<in> set (sb_scans b)" using that scans[of x] False closed(1) by auto
    with ok False show ?thesis unfolding findings new by (simp add: board_ok_def close_on_def)
  qed
  have owned: "\<exists>x \<in> set (sb_scans ?b). scan_id x = fnd_scan_id f" if "f \<in> set (sb_findings ?b)" for f
  proof -
    have "\<exists>x \<in> set (sb_scans b). scan_id x = fnd_scan_id f"
      using that ok fs r(1) unfolding board_ok_def by (auto simp: close_on_def)
    with kept show ?thesis by metis
  qed
  have about: "\<exists>x \<in> set (sb_scans ?b). ev_dedup_key e = critical_key (scan_id x)" if "e \<in> set (sb_alerts ?b)" for e
  proof -
    have "e \<in> set alerts \<Longrightarrow> ev_dedup_key e = critical_key (scan_id r)" using alerts by (auto split: if_splits)
    then have "\<exists>x \<in> set (sb_scans b). ev_dedup_key e = critical_key (scan_id x)"
      using that ok r(1) unfolding board_ok_def by (auto simp: close_on_def)
    with kept show ?thesis by metis
  qed
  show ?thesis unfolding board_ok_def ids using ok each owned about by (simp add: board_ok_def)
qed

lemma closed_board_grows:
  assumes ok: "board_ok b" and r: "r \<in> set (sb_scans b)" "unfinished r" and status: "status \<in> {''completed'', ''failed''}"
    and fs: "\<forall>f \<in> set fs. fnd_scan_id f = scan_id r"
    and alerts: "if status = ''completed'' \<and> has_critical fs \<and> alerts_on b (scan_id r) = []
           then \<exists>e. alerts = [e] \<and> ev_dedup_key e = critical_key (scan_id r) else alerts = []"
  shows "board_grows b (close_on (scan_id r) status error_message fs alerts b)"
proof -
  let ?b = "close_on (scan_id r) status error_message fs alerts b"
  note effects = closing_effects[OF ok r status fs alerts]
  note findings = effects(1) and new = effects(2) and scans = effects(3) and open_r = effects(4,5) and unique = effects(6)
  note closed = close_scan_fields[OF status]
  show ?thesis unfolding board_grows_def
  proof
    fix x assume x: "x \<in> set (sb_scans b)"
    show "\<exists>x' \<in> set (sb_scans ?b). scan_id x' = scan_id x \<and> scan_app_id x' = scan_app_id x \<and> scan_callback_token x' = scan_callback_token x
        \<and> (\<not> unfinished x \<longrightarrow> x' = x \<and> findings_on ?b (scan_id x) = findings_on b (scan_id x) \<and> alerts_on ?b (scan_id x) = alerts_on b (scan_id x))"
    proof (cases "scan_id x = scan_id r")
      case True
      with x unique have "x = r" by blast
      with r(2) closed scans show ?thesis by (intro bexI[of _ "close_scan status error_message r"]) auto
    next
      case False
      with x scans show ?thesis unfolding findings new by (intro bexI[of _ x]) auto
    qed
  qed
qed

lemma board_step_ok:
  assumes "board_step b b'" and "board_ok b"
  shows "board_ok b' \<and> board_grows b b'"
  using assms
proof cases
  case nothing
  with assms(2) show ?thesis by (simp add: board_grows_refl)
next
  case (opened r)
  with opened_board[OF assms(2) opened(2-4)] show ?thesis by simp
next
  case (closed r status fs alerts error_message)
  with closed_board_ok[OF assms(2) closed(2-6), of error_message] closed_board_grows[OF assms(2) closed(2-6), of error_message]
  show ?thesis by simp
qed

section \<open>Requests\<close>

text \<open>
  The session of a request is closed at its end: what it did not commit is lost. Besides the five routes,
  any other part of the platform may change everything but scans, findings and their alerts.
\<close>

definition end_request :: "('v, 'p) ai_world \<Rightarrow> ('v, 'p) ai_world" where
  "end_request w = w\<lparr>sess := open_session (saved (sess w))\<rparr>"

inductive scan_request :: "('v, 'p) chat_env \<Rightarrow> scan_env \<Rightarrow> ('v, 'p) ai_world \<Rightarrow> ('v, 'p) ai_world \<Rightarrow> bool" for env senv where
  create: "scan_request env senv w (end_request (snd (on_sess
     (create_security_scan (tl_settings (ce_tools env)) senv now token aid ref trigger_ci u) w)))"
| callback: "scan_request env senv w (end_request (snd (on_sess (security_scan_callback now payload x_scan_token) w)))"
| view: "scan_request env senv w (end_request (snd (on_sess (get_security_scan (tl_settings (ce_tools env)) aid sid u) w)))"
| view_all: "scan_request env senv w (end_request (snd (on_sess
     (list_security_scans (tl_settings (ce_tools env)) aid limit offset u) w)))"
| summarize: "scan_request env senv w (end_request (snd (summarize_security_scan env checked now aid sid u w)))"
| elsewhere: "scan_request env senv w (end_request w')" if "board (saved (sess w')) = board (saved (sess w))"

inductive scan_history :: "('v, 'p) chat_env \<Rightarrow> scan_env \<Rightarrow> ('v, 'p) ai_world \<Rightarrow> ('v, 'p) ai_world \<Rightarrow> bool" for env senv w0 where
  start: "scan_history env senv w0 w0"
| request: "scan_history env senv w0 w \<Longrightarrow> scan_request env senv w w' \<Longrightarrow> scan_history env senv w0 w'"

subsection \<open>Programs that leave the board alone\<close>

context audit_blind begin

lemma steady_app_or_404 [keeps_intros]: "keeps (steady part v) (app_or_404 aid)"
  unfolding app_or_404_def by (auto intro!: keeps_intros)

lemma steady_scans_enabled [keeps_intros]: "keeps (steady part v) (scans_enabled flag aid)"
  unfolding scans_enabled_def by (auto intro!: keeps_intros)

lemma steady_scan_or_404 [keeps_intros]: "keeps (steady part v) (scan_or_404 sid aid)"
  unfolding scan_or_404_def by (auto intro!: keeps_intros)

end

interpretation board: usage_blind board
  by unfold_locales (simp_all add: board_def)

abbreviation displays :: "scan_board \<Rightarrow> session \<Rightarrow> bool" where
  "displays b \<equiv> steady board b"

lemma displays_summary:
  "keeps (displays b) (alter_db (update_scan sid (\<lambda>r. r\<lparr>scan_ai_summary_text := x, scan_ai_summarized_at := y\<rparr>)))"
  unfolding alter_db_def
  by (rule keeps_modify) (auto simp: steady_def board_def update_scan_def table_simps core_def update_rows_def)

lemma displays_summarize: "keeps (\<lambda>w. displays b (sess w)) (summarize_security_scan env checked now aid sid u)"
  unfolding summarize_security_scan_def by (intro keeps_intros board.steady_ask displays_summary)

lemma displays_view: "keeps (displays b) (get_security_scan aenv aid sid u)"
  unfolding get_security_scan_def by (auto intro!: keeps_intros)

lemma displays_view_all: "keeps (displays b) (list_security_scans aenv aid limit offset u)"
  unfolding list_security_scans_def by (auto intro!: keeps_intros)

subsection \<open>Programs that make one step\<close>

definition leads :: "scan_board \<Rightarrow> session \<Rightarrow> bool" where
  "leads b s \<longleftrightarrow> board_step b (board (saved s))"

lemma displays_leads: "displays b s \<Longrightarrow> leads b s"
  by (auto simp: steady_def leads_def intro: board_step.nothing)

lemma create_scan_leads:
  assumes "displays b s" and "board_ok b"
  shows "leads b (snd (create_scan senv now token a ref u trigger_ci s))"
proof -
  let ?r = "new_scan now token a ref u (seq (security_scans (db s)))"
  let ?t = "insert_row (new_scan now token a ref u) (security_scans (db s))"
  let ?p = "if trigger_ci \<and> truthy_id (app_gitlab_project_id a) \<and> has_bot_token senv then trigger_pipeline senv a ref ?r else None"
  let ?f = "\<lambda>r. if truthy_id ?p then r\<lparr>scan_gitlab_pipeline_id := ?p, scan_status := ''running''\<rparr> else r"
  show ?thesis
  proof (cases "unique_on scan_callback_token ?t")
    case False
    then have "saved (snd (create_scan senv now token a ref u trigger_ci s)) = saved s"
      by (simp add: create_scan_def prog_simps alter_db_def flush_scans_def)
    with displays_leads[OF assms(1)] show ?thesis by (simp add: leads_def)
  next
    case True
    have run: "board (saved (snd (create_scan senv now token a ref u trigger_ci s)))
        = (board (db s))\<lparr>sb_scans := map core (rows (update_rows (\<lambda>r. scan_id r = scan_id ?r) ?f ?t)), sb_next := sb_next (board (db s)) + 1\<rparr>"
      using True by (simp add: create_scan_def prog_simps alter_db_def flush_scans_def log_action_def commit_def Let_def
          update_scan_def board_def) (simp add: insert_row_def update_rows_def)
    have b: "b = board (db s)" using assms(1) by (simp add: steady_def)
    have old: "\<forall>x \<in> set (rows (security_scans (db s))). scan_id x \<noteq> seq (security_scans (db s))"
      using assms(2) by (auto simp: board_ok_def b board_def core_def)
    have "map core (rows (update_rows (\<lambda>r. scan_id r = scan_id ?r) ?f ?t)) = sb_scans b @ [core (?f ?r)]"
      using old by (auto simp: table_simps b board_def new_scan_def insert_row_def update_rows_def core_def)
    with run have "board (saved (snd (create_scan senv now token a ref u trigger_ci s))) = open_scan (core (?f ?r)) b"
      by (simp add: open_scan_def b)
    moreover have "scan_callback_token (core (?f ?r)) \<notin> scan_callback_token ` set (sb_scans b)"
      using True by (auto simp: unique_on_def table_simps b board_def core_def new_scan_def image_image)
    moreover have "scan_id (core (?f ?r)) = sb_next b" "unfinished (core (?f ?r))"
      by (simp_all add: b board_def core_def new_scan_def unfinished_def)
    ultimately show ?thesis unfolding leads_def using board_step.opened by metis
  qed
qed

lemma create_leads:
  assumes "displays b s" and "board_ok b"
  shows "leads b (snd (create_security_scan aenv senv now token aid ref trigger_ci u s))"
proof -
  note step = bnd_final[where P = "displays b" and Q = "leads b"]
  note ends = displays_leads create_scan_leads[OF _ assms(2)]
  show ?thesis unfolding create_security_scan_def
    by (rule step, rule board.steady_require_tier, erule ends(1), rule step, rule board.steady_require_ai_enabled, erule ends(1),
        rule step, rule board.steady_app_or_404, erule ends(1), rule step, rule board.steady_scans_enabled, erule ends(1),
        erule ends(2), assumption+, rule assms(1))
qed

lemma store_findings_rows:
  "\<exists>new. rows (store_findings sid fs t) = rows t @ new \<and> (\<forall>f \<in> set new. fnd_scan_id f = sid)
     \<and> map fnd_severity new = map fi_severity fs"
proof (induction fs arbitrary: t)
  case (Cons f fs)
  obtain new where "rows (store_findings sid fs (insert_row (new_finding sid f) t)) = rows (insert_row (new_finding sid f) t) @ new"
    "\<forall>f \<in> set new. fnd_scan_id f = sid" "map fnd_severity new = map fi_severity fs" using Cons by blast
  then show ?case
    by (intro exI[of _ "new_finding sid f (seq t) # new"]) (simp add: store_findings_def table_simps new_finding_def)
qed (simp add: store_findings_def)

lemma critical_findings: "map fnd_severity new = map fi_severity fs \<Longrightarrow> has_critical new \<longleftrightarrow> critical_count fs > 0"
proof -
  assume "map fnd_severity new = map fi_severity fs"
  then have "''critical'' \<in> set (map fnd_severity new) \<longleftrightarrow> ''critical'' \<in> set (map fi_severity fs)" by simp
  moreover have "has_critical new \<longleftrightarrow> ''critical'' \<in> set (map fnd_severity new)" by (force simp: has_critical_def)
  moreover have "critical_count fs > 0 \<longleftrightarrow> ''critical'' \<in> set (map fi_severity fs)"
    by (force simp: critical_count_def filter_empty_conv)
  ultimately show ?thesis by blast
qed

lemma notify_critical_board:
  "sb_alerts (board (notify_critical now scan n d)) =
     sb_alerts (board d) @ (if alerts_on (board d) (scan_id scan) = [] then [critical_event now scan n (seq (events d))] else [])"
  "sb_scans (board (notify_critical now scan n d)) = sb_scans (board d)"
  "sb_next (board (notify_critical now scan n d)) = sb_next (board d)"
  "sb_findings (board (notify_critical now scan n d)) = sb_findings (board d)"
proof -
  have none: "find_row (\<lambda>e. ev_dedup_key e = critical_key (scan_id scan)) (events d) = None \<longleftrightarrow> alerts_on (board d) (scan_id scan) = []"
    by (auto simp: find_row_None alerts_on_def board_def filter_empty_conv is_scan_alert_def)
  have alert: "is_scan_alert (critical_event now scan n i)" for i by (simp add: is_scan_alert_def critical_event_def)
  show "sb_alerts (board (notify_critical now scan n d)) =
     sb_alerts (board d) @ (if alerts_on (board d) (scan_id scan) = [] then [critical_event now scan n (seq (events d))] else [])"
    using none alert by (auto simp: notify_critical_def Let_def board_def table_simps)
qed (simp_all add: notify_critical_def Let_def board_def)

lemma callback_leads:
  assumes "displays b s" and "board_ok b"
  shows "leads b (snd (security_scan_callback now payload tok s))"
proof (cases "truthy_str tok \<and> (\<exists>scan. get_scan_by_token (scp_scan_id payload) (the tok) (db s) = Some scan
      \<and> scan_status scan \<in> {''queued'', ''running''}) \<and> scp_status payload \<in> {''completed'', ''failed''}")
  case False
  then have "snd (security_scan_callback now payload tok s) = s"
    by (auto simp: security_scan_callback_def prog_simps split: option.splits if_splits)
  with displays_leads[OF assms(1)] show ?thesis by simp
next
  case True
  then obtain scan where scan: "get_scan_by_token (scp_scan_id payload) (the tok) (db s) = Some scan"
    "scan_status scan \<in> {''queued'', ''running''}" by blast
  let ?sid = "scan_id scan" and ?st = "scp_status payload" and ?fs = "scp_findings payload" and ?e = "scp_error_message payload"
  obtain new where new: "rows (store_findings ?sid ?fs (security_findings (db s))) = rows (security_findings (db s)) @ new"
    "\<forall>f \<in> set new. fnd_scan_id f = ?sid" "map fnd_severity new = map fi_severity ?fs" using store_findings_rows by blast
  let ?d1 = "(update_scan ?sid (close_scan ?st ?e) (db s))\<lparr>security_findings := store_findings ?sid ?fs (security_findings (db s))\<rparr>"
  let ?d2 = "if ?st = ''completed'' \<and> critical_count ?fs > 0 then notify_critical now scan (critical_count ?fs) ?d1 else ?d1"
  have "truthy_str tok" "?st \<in> {''completed'', ''failed''}" using True by blast+
  with scan have run: "saved (snd (security_scan_callback now payload tok s)) = ?d2"
    by (auto simp: security_scan_callback_def apply_callback_def alter_db_def prog_simps commit_def update_scan_def)
  have b: "b = board (db s)" using assms(1) by (simp add: steady_def)
  have r: "core scan \<in> set (sb_scans b)" "unfinished (core scan)" "scan_id (core scan) = ?sid"
    using scan find_row_Some[OF scan(1)[unfolded get_scan_by_token_def]] by (auto simp: b board_def unfinished_def core_def)
  have d1: "sb_scans (board ?d1) = map (\<lambda>x. if scan_id x = ?sid then close_scan ?st ?e x else x) (sb_scans b)"
    "sb_next (board ?d1) = sb_next b" "sb_findings (board ?d1) = sb_findings b @ new" "sb_alerts (board ?d1) = sb_alerts b"
    using new(1) by (auto simp: board_def update_scan_def table_simps core_def close_scan_def b) (simp add: update_rows_def)
  let ?alerts = "if ?st = ''completed'' \<and> critical_count ?fs > 0 \<and> alerts_on b ?sid = []
      then [critical_event now scan (critical_count ?fs) (seq (events ?d1))] else []"
  have same: "alerts_on (board ?d1) ?sid = alerts_on b ?sid" by (simp add: alerts_on_def d1(4))
  have "board ?d2 = close_on ?sid ?st ?e new ?alerts b"
    using d1 same notify_critical_board[of now scan "critical_count ?fs" ?d1]
    by (intro scan_board.equality) (auto simp: close_on_def)
  moreover have "board_step b (close_on (scan_id (core scan)) ?st ?e new ?alerts b)"
  proof (rule board_step.closed[OF r(1,2)])
    show "?st \<in> {''completed'', ''failed''}" using True by blast
    show "\<forall>f \<in> set new. fnd_scan_id f = scan_id (core scan)" using new(2) r(3) by simp
    show "if ?st = ''completed'' \<and> has_critical new \<and> alerts_on b (scan_id (core scan)) = []
        then \<exists>e. ?alerts = [e] \<and> ev_dedup_key e = critical_key (scan_id (core scan)) else ?alerts = []"
      using r(3) critical_findings[OF new(3)] by (simp add: critical_event_def)
  qed
  ultimately show ?thesis unfolding leads_def run using r(3) by metis
qed

lemma requests_step:
  assumes "scan_request env senv w w'" and "sess w = open_session d" and "board_ok (board d)"
  shows "board_step (board d) (board (db (sess w'))) \<and> sess w' = open_session (db (sess w'))"
proof -
  let ?b = "board d"
  have s: "displays ?b (sess w)" using assms(2) by (simp add: steady_def open_session_def)
  have clean: "sess (end_request w1) = open_session (saved (sess w1))" for w1 :: "('a, 'b) ai_world" by (simp add: end_request_def)
  have goal: "board_step ?b (board (db (sess w'))) \<and> sess w' = open_session (db (sess w'))"
    if "w' = end_request w1" and "leads ?b (sess w1)" for w1
    using that clean[of w1] by (simp add: leads_def open_session_def)
  have snd_on_sess: "sess (snd (on_sess m w)) = snd (m (sess w))" for m :: "(session, 'c) prog" by (simp add: on_sess_apply)
  from assms(1) show ?thesis
  proof cases
    case (create now token aid ref trigger_ci u)
    from goal[OF create] create_leads[OF s assms(3)] show ?thesis by (simp add: on_sess_apply)
  next
    case (callback now payload x_scan_token)
    from goal[OF callback] callback_leads[OF s assms(3)] show ?thesis by (simp add: on_sess_apply)
  next
    case (view aid sid u)
    from goal[OF view] displays_leads[OF keepsD[OF displays_view s]] show ?thesis by (simp add: on_sess_apply)
  next
    case (view_all aid limit offset u)
    from goal[OF view_all] displays_leads[OF keepsD[OF displays_view_all s]] show ?thesis by (simp add: on_sess_apply)
  next
    case (summarize checked now aid sid u)
    from goal[OF summarize] displays_leads[OF keepsD[OF displays_summarize s]] show ?thesis by simp
  next
    case (elsewhere w1)
    have "board (saved (sess w1)) = ?b" using elsewhere(2) assms(2) by (simp add: open_session_def)
    with goal[OF elsewhere(1)] show ?thesis by (simp add: leads_def board_step.nothing)
  qed
qed



section \<open>A scan from its creation to its alert\<close>

definition demo_chat_env :: "((string \<times> dict) list, unit) chat_env" where
  "demo_chat_env =
     \<lparr>ce_tools = demo_tool_env,
      ce_complete = (\<lambda>_ messages _ _ p. (Inr (complete_mock ''hello'' messages), p)),
      fmt_price = string_of_int, fmt_minute = string_of_int, AI_PLATFORM_KB_PRIMER_PATHS = [],
      AI_BASE_URL = ''https://api.deepseek.com'', fresh_id = ''c-1''\<rparr>"

definition demo_scan_env :: scan_env where
  "demo_scan_env = \<lparr>has_bot_token = False, trigger_scan_pipeline = (\<lambda>_ _ _. Inr None), BACKEND_URL = ''https://cnp''\<rparr>"

definition scans_db :: database where
  "scans_db = team_apps_db\<lparr>ai_app_rows := \<lparr>rows = [(new_app_settings 1)\<lparr>aas_ai_security_scan_enabled := True\<rparr>], seq = 2\<rparr>\<rparr>"

definition scans_world :: "((string \<times> dict) list, unit) ai_world" where
  "scans_world = \<lparr>sess = open_session scans_db, vault = [], llm = ()\<rparr>"

definition scan_report :: "string \<Rightarrow> scan_callback_payload" where
  "scan_report severity =
     \<lparr>scp_scan_id = 1, scp_status = ''completed'',
      scp_findings = [\<lparr>fi_tool = ''trivy'', fi_severity = severity, fi_title = ''CVE'', fi_description = None, fi_file_path = None,
        fi_line_start = None, fi_line_end = None, fi_confidence = None, fi_remediation = None\<rparr>], scp_error_message = None\<rparr>"

definition scan_created :: "((string \<times> dict) list, unit) ai_world" where
  "scan_created = end_request (snd (on_sess
     (create_security_scan (tl_settings (ce_tools demo_chat_env)) demo_scan_env 5 ''t0k3n'' 1 ''main'' False alice) scans_world))"

definition scan_closed :: "((string \<times> dict) list, unit) ai_world" where
  "scan_closed = end_request (snd (on_sess (security_scan_callback 9 (scan_report ''critical'') (Some ''t0k3n'')) scan_created))"

lemma created_request: "scan_request demo_chat_env demo_scan_env scans_world scan_created"
  unfolding scan_created_def by (rule scan_request.create)

lemma closed_request: "scan_request demo_chat_env demo_scan_env scan_created scan_closed"
  unfolding scan_closed_def by (rule scan_request.callback)

lemma scans_world_empty:
  "sb_scans (board scans_db) = []" "sb_findings (board scans_db) = []" "sb_alerts (board scans_db) = []"
  by (simp_all add: board_def scans_db_def team_apps_db_def team_db_def empty_database_def empty_table_def)



text \<open>
  The callback stores any severity; the response model of a scan knows five. A report with another one
  is accepted, and the scan can never be read again.
\<close>

lemma unknown_severity_makes_the_scan_unreadable:
  "fst (security_scan_callback 9 (scan_report ''UNKNOWN'') (Some ''t0k3n'') (sess scan_created)) = Inr 1
   \<and> fst (get_security_scan demo_ai_env 1 1 alice (snd (security_scan_callback 9 (scan_report ''UNKNOWN'') (Some ''t0k3n'') (sess scan_created))))
     = Inl ValueError"
  by code_simp

end
