(* ===== verification/Assistant_Limits.thy ===== *)
theory Assistant_Limits
  imports Scan_Lifecycle
begin

text \<open>
  What the limits of backend/services/ai_limits_service.py bound: the records of usage that any sequence
  of questions and summaries leaves, whoever asks and whatever the model answers. A record is dated by the
  database; the instant of the check may be later than that date by at most \<open>slack\<close> seconds, since
  PostgreSQL dates a row by the start of its transaction.
\<close>

section \<open>What a question records\<close>

definition costs :: "ai_usage_record list \<Rightarrow> int" where
  "costs rs = sum_list (map (\<lambda>r. opt_or (aur_estimated_cost_usd r) 0) rs)"

text \<open>The check, as a function of the records alone.\<close>

definition admits :: "ai_env \<Rightarrow> int \<Rightarrow> int \<Rightarrow> ai_usage_record list \<Rightarrow> bool" where
  "admits env now uid rs \<longleftrightarrow>
     (AI_USER_REQUESTS_PER_MINUTE env > 0 \<longrightarrow>
        length (filter (\<lambda>r. aur_user_id r = Some uid \<and> aur_created_at r \<ge> now - 60) rs) < AI_USER_REQUESTS_PER_MINUTE env)
     \<and> (AI_USER_REQUESTS_PER_DAY env > 0 \<longrightarrow>
        length (filter (\<lambda>r. aur_user_id r = Some uid \<and> aur_created_at r \<ge> day_start now) rs) < AI_USER_REQUESTS_PER_DAY env)
     \<and> (AI_DAILY_BUDGET_USD env > 0 \<longrightarrow> costs (filter (\<lambda>r. aur_created_at r \<ge> day_start now) rs) < AI_DAILY_BUDGET_USD env)"

lemma check_admits: "check env now u d \<longleftrightarrow> admits env now (usr_id u) (rows (ai_usage_records d))"
  by (auto simp: check_def admits_def count_since_def spent_today_usd_def spent_since_def costs_def select_rows_def not_less)

text \<open>Either nothing is recorded, or one admitted question of the user.\<close>

definition recorded :: "ai_env \<Rightarrow> int \<Rightarrow> int \<Rightarrow> int \<Rightarrow> ai_usage_record list \<Rightarrow> ai_usage_record list \<Rightarrow> bool" where
  "recorded env checked now uid rs rs' \<longleftrightarrow>
     rs' = rs \<or> admits env checked uid rs \<and> (\<exists>r. rs' = rs @ [r] \<and> aur_user_id r = Some uid \<and> aur_created_at r = now)"

text \<open>The state after a request, or after a part of one: what was recorded is also committed.\<close>

definition asked :: "ai_env \<Rightarrow> int \<Rightarrow> int \<Rightarrow> int \<Rightarrow> ai_usage_record list \<Rightarrow> session \<Rightarrow> bool" where
  "asked env checked now uid rs s \<longleftrightarrow> (\<exists>t. steady ai_usage_records t s \<and> recorded env checked now uid rs (rows t))"

lemma asked_steady: "steady ai_usage_records t s \<Longrightarrow> asked env checked now uid (rows t) s"
  by (auto simp: asked_def recorded_def)

lemma keeps_asked: "(\<And>t. keeps (steady ai_usage_records t) m) \<Longrightarrow> keeps (asked env checked now uid rs) m"
  unfolding keeps_def asked_def by blast

lemma record_usage_asked:
  assumes "steady ai_usage_records t s" and "admits env checked (usr_id (q_user q)) (rows t)"
  shows "asked env checked (q_now q) (usr_id (q_user q)) (rows t) (snd (record_usage p q resp cost s))"
  using assms by (auto simp: record_usage_def prog_simps commit_def asked_def recorded_def steady_def table_simps)

lemma chat_asked:
  assumes "steady ai_usage_records t (sess w)" and "admits env checked (usr_id (q_user q)) (rows t)"
  shows "asked env checked (q_now q) (usr_id (q_user q)) (rows t) (sess (snd (chat as q w)))"
proof -
  define Q where "Q = (\<lambda>w :: ('a, 'b) ai_world. asked env checked (q_now q) (usr_id (q_user q)) (rows t) (sess w))"
  note step = bnd_final[where P = "\<lambda>w. steady ai_usage_records t (sess w)" and Q = Q]
  have stop: "steady ai_usage_records t (sess w) \<Longrightarrow> Q w" for w by (simp add: Q_def asked_steady)
  have final: "steady ai_usage_records t (sess w) \<Longrightarrow> Q (snd (bnd (on_sess (record_usage p q resp cost)) (\<lambda>_. ret a) w))" for p resp cost a w
  proof -
    assume s: "steady ai_usage_records t (sess w)"
    have "fst (record_usage p q resp cost (sess w)) = Inr ()" by (simp add: record_usage_def prog_simps)
    then have "sess (snd (bnd (on_sess (record_usage p q resp cost)) (\<lambda>_. ret a) w)) = snd (record_usage p q resp cost (sess w))"
      by (simp add: prog_simps split: sum.split prod.split)
    with record_usage_asked[OF s assms(2), of p resp cost] show ?thesis unfolding Q_def by simp
  qed
  have "Q (snd (chat as q w))"
    unfolding chat_def Let_def split_def
    by (rule step, intro keeps_intros, erule stop, rule step, intro keeps_intros consumption.steady_run_model, erule stop,
        rule step, intro keeps_intros, erule stop, erule final, assumption+, rule assms)
  then show ?thesis unfolding Q_def .
qed

lemma ask_asked:
  assumes "steady ai_usage_records t (sess w)" and "q_now q = now" and "usr_id (q_user q) = uid"
  shows "asked (tl_settings (ce_tools env)) checked now uid (rows t) (sess (snd (ask env checked cfg q w)))"
proof (cases "check (tl_settings (ce_tools env)) checked (q_user q) (db (sess w))")
  case False
  then have "snd (ask env checked cfg q w) = w"
    by (simp add: ask_def check_limits_def prog_simps)
  with asked_steady[OF assms(1)] show ?thesis by simp
next
  case True
  then have ok: "admits (tl_settings (ce_tools env)) checked (usr_id (q_user q)) (rows t)"
    using assms(1) by (simp add: check_admits steady_def)
  have run: "ask env checked cfg q w = bnd (lift_result (build_assistant env cfg)) (\<lambda>as. chat_or_error as q) w"
    using True by (simp add: ask_def check_limits_def prog_simps)
  have same: "snd (chat_or_error as q w) = snd (chat as q w)" for as
    by (cases "chat as q w") (auto simp: chat_or_error_def prog_simps split: sum.split exc.split)
  show ?thesis
  proof (cases "build_assistant env cfg")
    case (Inl e)
    with asked_steady[OF assms(1)] show ?thesis by (simp add: run prog_simps)
  next
    case (Inr as)
    have "snd (ask env checked cfg q w) = snd (chat as q w)" by (simp add: run prog_simps Inr same)
    with chat_asked[OF assms(1) ok, of as] assms(2,3) show ?thesis by simp
  qed
qed

section \<open>Requests\<close>

datatype assistant_request =
    Ask_app int int int chat_payload user
  | Ask_global int int chat_payload user
  | Summarize int int int int user

fun asker :: "assistant_request \<Rightarrow> int" where
  "asker (Ask_app _ _ _ _ u) = usr_id u"
| "asker (Ask_global _ _ _ u) = usr_id u"
| "asker (Summarize _ _ _ _ u) = usr_id u"

text \<open>The instant of the check, and the date of the record.\<close>

fun checked_at :: "assistant_request \<Rightarrow> int" where
  "checked_at (Ask_app checked _ _ _ _) = checked"
| "checked_at (Ask_global checked _ _ _) = checked"
| "checked_at (Summarize checked _ _ _ _) = checked"

fun dated :: "assistant_request \<Rightarrow> int" where
  "dated (Ask_app _ now _ _ _) = now"
| "dated (Ask_global _ now _ _) = now"
| "dated (Summarize _ now _ _ _) = now"

fun serve :: "('v, 'p) chat_env \<Rightarrow> assistant_request \<Rightarrow> ('v, 'p) ai_world \<Rightarrow> ('v, 'p) ai_world" where
  "serve env (Ask_app checked now aid payload u) w = end_request (snd (chat_with_app env checked now aid payload u w))"
| "serve env (Ask_global checked now payload u) w = end_request (snd (chat_global env checked now payload u w))"
| "serve env (Summarize checked now aid sid u) w = end_request (snd (summarize_security_scan env checked now aid sid u w))"

text \<open>The user a tier dependency answers is the one who asked.\<close>

lemma require_tier_answers: "require_tier m raw u s = (Inr u', s') \<Longrightarrow> u' = u"
  by (auto simp: require_tier_def prog_simps log_action_def split: if_splits option.splits)

text \<open>What comes before \<open>ask\<close> records nothing; what comes after it only changes scans.\<close>

lemma bnd_on_sess_value:
  assumes "keeps P m" and "P (sess w)" and "\<And>s. P s \<Longrightarrow> Q s"
    and "\<And>x w' s s'. m s = (Inr x, s') \<Longrightarrow> P (sess w') \<Longrightarrow> Q (sess (snd (k x w')))"
  shows "Q (sess (snd (bnd (on_sess m) k w)))"
proof -
  obtain r s1 where m: "m (sess w) = (r, s1)" by fastforce
  with assms(1,2) have s1: "P s1" by (metis keepsD snd_conv)
  show ?thesis
  proof (cases r)
    case (Inl e)
    with m s1 assms(3) show ?thesis by (simp add: prog_simps)
  next
    case (Inr x)
    with m s1 assms(4)[of "sess w" x s1 "w\<lparr>sess := s1\<rparr>"] show ?thesis by (simp add: prog_simps)
  qed
qed

lemma bnd_after:
  assumes "Q (sess (snd (m w)))" and "\<And>x. keeps (\<lambda>w. Q (sess w)) (k x)"
  shows "Q (sess (snd (bnd m k w)))"
  using assms by (cases "m w") (auto simp: prog_simps keeps_def split: sum.split)

lemma chat_with_app_asked:
  assumes "steady ai_usage_records t (sess w)"
  shows "asked (tl_settings (ce_tools env)) checked now (usr_id u) (rows t) (sess (snd (chat_with_app env checked now aid payload u w)))"
  unfolding chat_with_app_def
  by (rule bnd_on_sess_value[OF consumption.steady_require_tier assms asked_steady], assumption, drule require_tier_answers, hypsubst,
      rule bnd_on_sess_value[OF consumption.steady_require_ai_enabled _ asked_steady], assumption, assumption)
    (auto simp: prog_simps asked_steady intro!: ask_asked split: option.split)

lemma chat_global_asked:
  assumes "steady ai_usage_records t (sess w)"
  shows "asked (tl_settings (ce_tools env)) checked now (usr_id u) (rows t) (sess (snd (chat_global env checked now payload u w)))"
  unfolding chat_global_def
  by (rule bnd_on_sess_value[OF consumption.steady_require_ai_enabled assms asked_steady], assumption, rule ask_asked) simp_all

lemma steady_summary: "keeps (steady ai_usage_records t) (alter_db (update_scan sid f))"
  unfolding alter_db_def by (rule keeps_modify) (simp add: steady_def update_scan_def)

lemma summarize_asked:
  assumes "steady ai_usage_records t (sess w)"
  shows "asked (tl_settings (ce_tools env)) checked now (usr_id u) (rows t) (sess (snd (summarize_security_scan env checked now aid sid u w)))"
proof -
  have rest: "keeps (\<lambda>w :: ('a, 'b) ai_world. asked (tl_settings (ce_tools env)) checked now (usr_id u) (rows t) (sess w))
     (bnd (on_sess (alter_db (update_scan sid f))) (\<lambda>_. bnd (on_sess (modify commit)) (\<lambda>_.
      bnd (on_sess (log_action uid ''security_scan.ai_summarized'' (Some aid))) (\<lambda>_. bnd (on_sess (modify commit)) (\<lambda>_. ret a)))))" for f uid a
    by (intro keeps_intros keeps_asked steady_summary)
  have found: "bnd (gets f) k w = k (f w) w" for f k and w :: "('a, 'b) ai_world"
    by (simp add: prog_simps)
  show ?thesis
    unfolding summarize_security_scan_def
    by (rule bnd_on_sess_value[OF consumption.steady_require_tier assms asked_steady], assumption, drule require_tier_answers, hypsubst,
        rule bnd_on_sess_value[OF consumption.steady_require_ai_enabled _ asked_steady], assumption, assumption,
        rule bnd_on_sess_value[OF consumption.steady_app_or_404 _ asked_steady], assumption, assumption,
        rule bnd_on_sess_value[OF consumption.steady_scans_enabled _ asked_steady], assumption, assumption,
        rule bnd_on_sess_value[OF consumption.steady_scan_or_404 _ asked_steady], assumption, assumption)
      (auto simp: found asked_steady raise_apply intro!: bnd_after[where Q = "asked (tl_settings (ce_tools env)) checked now (usr_id u) (rows t)"] ask_asked rest)
qed

lemma serve_asked:
  assumes "sess w = open_session d" and "rows (ai_usage_records d) = rs"
  shows "\<exists>d'. sess (serve env q w) = open_session d'
           \<and> recorded (tl_settings (ce_tools env)) (checked_at q) (dated q) (asker q) rs (rows (ai_usage_records d'))"
proof -
  have s: "steady ai_usage_records (ai_usage_records d) (sess w)" using assms(1) by (simp add: steady_def open_session_def)
  have "asked (tl_settings (ce_tools env)) c n u rs (sess w1) \<Longrightarrow>
      \<exists>d'. sess (end_request w1) = open_session d' \<and> recorded (tl_settings (ce_tools env)) c n u rs (rows (ai_usage_records d'))"
    for c n u and w1 :: "('a, 'b) ai_world"
    by (auto simp: asked_def steady_def end_request_def)
  with chat_with_app_asked[OF s] chat_global_asked[OF s] summarize_asked[OF s] assms(2) show ?thesis
    by (cases q) auto
qed

section \<open>What the limits promise\<close>

text \<open>The records of a stretch of time, all users' or one user's.\<close>

definition between :: "int \<Rightarrow> int \<Rightarrow> ai_usage_record list \<Rightarrow> ai_usage_record list" where
  "between a b rs = filter (\<lambda>r. a \<le> aur_created_at r \<and> aur_created_at r < b) rs"

definition of_user :: "int \<Rightarrow> ai_usage_record list \<Rightarrow> ai_usage_record list" where
  "of_user uid rs = filter (\<lambda>r. aur_user_id r = Some uid) rs"

definition within_limits :: "ai_env \<Rightarrow> int \<Rightarrow> ai_usage_record list \<Rightarrow> bool" where
  "within_limits env slack rs \<longleftrightarrow>
     (AI_USER_REQUESTS_PER_MINUTE env > 0 \<longrightarrow>
        (\<forall>uid a. length (between a (a + 60 - slack) (of_user uid rs)) \<le> AI_USER_REQUESTS_PER_MINUTE env))
     \<and> (AI_USER_REQUESTS_PER_DAY env > 0 \<longrightarrow>
        (\<forall>uid day. length (between (86400 * day) (86400 * (day + 1) - slack) (of_user uid rs)) \<le> AI_USER_REQUESTS_PER_DAY env))
     \<and> (AI_DAILY_BUDGET_USD env > 0 \<and> (\<forall>r \<in> set rs. opt_or (aur_estimated_cost_usd r) 0 \<ge> 0) \<longrightarrow>
        (\<forall>day r rs'. between (86400 * day) (86400 * (day + 1) - slack) rs = rs' @ [r] \<longrightarrow> costs rs' < AI_DAILY_BUDGET_USD env))"

lemma between_snoc: "between a b (rs @ [r]) = between a b rs @ (if a \<le> aur_created_at r \<and> aur_created_at r < b then [r] else [])"
  by (simp add: between_def)

lemma of_user_snoc: "of_user uid (rs @ [r]) = of_user uid rs @ (if aur_user_id r = Some uid then [r] else [])"
  by (simp add: of_user_def)

lemma between_since: "a' \<le> a \<Longrightarrow> length (between a b (of_user uid rs)) \<le> length (filter (\<lambda>r. aur_user_id r = Some uid \<and> aur_created_at r \<ge> a') rs)"
  by (induction rs) (auto simp: between_def of_user_def)

lemma between_costs:
  "a' \<le> a \<Longrightarrow> \<forall>r \<in> set rs. opt_or (aur_estimated_cost_usd r) 0 \<ge> 0 \<Longrightarrow>
   costs (between a b rs) \<le> costs (filter (\<lambda>r. aur_created_at r \<ge> a') rs)"
  by (induction rs) (auto simp: between_def costs_def)

lemma day_start_before: "n < 86400 * (day + 1) \<Longrightarrow> day_start n \<le> 86400 * day"
proof -
  assume n: "n < 86400 * (day + 1)"
  have "k < d" if "86400 * k + m = n'" "0 \<le> m" "n' < 86400 * d" for k m n' d :: int
    using that by linarith
  from this[OF mult_div_mod_eq[of 86400 n] _ n] have "n div 86400 < day + 1" by simp
  then show "day_start n \<le> 86400 * day" by (simp add: day_start_def minus_mod_eq_mult_div)
qed

text \<open>An admitted record keeps every window within its limit: the check saw the rest of the window.\<close>

lemma recorded_within_limits:
  assumes "within_limits env slack rs" and "recorded env checked now uid rs rs'" and "checked \<le> now + slack"
  shows "within_limits env slack rs'"
proof (cases "rs' = rs")
  case True
  with assms(1) show ?thesis by simp
next
  case False
  with assms(2) obtain r where r: "rs' = rs @ [r]" "aur_user_id r = Some uid" "aur_created_at r = now" and ok: "admits env checked uid rs"
    by (auto simp: recorded_def)
  have minute: "length (between a (a + 60 - slack) (of_user v rs')) \<le> AI_USER_REQUESTS_PER_MINUTE env"
    if "AI_USER_REQUESTS_PER_MINUTE env > 0" for v a
  proof (cases "v = uid \<and> a \<le> now \<and> now < a + 60 - slack")
    case True
    then have "checked - 60 \<le> a" using assms(3) by simp
    from between_since[OF this, of "a + 60 - slack" uid rs] ok that True r show ?thesis
      by (simp add: admits_def between_snoc of_user_snoc)
  next
    case False
    with assms(1) that r show ?thesis by (auto simp: within_limits_def between_snoc of_user_snoc)
  qed
  have daily: "length (between (86400 * day) (86400 * (day + 1) - slack) (of_user v rs')) \<le> AI_USER_REQUESTS_PER_DAY env"
    if "AI_USER_REQUESTS_PER_DAY env > 0" for v day
  proof (cases "v = uid \<and> 86400 * day \<le> now \<and> now < 86400 * (day + 1) - slack")
    case True
    then have "day_start checked \<le> 86400 * day" using assms(3) by (intro day_start_before) simp
    from between_since[OF this, of "86400 * (day + 1) - slack" uid rs] ok that True r show ?thesis
      by (simp add: admits_def between_snoc of_user_snoc)
  next
    case False
    with assms(1) that r show ?thesis by (auto simp: within_limits_def between_snoc of_user_snoc)
  qed
  have budget: "costs ws < AI_DAILY_BUDGET_USD env"
    if "AI_DAILY_BUDGET_USD env > 0" "\<forall>r \<in> set rs'. opt_or (aur_estimated_cost_usd r) 0 \<ge> 0"
      "between (86400 * day) (86400 * (day + 1) - slack) rs' = ws @ [x]" for day ws x
  proof (cases "86400 * day \<le> now \<and> now < 86400 * (day + 1) - slack")
    case True
    then have "day_start checked \<le> 86400 * day" using assms(3) by (intro day_start_before) simp
    moreover have "between (86400 * day) (86400 * (day + 1) - slack) rs = ws" using that(3) True r by (simp add: between_snoc)
    ultimately show ?thesis
      using between_costs[of "day_start checked" "86400 * day" rs "86400 * (day + 1) - slack"] ok that(1,2) r(1)
      by (simp add: admits_def)
  next
    case False
    then have "between (86400 * day) (86400 * (day + 1) - slack) rs = ws @ [x]" using that(3) r by (auto simp: between_snoc split: if_splits)
    with assms(1) that(1,2) r(1) show ?thesis unfolding within_limits_def by auto
  qed
  from minute daily budget show ?thesis unfolding within_limits_def by blast
qed

text \<open>
  C3: Whatever questions and summaries are asked one after the other, by any users, of any model, from
  the first day on: in no window of a minute has a user more recorded questions than the limit of the
  minute, on no day more than the limit of the day, and the questions of a day stay under the budget but for
  the last one, which exceeds it (costs being non-negative). \<open>slack\<close> bounds how much later than the date of
  its record a question is checked, and is what the windows lose.
\<close>

theorem limits_bound_consumption:
  assumes "\<forall>q \<in> set qs. checked_at q \<le> dated q + slack"
    and "sess w = open_session d" and "rows (ai_usage_records d) = []"
  shows "within_limits (tl_settings (ce_tools env)) slack (rows (ai_usage_records (db (sess (fold (serve env) qs w)))))"
proof -
  have run: "within_limits (tl_settings (ce_tools env)) slack (rows (ai_usage_records (db (sess (fold (serve env) qs w)))))"
    if "sess w = open_session d" and "within_limits (tl_settings (ce_tools env)) slack (rows (ai_usage_records d))" for w d
    using that assms(1)
  proof (induction qs arbitrary: w d)
    case Nil
    then show ?case by (simp add: open_session_def)
  next
    case (Cons q qs)
    obtain d' where d': "sess (serve env q w) = open_session d'"
      "recorded (tl_settings (ce_tools env)) (checked_at q) (dated q) (asker q) (rows (ai_usage_records d)) (rows (ai_usage_records d'))"
      using serve_asked[OF Cons.prems(1) refl] by blast
    from recorded_within_limits[OF Cons.prems(2) d'(2)] Cons.prems(3)
    have "within_limits (tl_settings (ce_tools env)) slack (rows (ai_usage_records d'))" by simp
    from Cons.IH[OF d'(1) this] Cons.prems(3) show ?case by simp
  qed
  show ?thesis by (rule run[OF assms(2)]) (simp add: assms(3) within_limits_def between_def of_user_def)
qed

definition hello :: chat_payload where
  "hello = \<lparr>cp_message = ''hello'', cp_mode = ''chat'', cp_agent = ''default'', cp_requested_context_mode = METADATA_ONLY,
     cp_conversation_id = None, cp_history = [], cp_page = None\<rparr>"

lemma limits_bound_consumption_witness:
  "within_limits (tl_settings (ce_tools demo_chat_env)) 1 (rows (ai_usage_records (db (sess
     (fold (serve demo_chat_env) [Ask_global 10 10 hello alice, Ask_app 12 11 1 hello alice, Summarize 13 13 1 1 alice] scans_world)))))"
  by (rule limits_bound_consumption[where d = scans_db])
    (simp_all add: scans_world_def scans_db_def team_apps_db_def team_db_def empty_database_def empty_table_def)

end
