(* ===== verification/Deploy_Target.thy ===== *)
theory Deploy_Target
  imports Keycloak_Client Urls
begin

text \<open>
  infra/keycloak/lib/config.py and the rendering of lib/gateway.py: the target of a deployment, as YAML
  gives it, is validated before anything is run. Values that YAML types otherwise raise what Python's
  operations raise on them. The files of the target and of the profiles, the environment of the process
  and the validity of bracketed IP addresses are parameters. Properties: what an accepted target may
  contain, so that neither a remote shell nor the route of the gateway reads more into it.
\<close>

section \<open>Patterns\<close>

text \<open>\<open>[a-z0-9](?:[a-z0-9-]{0,n}[a-z0-9])?\<close>, of the whole string.\<close>

definition is_name_char :: "char \<Rightarrow> bool" where
  "is_name_char c \<longleftrightarrow> is_az c \<or> is_09 c"

definition label_upto :: "nat \<Rightarrow> string \<Rightarrow> bool" where
  "label_upto n s \<longleftrightarrow> s \<noteq> [] \<and> length s \<le> n + 2 \<and> is_name_char (hd s) \<and> is_name_char (last s)
     \<and> list_all (\<lambda>c. is_name_char c \<or> c = CHR ''-'') s"

fun is_dns :: "json \<Rightarrow> bool" where
  "is_dns (JStr s) = (length s \<le> 253 \<and> list_all (label_upto 61) (split_on (CHR ''.'') s))"
| "is_dns _ = False"

definition is_word_dash :: "char \<Rightarrow> bool" where
  "is_word_dash c \<longleftrightarrow> is_az c \<or> is_AZ c \<or> is_09 c \<or> c \<in> {CHR ''_'', CHR ''.'', CHR ''-''}"

definition plain_host :: "string \<Rightarrow> bool" where
  "plain_host s \<longleftrightarrow> s \<noteq> [] \<and> (is_az (hd s) \<or> is_AZ (hd s) \<or> is_09 (hd s)) \<and> list_all is_word_dash s"

definition ssh_host :: "string \<Rightarrow> bool" where
  "ssh_host s \<longleftrightarrow>
     (case partition_at (CHR ''@'') s of (before, found, after) \<Rightarrow>
        if found then before \<noteq> [] \<and> list_all is_word_dash before \<and> plain_host after else plain_host s)"

definition repo_path :: "string \<Rightarrow> bool" where
  "repo_path s \<longleftrightarrow>
     (case s of [] \<Rightarrow> False
      | c # r \<Rightarrow> c = CHR ''/'' \<and> r \<noteq> [] \<and> list_all (\<lambda>d. is_word_dash d \<or> d = CHR ''/'') r)
     \<and> ''..'' \<notin> set (split_on (CHR ''/'') s)"

definition storage_amount :: "string \<Rightarrow> bool" where
  "storage_amount s \<longleftrightarrow>
     (suffix ''Gi'' s \<or> suffix ''Mi'' s) \<and> length s > 2
     \<and> (let n = take (length s - 2) s in list_all is_09 n \<and> hd n \<noteq> CHR ''0'')"

section \<open>The target\<close>

record target_config =
  tg_instance_key :: string
  tg_cloud_kind :: json
  tg_context :: json
  tg_cnp_cluster_name :: json
  tg_public_domain :: string
  tg_tailnet_domain :: string
  tg_storage_class :: string
  tg_gateway_host :: string
  tg_namespace :: string
  tg_release :: string
  tg_mode :: json
  tg_argo_application :: json
  tg_gateway_repo_path :: string
  tg_vault_server :: string
  tg_storage_size :: string
  tg_tailscale_namespace :: string
  tg_keycloak_resources :: json
  tg_postgres_resources :: json

definition required_fields :: "string list" where
  "required_fields =
     [''instance_key'', ''cloud_kind'', ''context'', ''cnp_cluster_name'', ''public_domain'', ''tailnet_domain'',
      ''storage_class'', ''gateway_host'']"

definition resources_of :: "string \<Rightarrow> string \<Rightarrow> string \<Rightarrow> string \<Rightarrow> json" where
  "resources_of cpu memory max_cpu max_memory =
     JObj [(''requests'', JObj [(''cpu'', JStr cpu), (''memory'', JStr memory)]),
           (''limits'', JObj [(''cpu'', JStr max_cpu), (''memory'', JStr max_memory)])]"

definition field_defaults :: "(string \<times> json) list" where
  "field_defaults =
     [(''namespace'', JStr ''keycloak''), (''release'', JStr ''keycloak''), (''mode'', JStr ''helm''),
      (''argo_application'', JNull), (''gateway_repo_path'', JStr ''/home/ubuntu/cloud-native-plat4k''),
      (''vault_server'', JStr ''http://vault-cnp-control.external-secrets.svc.cluster.local:8200''),
      (''storage_size'', JStr ''5Gi''), (''tailscale_namespace'', JStr ''tailscale''),
      (''keycloak_resources'', resources_of ''250m'' ''768Mi'' ''1'' ''1536Mi''),
      (''postgres_resources'', resources_of ''100m'' ''256Mi'' ''500m'' ''512Mi'')]"

text \<open>The arguments of the constructor: all required ones, no unknown one.\<close>

definition target_fields :: "(string \<times> json) list \<Rightarrow> exc + (string \<Rightarrow> json)" where
  "target_fields kwargs =
     (if list_all (\<lambda>k. map_of kwargs k \<noteq> None) required_fields
         \<and> list_all (\<lambda>k. k \<in> set required_fields \<union> fst ` set field_defaults) (map fst kwargs)
      then Inr (\<lambda>k. case map_of kwargs k of Some v \<Rightarrow> v | None \<Rightarrow> (case map_of field_defaults k of Some v \<Rightarrow> v | None \<Rightarrow> JNull))
      else Inl TypeError)"

text \<open>\<open>re.fullmatch\<close> and \<open>str.isspace\<close> of what YAML gave, \<open>urlsplit\<close> of something that is no text.\<close>

fun as_text :: "json \<Rightarrow> exc + string" where
  "as_text (JStr s) = Inr s"
| "as_text _ = Inl TypeError"

fun isspace_value :: "json \<Rightarrow> exc + bool" where
  "isspace_value (JStr s) = Inr (s \<noteq> [] \<and> list_all py_isspace s)"
| "isspace_value _ = Inl AttributeError"

definition has_space :: "json \<Rightarrow> exc + bool" where
  "has_space v = bnd_result (jiter v) (any_result isspace_value)"

fun as_url :: "json \<Rightarrow> exc + string" where
  "as_url (JStr s) = Inr s"
| "as_url (JArr _) = Inl TypeError"
| "as_url (JObj _) = Inl TypeError"
| "as_url v = (if truthy v then Inl AttributeError else Inr [])"

definition ensure :: "bool \<Rightarrow> exc + unit" where
  "ensure ok = (if ok then Inr () else Inl ValueError)"

definition plain_endpoint :: "(string \<Rightarrow> bool) \<Rightarrow> string \<Rightarrow> exc + unit" where
  "plain_endpoint ip_ok url =
     bnd_result (urlsplit ip_ok url) (\<lambda>u.
       ensure (url_scheme u \<in> {''http'', ''https''} \<and> url_hostname u \<noteq> None \<and> \<not> truthy_str (url_username u)
               \<and> url_query u = [] \<and> url_fragment u = []))"

text \<open>\<open>__post_init__\<close>.\<close>

definition target_names :: "string list" where
  "target_names = [''public_domain'', ''tailnet_domain'', ''namespace'', ''release'', ''storage_class'', ''tailscale_namespace'']"

definition validate_target :: "(string \<Rightarrow> bool) \<Rightarrow> (string \<Rightarrow> json) \<Rightarrow> exc + target_config" where
  "validate_target ip_ok v =
     bnd_result (as_text (v ''instance_key'')) (\<lambda>key.
     bnd_result (ensure (label_upto 57 key)) (\<lambda>_.
     bnd_result (ensure (v ''cloud_kind'' \<in> {JStr ''public'', JStr ''private''} \<and> v ''mode'' \<in> {JStr ''helm'', JStr ''argocd''})) (\<lambda>_.
     bnd_result (ensure (truthy (v ''context'') \<and> truthy (v ''cnp_cluster_name''))) (\<lambda>_.
     bnd_result (has_space (v ''context'')) (\<lambda>spaced.
     bnd_result (ensure (\<not> spaced)) (\<lambda>_.
     bnd_result (ensure (list_all (\<lambda>k. is_dns (v k)) target_names)) (\<lambda>_.
     bnd_result (map_result (\<lambda>k. as_text (v k)) target_names) (\<lambda>names.
     bnd_result (as_text (v ''gateway_host'')) (\<lambda>host.
     bnd_result (ensure (ssh_host host)) (\<lambda>_.
     bnd_result (as_text (v ''gateway_repo_path'')) (\<lambda>path.
     bnd_result (ensure (repo_path path)) (\<lambda>_.
     bnd_result (as_url (v ''vault_server'')) (\<lambda>server.
     bnd_result (plain_endpoint ip_ok server) (\<lambda>_.
     bnd_result (ensure (v ''mode'' = JStr ''argocd'' \<longrightarrow> truthy (v ''argo_application'') \<and> is_dns (v ''argo_application''))) (\<lambda>_.
     bnd_result (as_text (v ''storage_size'')) (\<lambda>size.
     bnd_result (ensure (storage_amount size)) (\<lambda>_.
       Inr \<lparr>tg_instance_key = key, tg_cloud_kind = v ''cloud_kind'', tg_context = v ''context'',
            tg_cnp_cluster_name = v ''cnp_cluster_name'', tg_public_domain = names ! 0, tg_tailnet_domain = names ! 1,
            tg_storage_class = names ! 4, tg_gateway_host = host, tg_namespace = names ! 2, tg_release = names ! 3,
            tg_mode = v ''mode'', tg_argo_application = v ''argo_application'', tg_gateway_repo_path = path,
            tg_vault_server = server, tg_storage_size = size, tg_tailscale_namespace = names ! 5,
            tg_keycloak_resources = v ''keycloak_resources'', tg_postgres_resources = v ''postgres_resources''\<rparr>)))))))))))))))))"

definition public_url :: "target_config \<Rightarrow> string" where
  "public_url t = ''https://'' @ tg_public_domain t @ ''/clusters/'' @ tg_instance_key t"

definition admin_url :: "target_config \<Rightarrow> string" where
  "admin_url t =
     ''http://kc-'' @ tg_instance_key t @ ''.'' @ tg_tailnet_domain t @ '':8080/clusters/'' @ tg_instance_key t"

definition vault_prefix :: "target_config \<Rightarrow> string" where
  "vault_prefix t = ''cnp/keycloak/'' @ tg_instance_key t"

definition locked_image :: "string \<Rightarrow> bool" where
  "locked_image s \<longleftrightarrow>
     (case partition_at (CHR ''@'') s of (name, found, digest) \<Rightarrow>
        found \<and> name \<noteq> [] \<and> list_all (\<lambda>c. is_word_dash c \<or> c \<in> {CHR ''/'', CHR '':''}) name
        \<and> take 7 digest = ''sha256:'' \<and> length digest = 71
        \<and> list_all (\<lambda>c. is_09 c \<or> c \<in> set ''abcdef'') (drop 7 digest))"

definition helm_values :: "target_config \<Rightarrow> json \<Rightarrow> exc + json" where
  "helm_values t image_lock =
     bnd_result (any_result (\<lambda>k. bnd_result (jget_default k (JStr []) image_lock) (\<lambda>v. bnd_result (as_text v) (\<lambda>s. Inr (\<not> locked_image s))))
        [''keycloak'', ''postgresql'', ''nginx'']) (\<lambda>unlocked.
     bnd_result (ensure (\<not> unlocked)) (\<lambda>_.
       Inr (JObj [(''instanceKey'', JStr (tg_instance_key t)), (''publicDomain'', JStr (tg_public_domain t)),
         (''tailscale'', JObj [(''hostname'', JStr (''kc-'' @ tg_instance_key t)), (''namespace'', JStr (tg_tailscale_namespace t))]),
         (''postgresql'', JObj [(''storageClass'', JStr (tg_storage_class t)), (''storageSize'', JStr (tg_storage_size t)),
            (''resources'', tg_postgres_resources t)]),
         (''resources'', tg_keycloak_resources t), (''vault'', JObj [(''server'', JStr (tg_vault_server t))]),
         (''images'', image_lock)])))"

section \<open>Reading the target\<close>

text \<open>
  \<open>os.path.expandvars\<close>: \<open>$name\<close> and \<open>${name}\<close>, left as they are when the variable is not set; a value is
  not expanded again.
\<close>

definition is_ascii_word :: "char \<Rightarrow> bool" where
  "is_ascii_word c \<longleftrightarrow> is_az c \<or> is_AZ c \<or> is_09 c \<or> c = CHR ''_''"

function expandvars :: "(string \<Rightarrow> string option) \<Rightarrow> string \<Rightarrow> string" where
  "expandvars env [] = []"
| "expandvars env (c # r) =
     (if c \<noteq> CHR ''$'' then c # expandvars env r
      else if r \<noteq> [] \<and> hd r = CHR ''{'' \<and> CHR ''}'' \<in> set r then
        (let name = takeWhile (\<lambda>d. d \<noteq> CHR ''}'') (tl r); rest = tl (dropWhile (\<lambda>d. d \<noteq> CHR ''}'') (tl r)) in
         (case env name of Some v \<Rightarrow> v | None \<Rightarrow> ''${'' @ name @ ''}'') @ expandvars env rest)
      else if takeWhile is_ascii_word r \<noteq> [] then
        (let name = takeWhile is_ascii_word r in
         (case env name of Some v \<Rightarrow> v | None \<Rightarrow> CHR ''$'' # name) @ expandvars env (dropWhile is_ascii_word r))
      else c # expandvars env r)"
  by pat_completeness auto

termination
proof (relation "measure (length \<circ> snd)")
  fix env :: "string \<Rightarrow> string option" and c :: char and r name rest :: string
  assume "\<not> c \<noteq> CHR ''$''" and "r \<noteq> [] \<and> hd r = CHR ''{'' \<and> CHR ''}'' \<in> set r"
    and "name = takeWhile (\<lambda>d. d \<noteq> CHR ''}'') (tl r)" and "rest = tl (dropWhile (\<lambda>d. d \<noteq> CHR ''}'') (tl r))"
  then have "length rest \<le> length r" using length_dropWhile_le[of "\<lambda>d. d \<noteq> CHR ''}''" "tl r"] by simp
  then show "((env, rest), env, c # r) \<in> measure (length \<circ> snd)" by simp
next
  fix env :: "string \<Rightarrow> string option" and c :: char and r name :: string
  show "((env, dropWhile is_ascii_word r), env, c # r) \<in> measure (length \<circ> snd)"
    using length_dropWhile_le[of is_ascii_word r] by simp
qed simp_all

fun interpolated :: "(string \<Rightarrow> string option) \<Rightarrow> json \<Rightarrow> json" where
  "interpolated env (JStr s) = JStr (expandvars env s)"
| "interpolated env v = v"

fun placeholder_left :: "json \<Rightarrow> bool" where
  "placeholder_left (JStr s) = substring ''${'' s"
| "placeholder_left v = False"

definition merge_dicts :: "(string \<times> json) list \<Rightarrow> (string \<times> json) list \<Rightarrow> (string \<times> json) list" where
  "merge_dicts base over = fold (\<lambda>(k, v). dict_set k v) over base"

text \<open>A file that cannot be read, or is no YAML, is \<open>None\<close>.\<close>

definition profile_fields :: "(string \<Rightarrow> json option) \<Rightarrow> json \<Rightarrow> (string \<times> json) list \<Rightarrow> exc + (string \<times> json) list" where
  "profile_fields profiles profile kvs =
     (if \<not> truthy profile then Inr kvs
      else if profile = JStr ''public'' \<or> profile = JStr ''private'' then
        (case profiles (case profile of JStr p \<Rightarrow> p | _ \<Rightarrow> []) of
           Some (JObj base) \<Rightarrow> Inr (merge_dicts base kvs)
         | Some _ \<Rightarrow> Inl TypeError
         | None \<Rightarrow> Inl ValueError)
      else Inl ValueError)"

definition parse_target ::
  "(string \<Rightarrow> bool) \<Rightarrow> (string \<Rightarrow> string option) \<Rightarrow> (string \<Rightarrow> json option) \<Rightarrow> json \<Rightarrow> exc + target_config" where
  "parse_target ip_ok env profiles raw =
     (case raw of
        JObj kvs \<Rightarrow>
          bnd_result (profile_fields profiles (case map_of kvs ''profile'' of Some p \<Rightarrow> p | None \<Rightarrow> JNull)
                        (filter (\<lambda>(k, _). k \<noteq> ''profile'') kvs)) (\<lambda>fields.
          let fields = map (\<lambda>(k, v). (k, interpolated env v)) fields in
          bnd_result (ensure (\<not> list_ex (\<lambda>(_, v). placeholder_left v) fields)) (\<lambda>_.
          bnd_result (target_fields fields) (validate_target ip_ok)))
      | _ \<Rightarrow> Inl ValueError)"

definition load_target ::
  "(string \<Rightarrow> bool) \<Rightarrow> (string \<Rightarrow> string option) \<Rightarrow> (string \<Rightarrow> json option) \<Rightarrow> json option \<Rightarrow> exc + target_config" where
  "load_target ip_ok env profiles file =
     (case file of
        None \<Rightarrow> Inl ValueError
      | Some raw \<Rightarrow> (case parse_target ip_ok env profiles raw of Inl TypeError \<Rightarrow> Inl ValueError | r \<Rightarrow> r))"

section \<open>The route of the gateway\<close>

definition render_route :: "string \<Rightarrow> target_config \<Rightarrow> string" where
  "render_route template t =
     py_replace ''@DOMAIN@'' (tg_public_domain t)
       (py_replace ''@TAILNET@'' (tg_tailnet_domain t) (py_replace ''@KEY@'' (tg_instance_key t) template))"

section \<open>What an accepted target may contain\<close>

lemma bnd_result_Inr: "bnd_result r f = Inr y \<longleftrightarrow> (\<exists>x. r = Inr x \<and> f x = Inr y)"
  by (cases r) (auto simp: bnd_result_def)

lemma ensure_Inr: "ensure b = Inr u \<longleftrightarrow> b"
  by (auto simp: ensure_def)

lemma split_on_covers: "c \<in> set s \<Longrightarrow> c \<noteq> x \<Longrightarrow> \<exists>w \<in> set (split_on x s). c \<in> set w"
  by (induction s) (auto split: list.splits)

text \<open>Characters that no shell, no configuration of nginx and no path reads as anything else.\<close>

definition is_inert :: "char \<Rightarrow> bool" where
  "is_inert c \<longleftrightarrow> is_word_dash c \<or> c \<in> {CHR ''/'', CHR ''@''}"

definition is_host_char :: "char \<Rightarrow> bool" where
  "is_host_char c \<longleftrightarrow> is_name_char c \<or> c \<in> {CHR ''-'', CHR ''.''}"

lemma host_char_inert: "is_host_char c \<Longrightarrow> is_inert c"
  by (auto simp: is_host_char_def is_inert_def is_word_dash_def is_name_char_def)

lemma label_chars: "label_upto n s \<Longrightarrow> s \<noteq> [] \<and> list_all is_host_char s"
  by (auto simp: label_upto_def is_host_char_def list_all_iff)

lemma dns_chars: "is_dns (JStr s) \<Longrightarrow> s \<noteq> [] \<and> list_all is_host_char s"
proof -
  assume "is_dns (JStr s)"
  then have parts: "w \<in> set (split_on (CHR ''.'') s) \<Longrightarrow> w \<noteq> [] \<and> list_all is_host_char w" for w
    using label_chars by (auto simp: list_all_iff)
  then have "s \<noteq> []" by auto
  moreover have "is_host_char c" if "c \<in> set s" for c
  proof (cases "c = CHR ''.''")
    case False
    with split_on_covers[OF that] parts show ?thesis by (auto simp: list_all_iff)
  qed (simp add: is_host_char_def)
  ultimately show ?thesis by (simp add: list_all_iff)
qed

lemma ssh_host_chars: "ssh_host s \<Longrightarrow> s \<noteq> [] \<and> list_all is_inert s"
proof -
  assume host: "ssh_host s"
  obtain a f b where p: "partition_at (CHR ''@'') s = (a, f, b)" by (cases "partition_at (CHR ''@'') s") auto
  have word: "list_all is_word_dash w \<Longrightarrow> list_all is_inert w" for w by (auto simp: list_all_iff is_inert_def)
  show ?thesis
  proof (cases "CHR ''@'' \<in> set s")
    case True
    then have "s = a @ CHR ''@'' # b" using partition_at_join[OF True] p by simp
    moreover have "f" using p True by (auto simp: partition_at_def)
    ultimately show ?thesis using host p word by (auto simp: ssh_host_def plain_host_def is_inert_def)
  next
    case False
    with host show ?thesis using word by (auto simp: ssh_host_def plain_host_def partition_at_none)
  qed
qed

lemma repo_path_chars: "repo_path s \<Longrightarrow> s \<noteq> [] \<and> list_all is_inert s"
  by (auto simp: repo_path_def is_inert_def list_all_iff split: list.splits)

definition plain_texts :: "target_config \<Rightarrow> string list" where
  "plain_texts t = [tg_instance_key t, tg_public_domain t, tg_tailnet_domain t, tg_storage_class t, tg_namespace t, tg_release t,
     tg_tailscale_namespace t, tg_gateway_host t, tg_gateway_repo_path t]"

lemma dns_text: "is_dns j \<Longrightarrow> \<exists>s. j = JStr s \<and> s \<noteq> [] \<and> list_all is_host_char s"
  using dns_chars by (cases j) auto

lemma names_read:
  assumes "list_all (\<lambda>k. is_dns (v k)) ks" and "map_result (\<lambda>k. as_text (v k)) ks = Inr names"
  shows "length names = length ks \<and> list_all (\<lambda>s. s \<noteq> [] \<and> list_all is_host_char s) names"
  using assms
proof (induction ks arbitrary: names)
  case (Cons k ks)
  then obtain s where "v k = JStr s" "s \<noteq> []" "list_all is_host_char s" using dns_text[of "v k"] by auto
  with Cons show ?case by (auto simp: bnd_result_Inr)
qed simp

lemma validated_fields:
  assumes "validate_target ip_ok v = Inr t"
  shows "\<exists>names. map_result (\<lambda>k. as_text (v k)) target_names = Inr names \<and> list_all (\<lambda>k. is_dns (v k)) target_names
     \<and> label_upto 57 (tg_instance_key t) \<and> ssh_host (tg_gateway_host t) \<and> repo_path (tg_gateway_repo_path t)
     \<and> tg_public_domain t = names ! 0 \<and> tg_tailnet_domain t = names ! 1 \<and> tg_namespace t = names ! 2 \<and> tg_release t = names ! 3
     \<and> tg_storage_class t = names ! 4 \<and> tg_tailscale_namespace t = names ! 5"
proof -
  have "\<exists>key names host path. map_result (\<lambda>k. as_text (v k)) target_names = Inr names \<and> list_all (\<lambda>k. is_dns (v k)) target_names
     \<and> label_upto 57 key \<and> ssh_host host \<and> repo_path path \<and> (\<exists>server size. t =
        \<lparr>tg_instance_key = key, tg_cloud_kind = v ''cloud_kind'', tg_context = v ''context'',
            tg_cnp_cluster_name = v ''cnp_cluster_name'', tg_public_domain = names ! 0, tg_tailnet_domain = names ! 1,
            tg_storage_class = names ! 4, tg_gateway_host = host, tg_namespace = names ! 2, tg_release = names ! 3,
            tg_mode = v ''mode'', tg_argo_application = v ''argo_application'', tg_gateway_repo_path = path,
            tg_vault_server = server, tg_storage_size = size, tg_tailscale_namespace = names ! 5,
            tg_keycloak_resources = v ''keycloak_resources'', tg_postgres_resources = v ''postgres_resources''\<rparr>)"
    using assms unfolding validate_target_def bnd_result_Inr ensure_Inr sum.inject
    apply (elim exE conjE)
    apply (intro exI conjI)
    apply assumption
    apply assumption
    apply assumption
    apply assumption
    apply assumption
    apply (erule sym)
    done
  then show ?thesis by (elim exE conjE) simp
qed

lemma validated:
  assumes "validate_target ip_ok v = Inr t"
  shows "label_upto 57 (tg_instance_key t)"
    and "list_all (\<lambda>s. s \<noteq> [] \<and> list_all is_host_char s)
       [tg_instance_key t, tg_public_domain t, tg_tailnet_domain t, tg_storage_class t, tg_namespace t, tg_release t, tg_tailscale_namespace t]"
    and "ssh_host (tg_gateway_host t)" and "repo_path (tg_gateway_repo_path t)"
proof -
  from validated_fields[OF assms] obtain names where n: "map_result (\<lambda>k. as_text (v k)) target_names = Inr names"
    "list_all (\<lambda>k. is_dns (v k)) target_names"
    and ok: "label_upto 57 (tg_instance_key t)" "ssh_host (tg_gateway_host t)" "repo_path (tg_gateway_repo_path t)"
    and t: "tg_public_domain t = names ! 0" "tg_tailnet_domain t = names ! 1" "tg_namespace t = names ! 2" "tg_release t = names ! 3"
      "tg_storage_class t = names ! 4" "tg_tailscale_namespace t = names ! 5" by (elim exE conjE) (rule that)
  have "length names = 6" "list_all (\<lambda>s. s \<noteq> [] \<and> list_all is_host_char s) names"
    using names_read[OF n(2,1)] by (simp_all add: target_names_def)
  then have each: "i < 6 \<Longrightarrow> names ! i \<noteq> [] \<and> list_all is_host_char (names ! i)" for i by (simp add: list_all_length)
  show "list_all (\<lambda>s. s \<noteq> [] \<and> list_all is_host_char s)
       [tg_instance_key t, tg_public_domain t, tg_tailnet_domain t, tg_storage_class t, tg_namespace t, tg_release t, tg_tailscale_namespace t]"
    using each label_chars[OF ok(1)] unfolding t by simp
  show "label_upto 57 (tg_instance_key t)" "ssh_host (tg_gateway_host t)" "repo_path (tg_gateway_repo_path t)" by (fact ok)+
qed

lemma loaded: "load_target ip_ok env profiles file = Inr t \<Longrightarrow> \<exists>v. validate_target ip_ok v = Inr t"
  by (auto simp: load_target_def parse_target_def bnd_result_Inr Let_def split: option.splits sum.splits exc.splits json.splits)

text \<open>The template of the route, as texts with the three placeholders between them.\<close>

datatype route_part = Fixed string | Key_here | Tailnet_here | Domain_here

fun as_written :: "route_part \<Rightarrow> string" where
  "as_written (Fixed s) = s"
| "as_written Key_here = ''@KEY@''"
| "as_written Tailnet_here = ''@TAILNET@''"
| "as_written Domain_here = ''@DOMAIN@''"

fun filled_in :: "target_config \<Rightarrow> route_part \<Rightarrow> string" where
  "filled_in t (Fixed s) = s"
| "filled_in t Key_here = tg_instance_key t"
| "filled_in t Tailnet_here = tg_tailnet_domain t"
| "filled_in t Domain_here = tg_public_domain t"

text \<open>A text in which no at sign is followed by a capital, which does not end in one nor start with a capital.\<close>

fun calm :: "string \<Rightarrow> bool" where
  "calm [] = True"
| "calm [c] = (c \<noteq> CHR ''@'')"
| "calm (c # d # s) = ((c = CHR ''@'' \<longrightarrow> \<not> is_AZ d) \<and> calm (d # s))"

fun calm_part :: "route_part \<Rightarrow> bool" where
  "calm_part (Fixed s) = (calm s \<and> s \<noteq> [] \<and> \<not> is_AZ (hd s))"
| "calm_part _ = True"

lemma replace_calm:
  assumes "is_AZ x" and "calm s"
  shows "py_replace (CHR ''@'' # x # old) new (s @ r) = s @ py_replace (CHR ''@'' # x # old) new r"
  using assms(2)
proof (induction s rule: calm.induct)
  case (3 c d s)
  with assms(1) have "\<not> prefix (CHR ''@'' # x # old) (c # (d # s) @ r)" by auto
  then have "py_replace (CHR ''@'' # x # old) new (c # (d # s) @ r) = c # py_replace (CHR ''@'' # x # old) new ((d # s) @ r)"
    by (simp only: py_replace.simps if_False simp_thms)
  also have "\<dots> = c # (d # s) @ py_replace (CHR ''@'' # x # old) new r" using 3 by simp
  finally show ?case by simp
qed simp_all

lemma replace_hit: "old \<noteq> [] \<Longrightarrow> py_replace old new (old @ r) = new @ py_replace old new r"
  by (cases old) simp_all

definition fill_slot :: "route_part \<Rightarrow> string \<Rightarrow> route_part \<Rightarrow> route_part" where
  "fill_slot p v q = (if q = p then Fixed v else q)"

lemma parts_head: "list_all calm_part ps \<Longrightarrow> concat (map as_written ps) = [] \<or> \<not> is_AZ (hd (concat (map as_written ps)))"
  by (cases ps; cases "hd ps") (simp_all add: is_AZ_def upper_letters_def)

lemma skip_slot:
  assumes "p \<noteq> q" and "p \<in> {Key_here, Tailnet_here, Domain_here}" and "q \<in> {Key_here, Tailnet_here, Domain_here}"
    and "\<not> prefix (tl (as_written p)) r"
  shows "py_replace (as_written p) v (as_written q @ r) = as_written q @ py_replace (as_written p) v r"
  using assms by (elim insertE) simp_all

lemma no_slot_after: "p \<in> {Key_here, Tailnet_here, Domain_here} \<Longrightarrow> r = [] \<or> \<not> is_AZ (hd r) \<Longrightarrow> \<not> prefix (tl (as_written p)) r"
  by (cases r) (auto simp: is_AZ_def upper_letters_def)

lemma replace_slot:
  assumes "list_all calm_part ps" and "p \<in> {Key_here, Tailnet_here, Domain_here}"
  shows "py_replace (as_written p) v (concat (map as_written ps)) = concat (map as_written (map (fill_slot p v) ps))"
  using assms(1)
proof (induction ps)
  case (Cons q ps)
  let ?r = "concat (map as_written ps)"
  have head: "?r = [] \<or> \<not> is_AZ (hd ?r)" using parts_head Cons.prems by simp
  have caps: "is_AZ (CHR ''K'')" "is_AZ (CHR ''T'')" "is_AZ (CHR ''D'')" by (simp_all add: is_AZ_def upper_letters_def)
  have "py_replace (as_written p) v (as_written q @ ?r) = as_written (fill_slot p v q) @ py_replace (as_written p) v ?r"
  proof (cases "q = p")
    case True
    with assms(2) replace_hit[of "as_written p" v ?r] show ?thesis by (auto simp: fill_slot_def)
  next
    case False
    show ?thesis
    proof (cases q)
      case (Fixed s)
      with Cons.prems False assms(2) caps replace_calm[of _ s _ v ?r] show ?thesis by (auto simp: fill_slot_def)
    qed (use False skip_slot[OF _ assms(2) _ no_slot_after[OF assms(2) head], of q] in \<open>simp_all add: fill_slot_def\<close>)
  qed
  with Cons show ?case by simp
qed simp

lemma calm_slot: "list_all calm_part ps \<Longrightarrow> calm v \<Longrightarrow> v \<noteq> [] \<Longrightarrow> \<not> is_AZ (hd v) \<Longrightarrow> list_all calm_part (map (fill_slot p v) ps)"
  by (auto simp: list_all_iff fill_slot_def)

lemma calm_inert: "list_all is_host_char s \<Longrightarrow> calm s"
proof -
  have no_at: "\<not> is_host_char (CHR ''@'')" by (simp add: is_host_char_def is_name_char_def char_class_defs)
  show "list_all is_host_char s \<Longrightarrow> calm s"
    by (induction s rule: calm.induct) (use no_at in auto)
qed


lemma host_char_lower: "list_all is_host_char s \<Longrightarrow> s \<noteq> [] \<Longrightarrow> \<not> is_AZ (hd s)"
  by (cases s) (auto simp: is_host_char_def is_name_char_def char_class_defs)

lemma render_parts:
  assumes "list_all calm_part ps"
    and "list_all (\<lambda>s. s \<noteq> [] \<and> list_all is_host_char s) [tg_instance_key t, tg_tailnet_domain t, tg_public_domain t]"
  shows "render_route (concat (map as_written ps)) t = concat (map (filled_in t) ps)"
proof -
  let ?k = "fill_slot Key_here (tg_instance_key t)" and ?n = "fill_slot Tailnet_here (tg_tailnet_domain t)"
    and ?d = "fill_slot Domain_here (tg_public_domain t)"
  have inserted: "calm v" "\<not> is_AZ (hd v)" "v \<noteq> []" if "v \<in> {tg_instance_key t, tg_tailnet_domain t, tg_public_domain t}" for v
    using that assms(2) calm_inert host_char_lower by auto
  have 1: "list_all calm_part (map ?k ps)" by (rule calm_slot[OF assms(1)]) (simp_all add: inserted)
  have 2: "list_all calm_part (map ?n (map ?k ps))" by (rule calm_slot[OF 1]) (simp_all add: inserted)
  have "render_route (concat (map as_written ps)) t = concat (map as_written (map ?d (map ?n (map ?k ps))))"
    using replace_slot[OF assms(1), of Key_here "tg_instance_key t"] replace_slot[OF 1, of Tailnet_here "tg_tailnet_domain t"]
      replace_slot[OF 2, of Domain_here "tg_public_domain t"]
    by (simp add: render_route_def)
  moreover have "as_written (?d (?n (?k p))) = filled_in t p" for p by (cases p) (simp_all add: fill_slot_def)
  ultimately show ?thesis by (simp add: comp_def)
qed


definition demo_target_file :: json where
  "demo_target_file =
     JObj [(''profile'', JStr ''public''), (''instance_key'', JStr ''prod-1''), (''context'', JStr ''admin@prod''), (''cnp_cluster_name'', JStr ''prod''),
           (''public_domain'', JStr ''auth.example.org''), (''tailnet_domain'', JStr ''tail.ts.net''), (''gateway_host'', JStr ''ubuntu@${GATEWAY}'')]"

definition demo_profiles :: "string \<Rightarrow> json option" where
  "demo_profiles name = Some (JObj [(''cloud_kind'', JStr ''public''), (''storage_class'', JStr ''cinder'')])"

definition demo_environ :: "string \<Rightarrow> string option" where
  "demo_environ = map_of [(''GATEWAY'', ''10.0.0.7''), (''CNP_API_URL'', ''https://cnp''), (''CNP_API_KEY'', ''cnp_k''),
     (''VAULT_ADDR'', ''https://vault''), (''VAULT_TOKEN'', ''s.t'')]"

definition demo_target :: target_config where
  "demo_target =
     \<lparr>tg_instance_key = ''prod-1'', tg_cloud_kind = JStr ''public'', tg_context = JStr ''admin@prod'', tg_cnp_cluster_name = JStr ''prod'',
      tg_public_domain = ''auth.example.org'', tg_tailnet_domain = ''tail.ts.net'', tg_storage_class = ''cinder'',
      tg_gateway_host = ''ubuntu@10.0.0.7'', tg_namespace = ''keycloak'', tg_release = ''keycloak'', tg_mode = JStr ''helm'',
      tg_argo_application = JNull, tg_gateway_repo_path = ''/home/ubuntu/cloud-native-plat4k'',
      tg_vault_server = ''http://vault-cnp-control.external-secrets.svc.cluster.local:8200'', tg_storage_size = ''5Gi'',
      tg_tailscale_namespace = ''tailscale'', tg_keycloak_resources = resources_of ''250m'' ''768Mi'' ''1'' ''1536Mi'',
      tg_postgres_resources = resources_of ''100m'' ''256Mi'' ''500m'' ''512Mi''\<rparr>"

lemma demo_target_loaded: "load_target (\<lambda>_. True) demo_environ demo_profiles (Some demo_target_file) = Inr demo_target"
  by code_simp


text \<open>The user of the SSH host may begin with a hyphen: ssh reads such a host as an option.\<close>

lemma ssh_option_is_accepted_as_host: "ssh_host ''-Fconfig@host''"
  by code_simp

end
