(* ===== verification/Deploy.thy ===== *)
theory Deploy
  imports Deploy_Target
begin

text \<open>
  infra/keycloak/lib: the tool that deploys a Keycloak instance. Commands (kubectl, helm, ssh), the HTTP
  APIs of CNP, Vault and Keycloak, the port-forward, the clock, the random generator, the files of the
  repository and the texts of JSON are parameters that may answer anything. The model keeps a journal of
  what was sent with its answer, and the steps that \<open>deploy\<close> reports. Identifiers that an answer
  puts into a path or a header are texts; another type is reported as \<open>TypeError\<close>.
\<close>

section \<open>The operator's machine\<close>

datatype reply_content = Nothing_sent | Oversized | Not_json | Content json

datatype http_reply = No_reply | Reply nat reply_content

record api_call =
  ac_url :: string
  ac_method :: http_method
  ac_path :: string
  ac_body :: json
  ac_form :: bool
  ac_headers :: "(string \<times> string) list"

datatype forward_outcome = Forward_open string | Forward_failed | Forward_timeout

datatype operator_event =
    Ran "string list" "string option" "(nat \<times> string) option"
  | Called api_call http_reply
  | Wrote_values string json
  | Forward_started string forward_outcome
  | Forward_stopped

record 'k operator_env =
  which :: "string \<Rightarrow> bool"
  environ :: "string \<Rightarrow> string option"
  run_command :: "string list \<Rightarrow> string option \<Rightarrow> 'k \<Rightarrow> (nat \<times> string) option \<times> 'k"
  call_api :: "api_call \<Rightarrow> 'k \<Rightarrow> http_reply \<times> 'k"
  start_forward :: "string \<Rightarrow> string \<Rightarrow> string \<Rightarrow> 'k \<Rightarrow> forward_outcome \<times> 'k"
  random_text :: "'k \<Rightarrow> string \<times> 'k"
  clock :: "'k \<Rightarrow> int"
  pause :: "int \<Rightarrow> 'k \<Rightarrow> 'k"
  temp_path :: "'k \<Rightarrow> string"
  image_lock :: json
  file_text :: "string \<Rightarrow> string"
  json_dumps :: "json \<Rightarrow> string"
  json_loads :: "string \<Rightarrow> exc + json"
  valid_ip :: "string \<Rightarrow> bool"

record 'k operator =
  machine :: 'k
  journal :: "operator_event list"
  done_steps :: "string list"

definition record_event :: "operator_event \<Rightarrow> ('k operator, unit) prog" where
  "record_event e = modify (\<lambda>s. s\<lparr>journal := journal s @ [e]\<rparr>)"

definition ask_machine :: "('k \<Rightarrow> 'a \<times> 'k) \<Rightarrow> ('k operator, 'a) prog" where
  "ask_machine f = (\<lambda>s. case f (machine s) of (a, k) \<Rightarrow> (Inr a, s\<lparr>machine := k\<rparr>))"

definition step_done :: "string \<Rightarrow> ('k operator, unit) prog" where
  "step_done name = modify (\<lambda>s. s\<lparr>done_steps := done_steps s @ [name]\<rparr>)"

text \<open>\<open>try ... finally\<close>: an error of the clean-up replaces the outcome.\<close>

definition finally_do :: "('s, 'a) prog \<Rightarrow> ('s, unit) prog \<Rightarrow> ('s, 'a) prog" where
  "finally_do m clean = (\<lambda>s. case m s of (r, s1) \<Rightarrow> (case clean s1 of (Inl e, s2) \<Rightarrow> (Inl e, s2) | (Inr _, s2) \<Rightarrow> (r, s2)))"

fun is_RuntimeError :: "exc \<Rightarrow> bool" where
  "is_RuntimeError (RuntimeError _) = True"
| "is_RuntimeError (APIError _) = True"
| "is_RuntimeError _ = False"

section \<open>Commands\<close>

definition run :: "'k operator_env \<Rightarrow> string list \<Rightarrow> string option \<Rightarrow> ('k operator, string) prog" where
  "run env argv stdin =
     bnd (ask_machine (run_command env argv stdin)) (\<lambda>r.
     bnd (record_event (Ran argv stdin r)) (\<lambda>_.
       case r of
         None \<Rightarrow> raise_exc (RuntimeError ''Operator command could not complete'')
       | Some (code, out) \<Rightarrow>
           if code \<noteq> 0 then raise_exc (RuntimeError (''Operator command failed (exit '' @ string_of_nat code @ '')''))
           else ret out))"

definition kubectl :: "'k operator_env \<Rightarrow> target_config \<Rightarrow> string list \<Rightarrow> string option \<Rightarrow> ('k operator, string) prog" where
  "kubectl env t args stdin =
     bnd (lift_result (as_text (tg_context t))) (\<lambda>context_name.
       run env ([''kubectl'', ''--context'', context_name, ''--request-timeout=30s''] @ args) stdin)"

definition kubectl_json :: "'k operator_env \<Rightarrow> target_config \<Rightarrow> string list \<Rightarrow> ('k operator, json) prog" where
  "kubectl_json env t args = bnd (kubectl env t args None) (\<lambda>out. lift_result (json_loads env out))"

definition required_env :: "'k operator_env \<Rightarrow> string \<Rightarrow> ('k operator, string) prog" where
  "required_env env name =
     (case environ env name of
        Some v \<Rightarrow> if v \<noteq> [] then ret v else raise_exc (RuntimeError (''Missing environment variable '' @ name))
      | None \<Rightarrow> raise_exc (RuntimeError (''Missing environment variable '' @ name)))"

definition environ_or :: "'k operator_env \<Rightarrow> string \<Rightarrow> string \<Rightarrow> string" where
  "environ_or env name otherwise = (case environ env name of Some v \<Rightarrow> v | None \<Rightarrow> otherwise)"

text \<open>\<open>shlex.quote\<close>.\<close>

definition shell_safe :: "char \<Rightarrow> bool" where
  "shell_safe c \<longleftrightarrow> is_ascii_word c \<or> c \<in> set ''@%+=:,./-''"

definition shell_quote :: "string \<Rightarrow> string" where
  "shell_quote s =
     (if s = [] then [CHR 0x27, CHR 0x27]
      else if list_all shell_safe s then s
      else [CHR 0x27] @ py_replace [CHR 0x27] [CHR 0x27, CHR 0x22, CHR 0x27, CHR 0x22, CHR 0x27] s @ [CHR 0x27])"

section \<open>The JSON client\<close>

record api =
  api_url :: string
  api_headers :: "(string \<times> string) list"

definition new_api :: "'k operator_env \<Rightarrow> string \<Rightarrow> (string \<times> string) list \<Rightarrow> exc + api" where
  "new_api env url headers =
     bnd_result (plain_endpoint (valid_ip env) url) (\<lambda>_.
       Inr \<lparr>api_url = rstrip (\<lambda>c. c = CHR ''/'') url, api_headers = headers\<rparr>)"

definition reply_value :: "bool \<Rightarrow> http_reply \<Rightarrow> exc + json" where
  "reply_value missing_ok r =
     (case r of
        No_reply \<Rightarrow> Inl (RuntimeError ''API unavailable or invalid response'')
      | Reply status content \<Rightarrow>
          if 200 \<le> status \<and> status < 300 then
            (case content of
               Nothing_sent \<Rightarrow> Inr JNull
             | Oversized \<Rightarrow> Inl (RuntimeError ''API response exceeds limit'')
             | Not_json \<Rightarrow> Inl (RuntimeError ''API unavailable or invalid response'')
             | Content j \<Rightarrow> Inr j)
          else if status = 404 \<and> missing_ok then Inr JNull
          else Inl (APIError status))"

definition api_request ::
  "'k operator_env \<Rightarrow> api \<Rightarrow> http_method \<Rightarrow> string \<Rightarrow> json \<Rightarrow> bool \<Rightarrow> bool \<Rightarrow> (string \<times> string) list \<Rightarrow> ('k operator, json) prog" where
  "api_request env a method path body missing_ok form headers =
     (if \<not> prefix ''/'' path \<or> prefix ''//'' path then raise_exc ValueError
      else
        let call = \<lparr>ac_url = api_url a, ac_method = method, ac_path = path, ac_body = body, ac_form = form,
              ac_headers = fold (\<lambda>(k, v). dict_set k v) (api_headers a @ headers)
                [(''Content-Type'', if form then ''application/x-www-form-urlencoded'' else ''application/json'')]\<rparr> in
        bnd (ask_machine (call_api env call)) (\<lambda>r.
        bnd (record_event (Called call r)) (\<lambda>_. lift_result (reply_value missing_ok r))))"

definition api_get :: "'k operator_env \<Rightarrow> api \<Rightarrow> string \<Rightarrow> ('k operator, json) prog" where
  "api_get env a path = api_request env a GET path JNull False False []"

definition api_find :: "'k operator_env \<Rightarrow> api \<Rightarrow> string \<Rightarrow> ('k operator, json) prog" where
  "api_find env a path = api_request env a GET path JNull True False []"

definition api_post :: "'k operator_env \<Rightarrow> api \<Rightarrow> string \<Rightarrow> json \<Rightarrow> ('k operator, json) prog" where
  "api_post env a path body = api_request env a POST path body False False []"

definition api_put :: "'k operator_env \<Rightarrow> api \<Rightarrow> string \<Rightarrow> json \<Rightarrow> ('k operator, json) prog" where
  "api_put env a path body = api_request env a PUT path body False False []"

text \<open>\<open>x["data"]["data"]\<close>, \<open>all(...)\<close>, \<open>d.get(k, {})\<close>.\<close>

definition secret_data :: "json \<Rightarrow> exc + json" where
  "secret_data j = bnd_result (jitem ''data'' j) (jitem ''data'')"

definition all_result :: "('a \<Rightarrow> exc + bool) \<Rightarrow> 'a list \<Rightarrow> exc + bool" where
  "all_result p xs =
     bnd_result (any_result (\<lambda>x. bnd_result (p x) (\<lambda>b. Inr (\<not> b))) xs) (\<lambda>bad. Inr (\<not> bad))"

definition jsub :: "string \<Rightarrow> json \<Rightarrow> exc + json" where
  "jsub k j = jget_default k (JObj []) j"

text \<open>\<open>urllib.parse.quote\<close>: the unreserved characters and those of \<open>safe\<close> stay.\<close>

definition hex_digit :: "nat \<Rightarrow> char" where
  "hex_digit n = ''0123456789ABCDEF'' ! n"

definition utf8_bytes :: "char \<Rightarrow> nat list" where
  "utf8_bytes c = (let n = of_char c in if n < 128 then [n] else [192 + n div 64, 128 + n mod 64])"

definition url_quote :: "string \<Rightarrow> string \<Rightarrow> string" where
  "url_quote safe s =
     concat (map (\<lambda>c. if is_ascii_word c \<or> c \<in> set ''.-~'' \<or> c \<in> set safe then [c]
                      else concat (map (\<lambda>n. [CHR ''%'', hex_digit (n div 16), hex_digit (n mod 16)]) (utf8_bytes c))) s)"

section \<open>Vault\<close>

definition vault_api :: "'k operator_env \<Rightarrow> string \<Rightarrow> string \<Rightarrow> exc + api" where
  "vault_api env url token = new_api env url [(''X-Vault-Token'', token)]"

definition secret_path :: "string \<Rightarrow> string" where
  "secret_path path = ''/v1/secret/data/'' @ url_quote ''/'' path"

text \<open>A secret is only created where there is none: \<open>cas\<close> 0.\<close>

definition create_only :: "json \<Rightarrow> json" where
  "create_only initial = JObj [(''options'', JObj [(''cas'', JNum 0)]), (''data'', initial)]"

definition ensure_secret :: "'k operator_env \<Rightarrow> api \<Rightarrow> string \<Rightarrow> json \<Rightarrow> ('k operator, json) prog" where
  "ensure_secret env v path initial =
     bnd (api_find env v (secret_path path)) (\<lambda>existing.
     if existing \<noteq> JNull then lift_result (secret_data existing)
     else
       try_except (bnd (api_post env v (secret_path path) (create_only initial)) (\<lambda>_. ret initial)) (\<lambda>e.
         case e of
           APIError status \<Rightarrow>
             if status \<notin> {400, 409} then raise_exc e
             else
               bnd (api_find env v (secret_path path)) (\<lambda>winner.
                 if winner = JNull then raise_exc (RuntimeError ''Vault secret creation failed'')
                 else lift_result (secret_data winner))
         | _ \<Rightarrow> raise_exc e))"

definition eso_policy :: "'k operator_env \<Rightarrow> string \<Rightarrow> json" where
  "eso_policy env key =
     JObj [(''policy'', JStr (py_replace ''{{instance_key}}'' key (file_text env ''vault/keycloak-eso-reader.hcl.template'')))]"

definition eso_token_request :: "string \<Rightarrow> json" where
  "eso_token_request policy =
     JObj [(''policies'', JArr [JStr policy]), (''period'', JStr ''720h''), (''no_parent'', JBool True), (''no_default_policy'', JBool True)]"

definition ensure_eso_token :: "'k operator_env \<Rightarrow> api \<Rightarrow> string \<Rightarrow> ('k operator, string) prog" where
  "ensure_eso_token env v key =
     (let policy = ''keycloak-eso-'' @ key;
          path = ''cnp/keycloak/'' @ key @ ''/eso-token'' in
      bnd (api_put env v (''/v1/sys/policies/acl/'' @ policy) (eso_policy env key)) (\<lambda>_.
      bnd (api_find env v (''/v1/secret/data/'' @ path)) (\<lambda>existing.
      if truthy existing then
        bnd (lift_result (bnd_result (secret_data existing) (\<lambda>d. bnd_result (jitem ''token'' d) jident))) (\<lambda>token.
        bnd (lift_result (vault_api env (api_url v) token)) (\<lambda>scoped.
        bnd (api_post env scoped ''/v1/auth/token/renew-self'' (JObj [])) (\<lambda>_. ret token)))
      else
        bnd (api_post env v ''/v1/auth/token/create'' (eso_token_request policy)) (\<lambda>created.
        bnd (lift_result (bnd_result (jitem ''auth'' created) (\<lambda>x. bnd_result (jitem ''client_token'' x) jident))) (\<lambda>token.
        bnd (ensure_secret env v path (JObj [(''token'', JStr token)])) (\<lambda>stored.
        bnd (lift_result (bnd_result (jitem ''token'' stored) jident)) (\<lambda>winner.
        bnd (if winner \<noteq> token then
               bnd (lift_result (vault_api env (api_url v) token)) (\<lambda>own.
               bnd (api_post env own ''/v1/auth/token/revoke-self'' (JObj [])) (\<lambda>_. ret ()))
             else ret ()) (\<lambda>_. ret winner))))))))"

definition store_provisioner :: "'k operator_env \<Rightarrow> api \<Rightarrow> string \<Rightarrow> json \<Rightarrow> ('k operator, unit) prog" where
  "store_provisioner env v key secret =
     bnd (ensure_secret env v (''cnp/keycloak/'' @ key @ ''/provisioner'') (JObj [(''client_secret'', secret)])) (\<lambda>existing.
     bnd (lift_result (jget ''client_secret'' existing)) (\<lambda>stored.
       if stored \<noteq> secret then raise_exc (RuntimeError ''Existing provisioner credential is different; refusing rotation'')
       else ret ()))"

definition reader_rule :: string where
  "reader_rule = ''path '' @ [CHR 0x22] @ ''secret/data/cnp/keycloak/+/provisioner'' @ [CHR 0x22]"

definition extend_backend_policy :: "'k operator_env \<Rightarrow> api \<Rightarrow> string \<Rightarrow> ('k operator, unit) prog" where
  "extend_backend_policy env v name =
     (let path = ''/v1/sys/policies/acl/'' @ url_quote [] name in
      bnd (api_get env v path) (\<lambda>existing.
      bnd (lift_result (bnd_result (jitem ''data'' existing) (\<lambda>d. bnd_result (jitem ''policy'' d) jident))) (\<lambda>original.
        if \<not> substring reader_rule original then
          bnd (api_put env v path
                 (JObj [(''policy'', JStr (original @ [CHR 0x0A]
                    @ py_replace ''{{instance_key}}'' ''+'' (file_text env ''vault/cnp-keycloak-reader.hcl.template'')))])) (\<lambda>_. ret ())
        else ret ())))"

section \<open>The Keycloak behind the port-forward\<close>

record keycloak_admin =
  ka_api :: api
  ka_username :: json
  ka_password :: json

definition admin_login :: "'k operator_env \<Rightarrow> keycloak_admin \<Rightarrow> ('k operator, keycloak_admin) prog" where
  "admin_login env ka =
     bnd (api_request env ((ka_api ka)\<lparr>api_headers := []\<rparr>) POST ''/realms/master/protocol/openid-connect/token''
            (JObj [(''grant_type'', JStr ''password''), (''client_id'', JStr ''admin-cli''),
                   (''username'', ka_username ka), (''password'', ka_password ka)]) False True []) (\<lambda>token.
     bnd (lift_result (bnd_result (jitem ''access_token'' token) jident)) (\<lambda>access.
       ret (ka\<lparr>ka_api := (ka_api ka)\<lparr>api_headers := [(''Authorization'', ''Bearer '' @ access)]\<rparr>\<rparr>)))"

definition keycloak_login ::
  "'k operator_env \<Rightarrow> string \<Rightarrow> json \<Rightarrow> json \<Rightarrow> ('k operator, keycloak_admin) prog" where
  "keycloak_login env url username password =
     bnd (lift_result (new_api env url [])) (\<lambda>a.
       admin_login env \<lparr>ka_api = a, ka_username = username, ka_password = password\<rparr>)"

definition admin_clients_path :: "string \<Rightarrow> string" where
  "admin_clients_path client_id = ''/admin/realms/master/clients?clientId='' @ url_quote [] client_id"

definition provisioner_payload :: "string \<Rightarrow> json \<Rightarrow> json" where
  "provisioner_payload client_id existing_secret =
     JObj ([(''clientId'', JStr client_id), (''protocol'', JStr ''openid-connect''), (''publicClient'', JBool False),
            (''serviceAccountsEnabled'', JBool True), (''standardFlowEnabled'', JBool False),
            (''directAccessGrantsEnabled'', JBool False), (''enabled'', JBool True)]
           @ (if truthy existing_secret then [(''secret'', existing_secret)] else []))"

definition ensure_client :: "'k operator_env \<Rightarrow> api \<Rightarrow> string \<Rightarrow> json \<Rightarrow> ('k operator, json) prog" where
  "ensure_client env a client_id existing_secret =
     bnd (api_get env a (admin_clients_path client_id)) (\<lambda>found.
       if \<not> truthy found then
         bnd (try_except (bnd (api_post env a ''/admin/realms/master/clients'' (provisioner_payload client_id existing_secret)) (\<lambda>_. ret ()))
                (\<lambda>e. case e of APIError status \<Rightarrow> if status \<noteq> 409 then raise_exc e else ret () | _ \<Rightarrow> raise_exc e)) (\<lambda>_.
           api_get env a (admin_clients_path client_id))
       else ret found)"

definition ensure_provisioner ::
  "'k operator_env \<Rightarrow> keycloak_admin \<Rightarrow> string \<Rightarrow> json \<Rightarrow> ('k operator, json) prog" where
  "ensure_provisioner env ka client_id existing_secret =
     (let a = ka_api ka in
      bnd (ensure_client env a client_id existing_secret) (\<lambda>clients.
      bnd (lift_result (jfirst clients)) (\<lambda>client.
      bnd (lift_result (jget ''publicClient'' client)) (\<lambda>is_public.
      bnd (lift_result (if truthy is_public then Inr JNull else jget ''serviceAccountsEnabled'' client)) (\<lambda>has_account.
      if truthy is_public \<or> \<not> truthy has_account then raise_exc (RuntimeError ''Existing provisioner client is incompatible'')
      else
        bnd (lift_result (bnd_result (jitem ''id'' client) jident)) (\<lambda>internal.
        bnd (api_get env a (''/admin/realms/master/clients/'' @ internal @ ''/service-account-user'')) (\<lambda>account.
        bnd (api_get env a ''/admin/realms/master/roles/admin'') (\<lambda>role.
        bnd (lift_result (bnd_result (jitem ''id'' account) jident)) (\<lambda>account_id.
        bnd (api_post env a (''/admin/realms/master/users/'' @ account_id @ ''/role-mappings/realm'') (JArr [role])) (\<lambda>_.
        bnd (api_get env a (''/admin/realms/master/clients/'' @ internal @ ''/client-secret'')) (\<lambda>secret.
          lift_result (jitem ''value'' secret))))))))))))"

text \<open>The check of the public issuer, on a realm of its own that is removed again.\<close>

definition OWNER :: string where
  "OWNER = ''cnp.bootstrap.owner''"

definition issuer_matches :: "string \<Rightarrow> json \<Rightarrow> exc + bool" where
  "issuer_matches expected discovery =
     bnd_result (jget ''issuer'' discovery) (\<lambda>issuer.
     if issuer \<noteq> JStr expected then Inr False
     else all_result (\<lambda>k. bnd_result (jget_default k (JStr []) discovery) (\<lambda>v.
            case v of JStr s \<Rightarrow> Inr (prefix (expected @ ''/'') s) | _ \<Rightarrow> Inl AttributeError))
            [''authorization_endpoint'', ''token_endpoint'', ''jwks_uri''])"

definition discovery_path :: "string \<Rightarrow> string" where
  "discovery_path realm = ''/realms/'' @ realm @ ''/.well-known/openid-configuration''"

definition discover :: "'k operator_env \<Rightarrow> string \<Rightarrow> string \<Rightarrow> ('k operator, unit) prog" where
  "discover env url realm =
     bnd (lift_result (new_api env url [])) (\<lambda>a.
     bnd (api_get env a (discovery_path realm)) (\<lambda>discovery.
     bnd (lift_result (issuer_matches (rstrip (\<lambda>c. c = CHR ''/'') url @ ''/realms/'' @ realm) discovery)) (\<lambda>ok.
       if \<not> ok then raise_exc (RuntimeError ''Public issuer does not match configured instance'') else ret ())))"

definition remove_probe :: "'k operator_env \<Rightarrow> api \<Rightarrow> string \<Rightarrow> string \<Rightarrow> ('k operator, unit) prog" where
  "remove_probe env a realm owner =
     bnd (api_find env a (''/admin/realms/'' @ realm)) (\<lambda>existing.
     if \<not> truthy existing then ret ()
     else
       bnd (lift_result (bnd_result (jsub ''attributes'' existing) (jget OWNER))) (\<lambda>mark.
         if mark = JStr owner then bnd (api_request env a DELETE_M (''/admin/realms/'' @ realm) JNull False False []) (\<lambda>_. ret ())
         else ret ()))"

definition probe_payload :: "string \<Rightarrow> string \<Rightarrow> json" where
  "probe_payload realm owner = JObj [(''realm'', JStr realm), (''enabled'', JBool True), (''attributes'', JObj [(OWNER, JStr owner)])]"

definition verify_public_issuer :: "'k operator_env \<Rightarrow> keycloak_admin \<Rightarrow> string \<Rightarrow> ('k operator, unit) prog" where
  "verify_public_issuer env ka url =
     bnd (ask_machine (random_text env)) (\<lambda>r.
     bnd (ask_machine (random_text env)) (\<lambda>owner.
     let realm = ''cnp-bootstrap-'' @ r in
     bnd (api_post env (ka_api ka) ''/admin/realms'' (probe_payload realm owner)) (\<lambda>_.
     bnd (admin_login env ka) (\<lambda>ka1.
       finally_do (discover env url realm) (remove_probe env (ka_api ka1) realm owner)))))"

section \<open>Preflight\<close>

record runtime =
  rt_cluster_id :: json
  rt_cnp :: api
  rt_vault :: api

definition require_tool :: "'k operator_env \<Rightarrow> string \<Rightarrow> ('k operator, unit) prog" where
  "require_tool env name =
     (if \<not> which env name then raise_exc (RuntimeError (''Missing required tool '' @ name)) else ret ())"

definition require_helm :: "'k operator_env \<Rightarrow> target_config \<Rightarrow> ('k operator, unit) prog" where
  "require_helm env t =
     (if tg_mode t = JStr ''helm'' then
        bnd (run env [environ_or env ''CNP_HELM'' ''helm'', ''version'', ''--template'', ''{{.Version}}''] None) (\<lambda>out.
          if strip py_isspace out \<noteq> ''v3.17.3'' then raise_exc (RuntimeError ''Helm 3.17.3 is required (set CNP_HELM)'') else ret ())
      else ret ())"

definition find_cluster :: "target_config \<Rightarrow> json \<Rightarrow> exc + json" where
  "find_cluster t clusters =
     bnd_result (jiter clusters) (\<lambda>cs.
     bnd_result (filter_result (\<lambda>c. bnd_result (jitem ''name'' c) (\<lambda>n. Inr (n = tg_cnp_cluster_name t))) cs) (\<lambda>matches.
       case matches of [m] \<Rightarrow> Inr m | _ \<Rightarrow> Inl (RuntimeError ''Exactly one matching registered CNP cluster is required'')))"

definition other_instance :: "target_config \<Rightarrow> json \<Rightarrow> json \<Rightarrow> exc + bool" where
  "other_instance t cluster instances =
     bnd_result (jiter instances) (any_result (\<lambda>x.
       bnd_result (jget ''cluster_id'' x) (\<lambda>i.
       bnd_result (jitem ''id'' cluster) (\<lambda>mine.
         if i \<noteq> mine then Inr False
         else bnd_result (jitem ''instance_key'' x) (\<lambda>k. Inr (k \<noteq> JStr (tg_instance_key t)))))))"

definition crds_served :: "json \<Rightarrow> exc + bool" where
  "crds_served crds =
     bnd_result (jitem ''items'' crds) (\<lambda>xs. bnd_result (jiter xs) (all_result (\<lambda>x.
       bnd_result (jitem ''spec'' x) (\<lambda>sp. bnd_result (jitem ''versions'' sp) (\<lambda>vs. bnd_result (jiter vs) (any_result (\<lambda>v.
         bnd_result (jitem ''name'' v) (\<lambda>n. if n \<noteq> JStr ''v1'' then Inr False
           else bnd_result (jitem ''served'' v) (\<lambda>b. Inr (truthy b))))))))))"

text \<open>\<open>next\<close> over the conditions: those after the first ready one are not looked at.\<close>

fun ready_condition :: "json list \<Rightarrow> exc + json" where
  "ready_condition [] = Inr (JObj [])"
| "ready_condition (c # cs) = bnd_result (jget ''type'' c) (\<lambda>ty. if ty = JStr ''Ready'' then Inr c else ready_condition cs)"

definition store_ready :: "json \<Rightarrow> exc + bool" where
  "store_ready store =
     bnd_result (jsub ''status'' store) (\<lambda>st.
     bnd_result (jget_default ''conditions'' (JArr []) st) (\<lambda>conditions.
     bnd_result (jiter conditions) (\<lambda>cs.
     bnd_result (ready_condition cs) (\<lambda>ready.
     bnd_result (jget ''status'' ready) (\<lambda>v. Inr (v = JStr ''True''))))))"

definition backend_policy :: "'k operator_env \<Rightarrow> string" where
  "backend_policy env = environ_or env ''CNP_BACKEND_VAULT_POLICY'' ''cnp-backend''"

definition certificate_test :: "target_config \<Rightarrow> string" where
  "certificate_test t =
     ''cd '' @ shell_quote (tg_gateway_repo_path t) @ '' && docker compose exec -T nginx-grafana test -f /etc/letsencrypt/live/''
     @ tg_public_domain t @ ''/fullchain.pem''"

definition check_kubernetes :: "'k operator_env \<Rightarrow> target_config \<Rightarrow> ('k operator, unit) prog" where
  "check_kubernetes env t =
     bnd (kubectl env t [''get'', ''storageclass'', tg_storage_class t, ''-o'', ''name''] None) (\<lambda>_.
     bnd (kubectl_json env t [''get'', ''crd'', ''externalsecrets.external-secrets.io'', ''secretstores.external-secrets.io'',
            ''-o'', ''json'']) (\<lambda>crds.
     bnd (lift_result (crds_served crds)) (\<lambda>served.
     if \<not> served then raise_exc (RuntimeError ''ESO v1 CRDs are required'')
     else
       bnd (kubectl_json env t [''get'', ''clustersecretstore'', ''vault-backend'', ''-o'', ''json'']) (\<lambda>store.
       bnd (lift_result (store_ready store)) (\<lambda>ready.
       if \<not> ready then raise_exc (RuntimeError ''ClusterSecretStore vault-backend is not Ready'')
       else
         bnd (kubectl env t [''-n'', tg_tailscale_namespace t, ''get'', ''deployment'', ''operator'', ''-o'', ''name''] None) (\<lambda>_.
         bnd (kubectl env t [''-n'', ''external-secrets'', ''get'', ''service'', ''vault-cnp-control'', ''-o'', ''name''] None)
           (\<lambda>_. ret ())))))))"

definition check_vault :: "'k operator_env \<Rightarrow> ('k operator, api) prog" where
  "check_vault env =
     bnd (required_env env ''VAULT_ADDR'') (\<lambda>addr.
     bnd (required_env env ''VAULT_TOKEN'') (\<lambda>token.
     bnd (lift_result (vault_api env addr token)) (\<lambda>v.
     bnd (api_get env v ''/v1/sys/health'') (\<lambda>health.
     bnd (lift_result (jget ''sealed'' health)) (\<lambda>sealed.
     bnd (lift_result (if truthy sealed then Inr JNull else jget ''initialized'' health)) (\<lambda>initialized.
     if truthy sealed \<or> \<not> truthy initialized then raise_exc (RuntimeError ''Vault must be initialized and unsealed'')
     else bnd (api_get env v (''/v1/sys/policies/acl/'' @ backend_policy env)) (\<lambda>_. ret v)))))))"

definition preflight :: "'k operator_env \<Rightarrow> target_config \<Rightarrow> ('k operator, runtime) prog" where
  "preflight env t =
     bnd (for_each [''kubectl'', ''ssh''] (require_tool env)) (\<lambda>_.
     bnd (require_helm env t) (\<lambda>_.
     bnd (required_env env ''CNP_API_URL'') (\<lambda>url.
     bnd (required_env env ''CNP_API_KEY'') (\<lambda>key.
     bnd (lift_result (new_api env url [(''X-API-Key'', key)])) (\<lambda>cnp.
     bnd (api_get env cnp ''/api/v1/clusters/'') (\<lambda>clusters.
     bnd (lift_result (find_cluster t clusters)) (\<lambda>cluster.
     bnd (api_get env cnp ''/api/v1/keycloak/instances'') (\<lambda>instances.
     bnd (lift_result (other_instance t cluster instances)) (\<lambda>taken.
     if taken then raise_exc (RuntimeError ''Target CNP cluster already belongs to another Keycloak instance'')
     else
       bnd (check_kubernetes env t) (\<lambda>_.
       bnd (check_vault env) (\<lambda>v.
       bnd (run env [''ssh'', ''-o'', ''BatchMode=yes'', ''-o'', ''ConnectTimeout=10'', tg_gateway_host t, certificate_test t] None) (\<lambda>_.
       bnd (lift_result (jitem ''id'' cluster)) (\<lambda>i.
         ret \<lparr>rt_cluster_id = i, rt_cnp = cnp, rt_vault = v\<rparr>)))))))))))))"

section \<open>Secrets and installation\<close>

definition incomplete :: "json \<Rightarrow> exc + bool" where
  "incomplete secret =
     bnd_result (jget ''username'' secret) (\<lambda>u.
     if \<not> truthy u then Inr True else bnd_result (jget ''password'' secret) (\<lambda>p. Inr (\<not> truthy p)))"

definition account_secret :: "string \<Rightarrow> string \<Rightarrow> json" where
  "account_secret username password = JObj [(''username'', JStr username), (''password'', JStr password)]"

definition namespace_manifest :: "target_config \<Rightarrow> json" where
  "namespace_manifest t =
     JObj [(''apiVersion'', JStr ''v1''), (''kind'', JStr ''Namespace''), (''metadata'', JObj [(''name'', JStr (tg_namespace t))])]"

definition token_manifest :: "target_config \<Rightarrow> string \<Rightarrow> json" where
  "token_manifest t token =
     JObj [(''apiVersion'', JStr ''v1''), (''kind'', JStr ''Secret''),
           (''metadata'', JObj [(''name'', JStr ''keycloak-eso-token''), (''namespace'', JStr (tg_namespace t))]),
           (''type'', JStr ''Opaque''), (''stringData'', JObj [(''token'', JStr token)])]"

definition configure_secrets :: "'k operator_env \<Rightarrow> target_config \<Rightarrow> api \<Rightarrow> ('k operator, json) prog" where
  "configure_secrets env t v =
     bnd (ask_machine (random_text env)) (\<lambda>p1.
     bnd (ensure_secret env v (vault_prefix t @ ''/database'') (account_secret ''keycloak'' p1)) (\<lambda>database.
     bnd (ask_machine (random_text env)) (\<lambda>p2.
     bnd (ensure_secret env v (vault_prefix t @ ''/bootstrap'') (account_secret ''cnp-bootstrap'' p2)) (\<lambda>bootstrap_secret.
     bnd (lift_result (any_result incomplete [database, bootstrap_secret])) (\<lambda>bad.
     if bad then raise_exc (RuntimeError ''Existing database/bootstrap secret is incomplete'')
     else
       bnd (ensure_eso_token env v (tg_instance_key t)) (\<lambda>token.
       bnd (extend_backend_policy env v (backend_policy env)) (\<lambda>_.
       bnd (kubectl env t [''apply'', ''-f'', ''-''] (Some (json_dumps env (namespace_manifest t)))) (\<lambda>_.
       bnd (kubectl env t [''apply'', ''--server-side'', ''--field-manager=cnp-keycloak-bootstrap'', ''-f'', ''-'']
              (Some (json_dumps env (token_manifest t token)))) (\<lambda>_.
         ret bootstrap_secret)))))))))"

definition argo_managed :: "json \<Rightarrow> exc + bool" where
  "argo_managed existing =
     bnd_result (jitem ''items'' existing) (\<lambda>xs. bnd_result (jiter xs) (any_result (\<lambda>x.
       bnd_result (jsub ''metadata'' x) (\<lambda>m. bnd_result (jsub ''annotations'' m) (\<lambda>a.
       bnd_result (jget ''argocd.argoproj.io/tracking-id'' a) (\<lambda>v. Inr (truthy v)))))))"

definition install_helm :: "'k operator_env \<Rightarrow> target_config \<Rightarrow> json \<Rightarrow> ('k operator, unit) prog" where
  "install_helm env t values =
     bnd (gets (\<lambda>s. temp_path env (machine s))) (\<lambda>path.
     bnd (record_event (Wrote_values path values)) (\<lambda>_.
     bnd (lift_result (as_text (tg_context t))) (\<lambda>context_name.
     bnd (run env [environ_or env ''CNP_HELM'' ''helm'', ''upgrade'', ''--install'', tg_release t, ''infra/keycloak/chart'',
            ''--kube-context'', context_name, ''--namespace'', tg_namespace t, ''--atomic'', ''--wait'', ''--timeout'', ''10m'',
            ''-f'', path] None) (\<lambda>_. ret ()))))"

definition is_revision :: "string \<Rightarrow> bool" where
  "is_revision s \<longleftrightarrow> length s = 40 \<and> list_all (\<lambda>c. is_09 c \<or> c \<in> set ''abcdef'') s"

definition argo_source_matches :: "json \<Rightarrow> json \<Rightarrow> string \<Rightarrow> exc + bool" where
  "argo_source_matches source values revision =
     (if \<not> is_revision revision then Inr False
      else
        bnd_result (jget ''path'' source) (\<lambda>p.
        if p \<noteq> JStr ''infra/keycloak/chart'' then Inr False
        else bnd_result (jsub ''helm'' source) (\<lambda>h. bnd_result (jget ''valuesObject'' h) (\<lambda>v. Inr (v = values)))))"

definition argo_destination_matches :: "target_config \<Rightarrow> json \<Rightarrow> json \<Rightarrow> exc + bool" where
  "argo_destination_matches t spec source =
     bnd_result (bnd_result (jitem ''destination'' spec) (jitem ''namespace'')) (\<lambda>ns.
     if ns \<noteq> JStr (tg_namespace t) then Inr False
     else bnd_result (bnd_result (jitem ''helm'' source) (jget ''releaseName'')) (\<lambda>r. Inr (r = JStr (tg_release t))))"

definition get_argo_application :: "'k operator_env \<Rightarrow> target_config \<Rightarrow> ('k operator, json) prog" where
  "get_argo_application env t =
     bnd (lift_result (as_text (tg_argo_application t))) (\<lambda>name.
       kubectl_json env t [''-n'', ''argocd'', ''get'', ''application'', name, ''-o'', ''json''])"

text \<open>One look at the synchronisation: failed, done, or neither.\<close>

definition sync_state :: "string \<Rightarrow> json \<Rightarrow> exc + bool" where
  "sync_state revision app =
     bnd_result (jsub ''status'' app) (\<lambda>st.
     bnd_result (bnd_result (jsub ''operationState'' st) (jget ''phase'')) (\<lambda>phase.
     if phase = JStr ''Failed'' \<or> phase = JStr ''Error'' then Inl (RuntimeError ''ArgoCD sync failed'')
     else
       bnd_result (jsub ''sync'' st) (\<lambda>sy.
       bnd_result (jget ''revision'' sy) (\<lambda>r.
       if r \<noteq> JStr revision then Inr False
       else
         bnd_result (jget ''status'' sy) (\<lambda>x.
         if x \<noteq> JStr ''Synced'' then Inr False
         else bnd_result (bnd_result (jsub ''health'' st) (jget ''status'')) (\<lambda>h. Inr (h = JStr ''Healthy'')))))))"

text \<open>
  The loop asks for the time before each look and sleeps five seconds after it; \<open>n\<close> bounds the looks.
\<close>

primrec await_sync :: "nat \<Rightarrow> 'k operator_env \<Rightarrow> target_config \<Rightarrow> string \<Rightarrow> int \<Rightarrow> ('k operator, unit) prog" where
  "await_sync 0 env t revision deadline = raise_exc AssertionError"
| "await_sync (Suc n) env t revision deadline =
     bnd (gets (\<lambda>s. clock env (machine s))) (\<lambda>now.
     if \<not> now < deadline then raise_exc (RuntimeError ''ArgoCD readiness timed out'')
     else
       bnd (get_argo_application env t) (\<lambda>app.
       bnd (lift_result (sync_state revision app)) (\<lambda>ready.
       if ready then ret ()
       else bnd (ask_machine (\<lambda>k. ((), pause env 5 k))) (\<lambda>_. await_sync n env t revision deadline))))"

definition SYNC_LOOKS :: nat where
  "SYNC_LOOKS = 121"

definition install_argocd :: "'k operator_env \<Rightarrow> target_config \<Rightarrow> json \<Rightarrow> ('k operator, unit) prog" where
  "install_argocd env t values =
     bnd (get_argo_application env t) (\<lambda>app.
     bnd (lift_result (jitem ''spec'' app)) (\<lambda>spec.
     bnd (lift_result (jsub ''source'' spec)) (\<lambda>source.
     bnd (lift_result (bnd_result (jget_default ''targetRevision'' (JStr []) source) as_text)) (\<lambda>revision.
     bnd (lift_result (argo_source_matches source values revision)) (\<lambda>same.
     if \<not> same then raise_exc (RuntimeError ''ArgoCD requires an exact published Git SHA and matching target values'')
     else
       bnd (lift_result (argo_destination_matches t spec source)) (\<lambda>there.
       if \<not> there then raise_exc (RuntimeError ''ArgoCD destination/release does not match target'')
       else
         bnd (lift_result (as_text (tg_argo_application t))) (\<lambda>name.
         bnd (kubectl env t [''-n'', ''argocd'', ''patch'', ''application'', name, ''--type=merge'', ''-p'',
                json_dumps env (JObj [(''operation'', JObj [(''sync'', JObj [(''revision'', JStr revision),
                  (''syncStrategy'', JObj [(''hook'', JObj [])])])])])] None) (\<lambda>_.
         bnd (gets (\<lambda>s. clock env (machine s))) (\<lambda>now.
           await_sync SYNC_LOOKS env t revision (now + 600))))))))))"

definition install :: "'k operator_env \<Rightarrow> target_config \<Rightarrow> ('k operator, unit) prog" where
  "install env t =
     bnd (lift_result (helm_values t (image_lock env))) (\<lambda>values.
     bnd (kubectl_json env t [''get'', ''deploy'', ''-n'', tg_namespace t, ''--ignore-not-found'', ''-o'', ''json'']) (\<lambda>existing.
     bnd (lift_result (argo_managed existing)) (\<lambda>managed.
     bnd (if tg_mode t = JStr ''helm'' then
            (if managed then raise_exc (RuntimeError ''ArgoCD owns this installation; refusing concurrent Helm management'')
             else install_helm env t values)
          else install_argocd env t values) (\<lambda>_.
     bnd (kubectl env t [''-n'', tg_namespace t, ''rollout'', ''status'', ''deployment/'' @ tg_release t @ ''-keycloak'', ''--timeout=600s''] None)
       (\<lambda>_. ret ())))))"

section \<open>The private connection\<close>

definition with_admin ::
  "'k operator_env \<Rightarrow> target_config \<Rightarrow> json \<Rightarrow> (keycloak_admin \<Rightarrow> ('k operator, unit) prog) \<Rightarrow> ('k operator, unit) prog" where
  "with_admin env t credentials body =
     bnd (lift_result (as_text (tg_context t))) (\<lambda>context_name.
     bnd (ask_machine (start_forward env context_name (tg_namespace t) (''service/'' @ tg_release t @ ''-keycloak''))) (\<lambda>opened.
     bnd (record_event (Forward_started context_name opened)) (\<lambda>_.
       finally_do
         (case opened of
            Forward_failed \<Rightarrow> raise_exc (RuntimeError ''Private Keycloak port-forward failed'')
          | Forward_timeout \<Rightarrow> raise_exc (RuntimeError ''Private Keycloak port-forward timed out'')
          | Forward_open port \<Rightarrow>
              bnd (lift_result (jitem ''username'' credentials)) (\<lambda>username.
              bnd (lift_result (jitem ''password'' credentials)) (\<lambda>password.
              bnd (keycloak_login env (''http://127.0.0.1:'' @ port @ ''/clusters/'' @ tg_instance_key t) username password) body)))
         (record_event Forward_stopped))))"

definition bootstrap :: "'k operator_env \<Rightarrow> target_config \<Rightarrow> api \<Rightarrow> json \<Rightarrow> ('k operator, unit) prog" where
  "bootstrap env t v credentials =
     with_admin env t credentials (\<lambda>ka.
       bnd (api_find env v (''/v1/secret/data/'' @ vault_prefix t @ ''/provisioner'')) (\<lambda>stored.
       bnd (lift_result (if truthy stored then bnd_result (secret_data stored) (jitem ''client_secret'') else Inr JNull)) (\<lambda>retained.
       bnd (ensure_provisioner env ka ''cnp-provisioner'' retained) (\<lambda>secret.
         store_provisioner env v (tg_instance_key t) secret))))"

definition verify_public :: "'k operator_env \<Rightarrow> target_config \<Rightarrow> json \<Rightarrow> ('k operator, unit) prog" where
  "verify_public env t credentials = with_admin env t credentials (\<lambda>ka. verify_public_issuer env ka (public_url t))"

section \<open>The route of the gateway\<close>

definition gateway_command :: "target_config \<Rightarrow> string \<Rightarrow> string \<Rightarrow> string list" where
  "gateway_command t transaction action =
     [''ssh'', ''-o'', ''BatchMode=yes'', tg_gateway_host t,
      ''cd '' @ shell_quote (tg_gateway_repo_path t) @ '' && bash infra/keycloak/gateway/apply-route.sh ''
      @ shell_quote (tg_instance_key t) @ '' '' @ action @ '' '' @ transaction]"

text \<open>The route stays staged while \<open>body\<close> runs, and is committed only when it returns.\<close>

definition stage_route :: "'k operator_env \<Rightarrow> target_config \<Rightarrow> string \<Rightarrow> string \<Rightarrow> ('k operator, unit) prog" where
  "stage_route env t transaction config =
     try_except (bnd (run env (gateway_command t transaction ''stage'') (Some config)) (\<lambda>_. ret ())) (\<lambda>e.
       if is_RuntimeError e then
         bnd (try_except (bnd (run env (gateway_command t transaction ''rollback'') None) (\<lambda>_. ret ()))
                (\<lambda>e1. if is_RuntimeError e1 then ret () else raise_exc e1)) (\<lambda>_. raise_exc e)
       else raise_exc e)"

definition rollback_on_error ::
  "'k operator_env \<Rightarrow> target_config \<Rightarrow> string \<Rightarrow> ('k operator, unit) prog \<Rightarrow> ('k operator, unit) prog" where
  "rollback_on_error env t transaction body =
     try_except body (\<lambda>e. bnd (run env (gateway_command t transaction ''rollback'') None) (\<lambda>_. raise_exc e))"

definition install_route ::
  "'k operator_env \<Rightarrow> target_config \<Rightarrow> string \<Rightarrow> ('k operator, unit) prog \<Rightarrow> ('k operator, unit) prog" where
  "install_route env t config body =
     bnd (ask_machine (random_text env)) (\<lambda>transaction.
     bnd (stage_route env t transaction config) (\<lambda>_.
     bnd (rollback_on_error env t transaction body) (\<lambda>_.
     bnd (run env (gateway_command t transaction ''commit'') None) (\<lambda>_. ret ()))))"

section \<open>The deployment\<close>

record deploy_result =
  dr_instance_key :: string
  dr_cluster_id :: json
  dr_public_url :: string
  dr_steps :: "string list"

definition STEPS :: "string list" where
  "STEPS = [''preflight'', ''secrets_and_registry'', ''installation'', ''provisioner'', ''gateway'', ''public_issuer_verified'',
     ''cnp_instance_enabled'']"

definition instance_path :: "target_config \<Rightarrow> string" where
  "instance_path t = ''/api/v1/keycloak/instances/'' @ tg_instance_key t"

definition instance_payload :: "target_config \<Rightarrow> json \<Rightarrow> bool \<Rightarrow> json" where
  "instance_payload t cluster_id enabled =
     JObj [(''cluster_id'', cluster_id), (''public_url'', JStr (public_url t)), (''admin_url'', JStr (admin_url t)),
           (''admin_client_id'', JStr ''cnp-provisioner''), (''provisioner_secret_ref'', JStr (vault_prefix t @ ''/provisioner'')),
           (''enabled'', JBool enabled)]"

definition register_instance :: "'k operator_env \<Rightarrow> target_config \<Rightarrow> runtime \<Rightarrow> ('k operator, unit) prog" where
  "register_instance env t rt =
     try_except
       (bnd (api_request env (rt_cnp rt) PUT (instance_path t) (instance_payload t (rt_cluster_id rt) False) False False
               [(''If-None-Match'', ''*'')]) (\<lambda>_. ret ()))
       (\<lambda>e. case e of
          APIError status \<Rightarrow>
            if status \<noteq> 412 then raise_exc e
            else
              bnd (api_get env (rt_cnp rt) (instance_path t)) (\<lambda>winner.
              bnd (lift_result (jitem ''public_url'' winner)) (\<lambda>url.
                if url \<noteq> JStr (public_url t) then raise_exc (RuntimeError ''Concurrent instance registration has a different issuer'')
                else ret ()))
        | _ \<Rightarrow> raise_exc e)"

definition activate_instance :: "'k operator_env \<Rightarrow> target_config \<Rightarrow> runtime \<Rightarrow> ('k operator, unit) prog" where
  "activate_instance env t rt =
     bnd (api_put env (rt_cnp rt) (instance_path t) (instance_payload t (rt_cluster_id rt) True)) (\<lambda>_.
       step_done ''cnp_instance_enabled'')"

definition gateway_body :: "'k operator_env \<Rightarrow> target_config \<Rightarrow> runtime \<Rightarrow> json \<Rightarrow> ('k operator, unit) prog" where
  "gateway_body env t rt credentials =
     bnd (step_done ''gateway'') (\<lambda>_.
     bnd (verify_public env t credentials) (\<lambda>_.
     bnd (step_done ''public_issuer_verified'') (\<lambda>_. activate_instance env t rt)))"

definition result_of :: "target_config \<Rightarrow> runtime \<Rightarrow> 'k operator \<Rightarrow> deploy_result" where
  "result_of t rt s =
     \<lparr>dr_instance_key = tg_instance_key t, dr_cluster_id = rt_cluster_id rt, dr_public_url = public_url t, dr_steps = done_steps s\<rparr>"

definition prepare_instance :: "'k operator_env \<Rightarrow> target_config \<Rightarrow> runtime \<Rightarrow> json \<Rightarrow> ('k operator, json) prog" where
  "prepare_instance env t rt current =
     bnd (configure_secrets env t (rt_vault rt)) (\<lambda>credentials.
     bnd (if current = JNull then register_instance env t rt else ret ()) (\<lambda>_.
     bnd (step_done ''secrets_and_registry'') (\<lambda>_.
     bnd (install env t) (\<lambda>_.
     bnd (step_done ''installation'') (\<lambda>_.
     bnd (bootstrap env t (rt_vault rt) credentials) (\<lambda>_.
     bnd (step_done ''provisioner'') (\<lambda>_. ret credentials)))))))"

definition carry_out :: "'k operator_env \<Rightarrow> target_config \<Rightarrow> runtime \<Rightarrow> json \<Rightarrow> ('k operator, deploy_result) prog" where
  "carry_out env t rt current =
     bnd (prepare_instance env t rt current) (\<lambda>credentials.
     bnd (install_route env t (render_route (file_text env ''gateway/route.conf.template'') t) (gateway_body env t rt credentials)) (\<lambda>_.
       gets (result_of t rt)))"

definition other_issuer :: "target_config \<Rightarrow> json \<Rightarrow> exc + bool" where
  "other_issuer t current =
     (if truthy current then bnd_result (jitem ''public_url'' current) (\<lambda>u. Inr (u \<noteq> JStr (public_url t))) else Inr False)"

definition deploy :: "'k operator_env \<Rightarrow> target_config \<Rightarrow> bool \<Rightarrow> ('k operator, deploy_result) prog" where
  "deploy env t check_only =
     bnd (preflight env t) (\<lambda>rt.
     bnd (step_done ''preflight'') (\<lambda>_.
     if check_only then gets (result_of t rt)
     else
       bnd (api_find env (rt_cnp rt) (instance_path t)) (\<lambda>current.
       bnd (lift_result (other_issuer t current)) (\<lambda>differs.
       if differs then raise_exc (RuntimeError ''Existing public issuer differs; refusing reassignment'')
       else carry_out env t rt current))))"

text \<open>\<open>main\<close> reports the step that failed; past the last one only the commit of the route can fail.\<close>

definition failed_step :: "string list \<Rightarrow> string" where
  "failed_step completed = (STEPS @ [''gateway_commit'']) ! length completed"

definition deploy_main ::
  "'k operator_env \<Rightarrow> (string \<Rightarrow> json option) \<Rightarrow> json option \<Rightarrow> bool \<Rightarrow> 'k operator \<Rightarrow> (string \<times> exc + deploy_result) \<times> 'k operator" where
  "deploy_main env profiles file check_only s =
     (case load_target (valid_ip env) (environ env) profiles file of
        Inl e \<Rightarrow> (Inl (''configuration'', e), s)
      | Inr t \<Rightarrow>
          (case deploy env t check_only (s\<lparr>done_steps := []\<rparr>) of
             (Inl e, s1) \<Rightarrow> (Inl (failed_step (done_steps s1), e), s1)
           | (Inr r, s1) \<Rightarrow> (Inr r, s1)))"

end
