(* ===== verification/Deploy_Safety.thy ===== *)
theory Deploy_Safety
  imports Deploy
begin

text \<open>
  What a deployment sends, whatever the commands and the servers answer: nothing is changed before the
  issuer of the instance is settled, nothing that exists is overwritten, and the instance is activated
  last, after the staged route has answered for its public issuer.
\<close>

section \<open>The journal\<close>

lemma appends_ask [appends_intros]: "appends journal P (ask_machine f)"
  by (rule appends_same) (simp add: ask_machine_def split: prod.split)

lemma appends_step [appends_intros]: "appends journal P (step_done name)"
  by (rule appends_same) (simp add: step_done_def prog_simps)

lemma appends_event [appends_intros]: "P e \<Longrightarrow> appends journal P (record_event e)"
  by (rule appendsI) (simp add: record_event_def prog_simps)

lemma appends_finally [appends_intros]:
  assumes "appends lg P m" and "appends lg P clean"
  shows "appends lg P (finally_do m clean)"
proof (rule appendsI)
  fix s
  obtain r s1 where m: "m s = (r, s1)" by fastforce
  obtain r2 s2 where c: "clean s1 = (r2, s2)" by fastforce
  obtain es es' where "lg s1 = lg s @ es" "list_all P es" "lg s2 = lg s1 @ es'" "list_all P es'"
    using appendsE[OF assms(1), of s] appendsE[OF assms(2), of s1] m c by (metis snd_conv)
  then show "\<exists>es. lg (snd (finally_do m clean s)) = lg s @ es \<and> list_all P es"
    by (intro exI[of _ "es @ es'"]) (simp add: finally_do_def m c split: sum.split)
qed

lemma appends_exc [appends_intros]:
  "(\<And>status. appends lg P (f status)) \<Longrightarrow> appends lg P g \<Longrightarrow> appends lg P (case e of APIError status \<Rightarrow> f status | _ \<Rightarrow> g)"
  by (cases e) auto

lemma appends_forward [appends_intros]:
  "appends lg P a \<Longrightarrow> appends lg P b \<Longrightarrow> (\<And>port. appends lg P (f port)) \<Longrightarrow>
   appends lg P (case x of Forward_open port \<Rightarrow> f port | Forward_failed \<Rightarrow> a | Forward_timeout \<Rightarrow> b)"
  by (cases x) auto

lemma appends_run [appends_intros]: "(\<And>r. P (Ran argv stdin r)) \<Longrightarrow> appends journal P (run env argv stdin)"
  unfolding run_def by (intro appends_intros) auto

lemma appends_kubectl [appends_intros]:
  "(\<And>c r. P (Ran ([''kubectl'', ''--context'', c, ''--request-timeout=30s''] @ args) stdin r)) \<Longrightarrow> appends journal P (kubectl env t args stdin)"
  unfolding kubectl_def by (intro appends_intros) auto

lemma appends_kubectl_json [appends_intros]:
  "(\<And>c r. P (Ran ([''kubectl'', ''--context'', c, ''--request-timeout=30s''] @ args) None r)) \<Longrightarrow> appends journal P (kubectl_json env t args)"
  unfolding kubectl_json_def by (intro appends_intros) auto

lemma appends_required_env [appends_intros]: "appends journal P (required_env env name)"
  unfolding required_env_def by (intro appends_intros)

lemma dict_set_mem: "(k, v) \<in> set (dict_set k v kvs)"
  by (induction k v kvs rule: dict_set.induct) auto

lemma appends_api_request:
  assumes "\<And>c r. ac_method c = method \<Longrightarrow> ac_path c = path \<Longrightarrow> ac_body c = body \<Longrightarrow> (\<And>kv. headers = [kv] \<Longrightarrow> kv \<in> set (ac_headers c)) \<Longrightarrow>
      P (Called c r)"
  shows "appends journal P (api_request env a method path body missing_ok form headers)"
proof -
  have "kv \<in> set (fold (\<lambda>(k, v). dict_set k v) (xs @ [kv]) base)" for kv xs and base :: "(string \<times> string) list"
    by (cases kv) (simp add: dict_set_mem)
  then show ?thesis
    unfolding api_request_def Let_def by (intro appends_intros) (auto intro!: assms)
qed

section \<open>Reading only\<close>

text \<open>Commands that only look: \<open>kubectl get\<close>, the version of helm, the test of a file.\<close>

definition is_query :: "target_config \<Rightarrow> string list \<Rightarrow> bool" where
  "is_query t argv \<longleftrightarrow>
     take 1 argv = [''kubectl''] \<and> (take 1 (drop 4 argv) = [''get''] \<or> take 1 (drop 4 argv) = [''-n''] \<and> take 1 (drop 6 argv) = [''get''])
     \<or> drop 1 argv = [''version'', ''--template'', ''{{.Version}}'']
     \<or> take 1 argv = [''ssh''] \<and> last argv = certificate_test t"

fun observes :: "target_config \<Rightarrow> operator_event \<Rightarrow> bool" where
  "observes t (Ran argv stdin r) = (stdin = None \<and> is_query t argv)"
| "observes t (Called c r) = (ac_method c = GET)"
| "observes t _ = False"

lemma observes_get: "appends journal (observes t) (api_get env a path)" "appends journal (observes t) (api_find env a path)"
  unfolding api_get_def api_find_def by (rule appends_api_request, simp)+

lemma preflight_observes: "appends journal (observes t) (preflight env t)"
  unfolding preflight_def check_kubernetes_def check_vault_def require_tool_def require_helm_def
  by (intro appends_intros observes_get) (simp_all add: is_query_def)

text \<open>An answer of the registry that settles the issuer: no instance, or one with the same address.\<close>

fun settles :: "target_config \<Rightarrow> operator_event \<Rightarrow> bool" where
  "settles t (Called c r) \<longleftrightarrow>
     ac_method c = GET \<and> ac_path c = instance_path t
     \<and> (case reply_value True r of
          Inl _ \<Rightarrow> False
        | Inr j \<Rightarrow> \<not> truthy j \<or> jitem ''public_url'' j = Inr (JStr (public_url t)))"
| "settles t _ = False"

lemma api_find_event:
  "api_find env a path s = (Inr j, s1) \<Longrightarrow> \<exists>c r. journal s1 = journal s @ [Called c r] \<and> ac_method c = GET \<and> ac_path c = path \<and> reply_value True r = Inr j"
  by (auto simp: api_find_def api_request_def Let_def prog_simps ask_machine_def record_event_def split: if_splits prod.splits)

section \<open>Nothing that exists is overwritten\<close>

text \<open>
  Secrets are only created, registrations are only new or the activation, and the only thing deleted is
  a realm of the probe.
\<close>

fun careful :: "operator_event \<Rightarrow> bool" where
  "careful (Called c r) \<longleftrightarrow>
     ac_method c = GET
     \<or> (if prefix ''/v1/secret/'' (ac_path c) then ac_method c = POST \<and> jitem ''options'' (ac_body c) = Inr (JObj [(''cas'', JNum 0)])
        else if prefix ''/api/'' (ac_path c) then
          ac_method c = PUT \<and> ((''If-None-Match'', ''*'') \<in> set (ac_headers c) \<or> jget ''enabled'' (ac_body c) = Inr (JBool True))
        else ac_method c = DELETE_M \<longrightarrow> prefix ''/admin/realms/cnp-bootstrap-'' (ac_path c))"
| "careful _ = True"

text \<open>The registration of CNP that enables the instance.\<close>

fun activates :: "operator_event \<Rightarrow> bool" where
  "activates (Called c r) = (ac_method c = PUT \<and> jget ''enabled'' (ac_body c) = Inr (JBool True))"
| "activates _ = False"

definition tame :: "operator_event \<Rightarrow> bool" where
  "tame e \<longleftrightarrow> careful e \<and> \<not> activates e"

named_theorems tame_intros "what each operation of the tool appends to the journal"

lemma tame_plain [simp]:
  "tame (Ran argv stdin r)" "tame (Wrote_values path v)" "tame (Forward_started c x)" "tame Forward_stopped"
  by (simp_all add: tame_def)

lemma tame_run [tame_intros]: "appends journal tame (run env argv stdin)"
  by (rule appends_run) simp

lemma tame_kubectl [tame_intros]: "appends journal tame (kubectl env t args stdin)" "appends journal tame (kubectl_json env t args)"
  by (intro appends_kubectl appends_kubectl_json, simp)+

lemma tame_event [tame_intros]: "tame e \<Longrightarrow> appends journal tame (record_event e)"
  by (rule appends_event)

lemma tame_get [tame_intros]: "appends journal tame (api_get env a path)" "appends journal tame (api_find env a path)"
  unfolding api_get_def api_find_def by (rule appends_api_request, simp add: tame_def)+

lemma tame_post:
  "\<not> prefix ''/v1/secret/'' path \<Longrightarrow> \<not> prefix ''/api/'' path \<Longrightarrow> appends journal tame (api_post env a path body)"
  "\<not> prefix ''/v1/secret/'' path \<Longrightarrow> \<not> prefix ''/api/'' path \<Longrightarrow> jget ''enabled'' body \<noteq> Inr (JBool True) \<Longrightarrow>
     appends journal tame (api_put env a path body)"
  unfolding api_post_def api_put_def by (rule appends_api_request, simp add: tame_def)+

lemma tame_ensure_secret [tame_intros]: "appends journal tame (ensure_secret env v path initial)"
proof -
  have "appends journal tame (api_post env v (secret_path path) (create_only initial))"
    unfolding api_post_def by (rule appends_api_request) (simp add: tame_def create_only_def secret_path_def)
  then show ?thesis unfolding ensure_secret_def by (intro appends_intros tame_intros)
qed

lemma tame_ensure_eso_token [tame_intros]: "appends journal tame (ensure_eso_token env v key)"
  unfolding ensure_eso_token_def Let_def eso_policy_def by (intro appends_intros tame_intros tame_post) simp_all

lemma tame_store_provisioner [tame_intros]: "appends journal tame (store_provisioner env v key secret)"
  unfolding store_provisioner_def by (intro appends_intros tame_intros)

lemma tame_extend_backend_policy [tame_intros]: "appends journal tame (extend_backend_policy env v name)"
  unfolding extend_backend_policy_def Let_def by (intro appends_intros tame_intros tame_post) simp_all

lemma tame_admin_login [tame_intros]: "appends journal tame (admin_login env ka)"
  unfolding admin_login_def by (intro appends_intros appends_api_request) (simp add: tame_def)

lemma tame_ensure_provisioner [tame_intros]: "appends journal tame (ensure_provisioner env ka client_id existing)"
  unfolding ensure_provisioner_def ensure_client_def Let_def by (intro appends_intros tame_intros tame_post) simp_all

lemma tame_remove_probe [tame_intros]: "appends journal tame (remove_probe env a (''cnp-bootstrap-'' @ r) owner)"
  unfolding remove_probe_def by (intro appends_intros tame_intros appends_api_request) (simp add: tame_def)

lemma tame_verify_public_issuer [tame_intros]: "appends journal tame (verify_public_issuer env ka url)"
  unfolding verify_public_issuer_def discover_def Let_def by (intro appends_intros tame_intros tame_post) simp_all

lemma tame_with_admin [tame_intros]: "(\<And>ka. appends journal tame (body ka)) \<Longrightarrow> appends journal tame (with_admin env t credentials body)"
  unfolding with_admin_def keycloak_login_def by (intro appends_intros tame_intros) simp_all

lemma tame_configure_secrets [tame_intros]: "appends journal tame (configure_secrets env t v)"
  unfolding configure_secrets_def by (intro appends_intros tame_intros)

lemma tame_await_sync [tame_intros]: "appends journal tame (await_sync n env t revision deadline)"
  by (induction n) (simp_all add: appends_raise, intro appends_intros tame_intros, simp add: get_argo_application_def, intro appends_intros tame_intros, assumption)

lemma tame_install [tame_intros]: "appends journal tame (install env t)"
  unfolding install_def install_helm_def install_argocd_def get_argo_application_def by (intro appends_intros tame_intros) simp

lemma tame_register [tame_intros]: "appends journal tame (register_instance env t rt)"
  unfolding register_instance_def
  by (intro appends_intros tame_intros appends_api_request) (auto simp: tame_def instance_path_def instance_payload_def)

lemma tame_prepare_instance [tame_intros]: "appends journal tame (prepare_instance env t rt current)"
  unfolding prepare_instance_def bootstrap_def by (intro appends_intros tame_intros)

lemma tame_verify_public [tame_intros]: "appends journal tame (verify_public env t credentials)"
  unfolding verify_public_def by (intro tame_intros)

lemma tame_stage_route [tame_intros]: "appends journal tame (stage_route env t transaction config)"
  unfolding stage_route_def by (intro appends_intros tame_intros)

lemma careful_if_tame: "appends journal tame m \<Longrightarrow> appends journal careful m"
  by (rule appends_mono[of journal tame]) (simp_all add: tame_def)

lemma careful_activate: "appends journal careful (activate_instance env t rt)"
proof -
  have "appends journal careful (api_put env (rt_cnp rt) (instance_path t) (instance_payload t (rt_cluster_id rt) True))"
    unfolding api_put_def by (rule appends_api_request) (simp add: instance_path_def instance_payload_def)
  then show ?thesis unfolding activate_instance_def by (intro appends_intros)
qed

lemma careful_carry_out: "appends journal careful (carry_out env t rt current)"
  unfolding carry_out_def install_route_def rollback_on_error_def gateway_body_def
  by (intro appends_intros careful_activate careful_if_tame[OF tame_prepare_instance] careful_if_tame[OF tame_stage_route]
      careful_if_tame[OF tame_verify_public] careful_if_tame[OF tame_run])

lemma careful_preflight: "appends journal careful (preflight env t)"
proof (rule appends_mono[OF preflight_observes])
  show "observes t e \<Longrightarrow> careful e" for e by (cases e) auto
qed


section \<open>Nothing changes before the issuer is settled\<close>

text \<open>
  C5: A check sends nothing but queries, and a deployment sends nothing else before the registry of CNP
  has answered that the instance is new or has the public address of the target: an instance with
  another issuer is left alone.
\<close>

theorem nothing_changes_before_the_issuer_is_settled:
  assumes "deploy env t check_only s = (r, s')"
  shows "\<exists>es. journal s' = journal s @ es
           \<and> (list_all (observes t) es \<or> \<not> check_only \<and> (\<exists>seen e rest. es = seen @ e # rest \<and> list_all (observes t) seen \<and> settles t e))"
proof -
  obtain r1 s1 where pf: "preflight env t s = (r1, s1)" by fastforce
  obtain es1 where es1: "journal s1 = journal s @ es1" "list_all (observes t) es1"
    using appendsE[OF preflight_observes] pf by (metis snd_conv)
  have quiet: ?thesis if "journal s' = journal s1 @ es" "list_all (observes t) es" for es
    using that es1 by (intro exI[of _ "es1 @ es"]) simp
  show ?thesis
  proof (cases r1)
    case (Inl e)
    with pf assms have "s' = s1" by (simp add: deploy_def prog_simps)
    then show ?thesis by (intro quiet[of "[]"]) simp_all
  next
    case (Inr rt)
    define s2 where "s2 = s1\<lparr>done_steps := done_steps s1 @ [''preflight'']\<rparr>"
    obtain r3 s3 where find: "api_find env (rt_cnp rt) (instance_path t) s2 = (r3, s3)" by fastforce
    obtain es2 where es2: "journal s3 = journal s1 @ es2" "list_all (observes t) es2"
      using appendsE[OF observes_get(2)[where t = t and env = env and a = "rt_cnp rt" and path = "instance_path t"], where s = s2] find by (auto simp: s2_def)
    have run: "(r, s') = (if check_only then gets (result_of t rt) s2 else
        case r3 of Inl e \<Rightarrow> (Inl e, s3) | Inr current \<Rightarrow>
          (case other_issuer t current of Inl e \<Rightarrow> (Inl e, s3)
           | Inr differs \<Rightarrow> if differs then (Inl (RuntimeError ''Existing public issuer differs; refusing reassignment''), s3)
                        else carry_out env t rt current s3))"
      using assms pf Inr find by (auto simp: deploy_def prog_simps step_done_def s2_def split: sum.splits)
    show ?thesis
    proof (cases "\<exists>current. \<not> check_only \<and> r3 = Inr current \<and> other_issuer t current = Inr False")
      case True
      then obtain current where go: "\<not> check_only" "r3 = Inr current" "other_issuer t current = Inr False" by blast
      obtain c a where call: "journal s3 = journal s2 @ [Called c a]" "ac_method c = GET" "ac_path c = instance_path t" "reply_value True a = Inr current"
        using api_find_event find go(2) by blast
      have "settles t (Called c a)"
        using call(2-4) go(3) by (auto simp: other_issuer_def bnd_result_def split: if_splits sum.splits)
      moreover have "s' = snd (carry_out env t rt current s3)" using run go by (cases "carry_out env t rt current s3") auto
      then obtain rest where "journal s' = journal s3 @ rest"
        using appendsE[OF careful_carry_out[where env = env and t = t and rt = rt and current = current], where s = s3] by metis
      ultimately show ?thesis using call(1) es1 go(1)
        by (intro exI[of _ "es1 @ Called c a # rest"] conjI disjI2 exI[of _ es1] exI[of _ "Called c a"] exI[of _ rest])
          (simp_all add: s2_def del: settles.simps)
    next
      case False
      then have "s' = s2 \<or> s' = s3" using run by (auto simp: prog_simps split: if_splits sum.splits)
      with es2 show ?thesis using quiet[of es2] quiet[of "[]"] by (auto simp: s2_def)
    qed
  qed
qed

section \<open>The activation comes last\<close>

text \<open>A program that, when it returns, has appended an entry that satisfies \<open>P\<close>.\<close>

definition yields :: "(operator_event \<Rightarrow> bool) \<Rightarrow> ('k operator, 'a) prog \<Rightarrow> bool" where
  "yields P m \<longleftrightarrow> (\<forall>s x s'. m s = (Inr x, s') \<longrightarrow> (\<exists>es. journal s' = journal s @ es \<and> list_ex P es))"

lemma yieldsD: "yields P m \<Longrightarrow> m s = (Inr x, s') \<Longrightarrow> \<exists>es. journal s' = journal s @ es \<and> list_ex P es"
  by (simp add: yields_def)

lemma growth: "appends journal Q m \<Longrightarrow> m s = (r, s') \<Longrightarrow> \<exists>es. journal s' = journal s @ es \<and> list_all Q es"
  by (metis appendsE snd_conv)

lemma yields_first:
  assumes "yields P m" and "\<And>x. appends journal Q (k x)"
  shows "yields P (bnd m k)"
  unfolding yields_def
proof (intro allI impI)
  fix s x s' assume "bnd m k s = (Inr x, s')"
  then obtain y s1 where run: "m s = (Inr y, s1)" "k y s1 = (Inr x, s')" unfolding bnd_ok by blast
  from yieldsD[OF assms(1) run(1)] growth[OF assms(2) run(2)]
  obtain es1 es2 where "journal s1 = journal s @ es1" "list_ex P es1" "journal s' = journal s1 @ es2" by blast
  then show "\<exists>es. journal s' = journal s @ es \<and> list_ex P es" by (intro exI[of _ "es1 @ es2"]) simp
qed

lemma yields_then:
  assumes "appends journal Q m" and "\<And>x. yields P (k x)"
  shows "yields P (bnd m k)"
  unfolding yields_def
proof (intro allI impI)
  fix s x s' assume "bnd m k s = (Inr x, s')"
  then obtain y s1 where run: "m s = (Inr y, s1)" "k y s1 = (Inr x, s')" unfolding bnd_ok by blast
  from growth[OF assms(1) run(1)] yieldsD[OF assms(2) run(2)]
  obtain es1 es2 where "journal s1 = journal s @ es1" "list_ex P es2" "journal s' = journal s1 @ es2" by blast
  then show "\<exists>es. journal s' = journal s @ es \<and> list_ex P es" by (intro exI[of _ "es1 @ es2"]) simp
qed

lemma yields_finally:
  assumes "yields P m" and "appends journal Q clean"
  shows "yields P (finally_do m clean)"
  unfolding yields_def
proof (intro allI impI)
  fix s x s'
  assume run: "finally_do m clean s = (Inr x, s')"
  obtain r s1 where m: "m s = (r, s1)" by fastforce
  obtain r2 s2 where c: "clean s1 = (r2, s2)" by fastforce
  from run m c have "r = Inr x" "s2 = s'" by (auto simp: finally_do_def split: sum.splits)
  with yieldsD[OF assms(1)] m growth[OF assms(2) c]
  obtain es1 es2 where "journal s1 = journal s @ es1" "list_ex P es1" "journal s' = journal s1 @ es2" by blast
  then show "\<exists>es. journal s' = journal s @ es \<and> list_ex P es" by (intro exI[of _ "es1 @ es2"]) simp
qed

lemma yields_forward: "(\<And>port. yields P (f port)) \<Longrightarrow>
   yields P (case x of Forward_open port \<Rightarrow> f port | Forward_failed \<Rightarrow> raise_exc e | Forward_timeout \<Rightarrow> raise_exc e')"
  by (cases x) (simp_all add: yields_def prog_simps)

lemma yields_run: "(\<And>out. P (Ran argv stdin (Some (0, out)))) \<Longrightarrow> yields P (run env argv stdin)"
  by (auto simp: yields_def run_def bnd_ok ask_machine_def record_event_def prog_simps split: prod.splits option.splits if_splits)

text \<open>A discovery document that the public address answered, with the issuer of a realm below it.\<close>

definition issuer_base :: "target_config \<Rightarrow> string" where
  "issuer_base t = rstrip (\<lambda>c. c = CHR ''/'') (public_url t)"

fun proves_issuer :: "target_config \<Rightarrow> operator_event \<Rightarrow> bool" where
  "proves_issuer t (Called c r) \<longleftrightarrow>
     ac_method c = GET \<and> ac_url c = issuer_base t
     \<and> (\<exists>realm j. ac_path c = discovery_path realm \<and> reply_value False r = Inr j
           \<and> issuer_matches (issuer_base t @ ''/realms/'' @ realm) j = Inr True)"
| "proves_issuer t _ = False"

fun staged :: "target_config \<Rightarrow> string \<Rightarrow> operator_event \<Rightarrow> bool" where
  "staged t transaction (Ran argv stdin r) \<longleftrightarrow>
     argv = gateway_command t transaction ''stage'' \<and> stdin \<noteq> None \<and> (\<exists>out. r = Some (0, out))"
| "staged t transaction _ = False"

lemma yields_discover: "yields (proves_issuer t) (discover env (public_url t) realm)"
proof -
  have "list_ex (proves_issuer t) [Called c r]"
    if "ac_method c = GET" "ac_url c = issuer_base t" "ac_path c = discovery_path realm" "reply_value False r = Inr j"
      "issuer_matches (issuer_base t @ ''/realms/'' @ realm) j = Inr True" for c r j
    using that by auto
  then show ?thesis
    by (force simp: yields_def discover_def api_get_def api_request_def Let_def bnd_ok lift_apply new_api_def bnd_result_def ask_machine_def
        record_event_def issuer_base_def prog_simps split: prod.splits if_splits sum.splits)
qed

lemma yields_verify_public: "yields (proves_issuer t) (verify_public env t credentials)"
proof -
  have "yields (proves_issuer t) (verify_public_issuer env ka (public_url t))" for ka
    unfolding verify_public_issuer_def Let_def
    by (rule yields_then[OF appends_ask], rule yields_then[OF appends_ask], rule yields_then[OF tame_post(1)], simp, simp,
        rule yields_then[OF tame_admin_login], rule yields_finally[OF yields_discover tame_remove_probe])
  then show ?thesis
    unfolding verify_public_def with_admin_def keycloak_login_def
    by (intro yields_then[OF appends_lift] yields_then[OF appends_ask] yields_then[OF tame_event] yields_finally[OF yields_forward tame_event]
        yields_then[OF appends_bnd[OF appends_lift tame_admin_login]]) simp_all
qed

lemma yields_stage_route: "yields (staged t transaction) (stage_route env t transaction config)"
proof -
  have "yields (staged t transaction) (bnd (run env (gateway_command t transaction ''stage'') (Some config)) (\<lambda>_. ret ()))"
    by (rule yields_first[OF yields_run appends_ret]) simp
  then show ?thesis
    by (auto simp: yields_def stage_route_def try_apply prog_simps split: sum.splits prod.splits if_splits)
qed

text \<open>What \<open>activate_instance\<close> sends: the activation, with its answer.\<close>

definition is_accepted :: "http_reply \<Rightarrow> bool" where
  "is_accepted r \<longleftrightarrow> (\<exists>j. reply_value False r = Inr j)"

lemma activate_run:
  assumes "activate_instance env t rt s = (r, s')"
  shows "\<exists>c a. journal s' = journal s @ [Called c a] \<and> activates (Called c a) \<and> ((\<exists>x. r = Inr x) \<longleftrightarrow> is_accepted a)"
  using assms
  by (cases "call_api env \<lparr>ac_url = api_url (rt_cnp rt), ac_method = PUT, ac_path = instance_path t,
        ac_body = instance_payload t (rt_cluster_id rt) True, ac_form = False,
        ac_headers = fold (\<lambda>(k, v). dict_set k v) (api_headers (rt_cnp rt)) [(''Content-Type'', ''application/json'')]\<rparr> (machine s)")
    (auto simp: activate_instance_def api_put_def api_request_def Let_def instance_path_def instance_payload_def ask_machine_def record_event_def
      step_done_def prog_simps is_accepted_def split: sum.splits)

text \<open>
  The journal of an attempt at activation: \<open>before\<close> holds no activation, has staged the route and has
  proved the issuer.
\<close>

definition ready_to_activate :: "target_config \<Rightarrow> string \<Rightarrow> operator_event list \<Rightarrow> bool" where
  "ready_to_activate t transaction before \<longleftrightarrow>
     list_all (\<lambda>e. \<not> activates e) before \<and> list_ex (staged t transaction) before \<and> list_ex (proves_issuer t) before"

lemma no_activation: "list_all tame es \<Longrightarrow> list_all (\<lambda>e. \<not> activates e) es"
  by (auto simp: list_all_iff tame_def)

lemma gateway_body_run:
  assumes "gateway_body env t rt credentials s = (r, s')"
  shows "(\<exists>e es. r = Inl e \<and> journal s' = journal s @ es \<and> list_all tame es)
       \<or> (\<exists>a c reply. journal s' = journal s @ a @ [Called c reply] \<and> list_all tame a \<and> list_ex (proves_issuer t) a
            \<and> activates (Called c reply) \<and> ((\<exists>x. r = Inr x) \<longleftrightarrow> is_accepted reply))"
proof -
  define s1 where "s1 = s\<lparr>done_steps := done_steps s @ [''gateway'']\<rparr>"
  obtain r2 s2 where v: "verify_public env t credentials s1 = (r2, s2)" by fastforce
  obtain es where es: "journal s2 = journal s @ es" "list_all tame es"
    using growth[OF tame_verify_public v] by (auto simp: s1_def)
  show ?thesis
  proof (cases r2)
    case (Inl e)
    with assms v have "r = Inl e" "s' = s2" by (auto simp: gateway_body_def step_done_def prog_simps s1_def)
    with es show ?thesis by blast
  next
    case (Inr x)
    define s3 where "s3 = s2\<lparr>done_steps := done_steps s2 @ [''public_issuer_verified'']\<rparr>"
    have "activate_instance env t rt s3 = (r, s')"
      using assms v Inr by (simp add: gateway_body_def step_done_def prog_simps s1_def s3_def)
    from activate_run[OF this] obtain c reply where act: "journal s' = journal s2 @ [Called c reply]" "activates (Called c reply)"
      "(\<exists>x. r = Inr x) \<longleftrightarrow> is_accepted reply" by (auto simp: s3_def)
    have "list_ex (proves_issuer t) es"
      using yieldsD[OF yields_verify_public v[unfolded Inr]] es(1) by (auto simp: s1_def)
    with act es show ?thesis by (intro disjI2 exI[of _ es] exI[of _ c] exI[of _ reply]) simp
  qed
qed

lemma run_event: "run env argv stdin s = (r, s') \<Longrightarrow> \<exists>res. journal s' = journal s @ [Ran argv stdin res] \<and> ((\<exists>x. r = Inr x) \<longleftrightarrow> (\<exists>out. res = Some (0, out)))"
  by (auto simp: run_def ask_machine_def record_event_def prog_simps split: prod.splits option.splits if_splits)

definition activation_attempt :: "target_config \<Rightarrow> bool \<Rightarrow> operator_event list \<Rightarrow> bool" where
  "activation_attempt t ok es \<longleftrightarrow>
     (\<exists>before c reply transaction res.
        es = before @ [Called c reply, Ran (gateway_command t transaction (if is_accepted reply then ''commit'' else ''rollback'')) None res]
        \<and> ready_to_activate t transaction before \<and> activates (Called c reply)
        \<and> (ok \<longleftrightarrow> is_accepted reply \<and> (\<exists>out. res = Some (0, out))))"

lemma install_route_run:
  assumes "install_route env t config (gateway_body env t rt credentials) s = (r, s')"
  shows "\<exists>es. journal s' = journal s @ es \<and> ((\<exists>e. r = Inl e) \<and> list_all tame es \<or> activation_attempt t (\<exists>x. r = Inr x) es)"
proof -
  obtain tx k where tx: "random_text env (machine s) = (tx, k)" by fastforce
  define s0 where "s0 = s\<lparr>machine := k\<rparr>"
  obtain r1 s1 where st: "stage_route env t tx config s0 = (r1, s1)" by fastforce
  obtain es1 where es1: "journal s1 = journal s @ es1" "list_all tame es1" using growth[OF tame_stage_route st] by (auto simp: s0_def)
  show ?thesis
  proof (cases r1)
    case (Inl e)
    with assms st have "r = Inl e" "s' = s1" by (auto simp: install_route_def ask_machine_def tx prog_simps s0_def)
    with es1 show ?thesis by blast
  next
    case (Inr u)
    from yieldsD[OF yields_stage_route st[unfolded Inr]] es1(1) have staged: "list_ex (staged t tx) es1" by (auto simp: s0_def)
    obtain r2 s2 where body: "gateway_body env t rt credentials s1 = (r2, s2)" by fastforce
    let ?action = "case r2 of Inl _ \<Rightarrow> ''rollback'' | Inr _ \<Rightarrow> ''commit''"
    obtain r3 s3 where last: "run env (gateway_command t tx ?action) None s2 = (r3, s3)" by fastforce
    obtain res where res: "journal s3 = journal s2 @ [Ran (gateway_command t tx ?action) None res]"
      "(\<exists>x. r3 = Inr x) \<longleftrightarrow> (\<exists>out. res = Some (0, out))" using run_event[OF last] by (elim exE conjE) (rule that)
    have end_: "s' = s3" "(\<exists>x. r = Inr x) \<longleftrightarrow> (\<exists>x. r2 = Inr x) \<and> (\<exists>x. r3 = Inr x)"
      using assms st Inr body last
      by (auto simp: install_route_def ask_machine_def tx prog_simps s0_def rollback_on_error_def split: sum.splits)
    from gateway_body_run[OF body] show ?thesis
    proof
      assume "\<exists>e es. r2 = Inl e \<and> journal s2 = journal s1 @ es \<and> list_all tame es"
      then obtain e es where "r2 = Inl e" "journal s2 = journal s1 @ es" "list_all tame es" by blast
      moreover from this(1) end_(2) have failed: "\<exists>e. r = Inl e" by (cases r) auto
      ultimately show ?thesis using es1 res(1) end_(1)
        by (intro exI[of _ "es1 @ es @ [Ran (gateway_command t tx ?action) None res]"] conjI disjI1) (simp_all add: failed)
    next
      assume "\<exists>a c reply. journal s2 = journal s1 @ a @ [Called c reply] \<and> list_all tame a \<and> list_ex (proves_issuer t) a
            \<and> activates (Called c reply) \<and> ((\<exists>x. r2 = Inr x) \<longleftrightarrow> is_accepted reply)"
      then obtain a c reply where a: "journal s2 = journal s1 @ a @ [Called c reply]" "list_all tame a" "list_ex (proves_issuer t) a"
        "activates (Called c reply)" "(\<exists>x. r2 = Inr x) \<longleftrightarrow> is_accepted reply" by blast
      have action: "?action = (if is_accepted reply then ''commit'' else ''rollback'')" using a(5) by (cases r2) auto
      have "ready_to_activate t tx (es1 @ a)"
        using no_activation[OF es1(2)] no_activation[OF a(2)] staged a(3) by (simp add: ready_to_activate_def)
      then have "activation_attempt t (\<exists>x. r = Inr x) (es1 @ a @ [Called c reply, Ran (gateway_command t tx ?action) None res])"
        unfolding activation_attempt_def action using a(4,5) res(2) end_(2)
        by (intro exI[of _ "es1 @ a"] exI[of _ c] exI[of _ reply] exI[of _ tx] exI[of _ res] conjI) (simp_all del: activates.simps)
      with es1(1) a(1) res(1) end_(1) show ?thesis
        by (intro exI[of _ "es1 @ a @ [Called c reply, Ran (gateway_command t tx ?action) None res]"]) simp
    qed
  qed
qed

lemma activation_attempt_later:
  assumes "activation_attempt t ok es" and "list_all (\<lambda>e. \<not> activates e) prep"
  shows "activation_attempt t ok (prep @ es)"
proof -
  from assms(1) obtain before c reply transaction res where
    es: "es = before @ [Called c reply, Ran (gateway_command t transaction (if is_accepted reply then ''commit'' else ''rollback'')) None res]"
    "ready_to_activate t transaction before" "activates (Called c reply)" "ok \<longleftrightarrow> is_accepted reply \<and> (\<exists>out. res = Some (0, out))"
    unfolding activation_attempt_def by (elim exE conjE) (rule that)
  from es(2) assms(2) have "ready_to_activate t transaction (prep @ before)" by (simp add: ready_to_activate_def)
  with es(1,3,4) show ?thesis
    unfolding activation_attempt_def
    by (intro exI[of _ "prep @ before"] exI[of _ c] exI[of _ reply] exI[of _ transaction] exI[of _ res] conjI) (simp_all del: activates.simps)
qed

lemma observes_no_activation: "list_all (observes t) es \<Longrightarrow> list_all (\<lambda>e. \<not> activates e) es"
proof (rule list.pred_mono_strong, assumption)
  show "observes t e \<Longrightarrow> \<not> activates e" for e by (cases e) auto
qed

lemma carry_out_run:
  assumes "carry_out env t rt current s = (r, s')"
  shows "\<exists>es. journal s' = journal s @ es
           \<and> ((\<exists>e. r = Inl e) \<and> list_all (\<lambda>e. \<not> activates e) es \<or> activation_attempt t (\<exists>x. r = Inr x) es)"
proof -
  obtain r1 s1 where p: "prepare_instance env t rt current s = (r1, s1)" by fastforce
  obtain es1 where es1: "journal s1 = journal s @ es1" "list_all tame es1" using growth[OF tame_prepare_instance p] by blast
  show ?thesis
  proof (cases r1)
    case (Inl e)
    with assms p have "r = Inl e" "s' = s1" by (auto simp: carry_out_def prog_simps)
    with es1 no_activation[OF es1(2)] show ?thesis by blast
  next
    case (Inr credentials)
    obtain r2 s2 where i: "install_route env t (render_route (file_text env ''gateway/route.conf.template'') t)
        (gateway_body env t rt credentials) s1 = (r2, s2)" by fastforce
    have end_: "s' = s2" "(\<exists>x. r = Inr x) \<longleftrightarrow> (\<exists>x. r2 = Inr x)" "(\<exists>e. r = Inl e) \<longleftrightarrow> (\<exists>e. r2 = Inl e)"
      using assms p Inr i by (auto simp: carry_out_def prog_simps split: sum.splits)
    from install_route_run[OF i] obtain es2 where es2: "journal s2 = journal s1 @ es2"
      "(\<exists>e. r2 = Inl e) \<and> list_all tame es2 \<or> activation_attempt t (\<exists>x. r2 = Inr x) es2" by (elim exE conjE) (rule that)
    from es2(2) have "(\<exists>e. r = Inl e) \<and> list_all (\<lambda>e. \<not> activates e) (es1 @ es2) \<or> activation_attempt t (\<exists>x. r = Inr x) (es1 @ es2)"
      using no_activation[OF es1(2)] activation_attempt_later[of t "\<exists>x. r2 = Inr x" es2 es1] no_activation[of es2] end_(2,3) by auto
    with es1(1) es2(1) end_(1) show ?thesis by (intro exI[of _ "es1 @ es2"]) simp
  qed
qed

text \<open>
  C4: The activation comes last. Whatever is answered, a deployment either never enables the instance, and
  then it fails (or was a check), or it enables it once, after the route was staged and a realm behind the
  public address has answered for its issuer, and the next and final command settles the route:
  committed if the registry accepted, rolled back if not. It reports success exactly when the
  registry accepted and the commit succeeded.
\<close>

theorem activation_is_last:
  assumes "deploy env t check_only s = (r, s')"
  shows "\<exists>es. journal s' = journal s @ es
           \<and> (list_all (\<lambda>e. \<not> activates e) es \<and> (check_only \<or> (\<exists>e. r = Inl e))
              \<or> \<not> check_only \<and> activation_attempt t (\<exists>x. r = Inr x) es)"
proof -
  obtain r1 s1 where pf: "preflight env t s = (r1, s1)" by fastforce
  obtain es1 where es1: "journal s1 = journal s @ es1" "list_all (observes t) es1" using growth[OF preflight_observes pf] by blast
  show ?thesis
  proof (cases r1)
    case (Inl e)
    with pf assms have "s' = s1" "r = Inl e" by (auto simp: deploy_def prog_simps)
    with es1 observes_no_activation[OF es1(2)] show ?thesis by blast
  next
    case (Inr rt)
    define s2 where "s2 = s1\<lparr>done_steps := done_steps s1 @ [''preflight'']\<rparr>"
    obtain r3 s3 where find: "api_find env (rt_cnp rt) (instance_path t) s2 = (r3, s3)" by fastforce
    obtain es2 where es2: "journal s3 = journal s1 @ es2" "list_all (observes t) es2"
      using growth[OF observes_get(2)[where t = t] find] by (auto simp: s2_def)
    have quiet: "list_all (\<lambda>e. \<not> activates e) (es1 @ es2)"
      using observes_no_activation[OF es1(2)] observes_no_activation[OF es2(2)] by simp
    have run: "(r, s') = (if check_only then gets (result_of t rt) s2 else
        case r3 of Inl e \<Rightarrow> (Inl e, s3) | Inr current \<Rightarrow>
          (case other_issuer t current of Inl e \<Rightarrow> (Inl e, s3)
           | Inr differs \<Rightarrow> if differs then (Inl (RuntimeError ''Existing public issuer differs; refusing reassignment''), s3)
                        else carry_out env t rt current s3))"
      using assms pf Inr find by (auto simp: deploy_def prog_simps step_done_def s2_def split: sum.splits)
    consider (check) "check_only" "s' = s2" | (stop) e where "\<not> check_only" "r = Inl e" "s' = s3"
      | (go) current where "\<not> check_only" "carry_out env t rt current s3 = (r, s')"
      using run by (cases check_only) (auto simp: prog_simps split: sum.splits if_splits)
    then show ?thesis
    proof cases
      case check
      with es1 observes_no_activation[OF es1(2)] show ?thesis by (intro exI[of _ es1]) (simp add: s2_def)
    next
      case stop
      with es1(1) es2(1) quiet show ?thesis by (intro exI[of _ "es1 @ es2"]) simp
    next
      case go
      from carry_out_run[OF go(2)] obtain es3 where es3: "journal s' = journal s3 @ es3"
        "(\<exists>e. r = Inl e) \<and> list_all (\<lambda>e. \<not> activates e) es3 \<or> activation_attempt t (\<exists>x. r = Inr x) es3" by (elim exE conjE) (rule that)
      from es3(2) have "(\<exists>e. r = Inl e) \<and> list_all (\<lambda>e. \<not> activates e) ((es1 @ es2) @ es3)
          \<or> activation_attempt t (\<exists>x. r = Inr x) ((es1 @ es2) @ es3)"
        using quiet activation_attempt_later[of t "\<exists>x. r = Inr x" es3 "es1 @ es2"] by auto
      with es1(1) es2(1) es3(1) go(1) show ?thesis by (intro exI[of _ "(es1 @ es2) @ es3"]) (simp, blast)
    qed
  qed
qed

section \<open>The wait for ArgoCD ends\<close>

definition decided :: "exc + 'a \<Rightarrow> bool" where
  "decided r \<longleftrightarrow> r \<noteq> Inl AssertionError"

lemma decided_Inr [simp]: "decided (Inr x)"
  by (simp add: decided_def)

lemma decided_bnd_result: "decided r \<Longrightarrow> (\<And>x. decided (f x)) \<Longrightarrow> decided (bnd_result r f)"
  by (cases r) (auto simp: decided_def bnd_result_def)

lemma decided_json: "decided (jget k j)" "decided (jget_default k d j)" "decided (jsub k j)" "decided (jitem k j)" "decided (as_text j)"
  by (cases j; simp add: decided_def jsub_def split: option.split)+

lemma decided_sync_state: "decided (sync_state revision app)"
  unfolding sync_state_def
  by (intro decided_bnd_result decided_json) (auto simp: decided_def[of "Inl _"] intro!: decided_bnd_result decided_json)

definition time_passes :: "'k operator_env \<Rightarrow> bool" where
  "time_passes env \<longleftrightarrow> (\<forall>k. clock env k + 5 \<le> clock env (pause env 5 k))
     \<and> (\<forall>argv stdin k. clock env k \<le> clock env (snd (run_command env argv stdin k))) \<and> (\<forall>text. decided (json_loads env text))"

lemma run_decided: "decided (fst (run env argv stdin s))"
  by (auto simp: run_def ask_machine_def record_event_def prog_simps decided_def split: prod.split option.split)

lemma run_clock:
  assumes "time_passes env" and "run env argv stdin s = (r, s')"
  shows "clock env (machine s) \<le> clock env (machine s')"
proof -
  have "machine s' = snd (run_command env argv stdin (machine s))"
    using assms(2) by (auto simp: run_def ask_machine_def record_event_def prog_simps split: option.splits if_splits prod.splits)
  with assms(1) show ?thesis by (simp add: time_passes_def)
qed

lemma kubectl_decided: "decided (fst (kubectl env t args stdin s))"
  using run_decided by (cases "tg_context t") (auto simp: kubectl_def prog_simps decided_def)

lemma kubectl_clock: "time_passes env \<Longrightarrow> kubectl env t args stdin s = (r, s') \<Longrightarrow> clock env (machine s) \<le> clock env (machine s')"
  using run_clock by (cases "tg_context t") (auto simp: kubectl_def prog_simps)

lemma get_argo_application_decided:
  assumes "time_passes env" and "get_argo_application env t s = (r, s')"
  shows "decided r" and "clock env (machine s) \<le> clock env (machine s')"
proof -
  show "decided r"
    using assms kubectl_decided[of env t _ None]
    by (cases "tg_argo_application t")
      (auto simp: get_argo_application_def kubectl_json_def prog_simps decided_def time_passes_def split: sum.splits prod.splits,
       metis fst_conv)
  show "clock env (machine s) \<le> clock env (machine s')"
    using assms kubectl_clock[OF assms(1)]
    by (cases "tg_argo_application t")
      (auto simp: get_argo_application_def kubectl_json_def prog_simps split: sum.splits prod.splits)
qed

lemma await_sync_decided:
  "time_passes env \<Longrightarrow> deadline \<le> clock env (machine s) + 5 * int n \<Longrightarrow> decided (fst (await_sync (Suc n) env t revision deadline s))"
proof (induction n arbitrary: s)
  case 0
  then show ?case by (simp add: prog_simps decided_def)
next
  case (Suc n)
  obtain r1 s1 where get: "get_argo_application env t s = (r1, s1)" by fastforce
  note g = get_argo_application_decided[OF Suc.prems(1) get]
  show ?case
  proof (cases "clock env (machine s) < deadline")
    case False
    then show ?thesis by (simp add: prog_simps decided_def)
  next
    case early: True
    show ?thesis
    proof (cases "\<exists>app. r1 = Inr app \<and> sync_state revision app = Inr False")
      case True
      then obtain app where app: "r1 = Inr app" "sync_state revision app = Inr False" by blast
      define s2 where "s2 = s1\<lparr>machine := pause env 5 (machine s1)\<rparr>"
      have "await_sync (Suc (Suc n)) env t revision deadline s = await_sync (Suc n) env t revision deadline s2"
        using early get app by (subst await_sync.simps(2)) (simp add: prog_simps ask_machine_def s2_def del: await_sync.simps(2))
      moreover have "clock env (machine s1) + 5 \<le> clock env (machine s2)" using Suc.prems(1) by (simp add: time_passes_def s2_def)
      then have "deadline \<le> clock env (machine s2) + 5 * int n" using g(2) Suc.prems(2) by simp
      ultimately show ?thesis using Suc.IH[OF Suc.prems(1)] by simp
    next
      case False
      then show ?thesis
        using early get g(1) decided_sync_state[of revision]
        by (subst await_sync.simps(2)) (auto simp: prog_simps decided_def simp del: await_sync.simps(2) split: sum.split)
    qed
  qed
qed

text \<open>
  The wait for the synchronisation is decided within 121 looks, whatever ArgoCD answers, provided
  that time passes: a sleep of five seconds lasts five seconds, and no command turns the clock back.
\<close>

theorem synchronisation_is_decided:
  assumes "time_passes env"
  shows "fst (install_argocd env t values s) \<noteq> Inl AssertionError"
proof -
  have last: "decided (fst (await_sync SYNC_LOOKS env t revision (clock env (machine s1) + 600) s1))" for revision s1
  proof -
    have "SYNC_LOOKS = Suc 120" by (simp add: SYNC_LOOKS_def)
    then show ?thesis using await_sync_decided[OF assms, of "clock env (machine s1) + 600" s1 120] by simp
  qed
  have step: "decided (fst (bnd m k s))" if "decided (fst (m s))" "\<And>x s1. decided (fst (k x s1))"
    for m :: "('a operator, 'c) prog" and k :: "'c \<Rightarrow> ('a operator, 'd) prog" and s
    using that by (cases "m s") (auto simp: prog_simps decided_def split: sum.split)
  have lift: "decided r \<Longrightarrow> decided (fst (lift_result r s))" for r :: "exc + 'c" and s :: "'a operator"
    by (simp add: prog_simps)
  have fetched: "decided (fst (get_argo_application env t s))" for s
    using get_argo_application_decided(1)[OF assms, of t s] by (cases "get_argo_application env t s") simp
  have source: "decided (argo_source_matches source values revision)" "decided (argo_destination_matches t spec source)" for source revision spec
    unfolding argo_source_matches_def argo_destination_matches_def by (auto intro!: decided_bnd_result decided_json)
  have stop: "decided (fst (raise_exc (RuntimeError why) s))" for why and s :: "'a operator"
    by (simp add: prog_simps decided_def)
  have branch: "decided (fst ((if c then a else b) s))" if "decided (fst (a s))" "decided (fst (b s))"
    for c and a b :: "('a operator, 'c) prog" and s
    using that by simp
  have wait: "decided (fst (bnd (gets (\<lambda>s. clock env (machine s))) (\<lambda>now. await_sync SYNC_LOOKS env t revision (now + 600)) s))" for revision s
    using last by (simp add: prog_simps)
  have "decided (fst (install_argocd env t values s))"
    unfolding install_argocd_def
    by (intro wait step branch stop fetched lift decided_json decided_bnd_result source kubectl_decided)
  then show ?thesis by (simp add: decided_def)
qed

section \<open>An environment\<close>

definition demo_answers :: "(string \<times> json) list" where
  "demo_answers =
     [(''/api/v1/clusters/'', JArr [JObj [(''name'', JStr ''prod''), (''id'', JNum 1)]]),
      (''/api/v1/keycloak/instances'', JArr []),
      (''/v1/sys/health'', JObj [(''initialized'', JBool True), (''sealed'', JBool False)]),
      (''/v1/sys/policies/acl/cnp-backend'', JObj [(''data'', JObj [(''policy'', JStr [])])]),
      (''/v1/auth/token/create'', JObj [(''auth'', JObj [(''client_token'', JStr ''s.eso'')])]),
      (''/realms/master/protocol/openid-connect/token'', JObj [(''access_token'', JStr ''a'')]),
      (''/admin/realms/master/clients?clientId=cnp-provisioner'', JArr [JObj [(''id'', JStr ''c1''), (''serviceAccountsEnabled'', JBool True)]]),
      (''/admin/realms/master/clients/c1/service-account-user'', JObj [(''id'', JStr ''u1'')]),
      (''/admin/realms/master/roles/admin'', JObj [(''name'', JStr ''admin'')]),
      (''/admin/realms/master/clients/c1/client-secret'', JObj [(''value'', JStr ''sec'')]),
      (''/realms/cnp-bootstrap-r/.well-known/openid-configuration'',
         JObj (map (\<lambda>(k, p). (k, JStr (''https://auth.example.org/clusters/prod-1/realms/cnp-bootstrap-r'' @ p)))
           [(''issuer'', []), (''authorization_endpoint'', ''/auth''), (''token_endpoint'', ''/token''), (''jwks_uri'', ''/certs'')])),
      (''/admin/realms/cnp-bootstrap-r'', JObj [(''attributes'', JObj [(OWNER, JStr ''r'')])])]"

definition demo_call :: "api_call \<Rightarrow> http_reply" where
  "demo_call c =
     (case map_of demo_answers (ac_path c) of
        Some j \<Rightarrow> Reply 200 (Content j)
      | None \<Rightarrow> if ac_method c = GET then Reply 404 Nothing_sent else Reply 204 Nothing_sent)"

definition demo_texts :: "(string \<times> json) list" where
  "demo_texts =
     [(''crds'', JObj [(''items'', JArr [JObj [(''spec'', JObj [(''versions'', JArr [JObj [(''name'', JStr ''v1''), (''served'', JBool True)]])])]])]),
      (''store'', JObj [(''status'', JObj [(''conditions'', JArr [JObj [(''type'', JStr ''Ready''), (''status'', JStr ''True'')]])])]),
      (''none'', JObj [(''items'', JArr [])])]"

definition demo_output :: "string list \<Rightarrow> string" where
  "demo_output argv =
     (if ''version'' \<in> set argv then ''v3.17.3''
      else if ''crd'' \<in> set argv then ''crds''
      else if ''clustersecretstore'' \<in> set argv then ''store''
      else ''none'')"

definition demo_operator_env :: "int operator_env" where
  "demo_operator_env =
     \<lparr>which = (\<lambda>_. True), environ = demo_environ, run_command = (\<lambda>argv _ k. (Some (0, demo_output argv), k)),
      call_api = (\<lambda>c k. (demo_call c, k)), start_forward = (\<lambda>_ _ _ k. (Forward_open ''40000'', k)), random_text = (\<lambda>k. (''r'', k)),
      clock = (\<lambda>k. k), pause = (\<lambda>n k. k + n), temp_path = (\<lambda>_. ''/tmp/values.yaml''),
      image_lock = JObj (map (\<lambda>k. (k, JStr (''registry/'' @ k @ ''@sha256:'' @ replicate 64 (CHR ''a'')))) [''keycloak'', ''postgresql'', ''nginx'']),
      file_text = (\<lambda>name. name), json_dumps = (\<lambda>_. ''{}''),
      json_loads = (\<lambda>out. case map_of demo_texts out of Some j \<Rightarrow> Inr j | None \<Rightarrow> Inl ValueError), valid_ip = (\<lambda>_. True)\<rparr>"

definition fresh_operator :: "int operator" where
  "fresh_operator = \<lparr>machine = 0, journal = [], done_steps = []\<rparr>"

lemma nothing_changes_before_the_issuer_is_settled_witness:
  "list_all (observes demo_target) (journal (snd (deploy demo_operator_env demo_target True fresh_operator)))"
proof -
  obtain r s' where run: "deploy demo_operator_env demo_target True fresh_operator = (r, s')" by fastforce
  from nothing_changes_before_the_issuer_is_settled[OF run] show ?thesis unfolding run by (auto simp: fresh_operator_def)
qed

lemma synchronisation_is_decided_witness:
  "fst (install_argocd demo_operator_env demo_target JNull fresh_operator) \<noteq> Inl AssertionError"
proof (rule synchronisation_is_decided)
  have "decided (case map_of demo_texts out of Some j \<Rightarrow> Inr j | None \<Rightarrow> Inl ValueError)" for out
    by (cases "map_of demo_texts out") (simp_all add: decided_def)
  then show "time_passes demo_operator_env" by (simp add: time_passes_def demo_operator_env_def)
qed

section \<open>A deployment that succeeds\<close>

text \<open>Runs of the example are computed one statement at a time: the continuation of a step waits for its value.\<close>

lemma step_weak: "m = m' \<Longrightarrow> bnd m k = bnd m' k" "m = m' \<Longrightarrow> finally_do m c = finally_do m' c" "m = m' \<Longrightarrow> try_except m h = try_except m' h"
  by simp_all

lemma demo_apis:
  "new_api demo_operator_env ''https://cnp'' [(''X-API-Key'', ''cnp_k'')] = Inr \<lparr>api_url = ''https://cnp'', api_headers = [(''X-API-Key'', ''cnp_k'')]\<rparr>"
  "new_api demo_operator_env ''https://vault'' [(''X-Vault-Token'', ''s.t'')] = Inr \<lparr>api_url = ''https://vault'', api_headers = [(''X-Vault-Token'', ''s.t'')]\<rparr>"
  "new_api demo_operator_env ''http://127.0.0.1:40000/clusters/prod-1'' [] = Inr \<lparr>api_url = ''http://127.0.0.1:40000/clusters/prod-1'', api_headers = []\<rparr>"
  "new_api demo_operator_env ''https://auth.example.org/clusters/prod-1'' [] = Inr \<lparr>api_url = ''https://auth.example.org/clusters/prod-1'', api_headers = []\<rparr>"
  by code_simp+

lemma demo_texts_computed:
  "strip py_isspace ''v3.17.3'' = ''v3.17.3''" "substring reader_rule [] = False"
  "url_quote ''/'' ''cnp/keycloak/prod-1/database'' = ''cnp/keycloak/prod-1/database''"
  "url_quote ''/'' ''cnp/keycloak/prod-1/bootstrap'' = ''cnp/keycloak/prod-1/bootstrap''"
  "url_quote ''/'' ''cnp/keycloak/prod-1/eso-token'' = ''cnp/keycloak/prod-1/eso-token''"
  "url_quote ''/'' ''cnp/keycloak/prod-1/provisioner'' = ''cnp/keycloak/prod-1/provisioner''"
  "url_quote [] ''cnp-backend'' = ''cnp-backend''" "url_quote [] ''cnp-provisioner'' = ''cnp-provisioner''"
  "rstrip (\<lambda>c. c = CHR ''/'') ''https://auth.example.org/clusters/prod-1'' = ''https://auth.example.org/clusters/prod-1''"
  by code_simp+

lemma demo_environment:
  "which demo_operator_env = (\<lambda>_. True)" "environ demo_operator_env = demo_environ"
  "run_command demo_operator_env = (\<lambda>argv _ k. (Some (0, demo_output argv), k))"
  "call_api demo_operator_env = (\<lambda>c k. (demo_call c, k))"
  "start_forward demo_operator_env = (\<lambda>_ _ _ k. (Forward_open ''40000'', k))"
  "random_text demo_operator_env = (\<lambda>k. (''r'', k))"
  "temp_path demo_operator_env = (\<lambda>_. ''/tmp/values.yaml'')"
  "json_loads demo_operator_env = (\<lambda>out. case map_of demo_texts out of Some j \<Rightarrow> Inr j | None \<Rightarrow> Inl ValueError)"
  "json_dumps demo_operator_env = (\<lambda>_. ''{}'')" "file_text demo_operator_env = (\<lambda>n. n)"
  by (simp_all add: demo_operator_env_def)

lemma demo_target_texts:
  "tg_storage_class demo_target = ''cinder''" "tg_namespace demo_target = ''keycloak''" "tg_release demo_target = ''keycloak''"
  "tg_tailscale_namespace demo_target = ''tailscale''" "tg_gateway_host demo_target = ''ubuntu@10.0.0.7''"
  "tg_mode demo_target = JStr ''helm''" "tg_context demo_target = JStr ''admin@prod''" "tg_cnp_cluster_name demo_target = JStr ''prod''"
  "tg_instance_key demo_target = ''prod-1''" "vault_prefix demo_target = ''cnp/keycloak/prod-1''"
  "public_url demo_target = ''https://auth.example.org/clusters/prod-1''" "instance_path demo_target = ''/api/v1/keycloak/instances/prod-1''"
  by (simp_all add: demo_target_def vault_prefix_def public_url_def instance_path_def)

lemma demo_commands:
  "''version'' \<noteq> certificate_test demo_target" "''crd'' \<noteq> certificate_test demo_target" "''clustersecretstore'' \<noteq> certificate_test demo_target"
  "gateway_command demo_target x y = [''ssh'', ''-o'', ''BatchMode=yes'', ''ubuntu@10.0.0.7'',
      ''cd '' @ shell_quote (tg_gateway_repo_path demo_target) @ '' && bash infra/keycloak/gateway/apply-route.sh ''
      @ shell_quote ''prod-1'' @ '' '' @ y @ '' '' @ x]"
  by (simp_all add: certificate_test_def gateway_command_def demo_target_texts)

lemma demo_values: "\<exists>v. helm_values demo_target (image_lock demo_operator_env) = Inr v"
proof -
  have "(case helm_values demo_target (image_lock demo_operator_env) of Inl _ \<Rightarrow> False | Inr _ \<Rightarrow> True)" by code_simp
  then show ?thesis by (auto split: sum.splits)
qed

lemmas demo_run = ask_machine_def record_event_def step_done_def finally_do_def prog_simps require_tool_def require_helm_def run_def
  demo_environment environ_or_def demo_environ_def required_env_def demo_target_texts demo_apis api_get_def api_find_def api_post_def api_put_def
  api_request_def Let_def demo_call_def demo_answers_def reply_value_def kubectl_def kubectl_json_def demo_texts_def demo_output_def vault_api_def
  jsub_def bnd_result_def all_result_def backend_policy_def demo_texts_computed demo_commands ensure_secret_def secret_path_def account_secret_def
  with_admin_def keycloak_login_def admin_login_def

text \<open>A program that answers \<open>v\<close> on every machine; one that always returns.\<close>

definition goes :: "('k operator, 'a) prog \<Rightarrow> 'a \<Rightarrow> bool" where
  "goes m v \<longleftrightarrow> (\<forall>s. \<exists>s1. m s = (Inr v, s1))"

definition succeeds :: "('k operator, 'a) prog \<Rightarrow> bool" where
  "succeeds m \<longleftrightarrow> (\<forall>s. \<exists>x s1. m s = (Inr x, s1))"

lemma goesI: "(\<And>s. case m s of (r, s1) \<Rightarrow> r = Inr v) \<Longrightarrow> goes m v"
  by (auto simp: goes_def split: prod.splits)

lemma goes_bnd: "goes m v \<Longrightarrow> goes (k v) w \<Longrightarrow> goes (bnd m k) w"
  unfolding goes_def by (metis bnd_step)

lemma goes_simple: "goes (ret v) v" "goes (step_done n) ()"
  by (simp_all add: goes_def prog_simps step_done_def)

lemma goes_try:
  assumes "goes m v"
  shows "goes (try_except m h) v"
  unfolding goes_def
proof
  fix s
  from assms obtain s1 where "m s = (Inr v, s1)" unfolding goes_def by blast
  then show "\<exists>s1. try_except m h s = (Inr v, s1)" by (simp add: try_apply)
qed

lemma succeeds_bnd: "goes m v \<Longrightarrow> succeeds (k v) \<Longrightarrow> succeeds (bnd m k)"
  unfolding goes_def succeeds_def by (metis bnd_step)

lemma succeeds_gets: "succeeds (gets f)"
  by (simp add: succeeds_def prog_simps)

definition demo_runtime :: runtime where
  "demo_runtime =
     \<lparr>rt_cluster_id = JNum 1, rt_cnp = \<lparr>api_url = ''https://cnp'', api_headers = [(''X-API-Key'', ''cnp_k'')]\<rparr>,
      rt_vault = \<lparr>api_url = ''https://vault'', api_headers = [(''X-Vault-Token'', ''s.t'')]\<rparr>\<rparr>"

definition demo_credentials :: json where
  "demo_credentials = account_secret ''cnp-bootstrap'' ''r''"

lemma demo_random: "goes (ask_machine (random_text demo_operator_env)) ''r''"
  by (rule goesI) (simp add: demo_run)

lemma demo_preflight: "goes (preflight demo_operator_env demo_target) demo_runtime"
  by (rule goesI) (simp add: preflight_def demo_run check_kubernetes_def check_vault_def find_cluster_def other_instance_def crds_served_def
      store_ready_def demo_runtime_def cong: step_weak)

lemma demo_configure: "goes (configure_secrets demo_operator_env demo_target (rt_vault demo_runtime)) demo_credentials"
  by (rule goesI) (simp add: demo_run configure_secrets_def ensure_eso_token_def extend_backend_policy_def incomplete_def demo_runtime_def
      demo_credentials_def cong: step_weak)

lemma demo_install: "goes (install demo_operator_env demo_target) ()"
proof -
  obtain v where v: "helm_values demo_target (image_lock demo_operator_env) = Inr v" using demo_values by blast
  show ?thesis by (rule goesI) (simp add: demo_run v install_def install_helm_def argo_managed_def cong: step_weak)
qed

lemma demo_bootstrap: "goes (bootstrap demo_operator_env demo_target (rt_vault demo_runtime) demo_credentials) ()"
  by (rule goesI) (simp add: demo_run bootstrap_def ensure_provisioner_def ensure_client_def admin_clients_path_def store_provisioner_def demo_runtime_def
      demo_credentials_def cong: step_weak)

lemma demo_verify: "goes (verify_public demo_operator_env demo_target demo_credentials) ()"
  by (rule goesI) (simp add: demo_run verify_public_def verify_public_issuer_def discover_def discovery_path_def issuer_matches_def remove_probe_def
      demo_credentials_def cong: step_weak)

lemma demo_registry: "goes (register_instance demo_operator_env demo_target demo_runtime) ()"
  "goes (activate_instance demo_operator_env demo_target demo_runtime) ()" "goes (api_find demo_operator_env (rt_cnp demo_runtime) (instance_path demo_target)) JNull"
  by (rule goesI, simp add: demo_run register_instance_def activate_instance_def demo_runtime_def cong: step_weak)+

lemma demo_gateway: "goes (bnd (run demo_operator_env (gateway_command demo_target x y) c) (\<lambda>_. ret ())) ()"
  by (rule goesI) (simp add: demo_run cong: step_weak)

lemma demo_deployment_succeeds: "succeeds (deploy demo_operator_env demo_target False)"
proof -
  have body: "goes (gateway_body demo_operator_env demo_target demo_runtime demo_credentials) ()"
    unfolding gateway_body_def
    by (rule goes_bnd[OF goes_simple(2)], rule goes_bnd[OF demo_verify], rule goes_bnd[OF goes_simple(2)], rule demo_registry(2))
  have route: "goes (install_route demo_operator_env demo_target c (gateway_body demo_operator_env demo_target demo_runtime demo_credentials)) ()" for c
    unfolding install_route_def stage_route_def rollback_on_error_def
    by (rule goes_bnd[OF demo_random], rule goes_bnd[OF goes_try[OF demo_gateway]], rule goes_bnd[OF goes_try[OF body]], rule demo_gateway)
  have ready: "goes (prepare_instance demo_operator_env demo_target demo_runtime JNull) demo_credentials"
    unfolding prepare_instance_def
    by (rule goes_bnd[OF demo_configure], simp, rule goes_bnd[OF demo_registry(1)], rule goes_bnd[OF goes_simple(2)], rule goes_bnd[OF demo_install],
        rule goes_bnd[OF goes_simple(2)], rule goes_bnd[OF demo_bootstrap], rule goes_bnd[OF goes_simple(2)], rule goes_simple(1))
  have fresh: "other_issuer demo_target JNull = Inr False" by (simp add: other_issuer_def)
  show ?thesis
    unfolding deploy_def carry_out_def
    by (rule succeeds_bnd[OF demo_preflight], rule succeeds_bnd[OF goes_simple(2)], simp, rule succeeds_bnd[OF demo_registry(3)],
        simp add: fresh lift_Inr, rule succeeds_bnd[OF ready], rule succeeds_bnd[OF route], rule succeeds_gets)
qed

lemma activation_is_last_witness:
  "activation_attempt demo_target True (journal (snd (deploy demo_operator_env demo_target False fresh_operator)))"
proof -
  obtain x s' where run: "deploy demo_operator_env demo_target False fresh_operator = (Inr x, s')"
    using demo_deployment_succeeds unfolding succeeds_def by blast
  from activation_is_last[OF run] show ?thesis unfolding run by (auto simp: fresh_operator_def)
qed

end
