(* ===== verification/Runtime_Status.thy ===== *)
theory Runtime_Status
  imports Scale Keycloak_Client
begin

text \<open>
  The state of a deployment: the Kubernetes client of a cluster and its reading of a deployment
  (backend/k8s/client.py), the ArgoCD client (backend/argocd/client.py), the response models of
  backend/api/schemas/app_status.py, and the routes of backend/api/routes/apps.py that read the
  runtime status, the deployment history and the scale states, and roll a deployment back. The
  Kubernetes library, the HTTP exchanges with ArgoCD and what Vault keeps are parameters.
\<close>

section \<open>The Kubernetes client of a cluster\<close>

record deployment_view =
  dv_replicas :: "int option"
  dv_ready :: "int option"
  dv_available :: "int option"
  dv_labels :: "(string \<times> string) list"

record k8s_cluster =
  kc_deployment :: "string \<Rightarrow> string \<Rightarrow> exc + deployment_view"
  kc_pod_phases :: "string \<Rightarrow> string \<Rightarrow> exc + string list"

text \<open>
  \<open>load_kube\<close> is the loading of a kubeconfig, of the given text or of the default sources; \<open>Inr None\<close> stands
  for the exceptions that \<open>_load_config\<close> catches, which leave the client disabled.
\<close>

record ('g, 'a) status_env =
  re_scale :: "('g, 'a) scale_env"
  re_kubeconfig :: "int \<Rightarrow> exc + json"
  re_load_kube :: "string option \<Rightarrow> exc + k8s_cluster option"
  re_target_namespace :: string
  re_argo_get :: "string \<Rightarrow> string \<Rightarrow> string \<Rightarrow> ('a, json) prog"

definition kubernetes_client :: "('g, 'a) status_env \<Rightarrow> json \<Rightarrow> exc + k8s_cluster option" where
  "kubernetes_client e text_of =
     (if \<not> truthy text_of then re_load_kube e None
      else (case text_of of JStr s \<Rightarrow> re_load_kube e (Some s) | _ \<Rightarrow> Inl TypeError))"

definition get_k8s_client_for_cluster :: "('g, 'a) status_env \<Rightarrow> cluster_connection \<Rightarrow> exc + k8s_cluster option" where
  "get_k8s_client_for_cluster e cluster =
     (case bnd_result (re_kubeconfig e (cl_id cluster)) (kubernetes_client e) of
        Inr k \<Rightarrow> Inr k
      | Inl _ \<Rightarrow> bnd_result (re_load_kube e None) (\<lambda>_. Inr None))"

record pods_status =
  ps_running :: int
  ps_total :: int
  ps_desired :: int
  ps_ready :: int
  ps_available :: int

definition or_zero :: "int option \<Rightarrow> int" where
  "or_zero n = (case n of None \<Rightarrow> 0 | Some n \<Rightarrow> n)"

definition label_selector :: "(string \<times> string) list \<Rightarrow> string" where
  "label_selector labels = py_join '','' (map (\<lambda>(k, v). k @ ''='' @ v) labels)"

definition get_pods_status :: "k8s_cluster \<Rightarrow> string \<Rightarrow> string \<Rightarrow> exc + pods_status" where
  "get_pods_status k ns name =
     bnd_result (kc_deployment k ns name) (\<lambda>dep.
     bnd_result (kc_pod_phases k ns (label_selector (dv_labels dep))) (\<lambda>phases.
       Inr \<lparr>ps_running = int (length (filter (\<lambda>p. p = ''Running'') phases)), ps_total = int (length phases),
            ps_desired = or_zero (dv_replicas dep), ps_ready = or_zero (dv_ready dep),
            ps_available = or_zero (dv_available dep)\<rparr>))"

text \<open>The loop over the namespaces: the first one that answers.\<close>

fun first_pods :: "k8s_cluster \<Rightarrow> string \<Rightarrow> string list \<Rightarrow> pods_status option" where
  "first_pods k name [] = None"
| "first_pods k name (ns # nss) =
     (case get_pods_status k ns name of Inr p \<Rightarrow> Some p | Inl _ \<Rightarrow> first_pods k name nss)"

definition pods_of :: "('g, 'a) status_env \<Rightarrow> application \<Rightarrow> cluster_connection \<Rightarrow> exc + pods_status option" where
  "pods_of e app cluster =
     bnd_result (get_k8s_client_for_cluster e cluster) (\<lambda>k.
       case k of
         None \<Rightarrow> Inr None
       | Some k \<Rightarrow> Inr (first_pods k (sanitize_k8s_name (app_name app)) [''prod'', ''dev'', re_target_namespace e]))"

section \<open>The ArgoCD client\<close>

definition argo_app_status :: "('g, 'a) status_env \<Rightarrow> string \<times> string \<Rightarrow> string \<Rightarrow> ('a, json) prog" where
  "argo_app_status e conn name = re_argo_get e (fst conn) (snd conn) (''/api/v1/applications/'' @ name)"

definition argo_app_history :: "('g, 'a) status_env \<Rightarrow> string \<times> string \<Rightarrow> string \<Rightarrow> ('a, json) prog" where
  "argo_app_history e conn name =
     bnd (argo_app_status e conn name) (\<lambda>j.
       lift_result (bnd_result (jget_default ''status'' (JObj []) j) (jget_default ''history'' (JArr []))))"

definition argo_client :: "('g, 'a) status_env \<Rightarrow> cluster_connection \<Rightarrow> exc + string \<times> string" where
  "argo_client e = get_argocd_client_for_cluster (se_argocd_token (re_scale e))"

section \<open>The runtime status of an application\<close>

datatype argo_env_status =
    Argo_data (argo_sync: json) (argo_health: json) json json
  | Argo_error exc

definition sub_get :: "string \<Rightarrow> string \<Rightarrow> json \<Rightarrow> exc + json" where
  "sub_get outer key j = bnd_result (jget_default outer (JObj []) j) (jget key)"

definition env_data :: "json \<Rightarrow> exc + argo_env_status" where
  "env_data j =
     bnd_result (jget_default ''status'' (JObj []) j) (\<lambda>s.
     bnd_result (bnd_result (jget_default ''summary'' (JObj []) s) (jget_default ''images'' (JArr []))) (\<lambda>images.
     bnd_result (sub_get ''sync'' ''status'' s) (\<lambda>sync.
     bnd_result (sub_get ''health'' ''status'' s) (\<lambda>health.
     bnd_result (if truthy images then jfirst images else Inr JNull) (\<lambda>img.
     bnd_result (sub_get ''operationState'' ''finishedAt'' s) (\<lambda>finished.
       Inr (Argo_data sync health img finished)))))))"

definition fetch_env :: "('g, 'a) status_env \<Rightarrow> string \<times> string \<Rightarrow> string \<Rightarrow> ('a, argo_env_status) prog" where
  "fetch_env e conn name =
     try_except (bnd (argo_app_status e conn name) (\<lambda>j. lift_result (env_data j))) (\<lambda>x. ret (Argo_error x))"

text \<open>\<open>data.get("health_status")\<close> and \<open>data.get("sync_status")\<close>: an error entry has neither.\<close>

fun health_status :: "argo_env_status \<Rightarrow> json" where
  "health_status (Argo_data sync health img finished) = health"
| "health_status (Argo_error e) = JNull"

fun sync_status :: "argo_env_status \<Rightarrow> json" where
  "sync_status (Argo_data sync health img finished) = sync"
| "sync_status (Argo_error e) = JNull"

definition set_known_status :: "int \<Rightarrow> application_status \<Rightarrow> (session, unit) prog" where
  "set_known_status aid st =
     modify (\<lambda>s. s\<lparr>db := (db s)\<lparr>applications := update_rows (\<lambda>a. app_id a = aid)
       (\<lambda>a. a\<lparr>app_last_known_status := st\<rparr>) (applications (db s))\<rparr>\<rparr>)"

definition persist_health :: "alert_env \<Rightarrow> application \<Rightarrow> json \<Rightarrow> json \<Rightarrow> (session, unit) prog" where
  "persist_health env app health sync =
     (if health = JStr ''Degraded'' \<or> health = JStr ''Missing'' then
        bnd (set_known_status (app_id app) DEGRADED) (\<lambda>_.
          if app_last_known_status app \<noteq> DEGRADED then
            emit_event env APP_HEALTH_DEGRADED ''critical'' ''argocd'' (Some (app_id app))
              [(''name'', JStr (app_name app)), (''health'', health)] None
          else ret ())
      else if sync = JStr ''Synced'' \<and> health = JStr ''Healthy'' then
        bnd (set_known_status (app_id app) DEPLOYED) (\<lambda>_.
          if app_last_known_status app = DEGRADED then
            emit_event env APP_HEALTH_RECOVERED ''info'' ''argocd'' (Some (app_id app))
              [(''name'', JStr (app_name app))] None
          else ret ())
      else ret ())"

definition both_argo_states ::
  "('g, 'a) status_env \<Rightarrow> application \<Rightarrow> cluster_connection \<Rightarrow> (('g, 'a) scale_world, argo_env_status \<times> argo_env_status) prog" where
  "both_argo_states e app cluster =
     bnd (lift_result (argo_client e cluster)) (\<lambda>conn.
     bnd (scale_argo (fetch_env e conn (app_slug app @ ''-dev''))) (\<lambda>dev.
     bnd (scale_argo (fetch_env e conn (app_slug app @ ''-prod''))) (\<lambda>prd.
     let src = (if truthy (health_status prd) then prd else dev) in
     bnd (scale_sess (persist_health (se_alert (re_scale e)) app (health_status src) (sync_status src))) (\<lambda>_.
     bnd (scale_sess (modify commit)) (\<lambda>_. ret (dev, prd))))))"

record app_runtime_status =
  rs_pods :: "pods_status option"
  rs_argocd :: "(argo_env_status \<times> argo_env_status) option"
  rs_k8s_error :: "exc option"
  rs_argocd_error :: "exc option"

fun optional_str :: "json \<Rightarrow> bool" where
  "optional_str JNull = True"
| "optional_str (JStr s) = True"
| "optional_str _ = False"

fun valid_env_status :: "argo_env_status \<Rightarrow> bool" where
  "valid_env_status (Argo_data sync health img finished) = list_all optional_str [sync, health, img, finished]"
| "valid_env_status (Argo_error e) = True"

text \<open>\<open>AppRuntimeStatus(**payload)\<close>: the validation error of a wrong type is a \<open>ValueError\<close>.\<close>

definition runtime_status ::
  "exc + pods_status option \<Rightarrow> exc + argo_env_status \<times> argo_env_status \<Rightarrow> exc + app_runtime_status" where
  "runtime_status pods argo =
     (if (case argo of Inr (dev, prd) \<Rightarrow> valid_env_status dev \<and> valid_env_status prd | Inl _ \<Rightarrow> True)
      then Inr \<lparr>rs_pods = (case pods of Inr p \<Rightarrow> p | Inl _ \<Rightarrow> None), rs_argocd = (case argo of Inr x \<Rightarrow> Some x | Inl _ \<Rightarrow> None),
                rs_k8s_error = (case pods of Inl x \<Rightarrow> Some x | Inr _ \<Rightarrow> None),
                rs_argocd_error = (case argo of Inl x \<Rightarrow> Some x | Inr _ \<Rightarrow> None)\<rparr>
      else Inl ValueError)"

definition get_app_runtime_status ::
  "('g, 'a) status_env \<Rightarrow> int \<Rightarrow> (('g, 'a) scale_world, app_runtime_status) prog" where
  "get_app_runtime_status e aid =
     bnd (scale_sess (resolve_app_and_cluster aid)) (\<lambda>(app, cluster).
     bnd (try_except (bnd (both_argo_states e app cluster) (\<lambda>x. ret (Inr x))) (\<lambda>x. ret (Inl x))) (\<lambda>argo.
       lift_result (runtime_status (pods_of e app cluster) argo)))"

section \<open>History, rollback and scale states\<close>

definition env_history :: "('g, 'a) status_env \<Rightarrow> string \<times> string \<Rightarrow> application \<Rightarrow> string \<Rightarrow> ('a, json) prog" where
  "env_history e conn app env =
     try_except (argo_app_history e conn (app_slug app @ ''-'' @ env)) (\<lambda>_. ret (JArr []))"

definition get_app_history_route ::
  "('g, 'a) status_env \<Rightarrow> user \<Rightarrow> int \<Rightarrow> (('g, 'a) scale_world, (string \<times> json) list) prog" where
  "get_app_history_route e u aid =
     bnd (scale_sess (require_tier VIEWER (Some (string_of_int aid)) u)) (\<lambda>_.
     bnd (scale_sess (resolve_app_and_cluster aid)) (\<lambda>(app, cluster).
     bnd (lift_result (argo_client e cluster)) (\<lambda>conn.
     bnd (scale_argo (env_history e conn app ''dev'')) (\<lambda>dev.
     bnd (scale_argo (env_history e conn app ''prod'')) (\<lambda>prd.
       ret [(''dev'', dev), (''prod'', prd)])))))"

fun find_entry :: "int \<Rightarrow> json list \<Rightarrow> exc + json option" where
  "find_entry i [] = Inr None"
| "find_entry i (x # xs) = bnd_result (jget ''id'' x) (\<lambda>v. if v = JNum i then Inr (Some x) else find_entry i xs)"

fun jslice :: "nat \<Rightarrow> json \<Rightarrow> exc + json" where
  "jslice n (JStr s) = Inr (JStr (take n s))"
| "jslice n (JArr xs) = Inr (JArr (take n xs))"
| "jslice n _ = Inl TypeError"

definition rollback_tag :: "json \<Rightarrow> exc + json" where
  "rollback_tag entry =
     bnd_result (jget ''revisions'' entry) (\<lambda>revisions.
     bnd_result (jfirst (jor revisions (JArr [JNull]))) (\<lambda>rev. jslice 8 (jor rev (JStr []))))"

definition set_image_tag :: "json \<Rightarrow> json \<Rightarrow> exc + json" where
  "set_image_tag tag data =
     bnd_result (jitem ''image'' data) (\<lambda>img. bnd_result (jset ''tag'' tag img) (\<lambda>image1. jset ''image'' image1 data))"

definition rollback_target :: "int \<Rightarrow> string \<Rightarrow> (session, application \<times> cluster_connection) prog" where
  "rollback_target aid env =
     bnd (gets (\<lambda>s. get_application aid (db s))) (\<lambda>app.
       case app of
         None \<Rightarrow> raise_exc (HTTPException 404)
       | Some app \<Rightarrow>
           if \<not> truthy_id (app_target_cluster_id app) then raise_exc (HTTPException 409)
           else if env \<notin> {''dev'', ''prod''} then raise_exc (HTTPException 422)
           else bnd (gets (\<lambda>s. get_cluster_row (the (app_target_cluster_id app)) (db s))) (\<lambda>cluster.
             case cluster of None \<Rightarrow> raise_exc (HTTPException 404) | Some cluster \<Rightarrow> ret (app, cluster)))"

definition tag_of_history :: "int \<Rightarrow> json \<Rightarrow> exc + json" where
  "tag_of_history hid history =
     bnd_result (bnd_result (jiter history) (find_entry hid)) (\<lambda>entry.
       case entry of
         None \<Rightarrow> Inl (HTTPException 404)
       | Some x \<Rightarrow> bnd_result (rollback_tag x) (\<lambda>tag. if truthy tag then Inr tag else Inl (HTTPException 409)))"

definition push_tag ::
  "('g, 'a) status_env \<Rightarrow> string \<Rightarrow> string \<Rightarrow> json \<Rightarrow> ('g, unit) prog" where
  "push_tag e project file tag =
     (let gl = se_gitlab (re_scale e); y = se_yaml (re_scale e) in
      bnd (read_file gl project file ''main'') (\<lambda>raw.
      bnd (lift_result (bnd_result (yaml_load y raw) (set_image_tag tag))) (\<lambda>data.
        push_file gl project file (yaml_dump y data) ''main'')))"

definition chosen_tag ::
  "('g, 'a) status_env \<Rightarrow> application \<Rightarrow> cluster_connection \<Rightarrow> string \<Rightarrow> int \<Rightarrow> (('g, 'a) scale_world, json) prog" where
  "chosen_tag e app cluster env hid =
     bnd (lift_result (argo_client e cluster)) (\<lambda>conn.
     bnd (scale_argo (argo_app_history e conn (app_slug app @ ''-'' @ env))) (\<lambda>history.
       lift_result (tag_of_history hid history)))"

definition gitops_project :: "('g, 'a) status_env \<Rightarrow> exc + string" where
  "gitops_project e =
     (if se_gitops_repo_url (re_scale e) = [] \<or> se_bot_token (re_scale e) = [] then Inl (HTTPException 503)
      else extract_project_path (se_ip_ok (re_scale e)) (se_gitops_repo_url (re_scale e)))"

definition record_rollback ::
  "('g, 'a) status_env \<Rightarrow> user \<Rightarrow> int \<Rightarrow> application \<Rightarrow> string \<Rightarrow> int \<Rightarrow> (session, unit) prog" where
  "record_rollback e u aid app env hid =
     bnd (log_action (usr_id u) (''rollback:'' @ env @ '':'' @ string_of_int hid) (Some aid)) (\<lambda>_.
     bnd (emit_event (se_alert (re_scale e)) APP_ROLLBACK ''warning'' ''argocd'' (Some aid)
            [(''name'', JStr (app_name app)), (''env'', JStr env), (''history_id'', JNum hid)] (Some (usr_id u))) (\<lambda>_.
       modify commit))"

definition rollback_app ::
  "('g, 'a) status_env \<Rightarrow> user \<Rightarrow> int \<Rightarrow> string \<Rightarrow> int \<Rightarrow> (('g, 'a) scale_world, unit) prog" where
  "rollback_app e u aid env hid =
     bnd (scale_sess (require_tier MAINTAINER (Some (string_of_int aid)) u)) (\<lambda>_.
     bnd (scale_sess (rollback_target aid env)) (\<lambda>(app, cluster).
     bnd (chosen_tag e app cluster env hid) (\<lambda>tag.
     bnd (lift_result (gitops_project e)) (\<lambda>project.
     bnd (scale_git (push_tag e project (values_path (cl_name cluster) (app_slug app) env) tag)) (\<lambda>_.
       scale_sess (record_rollback e u aid app env hid))))))"

record scale_state_item =
  si_is_stopped :: bool
  si_stop_reason :: "scale_stop_reason option"
  si_stopped_at :: "int option"
  si_resumed_at :: "int option"

definition state_item :: "app_scale_state \<Rightarrow> scale_state_item" where
  "state_item st =
     \<lparr>si_is_stopped = ss_is_stopped st, si_stop_reason = ss_stop_reason st, si_stopped_at = ss_stopped_at st,
      si_resumed_at = ss_resumed_at st\<rparr>"

text \<open>The response: the items of dev and of prod.\<close>

definition get_app_scale_state ::
  "user \<Rightarrow> int \<Rightarrow> (session, scale_state_item option \<times> scale_state_item option) prog" where
  "get_app_scale_state u aid =
     bnd (require_tier VIEWER (Some (string_of_int aid)) u) (\<lambda>_.
     bnd (gets (\<lambda>s. get_scale_states aid (db s))) (\<lambda>states.
       ret (map_option state_item (map_of states ''dev''), map_option state_item (map_of states ''prod''))))"

section \<open>Alerts about the health of an application\<close>

text \<open>The alerts on the health of an application, oldest first, and what it means that they alternate.\<close>

definition health_alerts :: "int \<Rightarrow> database \<Rightarrow> string list" where
  "health_alerts aid d =
     map ev_type (filter (\<lambda>ev. ev_app_id ev = Some aid \<and> ev_type ev \<in> {APP_HEALTH_DEGRADED, APP_HEALTH_RECOVERED}) (rows (events d)))"

definition degraded_now :: "int \<Rightarrow> database \<Rightarrow> bool" where
  "degraded_now aid d = (case get_application aid d of None \<Rightarrow> False | Some a \<Rightarrow> app_last_known_status a = DEGRADED)"

fun alternates :: "bool \<Rightarrow> string list \<Rightarrow> bool \<Rightarrow> bool" where
  "alternates degraded [] now = (now = degraded)"
| "alternates degraded (t # ts) now =
     (t = (if degraded then APP_HEALTH_RECOVERED else APP_HEALTH_DEGRADED) \<and> alternates (\<not> degraded) ts now)"

lemma alternates_append: "alternates a xs b \<Longrightarrow> alternates b ys c \<Longrightarrow> alternates a (xs @ ys) c"
  by (induction a xs b rule: alternates.induct) simp_all

text \<open>The alerts a step adds, with the status before and after it.\<close>

definition alerts_follow :: "int \<Rightarrow> database \<Rightarrow> database \<Rightarrow> bool" where
  "alerts_follow aid d d' \<longleftrightarrow>
     (\<exists>new. health_alerts aid d' = health_alerts aid d @ new \<and> alternates (degraded_now aid d) new (degraded_now aid d'))"

lemma alerts_follow_refl [simp]: "alerts_follow aid d d"
  by (simp add: alerts_follow_def)

lemma alerts_follow_trans: "alerts_follow aid a b \<Longrightarrow> alerts_follow aid b c \<Longrightarrow> alerts_follow aid a c"
  unfolding alerts_follow_def by (metis alternates_append append.assoc)

lemma alerts_unchanged:
  "health_alerts aid d' = health_alerts aid d \<Longrightarrow> degraded_now aid d' = degraded_now aid d \<Longrightarrow> alerts_follow aid d d'"
  by (simp add: alerts_follow_def)

lemma health_alerts_emit:
  "health_alerts aid (emit_db env ty sev src (Some i) pl actor d) =
     health_alerts aid d @ (if i = aid \<and> ty \<in> {APP_HEALTH_DEGRADED, APP_HEALTH_RECOVERED} then [ty] else [])"
  by (simp add: health_alerts_def emit_db_events make_event_def)

lemma degraded_now_emit [simp]: "degraded_now aid (emit_db env ty sev src i pl actor d) = degraded_now aid d"
  by (simp add: degraded_now_def get_application_def)

definition with_status :: "int \<Rightarrow> application_status \<Rightarrow> database \<Rightarrow> database" where
  "with_status i st d = d\<lparr>applications := update_rows (\<lambda>a. app_id a = i) (\<lambda>a. a\<lparr>app_last_known_status := st\<rparr>) (applications d)\<rparr>"

lemma set_known_status_apply [prog_simps]: "set_known_status i st s = (Inr (), s\<lparr>db := with_status i st (db s)\<rparr>)"
  by (simp add: set_known_status_def with_status_def prog_simps)

lemma health_alerts_with_status [simp]: "health_alerts aid (with_status i st d) = health_alerts aid d"
  by (simp add: health_alerts_def with_status_def)

lemma get_application_with_status:
  "get_application aid (with_status i st d) =
     map_option (\<lambda>r. if app_id r = i then r\<lparr>app_last_known_status := st\<rparr> else r) (get_application aid d)"
proof -
  have "List.find (\<lambda>a. app_id a = aid) (map (\<lambda>r. if app_id r = i then r\<lparr>app_last_known_status := st\<rparr> else r) xs) =
     map_option (\<lambda>r. if app_id r = i then r\<lparr>app_last_known_status := st\<rparr> else r) (List.find (\<lambda>a. app_id a = aid) xs)" for xs
    by (induction xs) auto
  then show ?thesis by (simp add: with_status_def get_application_def find_row_def rows_update_rows)
qed

lemma degraded_now_with_status:
  "degraded_now aid (with_status i st d) = (if i = aid then get_application aid d \<noteq> None \<and> st = DEGRADED else degraded_now aid d)"
proof (cases "get_application aid d")
  case None
  then show ?thesis by (simp add: degraded_now_def get_application_with_status)
next
  case (Some a)
  then have "app_id a = aid" by (auto simp: get_application_def dest: find_row_Some)
  with Some show ?thesis by (auto simp: degraded_now_def get_application_with_status)
qed

text \<open>One look at ArgoCD: at most one alert, on a change of side.\<close>

lemma persist_health_follows:
  assumes "get_application (app_id app) (db s) = Some app" and "persist_health env app health sync s = (r, s')"
  shows "alerts_follow aid (db s) (db s')" "saved s' = saved s" "r = Inr ()"
proof -
  let ?i = "app_id app"
  have now: "degraded_now ?i (db s) = (app_last_known_status app = DEGRADED)" by (simp add: degraded_now_def assms(1))
  have known: "get_application ?i (db s) \<noteq> None" by (simp add: assms(1))
  have "alerts_follow aid (db s) (db s') \<and> saved s' = saved s \<and> r = Inr ()"
    using assms(2) now known
    by (auto simp: persist_health_def prog_simps emit_event_apply alerts_follow_def health_alerts_emit
        degraded_now_with_status split: if_splits)
  then show "alerts_follow aid (db s) (db s')" "saved s' = saved s" "r = Inr ()" by simp_all
qed

lemma fetch_env_runs: "\<exists>x a'. fetch_env e conn name a = (Inr x, a')"
  by (auto simp: fetch_env_def try_except_def prog_simps split: prod.split sum.split)

text \<open>A status request: the session is unchanged, or committed with the alerts of one look.\<close>

lemma both_argo_states_follow:
  assumes "both_argo_states e app cluster w = (r, w')" and "get_application (app_id app) (db (sw_sess w)) = Some app"
  shows "sw_sess w' = sw_sess w \<or> (\<exists>d. sw_sess w' = open_session d \<and> alerts_follow aid (db (sw_sess w)) d)"
proof (cases "argo_client e cluster")
  case (Inl x)
  with assms(1) show ?thesis by (simp add: both_argo_states_def prog_simps)
next
  case (Inr conn)
  obtain dv a1 where dv: "fetch_env e conn (app_slug app @ ''-dev'') (sw_argo w) = (Inr dv, a1)" using fetch_env_runs by metis
  obtain pd a2 where pd: "fetch_env e conn (app_slug app @ ''-prod'') a1 = (Inr pd, a2)" using fetch_env_runs by metis
  define src where "src = (if truthy (health_status pd) then pd else dv)"
  obtain r1 s1 where ph: "persist_health (se_alert (re_scale e)) app (health_status src) (sync_status src) (sw_sess w) = (r1, s1)"
    by fastforce
  note follows = persist_health_follows[OF assms(2) ph]
  have "sw_sess w' = commit s1"
    using assms(1) Inr dv pd ph follows(3)
    by (simp add: both_argo_states_def prog_simps scale_argo_apply scale_sess_apply Let_def src_def[symmetric]) auto
  then have "sw_sess w' = open_session (db s1)" by (simp add: commit_def open_session_def)
  with follows(1) show ?thesis by blast
qed

lemma status_request_follows:
  assumes "get_app_runtime_status e i w = (r, w')" and "sw_sess w = open_session d"
  shows "alerts_follow aid d (saved (sw_sess w'))"
proof (cases "resolve_app_and_cluster i (sw_sess w)")
  case (Pair r1 s1)
  have same: "s1 = sw_sess w"
    using Pair by (auto simp: resolve_app_and_cluster_def prog_simps split: option.splits if_splits)
  show ?thesis
  proof (cases r1)
    case (Inl x)
    with Pair same assms show ?thesis by (auto simp: get_app_runtime_status_def prog_simps scale_sess_apply open_session_def)
  next
    case (Inr ac)
    obtain app cluster where ac: "ac = (app, cluster)" by fastforce
    have "get_application (app_id app) (db (sw_sess w)) = Some app"
      using Pair same Inr ac
      by (auto simp: resolve_app_and_cluster_def get_application_def prog_simps dest: find_row_Some split: option.splits if_splits)
    moreover obtain r2 w2 where run: "both_argo_states e app cluster w = (r2, w2)" by fastforce
    ultimately have "sw_sess w2 = sw_sess w \<or> (\<exists>d'. sw_sess w2 = open_session d' \<and> alerts_follow aid (db (sw_sess w)) d')"
      using both_argo_states_follow by blast
    moreover have "w' = w2"
      using assms(1) Pair same Inr ac run
      by (auto simp: get_app_runtime_status_def try_except_def prog_simps scale_sess_apply split: sum.splits prod.splits)
    ultimately show ?thesis using assms(2) by (auto simp: open_session_def)
  qed
qed

text \<open>
  Requests one after the other, each with its own session, and between them changes that concern neither the
  status of the application nor its alerts.
\<close>

datatype ('g, 'a) status_action = Poll "('g, 'a) status_env" int | Elsewhere "database \<Rightarrow> database"

fun do_action :: "('g, 'a) status_action \<Rightarrow> ('g, 'a) scale_world \<Rightarrow> ('g, 'a) scale_world" where
  "do_action (Poll e i) w = (let w1 = snd (get_app_runtime_status e i w) in w1\<lparr>sw_sess := open_session (saved (sw_sess w1))\<rparr>)"
| "do_action (Elsewhere f) w = w\<lparr>sw_sess := open_session (f (saved (sw_sess w)))\<rparr>"

text \<open>
  C9: However often and whoever asks for the status of applications, and whatever ArgoCD answers, the alerts on the
  health of an application alternate: degraded, recovered, degraded, starting with the side its stored
  status is not on, and the stored status is the side of the last alert. Nobody is alerted twice of the same outage.
\<close>

theorem health_alerts_alternate:
  assumes "sw_sess w = open_session d"
    and "\<And>f x. Elsewhere f \<in> set acts \<Longrightarrow> health_alerts aid (f x) = health_alerts aid x \<and> degraded_now aid (f x) = degraded_now aid x"
  shows "\<exists>new. health_alerts aid (saved (sw_sess (fold do_action acts w))) = health_alerts aid d @ new
           \<and> alternates (degraded_now aid d) new (degraded_now aid (saved (sw_sess (fold do_action acts w))))"
proof -
  have "alerts_follow aid d (saved (sw_sess (fold do_action acts w)))"
    using assms
  proof (induction acts arbitrary: w d)
    case (Cons a acts)
    let ?w = "do_action a w"
    have sess: "sw_sess ?w = open_session (saved (sw_sess ?w))" by (cases a) (simp_all add: Let_def open_session_def)
    have "alerts_follow aid d (saved (sw_sess ?w))"
    proof (cases a)
      case (Poll e i)
      obtain r w1 where "get_app_runtime_status e i w = (r, w1)" by fastforce
      with status_request_follows[OF this Cons.prems(1)] Poll show ?thesis by (simp add: open_session_def)
    next
      case (Elsewhere f)
      with Cons.prems(2)[of f d] Cons.prems(1) show ?thesis by (simp add: open_session_def alerts_unchanged)
    qed
    moreover have "alerts_follow aid (saved (sw_sess ?w)) (saved (sw_sess (fold do_action acts ?w)))"
      using Cons.IH[OF sess] Cons.prems(2) by simp
    ultimately show ?case using alerts_follow_trans by (metis fold_simps(2))
  qed (simp add: open_session_def)
  then show ?thesis by (simp add: alerts_follow_def)
qed

section \<open>An outage, seen by the requests\<close>

definition argo_answer :: "string \<Rightarrow> string \<Rightarrow> json" where
  "argo_answer sync health =
     JObj [(''status'', JObj [(''sync'', JObj [(''status'', JStr sync)]), (''health'', JObj [(''status'', JStr health)]),
       (''history'', JArr [JObj [(''id'', JNum 3), (''revisions'', JArr [JStr ''0a1b2c3d4e5f''])]])])]"

text \<open>The answers follow a counter: degraded for three looks of two environments, healthy afterwards.\<close>

definition demo_status_env :: "((string \<times> string) list, nat) status_env" where
  "demo_status_env =
     \<lparr>re_scale = demo_scale_env, re_kubeconfig = (\<lambda>_. Inl KeyError), re_load_kube = (\<lambda>_. Inr None),
      re_target_namespace = ''default'',
      re_argo_get = (\<lambda>_ _ _ n. (Inr (if n < 6 then argo_answer ''Synced'' ''Degraded'' else argo_answer ''Synced'' ''Healthy''), Suc n))\<rparr>"

definition demo_polls :: "((string \<times> string) list, nat) status_action list" where
  "demo_polls = replicate 4 (Poll demo_status_env 1)"

theorem health_alerts_alternate_witness:
  "health_alerts 1 (saved (sw_sess (fold do_action demo_polls demo_scale_world))) = [APP_HEALTH_DEGRADED, APP_HEALTH_RECOVERED]
   \<and> (\<exists>new. health_alerts 1 (saved (sw_sess (fold do_action demo_polls demo_scale_world))) = health_alerts 1 demo_scale_db @ new
          \<and> alternates (degraded_now 1 demo_scale_db) new
              (degraded_now 1 (saved (sw_sess (fold do_action demo_polls demo_scale_world)))))"
proof -
  have seen: "health_alerts 1 (saved (sw_sess (fold do_action demo_polls demo_scale_world)))
     = [APP_HEALTH_DEGRADED, APP_HEALTH_RECOVERED]"
    by code_simp
  have sess: "sw_sess demo_scale_world = open_session demo_scale_db" by (simp add: demo_scale_world_def)
  have polls: "Elsewhere f \<notin> set demo_polls" for f by (simp add: demo_polls_def)
  from health_alerts_alternate[OF sess, of demo_polls 1] polls
  have "\<exists>new. health_alerts 1 (saved (sw_sess (fold do_action demo_polls demo_scale_world))) = health_alerts 1 demo_scale_db @ new
          \<and> alternates (degraded_now 1 demo_scale_db) new
              (degraded_now 1 (saved (sw_sess (fold do_action demo_polls demo_scale_world))))"
    by blast
  with seen show ?thesis by (rule conjI)
qed

section \<open>What a rollback changes\<close>

text \<open>The hosting contract with \<open>file.save()\<close>: an existing file takes the new content.\<close>

locale git_files = gitops +
  assumes save_up: "up g \<Longrightarrow> blobs g f \<noteq> None \<Longrightarrow>
    \<exists>g'. files_save api p f ''main'' c g = (Inr (), g') \<and> up g' \<and> blobs g' = (blobs g)(f \<mapsto> c)"
begin

lemma push_existing_file:
  assumes "up g" and "blobs g f \<noteq> None"
  shows "\<exists>g'. push_file api p f c ''main'' g = (Inr (), g') \<and> up g' \<and> blobs g' = (blobs g)(f \<mapsto> c)"
proof -
  from save_up[OF assms] obtain g' where
    g': "files_save api p f ''main'' c g = (Inr (), g')" "up g'" "blobs g' = (blobs g)(f \<mapsto> c)" by blast
  have "push_file api p f c ''main'' g = (Inr (), g')"
    by (simp add: push_file_def catch_def prog_simps get_project_up assms get_up g'(1))
  with g'(2,3) show ?thesis by blast
qed

lemma push_tag_up:
  assumes "up g" and "se_gitlab (re_scale e) = api" and "se_yaml (re_scale e) = y"
    and "push_tag e p f tag g = (r, g')"
  shows "(\<exists>x. r = Inl x) \<and> g' = g
       \<or> r = Inr () \<and> up g' \<and> (\<exists>raw kvs img. blobs g f = Some raw \<and> yaml_load y raw = Inr (JObj kvs) \<and> map_of kvs ''image'' = Some (JObj img)
           \<and> blobs g' = (blobs g)(f \<mapsto> yaml_dump y (JObj (dict_set ''image'' (JObj (dict_set ''tag'' tag img)) kvs))))"
proof (cases "blobs g f")
  case None
  with assms show ?thesis by (auto simp: push_tag_def Let_def prog_simps read_file_up)
next
  case (Some raw)
  show ?thesis
  proof (cases "bnd_result (yaml_load y raw) (set_image_tag tag)")
    case (Inl x)
    with assms Some show ?thesis by (auto simp: push_tag_def Let_def prog_simps read_file_up)
  next
    case (Inr data)
    then obtain v where v: "yaml_load y raw = Inr v" "set_image_tag tag v = Inr data"
      by (auto simp: bnd_result_def split: sum.splits)
    obtain kvs where kvs: "v = JObj kvs" using v(2) by (cases v) (auto simp: set_image_tag_def bnd_result_def)
    obtain w where w: "map_of kvs ''image'' = Some w" "jset ''tag'' tag w \<noteq> Inl TypeError"
      using v(2) kvs by (auto simp: set_image_tag_def bnd_result_def split: option.splits sum.splits)
    obtain img where img: "w = JObj img" using w(2) by (cases w) auto
    have data: "data = JObj (dict_set ''image'' (JObj (dict_set ''tag'' tag img)) kvs)"
      using v(2) kvs w(1) img by (simp add: set_image_tag_def bnd_result_def)
    obtain g1 where g1: "push_file api p f (yaml_dump y data) ''main'' g = (Inr (), g1)" "up g1"
      "blobs g1 = (blobs g)(f \<mapsto> yaml_dump y data)" using push_existing_file[OF assms(1)] Some by blast
    have "r = Inr ()" "g' = g1"
      using assms Some Inr g1(1) by (simp_all add: push_tag_def Let_def prog_simps read_file_up)
    with g1 v(1) kvs w(1) img data Some show ?thesis by blast
  qed
qed

end

interpretation ref_files: git_files ref_gitlab p "\<lambda>_. True" map_of ref_yaml for p
  by unfold_locales (simp add: ref_gitlab_def fun_eq_iff)

lemma rollback_target_found:
  assumes "rollback_target aid env s = (Inr (app, cluster), s')"
  shows "s' = s \<and> get_application aid (db s) = Some app \<and> env \<in> {''dev'', ''prod''}
       \<and> get_cluster_row (the (app_target_cluster_id app)) (db s) = Some cluster"
  using assms by (auto simp: rollback_target_def prog_simps split: option.splits if_splits)

lemma rollback_target_keeps: "snd (rollback_target aid env s) = s"
  by (auto simp: rollback_target_def prog_simps split: option.splits)

lemma tag_of_history_entry:
  assumes "tag_of_history hid history = Inr tag"
  shows "\<exists>xs x. jiter history = Inr xs \<and> x \<in> set xs \<and> jget ''id'' x = Inr (JNum hid) \<and> rollback_tag x = Inr tag \<and> truthy tag"
proof -
  have found: "find_entry hid xs = Inr (Some x) \<Longrightarrow> x \<in> set xs \<and> jget ''id'' x = Inr (JNum hid)" for xs x
    by (induction hid xs rule: find_entry.induct) (auto simp: bnd_result_def split: sum.splits if_splits)
  show ?thesis
    using assms found by (auto simp: tag_of_history_def bnd_result_def split: sum.splits option.splits if_splits)
qed

text \<open>
  The outcomes of a rollback, over the files of the gitops repository: a failure that left them and the
  committed database alone, or the new tag in the values file of that environment and one alert, committed.
\<close>

definition rollback_failed :: "('g, 'a) scale_world \<Rightarrow> exc + unit \<Rightarrow> ('g, 'a) scale_world \<Rightarrow> bool" where
  "rollback_failed w r w' \<longleftrightarrow>
     (\<exists>x. r = Inl x) \<and> sw_git w' = sw_git w \<and> saved (sw_sess w') = saved (sw_sess w)"

definition tag_written ::
  "yaml_lib \<Rightarrow> (string \<Rightarrow> string option) \<Rightarrow> string \<Rightarrow> json \<Rightarrow> (string \<Rightarrow> string option) \<Rightarrow> bool" where
  "tag_written y files f tag files' \<longleftrightarrow>
     (\<exists>raw kvs img. files f = Some raw \<and> yaml_load y raw = Inr (JObj kvs) \<and> map_of kvs ''image'' = Some (JObj img)
        \<and> files' = files(f \<mapsto> yaml_dump y (JObj (dict_set ''image'' (JObj (dict_set ''tag'' tag img)) kvs))))"

lemma tier_passed:
  assumes "require_tier m (Some (string_of_int aid)) u s = (r, s1)"
  shows "saved s1 = saved s \<and> applications (db s1) = applications (db s) \<and> cluster_connections (db s1) = cluster_connections (db s)
       \<and> events (db s1) = events (db s) \<and> (\<forall>v. r = Inr v \<longrightarrow> is_admin u \<or> m \<le> get_effective_tier (usr_id u) aid (db s))"
proof (cases "is_admin u")
  case True
  with assms show ?thesis using string_of_int_nonempty[of aid]
    by (auto simp: require_tier_def truthy_str_def prog_simps py_int_string_of_int log_action_def)
next
  case False
  with assms show ?thesis by (auto simp: require_tier_user split: if_splits)
qed

lemma scale_sess_run: "scale_sess m w = (r, w') \<longleftrightarrow> (\<exists>s. m (sw_sess w) = (r, s) \<and> w' = w\<lparr>sw_sess := s\<rparr>)"
  by (auto simp: scale_sess_apply split: prod.splits)

lemma scale_git_run: "scale_git m w = (r, w') \<longleftrightarrow> (\<exists>g. m (sw_git w) = (r, g) \<and> w' = w\<lparr>sw_git := g\<rparr>)"
  by (auto simp: scale_git_apply split: prod.splits)

lemma scale_argo_run: "scale_argo m w = (r, w') \<longleftrightarrow> (\<exists>a. m (sw_argo w) = (r, a) \<and> w' = w\<lparr>sw_argo := a\<rparr>)"
  by (auto simp: scale_argo_apply split: prod.splits)

lemma bnd_run: "bnd m k w = (r, w') \<longleftrightarrow> (\<exists>x. m w = (Inl x, w') \<and> r = Inl x) \<or> (\<exists>v w1. m w = (Inr v, w1) \<and> k v w1 = (r, w'))"
  by (auto simp: bnd_def split: prod.splits sum.splits)

text \<open>
  The end of a rollback whose tag is written: the audit row, the alert and the commit.
\<close>

definition rolled_back :: "int \<Rightarrow> session \<Rightarrow> session \<Rightarrow> bool" where
  "rolled_back aid s s' \<longleftrightarrow>
     saved s' = db s' \<and> applications (saved s') = applications (db s)
   \<and> (\<exists>ev. rows (events (saved s')) = rows (events (db s)) @ [ev] \<and> ev_type ev = APP_ROLLBACK \<and> ev_app_id ev = Some aid)"

lemma rollback_records:
  assumes "record_rollback e u aid app env hid s = (r, s')"
  shows "r = Inr () \<and> rolled_back aid s s'"
  using assms
  by (auto simp: record_rollback_def log_action_def prog_simps emit_event_apply rolled_back_def commit_def emit_db_events
      make_event_def)

text \<open>An entry of the history that ArgoCD answers for the environment.\<close>

definition in_history ::
  "('g, 'a) status_env \<Rightarrow> application \<Rightarrow> cluster_connection \<Rightarrow> string \<Rightarrow> 'a \<Rightarrow> json \<Rightarrow> bool" where
  "in_history e app cluster env a entry \<longleftrightarrow>
     (\<exists>conn history a' xs. argo_client e cluster = Inr conn
        \<and> argo_app_history e conn (app_slug app @ ''-'' @ env) a = (Inr history, a') \<and> jiter history = Inr xs \<and> entry \<in> set xs)"

lemma chosen_tag_run:
  assumes "chosen_tag e app cluster env hid w = (r, w')"
  shows "sw_git w' = sw_git w \<and> sw_sess w' = sw_sess w
       \<and> (\<forall>tag. r = Inr tag \<longrightarrow> (\<exists>entry. in_history e app cluster env (sw_argo w) entry
            \<and> jget ''id'' entry = Inr (JNum hid) \<and> rollback_tag entry = Inr tag \<and> truthy tag))"
proof (cases "argo_client e cluster")
  case (Inl x)
  with assms show ?thesis by (auto simp: chosen_tag_def prog_simps)
next
  case (Inr conn)
  with assms show ?thesis
    by (auto simp: chosen_tag_def in_history_def prog_simps scale_argo_apply split: prod.splits sum.splits dest!: tag_of_history_entry)
qed

text \<open>The part of a rollback that writes: the tag is chosen, committed to the values file and recorded.\<close>

lemma tag_and_record:
  assumes "git_files (se_gitlab (re_scale e)) p up blobs (se_yaml (re_scale e))" and "up (sw_git w)"
    and "extract_project_path (se_ip_ok (re_scale e)) (se_gitops_repo_url (re_scale e)) = Inr p"
    and run: "bnd (chosen_tag e app cluster env hid) (\<lambda>tag.
         bnd (lift_result (gitops_project e)) (\<lambda>project.
         bnd (scale_git (push_tag e project f tag)) (\<lambda>_.
           scale_sess (record_rollback e u aid app env hid)))) w = (r, w')"
  shows "(\<exists>x. r = Inl x) \<and> sw_git w' = sw_git w \<and> sw_sess w' = sw_sess w
       \<or> r = Inr () \<and> rolled_back aid (sw_sess w) (sw_sess w')
         \<and> (\<exists>entry tag. in_history e app cluster env (sw_argo w) entry \<and> jget ''id'' entry = Inr (JNum hid)
              \<and> rollback_tag entry = Inr tag \<and> truthy tag
              \<and> tag_written (se_yaml (re_scale e)) (blobs (sw_git w)) f tag (blobs (sw_git w')))"
proof -
  obtain r2 w2 where tag: "chosen_tag e app cluster env hid w = (r2, w2)" by fastforce
  note chosen = chosen_tag_run[OF tag]
  show ?thesis
  proof (cases "\<exists>t. r2 = Inr t \<and> gitops_project e = Inr p")
    case False
    have "gitops_project e = Inr p \<or> (\<exists>x. gitops_project e = Inl x)" by (simp add: gitops_project_def assms(3))
    with False run tag have "(\<exists>x. r = Inl x) \<and> w' = w2"
      by (cases r2) (auto simp: bnd_run[of "chosen_tag _ _ _ _ _"] prog_simps)
    with chosen show ?thesis by simp
  next
    case True
    then obtain t where t: "r2 = Inr t" "gitops_project e = Inr p" by blast
    obtain r3 g3 where push: "push_tag e p f t (sw_git w2) = (r3, g3)" by fastforce
    have up2: "up (sw_git w2)" using chosen assms(2) by simp
    note outcome = git_files.push_tag_up[OF assms(1) up2 refl refl push]
    show ?thesis
    proof (cases r3)
      case (Inl x)
      with run tag t push have "r = Inl x" "w' = w2\<lparr>sw_git := g3\<rparr>" by (simp_all add: bnd_run prog_simps scale_git_run)
      with outcome chosen Inl show ?thesis by auto
    next
      case (Inr written)
      obtain r4 s4 where recorded: "record_rollback e u aid app env hid (sw_sess w2) = (r4, s4)" by fastforce
      have result: "r = r4" "w' = w2\<lparr>sw_git := g3, sw_sess := s4\<rparr>"
        using run tag t push Inr recorded by (simp_all add: bnd_run prog_simps scale_git_run scale_sess_run)
      have stored: "tag_written (se_yaml (re_scale e)) (blobs (sw_git w)) f t (blobs g3)"
        using outcome chosen Inr by (simp add: tag_written_def)
      obtain entry where "in_history e app cluster env (sw_argo w) entry" "jget ''id'' entry = Inr (JNum hid)"
        "rollback_tag entry = Inr t" "truthy t" using chosen t(1) by auto
      with stored rollback_records[OF recorded] chosen result show ?thesis by auto
    qed
  qed
qed

lemma target_and_record:
  assumes "git_files (se_gitlab (re_scale e)) p up blobs (se_yaml (re_scale e))" and "up (sw_git w)"
    and "extract_project_path (se_ip_ok (re_scale e)) (se_gitops_repo_url (re_scale e)) = Inr p"
    and run: "bnd (scale_sess (rollback_target aid env)) (\<lambda>(app, cluster).
         bnd (chosen_tag e app cluster env hid) (\<lambda>tag.
         bnd (lift_result (gitops_project e)) (\<lambda>project.
         bnd (scale_git (push_tag e project (values_path (cl_name cluster) (app_slug app) env) tag)) (\<lambda>_.
           scale_sess (record_rollback e u aid app env hid))))) w = (r, w')"
  shows "(\<exists>x. r = Inl x) \<and> sw_git w' = sw_git w \<and> sw_sess w' = sw_sess w
       \<or> r = Inr () \<and> rolled_back aid (sw_sess w) (sw_sess w')
         \<and> (\<exists>app cluster entry tag. get_application aid (db (sw_sess w)) = Some app
              \<and> get_cluster_row (the (app_target_cluster_id app)) (db (sw_sess w)) = Some cluster
              \<and> in_history e app cluster env (sw_argo w) entry \<and> jget ''id'' entry = Inr (JNum hid)
              \<and> rollback_tag entry = Inr tag \<and> truthy tag
              \<and> tag_written (se_yaml (re_scale e)) (blobs (sw_git w)) (values_path (cl_name cluster) (app_slug app) env) tag
                  (blobs (sw_git w')))"
proof -
  obtain target where target: "rollback_target aid env (sw_sess w) = (target, sw_sess w)"
    using rollback_target_keeps[of aid env "sw_sess w"] by (metis prod.collapse)
  show ?thesis
  proof (cases target)
    case (Inl x)
    with run target show ?thesis by (simp add: bnd_run[of "scale_sess _"] scale_sess_run)
  next
    case (Inr found)
    obtain app cluster where pair: "found = (app, cluster)" by fastforce
    have "bnd (chosen_tag e app cluster env hid) (\<lambda>tag.
         bnd (lift_result (gitops_project e)) (\<lambda>project.
         bnd (scale_git (push_tag e project (values_path (cl_name cluster) (app_slug app) env) tag)) (\<lambda>_.
           scale_sess (record_rollback e u aid app env hid)))) w = (r, w')"
      using run target Inr pair by (simp add: bnd_run[of "scale_sess _"] scale_sess_run)
    from tag_and_record[OF assms(1-3) this] rollback_target_found[of aid env "sw_sess w" app cluster] target Inr pair
    show ?thesis by auto
  qed
qed

text \<open>
  C8: A rollback either fails, and then no file of the gitops repository and nothing of the committed
  database has changed, or it comes from an admin or a maintainer of the application and sets the image tag in the
  values file of that environment, and nothing else there or elsewhere, to the first eight characters of
  a revision that ArgoCD names for the entry asked for, and commits one alert.
\<close>

theorem rollback_sets_one_tag:
  assumes "git_files (se_gitlab (re_scale e)) p up blobs (se_yaml (re_scale e))" and "up (sw_git w)"
    and "extract_project_path (se_ip_ok (re_scale e)) (se_gitops_repo_url (re_scale e)) = Inr p"
    and "rollback_app e u aid env hid w = (r, w')"
  shows "rollback_failed w r w'
       \<or> r = Inr () \<and> (is_admin u \<or> MAINTAINER \<le> get_effective_tier (usr_id u) aid (db (sw_sess w)))
         \<and> rolled_back aid (sw_sess w) (sw_sess w')
         \<and> (\<exists>app cluster entry tag. get_application aid (db (sw_sess w)) = Some app
              \<and> get_cluster_row (the (app_target_cluster_id app)) (db (sw_sess w)) = Some cluster
              \<and> in_history e app cluster env (sw_argo w) entry
              \<and> jget ''id'' entry = Inr (JNum hid) \<and> rollback_tag entry = Inr tag \<and> truthy tag
              \<and> tag_written (se_yaml (re_scale e)) (blobs (sw_git w)) (values_path (cl_name cluster) (app_slug app) env) tag
                  (blobs (sw_git w')))"
proof -
  from assms(4) obtain r1 s1 where gate: "require_tier MAINTAINER (Some (string_of_int aid)) u (sw_sess w) = (r1, s1)"
    and rest: "case r1 of Inl x \<Rightarrow> r = Inl x \<and> w' = w\<lparr>sw_sess := s1\<rparr>
      | Inr v \<Rightarrow> bnd (scale_sess (rollback_target aid env)) (\<lambda>(app, cluster).
           bnd (chosen_tag e app cluster env hid) (\<lambda>tag.
           bnd (lift_result (gitops_project e)) (\<lambda>project.
           bnd (scale_git (push_tag e project (values_path (cl_name cluster) (app_slug app) env) tag)) (\<lambda>_.
             scale_sess (record_rollback e u aid app env hid))))) (w\<lparr>sw_sess := s1\<rparr>) = (r, w')"
    by (auto simp: rollback_app_def bnd_run[of "scale_sess (require_tier _ _ _)"] scale_sess_run)
  note tier = tier_passed[OF gate]
  show ?thesis
  proof (cases r1)
    case (Inl x)
    with rest tier show ?thesis by (simp add: rollback_failed_def)
  next
    case (Inr v)
    have same: "get_application aid (db s1) = get_application aid (db (sw_sess w))"
      "get_cluster_row i (db s1) = get_cluster_row i (db (sw_sess w))"
      "rolled_back aid s1 s' = rolled_back aid (sw_sess w) s'" for i s'
      using tier by (simp_all add: get_application_def get_cluster_row_def rolled_back_def)
    have "up (sw_git (w\<lparr>sw_sess := s1\<rparr>))" using assms(2) by simp
    from target_and_record[OF assms(1) this assms(3)] rest Inr
    have "(\<exists>x. r = Inl x) \<and> sw_git w' = sw_git w \<and> sw_sess w' = s1
       \<or> r = Inr () \<and> rolled_back aid s1 (sw_sess w')
         \<and> (\<exists>app cluster entry tag. get_application aid (db s1) = Some app
              \<and> get_cluster_row (the (app_target_cluster_id app)) (db s1) = Some cluster
              \<and> in_history e app cluster env (sw_argo w) entry \<and> jget ''id'' entry = Inr (JNum hid)
              \<and> rollback_tag entry = Inr tag \<and> truthy tag
              \<and> tag_written (se_yaml (re_scale e)) (blobs (sw_git w)) (values_path (cl_name cluster) (app_slug app) env) tag
                  (blobs (sw_git w')))" by fastforce
    then show ?thesis unfolding same rollback_failed_def using tier Inr by auto
  qed
qed

definition demo_values :: "(string \<times> json) list" where
  "demo_values = [(''replicas'', JNum 2), (''image'', JObj [(''name'', JStr ''shop''), (''tag'', JStr ''ffff0000'')])]"

definition demo_rollback_world :: "((string \<times> string) list, nat) scale_world" where
  "demo_rollback_world = demo_owned_world\<lparr>sw_git := [(''apps/aks/shop/values-dev.yaml'', yaml_dump ref_yaml (JObj demo_values))]\<rparr>"

theorem rollback_sets_one_tag_witness:
  "\<exists>w'. rollback_app demo_status_env demo_maintainer 1 ''dev'' 3 demo_rollback_world = (Inr (), w')
     \<and> tag_written ref_yaml (map_of (sw_git demo_rollback_world)) ''apps/aks/shop/values-dev.yaml'' (JStr ''0a1b2c3d'') (map_of (sw_git w'))
     \<and> rolled_back 1 (sw_sess demo_rollback_world) (sw_sess w')"
proof -
  have repo: "git_files (se_gitlab (re_scale demo_status_env)) ''4k/gitops'' (\<lambda>_. True) map_of (se_yaml (re_scale demo_status_env))"
    using ref_files.git_files_axioms by (simp add: demo_status_env_def demo_scale_env_def)
  have project: "extract_project_path (se_ip_ok (re_scale demo_status_env)) (se_gitops_repo_url (re_scale demo_status_env)) = Inr ''4k/gitops''"
    by code_simp
  obtain r w' where run: "rollback_app demo_status_env demo_maintainer 1 ''dev'' 3 demo_rollback_world = (r, w')" by fastforce
  have "fst (rollback_app demo_status_env demo_maintainer 1 ''dev'' 3 demo_rollback_world) = Inr ()" by code_simp
  then have r: "r = Inr ()" using run by simp
  have here: "get_application 1 (db (sw_sess demo_rollback_world)) = Some demo_owned_app"
    "get_cluster_row 7 (db (sw_sess demo_rollback_world)) = Some demo_cluster"
    "app_slug demo_owned_app = ''shop''" "cl_name demo_cluster = ''aks''" "app_target_cluster_id demo_owned_app = Some 7"
    by code_simp+
  have client: "argo_client demo_status_env demo_cluster = Inr (''https://argo'', ''secret'')" by code_simp
  have answer: "argo_app_history demo_status_env (''https://argo'', ''secret'') ''shop-dev'' (sw_argo demo_rollback_world)
      = (Inr (JArr [JObj [(''id'', JNum 3), (''revisions'', JArr [JStr ''0a1b2c3d4e5f''])]]), 1)" by code_simp
  have tag: "t = JStr ''0a1b2c3d''"
    if "in_history demo_status_env demo_owned_app demo_cluster ''dev'' (sw_argo demo_rollback_world) entry" "rollback_tag entry = Inr t" for entry t
  proof -
    have "entry = JObj [(''id'', JNum 3), (''revisions'', JArr [JStr ''0a1b2c3d4e5f''])]"
      using that(1) by (auto simp: in_history_def client answer here(3))
    then show ?thesis using that(2) by (simp add: rollback_tag_def bnd_result_def jor_def)
  qed
  have path: "values_path ''aks'' ''shop'' ''dev'' = ''apps/aks/shop/values-dev.yaml''" by code_simp
  have yaml: "se_yaml (re_scale demo_status_env) = ref_yaml" by (simp add: demo_status_env_def demo_scale_env_def)
  have "\<not> rollback_failed demo_rollback_world r w'" using r by (simp add: rollback_failed_def)
  with rollback_sets_one_tag[OF repo TrueI project run] obtain app cluster entry t where done1:
    "rolled_back 1 (sw_sess demo_rollback_world) (sw_sess w')"
    "get_application 1 (db (sw_sess demo_rollback_world)) = Some app"
    "get_cluster_row (the (app_target_cluster_id app)) (db (sw_sess demo_rollback_world)) = Some cluster"
    "in_history demo_status_env app cluster ''dev'' (sw_argo demo_rollback_world) entry" "rollback_tag entry = Inr t"
    "tag_written ref_yaml (map_of (sw_git demo_rollback_world)) (values_path (cl_name cluster) (app_slug app) ''dev'') t (map_of (sw_git w'))"
    unfolding yaml by blast
  have "app = demo_owned_app" "cluster = demo_cluster" using done1(2,3) here by simp_all
  with done1 tag here path run r show ?thesis by (intro exI[of _ w']) simp
qed

end
