(* ===== verification/Credentials.thy ===== *)
theory Credentials
  imports Tiers Json_Text
begin

text \<open>
  Credentials of cloud providers and their encryption at rest: backend/core/crypto.py,
  backend/services/credential_service.py and backend/api/routes/credentials.py; and the cloud resources of
  backend/services/resource_service.py with backend/api/routes/resources.py, whose provisioning is refused
  by the code. Fernet and the JSON text are parameters; \<open>sealing\<close> states what the code relies on of them.
\<close>

section \<open>Encryption at rest\<close>

text \<open>
  The settings (the secret key as its UTF-8 bytes), Fernet under a key, with what it draws at random fixed
  for a request, base64, and the JSON text of a dict.
\<close>

record crypto_env =
  ENCRYPTION_KEY :: string
  SECRET_KEY_bytes :: "nat list"
  urlsafe_b64 :: "nat list \<Rightarrow> string"
  fernet_seal :: "string \<Rightarrow> string \<Rightarrow> string"
  fernet_unseal :: "string \<Rightarrow> string \<Rightarrow> exc + string"
  dumps :: "json \<Rightarrow> string"
  loads :: "string \<Rightarrow> exc + json"

definition padded_key :: "nat list \<Rightarrow> nat list" where
  "padded_key bs = (let b = take 32 bs in b @ replicate (32 - length b) 48)"

definition get_fernet :: "crypto_env \<Rightarrow> string" where
  "get_fernet e = (if ENCRYPTION_KEY e \<noteq> [] then ENCRYPTION_KEY e else urlsafe_b64 e (padded_key (SECRET_KEY_bytes e)))"

definition encrypt_text :: "crypto_env \<Rightarrow> string \<Rightarrow> string" where
  "encrypt_text e value = fernet_seal e (get_fernet e) value"

definition decrypt_text :: "crypto_env \<Rightarrow> string \<Rightarrow> exc + string" where
  "decrypt_text e encrypted = fernet_unseal e (get_fernet e) encrypted"

section \<open>The credential service\<close>

type_synonym secrets = "(string \<times> string) list"

definition json_of :: "secrets \<Rightarrow> json" where
  "json_of kvs = JObj (map (\<lambda>(k, v). (k, JStr v)) kvs)"

definition encrypt_dict :: "crypto_env \<Rightarrow> json \<Rightarrow> string" where
  "encrypt_dict e data = encrypt_text e (dumps e data)"

definition decrypt_dict :: "crypto_env \<Rightarrow> string \<Rightarrow> exc + json" where
  "decrypt_dict e token = bnd_result (decrypt_text e token) (loads e)"

text \<open>\<open>scalar_one_or_none\<close>: more than one row is an error.\<close>

definition at_most_one :: "'r list \<Rightarrow> exc + 'r option" where
  "at_most_one rs = (case rs of [] \<Rightarrow> Inr None | [r] \<Rightarrow> Inr (Some r) | _ \<Rightarrow> Inl (RuntimeError ''MultipleResultsFound''))"

definition credential_of :: "int \<Rightarrow> cloud_type \<Rightarrow> database \<Rightarrow> exc + cloud_credential option" where
  "credential_of uid cloud d =
     at_most_one (select_rows (\<lambda>c. cc_user_id c = uid \<and> cc_cloud c = cloud) (cloud_credentials d))"

definition get_credentials :: "crypto_env \<Rightarrow> int \<Rightarrow> cloud_type \<Rightarrow> (session, json option) prog" where
  "get_credentials e uid cloud =
     bnd (gets (\<lambda>s. credential_of uid cloud (db s))) (\<lambda>r.
     bnd (lift_result r) (\<lambda>cred.
       case cred of
         None \<Rightarrow> ret None
       | Some c \<Rightarrow> bnd (lift_result (decrypt_dict e (cc_encrypted_credentials c))) (\<lambda>j. ret (Some j))))"

record credential_create =
  cp_cloud :: cloud_type
  cp_credentials :: secrets

definition store_credential :: "int \<Rightarrow> cloud_type \<Rightarrow> string \<Rightarrow> cloud_credential option \<Rightarrow> database \<Rightarrow> database" where
  "store_credential uid cloud encrypted cred d =
     d\<lparr>cloud_credentials :=
        (case cred of
           Some c \<Rightarrow> update_rows (\<lambda>r. cc_id r = cc_id c) (\<lambda>r. r\<lparr>cc_encrypted_credentials := encrypted\<rparr>) (cloud_credentials d)
         | None \<Rightarrow> insert_row (\<lambda>i. \<lparr>cc_id = i, cc_user_id = uid, cc_cloud = cloud, cc_encrypted_credentials = encrypted\<rparr>)
                     (cloud_credentials d))\<rparr>"

definition add_credentials :: "crypto_env \<Rightarrow> int \<Rightarrow> credential_create \<Rightarrow> (session, int \<times> cloud_type) prog" where
  "add_credentials e uid payload =
     bnd (gets (\<lambda>s. credential_of uid (cp_cloud payload) (db s))) (\<lambda>r.
     bnd (lift_result r) (\<lambda>cred.
     bnd (modify (\<lambda>s. s\<lparr>db := store_credential uid (cp_cloud payload) (encrypt_dict e (json_of (cp_credentials payload))) cred (db s)\<rparr>)) (\<lambda>_.
     bnd (modify commit) (\<lambda>_.
       gets (\<lambda>s. case cred of Some c \<Rightarrow> (cc_id c, cc_cloud c) | None \<Rightarrow> (seq (cloud_credentials (db s)) - 1, cp_cloud payload))))))"

section \<open>The routes of the credentials\<close>

text \<open>The response holds the id and the cloud, never the secret.\<close>

definition list_credentials :: "user \<Rightarrow> database \<Rightarrow> (int \<times> cloud_type) list" where
  "list_credentials u d =
     map (\<lambda>c. (cc_id c, cc_cloud c)) (select_rows (\<lambda>c. cc_user_id c = usr_id u) (cloud_credentials d))"

definition add_credential :: "crypto_env \<Rightarrow> user \<Rightarrow> credential_create \<Rightarrow> (session, int \<times> cloud_type) prog" where
  "add_credential e u payload = add_credentials e (usr_id u) payload"

definition delete_credential :: "user \<Rightarrow> int \<Rightarrow> (session, unit) prog" where
  "delete_credential u cid =
     bnd (gets (\<lambda>s. at_most_one (select_rows (\<lambda>c. cc_id c = cid \<and> cc_user_id c = usr_id u) (cloud_credentials (db s))))) (\<lambda>r.
     bnd (lift_result r) (\<lambda>cred.
       case cred of
         None \<Rightarrow> ret ()
       | Some c \<Rightarrow>
           bnd (modify (\<lambda>s. s\<lparr>db := (db s)\<lparr>cloud_credentials := delete_rows (\<lambda>r. cc_id r = cc_id c) (cloud_credentials (db s))\<rparr>\<rparr>)) (\<lambda>_.
             modify commit)))"

section \<open>Cloud resources\<close>

datatype resource_type = VM | STORAGE | NETWORK

datatype resource_status = RES_PENDING | RES_RUNNING | RES_STOPPED | RES_TERMINATED | RES_ERROR

record resource =
  res_id :: int
  res_cloud :: cloud_type
  res_type :: resource_type
  res_external_id :: string
  res_name :: string
  res_status :: resource_status
  res_metadata :: "json option"

fun filtered_by :: "'f option \<Rightarrow> ('r \<Rightarrow> 'f) \<Rightarrow> 'r \<Rightarrow> bool" where
  "filtered_by None field r = True"
| "filtered_by (Some v) field r = (field r = v)"

definition list_resources ::
  "cloud_type option \<Rightarrow> resource_type option \<Rightarrow> resource_status option \<Rightarrow> resource table \<Rightarrow> resource list" where
  "list_resources cloud type status t =
     select_rows (\<lambda>r. filtered_by cloud res_cloud r \<and> filtered_by type res_type r \<and> filtered_by status res_status r) t"

definition get_resource :: "int \<Rightarrow> resource table \<Rightarrow> exc + resource" where
  "get_resource i t = (case find_row (\<lambda>r. res_id r = i) t of None \<Rightarrow> Inl (HTTPException 404) | Some r \<Rightarrow> Inr r)"

definition create_resource :: "exc + resource" where
  "create_resource = Inl (HTTPException 400)"

definition delete_resource :: "exc + unit" where
  "delete_resource = Inl (HTTPException 400)"

definition create_resource_route :: "user \<Rightarrow> exc + resource" where
  "create_resource_route u = bnd_result (require_role ADMIN u) (\<lambda>_. create_resource)"

definition delete_resource_route :: "user \<Rightarrow> int \<Rightarrow> resource table \<Rightarrow> exc + unit" where
  "delete_resource_route u i t = bnd_result (require_role ADMIN u) (\<lambda>_. bnd_result (get_resource i t) (\<lambda>_. delete_resource))"

section \<open>The credentials as a map\<close>

text \<open>
  What the store promises: for every user and cloud at most one set of credentials, with its id; adding
  replaces, deleting by id removes only what the caller owns, and reading gives back what was added last.
\<close>

definition cred_key :: "cloud_credential \<Rightarrow> int \<times> cloud_type" where
  "cred_key c = (cc_user_id c, cc_cloud c)"

definition holdings :: "crypto_env \<Rightarrow> database \<Rightarrow> int \<times> cloud_type \<Rightarrow> (int \<times> (exc + json)) option" where
  "holdings e d = map_of (map (\<lambda>c. (cred_key c, cc_id c, decrypt_dict e (cc_encrypted_credentials c))) (rows (cloud_credentials d)))"

definition creds_ok :: "database \<Rightarrow> bool" where
  "creds_ok d \<longleftrightarrow> unique_on cred_key (cloud_credentials d) \<and> unique_on cc_id (cloud_credentials d)
     \<and> (\<forall>c \<in> set (rows (cloud_credentials d)). cc_id c < seq (cloud_credentials d))"

datatype credential_request = Add_credential crypto_env user credential_create | Delete_credential user int

fun serve_credentials :: "credential_request \<Rightarrow> database \<Rightarrow> database" where
  "serve_credentials (Add_credential e u p) d = saved (snd (add_credential e u p (open_session d)))"
| "serve_credentials (Delete_credential u i) d = saved (snd (delete_credential u i (open_session d)))"

type_synonym holding_map = "int \<times> cloud_type \<Rightarrow> (int \<times> (exc + json)) option"

definition has_id :: "int \<Rightarrow> (int \<times> 'x) option \<Rightarrow> bool" where
  "has_id i h \<longleftrightarrow> (case h of None \<Rightarrow> False | Some (j, _) \<Rightarrow> j = i)"

fun spec_credentials :: "credential_request \<Rightarrow> holding_map \<times> int \<Rightarrow> holding_map \<times> int" where
  "spec_credentials (Add_credential e u p) (h, n) =
     (let k = (usr_id u, cp_cloud p); j = Inr (json_of (cp_credentials p)) in
      case h k of Some (i, _) \<Rightarrow> (h(k \<mapsto> (i, j)), n) | None \<Rightarrow> (h(k \<mapsto> (n, j)), n + 1))"
| "spec_credentials (Delete_credential u i) (h, n) =
     ((\<lambda>k. if fst k = usr_id u \<and> has_id i (h k) then None else h k), n)"

text \<open>
  The law of the libraries: with one key for all requests, what a request seals the reader opens, and the JSON text of a
  dict of strings reads back.
\<close>

locale sealing =
  fixes e0 :: crypto_env
    and trusted :: "crypto_env \<Rightarrow> bool"
  assumes same_key: "trusted e \<Longrightarrow> get_fernet e = get_fernet e0"
    and unseal_seal: "trusted e \<Longrightarrow> fernet_unseal e0 (get_fernet e0) (fernet_seal e (get_fernet e0) t) = Inr t"
    and loads_dumps: "trusted e \<Longrightarrow> loads e0 (dumps e (json_of kvs)) = Inr (json_of kvs)"
begin

lemma decrypt_encrypt: "trusted e \<Longrightarrow> decrypt_dict e0 (encrypt_dict e (json_of kvs)) = Inr (json_of kvs)"
  by (simp add: decrypt_dict_def encrypt_dict_def decrypt_text_def encrypt_text_def same_key unseal_seal bnd_result_def loads_dumps)

end

lemma filter_unique:
  assumes "distinct (map key xs)"
  shows "filter (\<lambda>r. key r = k) xs = (case List.find (\<lambda>r. key r = k) xs of None \<Rightarrow> [] | Some r \<Rightarrow> [r])"
proof (cases "List.find (\<lambda>r. key r = k) xs")
  case None
  then have "filter (\<lambda>r. key r = k) xs = []" by (simp add: find_None_iff filter_empty_conv)
  with None show ?thesis by simp
next
  case (Some r)
  with assms show ?thesis
    by (induction xs) (auto simp: filter_empty_conv image_iff split: if_splits)
qed

lemma holdings_iff:
  assumes "unique_on cred_key (cloud_credentials d)"
  shows "holdings e d k = Some v \<longleftrightarrow>
     (\<exists>c \<in> set (rows (cloud_credentials d)). cred_key c = k \<and> v = (cc_id c, decrypt_dict e (cc_encrypted_credentials c)))"
proof -
  have "distinct (map fst (map (\<lambda>c. (cred_key c, cc_id c, decrypt_dict e (cc_encrypted_credentials c))) (rows (cloud_credentials d))))"
    using assms by (simp add: unique_on_def comp_def)
  from map_of_eq_Some_iff[OF this, of k v] show ?thesis by (auto simp: holdings_def)
qed

lemma credential_of_unique:
  assumes "unique_on cred_key (cloud_credentials d)"
  shows "credential_of uid cloud d = Inr (find_row (\<lambda>c. cred_key c = (uid, cloud)) (cloud_credentials d))"
proof -
  have "select_rows (\<lambda>c. cc_user_id c = uid \<and> cc_cloud c = cloud) (cloud_credentials d)
      = filter (\<lambda>c. cred_key c = (uid, cloud)) (rows (cloud_credentials d))"
    by (simp add: select_rows_def cred_key_def)
  then show ?thesis using assms filter_unique[of cred_key "rows (cloud_credentials d)" "(uid, cloud)"]
    by (simp add: credential_of_def unique_on_def find_row_def at_most_one_def split: option.split)
qed

lemma maps_equal: "(\<And>k v. m k = Some v \<longleftrightarrow> m' k = Some v) \<Longrightarrow> m = m'"
  by (rule ext) (metis not_Some_eq)

definition holding_state :: "crypto_env \<Rightarrow> database \<Rightarrow> holding_map \<times> int" where
  "holding_state e d = (holdings e d, seq (cloud_credentials d))"

fun trusts :: "(crypto_env \<Rightarrow> bool) \<Rightarrow> credential_request \<Rightarrow> bool" where
  "trusts trusted (Add_credential e u p) = trusted e"
| "trusts trusted (Delete_credential u i) = True"

lemma add_runs:
  assumes "creds_ok d"
  shows "saved (snd (add_credential e u p (open_session d))) =
     store_credential (usr_id u) (cp_cloud p) (encrypt_dict e (json_of (cp_credentials p)))
       (find_row (\<lambda>c. cred_key c = (usr_id u, cp_cloud p)) (cloud_credentials d)) d"
  using assms credential_of_unique[of d "usr_id u" "cp_cloud p"]
  by (simp add: add_credential_def add_credentials_def prog_simps open_session_def commit_def creds_ok_def)

lemma delete_runs:
  assumes "creds_ok d"
  shows "saved (snd (delete_credential u i (open_session d))) =
     d\<lparr>cloud_credentials := delete_rows (\<lambda>r. cc_id r = i \<and> cc_user_id r = usr_id u) (cloud_credentials d)\<rparr>"
proof -
  let ?t = "cloud_credentials d"
  have ids: "distinct (map cc_id (rows ?t))" using assms by (simp add: creds_ok_def unique_on_def)
  have sel: "select_rows (\<lambda>c. cc_id c = i \<and> cc_user_id c = usr_id u) ?t
      = filter (\<lambda>c. cc_user_id c = usr_id u) (filter (\<lambda>c. cc_id c = i) (rows ?t))"
    by (simp add: select_rows_def conj_commute)
  show ?thesis
  proof (cases "List.find (\<lambda>c. cc_id c = i) (rows ?t)")
    case None
    then have none: "\<forall>c \<in> set (rows ?t). cc_id c \<noteq> i" by (simp add: find_None_iff)
    then have "filter (\<lambda>r. \<not> (cc_id r = i \<and> cc_user_id r = usr_id u)) (rows ?t) = rows ?t" by (simp add: filter_id_conv)
    with none sel None filter_unique[OF ids, of i] show ?thesis
      by (simp add: delete_credential_def prog_simps at_most_one_def delete_rows_def open_session_def)
  next
    case (Some c)
    then have c: "c \<in> set (rows ?t)" "cc_id c = i" using find_cong_prop by fastforce+
    have "cc_id r = i \<longleftrightarrow> r = c" if "r \<in> set (rows ?t)" for r
      using ids c that by (auto simp: distinct_map inj_on_def)
    then have "filter (\<lambda>r. \<not> (cc_id r = i \<and> cc_user_id r = usr_id u)) (rows ?t)
       = (if cc_user_id c = usr_id u then filter (\<lambda>r. cc_id r \<noteq> cc_id c) (rows ?t) else rows ?t)"
      using c by (auto simp: filter_id_conv intro!: filter_cong)
    with sel Some filter_unique[OF ids, of i] show ?thesis
      by (simp add: delete_credential_def prog_simps at_most_one_def delete_rows_def open_session_def commit_def)
  qed
qed

lemma seq_delete: "seq (delete_rows P t) = seq t"
  by (simp add: delete_rows_def)

lemma delete_follows_spec:
  assumes "creds_ok d"
  shows "creds_ok (serve_credentials (Delete_credential u i) d)
       \<and> holding_state e0 (serve_credentials (Delete_credential u i) d) = spec_credentials (Delete_credential u i) (holding_state e0 d)"
proof -
  define d' where "d' = serve_credentials (Delete_credential u i) d"
  have t: "cloud_credentials d' = delete_rows (\<lambda>r. cc_id r = i \<and> cc_user_id r = usr_id u) (cloud_credentials d)"
    by (simp add: d'_def delete_runs[OF assms])
  have ok: "creds_ok d'"
    unfolding creds_ok_def t using assms by (simp add: creds_ok_def delete_rows_unique rows_delete_rows seq_delete)
  have uk: "unique_on cred_key (cloud_credentials d)" "unique_on cred_key (cloud_credentials d')"
    using assms ok by (simp_all add: creds_ok_def)
  have kept: "c \<in> set (rows (cloud_credentials d')) \<longleftrightarrow> c \<in> set (rows (cloud_credentials d)) \<and> \<not> (cc_id c = i \<and> cc_user_id c = usr_id u)" for c
    by (simp add: t rows_delete_rows)
  have "holdings e0 d' k = (if fst k = usr_id u \<and> has_id i (holdings e0 d k) then None else holdings e0 d k)" for k
  proof (cases "holdings e0 d k")
    case None
    then have "cred_key c \<noteq> k" if "c \<in> set (rows (cloud_credentials d'))" for c
      using that holdings_iff[OF uk(1), of e0 k] kept by fastforce
    then have "holdings e0 d' k = None" using holdings_iff[OF uk(2), of e0 k] by (metis not_Some_eq)
    with None show ?thesis by simp
  next
    case (Some w)
    then obtain c where c: "c \<in> set (rows (cloud_credentials d))" "cred_key c = k"
      "w = (cc_id c, decrypt_dict e0 (cc_encrypted_credentials c))" using holdings_iff[OF uk(1)] by blast
    have only: "c' = c" if "c' \<in> set (rows (cloud_credentials d))" "cred_key c' = k" for c'
      using that c uk(1) by (auto simp: unique_on_def distinct_map inj_on_def)
    have user: "cc_user_id c = fst k" using c(2) by (auto simp: cred_key_def)
    show ?thesis
    proof (cases "cc_id c = i \<and> cc_user_id c = usr_id u")
      case True
      then have "cred_key c' \<noteq> k" if "c' \<in> set (rows (cloud_credentials d'))" for c' using that kept only by blast
      then have "holdings e0 d' k = None" using holdings_iff[OF uk(2), of e0 k] by (metis not_Some_eq)
      with True Some c(3) user show ?thesis by (simp add: has_id_def)
    next
      case False
      then have "holdings e0 d' k = Some w" using holdings_iff[OF uk(2), of e0 k w] c kept by blast
      with False Some c(3) user show ?thesis by (auto simp: has_id_def)
    qed
  qed
  then have "holdings e0 d' = (\<lambda>k. if fst k = usr_id u \<and> has_id i (holdings e0 d k) then None else holdings e0 d k)" by (rule ext)
  with ok show ?thesis unfolding d'_def[symmetric] by (simp add: holding_state_def t seq_delete)
qed

context sealing
begin

lemma add_follows_spec:
  assumes "creds_ok d" and "trusted e"
  shows "creds_ok (serve_credentials (Add_credential e u p) d)
       \<and> holding_state e0 (serve_credentials (Add_credential e u p) d) = spec_credentials (Add_credential e u p) (holding_state e0 d)"
proof -
  let ?t = "cloud_credentials d" and ?k = "(usr_id u, cp_cloud p)"
  let ?x = "encrypt_dict e (json_of (cp_credentials p))"
  define d' where "d' = serve_credentials (Add_credential e u p) d"
  note ok = assms(1)[unfolded creds_ok_def]
  note opened = decrypt_encrypt[OF assms(2), of "cp_credentials p"]
  show ?thesis
  proof (cases "find_row (\<lambda>c. cred_key c = ?k) ?t")
    case None
    then have t: "cloud_credentials d' = insert_row (\<lambda>i. \<lparr>cc_id = i, cc_user_id = usr_id u, cc_cloud = cp_cloud p, cc_encrypted_credentials = ?x\<rparr>) ?t"
      by (simp add: d'_def add_runs[OF assms(1)] store_credential_def)
    have fresh: "\<forall>c \<in> set (rows ?t). cred_key c \<noteq> ?k" using None by (simp add: find_row_None)
    then have new: "holdings e0 d ?k = None" using holdings_iff[of d e0 ?k] ok by (metis not_Some_eq)
    have "creds_ok d'"
      unfolding creds_ok_def t using ok fresh
      by (intro conjI insert_row_unique) (auto simp: rows_insert_row insert_row_def cred_key_def)
    moreover have "holdings e0 d' = (holdings e0 d)(?k \<mapsto> (seq ?t, Inr (json_of (cp_credentials p))))"
      using new by (simp add: holdings_def t rows_insert_row cred_key_def opened map_add_def fun_eq_iff split: option.split)
    ultimately show ?thesis using new unfolding d'_def[symmetric] by (simp add: holding_state_def Let_def t insert_row_def)
  next
    case (Some c)
    then have c: "c \<in> set (rows ?t)" "cred_key c = ?k" using find_row_Some by fastforce+
    have t: "cloud_credentials d' = update_rows (\<lambda>r. cc_id r = cc_id c) (\<lambda>r. r\<lparr>cc_encrypted_credentials := ?x\<rparr>) ?t"
      using Some by (simp add: d'_def add_runs[OF assms(1)] store_credential_def)
    have uk: "unique_on cred_key ?t" "unique_on cred_key (cloud_credentials d')"
      using ok unfolding t by (auto intro!: update_rows_unique simp: cred_key_def)
    have same: "r = c" if "r \<in> set (rows ?t)" "cc_id r = cc_id c \<or> cred_key r = ?k" for r
      using that c ok by (auto simp: unique_on_def distinct_map inj_on_def)
    have "creds_ok d'"
      using ok uk unfolding creds_ok_def t
      by (intro conjI update_rows_unique) (auto simp: rows_update_rows update_rows_def cred_key_def)
    moreover have held: "holdings e0 d ?k = Some (cc_id c, decrypt_dict e0 (cc_encrypted_credentials c))"
      using holdings_iff[OF uk(1)] c by blast
    moreover have "holdings e0 d' = (holdings e0 d)(?k \<mapsto> (cc_id c, Inr (json_of (cp_credentials p))))"
    proof
      fix k
      have "rows (cloud_credentials d') = map (\<lambda>r. if r = c then c\<lparr>cc_encrypted_credentials := ?x\<rparr> else r) (rows ?t)"
        unfolding t rows_update_rows using same by (intro map_cong) auto
      then have kept: "c' \<in> set (rows (cloud_credentials d')) \<longleftrightarrow> c' = c\<lparr>cc_encrypted_credentials := ?x\<rparr> \<or> c' \<in> set (rows ?t) \<and> c' \<noteq> c" for c'
        using c(1) by auto
      have key: "cred_key (c\<lparr>cc_encrypted_credentials := ?x\<rparr>) = ?k" using c(2) by (simp add: cred_key_def)
      show "holdings e0 d' k = ((holdings e0 d)(?k \<mapsto> (cc_id c, Inr (json_of (cp_credentials p))))) k"
      proof (cases "k = ?k")
        case True
        have "holdings e0 d' ?k = Some (cc_id c, Inr (json_of (cp_credentials p)))"
          using holdings_iff[OF uk(2), of e0 ?k "(cc_id c, Inr (json_of (cp_credentials p)))"] kept opened key by fastforce
        with True show ?thesis by simp
      next
        case False
        have "c' \<in> set (rows (cloud_credentials d')) \<and> cred_key c' = k \<longleftrightarrow> c' \<in> set (rows ?t) \<and> cred_key c' = k" for c'
          using False kept key c(2) by metis
        then have "holdings e0 d' k = Some v \<longleftrightarrow> holdings e0 d k = Some v" for v
          unfolding holdings_iff[OF uk(1)] holdings_iff[OF uk(2)] Bex_def by blast
        with False show ?thesis by (metis fun_upd_other not_Some_eq)
      qed
    qed
    ultimately show ?thesis unfolding d'_def[symmetric] by (simp add: holding_state_def Let_def t update_rows_def)
  qed
qed

lemma request_follows_spec:
  "creds_ok d \<Longrightarrow> trusts trusted r \<Longrightarrow>
     creds_ok (serve_credentials r d) \<and> holding_state e0 (serve_credentials r d) = spec_credentials r (holding_state e0 d)"
  using add_follows_spec delete_follows_spec by (cases r) auto

lemma requests_follow_spec:
  assumes "creds_ok d" and "list_all (trusts trusted) rs"
  shows "creds_ok (fold serve_credentials rs d)
       \<and> holding_state e0 (fold serve_credentials rs d) = fold spec_credentials rs (holding_state e0 d)"
  using assms
proof (induction rs arbitrary: d)
  case (Cons r rs)
  then show ?case using request_follows_spec[of d r] by simp
qed simp

end

text \<open>What the service reads for a user and a cloud, from the held entry.\<close>

definition read_entry :: "(int \<times> (exc + json)) option \<Rightarrow> exc + json option" where
  "read_entry h = (case h of None \<Rightarrow> Inr None | Some (i, r) \<Rightarrow> bnd_result r (\<lambda>j. Inr (Some j)))"

lemma get_credentials_reads:
  assumes "creds_ok d"
  shows "get_credentials e0 uid cloud (open_session d) = (read_entry (holdings e0 d (uid, cloud)), open_session d)"
proof -
  have uk: "unique_on cred_key (cloud_credentials d)" using assms by (simp add: creds_ok_def)
  show ?thesis
  proof (cases "find_row (\<lambda>c. cred_key c = (uid, cloud)) (cloud_credentials d)")
    case None
    then have "\<forall>c \<in> set (rows (cloud_credentials d)). cred_key c \<noteq> (uid, cloud)" by (simp add: find_row_None)
    then have "holdings e0 d (uid, cloud) \<noteq> Some v" for v using holdings_iff[OF uk, of e0 "(uid, cloud)" v] by blast
    then have "holdings e0 d (uid, cloud) = None" by (metis not_None_eq)
    with None show ?thesis
      by (simp add: get_credentials_def prog_simps credential_of_unique[OF uk] open_session_def read_entry_def)
  next
    case (Some c)
    then have "c \<in> set (rows (cloud_credentials d))" "cred_key c = (uid, cloud)" using find_row_Some by fastforce+
    then have "holdings e0 d (uid, cloud) = Some (cc_id c, decrypt_dict e0 (cc_encrypted_credentials c))"
      using holdings_iff[OF uk] by blast
    with Some show ?thesis
      by (simp add: get_credentials_def prog_simps credential_of_unique[OF uk] open_session_def read_entry_def bnd_result_def
          split: sum.split)
  qed
qed

text \<open>
  C10: The credential store is the map it promises: after any sequence of requests by any users, each user holds
  for each cloud what they added last and did not delete, under a stable id; nobody's request changes what another
  holds; and reading returns exactly the held credentials, although the table keeps only encrypted texts.
\<close>

theorem credentials_refine_a_map:
  assumes "sealing e0 trusted" and "creds_ok d" and "list_all (trusts trusted) rs"
  shows "holding_state e0 (fold serve_credentials rs d) = fold spec_credentials rs (holding_state e0 d)
       \<and> fst (get_credentials e0 uid cloud (open_session (fold serve_credentials rs d)))
           = read_entry (fst (fold spec_credentials rs (holding_state e0 d)) (uid, cloud))"
proof -
  note run = sealing.requests_follow_spec[OF assms]
  then have held: "holdings e0 (fold serve_credentials rs d) = fst (fold spec_credentials rs (holding_state e0 d))"
    by (metis fst_conv holding_state_def)
  have "fst (get_credentials e0 uid cloud (open_session (fold serve_credentials rs d)))
      = read_entry (fst (holding_state e0 (fold serve_credentials rs d)) (uid, cloud))"
    using get_credentials_reads[of "fold serve_credentials rs d" e0 uid cloud] run held by simp
  with run held show ?thesis by simp
qed

section \<open>A key ring in memory\<close>

text \<open>A cipher that reverses the text and marks it with its nonce; the JSON text of \<open>Json_Text\<close>.\<close>

definition ring :: "char \<Rightarrow> crypto_env" where
  "ring nonce =
     \<lparr>ENCRYPTION_KEY = '''', SECRET_KEY_bytes = [65, 66], urlsafe_b64 = map char_of,
      fernet_seal = (\<lambda>k t. nonce # k @ rev t), fernet_unseal = (\<lambda>k s. Inr (rev (drop (Suc (length k)) s))),
      dumps = enc, loads = decode\<rparr>"

interpretation demo_ring: sealing "ring CHR ''x''" "\<lambda>e. e \<in> range ring"
  by unfold_locales (auto simp: ring_def get_fernet_def padded_key_def json_of_def simp del: enc.simps)

definition demo_ann :: user where
  "demo_ann = \<lparr>usr_id = 1, usr_email = ''ann@x'', usr_hashed_password = '''', usr_role = DEV, usr_is_active = True, usr_gitlab_user_id = None\<rparr>"

definition demo_bob :: user where
  "demo_bob = demo_ann\<lparr>usr_id := 2, usr_email := ''bob@x''\<rparr>"

definition demo_credential_requests :: "credential_request list" where
  "demo_credential_requests =
     [Add_credential (ring CHR ''a'') demo_ann \<lparr>cp_cloud = CLOUD_AWS, cp_credentials = [(''key'', ''old'')]\<rparr>,
      Add_credential (ring CHR ''b'') demo_bob \<lparr>cp_cloud = CLOUD_AWS, cp_credentials = [(''key'', ''bob'')]\<rparr>,
      Add_credential (ring CHR ''c'') demo_ann \<lparr>cp_cloud = CLOUD_AWS, cp_credentials = [(''key'', ''new'')]\<rparr>,
      Delete_credential demo_bob 1]"

theorem credentials_refine_a_map_witness:
  "fst (get_credentials (ring CHR ''x'') 1 CLOUD_AWS (open_session (fold serve_credentials demo_credential_requests empty_database)))
     = Inr (Some (JObj [(''key'', JStr ''new'')]))"
proof -
  have ok: "creds_ok empty_database" by (simp add: creds_ok_def unique_on_def empty_database_def empty_table_def)
  have trust: "list_all (trusts (\<lambda>e. e \<in> range ring)) demo_credential_requests" by (simp add: demo_credential_requests_def)
  have "read_entry (fst (fold spec_credentials demo_credential_requests (holding_state (ring CHR ''x'') empty_database)) (1, CLOUD_AWS))
      = Inr (Some (JObj [(''key'', JStr ''new'')]))"
    by code_simp
  with credentials_refine_a_map[OF demo_ring.sealing_axioms ok trust, of 1 CLOUD_AWS] show ?thesis by simp
qed

end
