(* ===== verification/Ai_Governance.thy ===== *)
theory Ai_Governance
  imports Ai_Settings
begin

text \<open>
  The type of the global settings of the assistant (backend/services/ai_settings_service.py and the settings
  routes of backend/api/routes/assistant.py): what every request keeps true of the stored row, and that
  a well-typed row always yields a configuration.
\<close>

record global_settings_request =
  gsr_env :: ai_env
  gsr_patch :: ai_global_patch
  gsr_user :: user

definition global_settings_request :: "global_settings_request \<Rightarrow> database \<Rightarrow> database" where
  "global_settings_request rq d =
     saved (snd (patch_assistant_global_settings (gsr_env rq) (gsr_patch rq) (gsr_user rq) (open_session d)))"

text \<open>
  The type: the single row has id 1, a provider the platform knows, a list of applications strictly increasing (hence
  without repetition), a model that is not empty, and a key that decrypts to a text that is not empty.
\<close>

definition typed_row :: "(string \<Rightarrow> exc + string) \<Rightarrow> ai_global_settings \<Rightarrow> bool" where
  "typed_row unseal r \<longleftrightarrow>
     ags_id r = 1 \<and> (\<forall>p. ags_provider r = Some p \<longrightarrow> p \<in> set ALLOWED_PROVIDERS)
   \<and> sorted_wrt (<) (ags_allowed_app_ids r) \<and> ags_model r \<noteq> Some []
   \<and> (\<forall>c. ags_api_key_encrypted r = Some c \<longrightarrow> (\<exists>k. k \<noteq> [] \<and> unseal c = Inr k))"

definition typed_settings :: "(string \<Rightarrow> exc + string) \<Rightarrow> database \<Rightarrow> bool" where
  "typed_settings unseal d \<longleftrightarrow> length (rows (ai_global_rows d)) \<le> 1 \<and> (\<forall>r \<in> set (rows (ai_global_rows d)). typed_row unseal r)"

definition typed_config :: "ai_env \<Rightarrow> effective_ai_config \<Rightarrow> bool" where
  "typed_config env cfg \<longleftrightarrow>
     cfg_provider_name cfg \<in> insert (AI_PROVIDER env) (set ALLOWED_PROVIDERS) \<and> sorted_wrt (<) (cfg_allowed_app_ids cfg)
   \<and> (cfg_model cfg = [] \<longrightarrow> AI_MODEL env = [])
   \<and> (cfg_api_key cfg = Some [] \<longrightarrow> AI_API_KEY env = Some [])"

lemma typed_new_row: "typed_row unseal new_settings_row"
  by (simp add: typed_row_def new_settings_row_def)

lemma typed_patch:
  assumes "typed_row unseal r" and "\<And>p. agp_provider payload = Some p \<Longrightarrow> p \<in> set ALLOWED_PROVIDERS"
    and "\<And>k. unseal (encrypt_str env k) = Inr k"
  shows "typed_row unseal (patch_row env payload uid r)"
  using assms by (auto simp: typed_row_def patch_row_def split: option.splits)

lemma settings_request_typed:
  assumes "typed_settings unseal d" and "\<And>k. unseal (encrypt_str (gsr_env rq) k) = Inr k"
  shows "typed_settings unseal (global_settings_request rq d)"
proof -
  let ?p = "gsr_patch rq" and ?u = "gsr_user rq"
  define t where "t = (if get_settings_row d = None then insert_row (\<lambda>_. new_settings_row) (ai_global_rows d) else ai_global_rows d)"
  have start: "length (rows t) \<le> 1" "\<forall>r \<in> set (rows t). typed_row unseal r"
  proof -
    have "rows (ai_global_rows d) = []" if "get_settings_row d = None"
      using that assms(1) by (cases "rows (ai_global_rows d)") (auto simp: get_settings_row_def find_row_None typed_settings_def typed_row_def)
    then show "length (rows t) \<le> 1" "\<forall>r \<in> set (rows t). typed_row unseal r"
      using assms(1) typed_new_row by (auto simp: typed_settings_def rows_insert_row t_def)
  qed
  have run: "global_settings_request rq d = d
      \<or> (\<forall>p. agp_provider ?p = Some p \<longrightarrow> p \<in> set ALLOWED_PROVIDERS)
        \<and> ai_global_rows (global_settings_request rq d) = update_rows (\<lambda>r. ags_id r = 1) (patch_row (gsr_env rq) ?p (usr_id ?u)) t"
  proof (cases "is_admin ?u \<and> (\<forall>p. agp_provider ?p = Some p \<longrightarrow> p \<in> set ALLOWED_PROVIDERS)")
    case False
    then have "global_settings_request rq d = d"
      by (auto simp: global_settings_request_def patch_assistant_global_settings_def prog_simps open_session_def require_admin_def
          split: option.split)
    then show ?thesis ..
  next
    case True
    then have known: "\<not> (case agp_provider ?p of None \<Rightarrow> False | Some p \<Rightarrow> p \<notin> set ALLOWED_PROVIDERS)" by (simp split: option.split)
    have quiet: "snd (bnd (\<lambda>s. (f s, s)) (\<lambda>cfg. ret (g cfg)) s) = s" for f :: "session \<Rightarrow> exc + effective_ai_config"
      and g :: "effective_ai_config \<Rightarrow> ai_global_response" and s by (simp add: prog_simps split: sum.split)
    have "ai_global_rows (global_settings_request rq d) = update_rows (\<lambda>r. ags_id r = 1) (patch_row (gsr_env rq) ?p (usr_id ?u)) t"
      unfolding global_settings_request_def patch_assistant_global_settings_def t_def if_not_P[OF known]
      using True by (simp add: require_admin_def log_action_def bnd_step[of "lift_result _"] bnd_step[of "modify _"] lift_apply modify_apply
          quiet commit_def open_session_def)
    with True show ?thesis by blast
  qed
  then show ?thesis
  proof
    assume "global_settings_request rq d = d"
    with assms(1) show ?thesis by simp
  next
    assume ok: "(\<forall>p. agp_provider ?p = Some p \<longrightarrow> p \<in> set ALLOWED_PROVIDERS)
        \<and> ai_global_rows (global_settings_request rq d) = update_rows (\<lambda>r. ags_id r = 1) (patch_row (gsr_env rq) ?p (usr_id ?u)) t"
    have "typed_row unseal (if ags_id r = 1 then patch_row (gsr_env rq) ?p (usr_id ?u) r else r)" if "r \<in> set (rows t)" for r
      using that start(2) typed_patch[of unseal r ?p "gsr_env rq" "usr_id ?u"] ok assms(2) by auto
    then have "\<forall>r \<in> set (rows (ai_global_rows (global_settings_request rq d))). typed_row unseal r"
      unfolding conjunct2[OF ok] rows_update_rows set_map by blast
    moreover have "length (rows (ai_global_rows (global_settings_request rq d))) \<le> 1"
      unfolding conjunct2[OF ok] rows_update_rows length_map by (rule start(1))
    ultimately show ?thesis unfolding typed_settings_def by blast
  qed
qed

lemma typed_settings_configure:
  assumes "typed_settings (decrypt_str env) d"
  shows "\<exists>cfg. effective_config env d = Inr cfg \<and> typed_config env cfg"
proof (cases "get_settings_row d")
  case None
  then show ?thesis by (simp add: effective_config_def typed_config_def)
next
  case (Some r)
  then have "typed_row (decrypt_str env) r"
    using assms by (auto simp: typed_settings_def get_settings_row_def dest: find_row_Some)
  then show ?thesis using Some
    by (auto simp: effective_config_def typed_config_def typed_row_def bnd_result_def truthy_str_def or_else_def split: option.splits)
qed

text \<open>
  C11: The settings of the assistant are well typed and stay so: from a well-typed table, whatever requests arrive, there is at
  most one row, its provider is one the platform knows, its applications are listed once and in order, its model and its key
  are not empty; and such a table always yields a configuration, with a known provider and the
  defaults of the environment where nothing is stored.
\<close>

theorem settings_are_well_typed:
  assumes "typed_settings (decrypt_str env) d"
    and "\<And>rq k. rq \<in> set requests \<Longrightarrow> decrypt_str env (encrypt_str (gsr_env rq) k) = Inr k"
  shows "typed_settings (decrypt_str env) (fold global_settings_request requests d)
       \<and> (\<exists>cfg. effective_config env (fold global_settings_request requests d) = Inr cfg \<and> typed_config env cfg)"
proof -
  have "typed_settings (decrypt_str env) (fold global_settings_request requests d)"
    using assms
  proof (induction requests arbitrary: d)
    case (Cons rq requests)
    have "typed_settings (decrypt_str env) (global_settings_request rq d)"
      by (rule settings_request_typed[OF Cons.prems(1)]) (simp add: Cons.prems(2))
    with Cons show ?case by simp
  qed simp
  with typed_settings_configure show ?thesis by blast
qed

definition demo_settings_patch :: ai_global_patch where
  "demo_settings_patch =
     \<lparr>agp_assistant_enabled = Some True, agp_graphical_bot_enabled = None, agp_platform_data_access_enabled = None,
      agp_app_data_access_enabled = Some True, agp_allowed_app_ids = Some [7, 2, 7], agp_provider = Some ''mistral'',
      agp_model = Some [], agp_api_key = Some ''k-123''\<rparr>"

definition demo_settings_requests :: "global_settings_request list" where
  "demo_settings_requests =
     [\<lparr>gsr_env = demo_ai_env, gsr_patch = demo_settings_patch, gsr_user = alice\<lparr>usr_role := ADMIN\<rparr>\<rparr>,
      \<lparr>gsr_env = demo_ai_env, gsr_patch = demo_settings_patch\<lparr>agp_provider := Some ''unknown''\<rparr>, gsr_user = alice\<lparr>usr_role := ADMIN\<rparr>\<rparr>]"

theorem settings_are_well_typed_witness:
  "ai_global_rows (fold global_settings_request demo_settings_requests empty_database) \<noteq> empty_table
   \<and> typed_settings (decrypt_str demo_ai_env) (fold global_settings_request demo_settings_requests empty_database)"
proof -
  have "rows (ai_global_rows (fold global_settings_request demo_settings_requests empty_database)) \<noteq> []" by code_simp
  then have "ai_global_rows (fold global_settings_request demo_settings_requests empty_database) \<noteq> empty_table"
    by (auto simp: empty_table_def)
  moreover have start: "typed_settings (decrypt_str demo_ai_env) empty_database"
    by (simp add: typed_settings_def empty_database_def empty_table_def)
  moreover have "decrypt_str demo_ai_env (encrypt_str (gsr_env rq) k) = Inr k" if "rq \<in> set demo_settings_requests" for rq k
    using that by (auto simp: demo_settings_requests_def demo_ai_env_def)
  ultimately show ?thesis using settings_are_well_typed[OF start, of demo_settings_requests] by blast
qed

end
