(* ===== verification/Discovery.thy ===== *)
theory Discovery
  imports App_Service Runtime_Status
begin

text \<open>
  Clusters found in the kubeconfig files of the host (backend/k8s/discovery.py), the GitLab and ArgoCD
  webhooks (backend/api/routes/webhooks.py) and the pages of a group (backend/api/routes/groups.py). The
  files, the keyed hash and the synchronisation call of ArgoCD are parameters.
\<close>

section \<open>Contexts of kubeconfig files\<close>

record kube_context =
  kx_name :: json
  kx_endpoint :: json
  kx_path :: string

fun hashable :: "json \<Rightarrow> bool" where
  "hashable (JArr xs) = False"
| "hashable (JObj kvs) = False"
| "hashable _ = True"

fun collect_result :: "('a \<Rightarrow> exc + 'b) \<Rightarrow> 'a list \<Rightarrow> exc + 'b list" where
  "collect_result f [] = Inr []"
| "collect_result f (x # xs) = bnd_result (f x) (\<lambda>y. bnd_result (collect_result f xs) (\<lambda>ys. Inr (y # ys)))"

text \<open>A dict display: the last value of a key counts, and a key must be hashable.\<close>

definition clusters_by_name :: "json \<Rightarrow> exc + (json \<times> json) list" where
  "clusters_by_name kc =
     bnd_result (jget_default ''clusters'' (JArr []) kc) (\<lambda>cs.
     bnd_result (jiter cs) (collect_result (\<lambda>c.
       bnd_result (jitem ''name'' c) (\<lambda>n.
       bnd_result (jget_default ''cluster'' (JObj []) c) (\<lambda>v.
         if hashable n then Inr (n, v) else Inl TypeError)))))"

definition context_of :: "string \<Rightarrow> (json \<times> json) list \<Rightarrow> json \<Rightarrow> exc + kube_context option" where
  "context_of path by_name ctx =
     bnd_result (jget_default ''name'' (JStr []) ctx) (\<lambda>name.
     bnd_result (bnd_result (jget_default ''context'' (JObj []) ctx) (jget_default ''cluster'' (JStr []))) (\<lambda>src.
     if \<not> hashable src then Inl TypeError
     else
       bnd_result (jget_default ''server'' (JStr []) (case map_of (rev by_name) src of None \<Rightarrow> JObj [] | Some v \<Rightarrow> v)) (\<lambda>endpoint.
         Inr (if truthy name \<and> truthy endpoint then Some \<lparr>kx_name = name, kx_endpoint = endpoint, kx_path = path\<rparr> else None))))"

definition somes :: "'a option list \<Rightarrow> 'a list" where
  "somes xs = List.map_filter id xs"

text \<open>\<open>read_yaml\<close> is \<open>None\<close> for a file that cannot be read or parsed.\<close>

definition contexts_from_file :: "(string \<Rightarrow> json option) \<Rightarrow> string \<Rightarrow> exc + kube_context list" where
  "contexts_from_file read_yaml path =
     (case read_yaml path of
        None \<Rightarrow> Inr []
      | Some kc \<Rightarrow>
          bnd_result (clusters_by_name kc) (\<lambda>by_name.
          bnd_result (jget_default ''contexts'' (JArr []) kc) (\<lambda>cs.
          bnd_result (jiter cs) (\<lambda>cs.
          bnd_result (collect_result (context_of path by_name) cs) (\<lambda>found. Inr (somes found))))))"

text \<open>The entries of the directory come sorted, with the name and whether the entry is a file.\<close>

record host_files =
  KUBECONFIG_PATH :: string
  default_kubeconfig :: string
  path_exists :: "string \<Rightarrow> bool"
  KUBECONFIG_DIR :: string
  is_directory :: "string \<Rightarrow> bool"
  dir_entries :: "string \<Rightarrow> (string \<times> string \<times> bool) list"
  read_yaml :: "string \<Rightarrow> json option"

definition path_suffix :: "string \<Rightarrow> string" where
  "path_suffix name =
     (case rpartition_at (CHR ''.'') name of (stem, found, ext) \<Rightarrow>
        if found \<and> stem \<noteq> [] \<and> ext \<noteq> [] then CHR ''.'' # ext else [])"

definition config_files :: "host_files \<Rightarrow> string list" where
  "config_files h =
     (let p = (if KUBECONFIG_PATH h \<noteq> [] then KUBECONFIG_PATH h else default_kubeconfig h) in
      (if path_exists h p then [p] else [])
      @ (if KUBECONFIG_DIR h \<noteq> [] \<and> is_directory h (KUBECONFIG_DIR h)
         then map fst (filter (\<lambda>(_, name, file). path_suffix name \<in> {''.yaml'', ''.yml'', ''.conf''} \<and> file)
                (dir_entries h (KUBECONFIG_DIR h)))
         else []))"

fun dedup_contexts :: "json list \<Rightarrow> kube_context list \<Rightarrow> exc + kube_context list" where
  "dedup_contexts seen [] = Inr []"
| "dedup_contexts seen (c # cs) =
     (if \<not> hashable (kx_name c) then Inl TypeError
      else if kx_name c \<in> set seen then dedup_contexts seen cs
      else bnd_result (dedup_contexts (kx_name c # seen) cs) (\<lambda>r. Inr (c # r)))"

definition collect_all_contexts :: "host_files \<Rightarrow> exc + kube_context list" where
  "collect_all_contexts h =
     bnd_result (collect_result (contexts_from_file (read_yaml h)) (config_files h)) (\<lambda>css. dedup_contexts [] (concat css))"

section \<open>Discovery\<close>

text \<open>
  A new row takes the defaults of the model; a value that is no text fails when the row is written, and nothing is committed.
\<close>

fun text_value :: "json \<Rightarrow> string option" where
  "text_value (JStr s) = Some s"
| "text_value _ = None"

definition writable :: "kube_context \<Rightarrow> bool" where
  "writable c \<longleftrightarrow> text_value (kx_name c) \<noteq> None \<and> text_value (kx_endpoint c) \<noteq> None"

definition cluster_named :: "database \<Rightarrow> json \<Rightarrow> cluster_connection option" where
  "cluster_named d name = List.find (\<lambda>c. JStr (cl_name c) = name) (rev (rows (cluster_connections d)))"

definition stale :: "kube_context \<Rightarrow> cluster_connection \<Rightarrow> bool" where
  "stale ctx c \<longleftrightarrow> JStr (cl_endpoint c) \<noteq> kx_endpoint ctx \<or> cl_kubeconfig_secret_ref c \<noteq> kx_path ctx"

definition refreshed :: "kube_context \<Rightarrow> cluster_connection \<Rightarrow> cluster_connection" where
  "refreshed ctx c = c\<lparr>cl_endpoint := the (text_value (kx_endpoint ctx)), cl_kubeconfig_secret_ref := kx_path ctx\<rparr>"

definition discovered_row :: "kube_context \<Rightarrow> int \<Rightarrow> cluster_connection" where
  "discovered_row ctx i = refreshed ctx (blank_cluster i (the (text_value (kx_name ctx))))"

text \<open>One context against the rows read at the start.\<close>

definition discover_one :: "database \<Rightarrow> kube_context \<Rightarrow> database \<Rightarrow> database" where
  "discover_one d0 ctx d =
     (case cluster_named d0 (kx_name ctx) of
        None \<Rightarrow> d\<lparr>cluster_connections := insert_row (discovered_row ctx) (cluster_connections d)\<rparr>
      | Some c \<Rightarrow>
          if stale ctx c
          then d\<lparr>cluster_connections := update_rows (\<lambda>r. cl_id r = cl_id c) (refreshed ctx) (cluster_connections d)\<rparr>
          else d)"

definition changes_rows :: "database \<Rightarrow> kube_context \<Rightarrow> bool" where
  "changes_rows d0 ctx = (case cluster_named d0 (kx_name ctx) of None \<Rightarrow> True | Some c \<Rightarrow> stale ctx c)"

definition discover_clusters :: "host_files \<Rightarrow> (session, unit) prog" where
  "discover_clusters h =
     bnd (lift_result (collect_all_contexts h)) (\<lambda>contexts.
     if contexts = [] then ret ()
     else
       bnd (gets db) (\<lambda>d0.
       if \<exists>c \<in> set contexts. changes_rows d0 c then
         if \<exists>c \<in> set contexts. changes_rows d0 c \<and> \<not> writable c then raise_exc TypeError
         else
           bnd (modify (\<lambda>s. s\<lparr>db := fold (discover_one d0) contexts (db s)\<rparr>)) (\<lambda>_. modify commit)
       else ret ()))"

section \<open>What a discovery leaves in the registry\<close>

definition adjusted :: "kube_context list \<Rightarrow> cluster_connection \<Rightarrow> cluster_connection" where
  "adjusted cs r = (case List.find (\<lambda>c. kx_name c = JStr (cl_name r)) cs of None \<Rightarrow> r | Some c \<Rightarrow> refreshed c r)"

definition newcomers :: "database \<Rightarrow> kube_context list \<Rightarrow> kube_context list" where
  "newcomers d cs = filter (\<lambda>c. cluster_named d (kx_name c) = None) cs"

definition registry_ok :: "database \<Rightarrow> bool" where
  "registry_ok d \<longleftrightarrow> unique_on cl_id (cluster_connections d) \<and> unique_on cl_name (cluster_connections d)
     \<and> (\<forall>r \<in> set (rows (cluster_connections d)). cl_id r < seq (cluster_connections d))"

lemma adjusted_frame [simp]: "cl_id (adjusted cs r) = cl_id r" "cl_name (adjusted cs r) = cl_name r"
  by (simp_all add: adjusted_def refreshed_def split: option.split)

lemma cluster_named_Some: "cluster_named d n = Some c \<Longrightarrow> c \<in> set (rows (cluster_connections d)) \<and> JStr (cl_name c) = n"
  unfolding cluster_named_def by (drule find_cong_prop) auto

lemma cluster_named_None: "cluster_named d n = None \<longleftrightarrow> (\<forall>r \<in> set (rows (cluster_connections d)). JStr (cl_name r) \<noteq> n)"
  by (auto simp: cluster_named_def find_None_iff)

lemma adjusted_snoc:
  "adjusted (cs @ [c]) r =
     (if List.find (\<lambda>c. kx_name c = JStr (cl_name r)) cs = None \<and> kx_name c = JStr (cl_name r) then refreshed c r else adjusted cs r)"
proof -
  have "List.find P (cs @ [c]) = (case List.find P cs of None \<Rightarrow> if P c then Some c else None | Some x \<Rightarrow> Some x)" for P
    by (induction cs) auto
  then show ?thesis by (simp add: adjusted_def split: option.split)
qed

lemma refreshed_fresh: "writable ctx \<Longrightarrow> \<not> stale ctx c \<Longrightarrow> refreshed ctx c = c"
  by (auto simp: writable_def stale_def refreshed_def elim: text_value.elims)

lemma refreshed_settles: "writable ctx \<Longrightarrow> \<not> stale ctx (refreshed ctx c)"
  by (cases "kx_endpoint ctx") (auto simp: writable_def stale_def refreshed_def)

lemma discover_rows:
  assumes "registry_ok d" and "distinct (map kx_name cs)" and "list_all writable cs"
  shows "fold (discover_one d) cs d = d\<lparr>cluster_connections :=
       \<lparr>rows = map (adjusted cs) (rows (cluster_connections d))
               @ map2 discovered_row (newcomers d cs) (map (\<lambda>n. seq (cluster_connections d) + int n) [0..<length (newcomers d cs)]),
        seq = seq (cluster_connections d) + int (length (newcomers d cs))\<rparr>\<rparr>"
  using assms(2,3)
proof (induction cs rule: rev_induct)
  case Nil
  have "adjusted [] = id" by (simp add: fun_eq_iff adjusted_def)
  then show ?case by (simp add: newcomers_def)
next
  case (snoc c cs)
  let ?t = "cluster_connections d"
  let ?new = "map2 discovered_row (newcomers d cs) (map (\<lambda>n. seq ?t + int n) [0..<length (newcomers d cs)])"
  have IH: "fold (discover_one d) cs d = d\<lparr>cluster_connections :=
       \<lparr>rows = map (adjusted cs) (rows ?t) @ ?new, seq = seq ?t + int (length (newcomers d cs))\<rparr>\<rparr>"
    using snoc by simp
  have notin: "List.find (\<lambda>x. kx_name x = kx_name c) cs = None" using snoc.prems(1) by (auto simp: find_None_iff image_iff)
  show ?case
  proof (cases "cluster_named d (kx_name c)")
    case None
    then have "adjusted (cs @ [c]) r = adjusted cs r" if "r \<in> set (rows ?t)" for r
      using that by (auto simp: cluster_named_None adjusted_snoc)
    then have "map (adjusted (cs @ [c])) (rows ?t) = map (adjusted cs) (rows ?t)" by simp
    moreover have "discover_one d c x = x\<lparr>cluster_connections := insert_row (discovered_row c) (cluster_connections x)\<rparr>" for x
      using None by (simp add: discover_one_def)
    moreover have "newcomers d (cs @ [c]) = newcomers d cs @ [c]" using None by (simp add: newcomers_def)
    ultimately show ?thesis using IH by (simp add: insert_row_def)
  next
    case (Some r0)
    note r0 = cluster_named_Some[OF Some]
    have found: "List.find (\<lambda>x. kx_name x = JStr (cl_name r0)) cs = None" using notin r0 by simp
    have only: "kx_name c = JStr (cl_name r) \<longleftrightarrow> r = r0" "cl_id r = cl_id r0 \<longleftrightarrow> r = r0" if "r \<in> set (rows ?t)" for r
      using that r0 assms(1) by (auto simp: registry_ok_def unique_on_def distinct_map inj_on_def)
    have new: "cl_id r \<noteq> cl_id r0" if "r \<in> set ?new" for r
      using that r0 assms(1) by (auto simp: registry_ok_def discovered_row_def refreshed_def blank_cluster_def set_zip)
    have same: "adjusted (cs @ [c]) r = (if r = r0 then refreshed c r0 else adjusted cs r)" if "r \<in> set (rows ?t)" for r
      using only(1)[OF that] found by (auto simp: adjusted_snoc)
    have old: "adjusted cs r0 = r0" using found by (simp add: adjusted_def)
    have nc: "newcomers d (cs @ [c]) = newcomers d cs" using Some by (simp add: newcomers_def)
    have whole: "map (\<lambda>r. if cl_id r = cl_id r0 then refreshed c r else r) (map (adjusted cs) (rows ?t) @ ?new)
        = map (adjusted (cs @ [c])) (rows ?t) @ ?new"
      using only(2) old same new by (simp add: map_idI)
    show ?thesis
    proof (cases "stale c r0")
      case True
      then have "discover_one d c x = x\<lparr>cluster_connections := update_rows (\<lambda>r. cl_id r = cl_id r0) (refreshed c) (cluster_connections x)\<rparr>" for x
        using Some by (simp add: discover_one_def)
      with IH whole nc show ?thesis by (simp add: update_rows_def del: map_append map_map)
    next
      case False
      then have "refreshed c r0 = r0" using snoc.prems(2) refreshed_fresh by simp
      then have "map (adjusted (cs @ [c])) (rows ?t) = map (adjusted cs) (rows ?t)" using same old by simp
      moreover have "discover_one d c x = x" for x using Some False by (simp add: discover_one_def)
      ultimately show ?thesis using IH nc by simp
    qed
  qed
qed

lemma dedup_distinct: "dedup_contexts seen cs = Inr r \<Longrightarrow> distinct (map kx_name r) \<and> kx_name ` set r \<inter> set seen = {}"
  by (induction seen cs arbitrary: r rule: dedup_contexts.induct) (fastforce simp: bnd_result_def split: if_splits sum.splits)+

lemma collected_distinct: "collect_all_contexts h = Inr cs \<Longrightarrow> distinct (map kx_name cs)"
  using dedup_distinct by (auto simp: collect_all_contexts_def bnd_result_def split: sum.splits)

lemma discover_quiet: "\<forall>c \<in> set cs. \<not> changes_rows d0 c \<Longrightarrow> fold (discover_one d0) cs d = d"
  by (induction cs arbitrary: d) (auto simp: discover_one_def changes_rows_def split: option.splits if_splits)

lemma discover_runs:
  assumes "collect_all_contexts h = Inr cs" and "list_all writable cs"
  shows "discover_clusters h (open_session d) = (Inr (), open_session (fold (discover_one d) cs d))"
proof (cases "\<exists>c \<in> set cs. changes_rows d c")
  case True
  moreover have "cs \<noteq> []" using True by auto
  ultimately show ?thesis using assms
    by (auto simp: discover_clusters_def prog_simps open_session_def commit_def list_all_iff)
next
  case False
  then show ?thesis using assms discover_quiet[of cs d d]
    by (auto simp: discover_clusters_def prog_simps open_session_def)
qed

lemma newcomer_names:
  "map cl_name (map2 discovered_row cs (map (\<lambda>n. m + int n) [0..<length cs])) = map (\<lambda>c. the (text_value (kx_name c))) cs"
  "map cl_id (map2 discovered_row cs (map (\<lambda>n. m + int n) [0..<length cs])) = map (\<lambda>n. m + int n) [0..<length cs]"
  by (intro nth_equalityI; simp add: discovered_row_def refreshed_def blank_cluster_def)+

lemma text_value_inj: "writable c \<Longrightarrow> JStr (the (text_value (kx_name c))) = kx_name c"
  by (cases "kx_name c") (auto simp: writable_def)

text \<open>The registry of a database after the contexts were taken over.\<close>

definition taken_over :: "kube_context list \<Rightarrow> database \<Rightarrow> database \<Rightarrow> bool" where
  "taken_over cs d d' \<longleftrightarrow>
     registry_ok d' \<and> d' = d\<lparr>cluster_connections := cluster_connections d'\<rparr>
   \<and> map (adjusted cs) (rows (cluster_connections d)) = take (length (rows (cluster_connections d))) (rows (cluster_connections d'))
   \<and> (\<forall>c \<in> set cs. \<exists>r \<in> set (rows (cluster_connections d')). JStr (cl_name r) = kx_name c \<and> JStr (cl_endpoint r) = kx_endpoint c
        \<and> cl_kubeconfig_secret_ref r = kx_path c)"

lemma fold_taken_over:
  assumes "registry_ok d" and "distinct (map kx_name cs)" and "list_all writable cs"
  shows "taken_over cs d (fold (discover_one d) cs d)"
proof -
  let ?t = "cluster_connections d" and ?nc = "newcomers d cs"
  let ?new = "map2 discovered_row ?nc (map (\<lambda>n. seq ?t + int n) [0..<length ?nc])"
  define d' where "d' = fold (discover_one d) cs d"
  have d': "d' = d\<lparr>cluster_connections := \<lparr>rows = map (adjusted cs) (rows ?t) @ ?new, seq = seq ?t + int (length ?nc)\<rparr>\<rparr>"
    unfolding d'_def by (rule discover_rows[OF assms])
  have nc: "c \<in> set cs \<and> writable c \<and> (\<forall>r \<in> set (rows ?t). JStr (cl_name r) \<noteq> kx_name c)" if "c \<in> set ?nc" for c
    using that assms(3) by (auto simp: newcomers_def cluster_named_None list_all_iff)
  have names: "map cl_name (map (adjusted cs) (rows ?t) @ ?new) = map cl_name (rows ?t) @ map (\<lambda>c. the (text_value (kx_name c))) ?nc"
    using newcomer_names(1)[of "?nc" "seq ?t"] by simp
  have ids: "map cl_id (map (adjusted cs) (rows ?t) @ ?new) = map cl_id (rows ?t) @ map (\<lambda>n. seq ?t + int n) [0..<length ?nc]"
    using newcomer_names(2)[of "?nc" "seq ?t"] by simp
  have "inj_on kx_name (set ?nc)" "distinct ?nc"
    using assms(2) by (auto simp: newcomers_def distinct_map intro: inj_on_subset)
  then have "distinct (map (\<lambda>c. the (text_value (kx_name c))) ?nc)"
    using nc text_value_inj by (auto simp: distinct_map inj_on_def) metis
  moreover have "set (map cl_name (rows ?t)) \<inter> set (map (\<lambda>c. the (text_value (kx_name c))) ?nc) = {}"
    using nc text_value_inj by fastforce
  ultimately have dn: "unique_on cl_name (cluster_connections d')"
    using assms(1) unfolding d' unique_on_def by (simp add: names registry_ok_def unique_on_def del: map_append map_map)
  have di: "unique_on cl_id (cluster_connections d')"
  proof -
    have "distinct (map cl_id (rows ?t))" "\<forall>i \<in> set (map cl_id (rows ?t)). i < seq ?t"
      using assms(1) by (simp_all add: registry_ok_def unique_on_def)
    moreover have "distinct (map (\<lambda>n. seq ?t + int n) [0..<length ?nc])" by (simp add: distinct_map inj_on_def)
    ultimately show ?thesis unfolding d' unique_on_def by (fastforce simp: ids simp del: map_append map_map)
  qed
  have "cl_id r < seq (cluster_connections d')" if "r \<in> set (rows (cluster_connections d'))" for r
  proof -
    have "cl_id r \<in> set (map cl_id (rows (cluster_connections d')))" using that by simp
    then show ?thesis using assms(1) unfolding d' by (auto simp: ids registry_ok_def simp del: map_append map_map)
  qed
  with dn di have ok: "registry_ok d'" by (simp add: registry_ok_def)
  have "\<exists>r \<in> set (rows (cluster_connections d')). JStr (cl_name r) = kx_name c \<and> JStr (cl_endpoint r) = kx_endpoint c
        \<and> cl_kubeconfig_secret_ref r = kx_path c" if c: "c \<in> set cs" for c
  proof -
    have w: "writable c" using c assms(3) by (simp add: list_all_iff)
    then have e: "JStr (the (text_value (kx_endpoint c))) = kx_endpoint c" by (cases "kx_endpoint c") (auto simp: writable_def)
    show ?thesis
    proof (cases "cluster_named d (kx_name c)")
      case None
      then have "c \<in> set ?nc" using c by (simp add: newcomers_def)
      then obtain n where n: "n < length ?nc" "?nc ! n = c" by (auto simp: in_set_conv_nth)
      then have "discovered_row c (seq ?t + int n) \<in> set ?new" by (auto simp: set_zip intro!: image_eqI exI[of _ n])
      then have "discovered_row c (seq ?t + int n) \<in> set (rows (cluster_connections d'))" unfolding d' by simp
      moreover have "cl_name (discovered_row c i) = the (text_value (kx_name c))" "cl_endpoint (discovered_row c i) = the (text_value (kx_endpoint c))"
        "cl_kubeconfig_secret_ref (discovered_row c i) = kx_path c" for i by (simp_all add: discovered_row_def refreshed_def blank_cluster_def)
      ultimately show ?thesis using text_value_inj[OF w] e by metis
    next
      case (Some r)
      note r = cluster_named_Some[OF Some]
      have "List.find (\<lambda>x. kx_name x = kx_name c) cs = Some c" by (rule find_unique_key[OF assms(2) c])
      then have "adjusted cs r = refreshed c r" using r by (simp add: adjusted_def)
      moreover have "adjusted cs r \<in> set (rows (cluster_connections d'))" using r unfolding d' by simp
      ultimately show ?thesis using r e by (intro bexI[of _ "refreshed c r"]) (auto simp: refreshed_def)
    qed
  qed
  moreover have "map (adjusted cs) (rows ?t) = take (length (rows ?t)) (rows (cluster_connections d'))" unfolding d' by simp
  moreover have "d' = d\<lparr>cluster_connections := cluster_connections d'\<rparr>" unfolding d' by simp
  ultimately show ?thesis unfolding d'_def[symmetric] taken_over_def using ok by blast
qed

text \<open>
  C12: A discovery takes the contexts over: afterwards every context of the kubeconfig files has a cluster of
  its name with its endpoint and file, a cluster that no context names is as it was, one that is named keeps its id and
  every other column, names and ids stay unique, no other table changes, and the result is committed. Looking
  again at the same files changes nothing.
\<close>

theorem discovery_takes_the_contexts_over:
  assumes "collect_all_contexts h = Inr cs" and "list_all writable cs" and "registry_ok d"
  shows "\<exists>d'. discover_clusters h (open_session d) = (Inr (), open_session d') \<and> taken_over cs d d'
           \<and> discover_clusters h (open_session d') = (Inr (), open_session d')"
proof -
  let ?d = "fold (discover_one d) cs d"
  note over = fold_taken_over[OF assms(3) collected_distinct[OF assms(1)] assms(2)]
  have "\<not> changes_rows ?d c" if c: "c \<in> set cs" for c
  proof -
    obtain r where r: "r \<in> set (rows (cluster_connections ?d))" "JStr (cl_name r) = kx_name c" "JStr (cl_endpoint r) = kx_endpoint c"
      "cl_kubeconfig_secret_ref r = kx_path c" using over c unfolding taken_over_def by blast
    have "cluster_named ?d (kx_name c) = Some r"
    proof (cases "cluster_named ?d (kx_name c)")
      case None
      with r show ?thesis by (simp add: cluster_named_None)
    next
      case (Some x)
      note x = cluster_named_Some[OF Some]
      have "inj_on cl_name (set (rows (cluster_connections ?d)))"
        using over by (simp add: taken_over_def registry_ok_def unique_on_def distinct_map)
      moreover have "JStr (cl_name x) = JStr (cl_name r)" using x r(2) by simp
      ultimately have "x = r" using x r(1) by (auto dest: inj_onD)
      with Some show ?thesis by simp
    qed
    with r show ?thesis by (simp add: changes_rows_def stale_def)
  qed
  then have "fold (discover_one ?d) cs ?d = ?d" by (intro discover_quiet) blast
  with over discover_runs[OF assms(1,2)] show ?thesis by (intro exI[of _ ?d]) simp
qed

definition demo_kubeconfig :: json where
  "demo_kubeconfig =
     JObj [(''clusters'', JArr [JObj [(''name'', JStr ''c1''), (''cluster'', JObj [(''server'', JStr ''https://10.0.0.1'')])],
                              JObj [(''name'', JStr ''c2''), (''cluster'', JObj [(''server'', JStr ''https://10.0.0.2'')])]]),
           (''contexts'', JArr [JObj [(''name'', JStr ''aks''), (''context'', JObj [(''cluster'', JStr ''c1'')])],
                              JObj [(''name'', JStr ''edge''), (''context'', JObj [(''cluster'', JStr ''c2'')])],
                              JObj [(''name'', JStr ''lost''), (''context'', JObj [(''cluster'', JStr ''c3'')])]])]"

definition demo_host :: host_files where
  "demo_host =
     \<lparr>KUBECONFIG_PATH = '''', default_kubeconfig = ''/home/me/.kube/config'', path_exists = (\<lambda>_. True), KUBECONFIG_DIR = '''',
      is_directory = (\<lambda>_. False), dir_entries = (\<lambda>_. []), read_yaml = (\<lambda>_. Some demo_kubeconfig)\<rparr>"

theorem discovery_takes_the_contexts_over_witness:
  "\<exists>d'. discover_clusters demo_host (open_session demo_scale_db) = (Inr (), open_session d')
      \<and> map cl_name (rows (cluster_connections d')) = [''aks'', ''edge'']
      \<and> map cl_endpoint (rows (cluster_connections d')) = [''https://10.0.0.1'', ''https://10.0.0.2'']
      \<and> discover_clusters demo_host (open_session d') = (Inr (), open_session d')"
proof -
  let ?cs = "[\<lparr>kx_name = JStr ''aks'', kx_endpoint = JStr ''https://10.0.0.1'', kx_path = ''/home/me/.kube/config''\<rparr>,
              \<lparr>kx_name = JStr ''edge'', kx_endpoint = JStr ''https://10.0.0.2'', kx_path = ''/home/me/.kube/config''\<rparr>]"
  have cs: "collect_all_contexts demo_host = Inr ?cs" by code_simp
  have w: "list_all writable ?cs" by code_simp
  have ok: "registry_ok demo_scale_db" by code_simp
  obtain d' where d': "discover_clusters demo_host (open_session demo_scale_db) = (Inr (), open_session d')"
    "discover_clusters demo_host (open_session d') = (Inr (), open_session d')"
    using discovery_takes_the_contexts_over[OF cs w ok] by blast
  have "map cl_name (rows (cluster_connections (db (snd (discover_clusters demo_host (open_session demo_scale_db)))))) = [''aks'', ''edge'']"
    "map cl_endpoint (rows (cluster_connections (db (snd (discover_clusters demo_host (open_session demo_scale_db))))))
       = [''https://10.0.0.1'', ''https://10.0.0.2'']"
    by code_simp+
  with d' show ?thesis by (simp add: open_session_def)
qed

section \<open>The webhooks\<close>

text \<open>\<open>hmac.compare_digest\<close> of two texts: a \<open>TypeError\<close> outside ASCII.\<close>

definition compare_digest :: "string \<Rightarrow> string \<Rightarrow> exc + bool" where
  "compare_digest a b = (if \<exists>c \<in> set (a @ b). (of_char c :: nat) \<ge> 128 then Inl TypeError else Inr (a = b))"

record webhook_env =
  GITLAB_WEBHOOK_SECRET :: "string option"
  ARGOCD_WEBHOOK_SECRET :: "string option"
  hmac_sha256_hex :: "string \<Rightarrow> string \<Rightarrow> string"
  parse_body :: "string \<Rightarrow> exc + json"

definition digest_or_401 :: "string \<Rightarrow> string \<Rightarrow> exc + unit" where
  "digest_or_401 a b = bnd_result (compare_digest a b) (\<lambda>same. if same then Inr () else Inl (HTTPException 401))"

definition validate_gitlab_signature :: "webhook_env \<Rightarrow> string \<Rightarrow> string option \<Rightarrow> string option \<Rightarrow> exc + unit" where
  "validate_gitlab_signature e body signature token =
     (if \<not> truthy_str (GITLAB_WEBHOOK_SECRET e) then Inr ()
      else
        let secret = the (GITLAB_WEBHOOK_SECRET e) in
        if truthy_str signature then digest_or_401 (''sha256='' @ hmac_sha256_hex e secret body) (the signature)
        else if truthy_str token then digest_or_401 (the token) secret
        else Inl (HTTPException 401))"

datatype webhook_answer = Ignored string | Synced "string list" | No_clusters

definition MAIN_BRANCHES :: "string list" where
  "MAIN_BRANCHES = [''refs/heads/main'', ''refs/heads/master'']"

text \<open>\<open>None\<close>: a push to the main branch.\<close>

definition ignored_reason :: "json \<Rightarrow> exc + string option" where
  "ignored_reason payload =
     bnd_result (jget ''object_kind'' payload) (\<lambda>kind.
     if kind \<noteq> JStr ''push'' then Inr (Some ''not a push event'')
     else
       bnd_result (jget ''ref'' payload) (\<lambda>r.
         if \<not> hashable r then Inl TypeError
         else Inr (if r \<notin> JStr ` set MAIN_BRANCHES then Some ''non-default branch'' else None)))"

definition argo_clusters :: "database \<Rightarrow> cluster_connection list" where
  "argo_clusters d = select_rows (\<lambda>c. cl_argocd_url c \<noteq> None) (cluster_connections d)"

definition apps_on :: "database \<Rightarrow> cluster_connection \<Rightarrow> application list" where
  "apps_on d c = select_rows (\<lambda>a. app_target_cluster_id a = Some (cl_id c)) (applications d)"

definition push_targets :: "database \<Rightarrow> (cluster_connection \<times> application) list" where
  "push_targets d = concat (map (\<lambda>c. map (Pair c) (apps_on d c)) (argo_clusters d))"

definition sync_one_app :: "('g, 'a) scale_env \<Rightarrow> cluster_connection \<times> application \<Rightarrow> ('a, bool) prog" where
  "sync_one_app e target =
     try_except
       (bnd (lift_result (get_argocd_client_for_cluster (se_argocd_token e) (fst target))) (\<lambda>(url, token).
        bnd (se_argocd_sync e url token (app_slug (snd target))) (\<lambda>_. ret True)))
       (\<lambda>_. ret False)"

definition gitops_webhook ::
  "('g, 'a) scale_env \<Rightarrow> webhook_env \<Rightarrow> database \<Rightarrow> string \<Rightarrow> string option \<Rightarrow> string option \<Rightarrow> ('a, webhook_answer) prog" where
  "gitops_webhook e we d body signature token =
     bnd (lift_result (validate_gitlab_signature we body signature token)) (\<lambda>_.
     bnd (lift_result (parse_body we body)) (\<lambda>payload.
     bnd (lift_result (ignored_reason payload)) (\<lambda>reason.
       case reason of
         Some why \<Rightarrow> ret (Ignored why)
       | None \<Rightarrow>
           if argo_clusters d = [] then ret No_clusters
           else
             bnd (map_prog (sync_one_app e) (push_targets d)) (\<lambda>oks.
               ret (Synced (map (\<lambda>t. app_slug (snd (fst t))) (filter snd (zip (push_targets d) oks))))))))"

definition argocd_sync_webhook :: "webhook_env \<Rightarrow> string \<Rightarrow> string option \<Rightarrow> exc + unit" where
  "argocd_sync_webhook e body token =
     bnd_result
       (if truthy_str (ARGOCD_WEBHOOK_SECRET e) then
          (if \<not> truthy_str token then Inl (HTTPException 401) else digest_or_401 (the token) (the (ARGOCD_WEBHOOK_SECRET e)))
        else Inr ()) (\<lambda>_ :: unit.
     bnd_result (parse_body e body) (\<lambda>payload.
     bnd_result (jget_default ''app'' (JObj []) payload) (\<lambda>a.
     bnd_result (bnd_result (jget_default ''metadata'' (JObj []) a) (jget_default ''name'' (JStr ''<unknown>''))) (\<lambda>_. Inr ()))))"

lemma digest_accepts: "digest_or_401 a b = Inr u \<Longrightarrow> a = b"
  by (auto simp: digest_or_401_def compare_digest_def bnd_result_def split: if_splits)

text \<open>With a secret configured, nothing is synchronised for a request that does not prove it.\<close>

lemma push_needs_the_secret:
  assumes "truthy_str (GITLAB_WEBHOOK_SECRET we)" and "a' \<noteq> a \<or> (\<exists>ans. r = Inr ans)"
    and "gitops_webhook e we d body signature token a = (r, a')"
  shows "signature = Some (''sha256='' @ hmac_sha256_hex we (the (GITLAB_WEBHOOK_SECRET we)) body)
       \<or> token = GITLAB_WEBHOOK_SECRET we"
proof -
  have "\<exists>u. validate_gitlab_signature we body signature token = Inr u"
    using assms(2,3) by (cases "validate_gitlab_signature we body signature token") (auto simp: gitops_webhook_def prog_simps)
  then show ?thesis using assms(1)
    by (auto simp: validate_gitlab_signature_def Let_def truthy_str_def split: if_splits dest!: digest_accepts)
qed

section \<open>The pages of a group\<close>

definition GROUP_BOTS :: "string list" where
  "GROUP_BOTS = [''4k-service-bot'']"

definition group_members_page :: "int \<Rightarrow> database \<Rightarrow> member_read list" where
  "group_members_page gid d =
     map (\<lambda>m. \<lparr>mr_cnp_user_id = gm_cnp_user_id m,
               mr_display_name = (case email_of (gm_cnp_user_id m) d of Some e \<Rightarrow> Some e | None \<Rightarrow> gm_username m),
               mr_access_level = gm_access_level m, mr_tier_cnp = access_level_to_tier (gm_access_level m), mr_status = gm_status m\<rparr>)
       (select_rows (\<lambda>m. gm_group_id m = gid \<and> gm_status m = ACTIVE
          \<and> (case gm_username m of None \<Rightarrow> True | Some n \<Rightarrow> n \<notin> set GROUP_BOTS)) (group_members d))"

text \<open>
  \<open>payload ->> 'group_id'\<close>: the text of a scalar; the text of a container is never the decimal form of an id.
\<close>

fun scalar_text :: "json \<Rightarrow> string option" where
  "scalar_text (JStr s) = Some s"
| "scalar_text (JNum n) = Some (string_of_int n)"
| "scalar_text (JBool b) = Some (if b then ''true'' else ''false'')"
| "scalar_text _ = None"

definition concerns_group :: "int \<Rightarrow> int list \<Rightarrow> event \<Rightarrow> bool" where
  "concerns_group gid app_ids ev \<longleftrightarrow>
     (case ev_app_id ev of None \<Rightarrow> False | Some i \<Rightarrow> i \<in> set app_ids)
     \<or> (case map_of (ev_payload ev) ''group_id'' of None \<Rightarrow> False | Some v \<Rightarrow> scalar_text v = Some (string_of_int gid))"

definition get_group_activity :: "int \<Rightarrow> int \<Rightarrow> database \<Rightarrow> exc + event list" where
  "get_group_activity gid limit d =
     (if limit > 20 then Inl (HTTPException 422)
      else if limit < 0 then Inl (RuntimeError ''LIMIT must not be negative'')
      else
        let app_ids = map app_id (select_rows (\<lambda>a. app_owning_gitlab_group_id a = Some gid) (applications d)) in
        Inr (take (nat limit) (sort_key (\<lambda>ev. - ev_created_at ev) (select_rows (concerns_group gid app_ids) (events d)))))"

record grafana_settings =
  GRAFANA_URL :: "string option"
  GRAFANA_DASHBOARD_UID :: "string option"
  GRAFANA_EMBED_TOKEN :: "string option"

definition grafana_page :: "grafana_settings \<Rightarrow> string \<Rightarrow> int \<Rightarrow> string" where
  "grafana_page g kind gid =
     rstrip (\<lambda>c. c = CHR ''/'') (the (GRAFANA_URL g)) @ ''/'' @ kind @ ''/'' @ the (GRAFANA_DASHBOARD_UID g)
     @ ''?orgId=1&auth_token='' @ the (GRAFANA_EMBED_TOKEN g) @ ''&var-group_id='' @ string_of_int gid"

definition get_group_grafana_url :: "grafana_settings \<Rightarrow> int \<Rightarrow> database \<Rightarrow> string option \<times> string option" where
  "get_group_grafana_url g gid d =
     (if \<not> truthy_str (GRAFANA_URL g) \<or> \<not> truthy_str (GRAFANA_DASHBOARD_UID g) \<or> \<not> truthy_str (GRAFANA_EMBED_TOKEN g)
         \<or> select_rows (\<lambda>a. app_owning_gitlab_group_id a = Some gid) (applications d) = []
      then (None, None)
      else (Some (grafana_page g ''d'' gid), Some (grafana_page g ''d-solo'' gid)))"

end
