(* ===== verification/Spec2Isabelle.thy ===== *)
theory Spec2Isabelle
  imports Env_Vars Notifications Scale Health Gitlab_Sync Keycloak_Outcome Clusters App_Outcome Assistant_Limits
    Deploy_Safety Runtime_Status Credentials Ai_Governance Discovery
begin

text \<open>
  CNP is a platform on which teams deploy applications: a FastAPI backend (backend/), data types that it
  shares with a command line client (shared/models.py), and a tool that deploys Keycloak instances
  (infra/keycloak/lib). The backend keeps users, mirrored GitLab memberships, applications and clusters in
  PostgreSQL and secrets in Vault; it acts through GitLab (repositories, the gitops repository), ArgoCD,
  Kubernetes, Keycloak and a language model. This library models the logic of the backend and of the
  deployment tool, function by function, and proves what makes it correct.

  \<^bold>\<open>How the code is modelled.\<close> A coroutine is a state-and-exception program of Prelude:
  \<open>('s, 'a) prog\<close> takes the state, and returns an exception or a value together with the state it leaves.
  \<open>bnd\<close> sequences, \<open>try\<close>, \<open>catch\<close> and \<open>best_effort\<close> are the handlers of the code, \<open>for_each\<close> and
  \<open>map_prog\<close> its loops. HTTPException carries its status; messages are left out. The state of most
  programs is a \<open>session\<close> (Database): \<open>db\<close>, the tables as the running transaction sees them, and
  \<open>saved\<close>, the tables as committed; \<open>commit\<close> copies the first to the second, and the commits that can break
  a unique or null constraint check it and fail. A table is a list of records with a counter of ids; each
  record has the columns of backend/db/models.py. Worlds pair the session with Vault, GitLab, ArgoCD, Keycloak
  or the language model where an operation touches several: \<open>services\<close>, which \<open>identity_world\<close>
  and \<open>ai_world\<close> extend, \<open>scale_world\<close>, \<open>app_world\<close>, \<open>health_world\<close>.

  Strings are HOL strings, so code points below 256; Python's integers are \<open>int\<close>; JSON and YAML values
  are the datatype \<open>json\<close>, whose booleans are not numbers. Instants are seconds, amounts of money units of
  1e-8 USD (prices per million tokens in thousandths of USD); the floats of the BM25 scores are reals, those read from the
  headers of a response rationals. Sentences in French that the assistant and the alerts write are the
  parameter \<open>wording\<close>.

  \<^bold>\<open>What is a parameter.\<close> Everything outside the repository is an argument of the definitions that
  use it: python-gitlab, hvac, the Kubernetes and ArgoCD servers, httpx and what answers it, PyYAML, JWT,
  Fernet and the hashes, the clock and the random generator, the file system. Such a parameter may answer
  anything and fail at any call, unless a theorem names an assumption. The assumptions are locales:
  \<open>hvac_kv2\<close> (a KV store reads what was written; it gives the \<open>secret_store\<close> that environment variables use, and
  \<open>cluster_vault\<close> extends it), \<open>git_hosting\<close> and \<open>yaml_text\<close> (a commit creates or updates the
  files it names; a dumped value loads again), joined in \<open>gitops\<close> and extended by \<open>git_files\<close>,
  \<open>branched_repo\<close> (commits stay on their branch), and \<open>sealing\<close> (what is encrypted decrypts). Other
  interfaces are met by the code itself: \<open>keyed_table\<close> (the upserts of preferences and scale states),
  \<open>access_gate\<close> (the tier dependencies of the routes), \<open>audit_blind\<close> and \<open>usage_blind\<close> (parts of the
  database that questions to the assistant leave alone). Each is interpreted on the model's definitions, or
  where the provider is a library on a concrete store that the witnesses run on.
\<close>

section \<open>Parts\<close>

text \<open>
  \<^bold>\<open>Foundations.\<close> Prelude (programs, tables, their proof rules), Py_Strings (\<open>str\<close> methods, \<open>int\<close>),
  Urls (\<open>urlsplit\<close>), Regex (the fragment of \<open>re\<close> in use), Json_Text (a concrete text of JSON for
  examples), Shared_Models (shared/models.py, backend/k8s/manifests.py: slugs and labels), Database
  (backend/db/models.py).

  \<^bold>\<open>Access.\<close> Tiers (services/tier_service.py, api/deps.py): the tier of a user on an application is
  the best that active memberships of its project or group grant; who is authenticated. Accounts
  (services/auth_service.py, core/security.py, routes auth, users, admin): sessions, API keys, the GitLab
  sign-on, the registration of groups. Gitlab_Sync (services/gitlab_sync_service.py): memberships mirror
  GitLab, with soft revocation. Credentials (core/crypto.py, services/credential_service.py,
  services/resource_service.py): the stored credentials refine a map.

  \<^bold>\<open>Secrets and clusters.\<close> Vault (vault/client.py), Env_Vars (services/env_var_service.py and its
  routes): the keys that the platform manages are never overwritten, values of production are never
  shown. Clusters (services/cluster_service.py): registered clusters, their kubeconfigs and what an upload
  may contain. Discovery (k8s/discovery.py, routes webhooks and groups).

  \<^bold>\<open>Alerts.\<close> Alerting (alerting/), Notifications (services/notification_service.py): who is
  notified; a notification only moves from new to read to acknowledged. Health (k8s/health_worker.py): the
  grace period of a cluster is refined by a count over its history of probes, and an outage gives the
  applications their status back.

  \<^bold>\<open>Deployment.\<close> Gitops (gitlab/client.py, ci/detector.py): commits in the gitops repository.
  Scale (services/scale_service.py, scale_worker.py): stop and resume, by hand or by schedule.
  Runtime_Status (k8s/client.py, argocd/client.py, routes of apps.py): status, history, rollback.
  Ci_Injection (ci/) and Scaffolding (services/scaffolding_service.py, gitlab/importer.py): what is
  proposed to a repository. App_Service and App_Outcome (services/app_service.py): the life of an
  application and what each operation leaves behind.

  \<^bold>\<open>Keycloak.\<close> Keycloak_Client (keycloak/client.py) over an arbitrary transport, with a trace of
  the exchanges; Keycloak_Instances (services/keycloak_instance_service.py), Keycloak
  (services/keycloak_service.py), Keycloak_Guard (what may be sent, and when) and Keycloak_Outcome (what is
  left in the database and in Vault).

  \<^bold>\<open>Assistant.\<close> Lexical (ai/lexical.py), Redaction (ai/redaction.py), Knowledge
  (services/platform_knowledge_service.py), Providers (ai/provider.py, ai/factory.py), Ai_Settings
  (services/ai_settings_service.py, ai_limits_service.py, ai/pricing.py), Ai_Governance (the type of its
  settings), Assistant_Tools and Tools_Security (services/assistant_tools.py), Assistant
  (services/assistant_service.py), Assistant_Frame and Assistant_Limits (consumption stays within the
  limits), Security_Scans and Scan_Lifecycle (services/security_scan_service.py: the requests simulate an
  abstract board of scans).

  \<^bold>\<open>Deployment tool.\<close> Deploy_Target (lib/config.py and the rendering of lib/gateway.py), Deploy (lib/deploy.py,
  gateway.py, commands.py, http_api.py, keycloak_api.py, vault_api.py), Deploy_Safety: over the journal of
  commands and requests, nothing is changed before the issuer is settled, nothing that exists is
  overwritten, the instance is activated last.
\<close>

section \<open>How the proofs are organised\<close>

text \<open>
  Programs have four kinds of rules, each a collection that \<open>simp\<close> and \<open>intro\<close> use: equations that run
  a program on a state (\<open>prog_simps\<close>), rules that a part of the state is kept (\<open>keeps_intros\<close>), rules
  that a journal is only appended to, and with what (\<open>appends_intros\<close>, \<open>guards_intros\<close>, \<open>tame_intros\<close>), and rules of tables (\<open>table_simps\<close>). Most operations have one lemma with their outcomes;
  a property then follows by induction over requests or by the cases of the lemma. Properties about any
  sequence of requests state it as a fold or as an inductive relation of steps
  (Scan_Lifecycle, Notifications, Env_Vars, Keycloak_Instances, Assistant_Limits, Credentials, Ai_Governance).

  \<^bold>\<open>Bounds.\<close> Nothing in the model runs out of fuel that the code does not have: the loops that poll are
  bounded in the code, the wait for an import by 31 looks and 30 pauses, the wait for ArgoCD in the
  deployment tool by its deadline, \<open>SYNC_LOOKS\<close> = 121 looks with pauses of five seconds in ten minutes, a
  completion by its retries and a question by its rounds of tools. The backtracking matcher of Regex and the decoder of Json_Text recur on measures
  that decrease.

  \<^bold>\<open>Operations follow each other.\<close> A request is atomic in the model. Where the code checks and
  acts in separate steps (the limits of the assistant, the upsert of credentials), concurrent requests can pass the
  same check, and the theorems say nothing about them. A transaction that the code does not commit leaves
  its changes in \<open>db\<close> and not in \<open>saved\<close>.
\<close>

section \<open>What is not modelled\<close>

text \<open>
  The monitoring queries (services/monitoring_service.py, routes monitoring and finops: PromQL and LogQL
  texts sent to servers and numbers read from their answers), the command line client (cli/: prompts and
  printing around the HTTP interface), start-up, configuration and migrations, the scripts that fill a
  demonstration database, the charts, templates and the front end. Of the modelled services, lists and
  pages that change no state are left out where they only format rows, as are commit messages, log lines and
  the texts of errors. What PostgreSQL does beyond the constraints named in Database, its isolation above all,
  is not modelled; neither is the reading of a database secret in the deployment tool beyond the command
  that reads it. The status of each part is listed with the manifest of the properties.
\<close>

end
